(* ===== verification/Prelude.thy ===== *)
theory Prelude
  imports Complex_Main "HOL-Library.Word"
begin

text \<open>
  Shared vocabulary of the development: JavaScript strings and their methods, numbers printed in a
  radix, errors as values, and the generic lemmas the components use.

  A JavaScript string is modelled by a \<^typ>\<open>string\<close>, one \<^typ>\<open>char\<close> per code unit. The model
  therefore covers strings over the code units 0 to 255 (Latin-1); this is also the domain of
  \<open>btoa\<close>. The few literals of the sources that use a code unit outside that range (an ellipsis, a
  bullet) are named constants below.
\<close>

unbundle bit_operations_syntax

named_theorems js_defs \<open>definitions of the JavaScript string methods\<close>
named_theorems keep \<open>frame and invariant preservation facts of the operations\<close>

type_synonym byte = "8 word"
type_synonym u32 = "32 word"

section \<open>Errors as values\<close>

text \<open>
  \<open>throw new Error(msg)\<close>; the API clients add a numeric \<open>status\<close> property to the error object.
\<close>

datatype js_error = JsError (err_message: string) (err_status: "nat option")

abbreviation throw_msg :: "string \<Rightarrow> js_error + 'a" where
  "throw_msg m \<equiv> Inl (JsError m None)"

text \<open>Sequencing of computations that may throw.\<close>

definition bind_err :: "'e + 'a \<Rightarrow> ('a \<Rightarrow> 'e + 'b) \<Rightarrow> 'e + 'b" where
  "bind_err m f = (case m of Inl e \<Rightarrow> Inl e | Inr a \<Rightarrow> f a)"

lemma bind_err_simps [simp]:
  "bind_err (Inl e) f = Inl e"
  "bind_err (Inr a) f = f a"
  by (simp_all add: bind_err_def)

lemma bind_err_Inr_iff: "bind_err m f = Inr b \<longleftrightarrow> (\<exists>a. m = Inr a \<and> f a = Inr b)"
  by (cases m) auto

lemma bind_err_cong [fundef_cong]:
  "m = m' \<Longrightarrow> (\<And>a. m' = Inr a \<Longrightarrow> f a = f' a) \<Longrightarrow> bind_err m f = bind_err m' f'"
  by (cases m') auto

definition is_ok :: "'e + 'a \<Rightarrow> bool" where
  "is_ok r \<longleftrightarrow> (case r of Inl _ \<Rightarrow> False | Inr _ \<Rightarrow> True)"

lemma is_ok_simps [simp]: "is_ok (Inr a)" "\<not> is_ok (Inl e)"
  by (simp_all add: is_ok_def)

section \<open>Characters and strings\<close>

abbreviation code :: "char \<Rightarrow> nat" where
  "code c \<equiv> of_char c"

text \<open>White space as matched by \<open>\s\<close> and removed by \<open>trim\<close>: tab, line feed, vertical tab, form
  feed, carriage return, space and the no-break space.\<close>

definition is_ws :: "char \<Rightarrow> bool" where
  "is_ws c \<longleftrightarrow> code c \<in> {9, 10, 11, 12, 13, 32, 160}"

definition is_line_end :: "char \<Rightarrow> bool" where
  "is_line_end c \<longleftrightarrow> code c \<in> {10, 13}"

definition is_digit :: "char \<Rightarrow> bool" where
  "is_digit c \<longleftrightarrow> 48 \<le> code c \<and> code c \<le> 57"

definition is_lower_ascii :: "char \<Rightarrow> bool" where
  "is_lower_ascii c \<longleftrightarrow> 97 \<le> code c \<and> code c \<le> 122"

definition is_upper_ascii :: "char \<Rightarrow> bool" where
  "is_upper_ascii c \<longleftrightarrow> 65 \<le> code c \<and> code c \<le> 90"

definition lower_char :: "char \<Rightarrow> char" where
  "lower_char c =
     (if is_upper_ascii c \<or> (192 \<le> code c \<and> code c \<le> 222 \<and> code c \<noteq> 215)
      then char_of (code c + 32) else c)"

text \<open>\<open>toUpperCase\<close> of the sharp s is two letters; the upper case forms of the micro sign and of y
  with diaeresis lie outside the code units of the model, which leaves these two unchanged.\<close>

definition upper_char :: "char \<Rightarrow> string" where
  "upper_char c =
     (if is_lower_ascii c \<or> (224 \<le> code c \<and> code c \<le> 254 \<and> code c \<noteq> 247)
      then [char_of (code c - 32)]
      else if code c = 223 then ''SS'' else [c])"

definition toLowerCase :: "string \<Rightarrow> string" where
  "toLowerCase s = map lower_char s"

definition toUpperCase :: "string \<Rightarrow> string" where
  "toUpperCase s = concat (map upper_char s)"

definition trim :: "string \<Rightarrow> string" where
  "trim s = rev (dropWhile is_ws (rev (dropWhile is_ws s)))"

definition startsWith :: "string \<Rightarrow> string \<Rightarrow> bool" where
  "startsWith s p \<longleftrightarrow> take (length p) s = p"

definition endsWith :: "string \<Rightarrow> string \<Rightarrow> bool" where
  "endsWith s p \<longleftrightarrow> startsWith (rev s) (rev p)"

fun str_includes :: "string \<Rightarrow> string \<Rightarrow> bool" where
  "str_includes [] p = (p = [])"
| "str_includes (c # s) p = (startsWith (c # s) p \<or> str_includes s p)"

text \<open>\<open>s.slice(i, j)\<close> for non-negative indices.\<close>

definition slice :: "nat \<Rightarrow> nat \<Rightarrow> 'a list \<Rightarrow> 'a list" where
  "slice i j s = take (j - i) (drop i s)"

text \<open>\<open>s.split(c)\<close> for a one-character separator.\<close>

fun split_char :: "char \<Rightarrow> string \<Rightarrow> string list" where
  "split_char d [] = [[]]"
| "split_char d (c # s) =
     (if c = d then [] # split_char d s
      else case split_char d s of [] \<Rightarrow> [[c]] | w # ws \<Rightarrow> (c # w) # ws)"

text \<open>\<open>s.split(/\s+/)\<close>: maximal runs of white space separate the fields, and a leading or trailing
  run yields an empty field.\<close>

fun split_ws :: "string \<Rightarrow> string list" where
  "split_ws [] = [[]]"
| "split_ws (c # s) =
     (if is_ws c then (if s \<noteq> [] \<and> is_ws (hd s) then split_ws s else [] # split_ws s)
      else case split_ws s of [] \<Rightarrow> [[c]] | w # ws \<Rightarrow> (c # w) # ws)"

fun join :: "string \<Rightarrow> string list \<Rightarrow> string" where
  "join d [] = []"
| "join d [w] = w"
| "join d (w # ws) = w @ d @ join d ws"

definition padStart :: "nat \<Rightarrow> char \<Rightarrow> string \<Rightarrow> string" where
  "padStart n c s = replicate (n - length s) c @ s"

text \<open>Literals with a code unit outside the model's range.\<close>

definition ellipsis :: string where
  "ellipsis = [char_of (133::nat)]"

definition bullet :: string where
  "bullet = [char_of (149::nat)]"

definition em_dash :: string where
  "em_dash = [char_of (151::nat)]"

definition en_dash :: string where
  "en_dash = [char_of (150::nat)]"

definition newline :: string where
  "newline = [char_of (10::nat)]"

definition crlf :: string where
  "crlf = [char_of (13::nat), char_of (10::nat)]"

text \<open>\<open>a || b\<close> on strings.\<close>

definition or_else :: "string \<Rightarrow> string \<Rightarrow> string" where
  "or_else a b = (if a = [] then b else a)"

section \<open>Numbers in a radix\<close>

definition digit_char :: "nat \<Rightarrow> char" where
  "digit_char d = (if d < 10 then char_of (48 + d) else char_of (87 + d))"

text \<open>\<open>n.toString(r)\<close> for a non-negative integer.\<close>

function toStringRadix :: "nat \<Rightarrow> nat \<Rightarrow> string" where
  "toStringRadix r n =
     (if n < r \<or> r < 2 then [digit_char n]
      else toStringRadix r (n div r) @ [digit_char (n mod r)])"
  by pat_completeness auto
termination
  by (relation "measure snd") auto

declare toStringRadix.simps [simp del]

abbreviation num_string :: "nat \<Rightarrow> string" where
  "num_string n \<equiv> toStringRadix 10 n"

section \<open>Lemmas\<close>

subsection \<open>Case mapping\<close>

lemma code_char_of [simp]: "code (char_of n) = n mod 256"
  by simp

lemma char_eqI: "code c = code d \<Longrightarrow> c = d"
  by (metis char_of_char)

lemma char_eq_code_iff: "c = d \<longleftrightarrow> code c = code d"
  by (metis char_of_char)

lemma code_lower_char:
  "code (lower_char c) =
     (if is_upper_ascii c \<or> (192 \<le> code c \<and> code c \<le> 222 \<and> code c \<noteq> 215)
      then code c + 32 else code c)"
  by (simp add: lower_char_def is_upper_ascii_def)

lemma lower_char_idem [simp]: "lower_char (lower_char c) = lower_char c"
  unfolding char_eq_code_iff code_lower_char [of "lower_char c"]
  by (auto simp: code_lower_char is_upper_ascii_def)

lemma toLowerCase_idem [simp]: "toLowerCase (toLowerCase s) = toLowerCase s"
  by (simp add: toLowerCase_def)

lemma length_toLowerCase [simp]: "length (toLowerCase s) = length s"
  by (simp add: toLowerCase_def)

lemma toLowerCase_append: "toLowerCase (s @ t) = toLowerCase s @ toLowerCase t"
  by (simp add: toLowerCase_def)

lemma is_ws_lower_char [simp]: "is_ws (lower_char c) = is_ws c"
  by (auto simp: is_ws_def code_lower_char is_upper_ascii_def)

subsection \<open>Trimming\<close>

lemma dropWhile_no_match: "\<forall>c \<in> set s. \<not> P c \<Longrightarrow> dropWhile P s = s"
  by (cases s) auto

lemma trim_no_ws: "list_all (\<lambda>c. \<not> is_ws c) s \<Longrightarrow> trim s = s"
  by (simp add: trim_def list_all_iff dropWhile_no_match)

lemma trim_Nil [simp]: "trim [] = []"
  by (simp add: trim_def)

lemma length_trim: "length (trim s) \<le> length s"
  unfolding trim_def
  by (metis length_dropWhile_le length_rev order_trans)

lemma set_trim: "set (trim s) \<subseteq> set s"
  by (auto simp: trim_def dest!: set_dropWhileD)

lemma dropWhile_rev_hd:
  assumes "dropWhile P s = s"
  shows "dropWhile P (rev (dropWhile P (rev s))) = rev (dropWhile P (rev s))"
proof (cases "rev (dropWhile P (rev s))")
  case Nil
  show ?thesis unfolding Nil by simp
next
  case (Cons a t)
  have "s = rev (dropWhile P (rev s)) @ rev (takeWhile P (rev s))"
    by (metis rev_append rev_rev_ident takeWhile_dropWhile_id)
  with Cons have "s = a # t @ rev (takeWhile P (rev s))"
    by simp
  with assms have "\<not> P a"
    by (metis dropWhile_eq_self_iff list.sel(1) list.distinct(1))
  with Cons show ?thesis by simp
qed

lemma trim_trim [simp]: "trim (trim s) = trim s"
proof -
  let ?t = "dropWhile is_ws s"
  have "dropWhile is_ws ?t = ?t" by (rule dropWhile_idem)
  then have "dropWhile is_ws (trim s) = trim s"
    unfolding trim_def by (rule dropWhile_rev_hd)
  moreover have "dropWhile is_ws (rev (trim s)) = rev (trim s)"
    by (simp add: trim_def)
  ultimately show ?thesis
    by (simp add: trim_def [of "trim s"])
qed

lemma trim_eq_Nil_iff: "trim s = [] \<longleftrightarrow> list_all is_ws s"
proof -
  have "trim s = [] \<longleftrightarrow> (\<forall>c \<in> set (dropWhile is_ws s). is_ws c)"
    by (simp add: trim_def)
  also have "\<dots> \<longleftrightarrow> list_all is_ws s"
    by (induction s) auto
  finally show ?thesis .
qed

subsection \<open>Prefixes, slices and splitting\<close>

lemma startsWith_append [simp]: "startsWith (p @ s) p"
  by (simp add: startsWith_def)

lemma startsWith_iff: "startsWith s p \<longleftrightarrow> (\<exists>t. s = p @ t)"
  by (metis append_eq_conv_conj startsWith_def)

lemma str_includes_iff: "str_includes s p \<longleftrightarrow> (\<exists>u v. s = u @ p @ v)"
proof (induction s)
  case Nil
  then show ?case by auto
next
  case (Cons c s)
  show ?case
  proof
    assume "str_includes (c # s) p"
    then consider "startsWith (c # s) p" | "str_includes s p" by auto
    then show "\<exists>u v. c # s = u @ p @ v"
    proof cases
      case 1
      then show ?thesis by (metis append_Nil startsWith_iff)
    next
      case 2
      with Cons.IH show ?thesis by (metis append_Cons)
    qed
  next
    assume "\<exists>u v. c # s = u @ p @ v"
    then obtain u v where e: "c # s = u @ p @ v" by blast
    show "str_includes (c # s) p"
    proof (cases u)
      case Nil
      with e have "startsWith (c # s) p" by (auto simp: startsWith_iff)
      then show ?thesis by simp
    next
      case (Cons a u')
      with e have "s = u' @ p @ v" by simp
      with Cons.IH show ?thesis by auto
    qed
  qed
qed

lemma length_slice [simp]: "length (slice i j s) = min (j - i) (length s - i)"
  by (simp add: slice_def)

lemma split_char_not_Nil [simp]: "split_char d s \<noteq> []"
  by (cases s) (auto split: list.splits)

lemma split_char_absent: "d \<notin> set s \<Longrightarrow> split_char d s = [s]"
  by (induction s) auto

lemma split_char_append:
  "d \<notin> set s \<Longrightarrow> split_char d (s @ d # t) = s # split_char d t"
  by (induction s) auto

lemma split_char_parts: "w \<in> set (split_char d s) \<Longrightarrow> d \<notin> set w"
  by (induction s arbitrary: w) (auto split: if_splits list.splits)

lemma join_split_char: "join [d] (split_char d s) = s"
proof (induction s)
  case Nil
  then show ?case by simp
next
  case (Cons c s)
  obtain w ws where "split_char d s = w # ws"
    by (metis list.exhaust split_char_not_Nil)
  with Cons show ?case by (cases ws) auto
qed

lemma split_ws_not_Nil [simp]: "split_ws s \<noteq> []"
  by (induction s) (auto split: list.splits)

lemma split_ws_no_ws: "w \<in> set (split_ws s) \<Longrightarrow> c \<in> set w \<Longrightarrow> \<not> is_ws c"
proof (induction s arbitrary: w)
  case Nil
  then show ?case by simp
next
  case (Cons a s)
  obtain v vs where "split_ws s = v # vs"
    by (metis list.exhaust split_ws_not_Nil)
  with Cons show ?case by (fastforce split: if_splits)
qed

subsection \<open>Radix printing\<close>

lemma toStringRadix_not_Nil [simp]: "toStringRadix r n \<noteq> []"
  by (subst toStringRadix.simps) simp

lemma code_digit_char: "d < 36 \<Longrightarrow> code (digit_char d) = (if d < 10 then 48 + d else 87 + d)"
  by (simp add: digit_char_def)

lemma digit_char_inj: "d < 36 \<Longrightarrow> e < 36 \<Longrightarrow> digit_char d = digit_char e \<longleftrightarrow> d = e"
  by (auto simp: char_eq_code_iff code_digit_char split: if_splits)

lemma digit_char_not_ws [simp]: "d < 36 \<Longrightarrow> \<not> is_ws (digit_char d)"
  by (auto simp: is_ws_def code_digit_char)

lemma num_string_digits: "c \<in> set (num_string n) \<Longrightarrow> is_digit c"
proof (induction n rule: less_induct)
  case (less n)
  show ?case
  proof (cases "n < 10")
    case True
    with less.prems show ?thesis
      by (auto simp: toStringRadix.simps [of 10 n] is_digit_def code_digit_char)
  next
    case False
    with less.prems consider "c \<in> set (num_string (n div 10))" | "c = digit_char (n mod 10)"
      by (auto simp: toStringRadix.simps [of 10 n])
    then show ?thesis
    proof cases
      case 1
      moreover from False have "n div 10 < n" by simp
      ultimately show ?thesis using less.IH by blast
    next
      case 2
      then show ?thesis by (simp add: is_digit_def code_digit_char)
    qed
  qed
qed

lemma length_num_string: "n < 10 ^ k \<Longrightarrow> 0 < k \<Longrightarrow> length (num_string n) \<le> k"
proof (induction k arbitrary: n)
  case 0
  then show ?case by simp
next
  case (Suc k)
  show ?case
  proof (cases "n < 10")
    case True
    then show ?thesis by (simp add: toStringRadix.simps [of 10 n])
  next
    case False
    with Suc.prems have "n div 10 < 10 ^ k" and "0 < k"
      by (auto simp: less_mult_imp_div_less mult.commute intro: Suc_lessI gr0I)
    with Suc.IH have "length (num_string (n div 10)) \<le> k" by blast
    with False show ?thesis by (simp add: toStringRadix.simps [of 10 n])
  qed
qed

lemma length_padStart: "length s \<le> n \<Longrightarrow> length (padStart n c s) = n"
  by (simp add: padStart_def)

end
