(* ===== verification/Encoding.thy ===== *)
theory Encoding
  imports Prelude
begin

text \<open>
  Byte encodings of the web clients: hexadecimal (two independent decoders, one per application),
  base64 with the chunked encoder, base64url, and UTF-8. \<open>atob\<close>, \<open>btoa\<close>, \<open>parseInt\<close> and the
  UTF-8 coders of the platform are modelled as far as the sources use them. The interface
  \<open>codec\<close> states what a client of an encoding relies on; every encoding is an instance of it.
\<close>

section \<open>The interface of an encoding\<close>

locale codec =
  fixes encode :: "'a \<Rightarrow> 'b"
    and decode :: "'b \<Rightarrow> js_error + 'a"
  assumes decode_encode: "decode (encode x) = Inr x"
begin

lemma encode_inj: "encode x = encode y \<longleftrightarrow> x = y"
  by (metis decode_encode sum.inject(2))

lemma decode_bind: "bind_err (decode (encode x)) f = f x"
  by (simp add: decode_encode)

end

locale codec_pair = inner: codec enc1 dec1 + outer: codec enc2 dec2
  for enc1 :: "'a \<Rightarrow> 'b" and dec1 and enc2 :: "'b \<Rightarrow> 'c" and dec2
begin

lemma pair_roundtrip: "bind_err (dec2 (enc2 (enc1 x))) dec1 = Inr x"
  by (simp add: outer.decode_encode inner.decode_encode)

end

sublocale codec_pair \<subseteq> stacked: codec "\<lambda>x. enc2 (enc1 x)" "\<lambda>y. bind_err (dec2 y) dec1"
  by unfold_locales (rule pair_roundtrip)

section \<open>Hexadecimal\<close>

text \<open>\<open>parseInt(s, 16)\<close>: leading white space and a sign are skipped, then an optional \<open>0x\<close>, then
  the longest run of hexadecimal digits; \<open>None\<close> is \<open>NaN\<close>.\<close>

definition hex_value :: "char \<Rightarrow> nat option" where
  "hex_value c =
     (if is_digit c then Some (code c - 48)
      else if 97 \<le> code c \<and> code c \<le> 102 then Some (code c - 87)
      else if 65 \<le> code c \<and> code c \<le> 70 then Some (code c - 55)
      else None)"

abbreviation is_hex_char :: "char \<Rightarrow> bool" where
  "is_hex_char c \<equiv> hex_value c \<noteq> None"

definition hex_number :: "string \<Rightarrow> nat" where
  "hex_number s = foldl (\<lambda>n c. 16 * n + the (hex_value c)) 0 s"

definition strip_0x :: "string \<Rightarrow> string" where
  "strip_0x s =
     (case s of a # b # r \<Rightarrow> if a = CHR ''0'' \<and> (b = CHR ''x'' \<or> b = CHR ''X'') then r else s
      | _ \<Rightarrow> s)"

definition parse_sign :: "string \<Rightarrow> bool \<times> string" where
  "parse_sign s =
     (case s of c # r \<Rightarrow> if c = CHR ''-'' then (True, r) else if c = CHR ''+'' then (False, r)
                        else (False, s)
      | [] \<Rightarrow> (False, []))"

definition parseInt16 :: "string \<Rightarrow> int option" where
  "parseInt16 s =
     (let (neg, t) = parse_sign (dropWhile is_ws s);
          ds = takeWhile is_hex_char (strip_0x t)
      in if ds = [] then None
         else Some (if neg then - int (hex_number ds) else int (hex_number ds)))"

text \<open>Storing a number in a \<open>Uint8Array\<close>: \<open>NaN\<close> is stored as 0, integers modulo 256.\<close>

definition toUint8 :: "int option \<Rightarrow> byte" where
  "toUint8 n = (case n of None \<Rightarrow> 0 | Some i \<Rightarrow> word_of_int i)"

text \<open>\<open>b.toString(16).padStart(2, "0")\<close>\<close>

definition hex_byte :: "byte \<Rightarrow> string" where
  "hex_byte b = padStart 2 (CHR ''0'') (toStringRadix 16 (unat b))"

text \<open>\<open>bytesToHex\<close> of \<open>encoding.ts\<close> (map and join) and of \<open>attachment_crypto.ts\<close> (a loop that
  appends).\<close>

definition bytesToHex_cp :: "byte list \<Rightarrow> string" where
  "bytesToHex_cp bytes = join [] (map hex_byte bytes)"

fun bytesToHex_loop :: "string \<Rightarrow> byte list \<Rightarrow> string" where
  "bytesToHex_loop hex [] = hex"
| "bytesToHex_loop hex (b # bs) = bytesToHex_loop (hex @ hex_byte b) bs"

definition bytesToHex :: "byte list \<Rightarrow> string" where
  "bytesToHex bytes = bytesToHex_loop [] bytes"

text \<open>\<open>cleanHex.match(/.{1,2}/g)\<close>: the dot matches no line terminator.\<close>

fun match_pairs :: "string \<Rightarrow> string list" where
  "match_pairs [] = []"
| "match_pairs [c] = (if is_line_end c then [] else [[c]])"
| "match_pairs (c # d # r) =
     (if is_line_end c then match_pairs (d # r)
      else if is_line_end d then [c] # match_pairs r
      else [c, d] # match_pairs r)"

definition hexToBytes_cp :: "string \<Rightarrow> js_error + byte list" where
  "hexToBytes_cp hex =
     (let cleanHex = trim hex
      in if length cleanHex mod 2 \<noteq> 0
         then throw_msg ''Invalid hex string: length must be even''
         else Inr (map (\<lambda>b. toUint8 (parseInt16 b)) (match_pairs cleanHex)))"

fun hexToBytes_loop :: "string \<Rightarrow> byte list" where
  "hexToBytes_loop (c # d # r) = toUint8 (parseInt16 [c, d]) # hexToBytes_loop r"
| "hexToBytes_loop _ = []"

definition hexToBytes :: "string \<Rightarrow> js_error + byte list" where
  "hexToBytes hex =
     (let cleanHex = trim hex
      in if length cleanHex mod 2 \<noteq> 0 then throw_msg ''Invalid hex string length''
         else Inr (hexToBytes_loop cleanHex))"

section \<open>Base64\<close>

definition b64_char :: "nat \<Rightarrow> char" where
  "b64_char n = ''ABCDEFGHIJKLMNOPQRSTUVWXYZabcdefghijklmnopqrstuvwxyz0123456789+/'' ! n"

definition b64_value :: "char \<Rightarrow> nat option" where
  "b64_value c =
     (if is_upper_ascii c then Some (code c - 65)
      else if is_lower_ascii c then Some (code c - 71)
      else if is_digit c then Some (code c + 4)
      else if c = CHR ''+'' then Some 62
      else if c = CHR ''/'' then Some 63
      else None)"

text \<open>\<open>btoa\<close> on the bytes of a binary string.\<close>

fun b64_encode :: "nat list \<Rightarrow> string" where
  "b64_encode [] = []"
| "b64_encode [a] = [b64_char (a div 4), b64_char (a mod 4 * 16), CHR ''='', CHR ''='']"
| "b64_encode [a, b] =
     [b64_char (a div 4), b64_char (a mod 4 * 16 + b div 16), b64_char (b mod 16 * 4), CHR ''='']"
| "b64_encode (a # b # c # r) =
     b64_char (a div 4) # b64_char (a mod 4 * 16 + b div 16)
     # b64_char (b mod 16 * 4 + c div 64) # b64_char (c mod 64) # b64_encode r"

definition btoa :: "string \<Rightarrow> string" where
  "btoa s = b64_encode (map of_char s)"

text \<open>\<open>atob\<close> is the forgiving decoder: ASCII white space is dropped, at most two padding signs are
  removed from an input whose length is a multiple of four, a remainder of one sextet and any other
  character are errors, and the unused low bits of the last sextet are discarded.\<close>

definition is_b64_ws :: "char \<Rightarrow> bool" where
  "is_b64_ws c \<longleftrightarrow> code c \<in> {9, 10, 12, 13, 32}"

definition strip_pad :: "string \<Rightarrow> string" where
  "strip_pad s =
     (if length s mod 4 = 0
      then (if endsWith s ''=='' then take (length s - 2) s
            else if endsWith s ''='' then take (length s - 1) s else s)
      else s)"

fun b64_groups :: "nat list \<Rightarrow> nat list" where
  "b64_groups (a # b # c # d # r) =
     (a * 4 + b div 16) # (b mod 16 * 16 + c div 4) # (c mod 4 * 64 + d) # b64_groups r"
| "b64_groups [a, b, c] = [a * 4 + b div 16, b mod 16 * 16 + c div 4]"
| "b64_groups [a, b] = [a * 4 + b div 16]"
| "b64_groups _ = []"

definition atob :: "string \<Rightarrow> js_error + string" where
  "atob s =
     (let t = strip_pad (filter (\<lambda>c. \<not> is_b64_ws c) s)
      in if length t mod 4 = 1 \<or> \<not> list_all (\<lambda>c. b64_value c \<noteq> None) t
         then throw_msg ''InvalidCharacterError''
         else Inr (map char_of (b64_groups (map (\<lambda>c. the (b64_value c)) t))))"

text \<open>\<open>charCodeAt\<close> and \<open>String.fromCharCode\<close> between binary strings and byte arrays.\<close>

definition bytes_of_binary :: "string \<Rightarrow> byte list" where
  "bytes_of_binary s = map (\<lambda>c. of_nat (of_char c)) s"

definition binary_of_bytes :: "byte list \<Rightarrow> string" where
  "binary_of_bytes bs = map (\<lambda>b. char_of (unat b)) bs"

definition base64ToBytes :: "string \<Rightarrow> js_error + byte list" where
  "base64ToBytes b64 = bind_err (atob (trim b64)) (\<lambda>binary. Inr (bytes_of_binary binary))"

text \<open>\<open>bytesToBase64\<close> converts chunks of \<open>0x8000\<close> bytes and joins them.\<close>

definition CHUNK_SIZE :: nat where
  "CHUNK_SIZE = 32768"

function chunk_strings :: "nat \<Rightarrow> byte list \<Rightarrow> string list" where
  "chunk_strings n bs =
     (if bs = [] \<or> n = 0 then []
      else binary_of_bytes (take n bs) # chunk_strings n (drop n bs))"
  by pat_completeness auto
termination
  by (relation "measure (\<lambda>(n, bs). length bs)") auto

declare chunk_strings.simps [simp del]

definition bytesToBase64 :: "byte list \<Rightarrow> string" where
  "bytesToBase64 bytes = btoa (join [] (chunk_strings CHUNK_SIZE bytes))"

section \<open>Base64url\<close>

definition subst_char :: "char \<Rightarrow> char \<Rightarrow> string \<Rightarrow> string" where
  "subst_char a b s = map (\<lambda>c. if c = a then b else c) s"

definition base64URLToBuffer :: "string \<Rightarrow> js_error + byte list" where
  "base64URLToBuffer base64URL =
     (let base64 = subst_char (CHR ''_'') (CHR ''/'') (subst_char (CHR ''-'') (CHR ''+'') base64URL);
          pad = (if length base64 mod 4 = 0 then []
                 else replicate (4 - length base64 mod 4) (CHR ''=''))
      in bind_err (atob (base64 @ pad)) (\<lambda>raw. Inr (bytes_of_binary raw)))"

definition bufferToBase64URL :: "byte list \<Rightarrow> string" where
  "bufferToBase64URL bytes =
     filter (\<lambda>c. c \<noteq> CHR ''='')
       (subst_char (CHR ''/'') (CHR ''_'') (subst_char (CHR ''+'') (CHR ''-'')
         (btoa (binary_of_bytes bytes))))"

section \<open>UTF-8\<close>

text \<open>\<open>TextEncoder.encode\<close> on the code points of the model.\<close>

definition utf8_char :: "char \<Rightarrow> byte list" where
  "utf8_char c =
     (if code c < 128 then [of_nat (code c)]
      else [of_nat (192 + code c div 64), of_nat (128 + code c mod 64)])"

definition utf8_encode :: "string \<Rightarrow> byte list" where
  "utf8_encode s = concat (map utf8_char s)"

text \<open>\<open>TextDecoder.decode\<close>: the streaming decoder of the Encoding standard. Its state holds the
  code point read so far, the number of continuation bytes still needed and the bounds of the next
  one. An unexpected byte yields the replacement character and is then read again as a first
  byte.\<close>

record utf8_state =
  u_point :: nat
  u_needed :: nat
  u_lower :: nat
  u_upper :: nat

definition utf8_init :: utf8_state where
  "utf8_init = \<lparr>u_point = 0, u_needed = 0, u_lower = 128, u_upper = 191\<rparr>"

definition replacement :: nat where
  "replacement = 65533"

definition utf8_first :: "nat \<Rightarrow> nat list \<times> utf8_state" where
  "utf8_first b =
     (if b < 128 then ([b], utf8_init)
      else if 194 \<le> b \<and> b \<le> 223
      then ([], \<lparr>u_point = b - 192, u_needed = 1, u_lower = 128, u_upper = 191\<rparr>)
      else if 224 \<le> b \<and> b \<le> 239
      then ([], \<lparr>u_point = b - 224, u_needed = 2, u_lower = (if b = 224 then 160 else 128),
                 u_upper = (if b = 237 then 159 else 191)\<rparr>)
      else if 240 \<le> b \<and> b \<le> 244
      then ([], \<lparr>u_point = b - 240, u_needed = 3, u_lower = (if b = 240 then 144 else 128),
                 u_upper = (if b = 244 then 143 else 191)\<rparr>)
      else ([replacement], utf8_init))"

definition utf8_step :: "utf8_state \<Rightarrow> nat \<Rightarrow> nat list \<times> utf8_state" where
  "utf8_step st b =
     (if u_needed st = 0 then utf8_first b
      else if \<not> (u_lower st \<le> b \<and> b \<le> u_upper st)
      then (let (out, st') = utf8_first b in (replacement # out, st'))
      else let point = u_point st * 64 + (b - 128)
           in if u_needed st = 1 then ([point], utf8_init)
              else ([], \<lparr>u_point = point, u_needed = u_needed st - 1, u_lower = 128,
                         u_upper = 191\<rparr>))"

fun utf8_points :: "utf8_state \<Rightarrow> byte list \<Rightarrow> nat list" where
  "utf8_points st [] = (if u_needed st = 0 then [] else [replacement])"
| "utf8_points st (b # bs) =
     (let (out, st') = utf8_step st (unat b) in out @ utf8_points st' bs)"

text \<open>A code point above 255 has no code unit in the model: it is shown as the substitute character,
  twice when JavaScript needs a surrogate pair for it.\<close>

definition point_units :: "nat \<Rightarrow> string" where
  "point_units n =
     (if n < 256 then [char_of n]
      else if n < 65536 then [char_of (26::nat)] else [char_of (26::nat), char_of (26::nat)])"

definition strip_bom :: "byte list \<Rightarrow> byte list" where
  "strip_bom bs = (if take 3 bs = [239, 187, 191] then drop 3 bs else bs)"

definition utf8_decode :: "byte list \<Rightarrow> string" where
  "utf8_decode bs = concat (map point_units (utf8_points utf8_init (strip_bom bs)))"

section \<open>Hexadecimal: lemmas\<close>

lemma join_Nil [simp]: "join [] ws = concat ws"
  by (induction ws rule: induct_list012) auto

lemma unat_byte_lt: "unat (b :: byte) < 256"
  using unsigned_less [of b, where ?'a = nat] by simp

lemma digit_char_0: "digit_char 0 = CHR ''0''"
  by code_simp

lemma hex_byte_eq: "hex_byte b = [digit_char (unat b div 16), digit_char (unat b mod 16)]"
proof -
  have "unat b div 16 < 16" using unat_byte_lt [of b] by simp
  then show ?thesis
    by (simp add: hex_byte_def padStart_def digit_char_0 toStringRadix.simps [of 16 "unat b"]
        toStringRadix.simps [of 16 "unat b div 16"])
qed

lemma bytesToHex_loop_eq: "bytesToHex_loop h bs = h @ concat (map hex_byte bs)"
  by (induction bs arbitrary: h) auto

lemma bytesToHex_eq: "bytesToHex bs = concat (map hex_byte bs)"
  by (simp add: bytesToHex_def bytesToHex_loop_eq)

lemma bytesToHex_Cons:
  "bytesToHex (b # bs) = digit_char (unat b div 16) # digit_char (unat b mod 16) # bytesToHex bs"
  by (simp add: bytesToHex_eq hex_byte_eq)

lemma bytesToHex_Nil [simp]: "bytesToHex [] = []"
  by (simp add: bytesToHex_eq)

lemma bytesToHex_append: "bytesToHex (xs @ ys) = bytesToHex xs @ bytesToHex ys"
  by (simp add: bytesToHex_eq)

lemma length_bytesToHex [simp]: "length (bytesToHex bs) = 2 * length bs"
  by (induction bs) (auto simp: bytesToHex_Cons)

lemma bytesToHex_cp_eq: "bytesToHex_cp bs = bytesToHex bs"
  by (simp add: bytesToHex_cp_def bytesToHex_eq)

text \<open>The characters a hexadecimal string of the clients consists of.\<close>

definition is_lower_hex :: "char \<Rightarrow> bool" where
  "is_lower_hex c \<longleftrightarrow> is_digit c \<or> (97 \<le> code c \<and> code c \<le> 102)"

lemma lower_hex_digit_char: "n < 16 \<Longrightarrow> is_lower_hex (digit_char n)"
  by (simp add: is_lower_hex_def is_digit_def code_digit_char)

lemma nibbles_lt [simp]: "unat (b :: byte) div 16 < 16" "unat (b :: byte) mod 16 < 16"
  using unat_byte_lt [of b] by simp_all

lemma bytesToHex_lower_hex: "list_all is_lower_hex (bytesToHex bs)"
  by (induction bs) (auto simp: bytesToHex_Cons lower_hex_digit_char)

lemma lower_hex_not_ws: "is_lower_hex c \<Longrightarrow> \<not> is_ws c"
  by (auto simp: is_lower_hex_def is_ws_def is_digit_def)

lemma lower_hex_not_line_end: "is_lower_hex c \<Longrightarrow> \<not> is_line_end c"
  by (auto simp: is_lower_hex_def is_line_end_def is_digit_def)

lemma trim_lower_hex: "list_all is_lower_hex s \<Longrightarrow> trim s = s"
  by (rule trim_no_ws) (auto simp: list_all_iff dest: lower_hex_not_ws)

lemma trim_bytesToHex [simp]: "trim (bytesToHex bs) = bytesToHex bs"
  by (rule trim_lower_hex) (rule bytesToHex_lower_hex)

lemma hex_value_lower:
  "is_lower_hex c \<Longrightarrow> hex_value c = Some (if is_digit c then code c - 48 else code c - 87)"
  by (auto simp: hex_value_def is_lower_hex_def)

lemma hex_value_digit_char [simp]: "n < 16 \<Longrightarrow> hex_value (digit_char n) = Some n"
  by (auto simp: hex_value_def is_digit_def code_digit_char)

lemma hex_value_lt: "hex_value c = Some n \<Longrightarrow> n < 16"
  by (auto simp: hex_value_def is_digit_def split: if_splits)

lemma digit_char_hex_value: "is_lower_hex c \<Longrightarrow> digit_char (the (hex_value c)) = c"
  by (auto simp: hex_value_lower is_lower_hex_def is_digit_def digit_char_def)

lemma parseInt16_two:
  assumes "is_lower_hex c" and "is_lower_hex d"
  shows "parseInt16 [c, d] = Some (int (16 * the (hex_value c) + the (hex_value d)))"
proof -
  have c: "\<not> is_ws c" "c \<noteq> CHR ''-''" "c \<noteq> CHR ''+''" "is_hex_char c"
    using assms(1) by (auto simp: is_lower_hex_def is_ws_def is_digit_def hex_value_lower)
  have d: "d \<noteq> CHR ''x''" "d \<noteq> CHR ''X''" "is_hex_char d"
    using assms(2) by (auto simp: is_lower_hex_def is_digit_def hex_value_lower)
  from c d show ?thesis
    by (auto simp: parseInt16_def parse_sign_def strip_0x_def hex_number_def)
qed

lemma toUint8_of_nat: "toUint8 (Some (int n)) = of_nat n"
  by (simp add: toUint8_def)

lemma toUint8_nibbles:
  assumes "h < 16" and "l < 16"
  shows "unat (toUint8 (Some (int (16 * h + l)))) = 16 * h + l"
proof -
  from assms have "16 * h + l < 256" by simp
  then show ?thesis unfolding toUint8_of_nat unat_of_nat by simp
qed

lemma hexToBytes_loop_bytesToHex: "hexToBytes_loop (bytesToHex bs) = bs"
proof (induction bs)
  case Nil
  then show ?case by simp
next
  case (Cons b bs)
  have "unat (toUint8 (parseInt16 [digit_char (unat b div 16), digit_char (unat b mod 16)])) = unat b"
    unfolding parseInt16_two [OF lower_hex_digit_char lower_hex_digit_char, OF nibbles_lt]
    by (subst toUint8_nibbles) simp_all
  then have "toUint8 (parseInt16 [digit_char (unat b div 16), digit_char (unat b mod 16)]) = b"
    by (rule unsigned_word_eqI)
  with Cons show ?case by (simp add: bytesToHex_Cons)
qed

lemma hexToBytes_bytesToHex: "hexToBytes (bytesToHex bs) = Inr bs"
  by (simp add: hexToBytes_def hexToBytes_loop_bytesToHex)

lemma match_pairs_loop:
  "list_all (\<lambda>c. \<not> is_line_end c) s \<Longrightarrow> length s mod 2 = 0 \<Longrightarrow>
   map (\<lambda>b. toUint8 (parseInt16 b)) (match_pairs s) = hexToBytes_loop s"
  by (induction s rule: match_pairs.induct) auto

interpretation hex: codec bytesToHex hexToBytes
  by unfold_locales (rule hexToBytes_bytesToHex)

lemma hexToBytes_cp_bytesToHex: "hexToBytes_cp (bytesToHex bs) = Inr bs"
proof -
  have "list_all (\<lambda>c. \<not> is_line_end c) (bytesToHex bs)"
    using bytesToHex_lower_hex [of bs] by (auto simp: list_all_iff dest: lower_hex_not_line_end)
  then show ?thesis
    by (simp add: hexToBytes_cp_def match_pairs_loop hexToBytes_loop_bytesToHex)
qed

interpretation hex_cp: codec bytesToHex_cp hexToBytes_cp
  by unfold_locales (simp add: bytesToHex_cp_eq hexToBytes_cp_bytesToHex)

text \<open>Lower-case hexadecimal strings of even length are exactly the encodings of byte arrays.\<close>

lemma bytesToHex_hexToBytes_loop:
  "list_all is_lower_hex s \<Longrightarrow> length s mod 2 = 0 \<Longrightarrow> bytesToHex (hexToBytes_loop s) = s"
proof (induction s rule: hexToBytes_loop.induct)
  case (1 c d r)
  let ?h = "the (hex_value c)" and ?l = "the (hex_value d)"
  from "1.prems" have hl: "?h < 16" "?l < 16" and cd: "is_lower_hex c" "is_lower_hex d"
    by (auto simp: hex_value_lower is_lower_hex_def is_digit_def)
  then have "unat (toUint8 (parseInt16 [c, d])) = 16 * ?h + ?l"
    by (simp only: parseInt16_two toUint8_nibbles)
  with hl cd 1 show ?case
    by (auto simp: bytesToHex_Cons digit_char_hex_value)
qed auto

lemma hexToBytes_lower_hex:
  "list_all is_lower_hex s \<Longrightarrow> even (length s) \<Longrightarrow> \<exists>bs. hexToBytes s = Inr bs \<and> s = bytesToHex bs"
  by (rule exI [of _ "hexToBytes_loop s"])
    (simp add: hexToBytes_def trim_lower_hex bytesToHex_hexToBytes_loop even_iff_mod_2_eq_zero)

lemma length_hexToBytes_loop: "length (hexToBytes_loop s) = length s div 2"
  by (induction s rule: hexToBytes_loop.induct) auto

lemma length_hexToBytes: "hexToBytes s = Inr bs \<Longrightarrow> length (trim s) = 2 * length bs"
  by (auto simp: hexToBytes_def Let_def length_hexToBytes_loop split: if_splits)

section \<open>Base64: lemmas\<close>

text \<open>The sextets of a byte list and the number of padding signs; \<open>b64_encode\<close> prints both.\<close>

fun sextets :: "nat list \<Rightarrow> nat list" where
  "sextets [] = []"
| "sextets [a] = [a div 4, a mod 4 * 16]"
| "sextets [a, b] = [a div 4, a mod 4 * 16 + b div 16, b mod 16 * 4]"
| "sextets (a # b # c # r) =
     [a div 4, a mod 4 * 16 + b div 16, b mod 16 * 4 + c div 64, c mod 64] @ sextets r"

definition b64_pad :: "nat \<Rightarrow> nat" where
  "b64_pad n = (if n mod 3 = 1 then 2 else if n mod 3 = 2 then 1 else 0)"

lemma b64_encode_sextets:
  "b64_encode xs = map b64_char (sextets xs) @ replicate (b64_pad (length xs)) (CHR ''='')"
  by (induction xs rule: b64_encode.induct)
    (auto simp: b64_pad_def numeral_2_eq_2 mod_Suc)

lemma sextet_join_lt: "x < 16 \<Longrightarrow> a mod 4 * 16 + x < (64::nat)" "y < 4 \<Longrightarrow> b mod 16 * 4 + y < (64::nat)"
  using mod_less_divisor [of 4 a] mod_less_divisor [of 16 b] by linarith+

lemma byte_quotients: "n < 256 \<Longrightarrow> n div 16 < (16::nat)" "n < 256 \<Longrightarrow> n div 64 < (4::nat)"
  by simp_all

lemma sextets_lt: "list_all (\<lambda>x. x < 256) xs \<Longrightarrow> list_all (\<lambda>x. x < 64) (sextets xs)"
  by (induction xs rule: sextets.induct) (auto intro!: sextet_join_lt byte_quotients)

lemma length_sextets:
  "length (sextets xs) mod 4 = (if length xs mod 3 = 1 then 2 else if length xs mod 3 = 2 then 3 else 0)"
  by (induction xs rule: sextets.induct) (auto simp: mod_Suc)

lemma length_sextets_pad: "(length (sextets xs) + b64_pad (length xs)) mod 4 = 0"
proof -
  have "(length (sextets xs) + b64_pad (length xs)) mod 4
      = (length (sextets xs) mod 4 + b64_pad (length xs)) mod 4"
    by presburger
  then show ?thesis by (simp add: length_sextets b64_pad_def)
qed

lemma b64_groups_sextets: "list_all (\<lambda>x. x < 256) xs \<Longrightarrow> b64_groups (sextets xs) = xs"
proof (induction xs rule: sextets.induct)
  case (2 a)
  have "a div 4 * 4 + a mod 4 * 16 div 16 = a" by simp
  with 2 show ?case by simp
next
  case (3 a b)
  then have "b div 16 < 16" by auto
  then have "a div 4 * 4 + (a mod 4 * 16 + b div 16) div 16 = a"
    and "(a mod 4 * 16 + b div 16) mod 16 * 16 + b mod 16 * 4 div 4 = b"
    by simp_all
  with 3 show ?case by simp
next
  case (4 a b c r)
  then have "b div 16 < 16" "c div 64 < 4" by (auto intro: byte_quotients)
  then have "a div 4 * 4 + (a mod 4 * 16 + b div 16) div 16 = a"
    and "(a mod 4 * 16 + b div 16) mod 16 * 16 + (b mod 16 * 4 + c div 64) div 4 = b"
    and "(b mod 16 * 4 + c div 64) mod 4 * 64 + c mod 64 = c"
    by simp_all
  with 4 show ?case by simp
qed simp

lemma b64_table:
  "list_all (\<lambda>n. b64_value (b64_char n) = Some n \<and> \<not> is_b64_ws (b64_char n)
     \<and> \<not> is_ws (b64_char n) \<and> b64_char n \<noteq> CHR ''='') [0..<64]"
  by code_simp

lemma b64_char_facts:
  assumes "n < 64"
  shows "b64_value (b64_char n) = Some n" "\<not> is_b64_ws (b64_char n)"
    "\<not> is_ws (b64_char n)" "b64_char n \<noteq> CHR ''=''"
  using b64_table assms by (simp_all add: list_all_iff)

definition url_char :: "char \<Rightarrow> char" where
  "url_char c = (if c = CHR ''+'' then CHR ''-'' else if c = CHR ''/'' then CHR ''_'' else c)"

definition unurl_char :: "char \<Rightarrow> char" where
  "unurl_char c = (if c = CHR ''-'' then CHR ''+'' else if c = CHR ''_'' then CHR ''/'' else c)"

lemma pad_sign_facts [simp]:
  "\<not> is_b64_ws (CHR ''='')" "\<not> is_ws (CHR ''='')" "url_char (CHR ''='') = CHR ''=''"
  by code_simp+

lemma endsWith_snoc: "endsWith (s @ [c]) (p @ [d]) \<longleftrightarrow> c = d \<and> endsWith s p"
  by (simp add: endsWith_def startsWith_def)

lemma endsWith_Nil [simp]: "endsWith s []"
  by (simp add: endsWith_def startsWith_def)

lemma strip_pad_sextets:
  assumes "list_all (\<lambda>x. x < 64) vs" and "(length vs + k) mod 4 = 0" and "k \<le> 2"
  shows "strip_pad (map b64_char vs @ replicate k (CHR ''='')) = map b64_char vs"
proof -
  have last: "\<not> endsWith (map b64_char vs) [CHR ''='']"
  proof (cases vs rule: rev_cases)
    case Nil
    then show ?thesis by (simp add: endsWith_def startsWith_def)
  next
    case (snoc us v)
    with assms(1) have "b64_char v \<noteq> CHR ''=''" by (simp add: b64_char_facts)
    with snoc endsWith_snoc [of "map b64_char us" "b64_char v" "[]"] show ?thesis by simp
  qed
  have two: "endsWith s ''=='' \<longleftrightarrow> (\<exists>t. s = t @ ''='' \<and> endsWith t ''='')" for s
  proof (cases s rule: rev_cases)
    case Nil
    then show ?thesis by (simp add: endsWith_def startsWith_def)
  next
    case (snoc t c)
    with endsWith_snoc [of t c "''=''" "CHR ''=''"] show ?thesis by auto
  qed
  have one: "endsWith (t @ ''='') ''=''" for t
    using endsWith_snoc [of t "CHR ''=''" "[]" "CHR ''=''"] by simp
  consider "k = 0" | "k = 1" | "k = 2" using assms(3) by linarith
  then show ?thesis
  proof cases
    case 1
    have "\<not> endsWith (map b64_char vs) ''==''"
      using last two one by metis
    with 1 last show ?thesis by (simp add: strip_pad_def)
  next
    case 2
    have "\<not> endsWith (map b64_char vs @ ''='') ''==''"
      using last by (simp add: two)
    with 2 one assms(2) show ?thesis by (simp add: strip_pad_def)
  next
    case 3
    have "endsWith (map b64_char vs @ ''=='') ''==''"
      using one [of "map b64_char vs"] two [of "map b64_char vs @ ''==''"] by simp
    with 3 assms(2) show ?thesis by (simp add: strip_pad_def numeral_2_eq_2)
  qed
qed

lemma atob_b64_encode:
  assumes "list_all (\<lambda>x. x < 256) xs"
  shows "atob (b64_encode xs) = Inr (map char_of xs)"
proof -
  let ?vs = "sextets xs" and ?k = "b64_pad (length xs)"
  have lt: "list_all (\<lambda>x. x < 64) ?vs" using assms by (rule sextets_lt)
  have "filter (\<lambda>c. \<not> is_b64_ws c) (b64_encode xs) = b64_encode xs"
    using lt by (auto simp: b64_encode_sextets filter_id_conv list_all_iff b64_char_facts)
  moreover have "strip_pad (b64_encode xs) = map b64_char ?vs"
    unfolding b64_encode_sextets
    by (rule strip_pad_sextets [OF lt length_sextets_pad]) (simp add: b64_pad_def)
  moreover have "length ?vs mod 4 \<noteq> 1" by (simp add: length_sextets)
  moreover have "list_all (\<lambda>c. b64_value c \<noteq> None) (map b64_char ?vs)"
    and "map (\<lambda>c. the (b64_value c)) (map b64_char ?vs) = ?vs"
    using lt by (auto simp: list_all_iff b64_char_facts intro: map_idI)
  ultimately show ?thesis
    by (simp add: atob_def b64_groups_sextets [OF assms] del: map_map)
qed

lemma atob_btoa: "atob (btoa s) = Inr s"
proof -
  have "list_all (\<lambda>x. x < 256) (map of_char s :: nat list)" by (simp add: list_all_iff)
  then show ?thesis by (simp add: btoa_def atob_b64_encode)
qed

interpretation b64: codec btoa atob
  by unfold_locales (rule atob_btoa)

lemma bytes_of_binary_of_bytes [simp]: "bytes_of_binary (binary_of_bytes bs) = bs"
  by (simp add: bytes_of_binary_def binary_of_bytes_def unat_byte_lt map_idI)

lemma binary_of_bytes_append: "binary_of_bytes (xs @ ys) = binary_of_bytes xs @ binary_of_bytes ys"
  by (simp add: binary_of_bytes_def)

lemma concat_chunk_strings: "0 < n \<Longrightarrow> concat (chunk_strings n bs) = binary_of_bytes bs"
proof (induction n bs rule: chunk_strings.induct)
  case (1 n bs)
  show ?case
  proof (cases "bs = []")
    case True
    then show ?thesis by (simp add: chunk_strings.simps binary_of_bytes_def)
  next
    case False
    with 1 have "concat (chunk_strings n (drop n bs)) = binary_of_bytes (drop n bs)" by simp
    with False 1 show ?thesis
      by (simp add: chunk_strings.simps [of n bs] flip: binary_of_bytes_append)
  qed
qed

text \<open>Chunking is invisible in the result.\<close>

lemma bytesToBase64_eq: "bytesToBase64 bs = btoa (binary_of_bytes bs)"
  by (simp add: bytesToBase64_def concat_chunk_strings CHUNK_SIZE_def)

lemma btoa_no_ws: "list_all (\<lambda>c. \<not> is_ws c) (btoa s)"
proof -
  have "list_all (\<lambda>x. x < 64) (sextets (map of_char s))"
    by (rule sextets_lt) (simp add: list_all_iff)
  then show ?thesis
    by (auto simp: btoa_def b64_encode_sextets list_all_iff b64_char_facts)
qed

lemma base64ToBytes_bytesToBase64: "base64ToBytes (bytesToBase64 bs) = Inr bs"
  by (simp add: base64ToBytes_def bytesToBase64_eq trim_no_ws [OF btoa_no_ws] atob_btoa)

interpretation base64: codec bytesToBase64 base64ToBytes
  by unfold_locales (rule base64ToBytes_bytesToBase64)

section \<open>Base64url: lemmas\<close>

lemma subst_url: "subst_char (CHR ''/'') (CHR ''_'') (subst_char (CHR ''+'') (CHR ''-'') s) = map url_char s"
  by (auto simp: subst_char_def url_char_def)

lemma subst_unurl:
  "subst_char (CHR ''_'') (CHR ''/'') (subst_char (CHR ''-'') (CHR ''+'') s) = map unurl_char s"
  by (auto simp: subst_char_def unurl_char_def)

lemma b64_url_table:
  "list_all (\<lambda>n. unurl_char (url_char (b64_char n)) = b64_char n \<and> url_char (b64_char n) \<noteq> CHR ''='') [0..<64]"
  by code_simp

lemma base64url_roundtrip: "base64URLToBuffer (bufferToBase64URL bs) = Inr bs"
proof -
  let ?xs = "map of_char (binary_of_bytes bs) :: nat list"
  let ?vs = "sextets ?xs" and ?k = "b64_pad (length ?xs)"
  have lt: "list_all (\<lambda>x. x < 64) ?vs" by (rule sextets_lt) (simp add: list_all_iff)
  have enc: "bufferToBase64URL bs = map (url_char \<circ> b64_char) ?vs"
    using lt b64_url_table
    by (auto simp: bufferToBase64URL_def subst_url btoa_def b64_encode_sextets list_all_iff
        filter_id_conv)
  have dec: "map unurl_char (bufferToBase64URL bs) = map b64_char ?vs"
    using lt b64_url_table by (simp add: enc list_all_iff)
  have pad: "(if length ?vs mod 4 = 0 then [] else replicate (4 - length ?vs mod 4) (CHR ''=''))
      = replicate ?k (CHR ''='')"
    by (simp add: length_sextets b64_pad_def)
  have "base64URLToBuffer (bufferToBase64URL bs)
      = bind_err (atob (b64_encode ?xs)) (\<lambda>raw. Inr (bytes_of_binary raw))"
    unfolding base64URLToBuffer_def Let_def subst_unurl dec length_map pad b64_encode_sextets ..
  also have "\<dots> = Inr bs"
    by (simp add: atob_btoa [unfolded btoa_def])
  finally show ?thesis .
qed

interpretation base64url: codec bufferToBase64URL base64URLToBuffer
  by unfold_locales (rule base64url_roundtrip)

section \<open>UTF-8: lemmas\<close>

lemma high_quotient: "\<not> n < 128 \<Longrightarrow> n < 256 \<Longrightarrow> n div 64 \<noteq> 3 \<Longrightarrow> n div 64 = (2::nat)"
  by arith

lemma unat_of_nat_byte: "n < 256 \<Longrightarrow> unat (of_nat n :: byte) = n"
  by (simp add: unat_of_nat)

lemma utf8_two_bytes:
  assumes "h = 2 \<or> h = 3" and "l < 64"
  shows "utf8_points utf8_init (of_nat (192 + h) # of_nat (128 + l) # bs)
    = (h * 64 + l) # utf8_points utf8_init bs"
proof -
  have u: "unat (of_nat (192 + h) :: byte) = 192 + h" "unat (of_nat (128 + l) :: byte) = 128 + l"
    using assms by (auto simp only: intro!: unat_of_nat_byte)
  have first: "utf8_step utf8_init (192 + h)
      = ([], \<lparr>u_point = h, u_needed = 1, u_lower = 128, u_upper = 191\<rparr>)"
    using assms(1) by (auto simp: utf8_step_def utf8_init_def utf8_first_def)
  have "utf8_step \<lparr>u_point = h, u_needed = 1, u_lower = 128, u_upper = 191\<rparr> (128 + l)
      = ([h * 64 + l], utf8_init)"
    using assms(2) by (simp add: utf8_step_def)
  with first show ?thesis
    by (simp only: utf8_points.simps u Let_def case_prod_conv append.simps)
qed

lemma utf8_points_char: "utf8_points utf8_init (utf8_char c @ bs) = code c # utf8_points utf8_init bs"
proof (cases "code c < 128")
  case True
  then show ?thesis
    by (simp add: utf8_char_def unat_of_nat_byte)
      (simp add: utf8_step_def utf8_init_def utf8_first_def)
next
  case False
  have "code c div 64 = 2 \<or> code c div 64 = 3"
    using False nat_of_char_less_256 [of c] by (auto intro: high_quotient)
  then have "utf8_points utf8_init (of_nat (192 + code c div 64) # of_nat (128 + code c mod 64) # bs)
      = code c # utf8_points utf8_init bs"
    by (subst utf8_two_bytes) simp_all
  with False show ?thesis by (simp add: utf8_char_def)
qed

lemma hd_utf8_char: "unat (hd (utf8_char c)) < 196"
proof (cases "code c < 128")
  case True
  then show ?thesis by (simp add: utf8_char_def unat_of_nat_byte)
next
  case False
  have "code c div 64 < 4" by (rule byte_quotients) simp
  then have "unat (of_nat (192 + code c div 64) :: byte) < 196"
    by (subst unat_of_nat_byte) simp_all
  with False show ?thesis by (simp add: utf8_char_def)
qed

lemma utf8_points_encode: "utf8_points utf8_init (utf8_encode s) = map of_char s"
proof (induction s)
  case Nil
  then show ?case by (simp add: utf8_encode_def utf8_init_def)
next
  case (Cons c s)
  then show ?case
    using utf8_points_char [of c "utf8_encode s"] by (simp add: utf8_encode_def)
qed

lemma strip_bom_encode: "strip_bom (utf8_encode s) = utf8_encode s"
proof (cases s)
  case Nil
  then show ?thesis by (simp add: strip_bom_def utf8_encode_def)
next
  case (Cons c t)
  have "hd (utf8_char c) \<noteq> 239"
    using hd_utf8_char [of c] by auto
  moreover obtain a r where "utf8_char c = a # r"
    by (cases "utf8_char c") (auto simp: utf8_char_def split: if_splits)
  ultimately show ?thesis
    using Cons by (simp add: strip_bom_def utf8_encode_def)
qed

lemma utf8_decode_encode: "utf8_decode (utf8_encode s) = s"
  by (simp add: utf8_decode_def strip_bom_encode utf8_points_encode point_units_def comp_def)

interpretation utf8: codec utf8_encode "\<lambda>bs. Inr (utf8_decode bs)"
  by unfold_locales (simp add: utf8_decode_encode)

text \<open>Plain text as the crypto core sees it: UTF-8, then hexadecimal.\<close>

interpretation text_hex: codec_pair utf8_encode "\<lambda>bs. Inr (utf8_decode bs)" bytesToHex hexToBytes
  by unfold_locales

section \<open>Properties\<close>

text \<open>Every byte sequence survives each of the encodings of the clients: the hexadecimal of the webmail,
  that of the control plane, base64 with the encoder that works in blocks of \<open>0x8000\<close> bytes, and the
  base64url of the passkey exchange.\<close>

theorem encoding_roundtrips:
  "hexToBytes (bytesToHex bs) = Inr bs
   \<and> hexToBytes_cp (bytesToHex_cp bs) = Inr bs
   \<and> base64ToBytes (bytesToBase64 bs) = Inr bs
   \<and> base64URLToBuffer (bufferToBase64URL bs) = Inr bs"
  by (simp add: hex.decode_encode hex_cp.decode_encode base64.decode_encode base64url.decode_encode)

text \<open>The two hexadecimal decoders, the loop of the webmail and the \<open>match(/.{1,2}/g)\<close> of the control
  plane, return the same bytes on every string whose trimmed form has no line terminator, and fail on
  the same strings (with different messages).\<close>

theorem hex_decoders_agree:
  assumes "list_all (\<lambda>c. \<not> is_line_end c) (trim s)"
  shows "hexToBytes_cp s =
     (case hexToBytes s of Inr bs \<Rightarrow> Inr bs
      | Inl _ \<Rightarrow> throw_msg ''Invalid hex string: length must be even'')"
  using assms by (simp add: hexToBytes_cp_def hexToBytes_def Let_def match_pairs_loop)

end
