(* ===== verification/Json.thy ===== *)
theory Json
  imports Encoding
begin

text \<open>
  The JSON values the clients exchange, store and encrypt, with \<open>JSON.stringify\<close> and \<open>JSON.parse\<close>
  as functions on strings. Objects are association lists in insertion order; a repeated key of a
  parsed object keeps its first place and its last value. The modelled code computes with integers
  only, so a number with a fraction or an exponent is kept as its source text (\<open>JDec\<close>).
\<close>

section \<open>Values\<close>

datatype json =
    JNull
  | JBool bool
  | JNum int
  | JDec string
  | JStr string
  | JArr "json list"
  | JObj "(string \<times> json) list"

text \<open>Property access of the sources' typed objects; \<open>None\<close> is \<open>undefined\<close>.\<close>

definition jprop :: "string \<Rightarrow> json \<Rightarrow> json option" where
  "jprop k v = (case v of JObj m \<Rightarrow> map_of m k | _ \<Rightarrow> None)"

definition truthy :: "json option \<Rightarrow> bool" where
  "truthy v = (case v of None \<Rightarrow> False | Some JNull \<Rightarrow> False | Some (JBool b) \<Rightarrow> b
     | Some (JNum n) \<Rightarrow> n \<noteq> 0 | Some (JStr s) \<Rightarrow> s \<noteq> [] | Some _ \<Rightarrow> True)"

definition str_prop :: "string \<Rightarrow> json \<Rightarrow> string option" where
  "str_prop k v = (case jprop k v of Some (JStr s) \<Rightarrow> Some s | _ \<Rightarrow> None)"

section \<open>Printing\<close>

definition hex4 :: "nat \<Rightarrow> string" where
  "hex4 n = padStart 4 (CHR ''0'') (toStringRadix 16 n)"

definition escape_char :: "char \<Rightarrow> string" where
  "escape_char c =
     (if c = CHR 0x22 then [CHR 0x5C, CHR 0x22]
      else if c = CHR 0x5C then [CHR 0x5C, CHR 0x5C]
      else if code c = 8 then [CHR 0x5C, CHR ''b'']
      else if code c = 9 then [CHR 0x5C, CHR ''t'']
      else if code c = 10 then [CHR 0x5C, CHR ''n'']
      else if code c = 12 then [CHR 0x5C, CHR ''f'']
      else if code c = 13 then [CHR 0x5C, CHR ''r'']
      else if code c < 32 then CHR 0x5C # CHR ''u'' # hex4 (code c)
      else [c])"

definition string_text :: "string \<Rightarrow> string" where
  "string_text s = CHR 0x22 # concat (map escape_char s) @ [CHR 0x22]"

definition int_text :: "int \<Rightarrow> string" where
  "int_text n = (if n < 0 then CHR ''-'' # num_string (nat (- n)) else num_string (nat n))"

fun stringify :: "json \<Rightarrow> string" where
  "stringify JNull = ''null''"
| "stringify (JBool b) = (if b then ''true'' else ''false'')"
| "stringify (JNum n) = int_text n"
| "stringify (JDec d) = d"
| "stringify (JStr s) = string_text s"
| "stringify (JArr vs) = ''['' @ join '','' (map stringify vs) @ '']''"
| "stringify (JObj ms) =
     ''{'' @ join '','' (map (\<lambda>(k, v). string_text k @ '':'' @ stringify v) ms) @ ''}''"

section \<open>Parsing\<close>

definition is_json_ws :: "char \<Rightarrow> bool" where
  "is_json_ws c \<longleftrightarrow> code c \<in> {9, 10, 13, 32}"

abbreviation skip_ws :: "string \<Rightarrow> string" where
  "skip_ws s \<equiv> dropWhile is_json_ws s"

definition simple_escape :: "char \<Rightarrow> char option" where
  "simple_escape c =
     (if c = CHR 0x22 \<or> c = CHR 0x5C \<or> c = CHR ''/'' then Some c
      else if c = CHR ''b'' then Some (char_of (8::nat))
      else if c = CHR ''t'' then Some (char_of (9::nat))
      else if c = CHR ''n'' then Some (char_of (10::nat))
      else if c = CHR ''f'' then Some (char_of (12::nat))
      else if c = CHR ''r'' then Some (char_of (13::nat))
      else None)"

text \<open>A code unit above 255 is shown as the substitute character, as in \<open>utf8_decode\<close>.\<close>

definition unit_char :: "nat \<Rightarrow> char" where
  "unit_char n = (if n < 256 then char_of n else char_of (26::nat))"

definition cons_fst :: "'a \<Rightarrow> ('a list \<times> 'b) option \<Rightarrow> ('a list \<times> 'b) option" where
  "cons_fst a r = map_option (\<lambda>(as, b). (a # as, b)) r"

fun parse_chars :: "string \<Rightarrow> (string \<times> string) option" where
  "parse_chars [] = None"
| "parse_chars (c # r) =
     (if c = CHR 0x22 then Some ([], r)
      else if c = CHR 0x5C then
        (case r of
           [] \<Rightarrow> None
         | e # r1 \<Rightarrow>
             (case simple_escape e of
                Some x \<Rightarrow> cons_fst x (parse_chars r1)
              | None \<Rightarrow>
                  if e = CHR ''u'' then
                    (case r1 of
                       h1 # h2 # h3 # h4 # r2 \<Rightarrow>
                         if list_all is_hex_char [h1, h2, h3, h4]
                         then cons_fst (unit_char (hex_number [h1, h2, h3, h4])) (parse_chars r2)
                         else None
                     | _ \<Rightarrow> None)
                  else None))
      else if code c < 32 then None
      else cons_fst c (parse_chars r))"

definition digits_value :: "string \<Rightarrow> nat" where
  "digits_value s = foldl (\<lambda>n c. 10 * n + (code c - 48)) 0 s"

text \<open>A number: an integer part without superfluous leading zeros, then an optional fraction and an
  optional exponent.\<close>

definition take_frac :: "string \<Rightarrow> (string \<times> string) option" where
  "take_frac s =
     (case s of
        c # r \<Rightarrow>
          if c = CHR ''.'' then
            (let ds = takeWhile is_digit r
             in if ds = [] then None else Some (c # ds, dropWhile is_digit r))
          else Some ([], s)
      | [] \<Rightarrow> Some ([], []))"

definition take_exp :: "string \<Rightarrow> (string \<times> string) option" where
  "take_exp s =
     (case s of
        c # r \<Rightarrow>
          if c = CHR ''e'' \<or> c = CHR ''E'' then
            (let (sg, t) = (case r of d # t \<Rightarrow> if d = CHR ''-'' \<or> d = CHR ''+'' then ([d], t) else ([], r)
                             | [] \<Rightarrow> ([], []));
                 ds = takeWhile is_digit t
             in if ds = [] then None else Some (c # sg @ ds, dropWhile is_digit t))
          else Some ([], s)
      | [] \<Rightarrow> Some ([], []))"

definition parse_number :: "string \<Rightarrow> (json \<times> string) option" where
  "parse_number s =
     (let (neg, t) = (case s of c # t \<Rightarrow> if c = CHR ''-'' then (True, t) else (False, s)
                       | [] \<Rightarrow> (False, []));
          ds = takeWhile is_digit t;
          r = dropWhile is_digit t
      in if ds = [] \<or> (length ds > 1 \<and> hd ds = CHR ''0'') then None
         else case take_frac r of
                None \<Rightarrow> None
              | Some (fr, r1) \<Rightarrow>
                  (case take_exp r1 of
                     None \<Rightarrow> None
                   | Some (ex, r2) \<Rightarrow>
                       if fr = [] \<and> ex = []
                       then Some (JNum (if neg then - int (digits_value ds) else int (digits_value ds)), r2)
                       else Some (JDec ((if neg then ''-'' else []) @ ds @ fr @ ex), r2)))"

definition obj_put :: "string \<Rightarrow> json \<Rightarrow> (string \<times> json) list \<Rightarrow> (string \<times> json) list" where
  "obj_put k v m =
     (if k \<in> fst ` set m then map (\<lambda>(k', v'). if k' = k then (k', v) else (k', v')) m
      else m @ [(k, v)])"

definition obj_of :: "(string \<times> json) list \<Rightarrow> (string \<times> json) list" where
  "obj_of ms = foldl (\<lambda>m (k, v). obj_put k v m) [] ms"

text \<open>The recursive descent spends one unit of fuel per call; \<open>json_parse\<close> supplies one unit more
  than the input has characters.\<close>

fun parse_value :: "nat \<Rightarrow> string \<Rightarrow> (json \<times> string) option"
  and parse_elems :: "nat \<Rightarrow> string \<Rightarrow> (json list \<times> string) option"
  and parse_members :: "nat \<Rightarrow> string \<Rightarrow> ((string \<times> json) list \<times> string) option" where
  "parse_value 0 s = None"
| "parse_value (Suc n) s =
     (case skip_ws s of
        [] \<Rightarrow> None
      | c # r \<Rightarrow>
          if c = CHR 0x22 then map_option (\<lambda>(t, r1). (JStr t, r1)) (parse_chars r)
          else if c = CHR ''['' then
            (case skip_ws r of
               d # r1 \<Rightarrow> if d = CHR '']'' then Some (JArr [], r1)
                        else map_option (\<lambda>(vs, r2). (JArr vs, r2)) (parse_elems n r)
             | [] \<Rightarrow> None)
          else if c = CHR ''{'' then
            (case skip_ws r of
               d # r1 \<Rightarrow> if d = CHR ''}'' then Some (JObj [], r1)
                        else map_option (\<lambda>(ms, r2). (JObj (obj_of ms), r2)) (parse_members n r)
             | [] \<Rightarrow> None)
          else if startsWith (c # r) ''null'' then Some (JNull, drop 4 (c # r))
          else if startsWith (c # r) ''true'' then Some (JBool True, drop 4 (c # r))
          else if startsWith (c # r) ''false'' then Some (JBool False, drop 5 (c # r))
          else parse_number (c # r))"
| "parse_elems 0 s = None"
| "parse_elems (Suc n) s =
     (case parse_value n s of
        None \<Rightarrow> None
      | Some (v, r) \<Rightarrow>
          (case skip_ws r of
             [] \<Rightarrow> None
           | d # r1 \<Rightarrow> if d = CHR '']'' then Some ([v], r1)
                      else if d = CHR '','' then cons_fst v (parse_elems n r1)
                      else None))"
| "parse_members 0 s = None"
| "parse_members (Suc n) s =
     (case skip_ws s of
        [] \<Rightarrow> None
      | c # r \<Rightarrow>
          if c \<noteq> CHR 0x22 then None
          else case parse_chars r of
                 None \<Rightarrow> None
               | Some (k, r1) \<Rightarrow>
                   (case skip_ws r1 of
                      [] \<Rightarrow> None
                    | d # r2 \<Rightarrow>
                        if d \<noteq> CHR '':'' then None
                        else case parse_value n r2 of
                               None \<Rightarrow> None
                             | Some (v, r3) \<Rightarrow>
                                 (case skip_ws r3 of
                                    [] \<Rightarrow> None
                                  | e # r4 \<Rightarrow>
                                      if e = CHR ''}'' then Some ([(k, v)], r4)
                                      else if e = CHR '','' then cons_fst (k, v) (parse_members n r4)
                                      else None)))"

definition json_parse :: "string \<Rightarrow> json option" where
  "json_parse s =
     (case parse_value (Suc (length s)) s of
        None \<Rightarrow> None
      | Some (v, r) \<Rightarrow> if skip_ws r = [] then Some v else None)"

definition js_parse :: "string \<Rightarrow> js_error + json" where
  "js_parse s = (case json_parse s of None \<Rightarrow> throw_msg ''SyntaxError'' | Some v \<Rightarrow> Inr v)"

text \<open>A property access on \<open>null\<close> is an error, a missing property is refused by the core.\<close>

definition string_arg :: "json option \<Rightarrow> js_error + string" where
  "string_arg v = (case v of Some (JStr s) \<Rightarrow> Inr s | _ \<Rightarrow> throw_msg ''TypeError'')"

text \<open>\<open>value.key\<close> of a parsed value: an error on \<open>null\<close>, \<open>None\<close> for \<open>undefined\<close>.\<close>

definition access :: "string \<Rightarrow> json \<Rightarrow> js_error + json option" where
  "access k v = (if v = JNull then throw_msg ''TypeError'' else Inr (jprop k v))"

text \<open>A value converted to a string on its way into storage or a message.\<close>

definition to_text :: "json \<Rightarrow> string" where
  "to_text v = (case v of JStr s \<Rightarrow> s | _ \<Rightarrow> stringify v)"

section \<open>Round trip of printing and parsing\<close>

text \<open>Printable values: no kept number text, and objects without repeated keys.\<close>

fun wf_json :: "json \<Rightarrow> bool" where
  "wf_json (JDec _) = False"
| "wf_json (JArr vs) = list_all wf_json vs"
| "wf_json (JObj ms) = (distinct (map fst ms) \<and> list_all (\<lambda>(k, v). wf_json v) ms)"
| "wf_json _ = True"

subsection \<open>Strings\<close>

lemma hex4_table:
  "list_all (\<lambda>n. list_all is_hex_char (hex4 n) \<and> length (hex4 n) = 4 \<and> hex_number (hex4 n) = n) [0..<32]"
  by code_simp

lemma length_4_obtain: "length xs = 4 \<Longrightarrow> \<exists>a b c d. xs = [a, b, c, d]"
  by (auto simp: numeral_eq_Suc length_Suc_conv)

lemma parse_escape_char: "parse_chars (escape_char c @ s) = cons_fst c (parse_chars s)"
proof -
  consider "c = CHR 0x22" | "c = CHR 0x5C" | "code c \<in> {8, 9, 10, 12, 13}"
    | "code c < 32" "code c \<notin> {8, 9, 10, 12, 13}"
    | "\<not> code c < 32" "c \<noteq> CHR 0x22" "c \<noteq> CHR 0x5C"
    by blast
  then show ?thesis
  proof cases
    case 3
    then have "c \<in> char_of ` {8, 9, 10, 12, 13::nat}"
      by (metis char_of_char imageI)
    then show ?thesis by (auto simp: escape_char_def simple_escape_def)
  next
    case 4
    then have f: "list_all is_hex_char (hex4 (code c))" "length (hex4 (code c)) = 4"
      "hex_number (hex4 (code c)) = code c"
      using hex4_table by (simp_all add: list_all_iff)
    then obtain h1 h2 h3 h4 where h: "hex4 (code c) = [h1, h2, h3, h4]"
      using length_4_obtain by blast
    with f have hx: "list_all is_hex_char [h1, h2, h3, h4]" "hex_number [h1, h2, h3, h4] = code c"
      by simp_all
    have "escape_char c = CHR 0x5C # CHR ''u'' # [h1, h2, h3, h4]"
      using 4 h by (auto simp: escape_char_def)
    with hx show ?thesis
      by (simp add: simple_escape_def unit_char_def)
  qed (auto simp: escape_char_def simple_escape_def)
qed

lemma parse_chars_text:
  "parse_chars (concat (map escape_char s) @ CHR 0x22 # r) = Some (s, r)"
  by (induction s) (auto simp: parse_escape_char cons_fst_def)

subsection \<open>Integers\<close>

lemma takeWhile_app: "list_all P xs \<Longrightarrow> (r = [] \<or> \<not> P (hd r)) \<Longrightarrow> takeWhile P (xs @ r) = xs"
  by (induction xs) (auto, cases r, auto)

lemma dropWhile_app: "list_all P xs \<Longrightarrow> (r = [] \<or> \<not> P (hd r)) \<Longrightarrow> dropWhile P (xs @ r) = r"
  by (induction xs) (auto, cases r, auto)

lemma digits_value_snoc: "digits_value (s @ [c]) = 10 * digits_value s + (code c - 48)"
  by (simp add: digits_value_def)

lemma digits_value_num_string: "digits_value (num_string n) = n"
proof (induction n rule: less_induct)
  case (less n)
  show ?case
  proof (cases "n < 10")
    case True
    then show ?thesis
      by (simp add: toStringRadix.simps [of 10 n] digits_value_def code_digit_char)
  next
    case False
    then have "n div 10 < n" by simp
    with less have "digits_value (num_string (n div 10)) = n div 10" by blast
    with False show ?thesis
      by (simp add: toStringRadix.simps [of 10 n] digits_value_snoc code_digit_char)
  qed
qed

lemma num_string_no_zero: "0 < n \<Longrightarrow> hd (num_string n) \<noteq> CHR ''0''"
proof (induction n rule: less_induct)
  case (less n)
  show ?case
  proof (cases "n < 10")
    case True
    with less.prems digit_char_inj [of n 0] show ?thesis
      by (simp add: toStringRadix.simps [of 10 n] digit_char_0 [symmetric])
  next
    case False
    then have "n div 10 < n" "0 < n div 10" by auto
    with less have "hd (num_string (n div 10)) \<noteq> CHR ''0''" by blast
    with False show ?thesis
      by (simp add: toStringRadix.simps [of 10 n])
  qed
qed

lemma num_string_canonical: "\<not> (length (num_string n) > 1 \<and> hd (num_string n) = CHR ''0'')"
  by (cases "n = 0") (auto simp: num_string_no_zero toStringRadix.simps [of 10 0])

text \<open>What may follow a number in printed JSON.\<close>

definition ends_number :: "string \<Rightarrow> bool" where
  "ends_number r \<longleftrightarrow> r = [] \<or> hd r \<in> {CHR '','', CHR '']'', CHR ''}''}"

lemma ends_number_cases:
  assumes "ends_number r"
  shows "r = [] \<or> \<not> is_digit (hd r)" and "take_frac r = Some ([], r)" and "take_exp r = Some ([], r)"
  using assms by (cases r; auto simp: ends_number_def is_digit_def take_frac_def take_exp_def)+

lemma num_string_all_digits: "list_all is_digit (num_string n)"
  by (simp add: list_all_iff num_string_digits)

lemma parse_number_int_text:
  assumes "ends_number r"
  shows "parse_number (int_text n @ r) = Some (JNum n, r)"
proof -
  note e = ends_number_cases [OF assms]
  have tw: "takeWhile is_digit (num_string k @ r) = num_string k"
    and dw: "dropWhile is_digit (num_string k @ r) = r" for k
    using takeWhile_app [OF num_string_all_digits e(1)] dropWhile_app [OF num_string_all_digits e(1)]
    by blast+
  have hd: "\<exists>c t. num_string k @ r = c # t \<and> c \<noteq> CHR ''-''" for k
    using num_string_all_digits [of k]
    by (cases "num_string k") (auto simp: is_digit_def)
  show ?thesis
  proof (cases "n < 0")
    case True
    with e(2,3) tw dw num_string_canonical show ?thesis
      by (simp add: parse_number_def int_text_def digits_value_num_string Let_def)
  next
    case False
    obtain c t where ct: "num_string (nat n) @ r = c # t" "c \<noteq> CHR ''-''"
      using hd by blast
    then have "parse_number (c # t) = Some (JNum n, r)"
      using False e(2,3) tw [of "nat n"] dw [of "nat n"] num_string_canonical [of "nat n"]
      by (simp add: parse_number_def digits_value_num_string Let_def)
    with False ct show ?thesis by (simp add: int_text_def)
  qed
qed

lemma int_text_first:
  "\<exists>c t. int_text n @ r = c # t \<and> (c = CHR ''-'' \<or> is_digit c)"
  using num_string_all_digits [of "nat n"]
  by (cases "num_string (nat n)") (auto simp: int_text_def)

subsection \<open>Objects\<close>

lemma obj_of_distinct_aux:
  "distinct (map fst (m @ ms)) \<Longrightarrow> foldl (\<lambda>m (k, v). obj_put k v m) m ms = m @ ms"
proof (induction ms arbitrary: m)
  case Nil
  then show ?case by simp
next
  case (Cons kv ms)
  obtain k v where kv: "kv = (k, v)" by fastforce
  with Cons.prems have "obj_put k v m = m @ [(k, v)]" by (auto simp: obj_put_def)
  with Cons kv show ?case by simp
qed

lemma obj_of_distinct: "distinct (map fst ms) \<Longrightarrow> obj_of ms = ms"
  by (simp add: obj_of_def obj_of_distinct_aux)

subsection \<open>Values\<close>

lemma separators [simp]:
  "\<not> is_json_ws (CHR '']'')" "\<not> is_json_ws (CHR ''}'')" "\<not> is_json_ws (CHR '','')"
  "\<not> is_json_ws (CHR '':'')" "\<not> is_json_ws (CHR 0x22)" "\<not> is_json_ws (CHR ''['')"
  "\<not> is_json_ws (CHR ''{'')"
  by code_simp+

lemma ends_number_Cons [simp]:
  "ends_number (CHR '']'' # r)" "ends_number (CHR ''}'' # r)" "ends_number (CHR '','' # r)"
  by (simp_all add: ends_number_def)

lemma number_first: "c = CHR ''-'' \<or> is_digit c \<Longrightarrow>
    \<not> is_json_ws c \<and> c \<notin> {CHR 0x22, CHR ''['', CHR ''{'', CHR '']'', CHR ''}'', CHR ''n'', CHR ''t'', CHR ''f''}"
  by (auto simp: is_digit_def is_json_ws_def)

lemma stringify_first:
  assumes "wf_json v"
  shows "\<exists>c t. stringify v @ r = c # t \<and> \<not> is_json_ws c \<and> c \<noteq> CHR '']'' \<and> c \<noteq> CHR ''}''"
proof (cases v)
  case (JNum n)
  obtain c t where "int_text n @ r = c # t" "c = CHR ''-'' \<or> is_digit c"
    using int_text_first by blast
  with JNum number_first [of c] show ?thesis by auto
qed (use assms in \<open>auto simp: string_text_def is_json_ws_def\<close>)

lemma parse_number_value:
  assumes "ends_number r"
  shows "parse_value (Suc n) (int_text i @ r) = Some (JNum i, r)"
proof -
  obtain c t where ct: "int_text i @ r = c # t" and c: "c = CHR ''-'' \<or> is_digit c"
    using int_text_first by blast
  with number_first [OF c] show ?thesis
    using parse_number_int_text [OF assms, of i] by (simp add: startsWith_def)
qed

lemma parse_string_value: "parse_value (Suc n) (string_text s @ r) = Some (JStr s, r)"
  by (simp add: string_text_def parse_chars_text)

text \<open>Arrays and objects, given that their elements parse back.\<close>

lemma parse_elems_text:
  assumes "vs \<noteq> []"
    and "\<And>v r n. v \<in> set vs \<Longrightarrow> ends_number r \<Longrightarrow> length (stringify v) \<le> n \<Longrightarrow>
           parse_value n (stringify v @ r) = Some (v, r)"
    and "length (join '','' (map stringify vs)) < n"
  shows "parse_elems n (join '','' (map stringify vs) @ CHR '']'' # r) = Some (vs, r)"
  using assms
proof (induction vs arbitrary: n)
  case Nil
  then show ?case by simp
next
  case (Cons v vs)
  then obtain m where m: "n = Suc m" by (cases n) auto
  show ?case
  proof (cases vs)
    case Nil
    with Cons.prems m show ?thesis by simp
  next
    case (Cons w ws)
    have "parse_value m (stringify v @ CHR '','' # join '','' (map stringify vs) @ CHR '']'' # r)
        = Some (v, CHR '','' # join '','' (map stringify vs) @ CHR '']'' # r)"
      using Cons.prems(3) m Cons by (intro Cons.prems(2)) auto
    moreover have "parse_elems m (join '','' (map stringify vs) @ CHR '']'' # r) = Some (vs, r)"
      using Cons.prems m Cons by (intro Cons.IH) auto
    ultimately show ?thesis using m Cons by (simp add: cons_fst_def)
  qed
qed

abbreviation member_text :: "string \<times> json \<Rightarrow> string" where
  "member_text \<equiv> \<lambda>(k, v). string_text k @ '':'' @ stringify v"

lemma parse_members_text:
  assumes "ms \<noteq> []"
    and "\<And>k v r n. (k, v) \<in> set ms \<Longrightarrow> ends_number r \<Longrightarrow> length (stringify v) \<le> n \<Longrightarrow>
           parse_value n (stringify v @ r) = Some (v, r)"
    and "length (join '','' (map member_text ms)) < n"
  shows "parse_members n (join '','' (map member_text ms) @ CHR ''}'' # r) = Some (ms, r)"
  using assms
proof (induction ms arbitrary: n)
  case Nil
  then show ?case by simp
next
  case (Cons kv ms)
  obtain k v where kv: "kv = (k, v)" by fastforce
  from Cons.prems obtain m where m: "n = Suc m" by (cases n) auto
  show ?case
  proof (cases ms)
    case Nil
    with Cons.prems m kv show ?thesis
      by (simp add: string_text_def parse_chars_text)
  next
    case (Cons w ws)
    have "parse_value m (stringify v @ CHR '','' # join '','' (map member_text ms) @ CHR ''}'' # r)
        = Some (v, CHR '','' # join '','' (map member_text ms) @ CHR ''}'' # r)"
      using Cons.prems(3) m kv Cons by (intro Cons.prems(2) [of k]) auto
    moreover have "parse_members m (join '','' (map member_text ms) @ CHR ''}'' # r) = Some (ms, r)"
      using Cons.prems m kv Cons by (intro Cons.IH) auto
    ultimately show ?thesis using m kv Cons
      by (simp add: string_text_def parse_chars_text cons_fst_def)
  qed
qed

lemma join_first:
  "ws \<noteq> [] \<Longrightarrow> hd ws = c # t \<Longrightarrow> \<exists>u. join d ws @ r = c # u"
  by (cases ws; cases "tl ws") auto

lemma parse_value_stringify:
  "wf_json v \<Longrightarrow> ends_number r \<Longrightarrow> length (stringify v) \<le> n \<Longrightarrow>
   parse_value n (stringify v @ r) = Some (v, r)"
proof (induction v arbitrary: r n rule: stringify.induct)
  case 1
  then show ?case by (cases n) (auto simp: startsWith_def is_json_ws_def)
next
  case (2 b)
  then show ?case by (cases n; cases b) (auto simp: startsWith_def is_json_ws_def)
next
  case (3 i)
  then obtain m where "n = Suc m" by (cases n) (auto simp: int_text_def split: if_splits)
  with 3 show ?case by (simp add: parse_number_value del: parse_value.simps)
next
  case (4 d)
  then show ?case by simp
next
  case (5 s)
  then obtain m where "n = Suc m" by (cases n) (auto simp: string_text_def)
  then show ?case by (simp add: parse_string_value del: parse_value.simps)
next
  case (6 vs)
  then obtain m where m: "n = Suc m" by (cases n) auto
  show ?case
  proof (cases vs)
    case Nil
    with m show ?thesis by simp
  next
    case (Cons w ws)
    then obtain c t where "stringify w @ [] = c # t" "\<not> is_json_ws c" "c \<noteq> CHR '']''"
      using stringify_first [of w "[]"] "6.prems"(1) by auto
    then obtain u where u: "join '','' (map stringify vs) @ CHR '']'' # r = c # u"
      and c: "\<not> is_json_ws c" "c \<noteq> CHR '']''"
      using join_first [of "map stringify vs" c t "'',''" "CHR '']'' # r"] Cons by auto
    have "parse_elems m (join '','' (map stringify vs) @ CHR '']'' # r) = Some (vs, r)"
      using 6 m Cons by (intro parse_elems_text) (auto simp: list_all_iff)
    with m u c show ?thesis by simp
  qed
next
  case (7 ms)
  then obtain m where m: "n = Suc m" by (cases n) auto
  show ?case
  proof (cases ms)
    case Nil
    with m show ?thesis by simp
  next
    case (Cons w ws)
    obtain u where u: "join '','' (map member_text ms) @ CHR ''}'' # r = CHR 0x22 # u"
      using join_first [of "map member_text ms" "CHR 0x22" _ "'',''" "CHR ''}'' # r"] Cons
      by (cases w) (auto simp: string_text_def)
    have IH: "parse_value n' (stringify v @ r') = Some (v, r')"
      if "(k, v) \<in> set ms" "ends_number r'" "length (stringify v) \<le> n'" for k v r' n'
      using that "7.prems"(1) by (intro "7.IH" [OF that(1) refl]) (auto simp: list_all_iff)
    have "parse_members m (join '','' (map member_text ms) @ CHR ''}'' # r) = Some (ms, r)"
      using Cons m "7.prems"(3) by (intro parse_members_text IH) auto
    with m u "7.prems"(1) show ?thesis by (simp add: obj_of_distinct)
  qed
qed

theorem json_roundtrip: "wf_json v \<Longrightarrow> json_parse (stringify v) = Some v"
  using parse_value_stringify [of v "[]" "Suc (length (stringify v))"]
  by (simp add: json_parse_def ends_number_def del: parse_value.simps)

end
