(* ===== verification/Message_Crypto.thy ===== *)
theory Message_Crypto
  imports Json
begin

text \<open>
  Client-side envelopes and mailbox keys: \<open>apps/webmail/src/message_crypto.ts\<close> and
  \<open>apps/webmail/src/attachment_crypto.ts\<close>.

  The cryptographic core is WebAssembly produced by the build and is a parameter: a record of its
  exported functions on hexadecimal strings. Functions of the core that draw random numbers take the
  bytes they draw as their first argument. What the clients rely on is stated by the predicates
  \<open>aead_correct\<close>, \<open>aead_authentic\<close>, \<open>passphrase_correct\<close> and \<open>mailbox_wrap_correct\<close>, and is shown
  to be satisfiable by a concrete core at the end.
\<close>

section \<open>The crypto core\<close>

record wasm_core =
  wasm_aes_gcm_encrypt :: "byte list \<Rightarrow> string \<Rightarrow> string \<Rightarrow> string \<Rightarrow> js_error + string"
  wasm_aes_gcm_decrypt :: "string \<Rightarrow> string \<Rightarrow> string \<Rightarrow> js_error + string"
  wasm_recover_root_secret :: "string \<Rightarrow> js_error + string"
  wasm_wrap_mailbox_key :: "byte list \<Rightarrow> string \<Rightarrow> string \<Rightarrow> string \<Rightarrow> js_error + string"
  wasm_unwrap_mailbox_key :: "string \<Rightarrow> string \<Rightarrow> string \<Rightarrow> js_error + string"
  wasm_passphrase_wrap_key :: "byte list \<Rightarrow> string \<Rightarrow> string \<Rightarrow> string \<Rightarrow> js_error + string"
  wasm_passphrase_unwrap_key :: "string \<Rightarrow> string \<Rightarrow> string \<Rightarrow> js_error + string"
  wasm_canonical_aad :: "string \<Rightarrow> nat \<Rightarrow> nat \<Rightarrow> js_error + string"
  wasm_hpke_open :: "string \<Rightarrow> string \<Rightarrow> string \<Rightarrow> js_error + string"
  wasm_hpke_seal :: "byte list \<Rightarrow> string \<Rightarrow> string \<Rightarrow> string \<Rightarrow> js_error + string"
  wasm_derive_search_key :: "string \<Rightarrow> js_error + string"
  wasm_derive_root_secret :: "string \<Rightarrow> js_error + string"
  wasm_generate_keypair :: "byte list \<Rightarrow> js_error + string"
  wasm_generate_mnemonic :: "byte list \<Rightarrow> js_error + string"
  wasm_encrypt_outbound :: "byte list \<Rightarrow> string \<Rightarrow> string \<Rightarrow> nat \<Rightarrow> string \<Rightarrow> js_error + string"

text \<open>AES-GCM in the core: whatever the nonce, a 32 byte key decrypts what it encrypted under the
  same associated data.\<close>

definition aead_correct :: "wasm_core \<Rightarrow> bool" where
  "aead_correct W \<longleftrightarrow>
     (\<forall>rnd k p a. length k = 32 \<longrightarrow>
        (\<exists>e. wasm_aes_gcm_encrypt W rnd (bytesToHex k) (bytesToHex p) (bytesToHex a) = Inr (bytesToHex e)
           \<and> wasm_aes_gcm_decrypt W (bytesToHex k) (bytesToHex e) (bytesToHex a) = Inr (bytesToHex p)))"

text \<open>An envelope opens under no other associated data ("fails closed").\<close>

definition aead_authentic :: "wasm_core \<Rightarrow> bool" where
  "aead_authentic W \<longleftrightarrow>
     (\<forall>rnd k p a a' e. wasm_aes_gcm_encrypt W rnd (bytesToHex k) (bytesToHex p) (bytesToHex a) = Inr (bytesToHex e) \<longrightarrow>
        a' \<noteq> a \<longrightarrow> \<not> is_ok (wasm_aes_gcm_decrypt W (bytesToHex k) (bytesToHex e) (bytesToHex a')))"

text \<open>The passphrase wrap (Argon2id and AES-GCM): a 16 byte salt is required.\<close>

definition passphrase_correct :: "wasm_core \<Rightarrow> bool" where
  "passphrase_correct W \<longleftrightarrow>
     (\<forall>rnd pw salt p. length salt = 16 \<longrightarrow>
        (\<exists>e. wasm_passphrase_wrap_key W rnd pw (bytesToHex salt) (bytesToHex p) = Inr (bytesToHex e)
           \<and> wasm_passphrase_unwrap_key W pw (bytesToHex salt) (bytesToHex e) = Inr (bytesToHex p)))"

text \<open>The mailbox key wrap under the root secret: the mailbox id must be 16 bytes.\<close>

definition mailbox_wrap_correct :: "wasm_core \<Rightarrow> bool" where
  "mailbox_wrap_correct W \<longleftrightarrow>
     (\<forall>rnd root sk mid. length root = 32 \<longrightarrow> length sk = 32 \<longrightarrow> length mid = 16 \<longrightarrow>
        (\<exists>e. e \<noteq> [] \<and> wasm_wrap_mailbox_key W rnd (bytesToHex root) (bytesToHex sk) (bytesToHex mid) = Inr (bytesToHex e)
           \<and> wasm_unwrap_mailbox_key W (bytesToHex root) (bytesToHex e) (bytesToHex mid) = Inr (bytesToHex sk)))"

section \<open>Attachments\<close>

definition encryptAttachmentBytes ::
  "wasm_core \<Rightarrow> byte list \<Rightarrow> byte list \<Rightarrow> byte list \<Rightarrow> byte list \<Rightarrow> js_error + byte list" where
  "encryptAttachmentBytes W rnd plaintextBytes keyBytes aadBytes =
     (if length keyBytes \<noteq> 32 then throw_msg ''Mailbox encryption key must be exactly 32 bytes''
      else bind_err
        (wasm_aes_gcm_encrypt W rnd (bytesToHex keyBytes) (bytesToHex plaintextBytes) (bytesToHex aadBytes))
        hexToBytes)"

definition decryptAttachmentBytes ::
  "wasm_core \<Rightarrow> byte list \<Rightarrow> byte list \<Rightarrow> byte list \<Rightarrow> js_error + byte list" where
  "decryptAttachmentBytes W envelopeBytes keyBytes aadBytes =
     (if length keyBytes \<noteq> 32 then throw_msg ''Mailbox encryption key must be exactly 32 bytes''
      else bind_err
        (wasm_aes_gcm_decrypt W (bytesToHex keyBytes) (bytesToHex envelopeBytes) (bytesToHex aadBytes))
        hexToBytes)"

section \<open>Mailbox identifiers and keys\<close>

definition DRAFT_AAD_PREFIX :: string where
  "DRAFT_AAD_PREFIX = ''byos-draft-v1''"

definition CONTACT_AAD_PREFIX :: string where
  "CONTACT_AAD_PREFIX = ''byos-contact-v1''"

definition mailboxIdHex :: "string \<Rightarrow> js_error + string" where
  "mailboxIdHex mailboxId =
     (let hex = toLowerCase (filter (\<lambda>c. c \<noteq> CHR ''-'') mailboxId)
      in if length hex = 32 \<and> list_all is_lower_hex hex then Inr hex
         else throw_msg ''Invalid mailbox ID'')"

text \<open>\<open>/^[0-9a-fA-F]{64}$/\<close>\<close>

definition is_key_hex :: "string \<Rightarrow> bool" where
  "is_key_hex s \<longleftrightarrow> length s = 64 \<and> list_all is_hex_char s"

text \<open>The length check that ends every unwrap: \<open>hexToBytes\<close>, then 32 bytes or an error.\<close>

definition checked_key :: "string \<Rightarrow> string \<Rightarrow> js_error + byte list" where
  "checked_key msg skHex =
     bind_err (hexToBytes skHex) (\<lambda>sk. if length sk \<noteq> 32 then throw_msg msg else Inr sk)"

definition unlockMailboxKey ::
  "wasm_core \<Rightarrow> string \<Rightarrow> string \<Rightarrow> string \<Rightarrow> js_error + byte list" where
  "unlockMailboxKey W mnemonic mailboxId mailboxSkWrappedB64 =
     (let words = trim mnemonic
      in if words = [] then throw_msg ''Recovery phrase is required to unlock the mailbox.''
         else if is_key_hex words then hexToBytes words
         else bind_err (wasm_recover_root_secret W words) (\<lambda>rootHex.
              bind_err (base64ToBytes mailboxSkWrappedB64) (\<lambda>wrapped.
              bind_err (mailboxIdHex mailboxId) (\<lambda>mid.
              bind_err (wasm_unwrap_mailbox_key W rootHex (bytesToHex wrapped) mid)
                (checked_key ''Mailbox key unwrap failed.'')))))"

text \<open>\<open>parsed.a || parsed.b || ""\<close>\<close>

definition first_prop :: "string \<Rightarrow> string \<Rightarrow> json \<Rightarrow> json" where
  "first_prop a b v =
     (if truthy (jprop a v) then the (jprop a v)
      else if truthy (jprop b v) then the (jprop b v) else JStr [])"

text \<open>The two parts of a stored \<open>wrapped_sk_user\<close>: a JSON object, \<open>salt:envelope\<close>, or the salt
  followed by the envelope.\<close>

definition wrapped_parts :: "string \<Rightarrow> js_error + json \<times> json" where
  "wrapped_parts trimmed =
     (if startsWith trimmed ''{'' then
        (case json_parse trimmed of
           None \<Rightarrow> throw_msg ''Invalid wrapped_sk_user JSON payload''
         | Some parsed \<Rightarrow> Inr (first_prop ''salt'' ''salt_hex'' parsed,
                                first_prop ''envelope'' ''envelope_hex'' parsed))
      else if str_includes trimmed '':'' then
        (let parts = split_char (CHR '':'') trimmed in Inr (JStr (parts ! 0), JStr (parts ! 1)))
      else if 32 \<le> length trimmed then Inr (JStr (take 32 trimmed), JStr (drop 32 trimmed))
      else throw_msg ''Invalid wrapped_sk_user format'')"

text \<open>The core's functions take strings; its binding refuses any other value.\<close>

definition as_string :: "json \<Rightarrow> js_error + string" where
  "as_string v = (case v of JStr s \<Rightarrow> Inr s | _ \<Rightarrow> throw_msg ''expected a string argument'')"

text \<open>\<open>v.length === n\<close> on a parsed value: strings and arrays have a length, an object has it when it has
  a property of that name.\<close>

definition has_length :: "nat \<Rightarrow> json \<Rightarrow> bool" where
  "has_length n v = (case v of
       JStr s \<Rightarrow> length s = n
     | JArr vs \<Rightarrow> length vs = n
     | JObj ms \<Rightarrow> jprop ''length'' v = Some (JNum (int n))
     | _ \<Rightarrow> False)"

definition autoUnwrapMailboxKey :: "wasm_core \<Rightarrow> string \<Rightarrow> string \<Rightarrow> js_error + byte list" where
  "autoUnwrapMailboxKey W password wrappedSkUser =
     (let trimmed = trim wrappedSkUser
      in if trimmed = [] then throw_msg ''Missing wrapped_sk_user''
         else bind_err (wrapped_parts trimmed) (\<lambda>(salt, envelope).
              if \<not> has_length 32 salt
              then throw_msg ''Invalid salt length: must be 16 bytes (32 hex characters)''
              else bind_err (as_string salt) (\<lambda>saltHex.
                   bind_err (as_string envelope) (\<lambda>envelopeHex.
                   bind_err (wasm_passphrase_unwrap_key W password saltHex envelopeHex)
                     (checked_key ''Unwrapped mailbox key is invalid length'')))))"

definition unwrapMailboxKeyWithRecoveryPhrase ::
  "wasm_core \<Rightarrow> string \<Rightarrow> string \<Rightarrow> string \<Rightarrow> js_error + byte list" where
  "unwrapMailboxKeyWithRecoveryPhrase W mnemonicPhrase mailboxId wrappedSkUser =
     (let trimmed = trim wrappedSkUser
      in if trimmed = [] then throw_msg ''Missing wrapped mailbox key''
         else bind_err (wasm_recover_root_secret W (trim mnemonicPhrase)) (\<lambda>rootHex.
              bind_err (mailboxIdHex mailboxId) (\<lambda>boxIdHex.
              let target = (if startsWith trimmed ''{'' then
                              (case json_parse trimmed of
                                 Some parsed \<Rightarrow>
                                   if truthy (jprop ''root_wrapped'' parsed)
                                   then the (jprop ''root_wrapped'' parsed) else JStr trimmed
                               | None \<Rightarrow> JStr trimmed)
                            else JStr trimmed)
              in bind_err (as_string target) (\<lambda>targetEnvelopeHex.
                 bind_err (wasm_unwrap_mailbox_key W rootHex targetEnvelopeHex boxIdHex)
                   (checked_key ''Unwrapped mailbox key is invalid length'')))))"

definition wrapMailboxKeyWithPassphrase ::
  "wasm_core \<Rightarrow> byte list \<Rightarrow> byte list \<Rightarrow> string \<Rightarrow> byte list \<Rightarrow> js_error + string" where
  "wrapMailboxKeyWithPassphrase W salt rnd password mailboxSk =
     bind_err (wasm_passphrase_wrap_key W rnd password (bytesToHex salt) (bytesToHex mailboxSk))
       (\<lambda>envelopeHex. Inr (bytesToHex salt @ '':'' @ envelopeHex))"

section \<open>Messages, drafts and contacts\<close>

record message_input =
  message_seq :: rat
  encryption_version :: nat
  encrypted_body :: string
  content_key_hpke_wrapped :: string

definition is_integer :: "rat \<Rightarrow> bool" where
  "is_integer x \<longleftrightarrow> of_int \<lfloor>x\<rfloor> = x"

definition decryptMessageEnvelope ::
  "wasm_core \<Rightarrow> byte list \<Rightarrow> string \<Rightarrow> message_input \<Rightarrow> js_error + string" where
  "decryptMessageEnvelope W mailboxKey mailboxId input =
     (if \<not> is_integer (message_seq input) \<or> message_seq input < 0
      then throw_msg ''Invalid message sequence.''
      else bind_err (mailboxIdHex mailboxId) (\<lambda>mid.
           bind_err (wasm_canonical_aad W mid (nat \<lfloor>message_seq input\<rfloor>) (encryption_version input)) (\<lambda>aad.
           bind_err (base64ToBytes (content_key_hpke_wrapped input)) (\<lambda>wrapped.
           bind_err (wasm_hpke_open W (bytesToHex mailboxKey) (bytesToHex wrapped) aad) (\<lambda>contentKeyHex.
           bind_err (base64ToBytes (encrypted_body input)) (\<lambda>body.
           bind_err (wasm_aes_gcm_decrypt W contentKeyHex (bytesToHex body) aad) (\<lambda>plaintextHex.
           bind_err (hexToBytes plaintextHex) (\<lambda>bs. Inr (utf8_decode bs)))))))))"

definition envelopeAadHex :: "string \<Rightarrow> string \<Rightarrow> js_error + string" where
  "envelopeAadHex mailboxId prefix =
     bind_err (mailboxIdHex mailboxId) (\<lambda>mid.
     bind_err (hexToBytes mid) (\<lambda>midBytes. Inr (bytesToHex (utf8_encode prefix @ midBytes))))"

definition draftAadHex :: "string \<Rightarrow> js_error + string" where
  "draftAadHex mailboxId = envelopeAadHex mailboxId DRAFT_AAD_PREFIX"

definition encryptDraftEnvelope ::
  "wasm_core \<Rightarrow> byte list \<Rightarrow> byte list \<Rightarrow> string \<Rightarrow> string \<Rightarrow> js_error + string" where
  "encryptDraftEnvelope W rnd mailboxKey mailboxId plaintext =
     bind_err (draftAadHex mailboxId) (\<lambda>aad.
     bind_err (wasm_aes_gcm_encrypt W rnd (bytesToHex mailboxKey) (bytesToHex (utf8_encode plaintext)) aad)
       (\<lambda>envelopeHex. bind_err (hexToBytes envelopeHex) (\<lambda>bs. Inr (bytesToBase64 bs))))"

definition decryptDraftEnvelope ::
  "wasm_core \<Rightarrow> byte list \<Rightarrow> string \<Rightarrow> string \<Rightarrow> js_error + string" where
  "decryptDraftEnvelope W mailboxKey mailboxId envelopeB64 =
     bind_err (base64ToBytes envelopeB64) (\<lambda>envelope.
     bind_err (draftAadHex mailboxId) (\<lambda>aad.
     bind_err (wasm_aes_gcm_decrypt W (bytesToHex mailboxKey) (bytesToHex envelope) aad) (\<lambda>plaintextHex.
     bind_err (hexToBytes plaintextHex) (\<lambda>bs. Inr (utf8_decode bs)))))"

record contact_plaintext =
  c_name :: string
  c_email :: string
  c_notes :: string

definition contact_json :: "contact_plaintext \<Rightarrow> json" where
  "contact_json c =
     JObj [(''name'', JStr (c_name c)), (''email'', JStr (c_email c)), (''notes'', JStr (c_notes c))]"

definition encryptContactEnvelope ::
  "wasm_core \<Rightarrow> byte list \<Rightarrow> byte list \<Rightarrow> string \<Rightarrow> contact_plaintext \<Rightarrow> js_error + string" where
  "encryptContactEnvelope W rnd mailboxKey mailboxId contact =
     bind_err (envelopeAadHex mailboxId CONTACT_AAD_PREFIX) (\<lambda>aad.
     bind_err (wasm_aes_gcm_encrypt W rnd (bytesToHex mailboxKey)
                 (bytesToHex (utf8_encode (stringify (contact_json contact)))) aad)
       (\<lambda>envelopeHex. bind_err (hexToBytes envelopeHex) (\<lambda>bs. Inr (bytesToBase64 bs))))"

text \<open>\<open>parsed.name\<close> of a parsed text: a property of \<open>null\<close> is an error, of any other value but an
  object it is \<open>undefined\<close>.\<close>

definition decryptContactEnvelope ::
  "wasm_core \<Rightarrow> byte list \<Rightarrow> string \<Rightarrow> string \<Rightarrow> js_error + contact_plaintext" where
  "decryptContactEnvelope W mailboxKey mailboxId envelopeB64 =
     bind_err (base64ToBytes envelopeB64) (\<lambda>envelope.
     bind_err (envelopeAadHex mailboxId CONTACT_AAD_PREFIX) (\<lambda>aad.
     bind_err (wasm_aes_gcm_decrypt W (bytesToHex mailboxKey) (bytesToHex envelope) aad) (\<lambda>plaintextHex.
     bind_err (hexToBytes plaintextHex) (\<lambda>bs.
       (case json_parse (utf8_decode bs) of
          None \<Rightarrow> throw_msg ''SyntaxError''
        | Some JNull \<Rightarrow> throw_msg ''TypeError''
        | Some parsed \<Rightarrow>
            (let field = (\<lambda>k. case str_prop k parsed of Some s \<Rightarrow> s | None \<Rightarrow> [])
             in Inr \<lparr>c_name = field ''name'', c_email = field ''email'', c_notes = field ''notes''\<rparr>))))))"

section \<open>Search\<close>

definition deriveSearchKeyFromMnemonic :: "wasm_core \<Rightarrow> string \<Rightarrow> js_error + string" where
  "deriveSearchKeyFromMnemonic W mnemonic =
     (let words = trim mnemonic
      in if is_key_hex words then wasm_derive_search_key W words
         else bind_err (wasm_recover_root_secret W words) (wasm_derive_search_key W))"

text \<open>\<open>hmac hash key data\<close> stands for the platform's \<open>importKey\<close> and \<open>sign\<close>.\<close>

definition computeSearchToken ::
  "(string \<Rightarrow> byte list \<Rightarrow> byte list \<Rightarrow> js_error + byte list) \<Rightarrow> string \<Rightarrow> string \<Rightarrow> js_error + string" where
  "computeSearchToken hmac searchKeyHex term =
     (let normalized = toLowerCase (trim term)
      in if normalized = [] then Inr []
         else bind_err (hexToBytes searchKeyHex) (\<lambda>keyBytes.
              bind_err (hmac ''SHA-256'' keyBytes (utf8_encode normalized)) (\<lambda>sig. Inr (bytesToHex sig))))"

text \<open>\<open>\p{L}\<close> and \<open>\p{N}\<close> on the code units of the model.\<close>

definition is_letter :: "char \<Rightarrow> bool" where
  "is_letter c \<longleftrightarrow> is_upper_ascii c \<or> is_lower_ascii c \<or> code c \<in> {170, 181, 186}
     \<or> (192 \<le> code c \<and> code c \<noteq> 215 \<and> code c \<noteq> 247)"

definition is_number_char :: "char \<Rightarrow> bool" where
  "is_number_char c \<longleftrightarrow> is_digit c \<or> code c \<in> {178, 179, 185, 188, 189, 190}"

text \<open>\<open>Array.from(new Set(xs))\<close>: first occurrences, in order.\<close>

fun uniq_acc :: "'a list \<Rightarrow> 'a list \<Rightarrow> 'a list" where
  "uniq_acc seen [] = []"
| "uniq_acc seen (x # xs) = (if x \<in> set seen then uniq_acc seen xs else x # uniq_acc (x # seen) xs)"

definition uniq :: "'a list \<Rightarrow> 'a list" where
  "uniq xs = uniq_acc [] xs"

definition extractKeywords :: "string \<Rightarrow> string list" where
  "extractKeywords text =
     uniq (filter (\<lambda>w. 2 \<le> length w \<and> length w \<le> 64)
       (map trim (split_ws
         (map (\<lambda>c. if is_letter c \<or> is_number_char c \<or> is_ws c then c else CHR '' '') (toLowerCase text)))))"

section \<open>A concrete core\<close>

text \<open>
  An instance of the parameter that satisfies every hypothesis. It stores the associated data in front
  of the plaintext, which no encryption does, and is used only to show that the hypotheses hold
  together.
\<close>

definition toy_seal :: "string \<Rightarrow> string \<Rightarrow> string" where
  "toy_seal aad p = replicate (length aad) (CHR ''0'') @ ''01'' @ aad @ p"

definition toy_open :: "string \<Rightarrow> string \<Rightarrow> js_error + string" where
  "toy_open aad e =
     (if startsWith e (toy_seal aad []) then Inr (drop (length (toy_seal aad [])) e)
      else throw_msg ''aead::Error'')"

definition toy_core :: wasm_core where
  "toy_core =
     \<lparr>wasm_aes_gcm_encrypt = (\<lambda>rnd k p aad. if length k = 64 then Inr (toy_seal aad p) else throw_msg ''key''),
      wasm_aes_gcm_decrypt = (\<lambda>k e aad. if length k = 64 then toy_open aad e else throw_msg ''key''),
      wasm_recover_root_secret = (\<lambda>m. Inr (bytesToHex (replicate 32 7))),
      wasm_wrap_mailbox_key = (\<lambda>rnd root sk mid. if length mid = 32 then Inr (toy_seal mid sk) else throw_msg ''mailbox_id must be 16 bytes''),
      wasm_unwrap_mailbox_key = (\<lambda>root e mid. if length mid = 32 then toy_open mid e else throw_msg ''mailbox_id must be 16 bytes''),
      wasm_passphrase_wrap_key = (\<lambda>rnd pw salt p. Inr (toy_seal salt p)),
      wasm_passphrase_unwrap_key = (\<lambda>pw salt e. toy_open salt e),
      wasm_canonical_aad = (\<lambda>mid n v. Inr (mid @ ''00'')),
      wasm_hpke_open = (\<lambda>sk e aad. toy_open aad e),
      wasm_hpke_seal = (\<lambda>rnd pk p aad. Inr (toy_seal aad p)),
      wasm_derive_search_key = (\<lambda>root. Inr root),
      wasm_derive_root_secret = (\<lambda>m. Inr (bytesToHex (replicate 32 7))),
      wasm_generate_keypair = (\<lambda>rnd. throw_msg ''unused''),
      wasm_generate_mnemonic = (\<lambda>rnd. throw_msg ''unused''),
      wasm_encrypt_outbound = (\<lambda>rnd k p n v. throw_msg ''unused'')\<rparr>"

text \<open>The bytes of the associated data of a prefix and a mailbox.\<close>

definition aad_bytes :: "string \<Rightarrow> byte list \<Rightarrow> byte list" where
  "aad_bytes prefix mid = utf8_encode prefix @ mid"

section \<open>Lemmas\<close>

lemmas crypto_bind = bind_err_Inr_iff

lemma draft_prefix_no_contact:
  "utf8_encode DRAFT_AAD_PREFIX @ xs \<noteq> utf8_encode CONTACT_AAD_PREFIX @ ys"
  by (simp add: DRAFT_AAD_PREFIX_def CONTACT_AAD_PREFIX_def utf8_encode_def utf8_char_def)

lemma mailboxIdHex_lower_hex:
  "mailboxIdHex m = Inr h \<Longrightarrow> length h = 32 \<and> list_all is_lower_hex h"
  by (auto simp: mailboxIdHex_def Let_def split: if_splits)

text \<open>The identifier is the hexadecimal form of 16 bytes, and the associated data binds them.\<close>

lemma mailboxIdHex_bytes:
  assumes "mailboxIdHex m = Inr h"
  obtains bs where "h = bytesToHex bs" "length bs = 16"
proof -
  from mailboxIdHex_lower_hex [OF assms] have h: "length h = 32" "list_all is_lower_hex h" by auto
  then obtain bs where "hexToBytes h = Inr bs" "bytesToHex bs = h"
    using hexToBytes_lower_hex [of h] by auto
  moreover from this h have "length bs = 16" using length_bytesToHex [of bs] by simp
  ultimately show ?thesis using that by metis
qed

lemma envelopeAadHex_ok:
  assumes "mailboxIdHex m = Inr (bytesToHex bs)"
  shows "envelopeAadHex m prefix = Inr (bytesToHex (utf8_encode prefix @ bs))"
  using assms by (simp add: envelopeAadHex_def hexToBytes_bytesToHex)

lemma envelopeAadHex_error:
  "mailboxIdHex m = Inl e \<Longrightarrow> envelopeAadHex m prefix = Inl e"
  by (simp add: envelopeAadHex_def)

lemma checked_key_length: "checked_key msg h = Inr sk \<Longrightarrow> length sk = 32"
  by (auto simp: checked_key_def crypto_bind split: if_splits)

lemma checked_key_bytesToHex: "length sk = 32 \<Longrightarrow> checked_key msg (bytesToHex sk) = Inr sk"
  by (simp add: checked_key_def hexToBytes_bytesToHex)

lemma toy_seal_bytes:
  "toy_seal (bytesToHex a) (bytesToHex p) = bytesToHex (replicate (length a) 0 @ [1] @ a @ p)"
proof -
  have "bytesToHex (replicate n 0) = replicate (2 * n) (CHR ''0'')" for n
    by (induction n) (simp_all add: bytesToHex_Cons digit_char_0)
  moreover have "bytesToHex (1 # bs) = ''01'' @ bytesToHex bs" for bs
    by (simp add: bytesToHex_Cons digit_char_def) code_simp
  ultimately show ?thesis
    by (simp add: toy_seal_def bytesToHex_append)
qed

lemma toy_open_seal: "toy_open a (toy_seal a p) = Inr p"
  by (simp add: toy_open_def toy_seal_def startsWith_def)

lemma toy_seal_law:
  "\<exists>e. e \<noteq> [] \<and> toy_seal (bytesToHex a) (bytesToHex p) = bytesToHex e \<and>
       toy_open (bytesToHex a) (bytesToHex e) = Inr (bytesToHex p)"
proof -
  have "replicate (length a) 0 @ [1] @ a @ p \<noteq> []" by simp
  then show ?thesis by (metis toy_seal_bytes toy_open_seal)
qed

lemma toy_seal_inj:
  assumes "toy_seal a p = toy_seal b q" shows "a = b"
proof -
  have *: "n = m \<and> us = vs"
    if "replicate n (CHR ''0'') @ CHR ''0'' # CHR ''1'' # us = replicate m (CHR ''0'') @ CHR ''0'' # CHR ''1'' # vs"
    for n m us vs
    using that
  proof (induction n arbitrary: m)
    case 0
    then show ?case by (cases m; cases "m - 1") auto
  next
    case (Suc n)
    then show ?case by (cases m; cases n) auto
  qed
  from assms * [of "length a" "a @ p" "length b" "b @ q"] have "length a = length b" "a @ p = b @ q"
    by (simp_all add: toy_seal_def)
  then show ?thesis by simp
qed

lemma toy_open_other: "b \<noteq> a \<Longrightarrow> \<not> is_ok (toy_open b (toy_seal a p))"
proof
  assume "b \<noteq> a" "is_ok (toy_open b (toy_seal a p))"
  then obtain t where "toy_seal a p = toy_seal b [] @ t"
    by (auto simp: toy_open_def startsWith_iff split: if_splits)
  then have "toy_seal a p = toy_seal b t" by (simp add: toy_seal_def)
  with \<open>b \<noteq> a\<close> toy_seal_inj show False by metis
qed

lemma toy_core_laws:
  "aead_correct toy_core" "aead_authentic toy_core"
  "passphrase_correct toy_core" "mailbox_wrap_correct toy_core"
proof -
  show "aead_correct toy_core"
    using toy_seal_law by (fastforce simp: aead_correct_def toy_core_def)
  show "passphrase_correct toy_core"
    using toy_seal_law by (fastforce simp: passphrase_correct_def toy_core_def)
  show "mailbox_wrap_correct toy_core"
    using toy_seal_law by (fastforce simp: mailbox_wrap_correct_def toy_core_def)
  from toy_open_other show "aead_authentic toy_core"
    by (auto simp: aead_authentic_def toy_core_def split: if_splits) (metis hex.encode_inj)
qed

subsection \<open>Sealing under a mailbox's associated data\<close>

text \<open>What the four envelope functions share: sealing under the associated data of a prefix and a
  mailbox, encoded for transport, and the AEAD laws in that form.\<close>

lemma aad_bytes_inj: "aad_bytes p m = aad_bytes p m' \<longleftrightarrow> m = m'"
  by (simp add: aad_bytes_def)

lemma aad_bytes_separate: "aad_bytes DRAFT_AAD_PREFIX m \<noteq> aad_bytes CONTACT_AAD_PREFIX m'"
  by (simp add: aad_bytes_def draft_prefix_no_contact)

lemma sealE:
  assumes "aead_correct W" "length key = 32"
  obtains e where
    "wasm_aes_gcm_encrypt W rnd (bytesToHex key) (bytesToHex p) (bytesToHex a) = Inr (bytesToHex e)"
    "wasm_aes_gcm_decrypt W (bytesToHex key) (bytesToHex e) (bytesToHex a) = Inr (bytesToHex p)"
  using assms unfolding aead_correct_def by metis

lemma encryptDraftEnvelope_eq:
  assumes "mailboxIdHex m = Inr (bytesToHex mid)"
    and "wasm_aes_gcm_encrypt W rnd (bytesToHex key) (bytesToHex (utf8_encode t))
           (bytesToHex (aad_bytes DRAFT_AAD_PREFIX mid)) = Inr (bytesToHex e)"
  shows "encryptDraftEnvelope W rnd key m t = Inr (bytesToBase64 e)"
  using assms
  by (simp add: encryptDraftEnvelope_def draftAadHex_def envelopeAadHex_ok aad_bytes_def hexToBytes_bytesToHex)

lemma encryptContactEnvelope_eq:
  assumes "mailboxIdHex m = Inr (bytesToHex mid)"
    and "wasm_aes_gcm_encrypt W rnd (bytesToHex key) (bytesToHex (utf8_encode (stringify (contact_json c))))
           (bytesToHex (aad_bytes CONTACT_AAD_PREFIX mid)) = Inr (bytesToHex e)"
  shows "encryptContactEnvelope W rnd key m c = Inr (bytesToBase64 e)"
  using assms
  by (simp add: encryptContactEnvelope_def envelopeAadHex_ok aad_bytes_def hexToBytes_bytesToHex)

lemma encryptDraftEnvelope_total:
  assumes "aead_correct W" "length key = 32" "is_ok (mailboxIdHex m)"
  shows "\<exists>env. encryptDraftEnvelope W rnd key m t = Inr env"
proof -
  from assms(3) obtain mid where m: "mailboxIdHex m = Inr (bytesToHex mid)"
    by (cases "mailboxIdHex m") (auto elim: mailboxIdHex_bytes)
  from sealE [OF assms(1,2)] obtain e where
    "wasm_aes_gcm_encrypt W rnd (bytesToHex key) (bytesToHex (utf8_encode t))
       (bytesToHex (aad_bytes DRAFT_AAD_PREFIX mid)) = Inr (bytesToHex e)" .
  with m show ?thesis by (auto simp: encryptDraftEnvelope_eq)
qed

lemma wf_contact_json: "wf_json (contact_json c)"
  by (simp add: contact_json_def)

lemma decryptDraftEnvelope_bytes:
  assumes "mailboxIdHex m = Inr (bytesToHex mid)"
  shows "decryptDraftEnvelope W key m (bytesToBase64 e) =
    bind_err (wasm_aes_gcm_decrypt W (bytesToHex key) (bytesToHex e) (bytesToHex (aad_bytes DRAFT_AAD_PREFIX mid)))
      (\<lambda>h. bind_err (hexToBytes h) (\<lambda>bs. Inr (utf8_decode bs)))"
  using assms
  by (simp add: decryptDraftEnvelope_def draftAadHex_def envelopeAadHex_ok aad_bytes_def
        base64ToBytes_bytesToBase64)

lemma decryptContactEnvelope_error:
  assumes "mailboxIdHex m = Inr (bytesToHex mid)"
    and "wasm_aes_gcm_decrypt W (bytesToHex key) (bytesToHex e) (bytesToHex (aad_bytes CONTACT_AAD_PREFIX mid)) = Inl err"
  shows "decryptContactEnvelope W key m (bytesToBase64 e) = Inl err"
  using assms
  by (simp add: decryptContactEnvelope_def envelopeAadHex_ok aad_bytes_def base64ToBytes_bytesToBase64)

lemma not_ok_obtain: "\<not> is_ok r \<Longrightarrow> \<exists>e. r = Inl e"
  by (cases r) auto

lemma envelope_id_error:
  "mailboxIdHex m = Inl err \<Longrightarrow> \<not> is_ok (decryptDraftEnvelope W key m env)"
  "mailboxIdHex m = Inl err \<Longrightarrow> \<not> is_ok (decryptContactEnvelope W key m env)"
  by (cases "base64ToBytes env"; simp add: decryptDraftEnvelope_def decryptContactEnvelope_def
        draftAadHex_def envelopeAadHex_error)+

subsection \<open>Stored forms of a wrapped key\<close>

lemma colon_not_hex: "CHR '':'' \<notin> set (bytesToHex bs)" "CHR ''{'' \<notin> set (bytesToHex bs)"
  using bytesToHex_lower_hex [of bs] by (fastforce simp: list_all_iff is_lower_hex_def is_digit_def)+

lemma bytesToHex_eq_Nil [simp]: "bytesToHex bs = [] \<longleftrightarrow> bs = []"
  using length_bytesToHex [of bs] by (metis length_0_conv mult_eq_0_iff zero_neq_numeral)

lemma startsWith_brace_iff: "startsWith s ''{'' \<longleftrightarrow> s \<noteq> [] \<and> hd s = CHR ''{''"
  by (cases s) (auto simp: startsWith_def)

lemma includes_colon_iff: "str_includes s '':'' \<longleftrightarrow> CHR '':'' \<in> set s"
  by (auto simp: str_includes_iff in_set_conv_decomp)

lemma not_ws_brackets [simp]: "\<not> is_ws (CHR ''{'')" "\<not> is_ws (CHR ''}'')" "\<not> is_ws (CHR '':'')"
  by (simp_all add: is_ws_def)

lemma trim_braced: "trim (CHR ''{'' # s @ ''}'') = CHR ''{'' # s @ ''}''"
  by (simp add: trim_def)

lemma trim_hex_colon: "trim (bytesToHex a @ '':'' @ bytesToHex b) = bytesToHex a @ '':'' @ bytesToHex b"
  using bytesToHex_lower_hex [of a] bytesToHex_lower_hex [of b]
  by (intro trim_no_ws) (auto simp: list_all_iff lower_hex_not_ws)

lemma hd_hex_not_brace: "bytesToHex bs \<noteq> [] \<Longrightarrow> hd (bytesToHex bs) \<noteq> CHR ''{''"
  using colon_not_hex(2) [of bs] hd_in_set by metis

lemma autoUnwrap_colon:
  assumes "length salt = 16"
  shows "autoUnwrapMailboxKey W pw (bytesToHex salt @ '':'' @ bytesToHex e) =
    bind_err (wasm_passphrase_unwrap_key W pw (bytesToHex salt) (bytesToHex e))
      (checked_key ''Unwrapped mailbox key is invalid length'')"
proof -
  have "bytesToHex salt \<noteq> []" using assms by auto
  then have "wrapped_parts (bytesToHex salt @ '':'' @ bytesToHex e) = Inr (JStr (bytesToHex salt), JStr (bytesToHex e))"
    by (simp add: wrapped_parts_def startsWith_brace_iff hd_hex_not_brace includes_colon_iff
          split_char_append split_char_absent colon_not_hex)
  with assms show ?thesis
    unfolding autoUnwrapMailboxKey_def Let_def trim_hex_colon
    by (simp add: has_length_def as_string_def)
qed

lemma autoUnwrap_plain:
  assumes "length salt = 16"
  shows "autoUnwrapMailboxKey W pw (bytesToHex salt @ bytesToHex e) =
    bind_err (wasm_passphrase_unwrap_key W pw (bytesToHex salt) (bytesToHex e))
      (checked_key ''Unwrapped mailbox key is invalid length'')"
proof -
  have ne: "bytesToHex salt \<noteq> []" using assms by auto
  then have parts: "wrapped_parts (bytesToHex salt @ bytesToHex e) = Inr (JStr (bytesToHex salt), JStr (bytesToHex e))"
    using assms
    by (simp add: wrapped_parts_def startsWith_brace_iff hd_hex_not_brace includes_colon_iff colon_not_hex)
  have "trim (bytesToHex salt @ bytesToHex e) = bytesToHex salt @ bytesToHex e"
    by (metis bytesToHex_append trim_bytesToHex)
  with ne assms parts show ?thesis
    by (simp add: autoUnwrapMailboxKey_def has_length_def as_string_def)
qed

lemma autoUnwrap_json:
  assumes "length salt = 16" "(a, b) = (''salt'', ''envelope'') \<or> (a, b) = (''salt_hex'', ''envelope_hex'')"
  shows "autoUnwrapMailboxKey W pw (stringify (JObj [(a, JStr (bytesToHex salt)), (b, JStr (bytesToHex e))])) =
    bind_err (wasm_passphrase_unwrap_key W pw (bytesToHex salt) (bytesToHex e))
      (checked_key ''Unwrapped mailbox key is invalid length'')"
proof -
  let ?v = "JObj [(a, JStr (bytesToHex salt)), (b, JStr (bytesToHex e))]"
  have wf: "wf_json ?v" using assms(2) by auto
  obtain u where u: "stringify ?v = CHR ''{'' # u @ ''}''" by simp
  have "bytesToHex salt \<noteq> []" using assms by auto
  moreover have "first_prop ''envelope'' ''envelope_hex'' ?v = JStr (bytesToHex e)"
    using assms(2) by (cases "bytesToHex e") (auto simp: first_prop_def truthy_def jprop_def)
  ultimately have "wrapped_parts (stringify ?v) = Inr (JStr (bytesToHex salt), JStr (bytesToHex e))"
    using json_roundtrip [OF wf] assms(2) u
    by (auto simp: wrapped_parts_def startsWith_brace_iff first_prop_def truthy_def jprop_def
          simp del: stringify.simps)
  moreover have "trim (stringify ?v) = stringify ?v" "stringify ?v \<noteq> []"
    unfolding u by (simp_all add: trim_braced)
  ultimately show ?thesis using assms(1)
    unfolding autoUnwrapMailboxKey_def Let_def
    by (simp add: has_length_def as_string_def del: stringify.simps)
qed

subsection \<open>Keywords\<close>

lemma set_uniq_acc: "set (uniq_acc seen xs) = set xs - set seen"
  by (induction xs arbitrary: seen) auto

lemma distinct_uniq_acc: "distinct (uniq_acc seen xs)"
  by (induction xs arbitrary: seen) (auto simp: set_uniq_acc)

lemma set_uniq [simp]: "set (uniq xs) = set xs"
  by (simp add: uniq_def set_uniq_acc)

lemma distinct_uniq [simp]: "distinct (uniq xs)"
  by (simp add: uniq_def distinct_uniq_acc)

lemma split_ws_chars: "w \<in> set (split_ws s) \<Longrightarrow> set w \<subseteq> set s"
proof (induction s arbitrary: w)
  case Nil
  then show ?case by simp
next
  case (Cons a s)
  obtain v vs where "split_ws s = v # vs"
    by (metis list.exhaust split_ws_not_Nil)
  with Cons show ?case by (fastforce split: if_splits)
qed

lemma toLowerCase_id: "\<forall>c \<in> set w. lower_char c = c \<Longrightarrow> toLowerCase w = w"
  by (simp add: toLowerCase_def map_idI)

lemma keyword_chars:
  assumes "w \<in> set (split_ws (map (\<lambda>c. if P c \<or> is_ws c then c else CHR '' '') (toLowerCase t)))" "c \<in> set w"
  shows "P c \<and> lower_char c = c"
proof -
  have "is_ws (CHR '' '')" by (simp add: is_ws_def)
  moreover have "\<not> is_ws c" using assms by (rule split_ws_no_ws)
  moreover have "c \<in> set (map (\<lambda>c. if P c \<or> is_ws c then c else CHR '' '') (toLowerCase t))"
    using assms split_ws_chars by blast
  ultimately show ?thesis by (auto simp: toLowerCase_def split: if_splits)
qed

section \<open>Properties\<close>

text \<open>A draft sealed for a mailbox with a 32 byte key opens again, under the same key and mailbox,
  to exactly the text that was sealed, whatever randomness the core drew.\<close>

theorem draft_envelope_roundtrip:
  assumes "aead_correct W" "length key = 32" "is_ok (mailboxIdHex m)"
  shows "\<exists>env. encryptDraftEnvelope W rnd key m plaintext = Inr env
               \<and> decryptDraftEnvelope W key m env = Inr plaintext"
proof -
  from assms(3) obtain mid where m: "mailboxIdHex m = Inr (bytesToHex mid)"
    by (cases "mailboxIdHex m") (auto elim: mailboxIdHex_bytes)
  from sealE [OF assms(1,2)] obtain e where
    "wasm_aes_gcm_encrypt W rnd (bytesToHex key) (bytesToHex (utf8_encode plaintext))
       (bytesToHex (aad_bytes DRAFT_AAD_PREFIX mid)) = Inr (bytesToHex e)"
    "wasm_aes_gcm_decrypt W (bytesToHex key) (bytesToHex e) (bytesToHex (aad_bytes DRAFT_AAD_PREFIX mid))
       = Inr (bytesToHex (utf8_encode plaintext))" .
  with m show ?thesis
    by (auto simp: encryptDraftEnvelope_eq decryptDraftEnvelope_bytes hexToBytes_bytesToHex utf8_decode_encode)
qed

text \<open>A contact record sealed for a mailbox opens again to the same name, email and notes.\<close>

theorem contact_envelope_roundtrip:
  assumes "aead_correct W" "length key = 32" "is_ok (mailboxIdHex m)"
  shows "\<exists>env. encryptContactEnvelope W rnd key m c = Inr env
               \<and> decryptContactEnvelope W key m env = Inr c"
proof -
  from assms(3) obtain mid where m: "mailboxIdHex m = Inr (bytesToHex mid)"
    by (cases "mailboxIdHex m") (auto elim: mailboxIdHex_bytes)
  from sealE [OF assms(1,2)] obtain e where e:
    "wasm_aes_gcm_encrypt W rnd (bytesToHex key) (bytesToHex (utf8_encode (stringify (contact_json c))))
       (bytesToHex (aad_bytes CONTACT_AAD_PREFIX mid)) = Inr (bytesToHex e)"
    "wasm_aes_gcm_decrypt W (bytesToHex key) (bytesToHex e) (bytesToHex (aad_bytes CONTACT_AAD_PREFIX mid))
       = Inr (bytesToHex (utf8_encode (stringify (contact_json c))))" .
  have "decryptContactEnvelope W key m (bytesToBase64 e) = Inr c"
    using m e json_roundtrip [OF wf_contact_json [of c]]
    by (simp add: decryptContactEnvelope_def envelopeAadHex_ok base64ToBytes_bytesToBase64
          hexToBytes_bytesToHex utf8_decode_encode contact_json_def str_prop_def jprop_def
          del: stringify.simps flip: aad_bytes_def)
  with m e show ?thesis by (auto simp: encryptContactEnvelope_eq)
qed

text \<open>C3: Domain separation. An envelope made by \<open>encryptDraftEnvelope\<close> never opens as a contact, in any
  mailbox, and does not open as a draft of another mailbox.\<close>

theorem draft_envelope_separation:
  assumes "aead_correct W" "aead_authentic W" "length key = 32"
    and env: "encryptDraftEnvelope W rnd key m plaintext = Inr env"
  shows "\<not> is_ok (decryptContactEnvelope W key m' env)
    \<and> (mailboxIdHex m' \<noteq> mailboxIdHex m \<longrightarrow> \<not> is_ok (decryptDraftEnvelope W key m' env))"
proof -
  from env have "is_ok (mailboxIdHex m)"
    by (cases "mailboxIdHex m") (auto simp: encryptDraftEnvelope_def draftAadHex_def envelopeAadHex_error)
  then obtain mid where m: "mailboxIdHex m = Inr (bytesToHex mid)"
    by (cases "mailboxIdHex m") (auto elim: mailboxIdHex_bytes)
  from sealE [OF assms(1,3)] obtain e where e:
    "wasm_aes_gcm_encrypt W rnd (bytesToHex key) (bytesToHex (utf8_encode plaintext))
       (bytesToHex (aad_bytes DRAFT_AAD_PREFIX mid)) = Inr (bytesToHex e)" .
  with m env have env_e: "env = bytesToBase64 e" by (simp add: encryptDraftEnvelope_eq)
  from assms(2) e have reject: "\<not> is_ok (wasm_aes_gcm_decrypt W (bytesToHex key) (bytesToHex e) (bytesToHex a))"
    if "a \<noteq> aad_bytes DRAFT_AAD_PREFIX mid" for a
    using that unfolding aead_authentic_def by blast
  show ?thesis
  proof (cases "mailboxIdHex m'")
    case (Inl err)
    then show ?thesis by (simp add: envelope_id_error)
  next
    case (Inr h)
    then obtain mid' where m': "mailboxIdHex m' = Inr (bytesToHex mid')"
      by (auto elim: mailboxIdHex_bytes)
    from not_ok_obtain [OF reject [OF aad_bytes_separate [symmetric]]]
    have "\<not> is_ok (decryptContactEnvelope W key m' env)"
      using decryptContactEnvelope_error [OF m'] env_e by (metis is_ok_simps(2))
    moreover have "\<not> is_ok (decryptDraftEnvelope W key m' env)" if "mid' \<noteq> mid"
      using not_ok_obtain [OF reject [of "aad_bytes DRAFT_AAD_PREFIX mid'"]] that m' env_e
      by (auto simp: decryptDraftEnvelope_bytes aad_bytes_inj)
    ultimately show ?thesis using m m' by auto
  qed
qed

text \<open>Witness of the domain separation on the concrete core.\<close>

theorem draft_envelope_separation_witness:
  "\<not> is_ok (decryptContactEnvelope toy_core (replicate 32 5) ''000000000000000000000000000000ab''
       (projr (encryptDraftEnvelope toy_core [] (replicate 32 5) ''000000000000000000000000000000ab'' ''x'')))
   \<and> \<not> is_ok (decryptDraftEnvelope toy_core (replicate 32 5) ''000000000000000000000000000000ac''
       (projr (encryptDraftEnvelope toy_core [] (replicate 32 5) ''000000000000000000000000000000ab'' ''x'')))"
proof -
  have "is_ok (mailboxIdHex ''000000000000000000000000000000ab'')" by code_simp
  then obtain env where
    "encryptDraftEnvelope toy_core [] (replicate 32 5) ''000000000000000000000000000000ab'' ''x'' = Inr env"
    using encryptDraftEnvelope_total [OF toy_core_laws(1)] by (metis length_replicate)
  moreover have "mailboxIdHex ''000000000000000000000000000000ac'' \<noteq> mailboxIdHex ''000000000000000000000000000000ab''"
    by code_simp
  ultimately show ?thesis
    using draft_envelope_separation [OF toy_core_laws(1,2), of "replicate 32 5" "[]"
        "''000000000000000000000000000000ab''" "''x''"]
    by auto
qed



text \<open>A key wrapped under a password is recovered from the stored string by the same password.\<close>

theorem passphrase_wrap_roundtrip:
  assumes "passphrase_correct W" "length salt = 16" "length sk = 32"
  shows "\<exists>w. wrapMailboxKeyWithPassphrase W salt rnd password sk = Inr w
             \<and> autoUnwrapMailboxKey W password w = Inr sk"
proof -
  from assms(1,2) obtain e where e:
    "wasm_passphrase_wrap_key W rnd password (bytesToHex salt) (bytesToHex sk) = Inr (bytesToHex e)"
    "wasm_passphrase_unwrap_key W password (bytesToHex salt) (bytesToHex e) = Inr (bytesToHex sk)"
    unfolding passphrase_correct_def by metis
  from assms(2) have "autoUnwrapMailboxKey W password (bytesToHex salt @ '':'' @ bytesToHex e) =
      bind_err (wasm_passphrase_unwrap_key W password (bytesToHex salt) (bytesToHex e))
        (checked_key ''Unwrapped mailbox key is invalid length'')"
    by (rule autoUnwrap_colon)
  with e assms(3) show ?thesis
    by (simp add: wrapMailboxKeyWithPassphrase_def checked_key_bytesToHex)
qed

text \<open>The three stored formats of a password-wrapped key, \<open>salt:envelope\<close>, the salt followed by the
  envelope, and a JSON object with either spelling of the properties, unwrap alike.\<close>

theorem wrapped_formats_agree:
  assumes "length salt = 16"
  shows "autoUnwrapMailboxKey W pw (bytesToHex salt @ bytesToHex e)
       = autoUnwrapMailboxKey W pw (bytesToHex salt @ '':'' @ bytesToHex e)
    \<and> autoUnwrapMailboxKey W pw (stringify (JObj [(''salt'', JStr (bytesToHex salt)), (''envelope'', JStr (bytesToHex e))]))
       = autoUnwrapMailboxKey W pw (bytesToHex salt @ '':'' @ bytesToHex e)
    \<and> autoUnwrapMailboxKey W pw (stringify (JObj [(''salt_hex'', JStr (bytesToHex salt)), (''envelope_hex'', JStr (bytesToHex e))]))
       = autoUnwrapMailboxKey W pw (bytesToHex salt @ '':'' @ bytesToHex e)"
  using assms by (simp only: autoUnwrap_colon autoUnwrap_plain autoUnwrap_json simp_thms)

text \<open>Attachments: with a 32 byte key, decryption inverts encryption under the same associated data;
  with a key of any other length both functions fail with the documented error and never call the core.\<close>

theorem attachment_roundtrip:
  assumes "aead_correct W"
  shows "(length key = 32 \<longrightarrow>
      (\<exists>env. encryptAttachmentBytes W rnd p key aad = Inr env \<and> decryptAttachmentBytes W env key aad = Inr p))
    \<and> (length key \<noteq> 32 \<longrightarrow>
      encryptAttachmentBytes W' rnd p key aad = throw_msg ''Mailbox encryption key must be exactly 32 bytes''
      \<and> decryptAttachmentBytes W' env' key aad = throw_msg ''Mailbox encryption key must be exactly 32 bytes'')"
proof (intro conjI impI)
  assume k: "length key = 32"
  from sealE [OF assms k] obtain e where
    "wasm_aes_gcm_encrypt W rnd (bytesToHex key) (bytesToHex p) (bytesToHex aad) = Inr (bytesToHex e)"
    "wasm_aes_gcm_decrypt W (bytesToHex key) (bytesToHex e) (bytesToHex aad) = Inr (bytesToHex p)" .
  with k show "\<exists>env. encryptAttachmentBytes W rnd p key aad = Inr env \<and> decryptAttachmentBytes W env key aad = Inr p"
    by (simp add: encryptAttachmentBytes_def decryptAttachmentBytes_def hexToBytes_bytesToHex)
qed (simp_all add: encryptAttachmentBytes_def decryptAttachmentBytes_def)

text \<open>Opening a message. For a non-negative whole sequence number, an envelope whose content key opens
  under the canonical associated data, and whose body is sealed under that key and the same data, is
  decrypted to its text; any other sequence number is refused before the core is called.\<close>

theorem decryptMessageEnvelope_correct:
  assumes "aead_correct W" "mailboxIdHex m = Inr mid" "length ck = 32"
    and "wasm_canonical_aad W mid n v = Inr (bytesToHex aad)"
    and "wasm_hpke_open W (bytesToHex key) (bytesToHex wrapped) (bytesToHex aad) = Inr (bytesToHex ck)"
    and "wasm_aes_gcm_encrypt W rnd (bytesToHex ck) (bytesToHex (utf8_encode plaintext)) (bytesToHex aad) = Inr (bytesToHex body)"
  shows "decryptMessageEnvelope W key m
      \<lparr>message_seq = of_nat n, encryption_version = v, encrypted_body = bytesToBase64 body,
       content_key_hpke_wrapped = bytesToBase64 wrapped\<rparr> = Inr plaintext
    \<and> (\<forall>x. x < 0 \<or> \<not> is_integer x \<longrightarrow>
         decryptMessageEnvelope W key m
           \<lparr>message_seq = x, encryption_version = v, encrypted_body = bytesToBase64 body,
            content_key_hpke_wrapped = bytesToBase64 wrapped\<rparr> = throw_msg ''Invalid message sequence.'')"
proof -
  from sealE [OF assms(1,3)] obtain e where e:
    "wasm_aes_gcm_encrypt W rnd (bytesToHex ck) (bytesToHex (utf8_encode plaintext)) (bytesToHex aad) = Inr (bytesToHex e)"
    "wasm_aes_gcm_decrypt W (bytesToHex ck) (bytesToHex e) (bytesToHex aad) = Inr (bytesToHex (utf8_encode plaintext))" .
  with assms(6) have "e = body" by (metis hex.encode_inj sum.inject(2))
  with e assms show ?thesis
    by (simp add: decryptMessageEnvelope_def is_integer_def base64ToBytes_bytesToBase64
        hexToBytes_bytesToHex utf8_decode_encode)
qed

text \<open>The keywords of a text are pairwise distinct, between 2 and 64 letters or digits long, and
  already in the normal form \<open>computeSearchToken\<close> uses, so a keyword and its upper-case or padded
  spelling give the same search token.\<close>

theorem extractKeywords_normal:
  "distinct (extractKeywords text)
   \<and> (\<forall>w \<in> set (extractKeywords text).
        2 \<le> length w \<and> length w \<le> 64 \<and> list_all (\<lambda>c. is_letter c \<or> is_number_char c) w
        \<and> toLowerCase (trim w) = w)"
proof (intro conjI ballI)
  show "distinct (extractKeywords text)" by (simp add: extractKeywords_def)
  fix w assume w: "w \<in> set (extractKeywords text)"
  then obtain v where v: "v \<in> set (split_ws (map (\<lambda>c. if (is_letter c \<or> is_number_char c) \<or> is_ws c
      then c else CHR '' '') (toLowerCase text)))" "w = trim v"
    by (auto simp: extractKeywords_def disj_assoc)
  have "trim v = v" using split_ws_no_ws [OF v(1)] by (intro trim_no_ws) (simp add: list_all_iff)
  then show "list_all (\<lambda>c. is_letter c \<or> is_number_char c) w" "toLowerCase (trim w) = w"
    using v keyword_chars [OF v(1)] by (auto simp: list_all_iff intro!: toLowerCase_id)
  show "2 \<le> length w" "length w \<le> 64" using w by (auto simp: extractKeywords_def)
qed

end
