(* ===== verification/Client_Crypto.thy ===== *)
theory Client_Crypto
  imports Message_Crypto
begin

text \<open>
  Registration in the control plane: \<open>apps/control-plane/src/lib/crypto/client_crypto.ts\<close>. The
  password verifier, the key ceremony with its progress reports, and the password meter. PBKDF2 of the
  platform and the WebAssembly core are parameters; the randomness each step draws is an argument.
\<close>

section \<open>Verifier and recovery phrase\<close>

text \<open>\<open>pbkdf2 hash password salt iterations bits\<close> stands for \<open>importKey\<close> and \<open>deriveBits\<close>.\<close>

type_synonym pbkdf2 = "string \<Rightarrow> byte list \<Rightarrow> byte list \<Rightarrow> nat \<Rightarrow> nat \<Rightarrow> js_error + byte list"

definition deriveClientPasswordVerifier :: "pbkdf2 \<Rightarrow> string \<Rightarrow> string \<Rightarrow> js_error + string" where
  "deriveClientPasswordVerifier kdf password email =
     (let canonicalEmail = toLowerCase (trim email);
          salt = utf8_encode (''byos-auth-v1:'' @ canonicalEmail)
      in bind_err (kdf ''SHA-256'' (utf8_encode password) salt 100000 256)
           (\<lambda>derivedBits. Inr (bytesToHex_cp derivedBits)))"

definition extract12WordMnemonic :: "string \<Rightarrow> js_error + string \<times> string list" where
  "extract12WordMnemonic mnemonicString =
     (let words = take 12 (filter (\<lambda>w. w \<noteq> []) (split_ws (trim mnemonicString)))
      in if length words < 12
         then throw_msg (''Insufficient mnemonic words generated: expected 12, got '' @ num_string (length words))
         else Inr (join '' '' words, words))"

section \<open>The ceremony\<close>

record ceremony_result =
  publicKey :: "json option"
  wrappedPrivateKey :: string
  recoverySalt :: string
  passwordVerifier :: string
  recoveryPhrase :: string
  recoveryWords :: "string list"

text \<open>The randomness of the ceremony: the bytes drawn by the three calls to the core and the salt.\<close>

record ceremony_random =
  rnd_keypair :: "byte list"
  rnd_mnemonic :: "byte list"
  rnd_salt :: "byte list"
  rnd_wrap :: "byte list"

text \<open>A computation that reports progress before it runs the rest.\<close>

definition report :: "string \<Rightarrow> nat \<Rightarrow> (string \<times> nat) list \<times> 'r \<Rightarrow> (string \<times> nat) list \<times> 'r" where
  "report status percent rest = ((status, percent) # fst rest, snd rest)"

definition try_step :: "js_error + 'a \<Rightarrow> ('a \<Rightarrow> (string \<times> nat) list \<times> (js_error + 'b))
    \<Rightarrow> (string \<times> nat) list \<times> (js_error + 'b)" where
  "try_step r k = (case r of Inl e \<Rightarrow> ([], Inl e) | Inr a \<Rightarrow> k a)"

definition performCryptographicCeremony ::
  "wasm_core \<Rightarrow> pbkdf2 \<Rightarrow> ceremony_random \<Rightarrow> string \<Rightarrow> string
    \<Rightarrow> (string \<times> nat) list \<times> (js_error + ceremony_result)" where
  "performCryptographicCeremony wasm kdf rnd email password =
     report (''Loading WASM Cryptographic Core'' @ ellipsis) 15
     (report (''Generating Sovereign Asymmetric Keypair'' @ ellipsis) 35
     (try_step (wasm_generate_keypair wasm (rnd_keypair rnd)) (\<lambda>kpJson.
      try_step (js_parse kpJson) (\<lambda>keypair.
      report (''Synthesizing 12-Word Master Recovery Phrase'' @ ellipsis) 55
      (try_step (wasm_generate_mnemonic wasm (rnd_mnemonic rnd)) (\<lambda>rawMnemonic.
       try_step (extract12WordMnemonic rawMnemonic) (\<lambda>(phrase, words).
       report (''Deriving Argon2id Key & Encrypting Private Key'' @ ellipsis) 75
       (let saltHex = bytesToHex_cp (rnd_salt rnd)
        in try_step (bind_err (string_arg (jprop ''secret_key'' keypair))
                       (wasm_passphrase_wrap_key wasm (rnd_wrap rnd) password saltHex)) (\<lambda>wrapped.
           report (''Computing Zero-Knowledge Password Verifier'' @ ellipsis) 92
           (try_step (deriveClientPasswordVerifier kdf password email) (\<lambda>verifier.
            report ''Cryptographic Material Verified & Sealed.'' 100
            ([], Inr \<lparr>publicKey = jprop ''public_key'' keypair, wrappedPrivateKey = wrapped,
                      recoverySalt = saltHex, passwordVerifier = verifier,
                      recoveryPhrase = phrase, recoveryWords = words\<rparr>))))))))))))"

section \<open>The password meter\<close>

datatype strength_label = Weak | Fair | Good | Strong

record password_strength =
  score :: nat
  strength :: strength_label
  hasLength :: bool
  hasLower :: bool
  hasUpper :: bool
  hasNumber :: bool
  hasSpecial :: bool
  isCompliant :: bool

definition evaluatePasswordStrength :: "string \<Rightarrow> password_strength" where
  "evaluatePasswordStrength password =
     (let len = 10 \<le> length password;
          lower = list_ex is_lower_ascii password;
          upper = list_ex is_upper_ascii password;
          number = list_ex is_digit password;
          special = list_ex (\<lambda>c. \<not> is_upper_ascii c \<and> \<not> is_lower_ascii c \<and> \<not> is_digit c) password;
          criteriaMet = length (filter id [len, lower, upper, number, special]);
          (sc, lab) = (if 5 \<le> criteriaMet \<and> 12 \<le> length password then (4, Strong)
                       else if 4 \<le> criteriaMet \<and> 10 \<le> length password then (3, Good)
                       else if 3 \<le> criteriaMet then (2, Fair)
                       else (1, Weak))
      in \<lparr>score = sc, strength = lab, hasLength = len, hasLower = lower, hasUpper = upper,
          hasNumber = number, hasSpecial = special, isCompliant = 4 \<le> criteriaMet \<and> len\<rparr>)"

section \<open>Lemmas\<close>

lemma report_simps [simp]:
  "fst (report s n r) = (s, n) # fst r" "snd (report s n r) = snd r"
  by (simp_all add: report_def)

lemma try_step_simps [simp]:
  "try_step (Inl e) k = ([], Inl e)" "try_step (Inr a) k = k a"
  by (simp_all add: try_step_def)

lemma snd_try_step: "snd (try_step r k) = bind_err r (\<lambda>a. snd (k a))"
  by (cases r) simp_all

lemma extract12_length: "extract12WordMnemonic m = Inr (p, ws) \<Longrightarrow> length ws = 12 \<and> p = join '' '' ws"
  by (auto simp: extract12WordMnemonic_def Let_def split: if_splits)

text \<open>The outcome of the ceremony, without the reports.\<close>

lemma ceremony_outcome:
  "snd (performCryptographicCeremony W kdf rnd email password) =
    bind_err (wasm_generate_keypair W (rnd_keypair rnd)) (\<lambda>kpJson.
    bind_err (js_parse kpJson) (\<lambda>keypair.
    bind_err (wasm_generate_mnemonic W (rnd_mnemonic rnd)) (\<lambda>raw.
    bind_err (extract12WordMnemonic raw) (\<lambda>(phrase, words).
    bind_err (bind_err (string_arg (jprop ''secret_key'' keypair))
        (wasm_passphrase_wrap_key W (rnd_wrap rnd) password (bytesToHex (rnd_salt rnd)))) (\<lambda>wrapped.
    bind_err (deriveClientPasswordVerifier kdf password email) (\<lambda>verifier.
      Inr \<lparr>publicKey = jprop ''public_key'' keypair, wrappedPrivateKey = wrapped,
           recoverySalt = bytesToHex (rnd_salt rnd), passwordVerifier = verifier,
           recoveryPhrase = phrase, recoveryWords = words\<rparr>))))))"
  by (simp add: performCryptographicCeremony_def snd_try_step Let_def bytesToHex_cp_eq case_prod_beta cong: bind_err_cong)

text \<open>Progress never goes back, and 100 is reported exactly when the ceremony succeeds.\<close>

lemma ceremony_progress:
  "\<exists>n. map snd (fst (performCryptographicCeremony W kdf rnd email password)) = take n [15, 35, 55, 75, 92, 100]
     \<and> (n = 6 \<longleftrightarrow> is_ok (snd (performCryptographicCeremony W kdf rnd email password)))"
proof -
  have close: "\<exists>n. xs = take n [15, 35, 55, 75, 92, 100 :: nat] \<and> (n = 6 \<longleftrightarrow> b)"
    if "xs = take (length xs) [15, 35, 55, 75, 92, 100]" "length xs = 6 \<longleftrightarrow> b" for xs b
    using that by blast
  show ?thesis
    by (rule close; cases "wasm_generate_keypair W (rnd_keypair rnd)";
        simp add: performCryptographicCeremony_def try_step_def Let_def
          split: sum.splits prod.splits)
qed

lemma criteria_count:
  "4 \<le> length (filter id [True, a, b, c, d]) \<longleftrightarrow> (a \<and> b \<and> c) \<or> (a \<and> b \<and> d) \<or> (a \<and> c \<and> d) \<or> (b \<and> c \<and> d)"
  by (cases a; cases b; cases c; cases d) simp_all

text \<open>A core whose key generator works, for the witnesses.\<close>

definition toy_ceremony_core :: wasm_core where
  "toy_ceremony_core = toy_core
     \<lparr>wasm_generate_keypair := (\<lambda>rnd. Inr (stringify (JObj [(''secret_key'', JStr (bytesToHex (replicate 32 9))),
                                                          (''public_key'', JStr ''pk'')]))),
      wasm_generate_mnemonic := (\<lambda>rnd. Inr (join '' '' (replicate 24 (if rnd = [] then ''zoo'' else ''abandon''))))\<rparr>"

definition toy_random :: ceremony_random where
  "toy_random = \<lparr>rnd_keypair = [], rnd_mnemonic = [], rnd_salt = replicate 16 3, rnd_wrap = []\<rparr>"

lemma toy_ceremony_laws: "passphrase_correct toy_ceremony_core"
  using toy_core_laws(3) by (simp add: passphrase_correct_def toy_ceremony_core_def)

section \<open>Properties\<close>

text \<open>When the key generator, the mnemonic generator and the key derivation deliver, the ceremony
  succeeds; the private key it wrapped is recovered with the password from the published salt and
  wrapped key, the public key is the generated one, the verifier is the one derived from the password
  and the canonical email, and the phrase has twelve words.\<close>

theorem ceremony_key_recoverable:
  assumes "passphrase_correct W" "length (rnd_salt rnd) = 16" "length sk = 32"
    and "wasm_generate_keypair W (rnd_keypair rnd) =
           Inr (stringify (JObj [(''secret_key'', JStr (bytesToHex sk)), (''public_key'', JStr pk)]))"
    and "wasm_generate_mnemonic W (rnd_mnemonic rnd) = Inr raw" "extract12WordMnemonic raw = Inr (phrase, words)"
    and "deriveClientPasswordVerifier kdf password email = Inr verifier"
  shows "\<exists>R. snd (performCryptographicCeremony W kdf rnd email password) = Inr R
     \<and> autoUnwrapMailboxKey W password (recoverySalt R @ '':'' @ wrappedPrivateKey R) = Inr sk
     \<and> publicKey R = Some (JStr pk) \<and> passwordVerifier R = verifier
     \<and> length (recoveryWords R) = 12 \<and> recoveryPhrase R = join '' '' (recoveryWords R)"
proof -
  let ?kp = "JObj [(''secret_key'', JStr (bytesToHex sk)), (''public_key'', JStr pk)]"
  have wf: "wf_json ?kp" by simp
  have parse: "js_parse (stringify ?kp) = Inr ?kp"
    using json_roundtrip [OF wf] by (simp add: js_parse_def del: stringify.simps)
  obtain e where e: "wasm_passphrase_wrap_key W (rnd_wrap rnd) password (bytesToHex (rnd_salt rnd)) (bytesToHex sk) = Inr (bytesToHex e)"
    "wasm_passphrase_unwrap_key W password (bytesToHex (rnd_salt rnd)) (bytesToHex e) = Inr (bytesToHex sk)"
    using assms(1,2) unfolding passphrase_correct_def by metis
  have "autoUnwrapMailboxKey W password (bytesToHex (rnd_salt rnd) @ '':'' @ bytesToHex e) = Inr sk"
    using e assms(2,3) by (simp only: autoUnwrap_colon bind_err_simps checked_key_bytesToHex)
  with e parse assms(4-7) extract12_length [OF assms(6)] show ?thesis
    by (simp add: ceremony_outcome string_arg_def jprop_def del: stringify.simps)
qed

text \<open>The recovery phrase is not bound to the account: two runs that differ only in the mnemonic the
  core generates publish the same public key, wrapped key, salt and verifier, so none of them can be
  recovered from the phrase.\<close>

theorem ceremony_phrase_unbound:
  assumes "snd (performCryptographicCeremony W kdf rnd email password) = Inr R"
    and "snd (performCryptographicCeremony W kdf (rnd\<lparr>rnd_mnemonic := other\<rparr>) email password) = Inr R'"
  shows "publicKey R' = publicKey R \<and> wrappedPrivateKey R' = wrappedPrivateKey R
     \<and> recoverySalt R' = recoverySalt R \<and> passwordVerifier R' = passwordVerifier R"
  using assms by (auto simp: ceremony_outcome bind_err_Inr_iff)

text \<open>A password is reported compliant exactly when it has at least ten characters and at least three
  of the four character classes (lower case, upper case, digit, other), and then it scores 3 or 4.
  In particular one class may be missing.\<close>

theorem password_compliance:
  "isCompliant (evaluatePasswordStrength pw) =
     (10 \<le> length pw \<and> (let e = evaluatePasswordStrength pw in
        (hasLower e \<and> hasUpper e \<and> hasNumber e) \<or> (hasLower e \<and> hasUpper e \<and> hasSpecial e)
        \<or> (hasLower e \<and> hasNumber e \<and> hasSpecial e) \<or> (hasUpper e \<and> hasNumber e \<and> hasSpecial e)))
   \<and> isCompliant (evaluatePasswordStrength pw) = (3 \<le> score (evaluatePasswordStrength pw))
   \<and> isCompliant (evaluatePasswordStrength ''aaaaaaaa1!'') \<and> \<not> hasUpper (evaluatePasswordStrength ''aaaaaaaa1!'')"
proof (intro conjI)
  show "isCompliant (evaluatePasswordStrength pw) =
     (10 \<le> length pw \<and> (let e = evaluatePasswordStrength pw in
        (hasLower e \<and> hasUpper e \<and> hasNumber e) \<or> (hasLower e \<and> hasUpper e \<and> hasSpecial e)
        \<or> (hasLower e \<and> hasNumber e \<and> hasSpecial e) \<or> (hasUpper e \<and> hasNumber e \<and> hasSpecial e)))"
    using criteria_count by (cases "10 \<le> length pw") (simp_all add: evaluatePasswordStrength_def Let_def)
  show "isCompliant (evaluatePasswordStrength pw) = (3 \<le> score (evaluatePasswordStrength pw))"
    by (simp add: evaluatePasswordStrength_def Let_def)
  show "isCompliant (evaluatePasswordStrength ''aaaaaaaa1!'')"
    "\<not> hasUpper (evaluatePasswordStrength ''aaaaaaaa1!'')" by code_simp+
qed

end
