(* ===== verification/Double.thy ===== *)
theory Double
  imports Prelude
begin

text \<open>
  JavaScript numbers as rationals with the rounding of IEEE 754 binary64: \<open>fl x\<close> is the multiple of
  the unit in the last place nearest to \<open>x\<close>, ties to even. Every arithmetic operator of the sources is
  the exact operator followed by \<open>fl\<close>. The exponent range is not bounded, which is exact for the
  amounts of the price list: they are zero or between \<open>0.01\<close> and \<open>10 ^ 13\<close>.
\<close>

section \<open>Rounding to 53 bits\<close>

function bit_length :: "nat \<Rightarrow> nat" where
  "bit_length n = (if n = 0 then 0 else Suc (bit_length (n div 2)))"
  by pat_completeness auto
termination
  by (relation "measure id") auto

declare bit_length.simps [simp del]

definition pow2 :: "int \<Rightarrow> rat" where
  "pow2 k = (if 0 \<le> k then 2 ^ nat k else 1 / 2 ^ nat (- k))"

text \<open>The exponent \<open>e\<close> with \<open>2 ^ e \<le> x < 2 ^ (e + 1)\<close> of a positive rational.\<close>

definition exponent :: "rat \<Rightarrow> int" where
  "exponent x =
     (let (p, q) = quotient_of x;
          k = int (bit_length (nat p)) - int (bit_length (nat q))
      in if pow2 k \<le> x then k else k - 1)"

text \<open>The nearest integer, ties to even.\<close>

definition nearest_even :: "rat \<Rightarrow> int" where
  "nearest_even x =
     (let f = \<lfloor>x\<rfloor>; d = x - of_int f
      in if d < 1 / 2 then f else if 1 / 2 < d then f + 1 else if even f then f else f + 1)"

definition fl :: "rat \<Rightarrow> rat" where
  "fl x = (if x = 0 then 0
           else let ulp = pow2 (exponent \<bar>x\<bar> - 52) in of_int (nearest_even (x / ulp)) * ulp)"

text \<open>\<open>Math.round\<close>: the nearest integer, ties towards plus infinity.\<close>

definition math_round :: "rat \<Rightarrow> int" where
  "math_round x = \<lfloor>x + 1 / 2\<rfloor>"

section \<open>The rounding error\<close>

lemma bit_length_bounds: "0 < n \<Longrightarrow> 2 ^ (bit_length n - 1) \<le> n \<and> n < 2 ^ bit_length n \<and> 0 < bit_length n"
proof (induction n rule: bit_length.induct)
  case (1 n)
  show ?case
  proof (cases "n = 1")
    case True
    then show ?thesis by (simp add: bit_length.simps [of "Suc 0"] bit_length.simps [of 0])
  next
    case False
    with 1 have "2 ^ (bit_length (n div 2) - 1) \<le> n div 2" "n div 2 < 2 ^ bit_length (n div 2)"
      "0 < bit_length (n div 2)" by auto
    moreover have "bit_length n = Suc (bit_length (n div 2))"
      using "1.prems" by (subst bit_length.simps) simp
    ultimately show ?thesis
      by (auto simp: power_eq_if [of 2 "bit_length (n div 2)"] less_eq_div_iff_mult_less_eq
          div_less_iff_less_mult mult.commute)
  qed
qed

lemma pow2_pos [simp]: "0 < pow2 k"
  by (simp add: pow2_def)

lemma pow2_not_0 [simp]: "pow2 k \<noteq> 0"
  using pow2_pos [of k] by linarith

lemma pow2_add: "pow2 (a + b) = pow2 a * pow2 b"
proof -
  have "pow2 k = 2 powi k" for k by (auto simp: pow2_def power_int_def inverse_eq_divide power_one_over)
  then show ?thesis by (simp add: power_int_add)
qed

lemma pow2_diff: "pow2 (a - b) = pow2 a / pow2 b"
  using pow2_add [of "a - b" b] pow2_pos [of b] by (simp add: field_simps)

lemma pow2_nat: "pow2 (int n) = 2 ^ n"
  by (simp add: pow2_def)

lemma exponent_le:
  assumes "0 < x" shows "pow2 (exponent x) \<le> x"
proof -
  obtain p q where pq: "quotient_of x = (p, q)" by fastforce
  then have q: "0 < q" and x: "x = of_int p / of_int q" by (auto dest: quotient_of_denom_pos quotient_of_div)
  with assms have p: "0 < p" by (simp add: zero_less_divide_iff)
  let ?P = "bit_length (nat p)" and ?Q = "bit_length (nat q)"
  have P: "2 ^ (?P - 1) \<le> nat p" "0 < ?P" and Q: "nat q < 2 ^ ?Q" "0 < ?Q"
    using bit_length_bounds [of "nat p"] bit_length_bounds [of "nat q"] p q by auto
  have P': "pow2 (int ?P - 1) \<le> of_int p"
  proof -
    have "pow2 (int ?P - 1) = of_nat (2 ^ (?P - 1))" using P(2) pow2_nat [of "?P - 1"] by (simp add: of_nat_diff)
    also have "\<dots> \<le> of_nat (nat p)" using P(1) of_nat_le_iff by blast
    also have "\<dots> = of_int p" using p by simp
    finally show ?thesis .
  qed
  have Q': "of_int q < pow2 (int ?Q)"
  proof -
    have "of_int q = (of_nat (nat q) :: rat)" using q by simp
    also have "\<dots> < of_nat (2 ^ ?Q)" using Q(1) of_nat_less_iff by blast
    finally show ?thesis by (simp add: pow2_nat)
  qed
  have "pow2 (int ?P - int ?Q - 1) \<le> x"
  proof -
    have "pow2 (int ?P - int ?Q - 1) = pow2 (int ?P - 1) / pow2 (int ?Q)"
      by (simp add: pow2_diff [symmetric] algebra_simps)
    also have "\<dots> \<le> of_int p / of_int q"
      using P' Q' q p by (intro frac_le) auto
    finally show ?thesis using x by simp
  qed
  then show ?thesis using pq by (auto simp: exponent_def Let_def)
qed

lemma nearest_even_error: "\<bar>of_int (nearest_even x) - x\<bar> \<le> 1 / 2"
proof -
  have "of_int \<lfloor>x\<rfloor> \<le> x" "x < of_int \<lfloor>x\<rfloor> + 1" by linarith+
  then show ?thesis by (auto simp: nearest_even_def Let_def abs_le_iff)
qed

lemma fl_relative: "\<bar>fl x - x\<bar> \<le> \<bar>x\<bar> / 2 ^ 53"
proof (cases "x = 0")
  case False
  let ?u = "pow2 (exponent \<bar>x\<bar> - 52)"
  have "fl x - x = (of_int (nearest_even (x / ?u)) - x / ?u) * ?u"
    using False pow2_pos [of "exponent \<bar>x\<bar> - 52"] by (simp add: fl_def Let_def field_simps)
  then have "\<bar>fl x - x\<bar> = \<bar>of_int (nearest_even (x / ?u)) - x / ?u\<bar> * ?u"
    by (simp add: abs_mult abs_of_pos)
  also have "\<dots> \<le> 1 / 2 * ?u"
    by (intro mult_right_mono nearest_even_error) (simp add: less_imp_le)
  also have "\<dots> = pow2 (exponent \<bar>x\<bar>) / 2 ^ 53"
    by (simp add: pow2_diff pow2_nat [of 52, simplified])
  also have "\<dots> \<le> \<bar>x\<bar> / 2 ^ 53"
    using exponent_le [of "\<bar>x\<bar>"] False by (intro divide_right_mono) auto
  finally show ?thesis .
qed (simp add: fl_def)

lemma fl_0 [simp]: "fl 0 = 0"
  by (simp add: fl_def)

text \<open>The form the price proofs use: below \<open>2 ^ 38\<close> the error is at most \<open>2 ^ -15\<close>.\<close>

lemma fl_error: "\<bar>x\<bar> \<le> 274877906944 \<Longrightarrow> \<bar>fl x - x\<bar> \<le> 1 / 32768"
  using fl_relative [of x] by (simp add: field_simps)

lemma math_round_near: "\<bar>x - of_int n\<bar> < 1 / 2 \<Longrightarrow> math_round x = n"
  unfolding math_round_def by (rule floor_unique) linarith+

lemma math_round_error: "\<bar>of_int (math_round x) - x\<bar> \<le> 1 / 2"
  unfolding math_round_def by linarith

text \<open>Numbers with at most 53 significant bits are represented exactly.\<close>

lemma nearest_even_int [simp]: "nearest_even (of_int n) = n"
  by (simp add: nearest_even_def)

lemma fl_exact:
  assumes "x = of_int m * pow2 (- int k)" "\<bar>m\<bar> < 2 ^ 53"
  shows "fl x = x"
proof (cases "x = 0")
  case False
  define e where "e = exponent \<bar>x\<bar>"
  have abs_x: "\<bar>x\<bar> = of_int \<bar>m\<bar> * pow2 (- int k)" using assms(1) by (simp add: abs_mult abs_of_pos)
  have "e - 52 \<le> - int k"
  proof (rule ccontr)
    assume "\<not> e - 52 \<le> - int k"
    then have "53 - int k \<le> e" by linarith
    then obtain j where j: "e = 53 - int k + int j" by (metis zle_iff_zadd)
    have "pow2 e \<le> of_int \<bar>m\<bar> * pow2 (- int k)" using exponent_le [of "\<bar>x\<bar>"] False abs_x by (simp add: e_def)
    then have "pow2 (int (53 + j)) * pow2 (- int k) \<le> of_int \<bar>m\<bar> * pow2 (- int k)"
      unfolding j by (simp flip: pow2_add add: algebra_simps)
    then have "pow2 (int (53 + j)) \<le> of_int \<bar>m\<bar>" by (simp add: mult_le_cancel_right)
    then have "2 ^ (53 + j) \<le> \<bar>m\<bar>" unfolding pow2_nat by (metis of_int_le_iff of_int_numeral of_int_power)
    moreover have "(2 :: int) ^ 53 \<le> 2 ^ (53 + j)" by (intro power_increasing) auto
    ultimately show False using assms(2) by linarith
  qed
  then obtain i where i: "- int k = e - 52 + int i" by (metis zle_iff_zadd)
  have "x = of_int m * (pow2 (e - 52) * 2 ^ i)" using assms(1) i by (simp add: pow2_add pow2_nat)
  then have q: "x / pow2 (e - 52) = of_int (m * 2 ^ i)" by (simp add: field_simps)
  have "fl x = of_int (nearest_even (x / pow2 (e - 52))) * pow2 (e - 52)"
    using False by (simp add: fl_def Let_def e_def)
  also have "\<dots> = x / pow2 (e - 52) * pow2 (e - 52)" unfolding q nearest_even_int by (rule refl)
  finally show ?thesis by simp
qed simp

end
