(* ===== verification/Pricing.thy ===== *)
theory Pricing
  imports Double
begin

text \<open>
  The price list: \<open>apps/control-plane/src/lib/pricing_math.ts\<close> (the public site has an identical copy)
  and the copy of the support application, \<open>apps/support-crm/src/lib/pricing_math.ts\<close>, which omits the
  apportionment. Amounts are JavaScript numbers; an amount of \<open>n\<close> cents is the number \<open>cents n\<close> nearest
  to \<open>n / 100\<close>.
\<close>

section \<open>Data\<close>

datatype billing_cycle = Monthly | Annual

record tier_bracket =
  b_tier :: nat
  b_name :: string
  b_rangeLabel :: string
  minSeats :: int
  maxSeats :: "int option"
  b_unitRate :: rat
  b_discountBadge :: "string option"

record waterfall_line =
  tier :: nat
  tier_name :: string
  rangeLabel :: string
  seatsInTier :: int
  unitRate :: rat
  cost :: rat
  annualCost :: rat
  monthlyEquivalentCost :: rat
  discountBadge :: "string option"

record resource_limits =
  maxDomains :: nat
  maxAliases :: int
  extraDomainPriceMonthly :: rat

record pricing_breakdown =
  seatCount :: int
  billingCycle :: billing_cycle
  lines :: "waterfall_line list"
  baseMonthlyTotal :: rat
  totalMonthlyCost :: rat
  totalAmount :: rat
  annualTotal :: rat
  annualSavings :: rat
  blendedRate :: rat
  resourceLimits :: resource_limits

text \<open>\<open>maxSeats: Infinity\<close> is \<open>None\<close>; a decimal literal is the number nearest to it.\<close>

definition TIER_BRACKETS :: "tier_bracket list" where
  "TIER_BRACKETS =
     [\<lparr>b_tier = 1, b_name = ''Tier 1'', b_rangeLabel = ''Seats 1'' @ en_dash @ ''10'', minSeats = 1,
       maxSeats = Some 10, b_unitRate = fl 3, b_discountBadge = None\<rparr>,
      \<lparr>b_tier = 2, b_name = ''Tier 2'', b_rangeLabel = ''Seats 11'' @ en_dash @ ''25'', minSeats = 11,
       maxSeats = Some 25, b_unitRate = fl (285 / 100), b_discountBadge = Some ''-5% Volume Discount''\<rparr>,
      \<lparr>b_tier = 3, b_name = ''Tier 3'', b_rangeLabel = ''Seats 26'' @ en_dash @ ''50'', minSeats = 26,
       maxSeats = Some 50, b_unitRate = fl (271 / 100), b_discountBadge = Some ''-10% Volume Discount''\<rparr>,
      \<lparr>b_tier = 4, b_name = ''Tier 4'', b_rangeLabel = ''Seats 51'' @ en_dash @ ''100'', minSeats = 51,
       maxSeats = Some 100, b_unitRate = fl (257 / 100), b_discountBadge = Some ''-14% Volume Discount''\<rparr>,
      \<lparr>b_tier = 5, b_name = ''Tier 5'', b_rangeLabel = ''Seats 101+'', minSeats = 101,
       maxSeats = None, b_unitRate = fl (244 / 100), b_discountBadge = Some ''-19% Volume Discount''\<rparr>]"

section \<open>Operations\<close>

text \<open>\<open>Math.max(1, Math.floor(seats || 1))\<close>; \<open>None\<close> is \<open>NaN\<close>.\<close>

definition seat_count :: "rat option \<Rightarrow> int" where
  "seat_count seats = max 1 \<lfloor>case seats of None \<Rightarrow> 1 | Some x \<Rightarrow> if x = 0 then 1 else x\<rfloor>"

definition calculateResourceLimits :: "rat option \<Rightarrow> resource_limits" where
  "calculateResourceLimits seats =
     (let n = seat_count seats
      in \<lparr>maxDomains = (if 26 \<le> n then 10 else if 11 \<le> n then 5 else 3), maxAliases = n * 10,
          extraDomainPriceMonthly = fl (150 / 100)\<rparr>)"

text \<open>\<open>Math.round(x * 100)\<close> and \<open>Math.round(x * 100) / 100\<close>.\<close>

definition round_cents :: "rat \<Rightarrow> int" where
  "round_cents x = math_round (fl (x * 100))"

definition cents :: "int \<Rightarrow> rat" where
  "cents n = fl (of_int n / 100)"

definition round2 :: "rat \<Rightarrow> rat" where
  "round2 x = cents (round_cents x)"

definition bracket_line :: "tier_bracket \<Rightarrow> int \<Rightarrow> waterfall_line" where
  "bracket_line bracket n =
     (let c = round2 (fl (of_int n * b_unitRate bracket))
      in \<lparr>tier = b_tier bracket, tier_name = b_name bracket, rangeLabel = b_rangeLabel bracket,
          seatsInTier = n, unitRate = b_unitRate bracket, cost = c,
          annualCost = round2 (fl (c * 10)),
          monthlyEquivalentCost = round2 (fl (fl (c * 10) / 12)),
          discountBadge = b_discountBadge bracket\<rparr>)"

text \<open>The loop over the brackets with the seats that remain and the running sum.\<close>

fun waterfall :: "tier_bracket list \<Rightarrow> int \<Rightarrow> rat \<Rightarrow> waterfall_line list \<times> rat" where
  "waterfall [] remaining base = ([], base)"
| "waterfall (b # bs) remaining base =
     (if remaining \<le> 0 then ([], base)
      else let capacity = (case maxSeats b of None \<Rightarrow> remaining | Some m \<Rightarrow> m - minSeats b + 1);
               n = min remaining capacity
           in if 0 < n
              then let l = bracket_line b n; (ls, base') = waterfall bs (remaining - n) (fl (base + cost l))
                   in (l # ls, base')
              else waterfall bs remaining base)"

definition sum_numbers :: "rat list \<Rightarrow> rat" where
  "sum_numbers xs = foldl (\<lambda>acc x. fl (acc + x)) 0 xs"

text \<open>Adding a difference to the last line of the list.\<close>

definition adjust_last :: "('a \<Rightarrow> 'a) \<Rightarrow> 'a list \<Rightarrow> 'a list" where
  "adjust_last f xs = (if xs = [] then [] else butlast xs @ [f (last xs)])"

definition apportion_monthly :: "rat \<Rightarrow> waterfall_line list \<Rightarrow> waterfall_line list" where
  "apportion_monthly target ls =
     (let sumLines = round2 (sum_numbers (map monthlyEquivalentCost ls));
          diff = round2 (fl (target - sumLines))
      in if diff \<noteq> 0 \<and> ls \<noteq> []
         then adjust_last (\<lambda>l. l\<lparr>monthlyEquivalentCost := round2 (fl (monthlyEquivalentCost l + diff))\<rparr>) ls
         else ls)"

definition apportion_annual :: "rat \<Rightarrow> waterfall_line list \<Rightarrow> waterfall_line list" where
  "apportion_annual target ls =
     (let sumLines = round2 (sum_numbers (map annualCost ls));
          diff = round2 (fl (target - sumLines))
      in if diff \<noteq> 0 \<and> ls \<noteq> []
         then adjust_last (\<lambda>l. l\<lparr>annualCost := round2 (fl (annualCost l + diff))\<rparr>) ls
         else ls)"

definition calculateGraduatedPricing :: "rat option \<Rightarrow> billing_cycle \<Rightarrow> pricing_breakdown" where
  "calculateGraduatedPricing seats cycle =
     (let n = seat_count seats;
          (ls, baseMonthlyCost) = waterfall TIER_BRACKETS n 0;
          base = round2 baseMonthlyCost;
          limits = calculateResourceLimits (Some (of_int n))
      in case cycle of
           Annual \<Rightarrow>
             (let annual = round2 (fl (base * 10));
                  monthly = round2 (fl (annual / 12));
                  savings = round2 (fl (base * 2));
                  blended = round2 (fl (fl (annual / 12) / of_int n));
                  ls' = apportion_annual annual (apportion_monthly monthly ls)
              in \<lparr>seatCount = n, billingCycle = cycle, lines = ls', baseMonthlyTotal = base,
                  totalMonthlyCost = monthly, totalAmount = annual, annualTotal = annual,
                  annualSavings = savings, blendedRate = blended, resourceLimits = limits\<rparr>)
         | Monthly \<Rightarrow>
             \<lparr>seatCount = n, billingCycle = cycle, lines = ls, baseMonthlyTotal = base,
              totalMonthlyCost = base, totalAmount = base, annualTotal = round2 (fl (base * 12)),
              annualSavings = 0, blendedRate = round2 (fl (base / of_int n)), resourceLimits = limits\<rparr>)"

text \<open>The copy of the support application: no apportionment of the annual lines.\<close>

definition calculateGraduatedPricing_crm :: "rat option \<Rightarrow> billing_cycle \<Rightarrow> pricing_breakdown" where
  "calculateGraduatedPricing_crm seats cycle =
     (let n = seat_count seats;
          (ls, baseMonthlyCost) = waterfall TIER_BRACKETS n 0;
          base = round2 baseMonthlyCost;
          limits = calculateResourceLimits (Some (of_int n))
      in case cycle of
           Annual \<Rightarrow>
             (let annual = round2 (fl (base * 10))
              in \<lparr>seatCount = n, billingCycle = cycle, lines = ls, baseMonthlyTotal = base,
                  totalMonthlyCost = round2 (fl (annual / 12)), totalAmount = annual, annualTotal = annual,
                  annualSavings = round2 (fl (base * 2)),
                  blendedRate = round2 (fl (fl (annual / 12) / of_int n)), resourceLimits = limits\<rparr>)
         | Monthly \<Rightarrow>
             \<lparr>seatCount = n, billingCycle = cycle, lines = ls, baseMonthlyTotal = base,
              totalMonthlyCost = base, totalAmount = base, annualTotal = round2 (fl (base * 12)),
              annualSavings = 0, blendedRate = round2 (fl (base / of_int n)), resourceLimits = limits\<rparr>)"

text \<open>The price list in whole cents: the rate of a bracket, and the seats each bracket receives.\<close>

definition rate :: "tier_bracket \<Rightarrow> int" where
  "rate b = round_cents (b_unitRate b)"

fun tiers :: "tier_bracket list \<Rightarrow> int \<Rightarrow> (tier_bracket \<times> int) list" where
  "tiers [] remaining = []"
| "tiers (b # bs) remaining =
     (if remaining \<le> 0 then []
      else let n = min remaining (case maxSeats b of None \<Rightarrow> remaining | Some m \<Rightarrow> m - minSeats b + 1)
           in if 0 < n then (b, n) # tiers bs (remaining - n) else tiers bs remaining)"

definition tier_cents :: "int \<Rightarrow> int list" where
  "tier_cents n = map (\<lambda>(b, k). rate b * k) (tiers TIER_BRACKETS n)"

definition graduated_cents :: "int \<Rightarrow> int" where
  "graduated_cents n = 300 * min n 10 + 285 * max 0 (min n 25 - 10) + 271 * max 0 (min n 50 - 25)
     + 257 * max 0 (min n 100 - 50) + 244 * max 0 (n - 100)"

section \<open>Rounding of amounts\<close>

abbreviation amount_ok :: "int \<Rightarrow> bool" where
  "amount_ok n \<equiv> \<bar>n\<bar> \<le> 100000000000"

lemma round_cents_near:
  assumes "\<bar>x - of_int n / 100\<bar> \<le> 1 / 1000" "amount_ok n"
  shows "round_cents x = n"
proof -
  have n: "\<bar>of_int n :: rat\<bar> \<le> 100000000000" using assms(2) by linarith
  have x: "\<bar>x * 100 - of_int n\<bar> \<le> 1 / 10" using assms(1) by linarith
  have "\<bar>fl (x * 100) - x * 100\<bar> \<le> 1 / 32768" using x n by (intro fl_error) linarith
  with x show ?thesis unfolding round_cents_def by (intro math_round_near) linarith
qed

lemma round2_near:
  assumes "\<bar>x - of_int n / 100\<bar> \<le> 1 / 1000" "amount_ok n"
  shows "round2 x = cents n"
  using round_cents_near [OF assms] by (simp add: round2_def)

lemma cents_near: "amount_ok n \<Longrightarrow> \<bar>cents n - of_int n / 100\<bar> \<le> 1 / 32768"
proof -
  assume "amount_ok n"
  then have "\<bar>of_int n :: rat\<bar> \<le> 100000000000" by linarith
  then show ?thesis unfolding cents_def by (intro fl_error) linarith
qed

lemma cents_0 [simp]: "cents 0 = 0"
  by (simp add: cents_def)

lemma cents_eq_0_iff: "cents n = 0 \<longleftrightarrow> n = 0"
proof
  assume "cents n = 0"
  with fl_relative [of "of_int n / 100"] have "\<bar>of_int n / 100 :: rat\<bar> * (1 - 1 / 2 ^ 53) \<le> 0"
    by (simp add: cents_def field_simps)
  then show "n = 0" by (simp add: mult_le_0_iff)
qed simp

lemma near_bound: "\<bar>x - of_int n / 100\<bar> \<le> 1 \<Longrightarrow> amount_ok n \<Longrightarrow> \<bar>x :: rat\<bar> \<le> 274877906944"
proof -
  assume "\<bar>x - of_int n / 100\<bar> \<le> 1" "amount_ok n"
  moreover from this(2) have "\<bar>of_int n :: rat\<bar> \<le> 100000000000" by linarith
  ultimately show ?thesis by linarith
qed

text \<open>An amount plus or minus an amount, and an amount times a small factor, rounded to cents, are exact.\<close>

lemma round2_add:
  assumes "amount_ok m" "amount_ok n" "amount_ok (m + n)"
  shows "round2 (fl (cents m + cents n)) = cents (m + n)"
proof -
  have c: "\<bar>cents m + cents n - of_int (m + n) / 100\<bar> \<le> 2 / 32768"
    using cents_near [OF assms(1)] cents_near [OF assms(2)] unfolding of_int_add add_divide_distrib by linarith
  then have "\<bar>fl (cents m + cents n) - (cents m + cents n)\<bar> \<le> 1 / 32768"
    using assms(3) by (intro fl_error near_bound [of _ "m + n"]) linarith
  with c assms(3) show ?thesis by (intro round2_near) linarith+
qed

lemma round2_diff:
  assumes "amount_ok m" "amount_ok n" "amount_ok (m - n)"
  shows "round2 (fl (cents m - cents n)) = cents (m - n)"
proof -
  have c: "\<bar>cents m - cents n - of_int (m - n) / 100\<bar> \<le> 2 / 32768"
    using cents_near [OF assms(1)] cents_near [OF assms(2)] unfolding of_int_diff diff_divide_distrib by linarith
  then have "\<bar>fl (cents m - cents n) - (cents m - cents n)\<bar> \<le> 1 / 32768"
    using assms(3) by (intro fl_error near_bound [of _ "m - n"]) linarith
  with c assms(3) show ?thesis by (intro round2_near) linarith+
qed

lemma scaled_near:
  assumes "amount_ok (k * n)" "1 \<le> k" "k \<le> 12"
  shows "\<bar>fl (cents n * of_int k) - of_int (k * n) / 100\<bar> \<le> 13 / 32768"
proof -
  have "\<bar>n\<bar> \<le> \<bar>k * n\<bar>" using assms(2) by (simp add: abs_mult mult_le_cancel_right1)
  with assms(1) have n: "\<bar>cents n - of_int n / 100\<bar> \<le> 1 / 32768" by (intro cents_near) linarith
  have "\<bar>cents n * of_int k - of_int (k * n) / 100\<bar> = \<bar>cents n - of_int n / 100\<bar> * of_int k"
  proof -
    have "cents n * of_int k - of_int (k * n) / 100 = (cents n - of_int n / 100) * of_int k"
      by (simp add: algebra_simps)
    then show ?thesis using assms(2) by (simp add: abs_mult)
  qed
  also have "\<dots> \<le> 1 / 32768 * 12"
    using n assms(2,3) by (intro mult_mono) auto
  finally have c: "\<bar>cents n * of_int k - of_int (k * n) / 100\<bar> \<le> 12 / 32768" by simp
  moreover have "\<bar>of_int (k * n) :: rat\<bar> \<le> 100000000000" using assms(1) by linarith
  ultimately have "\<bar>fl (cents n * of_int k) - cents n * of_int k\<bar> \<le> 1 / 32768"
    by (intro fl_error) linarith
  with c show ?thesis by linarith
qed

lemma round2_scaled:
  assumes "amount_ok (k * n)" "1 \<le> k" "k \<le> 12"
  shows "round2 (fl (cents n * of_int k)) = cents (k * n)"
proof (rule round2_near [OF _ assms(1)])
  show "\<bar>fl (cents n * of_int k) - of_int (k * n) / 100\<bar> \<le> 1 / 1000"
    using scaled_near [OF assms] by linarith
qed

text \<open>A twelfth of ten times an amount: within half a cent, up to the rounding of ties.\<close>

lemma round2_twelfth:
  assumes "\<bar>y - of_int k / 10\<bar> \<le> 13 / 32768" "\<bar>k\<bar> \<le> 10000000000"
  shows "\<exists>m. round2 (fl (y / 12)) = cents m \<and> \<bar>6 * m - 5 * k\<bar> \<le> 3"
proof -
  let ?m = "round_cents (fl (y / 12))"
  have k: "\<bar>of_int k :: rat\<bar> \<le> 10000000000" using assms(2) by linarith
  have "\<bar>fl (y / 12) - y / 12\<bar> \<le> 1 / 32768" using assms(1) k by (intro fl_error) linarith
  with assms(1) have f: "\<bar>fl (y / 12) * 100 - 5 * of_int k / 6\<bar> \<le> 210 / 32768"
    unfolding abs_le_iff by linarith
  then have "\<bar>fl (fl (y / 12) * 100) - fl (y / 12) * 100\<bar> \<le> 1 / 32768" using k by (intro fl_error) linarith
  with f math_round_error [of "fl (fl (y / 12) * 100)"]
  have "\<bar>of_int ?m - 5 * of_int k / 6 :: rat\<bar> < 4 / 6"
    unfolding round_cents_def abs_le_iff abs_less_iff by linarith
  then have "\<bar>of_int (6 * ?m - 5 * k) :: rat\<bar> < 4" unfolding abs_less_iff by simp
  then have "\<bar>6 * ?m - 5 * k\<bar> < 4" by linarith
  then show ?thesis by (intro exI [of _ ?m]) (simp add: round2_def)
qed

section \<open>The waterfall in cents\<close>

lemma waterfall_tiers:
  "waterfall bs n base =
     (map (\<lambda>(b, k). bracket_line b k) (tiers bs n),
      foldl (\<lambda>acc x. fl (acc + x)) base (map (\<lambda>(b, k). cost (bracket_line b k)) (tiers bs n)))"
  by (induction bs arbitrary: n base) (simp_all add: Let_def)

lemma foldl_cents_near:
  assumes "list_all (\<lambda>k. 0 \<le> k) ks" "\<bar>acc - of_int s / 100\<bar> \<le> of_nat j / 16384" "0 \<le> s"
    "amount_ok (s + sum_list ks)" "j + length ks \<le> 16"
  shows "\<bar>foldl (\<lambda>acc x. fl (acc + x)) acc (map cents ks) - of_int (s + sum_list ks) / 100\<bar>
    \<le> of_nat (j + length ks) / 16384"
  using assms
proof (induction ks arbitrary: acc s j)
  case (Cons k ks)
  have ks: "0 \<le> sum_list ks" using Cons.prems(1) by (intro sum_list_nonneg) (auto simp: list_all_iff)
  have k: "0 \<le> k" "amount_ok k" "amount_ok (s + k)" using Cons.prems ks by auto
  have j: "of_nat j / 16384 \<le> (1 / 1024 :: rat)" using Cons.prems(5) by simp
  have sk: "\<bar>acc + cents k - of_int (s + k) / 100\<bar> \<le> of_nat j / 16384 + 1 / 32768"
    using Cons.prems(2) cents_near [OF k(2)] unfolding of_int_add add_divide_distrib by linarith
  have "\<bar>fl (acc + cents k) - (acc + cents k)\<bar> \<le> 1 / 32768"
  proof (intro fl_error near_bound [OF _ k(3)])
    show "\<bar>acc + cents k - of_int (s + k) / 100\<bar> \<le> 1" using sk j by linarith
  qed
  with sk have "\<bar>fl (acc + cents k) - of_int (s + k) / 100\<bar> \<le> of_nat (Suc j) / 16384"
    unfolding of_nat_Suc add_divide_distrib by linarith
  with Cons.IH [of "fl (acc + cents k)" "s + k" "Suc j"] Cons.prems k show ?case
    by (simp add: add.assoc)
qed simp

lemma round2_foldl_cents:
  assumes "list_all (\<lambda>k. 0 \<le> k) ks" "amount_ok (sum_list ks)" "length ks \<le> 16"
  shows "round2 (foldl (\<lambda>acc x. fl (acc + x)) 0 (map cents ks)) = cents (sum_list ks)"
proof (rule round2_near [OF _ assms(2)])
  have "\<bar>foldl (\<lambda>acc x. fl (acc + x)) 0 (map cents ks) - of_int (sum_list ks) / 100\<bar> \<le> of_nat (length ks) / 16384"
    using foldl_cents_near [OF assms(1), of 0 0 0] assms by simp
  also have "\<dots> \<le> (16 / 16384 :: rat)" using assms(3) by simp
  finally show "\<bar>foldl (\<lambda>acc x. fl (acc + x)) 0 (map cents ks) - of_int (sum_list ks) / 100\<bar> \<le> 1 / 1000"
    by linarith
qed

text \<open>The rates of the five brackets in cents.\<close>

lemma rate_fl: "amount_ok r \<Longrightarrow> b_unitRate b = fl (of_int r / 100) \<Longrightarrow> rate b = r"
  using cents_near [of r] by (simp add: rate_def cents_def round_cents_near)

lemma bracket_rates:
  "b \<in> set TIER_BRACKETS \<Longrightarrow> b_unitRate b = cents (rate b) \<and> 244 \<le> rate b \<and> rate b \<le> 300"
proof -
  assume b: "b \<in> set TIER_BRACKETS"
  then have "\<exists>r \<in> {300, 285, 271, 257, 244}. b_unitRate b = fl (of_int r / 100)"
    by (auto simp: TIER_BRACKETS_def)
  then obtain r where "r \<in> {300, 285, 271, 257, 244}" "b_unitRate b = fl (of_int r / 100)" by blast
  with rate_fl [of r b] show ?thesis by (auto simp: cents_def)
qed

lemma map_rate_brackets: "map rate TIER_BRACKETS = [300, 285, 271, 257, 244]"
  using rate_fl [of 300] rate_fl [of 285] rate_fl [of 271] rate_fl [of 257] rate_fl [of 244]
  by (simp add: TIER_BRACKETS_def)

lemma tiers_sum: "(b, k) \<in> set (tiers bs n) \<Longrightarrow> 0 < k \<and> k \<le> n \<and> b \<in> set bs"
  by (induction bs arbitrary: n) (fastforce simp: Let_def split: if_splits option.splits)+

lemma length_tiers: "length (tiers bs n) \<le> length bs"
  by (induction bs arbitrary: n) (auto simp: Let_def le_SucI)

lemma sum_tier_cents: "1 \<le> n \<Longrightarrow> sum_list (tier_cents n) = graduated_cents n"
  using map_rate_brackets
  by (auto simp: tier_cents_def graduated_cents_def TIER_BRACKETS_def min_def max_def)

lemma tiers_seats: "1 \<le> n \<Longrightarrow> sum_list (map snd (tiers TIER_BRACKETS n)) = n \<and> tiers TIER_BRACKETS n \<noteq> []"
  by (auto simp: TIER_BRACKETS_def min_def)

lemma graduated_bounds: "1 \<le> n \<Longrightarrow> 244 * n \<le> graduated_cents n \<and> graduated_cents n \<le> 300 * n"
  by (simp add: graduated_cents_def min_def max_def)

lemma line_cost:
  assumes "b \<in> set TIER_BRACKETS" "0 < k" "k \<le> 10000000"
  shows "cost (bracket_line b k) = cents (rate b * k)"
proof -
  note r = bracket_rates [OF assms(1)]
  have "\<bar>cents (rate b) - of_int (rate b) / 100\<bar> \<le> \<bar>of_int (rate b) / 100\<bar> / 2 ^ 53"
    unfolding cents_def by (rule fl_relative)
  also have "\<dots> \<le> 3 / 2 ^ 53" using r by (intro divide_right_mono) auto
  finally have u: "\<bar>b_unitRate b - of_int (rate b) / 100\<bar> \<le> 3 / 2 ^ 53" using r by simp
  have "of_int k * b_unitRate b - of_int (rate b * k) / 100 = of_int k * (b_unitRate b - of_int (rate b) / 100)"
    by (simp add: algebra_simps)
  then have "\<bar>of_int k * b_unitRate b - of_int (rate b * k) / 100\<bar> = of_int k * \<bar>b_unitRate b - of_int (rate b) / 100\<bar>"
    using assms(2) by (simp only: abs_mult)
  also have "\<dots> \<le> 10000000 * (3 / 2 ^ 53)"
    using u assms(2,3) by (intro mult_mono) auto
  finally have p: "\<bar>of_int k * b_unitRate b - of_int (rate b * k) / 100\<bar> \<le> 1 / 32768"
    by (rule order_trans) simp
  have "rate b * k \<le> 300 * 10000000" using r assms(2,3) by (intro mult_mono) auto
  moreover have "0 \<le> rate b * k" using r assms(2) by simp
  ultimately have ok: "amount_ok (rate b * k)" by simp
  have "\<bar>fl (of_int k * b_unitRate b) - of_int k * b_unitRate b\<bar> \<le> 1 / 32768"
    using p ok by (intro fl_error near_bound [of _ "rate b * k"]) linarith+
  with p have "round2 (fl (of_int k * b_unitRate b)) = cents (rate b * k)"
    using ok by (intro round2_near) linarith+
  then show ?thesis by (simp add: bracket_line_def Let_def)
qed

lemma line_costs:
  assumes "b \<in> set TIER_BRACKETS" "0 < k" "k \<le> 10000000"
  shows "annualCost (bracket_line b k) = cents (10 * (rate b * k))"
    "\<exists>m. monthlyEquivalentCost (bracket_line b k) = cents m \<and> \<bar>6 * m - 5 * (rate b * k)\<bar> \<le> 3"
proof -
  note r = bracket_rates [OF assms(1)]
  let ?c = "rate b * k"
  have c: "0 \<le> ?c" "?c \<le> 3000000000"
    using r assms(2,3) mult_mono [of "rate b" 300 k 10000000] by auto
  have cost: "round2 (fl (of_int k * b_unitRate b)) = cents ?c"
    using line_cost [OF assms] by (simp add: bracket_line_def Let_def)
  show "annualCost (bracket_line b k) = cents (10 * ?c)"
  proof -
    have "round2 (fl (cents ?c * of_int 10)) = cents (10 * ?c)"
      using c by (intro round2_scaled) linarith+
    with cost show ?thesis by (simp add: bracket_line_def Let_def)
  qed
  have "\<bar>fl (cents ?c * 10) - of_int ?c / 10\<bar> \<le> 13 / 32768"
  proof -
    have "\<bar>fl (cents ?c * of_int 10) - of_int (10 * ?c) / 100\<bar> \<le> 13 / 32768"
      using c by (intro scaled_near) linarith+
    then show ?thesis by (simp add: mult_ac)
  qed
  with c round2_twelfth [of "fl (cents ?c * 10)" ?c]
  show "\<exists>m. monthlyEquivalentCost (bracket_line b k) = cents m \<and> \<bar>6 * m - 5 * ?c\<bar> \<le> 3"
    using cost by (simp add: bracket_line_def Let_def)
qed

lemma tier_lines:
  assumes "1 \<le> n" "n \<le> 10000000" "ls = map (\<lambda>(b, k). bracket_line b k) (tiers TIER_BRACKETS n)"
  shows "map cost ls = map cents (tier_cents n)"
    "map annualCost ls = map cents (map ((*) 10) (tier_cents n))"
    "\<exists>ms. map monthlyEquivalentCost ls = map cents ms
        \<and> list_all2 (\<lambda>m c. \<bar>6 * m - 5 * c\<bar> \<le> 3) ms (tier_cents n)"
proof -
  have mem: "b \<in> set TIER_BRACKETS \<and> 0 < k \<and> k \<le> 10000000" if "(b, k) \<in> set (tiers TIER_BRACKETS n)" for b k
    using tiers_sum [OF that] assms(2) by auto
  show "map cost ls = map cents (tier_cents n)" "map annualCost ls = map cents (map ((*) 10) (tier_cents n))"
    using mem by (auto simp: assms(3) tier_cents_def line_cost line_costs)
  have "\<exists>ms. map monthlyEquivalentCost (map (\<lambda>(b, k). bracket_line b k) ts) = map cents ms
      \<and> list_all2 (\<lambda>m c. \<bar>6 * m - 5 * c\<bar> \<le> 3) ms (map (\<lambda>(b, k). rate b * k) ts)"
    if "\<forall>(b, k) \<in> set ts. b \<in> set TIER_BRACKETS \<and> 0 < k \<and> k \<le> 10000000" for ts
    using that
  proof (induction ts)
    case (Cons t ts)
    obtain b k where t: "t = (b, k)" by fastforce
    with Cons.prems obtain m where "monthlyEquivalentCost (bracket_line b k) = cents m" "\<bar>6 * m - 5 * (rate b * k)\<bar> \<le> 3"
      using line_costs(2) [of b k] by auto
    moreover obtain ms where "map monthlyEquivalentCost (map (\<lambda>(b, k). bracket_line b k) ts) = map cents ms"
      "list_all2 (\<lambda>m c. \<bar>6 * m - 5 * c\<bar> \<le> 3) ms (map (\<lambda>(b, k). rate b * k) ts)"
      using Cons by auto
    ultimately show ?case using t by (intro exI [of _ "m # ms"]) simp
  qed simp
  with mem show "\<exists>ms. map monthlyEquivalentCost ls = map cents ms
      \<and> list_all2 (\<lambda>m c. \<bar>6 * m - 5 * c\<bar> \<le> 3) ms (tier_cents n)"
    unfolding assms(3) tier_cents_def by blast
qed

lemma tier_cents_facts:
  assumes "1 \<le> n" "n \<le> 10000000"
  shows "list_all (\<lambda>c. 244 \<le> c) (tier_cents n)" "length (tier_cents n) \<le> 5" "tier_cents n \<noteq> []"
    "0 < sum_list (tier_cents n)" "sum_list (tier_cents n) \<le> 3000000000"
    "list_all (\<lambda>c. 0 \<le> c) (tier_cents n)"
proof -
  have "244 \<le> rate b * k" if "(b, k) \<in> set (tiers TIER_BRACKETS n)" for b k
    using bracket_rates [of b] tiers_sum [OF that] mult_mono [of 244 "rate b" 1 k] by auto
  then show ge: "list_all (\<lambda>c. 244 \<le> c) (tier_cents n)" by (auto simp: tier_cents_def list_all_iff)
  then show "list_all (\<lambda>c. 0 \<le> c) (tier_cents n)" by (rule list.pred_mono_strong) simp
  show "length (tier_cents n) \<le> 5" using length_tiers [of TIER_BRACKETS n]
    by (simp add: tier_cents_def) (simp add: TIER_BRACKETS_def)
  show "tier_cents n \<noteq> []" using tiers_seats [OF assms(1)] by (simp add: tier_cents_def)
  show "0 < sum_list (tier_cents n)" "sum_list (tier_cents n) \<le> 3000000000"
    using sum_tier_cents [OF assms(1)] graduated_bounds [OF assms(1)] assms by linarith+
qed

lemma twelfths_sum:
  "list_all2 (\<lambda>m c. \<bar>6 * m - 5 * c\<bar> \<le> (3 :: int)) ms cs \<Longrightarrow> list_all (\<lambda>c. 244 \<le> c) cs \<Longrightarrow>
   list_all (\<lambda>m. 0 \<le> m) ms \<and> 0 \<le> sum_list ms \<and> sum_list ms \<le> sum_list cs \<and> length ms = length cs"
  by (induction rule: list_all2_induct) auto

lemma adjust_last_map:
  "xs \<noteq> [] \<Longrightarrow> map g (adjust_last f xs) = butlast (map g xs) @ [g (f (last xs))]"
  by (simp add: adjust_last_def map_butlast)

lemma sum_list_butlast: "xs \<noteq> [] \<Longrightarrow> sum_list (butlast xs @ [last xs + d]) = sum_list xs + (d :: int)"
  by (metis append_butlast_last_id add.assoc sum_list.Cons sum_list.Nil sum_list_append add_0_right)

lemma apportion_monthly_cents:
  assumes "map monthlyEquivalentCost ls = map cents ms" "ms \<noteq> []" "length ms \<le> 16"
    and "list_all (\<lambda>m. 0 \<le> m) ms" "sum_list ms \<le> 10000000000" "0 \<le> M" "M \<le> 10000000000"
  shows "\<exists>ms'. map monthlyEquivalentCost (apportion_monthly (cents M) ls) = map cents ms' \<and> sum_list ms' = M"
proof -
  have ls: "ls \<noteq> []" using assms(1,2) by auto
  have pos: "0 \<le> sum_list ms" using assms(4) by (intro sum_list_nonneg) (simp add: list_all_iff)
  have "last ms \<in> set ms" using assms(2) by simp
  then have l: "0 \<le> last ms" "last ms \<le> sum_list ms"
    using assms(4) member_le_sum_list [of "last ms" ms] by (auto simp: list_all_iff)
  have sum: "round2 (sum_numbers (map monthlyEquivalentCost ls)) = cents (sum_list ms)"
    unfolding sum_numbers_def assms(1) using assms pos by (intro round2_foldl_cents) auto
  have diff: "round2 (fl (cents M - cents (sum_list ms))) = cents (M - sum_list ms)"
    using assms pos by (intro round2_diff) auto
  have last: "monthlyEquivalentCost (last ls) = cents (last ms)"
    using assms(1,2) ls by (metis last_map)
  let ?d = "M - sum_list ms"
  have "round2 (fl (cents (last ms) + cents ?d)) = cents (last ms + ?d)"
    using assms pos l by (intro round2_add) auto
  then have "map monthlyEquivalentCost (apportion_monthly (cents M) ls) = map cents (butlast ms @ [last ms + ?d])"
    if "?d \<noteq> 0" using that ls sum diff last assms(1)
    by (simp add: apportion_monthly_def Let_def adjust_last_map cents_eq_0_iff map_butlast)
  moreover have "apportion_monthly (cents M) ls = ls" if "?d = 0"
    using that ls sum diff by (simp add: apportion_monthly_def Let_def)
  moreover have "sum_list (butlast ms @ [last ms + ?d]) = M" using sum_list_butlast [OF assms(2), of ?d] by simp
  ultimately show ?thesis using assms(1) by (metis eq_iff_diff_eq_0)
qed

lemma apportion_annual_cents:
  assumes "map annualCost ls = map cents ks" "length ks \<le> 16" "list_all (\<lambda>m. 0 \<le> m) ks" "sum_list ks \<le> 100000000000"
  shows "apportion_annual (cents (sum_list ks)) ls = ls"
proof -
  have pos: "0 \<le> sum_list ks" using assms(3) by (intro sum_list_nonneg) (simp add: list_all_iff)
  have "round2 (sum_numbers (map annualCost ls)) = cents (sum_list ks)"
    unfolding sum_numbers_def assms(1) using assms pos by (intro round2_foldl_cents) auto
  moreover have "round2 (fl (cents (sum_list ks) - cents (sum_list ks))) = 0"
    using round2_near [of 0 0] by simp
  ultimately show ?thesis by (simp add: apportion_annual_def)
qed

lemma apportion_frame:
  "map cost (apportion_monthly t ls) = map cost ls"
  "map annualCost (apportion_monthly t ls) = map annualCost ls"
  "map seatsInTier (apportion_monthly t ls) = map seatsInTier ls"
proof -
  have *: "map g (adjust_last f ls) = map g ls" if "\<And>l. g (f l) = g l" for f and g :: "waterfall_line \<Rightarrow> 'b"
    using that by (cases ls rule: rev_cases) (simp_all add: adjust_last_def)
  show "map cost (apportion_monthly t ls) = map cost ls"
    "map annualCost (apportion_monthly t ls) = map annualCost ls"
    "map seatsInTier (apportion_monthly t ls) = map seatsInTier ls"
    by (simp_all add: apportion_monthly_def Let_def *)
qed

lemma seat_count_int [simp]: "1 \<le> n \<Longrightarrow> seat_count (Some (of_int n)) = n"
  by (simp add: seat_count_def)

lemma base_total:
  assumes "1 \<le> n" "n \<le> 10000000"
  shows "round2 (snd (waterfall TIER_BRACKETS n 0)) = cents (graduated_cents n)"
proof -
  have "map (\<lambda>(b, k). cost (bracket_line b k)) (tiers TIER_BRACKETS n) = map cents (tier_cents n)"
    using tier_lines(1) [OF assms refl] by (simp add: comp_def case_prod_unfold)
  then show ?thesis
    using tier_cents_facts [OF assms] round2_foldl_cents [of "tier_cents n"] sum_tier_cents [OF assms(1)]
    by (simp add: waterfall_tiers)
qed

lemma apportion_annual_lines:
  assumes "1 \<le> n" "n \<le> 10000000"
  shows "apportion_annual (cents (10 * graduated_cents n))
      (apportion_monthly t (map (\<lambda>(b, k). bracket_line b k) (tiers TIER_BRACKETS n)))
    = apportion_monthly t (map (\<lambda>(b, k). bracket_line b k) (tiers TIER_BRACKETS n))"
proof -
  let ?ls = "map (\<lambda>(b, k). bracket_line b k) (tiers TIER_BRACKETS n)"
  let ?ks = "map ((*) 10) (tier_cents n)"
  have "sum_list ?ks = 10 * graduated_cents n"
    using sum_tier_cents [OF assms(1)] by (simp add: sum_list_const_mult)
  moreover have "map annualCost (apportion_monthly t ?ls) = map cents ?ks"
    unfolding apportion_frame using tier_lines(2) [OF assms refl] .
  moreover have "list_all (\<lambda>m. 0 \<le> m) ?ks" using tier_cents_facts(6) [OF assms] by (auto simp: list_all_iff)
  ultimately show ?thesis
    using tier_cents_facts(2,5) [OF assms] sum_tier_cents [OF assms(1)] apportion_annual_cents [of _ ?ks] by fastforce
qed

text \<open>Everything the two theorems below need of the loop.\<close>

lemma waterfall_facts:
  assumes "1 \<le> n" "n \<le> 10000000"
  obtains ls x ms where "waterfall TIER_BRACKETS n 0 = (ls, x)" "round2 x = cents (graduated_cents n)"
    "sum_list (map seatsInTier ls) = n" "map cost ls = map cents (tier_cents n)"
    "map annualCost ls = map cents (map ((*) 10) (tier_cents n))"
    "\<And>t. apportion_annual (cents (10 * graduated_cents n)) (apportion_monthly t ls) = apportion_monthly t ls"
    "map monthlyEquivalentCost ls = map cents ms" "list_all2 (\<lambda>m c. \<bar>6 * m - 5 * c\<bar> \<le> 3) ms (tier_cents n)"
proof -
  define ls where "ls = map (\<lambda>(b, k). bracket_line b k) (tiers TIER_BRACKETS n)"
  have "map seatsInTier ls = map snd (tiers TIER_BRACKETS n)"
    by (auto simp: ls_def bracket_line_def Let_def)
  then have "sum_list (map seatsInTier ls) = n" using tiers_seats [OF assms(1)] by simp
  moreover have "waterfall TIER_BRACKETS n 0 = (ls, snd (waterfall TIER_BRACKETS n 0))"
    by (simp add: waterfall_tiers ls_def)
  moreover obtain ms where "map monthlyEquivalentCost ls = map cents ms"
    "list_all2 (\<lambda>m c. \<bar>6 * m - 5 * c\<bar> \<le> 3) ms (tier_cents n)"
    using tier_lines(3) [OF assms ls_def] by blast
  ultimately show thesis
    using that base_total [OF assms] tier_lines(1,2) [OF assms ls_def]
      apportion_annual_lines [OF assms, folded ls_def] by blast
qed

lemma graduated_multiples:
  assumes "1 \<le> n" "n \<le> 10000000"
  shows "round2 (fl (cents (graduated_cents n) * 10)) = cents (10 * graduated_cents n)"
    "round2 (fl (cents (graduated_cents n) * 2)) = cents (2 * graduated_cents n)"
    "round2 (fl (cents (graduated_cents n) * 12)) = cents (12 * graduated_cents n)"
  using graduated_bounds [OF assms(1)] assms round2_scaled [of 10 "graduated_cents n"]
    round2_scaled [of 2 "graduated_cents n"] round2_scaled [of 12 "graduated_cents n"] by auto

subsection \<open>Twenty-six seats\<close>

lemma seat_count_26: "seat_count (Some 26) = 26"
  using seat_count_int [of 26] by simp

text \<open>The second line is a tie: 42.75 times ten over twelve is 35.625 exactly.\<close>

lemma monthly_tie: "round2 (fl (fl (cents 4275 * 10) / 12)) = cents 3563"
proof -
  note dyadic = fl_exact [of "171 / 4" 171 2] fl_exact [of "855 / 2" 855 1] fl_exact [of "285 / 8" 285 3]
      fl_exact [of "7125 / 2" 7125 1]
  have "cents 4275 = 171 / 4" using dyadic(1) by (simp add: cents_def pow2_def)
  moreover have "fl (171 / 4 * 10) = 855 / 2" using dyadic(2) by (simp add: pow2_def)
  moreover have "fl (855 / 2 / 12) = 285 / 8" using dyadic(3) by (simp add: pow2_def)
  moreover have "fl (285 / 8 * 100) = 7125 / 2" using dyadic(4) by (simp add: pow2_def)
  moreover have "math_round (7125 / 2) = 3563" by (simp add: math_round_def)
  ultimately show ?thesis by (simp only: round2_def round_cents_def)
qed

lemma monthly_26:
  "map monthlyEquivalentCost (map (\<lambda>(b, k). bracket_line b k) (tiers TIER_BRACKETS 26)) = map cents [2500, 3563, 226]"
proof -
  obtain b1 b2 b3 b4 b5 where B: "TIER_BRACKETS = [b1, b2, b3, b4, b5]" by (simp add: TIER_BRACKETS_def)
  have r: "rate b1 = 300" "rate b2 = 285" "rate b3 = 271" using map_rate_brackets unfolding B by auto
  from B have t: "tiers TIER_BRACKETS 26 = [(b1, 10), (b2, 15), (b3, 1)]" by (auto simp: TIER_BRACKETS_def)
  have mem: "b1 \<in> set TIER_BRACKETS" "b2 \<in> set TIER_BRACKETS" "b3 \<in> set TIER_BRACKETS"
    unfolding B by simp_all
  obtain m1 where "monthlyEquivalentCost (bracket_line b1 10) = cents m1" "\<bar>6 * m1 - 15000\<bar> \<le> 3"
    using line_costs(2) [OF mem(1), of 10] r by auto
  moreover from this have "m1 = 2500" by presburger
  moreover obtain m3 where "monthlyEquivalentCost (bracket_line b3 1) = cents m3" "\<bar>6 * m3 - 1355\<bar> \<le> 3"
    using line_costs(2) [OF mem(3), of 1] r by auto
  moreover from this have "m3 = 226" by presburger
  moreover have "monthlyEquivalentCost (bracket_line b2 15) = cents 3563"
    using line_cost [OF mem(2), of 15] r monthly_tie by (simp add: bracket_line_def Let_def)
  ultimately show ?thesis by (simp add: t)
qed

lemma total_26: "round2 (fl (cents 75460 / 12)) = cents 6288"
proof -
  have "\<bar>cents 75460 - of_int 7546 / 10\<bar> \<le> 13 / 32768" using cents_near [of 75460] by simp
  then obtain M where "round2 (fl (cents 75460 / 12)) = cents M" "\<bar>6 * M - 37730\<bar> \<le> 3"
    using round2_twelfth [of "cents 75460" 7546] by auto
  moreover from this have "M = 6288" by presburger
  ultimately show ?thesis by simp
qed

section \<open>Properties\<close>

text \<open>C38: For every seat count up to ten million the floating-point price list computes exact cents: the
  seats of the lines add up to the seat count, each line costs its seats times the rate of its bracket,
  the base total is the graduated price, and the annual and monthly totals are exact multiples of it.\<close>

theorem pricing_exact_cents:
  assumes "1 \<le> n" "n \<le> 10000000"
  shows "sum_list (map seatsInTier (lines (calculateGraduatedPricing (Some (of_int n)) cycle))) = n
    \<and> map cost (lines (calculateGraduatedPricing (Some (of_int n)) cycle)) = map cents (tier_cents n)
    \<and> sum_list (tier_cents n) = graduated_cents n
    \<and> baseMonthlyTotal (calculateGraduatedPricing (Some (of_int n)) cycle) = cents (graduated_cents n)
    \<and> totalAmount (calculateGraduatedPricing (Some (of_int n)) Monthly) = cents (graduated_cents n)
    \<and> annualTotal (calculateGraduatedPricing (Some (of_int n)) Monthly) = cents (12 * graduated_cents n)
    \<and> totalAmount (calculateGraduatedPricing (Some (of_int n)) Annual) = cents (10 * graduated_cents n)
    \<and> annualSavings (calculateGraduatedPricing (Some (of_int n)) Annual) = cents (2 * graduated_cents n)"
proof -
  obtain ls x where w: "waterfall TIER_BRACKETS n 0 = (ls, x)" "round2 x = cents (graduated_cents n)"
    "sum_list (map seatsInTier ls) = n" "map cost ls = map cents (tier_cents n)"
    "\<And>t. apportion_annual (cents (10 * graduated_cents n)) (apportion_monthly t ls) = apportion_monthly t ls"
    by (rule waterfall_facts [OF assms]) blast
  then show ?thesis
    using assms(1) graduated_multiples [OF assms] sum_tier_cents [OF assms(1)]
    by (cases cycle) (simp_all add: calculateGraduatedPricing_def Let_def apportion_frame)
qed

text \<open>Witness: thirty seats.\<close>

theorem pricing_exact_cents_witness:
  "totalAmount (calculateGraduatedPricing (Some 30) Annual) = cents 86300"
  using pricing_exact_cents [of 30 Annual] by (simp add: graduated_cents_def)

text \<open>On annual billing the lines are apportioned: the monthly equivalents of the lines are whole
  cents that add up to exactly the total monthly cost, which is within half a cent of a twelfth of ten
  monthly prices, and the annual costs of the lines add up to exactly the annual total.\<close>

theorem pricing_apportioned:
  assumes "1 \<le> n" "n \<le> 10000000"
  shows "\<exists>ms. map monthlyEquivalentCost (lines (calculateGraduatedPricing (Some (of_int n)) Annual)) = map cents ms
      \<and> totalMonthlyCost (calculateGraduatedPricing (Some (of_int n)) Annual) = cents (sum_list ms)
      \<and> \<bar>6 * sum_list ms - 5 * graduated_cents n\<bar> \<le> 3
    \<and> (\<exists>ks. map annualCost (lines (calculateGraduatedPricing (Some (of_int n)) Annual)) = map cents ks
      \<and> annualTotal (calculateGraduatedPricing (Some (of_int n)) Annual) = cents (sum_list ks))"
proof -
  let ?G = "graduated_cents n"
  obtain ls x ms where w: "waterfall TIER_BRACKETS n 0 = (ls, x)" "round2 x = cents ?G"
    "map annualCost ls = map cents (map ((*) 10) (tier_cents n))"
    "\<And>t. apportion_annual (cents (10 * ?G)) (apportion_monthly t ls) = apportion_monthly t ls"
    and ms: "map monthlyEquivalentCost ls = map cents ms" "list_all2 (\<lambda>m c. \<bar>6 * m - 5 * c\<bar> \<le> 3) ms (tier_cents n)"
    by (rule waterfall_facts [OF assms]) blast
  note G = graduated_bounds [OF assms(1)] and f = tier_cents_facts [OF assms]
  have "\<bar>cents (10 * ?G) - of_int (10 * ?G) / 100\<bar> \<le> 1 / 32768" using G assms by (intro cents_near) auto
  then have "\<bar>cents (10 * ?G) - of_int ?G / 10\<bar> \<le> 13 / 32768" by simp
  then obtain M where M: "round2 (fl (cents (10 * ?G) / 12)) = cents M" "\<bar>6 * M - 5 * ?G\<bar> \<le> 3"
    using round2_twelfth [of "cents (10 * ?G)" ?G] G assms by auto
  note t = twelfths_sum [OF ms(2) f(1)]
  have "ms \<noteq> []" using f(3) t by auto
  moreover have "0 \<le> M" "M \<le> 10000000000" using M(2) G assms by linarith+
  ultimately obtain ms' where ms': "map monthlyEquivalentCost (apportion_monthly (cents M) ls) = map cents ms'"
    "sum_list ms' = M"
    using apportion_monthly_cents [OF ms(1)] t f by auto
  moreover have "sum_list (map ((*) 10) (tier_cents n)) = 10 * ?G"
    using sum_tier_cents [OF assms(1)] by (simp add: sum_list_const_mult)
  ultimately show ?thesis
    using w M assms(1) graduated_multiples(1) [OF assms]
    by (intro exI [of _ ms'] conjI exI [of _ "map ((*) 10) (tier_cents n)"])
      (simp_all add: calculateGraduatedPricing_def Let_def apportion_frame del: map_map)
qed

text \<open>The copy of the price list in the support application agrees with the control plane on every total,
  but not on the lines: at 26 seats its lines show 25.00, 35.63 and 2.26 a month under a total of 62.88.\<close>

theorem pricing_crm_divergence:
  "totalMonthlyCost (calculateGraduatedPricing_crm seats cycle) = totalMonthlyCost (calculateGraduatedPricing seats cycle)
   \<and> totalAmount (calculateGraduatedPricing_crm seats cycle) = totalAmount (calculateGraduatedPricing seats cycle)
   \<and> blendedRate (calculateGraduatedPricing_crm seats cycle) = blendedRate (calculateGraduatedPricing seats cycle)
   \<and> map monthlyEquivalentCost (lines (calculateGraduatedPricing_crm (Some 26) Annual)) = map cents [2500, 3563, 226]
   \<and> totalMonthlyCost (calculateGraduatedPricing_crm (Some 26) Annual) = cents 6288"
proof (intro conjI)
  show "map monthlyEquivalentCost (lines (calculateGraduatedPricing_crm (Some 26) Annual)) = map cents [2500, 3563, 226]"
    using monthly_26 by (simp add: calculateGraduatedPricing_crm_def seat_count_26 Let_def waterfall_tiers)
  obtain x where x: "waterfall TIER_BRACKETS 26 0 = (map (\<lambda>(b, k). bracket_line b k) (tiers TIER_BRACKETS 26), x)"
    "round2 x = cents 7546"
    using base_total [of 26] by (simp add: waterfall_tiers graduated_cents_def)
  have "round2 (fl (cents 7546 * 10)) = cents 75460" using round2_scaled [of 10 7546] by simp
  then show "totalMonthlyCost (calculateGraduatedPricing_crm (Some 26) Annual) = cents 6288"
    using x total_26 by (simp add: calculateGraduatedPricing_crm_def seat_count_26 Let_def)
qed (simp_all add: calculateGraduatedPricing_crm_def calculateGraduatedPricing_def Let_def
      split: billing_cycle.splits prod.splits)

end
