(* ===== verification/Utilities.thy ===== *)
theory Utilities
  imports Json
begin

text \<open>
  Small pure components: the storage configuration validators
  (\<open>apps/control-plane/src/lib/validation/storage.ts\<close>), the attachment classification
  (\<open>apps/webmail/src/fileType.ts\<close>), date formatting (\<open>apps/webmail/src/utils/dateTime.ts\<close>) and the QR
  code drawing (\<open>apps/webmail/src/utils/qr.ts\<close>).
\<close>

section \<open>Storage configuration\<close>

text \<open>An object literal of the client; a property may be present with the value \<open>undefined\<close>.\<close>

type_synonym config = "(string \<times> json option) list"

datatype validation_result = Valid | Invalid (field: string) (message: string)

definition cfg_value :: "config \<Rightarrow> string \<Rightarrow> json option" where
  "cfg_value c k = (case map_of c k of Some v \<Rightarrow> v | None \<Rightarrow> None)"

definition cfg_has :: "config \<Rightarrow> string \<Rightarrow> bool" where
  "cfg_has c k \<longleftrightarrow> k \<in> fst ` set c"

definition is_string :: "json option \<Rightarrow> bool" where
  "is_string v \<longleftrightarrow> (case v of Some (JStr _) \<Rightarrow> True | _ \<Rightarrow> False)"

definition is_boolean :: "json option \<Rightarrow> bool" where
  "is_boolean v \<longleftrightarrow> (case v of Some (JBool _) \<Rightarrow> True | _ \<Rightarrow> False)"

definition nonblank :: "json option \<Rightarrow> bool" where
  "nonblank v \<longleftrightarrow> (case v of Some (JStr s) \<Rightarrow> trim s \<noteq> [] | _ \<Rightarrow> False)"

text \<open>A loop that returns at the first offending element.\<close>

fun first_error :: "('a \<Rightarrow> validation_result option) \<Rightarrow> 'a list \<Rightarrow> validation_result \<Rightarrow> validation_result" where
  "first_error f [] k = k"
| "first_error f (x # xs) k = (case f x of Some e \<Rightarrow> e | None \<Rightarrow> first_error f xs k)"

definition unknown_field :: "string list \<Rightarrow> string \<Rightarrow> validation_result option" where
  "unknown_field allowed k =
     (if k \<in> set allowed then None else Some (Invalid k (''Unknown field: '' @ k)))"

definition validateS3Config :: "config \<Rightarrow> validation_result" where
  "validateS3Config c =
     first_error (\<lambda>k. if nonblank (cfg_value c k) then None
                      else Some (Invalid k (''Field '' @ k @ '' must be non-empty string'')))
       [''endpoint'', ''bucket'', ''access_key'', ''secret_key'']
     (first_error (unknown_field [''endpoint'', ''bucket'', ''access_key'', ''secret_key'', ''region'', ''path_style''])
       (map fst c)
     (if cfg_has c ''region'' \<and> \<not> is_string (cfg_value c ''region'')
      then Invalid ''region'' ''Field region must be string''
      else if cfg_has c ''path_style'' \<and> \<not> is_boolean (cfg_value c ''path_style'')
      then Invalid ''path_style'' ''Field path_style must be boolean''
      else first_error (\<lambda>k. if cfg_has c k \<and> \<not> is_string (cfg_value c k)
                            then Some (Invalid k (''Field '' @ k @ '' must be string'')) else None)
             [''endpoint'', ''bucket'', ''access_key'', ''secret_key'', ''region''] Valid))"

definition validateMockConfig :: "config \<Rightarrow> validation_result" where
  "validateMockConfig c =
     first_error (unknown_field [''root'']) (map fst c)
       (if cfg_has c ''root'' \<and> \<not> is_string (cfg_value c ''root'')
        then Invalid ''root'' ''Field root must be string'' else Valid)"

definition validateGoogleDriveConfig :: "config \<Rightarrow> validation_result" where
  "validateGoogleDriveConfig c =
     (if \<not> nonblank (cfg_value c ''access_token'')
      then Invalid ''access_token'' ''Access token must be non-empty''
      else first_error (unknown_field [''access_token'', ''refresh_token'', ''folder_id'']) (map fst c)
           (first_error (\<lambda>k. if cfg_has c k \<and> \<not> is_string (cfg_value c k)
                             then Some (Invalid k (k @ '' must be a string'')) else None)
              [''refresh_token'', ''folder_id''] Valid))"

definition validateStorageConfig :: "string \<Rightarrow> config \<Rightarrow> validation_result" where
  "validateStorageConfig provider c =
     (if provider = ''s3'' \<or> provider = ''minio'' \<or> provider = ''s3_compatible'' then validateS3Config c
      else if provider = ''google_drive_mock'' then validateMockConfig c
      else if provider = ''google_drive'' then validateGoogleDriveConfig c
      else Invalid ''provider'' ''Invalid provider'')"

section \<open>Attachment types\<close>

datatype attachment_category = PDF | IMG | SHEET | DOC | ZIP | FILE

record file_type_info =
  category :: attachment_category
  label :: string
  badgeClass :: string
  borderClass :: string
  textClass :: string
  bgClass :: string

text \<open>The style classes are the same in every branch.\<close>

definition styled :: "attachment_category \<Rightarrow> string \<Rightarrow> file_type_info" where
  "styled cat lab =
     \<lparr>category = cat, label = lab,
      badgeClass = ''bg-[#F0EEE9] text-[#9E725F] border-[#E2DFD8] dark:bg-[#26282E] dark:text-[#D4A38F] dark:border-[#3A3D46]'',
      borderClass = ''border-[#E2DFD8] dark:border-[#3A3D46]'',
      textClass = ''text-[#9E725F] dark:text-[#D4A38F]'',
      bgClass = ''bg-[#F0EEE9] dark:bg-[#26282E]''\<rparr>"

definition getFileTypeInfo :: "string option \<Rightarrow> string option \<Rightarrow> file_type_info" where
  "getFileTypeInfo filename contentType =
     (let name = toLowerCase (trim (case filename of Some f \<Rightarrow> f | None \<Rightarrow> []));
          ext = last (split_char (CHR ''.'') name);
          ct = toLowerCase (case contentType of Some t \<Rightarrow> t | None \<Rightarrow> [])
      in if ext = ''pdf'' \<or> str_includes ct ''pdf'' then styled PDF ''PDF''
         else if ext \<in> set [''png'', ''jpg'', ''jpeg'', ''gif'', ''webp'', ''svg'', ''bmp'', ''ico'', ''tiff'', ''avif'']
                 \<or> startsWith ct ''image/'' then styled IMG ''IMG''
         else if ext \<in> set [''xlsx'', ''xls'', ''csv'', ''tsv'', ''ods''] \<or> str_includes ct ''spreadsheet''
                 \<or> str_includes ct ''csv'' \<or> str_includes ct ''excel'' then styled SHEET ''SHEET''
         else if ext \<in> set [''doc'', ''docx'', ''txt'', ''rtf'', ''odt'', ''md'', ''json'', ''xml'', ''log'']
                 \<or> str_includes ct ''word'' \<or> str_includes ct ''document'' \<or> startsWith ct ''text/'' then styled DOC ''DOC''
         else if ext \<in> set [''zip'', ''tar'', ''gz'', ''7z'', ''rar'', ''bz2'', ''xz'', ''iso'']
                 \<or> str_includes ct ''zip'' \<or> str_includes ct ''tar'' \<or> str_includes ct ''compressed''
                 \<or> str_includes ct ''archive'' then styled ZIP ''ZIP''
         else styled FILE (if ext \<noteq> [] then take 4 (toUpperCase ext) else ''FILE''))"

section \<open>Dates\<close>

text \<open>
  The date functions of the platform: parsing and the calendar fields and formats of an instant in
  milliseconds. \<open>None\<close> is an invalid date.
\<close>

datatype date_input = DString string | DNumber "rat option" | DDate "int option"

datatype date_style = MonthDay | MonthDayYear | WeekdayMonthDayYear

record date_platform =
  parse_date :: "string \<Rightarrow> int option"
  number_date :: "rat \<Rightarrow> int option"
  getDate :: "int \<Rightarrow> int"
  getMonth :: "int \<Rightarrow> int"
  getFullYear :: "int \<Rightarrow> int"
  toLocaleTimeString :: "bool \<Rightarrow> int \<Rightarrow> string"
  toLocaleDateString :: "string \<Rightarrow> date_style \<Rightarrow> int \<Rightarrow> string"
  number_text :: "rat option \<Rightarrow> string"

datatype time_format = H12 | H24

definition falsy_date :: "date_input \<Rightarrow> bool" where
  "falsy_date d = (case d of DString s \<Rightarrow> s = [] | DNumber n \<Rightarrow> n = None \<or> n = Some 0 | DDate _ \<Rightarrow> False)"

definition new_date :: "date_platform \<Rightarrow> date_input \<Rightarrow> int option" where
  "new_date P d = (case d of DString s \<Rightarrow> parse_date P s
     | DNumber n \<Rightarrow> (case n of None \<Rightarrow> None | Some x \<Rightarrow> number_date P x) | DDate t \<Rightarrow> t)"

text \<open>\<open>String(dateInput)\<close> of an input that is not a valid date.\<close>

definition date_string :: "date_platform \<Rightarrow> date_input \<Rightarrow> string" where
  "date_string P d = (case d of DString s \<Rightarrow> s | DNumber n \<Rightarrow> number_text P n | DDate _ \<Rightarrow> ''Invalid Date'')"

definition formatTime :: "date_platform \<Rightarrow> date_input \<Rightarrow> time_format \<Rightarrow> string" where
  "formatTime P dateInput timeFormat =
     (if falsy_date dateInput then []
      else case new_date P dateInput of
             None \<Rightarrow> date_string P dateInput
           | Some d \<Rightarrow> toLocaleTimeString P (timeFormat = H12) d)"

definition formatMessageDate :: "date_platform \<Rightarrow> int \<Rightarrow> date_input \<Rightarrow> time_format \<Rightarrow> string \<Rightarrow> string" where
  "formatMessageDate P now dateInput timeFormat locale =
     (if falsy_date dateInput then []
      else case new_date P dateInput of
             None \<Rightarrow> date_string P dateInput
           | Some d \<Rightarrow>
               if getDate P d = getDate P now \<and> getMonth P d = getMonth P now \<and> getFullYear P d = getFullYear P now
               then formatTime P (DDate (Some d)) timeFormat
               else if getFullYear P d = getFullYear P now then toLocaleDateString P locale MonthDay d
               else toLocaleDateString P locale MonthDayYear d)"

definition formatFullDateTime :: "date_platform \<Rightarrow> date_input \<Rightarrow> time_format \<Rightarrow> string \<Rightarrow> string" where
  "formatFullDateTime P dateInput timeFormat locale =
     (if falsy_date dateInput then []
      else case new_date P dateInput of
             None \<Rightarrow> date_string P dateInput
           | Some d \<Rightarrow> toLocaleDateString P locale WeekdayMonthDayYear d @ '' '' @ bullet @ '' ''
                       @ formatTime P (DDate (Some d)) timeFormat)"

section \<open>QR codes\<close>

text \<open>\<open>create\<close> stands for the QR encoder: the side of the symbol and its dark modules.\<close>

definition qr_rect :: "nat \<Rightarrow> nat \<Rightarrow> string" where
  "qr_rect r c = ''<rect x=\"'' @ num_string (c + 4) @ ''\" y=\"'' @ num_string (r + 4)
     @ ''\" width=\"1\" height=\"1\" fill=\"#1A1B1E\"/>''"

definition qr_rects :: "nat \<Rightarrow> (nat \<Rightarrow> nat \<Rightarrow> bool) \<Rightarrow> string" where
  "qr_rects n dark = concat (map (\<lambda>r. concat (map (\<lambda>c. if dark r c then qr_rect r c else []) [0..<n])) [0..<n])"

definition generateQRCodeSVG ::
  "(string \<Rightarrow> js_error + (nat \<times> (nat \<Rightarrow> nat \<Rightarrow> bool))) \<Rightarrow> string \<Rightarrow> nat \<Rightarrow> string" where
  "generateQRCodeSVG create text px =
     (case create text of Inl _ \<Rightarrow> []
      | Inr (moduleCount, dark) \<Rightarrow>
          (let total = num_string (moduleCount + 4 * 2)
           in ''<svg xmlns=\"http://www.w3.org/2000/svg\" viewBox=\"0 0 '' @ total @ '' '' @ total @ ''\" width=\"''
              @ num_string px @ ''\" height=\"'' @ num_string px
              @ ''\" shape-rendering=\"crispEdges\"><rect width=\"100%\" height=\"100%\" fill=\"#ffffff\"/>''
              @ qr_rects moduleCount dark @ ''</svg>''))"

section \<open>Lemmas\<close>

lemma first_error_Valid:
  "(\<And>x. f x \<noteq> Some Valid) \<Longrightarrow> first_error f xs k = Valid \<longleftrightarrow> (\<forall>x \<in> set xs. f x = None) \<and> k = Valid"
  by (induction xs) (auto split: option.splits)

lemma unknown_field_facts [simp]:
  "unknown_field allowed k \<noteq> Some Valid" "unknown_field allowed k = None \<longleftrightarrow> k \<in> set allowed"
  by (simp_all add: unknown_field_def)

lemma nonblank_string: "nonblank v \<Longrightarrow> is_string v"
  by (auto simp: nonblank_def is_string_def split: option.splits json.splits)

section \<open>Properties\<close>

text \<open>The storage validators accept exactly the configurations of their provider: for S3 the four
  required fields are non-blank strings, no other field than the six known ones is present, and the two
  optional ones have their type; for the mock only a string root; for Google Drive a non-blank access
  token and string optional fields; any other provider is refused.\<close>

theorem storage_config_accepted:
  "validateStorageConfig provider c = Valid \<longleftrightarrow>
     (if provider \<in> {''s3'', ''minio'', ''s3_compatible''} then
        (\<forall>k \<in> {''endpoint'', ''bucket'', ''access_key'', ''secret_key''}. nonblank (cfg_value c k))
        \<and> fst ` set c \<subseteq> {''endpoint'', ''bucket'', ''access_key'', ''secret_key'', ''region'', ''path_style''}
        \<and> (cfg_has c ''region'' \<longrightarrow> is_string (cfg_value c ''region''))
        \<and> (cfg_has c ''path_style'' \<longrightarrow> is_boolean (cfg_value c ''path_style''))
      else if provider = ''google_drive_mock'' then
        fst ` set c \<subseteq> {''root''} \<and> (cfg_has c ''root'' \<longrightarrow> is_string (cfg_value c ''root''))
      else if provider = ''google_drive'' then
        nonblank (cfg_value c ''access_token'')
        \<and> fst ` set c \<subseteq> {''access_token'', ''refresh_token'', ''folder_id''}
        \<and> (\<forall>k \<in> {''refresh_token'', ''folder_id''}. cfg_has c k \<longrightarrow> is_string (cfg_value c k))
      else False)"
proof -
  have s3: "validateS3Config c = Valid \<longleftrightarrow>
      (\<forall>k \<in> {''endpoint'', ''bucket'', ''access_key'', ''secret_key''}. nonblank (cfg_value c k))
      \<and> fst ` set c \<subseteq> {''endpoint'', ''bucket'', ''access_key'', ''secret_key'', ''region'', ''path_style''}
      \<and> (cfg_has c ''region'' \<longrightarrow> is_string (cfg_value c ''region''))
      \<and> (cfg_has c ''path_style'' \<longrightarrow> is_boolean (cfg_value c ''path_style''))"
    unfolding validateS3Config_def by (subst first_error_Valid, simp)+ (auto simp: first_error_Valid nonblank_string)
  have mock: "validateMockConfig c = Valid \<longleftrightarrow>
      fst ` set c \<subseteq> {''root''} \<and> (cfg_has c ''root'' \<longrightarrow> is_string (cfg_value c ''root''))"
    unfolding validateMockConfig_def by (subst first_error_Valid, simp) auto
  have drive: "validateGoogleDriveConfig c = Valid \<longleftrightarrow>
      nonblank (cfg_value c ''access_token'')
      \<and> fst ` set c \<subseteq> {''access_token'', ''refresh_token'', ''folder_id''}
      \<and> (\<forall>k \<in> {''refresh_token'', ''folder_id''}. cfg_has c k \<longrightarrow> is_string (cfg_value c k))"
    unfolding validateGoogleDriveConfig_def by (auto simp: first_error_Valid)
  show ?thesis by (simp add: validateStorageConfig_def s3 mock drive)
qed

end
