(* ===== verification/Web_Storage.thy ===== *)
theory Web_Storage
  imports Prelude
begin

text \<open>
  Web storage (\<open>localStorage\<close>, \<open>sessionStorage\<close>) as an association list, its interface as a locale, and
  the signatures kept in it: \<open>apps/webmail/src/signature.ts\<close>.
\<close>

section \<open>The interface of a key-value store\<close>

locale key_value =
  fixes get :: "'s \<Rightarrow> 'k \<Rightarrow> 'v option"
    and put :: "'k \<Rightarrow> 'v \<Rightarrow> 's \<Rightarrow> 's"
    and del :: "'k \<Rightarrow> 's \<Rightarrow> 's"
  assumes get_put: "get (put k v s) j = (if j = k then Some v else get s j)"
    and get_del: "get (del k s) j = (if j = k then None else get s j)"
begin

lemma get_put_same: "get (put k v s) k = Some v"
  by (simp add: get_put)

lemma get_put_other: "j \<noteq> k \<Longrightarrow> get (put k v s) j = get s j"
  by (simp add: get_put)

lemma get_del_fold: "get (fold del ks s) j = (if j \<in> set ks then None else get s j)"
  by (induction ks arbitrary: s) (auto simp: get_del)

lemma get_put_fold:
  "j \<notin> fst ` set kvs \<Longrightarrow> get (fold (\<lambda>(k, v). put k v) kvs s) j = get s j"
  by (induction kvs arbitrary: s) (auto simp: get_put)

end

section \<open>Storage\<close>

type_synonym store = "(string \<times> string) list"

definition getItem :: "store \<Rightarrow> string \<Rightarrow> string option" where
  "getItem s k = map_of s k"

definition removeItem :: "string \<Rightarrow> store \<Rightarrow> store" where
  "removeItem k s = filter (\<lambda>(j, v). j \<noteq> k) s"

definition setItem :: "string \<Rightarrow> string \<Rightarrow> store \<Rightarrow> store" where
  "setItem k v s = removeItem k s @ [(k, v)]"

lemma map_of_filter_key: "map_of (filter (\<lambda>(j, v). j \<noteq> k) s) i = (if i = k then None else map_of s i)"
  by (induction s) auto

interpretation storage: key_value getItem setItem removeItem
proof
  show "getItem (setItem k v s) j = (if j = k then Some v else getItem s j)" for k v s j
    by (auto simp: getItem_def setItem_def removeItem_def map_add_def map_of_filter_key split: option.splits)
  show "getItem (removeItem k s) j = (if j = k then None else getItem s j)" for k s j
    by (simp add: getItem_def removeItem_def map_of_filter_key)
qed

declare storage.get_put [simp] storage.get_del [simp]

section \<open>Signatures\<close>

text \<open>\<open>localStorage\<close> as the signature code sees it: absent or failing on every access, or a store whose
  writes may fail (quota).\<close>

datatype local_store = NoStorage | LocalStore (items: store) (write_fails: bool)

definition KEY_PREFIX :: string where
  "KEY_PREFIX = ''byos.signature.''"

definition MAX_SIGNATURE_CHARS :: nat where
  "MAX_SIGNATURE_CHARS = 2000"

definition storageKey :: "string \<Rightarrow> string" where
  "storageKey mailboxId = KEY_PREFIX @ mailboxId"

definition loadSignature :: "local_store \<Rightarrow> string \<Rightarrow> string" where
  "loadSignature ls mailboxId =
     (case ls of NoStorage \<Rightarrow> []
      | LocalStore s _ \<Rightarrow>
          if mailboxId = [] then []
          else take MAX_SIGNATURE_CHARS (case getItem s (storageKey mailboxId) of Some t \<Rightarrow> t | None \<Rightarrow> []))"

definition saveSignature :: "local_store \<Rightarrow> string \<Rightarrow> string \<Rightarrow> local_store" where
  "saveSignature ls mailboxId text =
     (case ls of NoStorage \<Rightarrow> ls
      | LocalStore s fails \<Rightarrow>
          if mailboxId = [] then ls
          else let clean = take MAX_SIGNATURE_CHARS text
               in if trim clean = [] then LocalStore (removeItem (storageKey mailboxId) s) fails
                  else if fails then ls
                  else LocalStore (setItem (storageKey mailboxId) clean s) fails)"

definition applySignature :: "string \<Rightarrow> string \<Rightarrow> string" where
  "applySignature plaintext signature =
     (let sig = trim signature
      in if sig = [] then plaintext
         else plaintext @ newline @ newline @ ''-- '' @ newline @ sig)"

section \<open>Properties\<close>

text \<open>On a working store, saving a signature and loading it returns its first 2000 characters, or
  nothing when those are blank; the signature of every other mailbox is unchanged; and what is loaded
  never exceeds 2000 characters, whatever is stored.\<close>

theorem signature_save_load:
  assumes "m \<noteq> []"
  shows "loadSignature (saveSignature (LocalStore s False) m text) m' =
      (if m' = m then (if trim (take 2000 text) = [] then [] else take 2000 text)
       else loadSignature (LocalStore s False) m')
    \<and> length (loadSignature ls m') \<le> 2000"
proof -
  have "storageKey m' = storageKey m \<longleftrightarrow> m' = m" by (simp add: storageKey_def)
  with assms show ?thesis
    by (auto simp: loadSignature_def saveSignature_def MAX_SIGNATURE_CHARS_def Let_def split: local_store.splits)
qed

end
