(* ===== verification/Http.thy ===== *)
theory Http
  imports Message_Crypto Web_Storage
begin

text \<open>
  Requests and the browser's state: \<open>fetch\<close>, the two web storages, and computations that may fail.

  The server is a parameter: a function from the requests sent so far and the present one to a
  response. A response is a network failure or a status with a body whose stream may fail. Request
  bodies made by \<open>JSON.stringify\<close> are kept as values. A computation of the clients takes the state and
  returns a result or an error together with the state; the state record is extended by the
  applications with their own fields.
\<close>

section \<open>State\<close>

datatype body = JsonBody json | TextBody string | FormBody "byte list" string "string option"

record request =
  req_method :: string
  req_url :: string
  req_headers :: "(string \<times> string) list"
  with_credentials :: bool
  req_body :: "body option"

datatype response = NetFail string | Resp (r_status: nat) (content_type: "string option") (r_body: "byte list option")

record world =
  sessionStorage :: store
  localStorage :: store
  sent :: "request list"

text \<open>The environment: the build-time API base, the page's origin, the user id injected into the page,
  and the server.\<close>

record net =
  api_base :: string
  page_origin :: string
  byos_user_id :: string
  server :: "request list \<Rightarrow> request \<Rightarrow> response"

type_synonym ('z, 'a) io = "'z world_scheme \<Rightarrow> (js_error + 'a) \<times> 'z world_scheme"

definition io_bind :: "('z, 'a) io \<Rightarrow> ('a \<Rightarrow> ('z, 'b) io) \<Rightarrow> ('z, 'b) io" where
  "io_bind m f w = (case m w of (Inl e, w') \<Rightarrow> (Inl e, w') | (Inr a, w') \<Rightarrow> f a w')"

definition io_lift :: "js_error + 'a \<Rightarrow> ('z, 'a) io" where
  "io_lift r w = (r, w)"

abbreviation io_return :: "'a \<Rightarrow> ('z, 'a) io" where
  "io_return a \<equiv> io_lift (Inr a)"

abbreviation io_throw :: "string \<Rightarrow> ('z, 'a) io" where
  "io_throw m \<equiv> io_lift (throw_msg m)"

text \<open>\<open>try \<dots> catch\<close>.\<close>

definition io_catch :: "('z, 'a) io \<Rightarrow> (js_error \<Rightarrow> ('z, 'a) io) \<Rightarrow> ('z, 'a) io" where
  "io_catch m h w = (case m w of (Inl e, w') \<Rightarrow> h e w' | (Inr a, w') \<Rightarrow> (Inr a, w'))"

text \<open>\<open>try { \<dots> } catch (err) { \<dots> }\<close> as a whole handler.\<close>

definition try_catch :: "(js_error \<Rightarrow> 'z world_scheme \<Rightarrow> 'z world_scheme) \<Rightarrow> ('z, 'a) io \<Rightarrow> 'z world_scheme \<Rightarrow> 'z world_scheme" where
  "try_catch h m w = (case m w of (Inl e, w') \<Rightarrow> h e w' | (Inr _, w') \<Rightarrow> w')"

definition io_modify :: "('z world_scheme \<Rightarrow> 'z world_scheme) \<Rightarrow> ('z, unit) io" where
  "io_modify f w = (Inr (), f w)"

definition io_gets :: "('z world_scheme \<Rightarrow> 'a) \<Rightarrow> ('z, 'a) io" where
  "io_gets f w = (Inr (f w), w)"

text \<open>\<open>Promise.all\<close>: both requests are sent before either answer is used.\<close>

definition both :: "('z, 'a) io \<Rightarrow> ('z, 'b) io \<Rightarrow> ('z, 'a \<times> 'b) io" where
  "both m1 m2 w =
     (let (r1, w1) = m1 w; (r2, w2) = m2 w1
      in (bind_err r1 (\<lambda>a. bind_err r2 (\<lambda>b. Inr (a, b))), w2))"

section \<open>Fetch\<close>

definition resp_ok :: "nat \<Rightarrow> bool" where
  "resp_ok st \<longleftrightarrow> 200 \<le> st \<and> st \<le> 299"

definition do_fetch :: "net \<Rightarrow> request \<Rightarrow> 'z world_scheme \<Rightarrow> response \<times> 'z world_scheme" where
  "do_fetch N r w = (server N (sent w) r, w\<lparr>sent := sent w @ [r]\<rparr>)"

text \<open>\<open>await response.text().catch(() => "")\<close> and \<open>await response.json()\<close>.\<close>

definition text_or_empty :: "byte list option \<Rightarrow> string" where
  "text_or_empty t = (case t of Some bs \<Rightarrow> utf8_decode bs | None \<Rightarrow> [])"

definition resp_json :: "byte list option \<Rightarrow> js_error + json" where
  "resp_json t = (case t of Some bs \<Rightarrow> js_parse (utf8_decode bs) | None \<Rightarrow> throw_msg ''TypeError'')"

text \<open>\<open>new Error(text || fallback)\<close> with the \<open>status\<close> property.\<close>

definition status_error :: "string \<Rightarrow> nat \<Rightarrow> byte list option \<Rightarrow> js_error" where
  "status_error fallback st t = JsError (or_else (text_or_empty t) (fallback @ num_string st)) (Some st)"

text \<open>A header list is an object literal: a later entry of the same name replaces the earlier one.\<close>

definition header :: "string \<Rightarrow> request \<Rightarrow> string option" where
  "header k r = map_of (rev (req_headers r)) k"

section \<open>URLs\<close>

definition is_uri_unreserved :: "char \<Rightarrow> bool" where
  "is_uri_unreserved c \<longleftrightarrow> is_digit c \<or> is_upper_ascii c \<or> is_lower_ascii c \<or> c \<in> set ''-_.!~*'' \<or> c = CHR 0x27
     \<or> c = CHR ''('' \<or> c = CHR '')''"

definition percent_byte :: "byte \<Rightarrow> string" where
  "percent_byte b = CHR ''%'' # toUpperCase (hex_byte b)"

definition encodeURIComponent :: "string \<Rightarrow> string" where
  "encodeURIComponent s =
     concat (map (\<lambda>c. if is_uri_unreserved c then [c] else concat (map percent_byte (utf8_char c))) s)"

section \<open>Lemmas\<close>

lemma io_simps [simp]:
  "io_lift r w = (r, w)" "io_modify f w = (Inr (), f w)" "io_gets g w = (Inr (g w), w)"
  by (simp_all add: io_lift_def io_modify_def io_gets_def)

lemma io_bind_lift [simp]: "io_bind (io_lift r) f w = (case r of Inl e \<Rightarrow> (Inl e, w) | Inr a \<Rightarrow> f a w)"
  by (cases r) (simp_all add: io_bind_def)

lemma io_bind_modify [simp]: "io_bind (io_modify h) f w = f () (h w)"
  by (simp add: io_bind_def)

lemma io_bind_gets [simp]: "io_bind (io_gets g) f w = f (g w) w"
  by (simp add: io_bind_def)

lemma io_bind_assoc: "io_bind (io_bind m f) g = io_bind m (\<lambda>a. io_bind (f a) g)"
  by (rule ext) (simp add: io_bind_def split: prod.splits sum.splits)

lemma sent_do_fetch [simp]: "sent (snd (do_fetch N r w)) = sent w @ [r]"
  by (simp add: do_fetch_def)

lemma do_fetch_frame [simp]:
  "sessionStorage (snd (do_fetch N r w)) = sessionStorage w"
  "localStorage (snd (do_fetch N r w)) = localStorage w"
  by (simp_all add: do_fetch_def)

lemma world_frame:
  "sessionStorage (w\<lparr>sent := s\<rparr>) = sessionStorage w" "localStorage (w\<lparr>sent := s\<rparr>) = localStorage w"
  by simp_all

lemma io_bind_Inr:
  "io_bind m f w = (Inr b, w') \<longleftrightarrow> (\<exists>a w1. m w = (Inr a, w1) \<and> f a w1 = (Inr b, w'))"
  by (auto simp: io_bind_def split: prod.splits sum.splits)

text \<open>A computation that keeps an observation of the state, always or when it fails.\<close>

definition io_keeps :: "('z world_scheme \<Rightarrow> 'b) \<Rightarrow> ('z, 'a) io \<Rightarrow> bool" where
  "io_keeps f m \<longleftrightarrow> (\<forall>w. f (snd (m w)) = f w)"

definition io_fail_keeps :: "('z world_scheme \<Rightarrow> 'b) \<Rightarrow> ('z, 'a) io \<Rightarrow> bool" where
  "io_fail_keeps f m \<longleftrightarrow> (\<forall>w e w'. m w = (Inl e, w') \<longrightarrow> f w' = f w)"

named_theorems io_frame \<open>what the computations keep of the state\<close>
named_theorems io_fail \<open>what the computations keep of the state when they fail\<close>

lemma io_keepsD: "io_keeps f m \<Longrightarrow> m w = (r, w') \<Longrightarrow> f w' = f w"
  by (auto simp: io_keeps_def dest: spec [of _ w])

lemma io_keeps_bind [io_frame]: "io_keeps f m \<Longrightarrow> (\<And>a. io_keeps f (g a)) \<Longrightarrow> io_keeps f (io_bind m g)"
  unfolding io_keeps_def io_bind_def by (auto split: prod.splits sum.splits) (metis snd_conv)+

lemma io_keeps_lift [io_frame]: "io_keeps f (io_lift r)" and io_keeps_gets [io_frame]: "io_keeps f (io_gets g)"
  by (simp_all add: io_keeps_def)

lemma io_keeps_modify [io_frame]: "(\<And>w. f (h w) = f w) \<Longrightarrow> io_keeps f (io_modify h)"
  by (simp add: io_keeps_def)

lemma io_keeps_catch [io_frame]: "io_keeps f m \<Longrightarrow> (\<And>e. io_keeps f (g e)) \<Longrightarrow> io_keeps f (io_catch m g)"
  unfolding io_keeps_def io_catch_def by (auto split: prod.splits sum.splits) (metis snd_conv)+

lemma io_keeps_if [io_frame]: "io_keeps f m \<Longrightarrow> io_keeps f m' \<Longrightarrow> io_keeps f (if b then m else m')"
  by simp

lemma io_keeps_option [io_frame]:
  "io_keeps f m \<Longrightarrow> (\<And>a. io_keeps f (g a)) \<Longrightarrow> io_keeps f (case x of None \<Rightarrow> m | Some a \<Rightarrow> g a)"
  by (cases x) simp_all

lemma io_keeps_both [io_frame]: "io_keeps f m1 \<Longrightarrow> io_keeps f m2 \<Longrightarrow> io_keeps f (both m1 m2)"
  unfolding io_keeps_def both_def by (simp add: case_prod_beta Let_def)

lemma io_keeps_prod [io_frame]: "(\<And>a b. io_keeps f (g a b)) \<Longrightarrow> io_keeps f (case x of (a, b) \<Rightarrow> g a b)"
  by (cases x) simp

lemma io_fail_keeps_bind [io_fail]:
  "io_keeps f m \<Longrightarrow> (\<And>a. io_fail_keeps f (g a)) \<Longrightarrow> io_fail_keeps f (io_bind m g)"
  unfolding io_fail_keeps_def io_keeps_def io_bind_def
  by (auto split: prod.splits sum.splits) (metis snd_conv)+

lemma io_fail_keeps_modify [io_fail]: "io_fail_keeps f (io_modify h)" and io_fail_keeps_lift [io_fail]: "io_fail_keeps f (io_lift r)"
  by (simp_all add: io_fail_keeps_def)

lemma io_fail_keeps_if [io_fail]: "io_fail_keeps f m \<Longrightarrow> io_fail_keeps f m' \<Longrightarrow> io_fail_keeps f (if b then m else m')"
  by simp

lemma io_fail_keeps_option [io_fail]:
  "io_fail_keeps f m \<Longrightarrow> (\<And>a. io_fail_keeps f (g a)) \<Longrightarrow> io_fail_keeps f (case x of None \<Rightarrow> m | Some a \<Rightarrow> g a)"
  by (cases x) simp_all

lemma io_keeps_fail: "io_keeps f m \<Longrightarrow> io_fail_keeps f m"
  unfolding io_keeps_def io_fail_keeps_def by (metis snd_conv)

lemma try_catch_keeps:
  assumes "io_keeps f m" "\<And>e w. f (h e w) = f w"
  shows "f (try_catch h m w) = f w"
  using io_keepsD [OF assms(1), of w] assms(2) by (simp add: try_catch_def split: prod.splits sum.splits)

text \<open>A computation that sends the given requests, whatever the server answers, and changes nothing else.\<close>

definition sends :: "('z, 'a) io \<Rightarrow> 'z world_scheme \<Rightarrow> request list \<Rightarrow> bool" where
  "sends m w rs \<longleftrightarrow> snd (m w) = w\<lparr>sent := sent w @ rs\<rparr>"

lemma sends_lift [simp]: "sends (io_lift r) w [] "
  by (simp add: sends_def)

lemma sends_catch_lift: "sends m w rs \<Longrightarrow> sends (io_catch m (\<lambda>e. io_lift (h e))) w rs"
  by (cases "m w"; cases "fst (m w)") (simp_all add: sends_def io_catch_def)

lemma sends_bind_lift: "sends m w rs \<Longrightarrow> sends (io_bind m (\<lambda>a. io_lift (h a))) w rs"
  by (cases "m w"; cases "fst (m w)") (simp_all add: sends_def io_bind_def)

text \<open>A computation whose requests all satisfy a predicate; requests are only ever appended.\<close>

definition io_sends :: "(request \<Rightarrow> bool) \<Rightarrow> ('z, 'a) io \<Rightarrow> bool" where
  "io_sends P m \<longleftrightarrow> (\<forall>w. \<exists>rs. sent (snd (m w)) = sent w @ rs \<and> list_all P rs)"

named_theorems io_request \<open>which requests the computations send\<close>

lemma io_sendsD: "io_sends P m \<Longrightarrow> m w = (r, w') \<Longrightarrow> \<exists>rs. sent w' = sent w @ rs \<and> list_all P rs"
  unfolding io_sends_def by (metis snd_conv)

lemma io_sends_bind [io_request]: "io_sends P m \<Longrightarrow> (\<And>a. io_sends P (g a)) \<Longrightarrow> io_sends P (io_bind m g)"
  unfolding io_sends_def io_bind_def
  by (clarsimp split: prod.splits sum.splits) (metis append_assoc list_all_append snd_conv)

lemma io_sends_lift [io_request]: "io_sends P (io_lift r)" and io_sends_gets [io_request]: "io_sends P (io_gets g)"
  by (simp_all add: io_sends_def)

lemma io_sends_modify [io_request]: "(\<And>w. sent (h w) = sent w) \<Longrightarrow> io_sends P (io_modify h)"
  by (simp add: io_sends_def)

lemma io_sends_catch [io_request]: "io_sends P m \<Longrightarrow> (\<And>e. io_sends P (g e)) \<Longrightarrow> io_sends P (io_catch m g)"
  unfolding io_sends_def io_catch_def
  by (clarsimp split: prod.splits sum.splits) (metis append_assoc list_all_append snd_conv)

lemma io_sends_if [io_request]: "io_sends P m \<Longrightarrow> io_sends P m' \<Longrightarrow> io_sends P (if b then m else m')"
  by simp

lemma io_sends_option [io_request]:
  "io_sends P m \<Longrightarrow> (\<And>a. io_sends P (g a)) \<Longrightarrow> io_sends P (case x of None \<Rightarrow> m | Some a \<Rightarrow> g a)"
  by (cases x) simp_all

lemma io_sends_both [io_request]: "io_sends P m1 \<Longrightarrow> io_sends P m2 \<Longrightarrow> io_sends P (both m1 m2)"
  unfolding io_sends_def both_def
  by (clarsimp simp: case_prod_beta Let_def) (metis append_assoc list_all_append)

lemma io_sends_prod [io_request]: "(\<And>a b. io_sends P (g a b)) \<Longrightarrow> io_sends P (case x of (a, b) \<Rightarrow> g a b)"
  by (cases x) simp

lemma try_catch_sends:
  assumes "io_sends P m" "\<And>e w. sent (h e w) = sent w"
  shows "\<exists>rs. sent (try_catch h m w) = sent w @ rs \<and> list_all P rs"
  using io_sendsD [OF assms(1), of w] assms(2) by (simp add: try_catch_def split: prod.splits sum.splits)

lemma hex_upper_digit: "c \<in> set (upper_char (digit_char n)) \<Longrightarrow> n < 16 \<Longrightarrow> is_digit c \<or> is_upper_ascii c"
  by (auto simp: upper_char_def is_lower_ascii_def code_digit_char is_digit_def is_upper_ascii_def split: if_splits)

lemma hex_upper_chars: "c \<in> set (toUpperCase (hex_byte b)) \<Longrightarrow> is_digit c \<or> is_upper_ascii c"
  by (auto simp: toUpperCase_def hex_byte_eq dest: hex_upper_digit)

lemma encodeURIComponent_chars:
  "c \<in> set (encodeURIComponent s) \<Longrightarrow> is_uri_unreserved c \<or> c = CHR ''%''"
  by (auto simp: encodeURIComponent_def percent_byte_def is_uri_unreserved_def dest: hex_upper_chars split: if_splits)

text \<open>A network on which every request fails, for examples.\<close>

definition silent_net :: net where
  "silent_net = \<lparr>api_base = [], page_origin = [], byos_user_id = [], server = (\<lambda>_ _. NetFail [])\<rparr>"

end
