(* ===== verification/Webmail_Api.thy ===== *)
theory Webmail_Api
  imports Http
begin

text \<open>
  The API client of the webmail: \<open>apps/webmail/src/api.ts\<close>. Every function of the file is a definition
  here; results are the parsed JSON value, \<open>None\<close> for \<open>undefined\<close>. The lemmas show which request each
  function sends and that it changes nothing else.
\<close>

section \<open>The request function\<close>

definition bearer :: "string \<Rightarrow> (string \<times> string) list" where
  "bearer t = [(''Authorization'', ''Bearer '' @ t)]"

text \<open>\<open>if (activeToken) \<dots> else if (impersonationToken) \<dots>\<close>\<close>

definition auth_headers :: "store \<Rightarrow> (string \<times> string) list" where
  "auth_headers session =
     (let tok = (\<lambda>k. case getItem session k of Some t \<Rightarrow> t | None \<Rightarrow> []);
          activeToken = tok ''byos_active_session_token'';
          impersonationToken = tok ''byos_impersonation_token''
      in if activeToken \<noteq> [] then bearer activeToken
         else if impersonationToken \<noteq> [] then bearer impersonationToken else [])"

definition api_request :: "net \<Rightarrow> string \<Rightarrow> string \<Rightarrow> body option \<Rightarrow> store \<Rightarrow> request" where
  "api_request N path meth bdy session =
     \<lparr>req_method = meth, req_url = api_base N @ path,
      req_headers = [(''Content-Type'', ''application/json''), (''X-BYOS-Client'', ''webmail'')] @ auth_headers session,
      with_credentials = True, req_body = bdy\<rparr>"

definition api_response :: "response \<Rightarrow> js_error + json option" where
  "api_response res =
     (case res of
        NetFail m \<Rightarrow> throw_msg m
      | Resp st ct t \<Rightarrow>
          if \<not> resp_ok st then Inl (status_error ''API error '' st t)
          else if st = 204 then Inr None
          else bind_err (resp_json t) (\<lambda>v. Inr (Some v)))"

definition apiRequest :: "net \<Rightarrow> string \<Rightarrow> string \<Rightarrow> body option \<Rightarrow> ('z, json option) io" where
  "apiRequest N path meth bdy w =
     (let (res, w') = do_fetch N (api_request N path meth bdy (sessionStorage w)) w in (api_response res, w'))"

text \<open>\<open>res.key || []\<close>: a property of \<open>undefined\<close> or \<open>null\<close> is an error.\<close>

definition list_prop :: "string \<Rightarrow> json option \<Rightarrow> js_error + json list" where
  "list_prop k res =
     (case res of None \<Rightarrow> throw_msg ''TypeError'' | Some JNull \<Rightarrow> throw_msg ''TypeError''
      | Some v \<Rightarrow> Inr (case jprop k v of Some (JArr vs) \<Rightarrow> vs | _ \<Rightarrow> []))"

text \<open>\<open>key: value || undefined\<close>: \<open>JSON.stringify\<close> drops the property when the value is missing or empty.\<close>

definition opt_prop :: "string \<Rightarrow> string option \<Rightarrow> (string \<times> json) list" where
  "opt_prop k v = (case v of Some s \<Rightarrow> if s = [] then [] else [(k, JStr s)] | None \<Rightarrow> [])"

section \<open>Endpoints\<close>

definition getTrackingPixelUrl :: "net \<Rightarrow> string \<Rightarrow> string" where
  "getTrackingPixelUrl N trackingToken =
     (let base = api_base N
      in if startsWith base ''http://'' \<or> startsWith base ''https://''
         then base @ ''/v1/track/'' @ encodeURIComponent trackingToken @ ''.gif''
         else if page_origin N \<noteq> []
         then page_origin N @ base @ ''/v1/track/'' @ encodeURIComponent trackingToken @ ''.gif''
         else ''/v1/track/'' @ encodeURIComponent trackingToken @ ''.gif'')"

definition fetchCurrentUser :: "net \<Rightarrow> ('z, json option) io" where
  "fetchCurrentUser N = io_catch (apiRequest N ''/v1/auth/me'' ''GET'' None) (\<lambda>e. io_return None)"

definition login :: "net \<Rightarrow> string \<Rightarrow> string \<Rightarrow> ('z, json option) io" where
  "login N email password =
     apiRequest N (''/v1/auth/login'') ''POST'' (Some (JsonBody (JObj [(''email'', JStr email), (''password'', JStr password)])))"

definition logout :: "net \<Rightarrow> ('z, json option) io" where
  "logout N =
     apiRequest N (''/v1/auth/logout'') ''POST'' None"

definition fetchMailboxes :: "net \<Rightarrow> string \<Rightarrow> ('z, json list) io" where
  "fetchMailboxes N orgId =
     io_catch (io_bind (apiRequest N (''/v1/organizations/'' @ orgId @ ''/mailboxes'') ''GET'' None)
       (\<lambda>res. io_lift (list_prop ''mailboxes'' res))) (\<lambda>e. io_return [])"

definition fetchDrafts :: "net \<Rightarrow> string \<Rightarrow> ('z, json list) io" where
  "fetchDrafts N mailboxId =
     io_catch (io_bind (apiRequest N (''/v1/mailboxes/'' @ mailboxId @ ''/drafts'') ''GET'' None)
       (\<lambda>res. io_lift (list_prop ''drafts'' res))) (\<lambda>e. io_return [])"

definition createDraft :: "net \<Rightarrow> string \<Rightarrow> json \<Rightarrow> ('z, json option) io" where
  "createDraft N mailboxId payload =
     apiRequest N (''/v1/mailboxes/'' @ mailboxId @ ''/drafts'') ''POST'' (Some (JsonBody payload))"

definition deleteDraft :: "net \<Rightarrow> string \<Rightarrow> string \<Rightarrow> ('z, json option) io" where
  "deleteDraft N mailboxId draftId =
     apiRequest N (''/v1/mailboxes/'' @ mailboxId @ ''/drafts/'' @ draftId) ''DELETE'' None"

definition updateDraft :: "net \<Rightarrow> string \<Rightarrow> string \<Rightarrow> json \<Rightarrow> ('z, json option) io" where
  "updateDraft N mailboxId draftId payload =
     apiRequest N (''/v1/mailboxes/'' @ mailboxId @ ''/drafts/'' @ draftId) ''PUT'' (Some (JsonBody payload))"

definition fetchContacts :: "net \<Rightarrow> string \<Rightarrow> ('z, json list) io" where
  "fetchContacts N mailboxId =
     io_catch (io_bind (apiRequest N (''/v1/mailboxes/'' @ mailboxId @ ''/contacts'') ''GET'' None)
       (\<lambda>res. io_lift (list_prop ''contacts'' res))) (\<lambda>e. io_return [])"

definition createContact :: "net \<Rightarrow> string \<Rightarrow> json \<Rightarrow> ('z, json option) io" where
  "createContact N mailboxId payload =
     apiRequest N (''/v1/mailboxes/'' @ mailboxId @ ''/contacts'') ''POST'' (Some (JsonBody payload))"

definition updateContact :: "net \<Rightarrow> string \<Rightarrow> string \<Rightarrow> json \<Rightarrow> ('z, json option) io" where
  "updateContact N mailboxId contactId payload =
     apiRequest N (''/v1/mailboxes/'' @ mailboxId @ ''/contacts/'' @ contactId) ''PUT'' (Some (JsonBody payload))"

definition deleteContact :: "net \<Rightarrow> string \<Rightarrow> string \<Rightarrow> ('z, json option) io" where
  "deleteContact N mailboxId contactId =
     apiRequest N (''/v1/mailboxes/'' @ mailboxId @ ''/contacts/'' @ contactId) ''DELETE'' None"

definition fetchFolders :: "net \<Rightarrow> string \<Rightarrow> ('z, json list) io" where
  "fetchFolders N mailboxId =
     io_catch (io_bind (apiRequest N (''/v1/mailboxes/'' @ mailboxId @ ''/folders'') ''GET'' None)
       (\<lambda>res. io_lift (list_prop ''folders'' res))) (\<lambda>e. io_return [])"

definition createFolder :: "net \<Rightarrow> string \<Rightarrow> json \<Rightarrow> ('z, json option) io" where
  "createFolder N mailboxId payload =
     apiRequest N (''/v1/mailboxes/'' @ mailboxId @ ''/folders'') ''POST'' (Some (JsonBody payload))"

definition updateFolder :: "net \<Rightarrow> string \<Rightarrow> string \<Rightarrow> json \<Rightarrow> ('z, json option) io" where
  "updateFolder N mailboxId folderId payload =
     apiRequest N (''/v1/mailboxes/'' @ mailboxId @ ''/folders/'' @ folderId) ''PUT'' (Some (JsonBody payload))"

definition deleteFolder :: "net \<Rightarrow> string \<Rightarrow> string \<Rightarrow> ('z, json option) io" where
  "deleteFolder N mailboxId folderId =
     apiRequest N (''/v1/mailboxes/'' @ mailboxId @ ''/folders/'' @ folderId) ''DELETE'' None"

definition fetchLabels :: "net \<Rightarrow> string \<Rightarrow> ('z, json list) io" where
  "fetchLabels N mailboxId =
     io_catch (io_bind (apiRequest N (''/v1/mailboxes/'' @ mailboxId @ ''/labels'') ''GET'' None)
       (\<lambda>res. io_lift (list_prop ''labels'' res))) (\<lambda>e. io_return [])"

definition createLabel :: "net \<Rightarrow> string \<Rightarrow> json \<Rightarrow> ('z, json option) io" where
  "createLabel N mailboxId payload =
     apiRequest N (''/v1/mailboxes/'' @ mailboxId @ ''/labels'') ''POST'' (Some (JsonBody payload))"

definition updateLabel :: "net \<Rightarrow> string \<Rightarrow> string \<Rightarrow> json \<Rightarrow> ('z, json option) io" where
  "updateLabel N mailboxId labelId payload =
     apiRequest N (''/v1/mailboxes/'' @ mailboxId @ ''/labels/'' @ labelId) ''PUT'' (Some (JsonBody payload))"

definition deleteLabel :: "net \<Rightarrow> string \<Rightarrow> string \<Rightarrow> ('z, json option) io" where
  "deleteLabel N mailboxId labelId =
     apiRequest N (''/v1/mailboxes/'' @ mailboxId @ ''/labels/'' @ labelId) ''DELETE'' None"

definition updateMessageFolder :: "net \<Rightarrow> string \<Rightarrow> string \<Rightarrow> string \<Rightarrow> string option \<Rightarrow> ('z, json option) io" where
  "updateMessageFolder N mailboxId messageId folder folderId =
     apiRequest N (''/v1/mailboxes/'' @ mailboxId @ ''/messages/'' @ messageId @ ''/folder'') ''PUT'' (Some (JsonBody (JObj [(''folder'', JStr folder), (''folder_id'', case folderId of Some f \<Rightarrow> JStr f | None \<Rightarrow> JNull)])))"

definition attachMessageLabel :: "net \<Rightarrow> string \<Rightarrow> string \<Rightarrow> string \<Rightarrow> ('z, json option) io" where
  "attachMessageLabel N mailboxId messageId labelId =
     apiRequest N (''/v1/mailboxes/'' @ mailboxId @ ''/messages/'' @ messageId @ ''/labels'') ''POST'' (Some (JsonBody (JObj [(''label_id'', JStr labelId)])))"

definition detachMessageLabel :: "net \<Rightarrow> string \<Rightarrow> string \<Rightarrow> string \<Rightarrow> ('z, json option) io" where
  "detachMessageLabel N mailboxId messageId labelId =
     apiRequest N (''/v1/mailboxes/'' @ mailboxId @ ''/messages/'' @ messageId @ ''/labels/'' @ labelId) ''DELETE'' None"

definition setMessageRead :: "net \<Rightarrow> string \<Rightarrow> string \<Rightarrow> bool \<Rightarrow> ('z, json option) io" where
  "setMessageRead N mailboxId messageId read =
     apiRequest N (''/v1/mailboxes/'' @ mailboxId @ ''/messages/'' @ messageId @ ''/read'') ''PUT'' (Some (JsonBody (JObj [(''read'', JBool read)])))"

definition fetchAttachments :: "net \<Rightarrow> string \<Rightarrow> ('z, json list) io" where
  "fetchAttachments N mailboxId =
     io_catch (io_bind (apiRequest N (''/v1/mailboxes/'' @ mailboxId @ ''/attachments'') ''GET'' None)
       (\<lambda>res. io_lift (list_prop ''attachments'' res))) (\<lambda>e. io_return [])"

definition fetchMailboxDetail :: "net \<Rightarrow> string \<Rightarrow> ('z, json option) io" where
  "fetchMailboxDetail N mailboxId =
     apiRequest N (''/v1/mailboxes/'' @ mailboxId) ''GET'' None"

definition fetchMessages :: "net \<Rightarrow> string \<Rightarrow> ('z, json list) io" where
  "fetchMessages N mailboxId =
     io_bind (apiRequest N (''/v1/mailboxes/'' @ mailboxId @ ''/messages'') ''GET'' None)
       (\<lambda>res. io_lift (list_prop ''messages'' res))"

definition fetchMessageBody :: "net \<Rightarrow> string \<Rightarrow> string \<Rightarrow> ('z, json option) io" where
  "fetchMessageBody N mailboxId messageId =
     apiRequest N (''/v1/mailboxes/'' @ mailboxId @ ''/messages/'' @ messageId @ ''/body'') ''GET'' None"

definition deleteAttachment :: "net \<Rightarrow> string \<Rightarrow> string \<Rightarrow> ('z, json option) io" where
  "deleteAttachment N mailboxId attachmentId =
     apiRequest N (''/v1/mailboxes/'' @ mailboxId @ ''/attachments/'' @ attachmentId) ''DELETE'' None"

definition importEmail :: "net \<Rightarrow> string \<Rightarrow> string \<Rightarrow> string option \<Rightarrow> bool option \<Rightarrow> ('z, json option) io" where
  "importEmail N mailboxId rawEmlB64 folder isRead =
     apiRequest N (''/v1/mailboxes/'' @ mailboxId @ ''/messages/import'') ''POST'' (Some (JsonBody (JObj [(''raw_eml'', JStr rawEmlB64), (''folder'', JStr (or_else (case folder of Some f \<Rightarrow> f | None \<Rightarrow> []) ''inbox'')), (''is_read'', JBool (case isRead of Some b \<Rightarrow> b | None \<Rightarrow> False))])))"

definition prepareOutbound :: "net \<Rightarrow> string \<Rightarrow> ('z, json option) io" where
  "prepareOutbound N mailboxId =
     apiRequest N (''/v1/outbound/prepare'') ''POST'' (Some (JsonBody (JObj [(''mailbox_id'', JStr mailboxId)])))"

definition sendOutbound :: "net \<Rightarrow> json \<Rightarrow> ('z, json option) io" where
  "sendOutbound N payload =
     apiRequest N (''/v1/outbound/send'') ''POST'' (Some (JsonBody payload))"

definition scheduleOutbound :: "net \<Rightarrow> json \<Rightarrow> ('z, json option) io" where
  "scheduleOutbound N payload =
     apiRequest N (''/v1/outbound/schedule'') ''POST'' (Some (JsonBody payload))"

definition searchMailboxTokens :: "net \<Rightarrow> string \<Rightarrow> string \<Rightarrow> ('z, json list) io" where
  "searchMailboxTokens N mailboxId tokenHex =
     io_bind (apiRequest N (''/v1/mailboxes/'' @ mailboxId @ ''/search?token='' @ encodeURIComponent tokenHex) ''GET'' None)
       (\<lambda>res. io_lift (list_prop ''message_ids'' res))"

definition indexSearchToken :: "net \<Rightarrow> string \<Rightarrow> string \<Rightarrow> string \<Rightarrow> ('z, json option) io" where
  "indexSearchToken N mailboxId messageId tokenHex =
     apiRequest N (''/v1/mailboxes/'' @ mailboxId @ ''/search'') ''POST'' (Some (JsonBody (JObj [(''message_id'', JStr messageId), (''token'', JStr tokenHex)])))"

definition verifyInvitation :: "net \<Rightarrow> string \<Rightarrow> ('z, json option) io" where
  "verifyInvitation N inviteToken =
     apiRequest N (''/v1/auth/invitations/verify?token='' @ encodeURIComponent inviteToken) ''GET'' None"

definition claimInvitation :: "net \<Rightarrow> json \<Rightarrow> ('z, json option) io" where
  "claimInvitation N req =
     apiRequest N (''/v1/auth/invitations/claim'') ''POST'' (Some (JsonBody req))"

definition fetchMailboxSettings :: "net \<Rightarrow> string \<Rightarrow> ('z, json option) io" where
  "fetchMailboxSettings N mailboxId =
     apiRequest N (''/v1/mailboxes/'' @ mailboxId @ ''/settings'') ''GET'' None"

definition updateMailboxSettings :: "net \<Rightarrow> string \<Rightarrow> json \<Rightarrow> ('z, json option) io" where
  "updateMailboxSettings N mailboxId settings =
     apiRequest N (''/v1/mailboxes/'' @ mailboxId @ ''/settings'') ''PUT'' (Some (JsonBody settings))"

definition fetchActiveSessions :: "net \<Rightarrow> ('z, json list) io" where
  "fetchActiveSessions N =
     io_bind (apiRequest N (''/v1/auth/sessions'') ''GET'' None)
       (\<lambda>res. io_lift (list_prop ''sessions'' res))"

definition revokeOtherSessions :: "net \<Rightarrow> ('z, json option) io" where
  "revokeOtherSessions N =
     apiRequest N (''/v1/auth/sessions/revoke-others'') ''POST'' None"

definition verifyAccountPassword :: "net \<Rightarrow> string \<Rightarrow> ('z, json option) io" where
  "verifyAccountPassword N password =
     apiRequest N (''/v1/auth/verify-password'') ''POST'' (Some (JsonBody (JObj [(''password'', JStr password)])))"

definition fetchAutoReplyRule :: "net \<Rightarrow> string \<Rightarrow> ('z, json option) io" where
  "fetchAutoReplyRule N mailboxId =
     apiRequest N (''/v1/mailboxes/'' @ mailboxId @ ''/auto-reply'') ''GET'' None"

definition updateAutoReplyRule :: "net \<Rightarrow> string \<Rightarrow> json \<Rightarrow> ('z, json option) io" where
  "updateAutoReplyRule N mailboxId rule =
     apiRequest N (''/v1/mailboxes/'' @ mailboxId @ ''/auto-reply'') ''PUT'' (Some (JsonBody rule))"

definition listBridgeCredentials :: "net \<Rightarrow> string \<Rightarrow> ('z, json list) io" where
  "listBridgeCredentials N mailboxId =
     io_bind (apiRequest N (''/v1/mailboxes/'' @ mailboxId @ ''/bridge/credentials'') ''GET'' None)
       (\<lambda>res. io_lift (list_prop ''credentials'' res))"

definition createBridgeCredential :: "net \<Rightarrow> string \<Rightarrow> string \<Rightarrow> ('z, json option) io" where
  "createBridgeCredential N mailboxId label =
     apiRequest N (''/v1/mailboxes/'' @ mailboxId @ ''/bridge/credentials'') ''POST'' (Some (JsonBody (JObj [(''label'', JStr label)])))"

definition revokeBridgeCredential :: "net \<Rightarrow> string \<Rightarrow> string \<Rightarrow> ('z, json option) io" where
  "revokeBridgeCredential N mailboxId credentialId =
     apiRequest N (''/v1/mailboxes/'' @ mailboxId @ ''/bridge/credentials/'' @ credentialId) ''DELETE'' None"

definition fetchMailboxAliases :: "net \<Rightarrow> string \<Rightarrow> ('z, json list) io" where
  "fetchMailboxAliases N mailboxId =
     io_catch (io_bind (apiRequest N (''/v1/mailboxes/'' @ mailboxId @ ''/aliases'') ''GET'' None)
       (\<lambda>res. io_lift (list_prop ''aliases'' res))) (\<lambda>e. io_return [])"

definition fetch2FAStatus :: "net \<Rightarrow> ('z, json option) io" where
  "fetch2FAStatus N =
     apiRequest N (''/v1/auth/2fa/status'') ''GET'' None"

definition setupTOTP :: "net \<Rightarrow> ('z, json option) io" where
  "setupTOTP N =
     apiRequest N (''/v1/auth/2fa/totp/setup'') ''POST'' None"

definition verifyTOTP :: "net \<Rightarrow> string \<Rightarrow> string \<Rightarrow> ('z, json option) io" where
  "verifyTOTP N secret otp =
     apiRequest N (''/v1/auth/2fa/totp/verify'') ''POST'' (Some (JsonBody (JObj [(''secret'', JStr secret), (''code'', JStr otp)])))"

definition disableTOTP :: "net \<Rightarrow> string \<Rightarrow> ('z, json option) io" where
  "disableTOTP N password =
     apiRequest N (''/v1/auth/2fa/totp/disable'') ''POST'' (Some (JsonBody (JObj [(''password'', JStr password)])))"

definition saveRecoveryMethods :: "net \<Rightarrow> string \<Rightarrow> string \<Rightarrow> ('z, json option) io" where
  "saveRecoveryMethods N recoveryEmail recoveryPhone =
     apiRequest N (''/v1/auth/2fa/recovery-methods'') ''POST'' (Some (JsonBody (JObj [(''recovery_email'', JStr recoveryEmail), (''recovery_phone'', JStr recoveryPhone)])))"

definition changeAccountPassword :: "net \<Rightarrow> string \<Rightarrow> ('z, json option) io" where
  "changeAccountPassword N newPassword =
     apiRequest N (''/v1/auth/change-password'') ''POST'' (Some (JsonBody (JObj [(''new_password'', JStr newPassword)])))"

definition fetchFilters :: "net \<Rightarrow> string \<Rightarrow> ('z, json option) io" where
  "fetchFilters N mailboxId =
     apiRequest N (''/v1/mailboxes/'' @ mailboxId @ ''/filters'') ''GET'' None"

definition createFilter :: "net \<Rightarrow> string \<Rightarrow> json \<Rightarrow> ('z, json option) io" where
  "createFilter N mailboxId filterJson =
     apiRequest N (''/v1/mailboxes/'' @ mailboxId @ ''/filters'') ''POST'' (Some (JsonBody filterJson))"

definition updateFilter :: "net \<Rightarrow> string \<Rightarrow> string \<Rightarrow> json \<Rightarrow> ('z, json option) io" where
  "updateFilter N mailboxId filterId filterJson =
     apiRequest N (''/v1/mailboxes/'' @ mailboxId @ ''/filters/'' @ filterId) ''PUT'' (Some (JsonBody filterJson))"

definition deleteFilter :: "net \<Rightarrow> string \<Rightarrow> string \<Rightarrow> ('z, json option) io" where
  "deleteFilter N mailboxId filterId =
     apiRequest N (''/v1/mailboxes/'' @ mailboxId @ ''/filters/'' @ filterId) ''DELETE'' None"

definition createAddressRule :: "net \<Rightarrow> string \<Rightarrow> json \<Rightarrow> ('z, json option) io" where
  "createAddressRule N mailboxId rule =
     apiRequest N (''/v1/mailboxes/'' @ mailboxId @ ''/address-rules'') ''POST'' (Some (JsonBody rule))"

definition deleteAddressRule :: "net \<Rightarrow> string \<Rightarrow> string \<Rightarrow> ('z, json option) io" where
  "deleteAddressRule N mailboxId ruleId =
     apiRequest N (''/v1/mailboxes/'' @ mailboxId @ ''/address-rules/'' @ ruleId) ''DELETE'' None"

definition registerTracking :: "net \<Rightarrow> string \<Rightarrow> string \<Rightarrow> string \<Rightarrow> string \<Rightarrow> ('z, json option) io" where
  "registerTracking N mailboxId trackingToken subject recipient =
     apiRequest N (''/v1/mailboxes/'' @ mailboxId @ ''/tracking'') ''POST'' (Some (JsonBody (JObj [(''tracking_token'', JStr trackingToken), (''subject'', JStr subject), (''recipient'', JStr recipient)])))"

definition fetchTrackingList :: "net \<Rightarrow> string \<Rightarrow> ('z, json option) io" where
  "fetchTrackingList N mailboxId =
     apiRequest N (''/v1/mailboxes/'' @ mailboxId @ ''/tracking'') ''GET'' None"

definition fetchTrackingItem :: "net \<Rightarrow> string \<Rightarrow> string \<Rightarrow> ('z, json option) io" where
  "fetchTrackingItem N mailboxId trackingToken =
     apiRequest N (''/v1/mailboxes/'' @ mailboxId @ ''/tracking/'' @ encodeURIComponent trackingToken) ''GET'' None"

definition fetchPasskeyRegisterOptions :: "net \<Rightarrow> ('z, json option) io" where
  "fetchPasskeyRegisterOptions N =
     apiRequest N (''/v1/auth/passkeys/register-options'') ''GET'' None"

definition registerPasskey :: "net \<Rightarrow> json \<Rightarrow> ('z, json option) io" where
  "registerPasskey N data =
     apiRequest N (''/v1/auth/passkeys/register'') ''POST'' (Some (JsonBody data))"

definition loginWithPasskey :: "net \<Rightarrow> json \<Rightarrow> ('z, json option) io" where
  "loginWithPasskey N data =
     apiRequest N (''/v1/auth/passkeys/login'') ''POST'' (Some (JsonBody data))"

definition listPasskeys :: "net \<Rightarrow> ('z, json option) io" where
  "listPasskeys N =
     apiRequest N (''/v1/auth/passkeys'') ''GET'' None"

definition deletePasskey :: "net \<Rightarrow> string \<Rightarrow> ('z, json option) io" where
  "deletePasskey N passkeyId =
     apiRequest N (''/v1/auth/passkeys/'' @ passkeyId) ''DELETE'' None"

definition requestRecoveryChallenge :: "net \<Rightarrow> string \<Rightarrow> string \<Rightarrow> ('z, json option) io" where
  "requestRecoveryChallenge N email recoveryMethod =
     apiRequest N (''/v1/auth/recovery/request'') ''POST'' (Some (JsonBody (JObj [(''email'', JStr email), (''method'', JStr recoveryMethod)])))"

definition resetPasswordWithRecovery :: "net \<Rightarrow> string \<Rightarrow> string \<Rightarrow> string \<Rightarrow> string option \<Rightarrow> string option \<Rightarrow> ('z, json option) io" where
  "resetPasswordWithRecovery N challengeToken otp newPassword newMailboxPk newWrappedSkUser =
     apiRequest N (''/v1/auth/recovery/reset-password'') ''POST'' (Some (JsonBody (JObj ([(''challenge_token'', JStr challengeToken), (''code'', JStr otp), (''new_password'', JStr newPassword)]
         @ opt_prop ''new_mailbox_pk'' newMailboxPk @ opt_prop ''new_wrapped_sk_user'' newWrappedSkUser))))"

definition reactivateHistoricalKeys :: "net \<Rightarrow> string \<Rightarrow> string \<Rightarrow> string option \<Rightarrow> ('z, json option) io" where
  "reactivateHistoricalKeys N mailboxId wrappedSkUser mailboxPk =
     apiRequest N (''/v1/mailboxes/'' @ mailboxId @ ''/reactivate-keys'') ''POST'' (Some (JsonBody (JObj ([(''wrapped_sk_user'', JStr wrappedSkUser)] @ opt_prop ''mailbox_pk'' mailboxPk))))"

definition verifyLogin2FA :: "net \<Rightarrow> string \<Rightarrow> string \<Rightarrow> ('z, json option) io" where
  "verifyLogin2FA N challengeToken otp =
     apiRequest N (''/v1/auth/2fa/verify-login'') ''POST'' (Some (JsonBody (JObj [(''challenge_token'', JStr challengeToken), (''code'', JStr otp)])))"

definition sendLogin2FACode :: "net \<Rightarrow> string \<Rightarrow> string \<Rightarrow> ('z, json option) io" where
  "sendLogin2FACode N challengeToken channel =
     apiRequest N (''/v1/auth/2fa/send-code'') ''POST'' (Some (JsonBody (JObj [(''challenge_token'', JStr challengeToken), (''method'', JStr channel)])))"

definition fetchRecoveryOptions :: "net \<Rightarrow> string \<Rightarrow> ('z, json option) io" where
  "fetchRecoveryOptions N email =
     apiRequest N (''/v1/auth/recovery/options?email='' @ encodeURIComponent email) ''GET'' None"

definition fetchOutboundPubkey :: "net \<Rightarrow> ('z, json) io" where
  "fetchOutboundPubkey N =
     io_bind (apiRequest N ''/v1/outbound/pubkey'' ''GET'' None) (\<lambda>res.
       case res of None \<Rightarrow> io_throw ''TypeError'' | Some JNull \<Rightarrow> io_throw ''TypeError''
       | Some v \<Rightarrow> if truthy (jprop ''outbound_delivery_pk'' v) then io_return (the (jprop ''outbound_delivery_pk'' v))
                   else io_throw ''Outbound delivery key is not configured'')"

definition fetchAddressRules :: "net \<Rightarrow> string \<Rightarrow> string option \<Rightarrow> ('z, json option) io" where
  "fetchAddressRules N mailboxId listType =
     (let url = ''/v1/mailboxes/'' @ mailboxId @ ''/address-rules'' @
            (case listType of Some t \<Rightarrow> if t = [] then [] else ''?list_type='' @ encodeURIComponent t | None \<Rightarrow> [])
      in apiRequest N url ''GET'' None)"

definition fetchPasskeyLoginOptions :: "net \<Rightarrow> string option \<Rightarrow> ('z, json option) io" where
  "fetchPasskeyLoginOptions N email =
     (let url = ''/v1/auth/passkeys/login-options'' @
            (case email of Some e \<Rightarrow> if e = [] then [] else ''?email='' @ encodeURIComponent e | None \<Rightarrow> [])
      in apiRequest N url ''GET'' None)"

text \<open>Uploads and downloads use \<open>fetch\<close> directly, with the session cookie and no further headers. A file
  is its name and bytes; \<open>rnd\<close> is the randomness the core draws.\<close>

definition uploadEncryptedAttachment ::
  "net \<Rightarrow> wasm_core \<Rightarrow> byte list \<Rightarrow> string \<Rightarrow> string \<times> byte list \<Rightarrow> byte list \<Rightarrow> string option \<Rightarrow> ('z, json) io" where
  "uploadEncryptedAttachment N W rnd mailboxId file mailboxKey messageId w =
     (case encryptAttachmentBytes W rnd (snd file) mailboxKey [] of
        Inl e \<Rightarrow> (Inl e, w)
      | Inr ciphertext \<Rightarrow>
          (let r = \<lparr>req_method = ''POST'', req_url = api_base N @ ''/v1/mailboxes/'' @ mailboxId @ ''/attachments'',
                    req_headers = [], with_credentials = True,
                    req_body = Some (FormBody ciphertext (fst file)
                      (case messageId of Some m \<Rightarrow> if m = [] then None else Some m | None \<Rightarrow> None))\<rparr>;
               (res, w') = do_fetch N r w
           in (case res of
                 NetFail m \<Rightarrow> throw_msg m
               | Resp st ct t \<Rightarrow>
                   if \<not> resp_ok st
                   then throw_msg (or_else (text_or_empty t) (''Failed to upload attachment: status '' @ num_string st))
                   else resp_json t, w')))"

text \<open>A blob is its content type and its bytes.\<close>

definition downloadAttachment :: "net \<Rightarrow> string \<Rightarrow> string \<Rightarrow> ('z, string \<times> byte list) io" where
  "downloadAttachment N mailboxId attachmentId w =
     (let r = \<lparr>req_method = ''GET'',
               req_url = api_base N @ ''/v1/mailboxes/'' @ mailboxId @ ''/attachments/'' @ attachmentId @ ''?download=true'',
               req_headers = [], with_credentials = True, req_body = None\<rparr>;
          (res, w') = do_fetch N r w
      in (case res of
            NetFail m \<Rightarrow> throw_msg m
          | Resp st ct t \<Rightarrow>
              if \<not> resp_ok st
              then throw_msg (or_else (text_or_empty t) (''Failed to download attachment: status '' @ num_string st))
              else (case t of None \<Rightarrow> throw_msg ''TypeError''
                    | Some bs \<Rightarrow> Inr (case ct of Some c \<Rightarrow> c | None \<Rightarrow> [], bs)), w'))"

definition downloadAndDecryptAttachment ::
  "net \<Rightarrow> wasm_core \<Rightarrow> string \<Rightarrow> string \<Rightarrow> byte list \<Rightarrow> ('z, string \<times> byte list) io" where
  "downloadAndDecryptAttachment N W mailboxId attachmentId mailboxKey =
     io_bind (downloadAttachment N mailboxId attachmentId) (\<lambda>(ct, encryptedBytes).
     io_lift (bind_err (decryptAttachmentBytes W encryptedBytes mailboxKey []) (\<lambda>bs. Inr (ct, bs))))"

section \<open>Lemmas\<close>

lemma apiRequest_eq:
  "apiRequest N path meth bdy w =
     (api_response (server N (sent w) (api_request N path meth bdy (sessionStorage w))),
      w\<lparr>sent := sent w @ [api_request N path meth bdy (sessionStorage w)]\<rparr>)"
  by (simp add: apiRequest_def do_fetch_def Let_def)

lemma sends_apiRequest [keep]:
  "sends (apiRequest N path meth bdy) w [api_request N path meth bdy (sessionStorage w)]"
  by (simp add: sends_def apiRequest_eq)

lemma io_keeps_apiRequest [io_frame]:
  "(\<And>w rs. f (w\<lparr>sent := rs\<rparr>) = f w) \<Longrightarrow> io_keeps f (apiRequest N path meth bdy)"
  by (simp add: io_keeps_def apiRequest_eq)

lemma io_sends_apiRequest [io_request]:
  "(\<And>session. P (api_request N path meth bdy session)) \<Longrightarrow> io_sends P (apiRequest N path meth bdy)"
  by (simp add: io_sends_def apiRequest_eq)

text \<open>A server that answers every request with the same value.\<close>

definition answers :: "net \<Rightarrow> json \<Rightarrow> bool" where
  "answers N res \<longleftrightarrow> (\<forall>rs q. api_response (server N rs q) = Inr (Some res))"

lemma answers_apiRequest:
  "answers N res \<Longrightarrow> apiRequest N path meth bdy w =
     (Inr (Some res), w\<lparr>sent := sent w @ [api_request N path meth bdy (sessionStorage w)]\<rparr>)"
  by (simp add: answers_def apiRequest_eq)

definition answer_net :: "json \<Rightarrow> net" where
  "answer_net v = silent_net\<lparr>server := (\<lambda>_ _. Resp 200 None (Some (utf8_encode (stringify v))))\<rparr>"

lemma answer_net: "wf_json v \<Longrightarrow> answers (answer_net v) v"
  by (simp add: answers_def answer_net_def api_response_def resp_ok_def resp_json_def js_parse_def utf8_decode_encode json_roundtrip)

lemma io_catch_return_ok: "is_ok (fst (io_catch m (\<lambda>e. io_return (h e)) w))"
  by (cases "m w"; cases "fst (m w)") (simp_all add: io_catch_def)

lemma header_auth:
  "header ''Authorization'' (api_request N path meth bdy s) = map_of (auth_headers s) ''Authorization''"
  by (auto simp: header_def api_request_def auth_headers_def bearer_def Let_def)

lemmas list_endpoints = fetchMailboxes_def fetchDrafts_def fetchContacts_def fetchFolders_def fetchLabels_def
  fetchAttachments_def fetchMailboxAliases_def

lemma encryptAttachment_total:
  assumes "aead_correct W" "length key = 32"
  obtains e where "encryptAttachmentBytes W rnd p key [] = Inr e" "decryptAttachmentBytes W e key [] = Inr p"
proof -
  from sealE [OF assms] obtain e where
    "wasm_aes_gcm_encrypt W rnd (bytesToHex key) (bytesToHex p) (bytesToHex []) = Inr (bytesToHex e)"
    "wasm_aes_gcm_decrypt W (bytesToHex key) (bytesToHex e) (bytesToHex []) = Inr (bytesToHex p)" .
  with assms(2) that [of e] show ?thesis
    by (simp add: encryptAttachmentBytes_def decryptAttachmentBytes_def hexToBytes_bytesToHex)
qed

section \<open>Properties\<close>


text \<open>A response outside 200 to 299 becomes an error with the status of the response and a message that
  is never empty; a response 204 is \<open>undefined\<close>; the list endpoints that catch errors return a list
  whatever the server does.\<close>

theorem api_error_handling:
  assumes "server N (sent w) (api_request N path meth bdy (sessionStorage w)) = Resp st ct t"
  shows "(\<not> resp_ok st \<longrightarrow>
      (\<exists>msg. msg \<noteq> [] \<and> fst (apiRequest N path meth bdy w) = Inl (JsError msg (Some st))))
    \<and> (st = 204 \<longrightarrow> fst (apiRequest N path meth bdy w) = Inr None)
    \<and> is_ok (fst (fetchMailboxes N' i w')) \<and> is_ok (fst (fetchDrafts N' i w'))
    \<and> is_ok (fst (fetchContacts N' i w')) \<and> is_ok (fst (fetchFolders N' i w'))
    \<and> is_ok (fst (fetchLabels N' i w')) \<and> is_ok (fst (fetchAttachments N' i w'))
    \<and> is_ok (fst (fetchMailboxAliases N' i w'))"
  using assms unfolding list_endpoints
  by (auto simp: apiRequest_eq api_response_def status_error_def or_else_def resp_ok_def io_catch_return_ok)

text \<open>Attachments. With a 32 byte key the upload sends one request whose form holds only ciphertext that
  this key opens to the file; downloading the stored bytes returns the file. With any other key nothing
  is sent. The upload carries no authorization header, whichever account is active.\<close>

theorem attachment_upload_download:
  assumes "aead_correct W" "length key = 32"
  shows "\<exists>e r. decryptAttachmentBytes W e key [] = Inr bytes
     \<and> snd (uploadEncryptedAttachment N W rnd m (name, bytes) key mid w) = w\<lparr>sent := sent w @ [r]\<rparr>
     \<and> (\<exists>msg. req_body r = Some (FormBody e name msg)) \<and> header ''Authorization'' r = None
     \<and> ((\<forall>rs q. server N' rs q = Resp 200 ct (Some e)) \<longrightarrow>
          fst (downloadAndDecryptAttachment N' W m a key w') = Inr (case ct of Some c \<Rightarrow> c | None \<Rightarrow> [], bytes))
     \<and> (length k \<noteq> 32 \<longrightarrow> snd (uploadEncryptedAttachment N W rnd m (name, bytes) k mid w) = w)"
proof -
  obtain e where e: "encryptAttachmentBytes W rnd bytes key [] = Inr e" "decryptAttachmentBytes W e key [] = Inr bytes"
    by (rule encryptAttachment_total [OF assms])
  define r where "r = \<lparr>req_method = ''POST'', req_url = api_base N @ ''/v1/mailboxes/'' @ m @ ''/attachments'',
    req_headers = [], with_credentials = True,
    req_body = Some (FormBody e name (case mid of Some m \<Rightarrow> if m = [] then None else Some m | None \<Rightarrow> None))\<rparr>"
  have "snd (uploadEncryptedAttachment N W rnd m (name, bytes) key mid w) = w\<lparr>sent := sent w @ [r]\<rparr>"
    using e by (simp add: uploadEncryptedAttachment_def do_fetch_def Let_def r_def)
  moreover have "fst (downloadAndDecryptAttachment N' W m a key w') = Inr (case ct of Some c \<Rightarrow> c | None \<Rightarrow> [], bytes)"
    if "\<forall>rs q. server N' rs q = Resp 200 ct (Some e)"
    using that e by (simp add: downloadAndDecryptAttachment_def downloadAttachment_def io_bind_def do_fetch_def Let_def resp_ok_def)
  moreover have "snd (uploadEncryptedAttachment N W rnd m (name, bytes) k mid w) = w" if "length k \<noteq> 32"
    using that by (simp add: uploadEncryptedAttachment_def encryptAttachmentBytes_def)
  ultimately show ?thesis using e
    by (intro exI [of _ e] exI [of _ r]) (auto simp: r_def header_def)
qed

end
