(* ===== verification/App_State.thy ===== *)
theory App_State
  imports Webmail_Api Utilities
begin

text \<open>
  The data and the state of the webmail application (App.tsx).

  The application is one component whose state is a set of signals. The state record extends the
  browser's state (storages and requests) with the signals of the session; App_Mail, App_Reader,
  App_Compose and App_Login extend it further, each with the signals of its part. A handler is a
  function on this state; a handler that awaits a response is a computation of the theory Http.

  Objects that the server or the storage delivers are read at the types api.ts declares for them: a
  property that is missing or has another type counts as absent. Timers are explicit: \<open>setTimeout\<close>
  adds a pending action under a fresh identifier and \<open>clearTimeout\<close> removes it; that a timer runs out
  is a step of the environment.
\<close>

section \<open>Data\<close>

record user_me =
  u_id :: "string option"
  u_user_id :: string
  u_email :: string
  u_org_id :: string
  u_role :: string
  u_plan :: "string option"
  u_display_name :: "string option"
  u_mailbox_id :: "string option"
  u_mailbox_local_part :: "string option"
  u_mailbox_mode :: "string option"
  u_wrapped_sk_user :: "string option"
  u_previous_wrapped_sk_user :: "string option"

record mailbox =
  mb_id :: string
  mb_local_part :: string
  mb_domain_id :: string
  mb_mode :: string
  mb_public_key :: "string option"
  mb_wrapped_sk_user :: "string option"
  mb_previous_wrapped_sk_user :: "string option"

record connected_account =
  acc_id :: string
  acc_email :: string
  acc_displayName :: string
  acc_role :: string
  acc_privacyMode :: string
  acc_sessionToken :: string
  acc_mailboxSkHex :: string
  acc_searchKeyHex :: string

record mailbox_folder =
  fo_id :: string
  fo_mailbox_id :: string
  fo_name :: string
  fo_parent_id :: "string option"
  fo_notify :: bool
  fo_color :: "string option"
  fo_created_at :: string

record mailbox_label =
  la_id :: string
  la_mailbox_id :: string
  la_name :: string
  la_color :: string
  la_color_name :: string
  la_created_at :: string

record tracking_info =
  ti_openCount :: int
  ti_firstOpenedAt :: "string option"
  ti_lastOpenedAt :: "string option"

text \<open>The folder of a message is one of six names in the type of the source, but names from the server and
  from drag and drop are cast to it unchecked; it is kept as a string.\<close>

record display_message =
  dm_id :: string
  dm_messageSeq :: "int option"
  dm_version :: "int option"
  dm_folder :: string
  dm_folderId :: "string option"
  dm_labelIds :: "string list option"
  dm_sender :: string
  dm_recipient :: string
  dm_subject :: string
  dm_snippet :: string
  dm_encryptedBody :: string
  dm_date :: string
  dm_read :: bool
  dm_starred :: bool
  dm_isRealApi :: bool
  dm_messageId :: "string option"
  dm_hasAttachments :: bool
  dm_attachmentCount :: nat
  dm_attachmentTypes :: "string list"
  dm_trackingToken :: "string option"
  dm_trackingInfo :: "tracking_info option"

section \<open>Reading JSON values\<close>

text \<open>\<open>undefined\<close>, \<open>null\<close> and the empty string are equally falsy: \<open>a || b\<close> is \<open>or_else (filled a) b\<close>.\<close>

definition filled :: "string option \<Rightarrow> string" where
  "filled v = (case v of Some s \<Rightarrow> s | None \<Rightarrow> [])"

definition nonempty :: "string option \<Rightarrow> bool" where
  "nonempty v \<longleftrightarrow> filled v \<noteq> []"

abbreviation text_prop :: "string \<Rightarrow> json \<Rightarrow> string" where
  "text_prop k v \<equiv> filled (str_prop k v)"

definition int_prop :: "string \<Rightarrow> json \<Rightarrow> int option" where
  "int_prop k v = (case jprop k v of Some (JNum n) \<Rightarrow> Some n | _ \<Rightarrow> None)"

definition bool_prop :: "string \<Rightarrow> json \<Rightarrow> bool" where
  "bool_prop k v = (jprop k v = Some (JBool True))"

definition strings_prop :: "string \<Rightarrow> json \<Rightarrow> string list option" where
  "strings_prop k v =
     (case jprop k v of Some (JArr vs) \<Rightarrow> Some (concat (map (\<lambda>x. case x of JStr s \<Rightarrow> [s] | _ \<Rightarrow> []) vs)) | _ \<Rightarrow> None)"

text \<open>A property of \<open>undefined\<close> or \<open>null\<close> is an error.\<close>

definition need :: "json option \<Rightarrow> js_error + json" where
  "need v = (case v of None \<Rightarrow> throw_msg ''TypeError'' | Some JNull \<Rightarrow> throw_msg ''TypeError'' | Some x \<Rightarrow> Inr x)"

definition user_of :: "json \<Rightarrow> user_me" where
  "user_of v = \<lparr>u_id = str_prop ''id'' v, u_user_id = text_prop ''user_id'' v, u_email = text_prop ''email'' v,
     u_org_id = text_prop ''org_id'' v, u_role = text_prop ''role'' v, u_plan = str_prop ''plan'' v,
     u_display_name = str_prop ''display_name'' v, u_mailbox_id = str_prop ''mailbox_id'' v,
     u_mailbox_local_part = str_prop ''mailbox_local_part'' v, u_mailbox_mode = str_prop ''mailbox_mode'' v,
     u_wrapped_sk_user = str_prop ''wrapped_sk_user'' v,
     u_previous_wrapped_sk_user = str_prop ''previous_wrapped_sk_user'' v\<rparr>"

definition mailbox_of :: "json \<Rightarrow> mailbox" where
  "mailbox_of v = \<lparr>mb_id = text_prop ''id'' v, mb_local_part = text_prop ''local_part'' v,
     mb_domain_id = text_prop ''domain_id'' v, mb_mode = text_prop ''mode'' v, mb_public_key = str_prop ''public_key'' v,
     mb_wrapped_sk_user = str_prop ''wrapped_sk_user'' v,
     mb_previous_wrapped_sk_user = str_prop ''previous_wrapped_sk_user'' v\<rparr>"

definition folder_of :: "json \<Rightarrow> mailbox_folder" where
  "folder_of v = \<lparr>fo_id = text_prop ''id'' v, fo_mailbox_id = text_prop ''mailbox_id'' v, fo_name = text_prop ''name'' v,
     fo_parent_id = str_prop ''parent_id'' v, fo_notify = bool_prop ''notify'' v, fo_color = str_prop ''color'' v,
     fo_created_at = text_prop ''created_at'' v\<rparr>"

definition label_of :: "json \<Rightarrow> mailbox_label" where
  "label_of v = \<lparr>la_id = text_prop ''id'' v, la_mailbox_id = text_prop ''mailbox_id'' v, la_name = text_prop ''name'' v,
     la_color = text_prop ''color'' v, la_color_name = text_prop ''color_name'' v, la_created_at = text_prop ''created_at'' v\<rparr>"

text \<open>The account list is written to the storages as JSON and read back.\<close>

definition account_json :: "connected_account \<Rightarrow> json" where
  "account_json a = JObj [(''id'', JStr (acc_id a)), (''email'', JStr (acc_email a)),
     (''displayName'', JStr (acc_displayName a)), (''role'', JStr (acc_role a)), (''privacyMode'', JStr (acc_privacyMode a)),
     (''sessionToken'', JStr (acc_sessionToken a)), (''mailboxSkHex'', JStr (acc_mailboxSkHex a)),
     (''searchKeyHex'', JStr (acc_searchKeyHex a))]"

definition account_of :: "json \<Rightarrow> connected_account" where
  "account_of v = \<lparr>acc_id = text_prop ''id'' v, acc_email = text_prop ''email'' v,
     acc_displayName = text_prop ''displayName'' v, acc_role = text_prop ''role'' v,
     acc_privacyMode = text_prop ''privacyMode'' v, acc_sessionToken = text_prop ''sessionToken'' v,
     acc_mailboxSkHex = text_prop ''mailboxSkHex'' v, acc_searchKeyHex = text_prop ''searchKeyHex'' v\<rparr>"

definition accounts_text :: "connected_account list \<Rightarrow> string" where
  "accounts_text as = stringify (JArr (map account_json as))"

text \<open>\<open>JSON.parse\<close> followed by \<open>Array.isArray\<close>.\<close>

definition parse_accounts :: "string \<Rightarrow> connected_account list option" where
  "parse_accounts t = (case json_parse t of Some (JArr vs) \<Rightarrow> Some (map account_of vs) | _ \<Rightarrow> None)"

section \<open>State\<close>

datatype timer_action = ClearUndo | ClearToast | ClearSignatureSaved

record core_state = world +
  currentUser :: "user_me option"
  mailboxes :: "mailbox list"
  selectedMailbox :: "mailbox option"
  isLoading :: bool
  isSetupAccount :: bool
  isImpersonating :: bool
  impersonateMailboxId :: "string option"
  impersonateEmail :: "string option"
  mailboxKey :: "byte list option"
  searchKey :: "string option"
  unlockedBoxId :: "string option"
  storageErrorBanner :: "string option"
  signatureText :: string
  signatureSaved :: bool
  density :: string
  layoutMode :: string
  theme :: string
  language :: string
  timeFormat :: string
  weekStart :: string
  document_theme :: string
  document_dark :: bool
  connectedAccounts :: "connected_account list"
  addMailboxModalOpen :: bool
  toastMessage :: "string option"
  toastTimer :: "nat option"
  timers :: "(nat \<times> timer_action) list"
  nextTimer :: nat
  alerts :: "string list"

definition setTimeout :: "timer_action \<Rightarrow> 'z core_state_scheme \<Rightarrow> nat \<times> 'z core_state_scheme" where
  "setTimeout act w = (nextTimer w, w\<lparr>timers := timers w @ [(nextTimer w, act)], nextTimer := Suc (nextTimer w)\<rparr>)"

definition clearTimeout :: "nat \<Rightarrow> 'z core_state_scheme \<Rightarrow> 'z core_state_scheme" where
  "clearTimeout t w = w\<lparr>timers := filter (\<lambda>(i, a). i \<noteq> t) (timers w)\<rparr>"

definition showToast :: "string \<Rightarrow> 'z core_state_scheme \<Rightarrow> 'z core_state_scheme" where
  "showToast msg w =
     (let w1 = (case toastTimer w of Some t \<Rightarrow> clearTimeout t w | None \<Rightarrow> w);
          (t, w2) = setTimeout ClearToast (w1\<lparr>toastMessage := Some msg\<rparr>)
      in w2\<lparr>toastTimer := Some t\<rparr>)"

definition alert :: "string \<Rightarrow> 'z core_state_scheme \<Rightarrow> 'z core_state_scheme" where
  "alert msg w = w\<lparr>alerts := alerts w @ [msg]\<rparr>"

text \<open>A promise nobody waits for: the request is sent, its outcome only logged.\<close>

definition fire :: "('z, 'a) io \<Rightarrow> 'z world_scheme \<Rightarrow> 'z world_scheme" where
  "fire m w = snd (m w)"

definition with_box :: "(mailbox \<Rightarrow> 'z core_state_scheme \<Rightarrow> 'z core_state_scheme) \<Rightarrow> 'z core_state_scheme \<Rightarrow> 'z core_state_scheme" where
  "with_box f w = (case selectedMailbox w of Some box \<Rightarrow> f box w | None \<Rightarrow> w)"

section \<open>Signatures and appearance\<close>

text \<open>The signature functions see the browser's local storage.\<close>

definition refreshSignature :: "string option \<Rightarrow> 'z core_state_scheme \<Rightarrow> 'z core_state_scheme" where
  "refreshSignature boxId w =
     w\<lparr>signatureText := (if nonempty boxId then loadSignature (LocalStore (localStorage w) False) (filled boxId) else []),
       signatureSaved := False\<rparr>"

definition handleSaveSignature :: "'z core_state_scheme \<Rightarrow> 'z core_state_scheme" where
  "handleSaveSignature =
     with_box (\<lambda>box w.
       (let ls = saveSignature (LocalStore (localStorage w) False) (mb_id box) (signatureText w);
            w1 = w\<lparr>localStorage := items ls, signatureText := loadSignature ls (mb_id box), signatureSaved := True\<rparr>
        in snd (setTimeout ClearSignatureSaved w1)))"

definition apply_theme :: "string \<Rightarrow> 'z core_state_scheme \<Rightarrow> 'z core_state_scheme" where
  "apply_theme t w =
     w\<lparr>localStorage := setItem ''byos_theme'' t (localStorage w), document_theme := t, document_dark := (t = ''dark'')\<rparr>"

definition handleSetTheme :: "net \<Rightarrow> string \<Rightarrow> bool \<Rightarrow> 'z core_state_scheme \<Rightarrow> 'z core_state_scheme" where
  "handleSetTheme N newTheme persistToBackend w =
     (let w1 = apply_theme newTheme (w\<lparr>theme := newTheme\<rparr>)
      in if persistToBackend
         then with_box (\<lambda>box. fire (updateMailboxSettings N (mb_id box) (JObj [(''theme'', JStr newTheme)]))) w1
         else w1)"

definition handleSetDensity :: "net \<Rightarrow> string \<Rightarrow> bool \<Rightarrow> 'z core_state_scheme \<Rightarrow> 'z core_state_scheme" where
  "handleSetDensity N newDensity persistToBackend w =
     (let w1 = w\<lparr>density := newDensity, localStorage := setItem ''byos_density'' newDensity (localStorage w)\<rparr>
      in if persistToBackend
         then with_box (\<lambda>box. fire (updateMailboxSettings N (mb_id box) (JObj [(''density'', JStr newDensity)]))) w1
         else w1)"

definition handleSetLayoutMode :: "net \<Rightarrow> string \<Rightarrow> bool \<Rightarrow> 'z core_state_scheme \<Rightarrow> 'z core_state_scheme" where
  "handleSetLayoutMode N newLayout persistToBackend w =
     (let w1 = w\<lparr>layoutMode := newLayout, localStorage := setItem ''byos_layout'' newLayout (localStorage w)\<rparr>
      in if persistToBackend
         then with_box (\<lambda>box. fire (updateMailboxSettings N (mb_id box) (JObj [(''layout_mode'', JStr newLayout)]))) w1
         else w1)"

text \<open>The three effects that run whenever the theme, the density or the layout changes.\<close>

definition appearance_effects :: "'z core_state_scheme \<Rightarrow> 'z core_state_scheme" where
  "appearance_effects w =
     (let w1 = apply_theme (theme w) w;
          w2 = w1\<lparr>localStorage := setItem ''byos_density'' (density w1) (localStorage w1)\<rparr>
      in w2\<lparr>localStorage := setItem ''byos_layout'' (layoutMode w2) (localStorage w2)\<rparr>)"

end
