(* ===== verification/App_Mail.thy ===== *)
theory App_Mail
  imports App_State
begin

text \<open>
  The message list of the webmail application: flags, folders, labels, selection, batch operations and
  the undo notification (App.tsx, lines 308 to 905), with the steps of the list as a transition
  relation and its invariants.

  A \<open>Set\<close> of the source is a list without repetitions in insertion order. A confirmation dialog is a
  Boolean argument, and \<open>localeCompare\<close> of the platform is an argument of the operations that sort.
\<close>

section \<open>State\<close>

record undo_action =
  undo_messageId :: string
  undo_previousFolder :: string
  undo_timer :: nat

record mail_state = core_state +
  currentFolder :: string
  messages :: "display_message list"
  selectedMsg :: "display_message option"
  searchQuery :: string
  serverMatchedMsgIds :: "string list"
  isSearchingTokens :: bool
  selectedIds :: "string list"
  sortOrder :: string
  currentPage :: nat
  undoAction :: "undo_action option"
  customFolders :: "mailbox_folder list"
  activeCustomFolder :: "mailbox_folder option"
  createFolderModalOpen :: bool
  folderToEdit :: "mailbox_folder option"
  importEmailsModalOpen :: bool
  labels :: "mailbox_label list"
  activeLabel :: "mailbox_label option"
  createLabelModalOpen :: bool
  labelToEdit :: "mailbox_label option"

section \<open>Lists of keyed records and sets\<close>

text \<open>\<open>xs.map((x) => (x.id === i ? f(x) : x))\<close> and its form for a set of identifiers.\<close>

definition on_key :: "('a \<Rightarrow> 'k) \<Rightarrow> 'k \<Rightarrow> ('a \<Rightarrow> 'a) \<Rightarrow> 'a \<Rightarrow> 'a" where
  "on_key key i f x = (if key x = i then f x else x)"

definition on_keys :: "('a \<Rightarrow> 'k) \<Rightarrow> 'k list \<Rightarrow> ('a \<Rightarrow> 'a) \<Rightarrow> 'a \<Rightarrow> 'a" where
  "on_keys key is f x = (if key x \<in> set is then f x else x)"

definition set_add :: "'a \<Rightarrow> 'a list \<Rightarrow> 'a list" where
  "set_add x xs = (if x \<in> set xs then xs else xs @ [x])"

definition set_delete :: "'a \<Rightarrow> 'a list \<Rightarrow> 'a list" where
  "set_delete x xs = filter (\<lambda>y. y \<noteq> x) xs"

text \<open>\<open>Array.prototype.sort\<close> is a stable sort by the comparison; a comparison that is not a total preorder
  leaves the order to the implementation, for which stable insertion stands here.\<close>

fun insert_cmp :: "('a \<Rightarrow> 'a \<Rightarrow> int) \<Rightarrow> 'a \<Rightarrow> 'a list \<Rightarrow> 'a list" where
  "insert_cmp cmp x [] = [x]"
| "insert_cmp cmp x (y # ys) = (if cmp x y \<le> 0 then x # y # ys else y # insert_cmp cmp x ys)"

definition sort_cmp :: "('a \<Rightarrow> 'a \<Rightarrow> int) \<Rightarrow> 'a list \<Rightarrow> 'a list" where
  "sort_cmp cmp xs = foldr (insert_cmp cmp) xs []"

section \<open>Flags, archive, trash and undo\<close>

definition on_selected ::
  "(display_message \<Rightarrow> bool) \<Rightarrow> (display_message \<Rightarrow> display_message option) \<Rightarrow> 'z mail_state_scheme \<Rightarrow> 'z mail_state_scheme" where
  "on_selected p f w =
     (case selectedMsg w of Some s \<Rightarrow> if p s then w\<lparr>selectedMsg := f s\<rparr> else w | None \<Rightarrow> w)"

definition toggleMessageStarred :: "display_message \<Rightarrow> 'z mail_state_scheme \<Rightarrow> 'z mail_state_scheme" where
  "toggleMessageStarred msg w =
     (let origStarred = dm_starred msg;
          star = (\<lambda>m. m\<lparr>dm_starred := \<not> origStarred\<rparr>);
          w1 = w\<lparr>messages := map (on_key dm_id (dm_id msg) star) (messages w)\<rparr>
      in on_selected (\<lambda>s. dm_id s = dm_id msg) (\<lambda>s. Some (star s)) w1)"

definition toggleMessageRead :: "net \<Rightarrow> display_message \<Rightarrow> 'z mail_state_scheme \<Rightarrow> 'z mail_state_scheme" where
  "toggleMessageRead N msg w =
     (let newRead = (\<not> dm_read msg);
          mark = (\<lambda>m. m\<lparr>dm_read := newRead\<rparr>);
          w1 = w\<lparr>messages := map (on_key dm_id (dm_id msg) mark) (messages w)\<rparr>;
          w2 = on_selected (\<lambda>s. dm_id s = dm_id msg) (\<lambda>s. Some (mark s)) w1
      in with_box (\<lambda>box. fire (setMessageRead N (mb_id box) (dm_id msg) newRead)) w2)"

text \<open>The undo notification: the timer of an earlier one is cleared.\<close>

definition offer_undo :: "string \<Rightarrow> string \<Rightarrow> 'z mail_state_scheme \<Rightarrow> 'z mail_state_scheme" where
  "offer_undo msgId origFolder w =
     (let w1 = (case undoAction w of Some a \<Rightarrow> clearTimeout (undo_timer a) w | None \<Rightarrow> w);
          (t, w2) = setTimeout ClearUndo w1
      in w2\<lparr>undoAction := Some \<lparr>undo_messageId = msgId, undo_previousFolder = origFolder, undo_timer = t\<rparr>\<rparr>)"

definition move_out :: "string \<Rightarrow> display_message \<Rightarrow> 'z mail_state_scheme \<Rightarrow> 'z mail_state_scheme" where
  "move_out target msg w =
     (let w1 = w\<lparr>messages := map (on_key dm_id (dm_id msg) (\<lambda>m. m\<lparr>dm_folder := target\<rparr>)) (messages w)\<rparr>;
          w2 = on_selected (\<lambda>s. dm_id s = dm_id msg) (\<lambda>s. None) w1
      in offer_undo (dm_id msg) (dm_folder msg) w2)"

definition handleArchiveMessage :: "display_message \<Rightarrow> 'z mail_state_scheme \<Rightarrow> 'z mail_state_scheme" where
  "handleArchiveMessage = move_out ''archive''"

definition handleTrashMessage :: "display_message \<Rightarrow> 'z mail_state_scheme \<Rightarrow> 'z mail_state_scheme" where
  "handleTrashMessage = move_out ''trash''"

definition handleDeleteForever :: "display_message \<Rightarrow> 'z mail_state_scheme \<Rightarrow> 'z mail_state_scheme" where
  "handleDeleteForever msg w =
     (let w1 = w\<lparr>messages := filter (\<lambda>m. dm_id m \<noteq> dm_id msg) (messages w)\<rparr>;
          w2 = on_selected (\<lambda>s. dm_id s = dm_id msg) (\<lambda>s. None) w1
      in showToast ''Message permanently deleted'' (w2\<lparr>selectedIds := set_delete (dm_id msg) (selectedIds w2)\<rparr>))"

definition handleUndo :: "'z mail_state_scheme \<Rightarrow> 'z mail_state_scheme" where
  "handleUndo w =
     (case undoAction w of
        None \<Rightarrow> w
      | Some action \<Rightarrow>
          (let w1 = clearTimeout (undo_timer action) w
           in w1\<lparr>messages := map (on_key dm_id (undo_messageId action) (\<lambda>m. m\<lparr>dm_folder := undo_previousFolder action\<rparr>)) (messages w1),
                undoAction := None\<rparr>))"

text \<open>A timer runs out.\<close>

definition run_timer :: "nat \<Rightarrow> 'z mail_state_scheme \<Rightarrow> 'z mail_state_scheme" where
  "run_timer t w =
     (case map_of (timers w) t of
        None \<Rightarrow> w
      | Some act \<Rightarrow>
          (let w1 = clearTimeout t w
           in case act of ClearUndo \<Rightarrow> w1\<lparr>undoAction := None\<rparr>
              | ClearToast \<Rightarrow> w1\<lparr>toastMessage := None\<rparr>
              | ClearSignatureSaved \<Rightarrow> w1\<lparr>signatureSaved := False\<rparr>))"

section \<open>Selection and batch operations\<close>

definition handleToggleCheck :: "display_message \<Rightarrow> bool \<Rightarrow> 'z mail_state_scheme \<Rightarrow> 'z mail_state_scheme" where
  "handleToggleCheck msg checked w =
     w\<lparr>selectedIds := (if checked then set_add else set_delete) (dm_id msg) (selectedIds w)\<rparr>"

definition conversations :: "nat \<Rightarrow> string" where
  "conversations n = (if n = 1 then ''conversation'' else ''conversations'')"

definition handleBatchArchive :: "'z mail_state_scheme \<Rightarrow> 'z mail_state_scheme" where
  "handleBatchArchive w =
     (let ids = selectedIds w; count = length ids
      in if count = 0 then w
         else (let w1 = w\<lparr>messages := map (on_keys dm_id ids (\<lambda>m. m\<lparr>dm_folder := ''archive''\<rparr>)) (messages w)\<rparr>;
                   w2 = on_selected (\<lambda>s. dm_id s \<in> set ids) (\<lambda>s. None) w1;
                   w3 = showToast (''Archived '' @ num_string count @ '' '' @ conversations count) w2
               in w3\<lparr>selectedIds := []\<rparr>))"

definition handleBatchSpam :: "'z mail_state_scheme \<Rightarrow> 'z mail_state_scheme" where
  "handleBatchSpam w =
     (let ids = selectedIds w; count = length ids
      in if count = 0 then w
         else (let w1 = w\<lparr>messages := map (on_keys dm_id ids (\<lambda>m. m\<lparr>dm_folder := ''spam''\<rparr>)) (messages w)\<rparr>;
                   w2 = on_selected (\<lambda>s. dm_id s \<in> set ids) (\<lambda>s. None) w1;
                   w3 = showToast (''Moved '' @ num_string count @ '' '' @ conversations count @ '' to Spam'') w2
               in w3\<lparr>selectedIds := []\<rparr>))"

definition handleBatchTrash :: "'z mail_state_scheme \<Rightarrow> 'z mail_state_scheme" where
  "handleBatchTrash w =
     (let ids = selectedIds w; count = length ids
      in if count = 0 then w
         else (let w1 = w\<lparr>messages := map (on_keys dm_id ids (\<lambda>m. m\<lparr>dm_folder := ''trash''\<rparr>)) (messages w)\<rparr>;
                   w2 = on_selected (\<lambda>s. dm_id s \<in> set ids) (\<lambda>s. None) w1;
                   w3 = showToast (''Moved '' @ num_string count @ '' '' @ conversations count @ '' to Trash'') w2
               in w3\<lparr>selectedIds := []\<rparr>))"

definition handleBatchDeleteForever :: "'z mail_state_scheme \<Rightarrow> 'z mail_state_scheme" where
  "handleBatchDeleteForever w =
     (let ids = selectedIds w; count = length ids
      in if count = 0 then w
         else (let w1 = w\<lparr>messages := filter (\<lambda>m. dm_id m \<notin> set ids) (messages w)\<rparr>;
                   w2 = on_selected (\<lambda>s. dm_id s \<in> set ids) (\<lambda>s. None) w1
               in showToast (''Permanently deleted '' @ num_string count @ '' '' @ conversations count)
                    (w2\<lparr>selectedIds := []\<rparr>)))"

definition handleEmptyTrash :: "bool \<Rightarrow> 'z mail_state_scheme \<Rightarrow> 'z mail_state_scheme" where
  "handleEmptyTrash confirmed w =
     (if filter (\<lambda>m. dm_folder m = ''trash'') (messages w) = [] then w
      else if \<not> confirmed then w
      else (let w1 = w\<lparr>messages := filter (\<lambda>m. dm_folder m \<noteq> ''trash'') (messages w)\<rparr>;
                w2 = on_selected (\<lambda>s. dm_folder s = ''trash'') (\<lambda>s. None) w1
            in showToast ''Bin emptied successfully'' (w2\<lparr>selectedIds := []\<rparr>)))"

definition handleBatchToggleRead :: "net \<Rightarrow> bool \<Rightarrow> 'z mail_state_scheme \<Rightarrow> 'z mail_state_scheme" where
  "handleBatchToggleRead N read w =
     (let ids = selectedIds w; count = length ids
      in if count = 0 then w
         else (let mark = (\<lambda>m. m\<lparr>dm_read := read\<rparr>);
                   w1 = w\<lparr>messages := map (on_keys dm_id ids mark) (messages w)\<rparr>;
                   w2 = on_selected (\<lambda>s. dm_id s \<in> set ids) (\<lambda>s. Some (mark s)) w1;
                   w3 = showToast (''Marked '' @ num_string count @ '' as '' @ (if read then ''read'' else ''unread'')) w2
               in with_box (\<lambda>box. fold (\<lambda>i. fire (setMessageRead N (mb_id box) i read)) ids) (w3\<lparr>selectedIds := []\<rparr>)))"

definition handleBatchToggleStarred :: "bool \<Rightarrow> 'z mail_state_scheme \<Rightarrow> 'z mail_state_scheme" where
  "handleBatchToggleStarred starred w =
     (let ids = selectedIds w; count = length ids
      in if count = 0 then w
         else (let star = (\<lambda>m. m\<lparr>dm_starred := starred\<rparr>);
                   w1 = w\<lparr>messages := map (on_keys dm_id ids star) (messages w)\<rparr>;
                   w2 = on_selected (\<lambda>s. dm_id s \<in> set ids) (\<lambda>s. Some (star s)) w1;
                   w3 = showToast ((if starred then ''Starred '' else ''Unstarred '') @ num_string count) w2
               in w3\<lparr>selectedIds := []\<rparr>))"

section \<open>Moving and labelling\<close>

definition handleMoveMessages :: "net \<Rightarrow> string list \<Rightarrow> string \<Rightarrow> 'z mail_state_scheme \<Rightarrow> 'z mail_state_scheme" where
  "handleMoveMessages N messageIds targetFolder w =
     (if messageIds = [] then w
      else (let count = length messageIds;
                customFolder = find (\<lambda>cf. fo_id cf = targetFolder) (customFolders w);
                newFolder = (case customFolder of Some cf \<Rightarrow> ''inbox'' | None \<Rightarrow> targetFolder);
                newFolderId = map_option fo_id customFolder;
                w1 = w\<lparr>messages := map (on_keys dm_id messageIds (\<lambda>m. m\<lparr>dm_folder := newFolder, dm_folderId := newFolderId\<rparr>)) (messages w)\<rparr>;
                w2 = on_selected (\<lambda>s. dm_id s \<in> set messageIds) (\<lambda>s. None) w1;
                w3 = w2\<lparr>selectedIds := fold set_delete messageIds (selectedIds w2)\<rparr>;
                backendFolder = (case customFolder of Some cf \<Rightarrow> ''custom'' | None \<Rightarrow> targetFolder);
                w4 = with_box (\<lambda>box. fold (\<lambda>i. fire (updateMessageFolder N (mb_id box) i backendFolder newFolderId)) messageIds) w3;
                folderName = (case customFolder of Some cf \<Rightarrow> fo_name cf | None \<Rightarrow> targetFolder)
            in showToast (''Moved '' @ num_string count @ '' '' @ conversations count @ '' to '' @ folderName) w4))"

definition has_label :: "string \<Rightarrow> display_message \<Rightarrow> bool" where
  "has_label labelId m = (case dm_labelIds m of Some ls \<Rightarrow> labelId \<in> set ls | None \<Rightarrow> False)"

definition label_ids :: "display_message \<Rightarrow> string list" where
  "label_ids m = (case dm_labelIds m of Some ls \<Rightarrow> ls | None \<Rightarrow> [])"

definition add_label :: "string \<Rightarrow> display_message \<Rightarrow> display_message" where
  "add_label labelId m = (if labelId \<in> set (label_ids m) then m else m\<lparr>dm_labelIds := Some (label_ids m @ [labelId])\<rparr>)"

definition drop_label :: "string \<Rightarrow> display_message \<Rightarrow> display_message" where
  "drop_label labelId m = m\<lparr>dm_labelIds := Some (filter (\<lambda>i. i \<noteq> labelId) (label_ids m))\<rparr>"

definition label_name :: "string \<Rightarrow> 'z mail_state_scheme \<Rightarrow> string" where
  "label_name labelId w = (case find (\<lambda>l. la_id l = labelId) (labels w) of Some l \<Rightarrow> la_name l | None \<Rightarrow> ''Label'')"

definition quoted :: "string \<Rightarrow> string" where
  "quoted s = CHR 0x22 # s @ [CHR 0x22]"

definition change_labels ::
  "(string \<Rightarrow> string \<Rightarrow> ('z mail_state_ext core_state_ext, json option) io) \<Rightarrow> (display_message \<Rightarrow> display_message)
    \<Rightarrow> string list \<Rightarrow> 'z mail_state_scheme \<Rightarrow> 'z mail_state_scheme" where
  "change_labels request f messageIds w =
     (let w1 = w\<lparr>messages := map (on_keys dm_id messageIds f) (messages w)\<rparr>;
          w2 = on_selected (\<lambda>s. dm_id s \<in> set messageIds) (\<lambda>s. Some (f s)) w1
      in with_box (\<lambda>box. fold (\<lambda>i. fire (request (mb_id box) i)) messageIds) w2)"

definition handleAttachLabel :: "net \<Rightarrow> string list \<Rightarrow> string \<Rightarrow> 'z mail_state_scheme \<Rightarrow> 'z mail_state_scheme" where
  "handleAttachLabel N messageIds labelId w =
     (if messageIds = [] then w
      else showToast (''Applied label '' @ quoted (label_name labelId w) @ '' to '' @ num_string (length messageIds)
                        @ '' '' @ conversations (length messageIds))
             (change_labels (\<lambda>b i. attachMessageLabel N b i labelId) (add_label labelId) messageIds w))"

definition toggleMessageLabel :: "net \<Rightarrow> string list \<Rightarrow> string \<Rightarrow> 'z mail_state_scheme \<Rightarrow> 'z mail_state_scheme" where
  "toggleMessageLabel N messageIds labelId w =
     (if messageIds = [] then w
      else (let targetMsgs = filter (\<lambda>m. dm_id m \<in> set messageIds) (messages w);
                allHaveLabel = (targetMsgs \<noteq> [] \<and> list_all (has_label labelId) targetMsgs)
            in if allHaveLabel
               then showToast (''Removed label '' @ quoted (label_name labelId w))
                      (change_labels (\<lambda>b i. detachMessageLabel N b i labelId) (drop_label labelId) messageIds w)
               else showToast (''Applied label '' @ quoted (label_name labelId w))
                      (change_labels (\<lambda>b i. attachMessageLabel N b i labelId) (add_label labelId) messageIds w)))"

definition handleBatchToggleLabel :: "net \<Rightarrow> string \<Rightarrow> 'z mail_state_scheme \<Rightarrow> 'z mail_state_scheme" where
  "handleBatchToggleLabel N labelId w =
     (if selectedIds w \<noteq> [] then toggleMessageLabel N (selectedIds w) labelId w
      else case selectedMsg w of Some s \<Rightarrow> toggleMessageLabel N [dm_id s] labelId w | None \<Rightarrow> w)"

definition handleBatchMoveTo :: "net \<Rightarrow> string \<Rightarrow> 'z mail_state_scheme \<Rightarrow> 'z mail_state_scheme" where
  "handleBatchMoveTo N targetFolder w =
     (if selectedIds w = [] then w else handleMoveMessages N (selectedIds w) targetFolder w)"

section \<open>Custom folders and labels\<close>

definition same_name :: "string \<Rightarrow> string \<Rightarrow> bool" where
  "same_name n cleanName \<longleftrightarrow> toLowerCase (trim n) = toLowerCase cleanName"

definition opt_field :: "string \<Rightarrow> json option \<Rightarrow> (string \<times> json) list" where
  "opt_field k v = (case v of Some x \<Rightarrow> [(k, x)] | None \<Rightarrow> [])"

text \<open>\<open>err?.message || fallback\<close>\<close>

definition error_or :: "js_error \<Rightarrow> string \<Rightarrow> string" where
  "error_or e fallback = or_else (err_message e) fallback"

definition handleSaveFolder ::
  "net \<Rightarrow> (string \<Rightarrow> string \<Rightarrow> int) \<Rightarrow> string \<Rightarrow> json option \<Rightarrow> json option \<Rightarrow> 'z mail_state_scheme \<Rightarrow> 'z mail_state_scheme" where
  "handleSaveFolder N localeCompare name parentId notify w =
     (case selectedMailbox w of
        None \<Rightarrow> w
      | Some box \<Rightarrow>
          (let editing = folderToEdit w; cleanName = trim name; sortF = sort_cmp (\<lambda>a b. localeCompare (fo_name a) (fo_name b));
               payload = JObj ((''name'', JStr cleanName) # opt_field ''parent_id'' parentId @ opt_field ''notify'' notify)
           in if cleanName = [] then w
              else if list_ex (\<lambda>f. same_name (fo_name f) cleanName \<and> (case editing of None \<Rightarrow> True | Some e \<Rightarrow> fo_id f \<noteq> fo_id e)) (customFolders w)
              then showToast (''Folder '' @ quoted cleanName @ '' already exists'') w
              else case editing of
                Some e \<Rightarrow>
                  (case io_bind (updateFolder N (mb_id box) (fo_id e) payload) (\<lambda>v. io_lift (need v)) w of
                     (Inl err, w1) \<Rightarrow> showToast (error_or err ''Failed to save folder'') w1
                   | (Inr v, w1) \<Rightarrow>
                       (let updated = folder_of v;
                            w2 = w1\<lparr>customFolders := sortF (map (on_key fo_id (fo_id e) (\<lambda>_. updated)) (customFolders w1))\<rparr>;
                            w3 = (if map_option fo_id (activeCustomFolder w2) = Some (fo_id e)
                                  then w2\<lparr>activeCustomFolder := Some updated\<rparr> else w2)
                        in showToast (''Folder '' @ quoted cleanName @ '' updated'') (w3\<lparr>folderToEdit := None\<rparr>)))
              | None \<Rightarrow>
                  (case io_bind (createFolder N (mb_id box) payload) (\<lambda>v. io_lift (need v)) w of
                     (Inl err, w1) \<Rightarrow> showToast (error_or err ''Failed to save folder'') w1
                   | (Inr v, w1) \<Rightarrow>
                       (let created = folder_of v;
                            prev = customFolders w1;
                            exists = list_ex (\<lambda>f. fo_id f = fo_id created \<or> same_name (fo_name f) cleanName) prev
                        in showToast (''Folder '' @ quoted cleanName @ '' created'')
                             (w1\<lparr>customFolders := (if exists then prev else sortF (prev @ [created]))\<rparr>)))))"

definition handleOpenEditFolder :: "mailbox_folder \<Rightarrow> 'z mail_state_scheme \<Rightarrow> 'z mail_state_scheme" where
  "handleOpenEditFolder folder w = w\<lparr>folderToEdit := Some folder, createFolderModalOpen := True\<rparr>"

definition handleDeleteFolder :: "net \<Rightarrow> bool \<Rightarrow> mailbox_folder \<Rightarrow> 'z mail_state_scheme \<Rightarrow> 'z mail_state_scheme" where
  "handleDeleteFolder N confirmed folder w =
     (case selectedMailbox w of
        None \<Rightarrow> w
      | Some box \<Rightarrow>
          if \<not> confirmed then w
          else case deleteFolder N (mb_id box) (fo_id folder) w of
                 (Inl err, w1) \<Rightarrow> alert (''Failed to delete folder: '' @ error_or err ''unknown error'') w1
               | (Inr _, w1) \<Rightarrow>
                   (let w2 = w1\<lparr>customFolders := filter (\<lambda>f. fo_id f \<noteq> fo_id folder) (customFolders w1)\<rparr>;
                        w3 = (if map_option fo_id (activeCustomFolder w2) = Some (fo_id folder)
                              then w2\<lparr>activeCustomFolder := None, currentFolder := ''inbox''\<rparr> else w2);
                        w4 = w3\<lparr>messages := map (\<lambda>m. if dm_folderId m = Some (fo_id folder)
                                                     then m\<lparr>dm_folderId := None, dm_folder := ''inbox''\<rparr> else m) (messages w3)\<rparr>
                    in showToast (''Folder '' @ quoted (fo_name folder) @ '' deleted'') w4))"

definition handleSaveLabel ::
  "net \<Rightarrow> (string \<Rightarrow> string \<Rightarrow> int) \<Rightarrow> string \<Rightarrow> string \<Rightarrow> string \<Rightarrow> 'z mail_state_scheme \<Rightarrow> 'z mail_state_scheme" where
  "handleSaveLabel N localeCompare name color colorName w =
     (case selectedMailbox w of
        None \<Rightarrow> w
      | Some box \<Rightarrow>
          (let editing = labelToEdit w; cleanName = trim name; sortL = sort_cmp (\<lambda>a b. localeCompare (la_name a) (la_name b));
               payload = JObj [(''name'', JStr cleanName), (''color'', JStr color), (''color_name'', JStr colorName)]
           in if cleanName = [] then w
              else if list_ex (\<lambda>l. same_name (la_name l) cleanName \<and> (case editing of None \<Rightarrow> True | Some e \<Rightarrow> la_id l \<noteq> la_id e)) (labels w)
              then showToast (''Label '' @ quoted cleanName @ '' already exists'') w
              else case editing of
                Some e \<Rightarrow>
                  (case io_bind (updateLabel N (mb_id box) (la_id e) payload) (\<lambda>v. io_lift (need v)) w of
                     (Inl err, w1) \<Rightarrow> showToast (error_or err ''Failed to save label'') w1
                   | (Inr v, w1) \<Rightarrow>
                       (let updated = label_of v;
                            w2 = w1\<lparr>labels := sortL (map (on_key la_id (la_id e) (\<lambda>_. updated)) (labels w1))\<rparr>;
                            w3 = (if map_option la_id (activeLabel w2) = Some (la_id e)
                                  then w2\<lparr>activeLabel := Some updated\<rparr> else w2)
                        in showToast (''Label '' @ quoted cleanName @ '' updated'') (w3\<lparr>labelToEdit := None\<rparr>)))
              | None \<Rightarrow>
                  (case io_bind (createLabel N (mb_id box) payload) (\<lambda>v. io_lift (need v)) w of
                     (Inl err, w1) \<Rightarrow> showToast (error_or err ''Failed to save label'') w1
                   | (Inr v, w1) \<Rightarrow>
                       (let created = label_of v;
                            prev = labels w1;
                            exists = list_ex (\<lambda>l. la_id l = la_id created \<or> same_name (la_name l) cleanName) prev
                        in showToast (''Label '' @ quoted cleanName @ '' created'')
                             (w1\<lparr>labels := (if exists then prev else sortL (prev @ [created]))\<rparr>)))))"

definition handleOpenEditLabel :: "mailbox_label \<Rightarrow> 'z mail_state_scheme \<Rightarrow> 'z mail_state_scheme" where
  "handleOpenEditLabel lab w = w\<lparr>labelToEdit := Some lab, createLabelModalOpen := True\<rparr>"

definition handleDeleteLabel :: "net \<Rightarrow> bool \<Rightarrow> mailbox_label \<Rightarrow> 'z mail_state_scheme \<Rightarrow> 'z mail_state_scheme" where
  "handleDeleteLabel N confirmed lab w =
     (case selectedMailbox w of
        None \<Rightarrow> w
      | Some box \<Rightarrow>
          if \<not> confirmed then w
          else case deleteLabel N (mb_id box) (la_id lab) w of
                 (Inl err, w1) \<Rightarrow> alert (''Failed to delete lab: '' @ error_or err ''unknown error'') w1
               | (Inr _, w1) \<Rightarrow>
                   (let w2 = w1\<lparr>labels := filter (\<lambda>l. la_id l \<noteq> la_id lab) (labels w1)\<rparr>;
                        w3 = (if map_option la_id (activeLabel w2) = Some (la_id lab) then w2\<lparr>activeLabel := None\<rparr> else w2);
                        w4 = w3\<lparr>messages := map (\<lambda>m. if dm_labelIds m = None then m else drop_label (la_id lab) m) (messages w3)\<rparr>
                    in showToast (''Label '' @ quoted (la_name lab) @ '' deleted'') w4))"

definition handleSelectCustomFolder :: "mailbox_folder \<Rightarrow> 'z mail_state_scheme \<Rightarrow> 'z mail_state_scheme" where
  "handleSelectCustomFolder folder w =
     w\<lparr>activeCustomFolder := Some folder, activeLabel := None, selectedMsg := None, selectedIds := []\<rparr>"

definition handleSelectLabel :: "mailbox_label \<Rightarrow> 'z mail_state_scheme \<Rightarrow> 'z mail_state_scheme" where
  "handleSelectLabel lab w =
     w\<lparr>activeLabel := Some lab, activeCustomFolder := None, selectedMsg := None, selectedIds := []\<rparr>"

text \<open>The handlers given inline to the sidebar, the toolbar and the reading pane, and the escape key.\<close>

definition onSelectFolder :: "string \<Rightarrow> 'z mail_state_scheme \<Rightarrow> 'z mail_state_scheme" where
  "onSelectFolder f w =
     w\<lparr>currentFolder := f, activeCustomFolder := None, activeLabel := None, selectedMsg := None, selectedIds := [], currentPage := 1\<rparr>"

definition onPrevPage :: "'z mail_state_scheme \<Rightarrow> 'z mail_state_scheme" where
  "onPrevPage w = w\<lparr>currentPage := max 1 (currentPage w - 1)\<rparr>"

definition onNextPage :: "'z mail_state_scheme \<Rightarrow> 'z mail_state_scheme" where
  "onNextPage w = w\<lparr>currentPage := currentPage w + 1\<rparr>"

definition onSpam :: "display_message \<Rightarrow> 'z mail_state_scheme \<Rightarrow> 'z mail_state_scheme" where
  "onSpam msg w =
     showToast ''Moved to Spam'' (w\<lparr>messages := map (on_key dm_id (dm_id msg) (\<lambda>m. m\<lparr>dm_folder := ''spam''\<rparr>)) (messages w), selectedMsg := None\<rparr>)"

definition handleKeyDown :: "string \<Rightarrow> 'z mail_state_scheme \<Rightarrow> 'z mail_state_scheme" where
  "handleKeyDown key w =
     (if key = ''Escape''
      then (if selectedMsg w \<noteq> None then w\<lparr>selectedMsg := None\<rparr>
            else if selectedIds w \<noteq> [] then w\<lparr>selectedIds := []\<rparr> else w)
      else w)"

section \<open>Tables of keyed records\<close>

text \<open>What the operations on the lists of messages, folders, labels and contacts rely on: a table of records
  with a key, in which the records of some keys are changed or removed.\<close>

definition by_key :: "('a \<Rightarrow> 'k) \<Rightarrow> 'a list \<Rightarrow> 'k \<Rightarrow> 'a option" where
  "by_key key xs i = map_of (map (\<lambda>x. (key x, x)) xs) i"

locale keyed_table =
  fixes key :: "'v \<Rightarrow> 'k"
    and lookup :: "'s \<Rightarrow> 'k \<Rightarrow> 'v option"
    and modify :: "'k list \<Rightarrow> ('v \<Rightarrow> 'v) \<Rightarrow> 's \<Rightarrow> 's"
    and discard :: "'k list \<Rightarrow> 's \<Rightarrow> 's"
  assumes lookup_modify:
      "(\<And>v. key (f v) = key v) \<Longrightarrow> lookup (modify ks f s) k = (if k \<in> set ks then map_option f (lookup s k) else lookup s k)"
    and lookup_discard: "lookup (discard ks s) k = (if k \<in> set ks then None else lookup s k)"
begin

lemma modify_frame: "(\<And>v. key (f v) = key v) \<Longrightarrow> k \<notin> set ks \<Longrightarrow> lookup (modify ks f s) k = lookup s k"
  by (simp add: lookup_modify)

text \<open>A change that is undone on the record it was made to.\<close>

lemma modify_undo:
  assumes "\<And>v. key (f v) = key v" "\<And>v. key (g v) = key v"
    and "\<And>v. lookup s k = Some v \<Longrightarrow> g (f v) = v"
  shows "lookup (modify [k] g (modify [k] f s)) = lookup s"
proof
  fix j
  show "lookup (modify [k] g (modify [k] f s)) j = lookup s j"
    using assms(3) by (cases "lookup s j") (auto simp: lookup_modify assms(1,2))
qed

lemma discard_absorbs:
  "(\<And>v. key (f v) = key v) \<Longrightarrow> lookup (discard ks (modify ks f s)) = lookup (discard ks s)"
  by (rule ext) (simp add: lookup_modify lookup_discard)

end

lemma by_key_map:
  assumes "\<And>v. key (f v) = key v"
  shows "by_key key (map (on_keys key ks f) xs) k = (if k \<in> set ks then map_option f (by_key key xs k) else by_key key xs k)"
  by (induction xs) (auto simp: by_key_def on_keys_def assms)

lemma by_key_filter: "by_key key (filter (\<lambda>x. key x \<notin> set ks) xs) k = (if k \<in> set ks then None else by_key key xs k)"
  by (induction xs) (auto simp: by_key_def)

interpretation message_table: keyed_table dm_id "by_key dm_id" "\<lambda>ks f. map (on_keys dm_id ks f)" "\<lambda>ks. filter (\<lambda>x. dm_id x \<notin> set ks)"
  by unfold_locales (simp_all add: by_key_map by_key_filter)

interpretation folder_table: keyed_table fo_id "by_key fo_id" "\<lambda>ks f. map (on_keys fo_id ks f)" "\<lambda>ks. filter (\<lambda>x. fo_id x \<notin> set ks)"
  by unfold_locales (simp_all add: by_key_map by_key_filter)

interpretation label_table: keyed_table la_id "by_key la_id" "\<lambda>ks f. map (on_keys la_id ks f)" "\<lambda>ks. filter (\<lambda>x. la_id x \<notin> set ks)"
  by unfold_locales (simp_all add: by_key_map by_key_filter)

lemma on_key_singleton: "on_key key i f = on_keys key [i] f"
  by (rule ext) (simp add: on_key_def on_keys_def)

lemma key_on_keys [simp]: "(\<And>v. key (f v) = key v) \<Longrightarrow> key (on_keys key ks f x) = key x"
  by (simp add: on_keys_def)

lemma map_key_on_keys [simp]: "(\<And>v. key (f v) = key v) \<Longrightarrow> map (key \<circ> on_keys key ks f) xs = map key xs"
  by simp

section \<open>Frame lemmas\<close>

lemma fire_api:
  "fire (apiRequest N path meth bdy) w = w\<lparr>sent := sent w @ [api_request N path meth bdy (sessionStorage w)]\<rparr>"
  by (simp add: fire_def apiRequest_eq)

lemma fold_fire_api:
  "fold (\<lambda>i. fire (apiRequest N (p i) meth (b i))) is w =
     w\<lparr>sent := sent w @ map (\<lambda>i. api_request N (p i) meth (b i) (sessionStorage w)) is\<rparr>"
  by (induction "is" arbitrary: w) (simp_all add: fire_api)

lemmas fired = setMessageRead_def updateMessageFolder_def attachMessageLabel_def detachMessageLabel_def
  updateMailboxSettings_def fire_api fold_fire_api

lemma toast_frame [simp]:
  "messages (showToast m w) = messages w" "selectedMsg (showToast m w) = selectedMsg w"
  "selectedIds (showToast m w) = selectedIds w" "undoAction (showToast m w) = undoAction w"
  "customFolders (showToast m w) = customFolders w" "labels (showToast m w) = labels w"
  "currentPage (showToast m w) = currentPage w" "sent (showToast m w) = sent w"
  "selectedMailbox (showToast m w) = selectedMailbox w" "sessionStorage (showToast m w) = sessionStorage w"
  by (simp_all add: showToast_def setTimeout_def clearTimeout_def Let_def split: option.splits)

lemma on_selected_frame [simp]:
  "messages (on_selected p f w) = messages w" "selectedIds (on_selected p f w) = selectedIds w"
  "undoAction (on_selected p f w) = undoAction w" "customFolders (on_selected p f w) = customFolders w"
  "labels (on_selected p f w) = labels w" "sent (on_selected p f w) = sent w"
  "timers (on_selected p f w) = timers w" "nextTimer (on_selected p f w) = nextTimer w"
  "toastMessage (on_selected p f w) = toastMessage w" "toastTimer (on_selected p f w) = toastTimer w"
  "currentPage (on_selected p f w) = currentPage w" "selectedMailbox (on_selected p f w) = selectedMailbox w"
  "sessionStorage (on_selected p f w) = sessionStorage w"
  by (simp_all add: on_selected_def split: option.splits)

lemma offer_undo_frame [simp]:
  "messages (offer_undo i f w) = messages w" "selectedMsg (offer_undo i f w) = selectedMsg w"
  "selectedIds (offer_undo i f w) = selectedIds w" "sent (offer_undo i f w) = sent w"
  "customFolders (offer_undo i f w) = customFolders w" "labels (offer_undo i f w) = labels w"
  "currentPage (offer_undo i f w) = currentPage w"
  by (simp_all add: offer_undo_def setTimeout_def clearTimeout_def Let_def split: option.splits)

section \<open>Steps and invariant\<close>

text \<open>The user actions and the timers on the message list.\<close>

inductive mail_step :: "net \<Rightarrow> (string \<Rightarrow> string \<Rightarrow> int) \<Rightarrow> 'z mail_state_scheme \<Rightarrow> 'z mail_state_scheme \<Rightarrow> bool"
  for N lc where
  star: "mail_step N lc w (toggleMessageStarred m w)"
| read: "mail_step N lc w (toggleMessageRead N m w)"
| archive: "mail_step N lc w (handleArchiveMessage m w)"
| trash: "mail_step N lc w (handleTrashMessage m w)"
| deleteForever: "mail_step N lc w (handleDeleteForever m w)"
| undo: "mail_step N lc w (handleUndo w)"
| timer: "mail_step N lc w (run_timer t w)"
| check: "mail_step N lc w (handleToggleCheck m b w)"
| batchArchive: "mail_step N lc w (handleBatchArchive w)"
| batchSpam: "mail_step N lc w (handleBatchSpam w)"
| batchTrash: "mail_step N lc w (handleBatchTrash w)"
| batchDelete: "mail_step N lc w (handleBatchDeleteForever w)"
| emptyTrash: "mail_step N lc w (handleEmptyTrash b w)"
| batchRead: "mail_step N lc w (handleBatchToggleRead N b w)"
| batchStar: "mail_step N lc w (handleBatchToggleStarred b w)"
| move: "mail_step N lc w (handleMoveMessages N is f w)"
| attach: "mail_step N lc w (handleAttachLabel N is l w)"
| toggleLabel: "mail_step N lc w (toggleMessageLabel N is l w)"
| batchLabel: "mail_step N lc w (handleBatchToggleLabel N l w)"
| batchMove: "mail_step N lc w (handleBatchMoveTo N f w)"
| saveFolder: "mail_step N lc w (handleSaveFolder N lc n p nt w)"
| editFolder: "mail_step N lc w (handleOpenEditFolder fo w)"
| deleteFolder: "mail_step N lc w (handleDeleteFolder N b fo w)"
| saveLabel: "mail_step N lc w (handleSaveLabel N lc n c cn w)"
| editLabel: "mail_step N lc w (handleOpenEditLabel la w)"
| deleteLabel: "mail_step N lc w (handleDeleteLabel N b la w)"
| selectFolder: "mail_step N lc w (handleSelectCustomFolder fo w)"
| selectLabel: "mail_step N lc w (handleSelectLabel la w)"
| showFolder: "mail_step N lc w (onSelectFolder f w)"
| prevPage: "mail_step N lc w (onPrevPage w)"
| nextPage: "mail_step N lc w (onNextPage w)"
| spam: "mail_step N lc w (onSpam m w)"
| keyDown: "mail_step N lc w (handleKeyDown k w)"

definition pending :: "timer_action \<Rightarrow> 'z core_state_scheme \<Rightarrow> nat list" where
  "pending a w = map fst (filter (\<lambda>(t, b). b = a) (timers w))"

text \<open>Timers: identifiers are fresh and unique, the undo offer is on display exactly while its own timer is
  the one pending, and so is the notification.\<close>

definition timers_inv :: "'z mail_state_scheme \<Rightarrow> bool" where
  "timers_inv w \<longleftrightarrow>
     distinct (map fst (timers w)) \<and> list_all (\<lambda>(t, a). t < nextTimer w) (timers w)
     \<and> pending ClearUndo w = (case undoAction w of None \<Rightarrow> [] | Some a \<Rightarrow> [undo_timer a])
     \<and> pending ClearToast w = (case toastMessage w of None \<Rightarrow> [] | Some _ \<Rightarrow> [the (toastTimer w)])
     \<and> (toastTimer w = None \<longrightarrow> toastMessage w = None)
     \<and> (case toastTimer w of None \<Rightarrow> True | Some t \<Rightarrow> t < nextTimer w \<and> t \<notin> set (pending ClearUndo w))"

definition mail_inv :: "'z mail_state_scheme \<Rightarrow> bool" where
  "mail_inv w \<longleftrightarrow> timers_inv w \<and> distinct (map dm_id (messages w)) \<and> distinct (selectedIds w) \<and> 1 \<le> currentPage w"

lemma distinct_filter_fst: "distinct (map fst ts) \<Longrightarrow> distinct (map fst (filter P ts))"
  by (induction ts) auto

lemma pending_clear: "pending a (clearTimeout t w) = filter (\<lambda>i. i \<noteq> t) (pending a w)"
  by (simp add: pending_def clearTimeout_def filter_map o_def case_prod_beta conj_commute)

lemma clearTimeout_frame [simp]:
  "undoAction (clearTimeout t w) = undoAction w" "toastMessage (clearTimeout t w) = toastMessage w"
  "toastTimer (clearTimeout t w) = toastTimer w" "nextTimer (clearTimeout t w) = nextTimer w"
  "messages (clearTimeout t w) = messages w" "selectedIds (clearTimeout t w) = selectedIds w"
  "currentPage (clearTimeout t w) = currentPage w"
  by (simp_all add: clearTimeout_def)

lemma pending_update [simp]:
  "pending a (w\<lparr>sent := s\<rparr>) = pending a w" "pending a (w\<lparr>messages := ms\<rparr>) = pending a w"
  "pending a (w\<lparr>toastMessage := tm\<rparr>) = pending a w" "pending a (w\<lparr>toastTimer := tt\<rparr>) = pending a w"
  "pending a (w\<lparr>undoAction := ua\<rparr>) = pending a w" "pending a (w\<lparr>signatureSaved := ss\<rparr>) = pending a w"
  by (simp_all add: pending_def)

lemma pending_setTimeout:
  "pending a (snd (setTimeout b w)) = pending a w @ (if a = b then [nextTimer w] else [])"
  by (simp add: pending_def setTimeout_def)

text \<open>A pending timer of one kind is not pending as another.\<close>

lemma pending_disjoint:
  "distinct (map fst (timers w)) \<Longrightarrow> t \<in> set (pending a w) \<Longrightarrow> t \<in> set (pending b w) \<Longrightarrow> a = b"
  by (force simp: pending_def distinct_map inj_on_def)

lemma pending_lookup: "map_of (timers w) t = Some a \<Longrightarrow> t \<in> set (pending a w)"
  by (force simp: pending_def dest: map_of_SomeD)

lemma timers_inv_cong:
  "timers w' = timers w \<Longrightarrow> nextTimer w' = nextTimer w \<Longrightarrow> undoAction w' = undoAction w
    \<Longrightarrow> toastMessage w' = toastMessage w \<Longrightarrow> toastTimer w' = toastTimer w \<Longrightarrow> timers_inv w' = timers_inv w"
  by (simp add: timers_inv_def pending_def cong: option.case_cong)

lemma filter_not_mem: "x \<notin> set xs \<Longrightarrow> filter (\<lambda>i. i \<noteq> x) xs = xs"
  by (induction xs) auto

lemma timers_clear:
  "distinct (map fst (timers w)) \<Longrightarrow> distinct (map fst (timers (clearTimeout t w)))"
  "list_all (\<lambda>(t, a). t < n) (timers w) \<Longrightarrow> list_all (\<lambda>(t, a). t < n) (timers (clearTimeout t w))"
  by (auto simp: clearTimeout_def distinct_filter_fst list_all_iff)

lemma timers_fresh:
  assumes "distinct (map fst (timers w))" "list_all (\<lambda>(t, a). t < nextTimer w) (timers w)"
  shows "distinct (map fst (timers (snd (setTimeout b w))))"
    "list_all (\<lambda>(t, a). t < nextTimer (snd (setTimeout b w))) (timers (snd (setTimeout b w)))"
  using assms by (auto simp: setTimeout_def list_all_iff less_Suc_eq)

lemma setTimeout_frame [simp]:
  "fst (setTimeout b w) = nextTimer w" "nextTimer (snd (setTimeout b w)) = Suc (nextTimer w)"
  "undoAction (snd (setTimeout b w)) = undoAction w" "toastMessage (snd (setTimeout b w)) = toastMessage w"
  "toastTimer (snd (setTimeout b w)) = toastTimer w"
  by (simp_all add: setTimeout_def)

lemma pending_less: "list_all (\<lambda>(t, a). t < n) (timers w) \<Longrightarrow> t \<in> set (pending a w) \<Longrightarrow> t < n"
  by (auto simp: pending_def list_all_iff)

lemma showToast_inv [keep]:
  assumes "timers_inv w"
  shows "timers_inv (showToast msg w)"
proof -
  define w1 where "w1 = (case toastTimer w of Some t \<Rightarrow> clearTimeout t w | None \<Rightarrow> w)"
  have w1: "distinct (map fst (timers w1))" "list_all (\<lambda>(t, a). t < nextTimer w1) (timers w1)"
    "nextTimer w1 = nextTimer w" "undoAction w1 = undoAction w"
    using assms by (auto simp: w1_def timers_inv_def intro: timers_clear split: option.splits)
  have toast: "pending ClearToast w1 = []" and undo: "pending ClearUndo w1 = pending ClearUndo w"
    using assms by (auto simp: w1_def timers_inv_def pending_clear filter_not_mem split: option.splits)
  let ?w2 = "snd (setTimeout ClearToast (w1\<lparr>toastMessage := Some msg\<rparr>))"
  have s: "showToast msg w = ?w2\<lparr>toastTimer := Some (nextTimer w)\<rparr>"
    by (simp add: showToast_def Let_def w1_def [symmetric] case_prod_beta w1(3))
  have "nextTimer w \<notin> set (pending ClearUndo w)"
    using assms pending_less [of "nextTimer w" w "nextTimer w" ClearUndo] unfolding timers_inv_def by blast
  then show ?thesis
    using assms timers_fresh [of "w1\<lparr>toastMessage := Some msg\<rparr>" ClearToast] w1
    by (simp add: timers_inv_def s pending_setTimeout toast undo)
qed

lemma offer_undo_inv [keep]:
  assumes "timers_inv w"
  shows "timers_inv (offer_undo i f w)"
proof -
  define w1 where "w1 = (case undoAction w of Some a \<Rightarrow> clearTimeout (undo_timer a) w | None \<Rightarrow> w)"
  have w1: "distinct (map fst (timers w1))" "list_all (\<lambda>(t, a). t < nextTimer w1) (timers w1)"
    "nextTimer w1 = nextTimer w" "toastMessage w1 = toastMessage w" "toastTimer w1 = toastTimer w"
    using assms by (auto simp: w1_def timers_inv_def intro: timers_clear split: option.splits)
  have undo: "pending ClearUndo w1 = []"
    using assms by (auto simp: w1_def timers_inv_def pending_clear split: option.splits)
  have "undo_timer a \<notin> set (pending ClearToast w)" if "undoAction w = Some a" for a
    using assms that pending_disjoint [of w "undo_timer a" ClearUndo ClearToast] by (auto simp: timers_inv_def)
  then have toast: "pending ClearToast w1 = pending ClearToast w"
    by (auto simp: w1_def pending_clear filter_not_mem split: option.splits)
  let ?w2 = "snd (setTimeout ClearUndo w1)"
  have s: "offer_undo i f w = ?w2\<lparr>undoAction := Some \<lparr>undo_messageId = i, undo_previousFolder = f, undo_timer = nextTimer w\<rparr>\<rparr>"
    by (simp add: offer_undo_def Let_def w1_def [symmetric] case_prod_beta w1(3))
  show ?thesis
    using assms timers_fresh [of w1 ClearUndo] w1
    by (auto simp: timers_inv_def s pending_setTimeout toast undo split: option.splits)
qed

lemma clear_undo_inv:
  assumes "timers_inv w" "undoAction w = Some a"
  shows "timers_inv (clearTimeout (undo_timer a) w\<lparr>undoAction := None\<rparr>)"
proof -
  have "undo_timer a \<notin> set (pending ClearToast w)"
    using assms pending_disjoint [of w "undo_timer a" ClearUndo ClearToast] by (auto simp: timers_inv_def)
  then show ?thesis
    using assms by (auto simp: timers_inv_def pending_clear filter_not_mem intro: timers_clear split: option.splits)
qed

lemma toast_pending:
  "timers_inv w \<Longrightarrow> t \<in> set (pending ClearToast w) \<Longrightarrow> \<exists>x. toastMessage w = Some x \<and> toastTimer w = Some t"
  by (cases "toastMessage w"; cases "toastTimer w"; simp add: timers_inv_def)

lemma run_timer_inv [keep]:
  assumes "timers_inv w"
  shows "timers_inv (run_timer t w)"
proof (cases "map_of (timers w) t")
  case None
  with assms show ?thesis by (simp add: run_timer_def)
next
  case (Some act)
  then have "t \<in> set (pending act w)" by (rule pending_lookup)
  then have other: "filter (\<lambda>i. i \<noteq> t) (pending a w) = pending a w" if "a \<noteq> act" for a
    using assms pending_disjoint [of w t act a] that by (auto simp: timers_inv_def intro: filter_not_mem)
  note inv = assms [unfolded timers_inv_def] and run = run_timer_def Let_def Some
  show ?thesis
  proof (cases act)
    case ClearUndo
    with \<open>t \<in> set (pending act w)\<close> inv obtain a where "undoAction w = Some a" "t = undo_timer a"
      by (auto split: option.splits)
    with clear_undo_inv [OF assms] ClearUndo Some show ?thesis by (simp add: run_timer_def Let_def)
  next
    case ClearToast
    with \<open>t \<in> set (pending act w)\<close> toast_pending [OF assms] obtain x where "toastMessage w = Some x" "toastTimer w = Some t"
      by blast
    with inv other [of ClearUndo] ClearToast show ?thesis
      by (cases "undoAction w") (auto simp: timers_inv_def run pending_clear timers_clear)
  next
    case ClearSignatureSaved
    with inv other [of ClearUndo] other [of ClearToast] show ?thesis
      by (cases "undoAction w"; cases "toastTimer w"; cases "toastMessage w") (auto simp: timers_inv_def run pending_clear timers_clear)
  qed
qed

lemma timers_inv_update [simp]:
  "timers_inv (w\<lparr>messages := a\<rparr>) = timers_inv w" "timers_inv (w\<lparr>selectedMsg := b\<rparr>) = timers_inv w"
  "timers_inv (w\<lparr>selectedIds := c\<rparr>) = timers_inv w" "timers_inv (w\<lparr>currentPage := d\<rparr>) = timers_inv w"
  "timers_inv (w\<lparr>currentFolder := e\<rparr>) = timers_inv w" "timers_inv (w\<lparr>customFolders := f\<rparr>) = timers_inv w"
  "timers_inv (w\<lparr>activeCustomFolder := g\<rparr>) = timers_inv w" "timers_inv (w\<lparr>labels := h\<rparr>) = timers_inv w"
  "timers_inv (w\<lparr>activeLabel := i\<rparr>) = timers_inv w" "timers_inv (w\<lparr>sent := j\<rparr>) = timers_inv w"
  "timers_inv (w\<lparr>folderToEdit := k\<rparr>) = timers_inv w" "timers_inv (w\<lparr>labelToEdit := l\<rparr>) = timers_inv w"
  "timers_inv (w\<lparr>createFolderModalOpen := m\<rparr>) = timers_inv w" "timers_inv (w\<lparr>createLabelModalOpen := n\<rparr>) = timers_inv w"
  "timers_inv (w\<lparr>alerts := q\<rparr>) = timers_inv w"
  by (rule timers_inv_cong; simp)+

lemma on_selected_inv [simp]: "timers_inv (on_selected p f w) = timers_inv w"
  by (rule timers_inv_cong) simp_all

lemma distinct_set_ops:
  "distinct xs \<Longrightarrow> distinct (set_add x xs)" "distinct xs \<Longrightarrow> distinct (set_delete x xs)"
  "distinct xs \<Longrightarrow> distinct (fold set_delete ys xs)"
  by (simp add: set_add_def, simp add: set_delete_def, induction ys arbitrary: xs) (simp_all add: set_delete_def)

lemma map_key_update [simp]:
  "map dm_id (map (on_keys dm_id ks (\<lambda>m. m\<lparr>dm_folder := x\<rparr>)) ms) = map dm_id ms"
  "map dm_id (map (on_keys dm_id ks (\<lambda>m. m\<lparr>dm_starred := b\<rparr>)) ms) = map dm_id ms"
  "map dm_id (map (on_keys dm_id ks (\<lambda>m. m\<lparr>dm_read := b\<rparr>)) ms) = map dm_id ms"
  "map dm_id (map (on_keys dm_id ks (\<lambda>m. m\<lparr>dm_folder := x, dm_folderId := y\<rparr>)) ms) = map dm_id ms"
  "map dm_id (map (on_keys dm_id ks (add_label l)) ms) = map dm_id ms"
  "map dm_id (map (on_keys dm_id ks (drop_label l)) ms) = map dm_id ms"
  by (simp_all add: on_keys_def add_label_def drop_label_def)

lemma api_call_frame:
  "apiRequest N p m b w = (r, w') \<Longrightarrow> w' = w\<lparr>sent := sent w @ [api_request N p m b (sessionStorage w)]\<rparr>"
  by (simp add: apiRequest_eq)

lemma need_call_frame:
  assumes "io_bind (apiRequest N p m b) (\<lambda>v. io_lift (need v)) w = (r, w')"
  shows "w' = w\<lparr>sent := sent w @ [api_request N p m b (sessionStorage w)]\<rparr>"
  using assms by (auto simp: io_bind_def apiRequest_eq split: sum.splits)

lemma mail_inv_update:
  "mail_inv w \<Longrightarrow> timers_inv w' \<Longrightarrow> map dm_id (messages w') = map dm_id (messages w) \<Longrightarrow> distinct (selectedIds w')
    \<Longrightarrow> 1 \<le> currentPage w' \<Longrightarrow> mail_inv w'"
  by (simp add: mail_inv_def)

lemmas list_ops = toggleMessageStarred_def handleDeleteForever_def handleToggleCheck_def handleBatchArchive_def
  handleBatchSpam_def handleBatchTrash_def handleBatchDeleteForever_def handleEmptyTrash_def handleBatchToggleStarred_def
  onSelectFolder_def onPrevPage_def onNextPage_def onSpam_def handleKeyDown_def handleSelectCustomFolder_def
  handleSelectLabel_def handleOpenEditFolder_def handleOpenEditLabel_def

lemma list_ops_inv:
  assumes "mail_inv w"
  shows "mail_inv (toggleMessageStarred m w)" "mail_inv (handleDeleteForever m w)" "mail_inv (handleToggleCheck m b w)"
    "mail_inv (handleBatchArchive w)" "mail_inv (handleBatchSpam w)" "mail_inv (handleBatchTrash w)"
    "mail_inv (handleBatchDeleteForever w)" "mail_inv (handleEmptyTrash b w)" "mail_inv (handleBatchToggleStarred b w)"
    "mail_inv (onSelectFolder f w)" "mail_inv (onPrevPage w)" "mail_inv (onNextPage w)" "mail_inv (onSpam m w)"
    "mail_inv (handleKeyDown k w)" "mail_inv (handleSelectCustomFolder fo w)" "mail_inv (handleSelectLabel la w)"
    "mail_inv (handleOpenEditFolder fo w)" "mail_inv (handleOpenEditLabel la w)"
  using assms
  by (auto simp: mail_inv_def list_ops Let_def on_key_singleton distinct_map_filter intro!: keep distinct_set_ops)

lemma with_box_inv:
  "mail_inv w \<Longrightarrow> (\<And>box. mail_inv (f box w)) \<Longrightarrow> mail_inv (with_box f w)"
  by (simp add: with_box_def split: option.splits)

lemma mail_inv_sent [simp]: "mail_inv (w\<lparr>sent := s\<rparr>) = mail_inv w"
  by (simp add: mail_inv_def)

lemma showToast_mail_inv [simp]: "mail_inv w \<Longrightarrow> mail_inv (showToast t w)"
  by (simp add: mail_inv_def keep)

lemma undo_ops_inv:
  assumes "mail_inv w"
  shows "mail_inv (handleArchiveMessage m w)" "mail_inv (handleTrashMessage m w)" "mail_inv (handleUndo w)" "mail_inv (run_timer t w)"
proof -
  show "mail_inv (handleArchiveMessage m w)" "mail_inv (handleTrashMessage m w)"
    using assms by (simp_all add: mail_inv_def handleArchiveMessage_def handleTrashMessage_def move_out_def Let_def
        on_key_singleton keep del: map_map)
  have "timers_inv (handleUndo w) = timers_inv (clearTimeout (undo_timer a) w\<lparr>undoAction := None\<rparr>)" if "undoAction w = Some a" for a
    using that by (intro timers_inv_cong) (simp_all add: handleUndo_def Let_def)
  then have "timers_inv (handleUndo w)"
    using assms clear_undo_inv [of w] by (cases "undoAction w") (auto simp: mail_inv_def handleUndo_def)
  then show "mail_inv (handleUndo w)"
    using assms by (cases "undoAction w") (simp_all add: mail_inv_def handleUndo_def Let_def on_key_singleton del: map_map)
  have "messages (run_timer t w) = messages w" "selectedIds (run_timer t w) = selectedIds w" "currentPage (run_timer t w) = currentPage w"
    by (simp_all add: run_timer_def Let_def split: option.splits timer_action.splits)
  then show "mail_inv (run_timer t w)"
    using assms by (simp add: mail_inv_def keep)
qed

text \<open>Requests sent for a list of messages.\<close>

lemma requests_inv:
  assumes "mail_inv w" "\<And>b i. \<exists>p meth bdy. r b i = apiRequest N p meth bdy"
  shows "mail_inv (with_box (\<lambda>box. fold (\<lambda>i. fire (r (mb_id box) i)) is) w)"
proof -
  obtain p meth bdy where r: "r b i = apiRequest N (p b i) (meth b i) (bdy b i)" for b i
    using assms(2) by metis
  have "mail_inv (fold (\<lambda>i. fire (r b i)) is v) = mail_inv v" for b and v :: "'a mail_state_scheme"
    by (induction "is" arbitrary: v) (simp_all add: r fire_api)
  with assms(1) show ?thesis by (simp add: with_box_inv)
qed

lemma api_requests:
  "\<exists>p meth bdy. setMessageRead N b i rd = apiRequest N p meth bdy"
  "\<exists>p meth bdy. updateMessageFolder N b i fo fi = apiRequest N p meth bdy"
  "\<exists>p meth bdy. attachMessageLabel N b i l = apiRequest N p meth bdy"
  "\<exists>p meth bdy. detachMessageLabel N b i l = apiRequest N p meth bdy"
  unfolding setMessageRead_def updateMessageFolder_def attachMessageLabel_def detachMessageLabel_def by blast+

lemma request_ops_inv:
  assumes "mail_inv w"
  shows "mail_inv (toggleMessageRead N m w)" "mail_inv (handleBatchToggleRead N b w)" "mail_inv (handleMoveMessages N is f w)"
    "mail_inv (handleAttachLabel N is l w)" "mail_inv (toggleMessageLabel N is l w)"
proof -
  have upd: "mail_inv (on_selected q h (w\<lparr>messages := map (on_keys dm_id ks g) (messages w)\<rparr>))"
    if "\<And>v. dm_id (g v) = dm_id v" for q h ks and g :: "display_message \<Rightarrow> display_message"
    using assms that by (simp add: mail_inv_def)
  have sel: "mail_inv (v\<lparr>selectedIds := ks\<rparr>)" if "mail_inv v" "distinct ks" for v :: "'a mail_state_scheme" and ks
    using that by (simp add: mail_inv_def)
  have dist: "distinct (fold set_delete ks (selectedIds w))" for ks
    using assms by (simp add: mail_inv_def distinct_set_ops)
  have "toggleMessageRead N m w =
      with_box (\<lambda>box. fold (\<lambda>i. fire (setMessageRead N (mb_id box) i (\<not> dm_read m))) [dm_id m])
        (on_selected (\<lambda>s. dm_id s = dm_id m) (\<lambda>s. Some (s\<lparr>dm_read := \<not> dm_read m\<rparr>))
          (w\<lparr>messages := map (on_keys dm_id [dm_id m] (\<lambda>x. x\<lparr>dm_read := \<not> dm_read m\<rparr>)) (messages w)\<rparr>))"
    by (simp add: toggleMessageRead_def Let_def on_key_singleton)
  also have "mail_inv \<dots>" by (intro requests_inv [where N = N] upd api_requests) simp
  finally show "mail_inv (toggleMessageRead N m w)" .
  show "mail_inv (handleBatchToggleRead N b w)"
    unfolding handleBatchToggleRead_def Let_def
    using assms by (auto intro!: requests_inv [where N = N] upd sel showToast_mail_inv api_requests simp: dist)
  show "mail_inv (handleMoveMessages N is f w)"
    unfolding handleMoveMessages_def Let_def
    using assms by (auto intro!: requests_inv [where N = N] upd sel showToast_mail_inv api_requests simp: dist)
  have labels: "mail_inv (change_labels (\<lambda>b i. attachMessageLabel N b i l) (add_label l) is w)"
    "mail_inv (change_labels (\<lambda>b i. detachMessageLabel N b i l) (drop_label l) is w)"
    unfolding change_labels_def Let_def
    by (intro requests_inv [where N = N] upd api_requests; simp add: add_label_def drop_label_def)+
  then show "mail_inv (handleAttachLabel N is l w)" "mail_inv (toggleMessageLabel N is l w)"
    using assms by (auto simp: handleAttachLabel_def toggleMessageLabel_def Let_def)
qed

lemma mail_inv_signals [simp]:
  "mail_inv (w\<lparr>customFolders := a\<rparr>) = mail_inv w" "mail_inv (w\<lparr>labels := b\<rparr>) = mail_inv w"
  "mail_inv (w\<lparr>activeCustomFolder := c\<rparr>) = mail_inv w" "mail_inv (w\<lparr>activeLabel := d\<rparr>) = mail_inv w"
  "mail_inv (w\<lparr>folderToEdit := e\<rparr>) = mail_inv w" "mail_inv (w\<lparr>labelToEdit := f\<rparr>) = mail_inv w"
  "mail_inv (w\<lparr>currentFolder := g\<rparr>) = mail_inv w" "mail_inv (w\<lparr>alerts := h\<rparr>) = mail_inv w"
  by (simp_all add: mail_inv_def)

lemma save_ops_inv:
  assumes "mail_inv w"
  shows "mail_inv (handleSaveFolder N lc n p nt w)" "mail_inv (handleSaveLabel N lc n c cn w)"
  using assms
  by (auto simp: handleSaveFolder_def handleSaveLabel_def Let_def updateFolder_def createFolder_def updateLabel_def createLabel_def
      split: option.splits prod.splits sum.splits dest!: need_call_frame)

lemma delete_ops_inv:
  assumes "mail_inv w"
  shows "mail_inv (handleDeleteFolder N b fo w)" "mail_inv (handleDeleteLabel N b la w)"
proof -
  have ids: "map dm_id (map (\<lambda>m. if dm_folderId m = Some i then m\<lparr>dm_folderId := None, dm_folder := f\<rparr> else m) ms) = map dm_id ms"
    "map dm_id (map (\<lambda>m. if dm_labelIds m = None then m else drop_label i m) ms) = map dm_id ms" for i f ms
    by (simp_all add: drop_label_def)
  show "mail_inv (handleDeleteFolder N b fo w)" "mail_inv (handleDeleteLabel N b la w)"
    using assms
    by (auto simp: mail_inv_def handleDeleteFolder_def handleDeleteLabel_def Let_def deleteFolder_def deleteLabel_def alert_def ids
        intro!: keep split: option.splits prod.splits sum.splits dest!: api_call_frame simp del: map_map)
qed

section \<open>Initial state\<close>

definition pref :: "store \<Rightarrow> string \<Rightarrow> string \<Rightarrow> string" where
  "pref local k d = or_else (filled (getItem local k)) d"

text \<open>The initial values of the signals.\<close>

definition initial_mail :: "store \<Rightarrow> store \<Rightarrow> mail_state" where
  "initial_mail session local =
     \<lparr>sessionStorage = session, localStorage = local, sent = [],
      currentUser = None, mailboxes = [], selectedMailbox = None, isLoading = True, isSetupAccount = False,
      isImpersonating = False, impersonateMailboxId = None, impersonateEmail = None,
      mailboxKey = None, searchKey = None, unlockedBoxId = None, storageErrorBanner = None,
      signatureText = [], signatureSaved = False,
      density = pref local ''byos_density'' ''cozy'', layoutMode = pref local ''byos_layout'' ''split'',
      theme = pref local ''byos_theme'' ''cloud_dancer'', language = pref local ''byos_language'' ''en'',
      timeFormat = pref local ''byos_time_format'' ''12h'', weekStart = pref local ''byos_week_start'' ''sunday'',
      document_theme = [], document_dark = False,
      connectedAccounts = [], addMailboxModalOpen = False, toastMessage = None, toastTimer = None,
      timers = [], nextTimer = 1, alerts = [],
      currentFolder = ''inbox'', messages = [], selectedMsg = None, searchQuery = [], serverMatchedMsgIds = [],
      isSearchingTokens = False, selectedIds = [], sortOrder = ''newest'', currentPage = 1, undoAction = None,
      customFolders = [], activeCustomFolder = None, createFolderModalOpen = False, folderToEdit = None,
      importEmailsModalOpen = False, labels = [], activeLabel = None, createLabelModalOpen = False, labelToEdit = None\<rparr>"

lemma initial_mail_inv: "mail_inv (initial_mail s l)"
  by (simp add: initial_mail_def mail_inv_def timers_inv_def pending_def)

text \<open>A message for the witnesses.\<close>

definition sample_message :: "string \<Rightarrow> display_message" where
  "sample_message i =
     \<lparr>dm_id = i, dm_messageSeq = Some 1, dm_version = None, dm_folder = ''inbox'', dm_folderId = None, dm_labelIds = Some [],
      dm_sender = ''ann@x'', dm_recipient = ''bob@x'', dm_subject = ''hi'', dm_snippet = [], dm_encryptedBody = [],
      dm_date = ''2026-01-01'', dm_read = False, dm_starred = False, dm_isRealApi = True, dm_messageId = Some i,
      dm_hasAttachments = False, dm_attachmentCount = 0, dm_attachmentTypes = [], dm_trackingToken = None, dm_trackingInfo = None\<rparr>"

definition sample_mail :: mail_state where
  "sample_mail = (initial_mail [] [])\<lparr>messages := [sample_message ''a'', sample_message ''b''], selectedIds := [''a'']\<rparr>"

lemma sample_mail_inv: "mail_inv sample_mail"
  using initial_mail_inv [of "[]" "[]"] by (simp add: sample_mail_def mail_inv_def sample_message_def)

section \<open>Properties\<close>

text \<open>C4: Every action on the message list and every timer keeps its invariant: message identifiers stay unique,
  the selection has no repetitions, the page is at least 1, timer identifiers are unique, and the undo
  offer and the notification are each on display exactly while their own timer is the only one of its
  kind that is pending, so no stale timer can dismiss a newer offer.\<close>

theorem mail_steps_invariant:
  assumes "mail_inv w" "(mail_step N lc)\<^sup>*\<^sup>* w w'"
  shows "mail_inv w'"
  using assms(2,1)
proof (induction rule: rtranclp_induct)
  case base
  then show ?case .
next
  case (step v v')
  from step.hyps(2) step.IH [OF step.prems] show ?case
    by (cases rule: mail_step.cases)
      (auto simp: handleBatchToggleLabel_def handleBatchMoveTo_def list_ops_inv undo_ops_inv request_ops_inv
        save_ops_inv delete_ops_inv split: option.splits)
qed

text \<open>Witness: archiving a message and undoing it.\<close>

theorem mail_steps_invariant_witness:
  "mail_inv (handleUndo (handleArchiveMessage (sample_message ''a'') sample_mail))"
proof (rule mail_steps_invariant [OF sample_mail_inv])
  show "(mail_step N lc)\<^sup>*\<^sup>* sample_mail (handleUndo (handleArchiveMessage (sample_message ''a'') sample_mail))" for N lc
    by (rule rtranclp.rtrancl_into_rtrancl [OF r_into_rtranclp]) (rule mail_step.intros)+
qed

text \<open>Undo. Archiving or trashing a message and undoing it restores the message list exactly; when the
  timer runs out instead, the list stays as it is and there is nothing left to undo.\<close>

theorem undo_restores:
  assumes "mail_inv w" "m \<in> set (messages w)" "w' = handleArchiveMessage m w \<or> w' = handleTrashMessage m w"
  shows "messages (handleUndo w') = messages w \<and> undoAction (handleUndo w') = None
    \<and> (\<forall>a. undoAction w' = Some a \<longrightarrow>
          messages (run_timer (undo_timer a) w') = messages w' \<and> undoAction (run_timer (undo_timer a) w') = None
          \<and> handleUndo (run_timer (undo_timer a) w') = run_timer (undo_timer a) w')"
proof -
  obtain target where w': "w' = move_out target m w"
    using assms(3) by (auto simp: handleArchiveMessage_def handleTrashMessage_def)
  have inv': "timers_inv w'"
    using assms(1) by (simp add: w' move_out_def Let_def mail_inv_def keep)
  have msgs: "messages w' = map (on_key dm_id (dm_id m) (\<lambda>x. x\<lparr>dm_folder := target\<rparr>)) (messages w)"
    by (simp add: w' move_out_def Let_def)
  obtain t where u: "undoAction w' = Some \<lparr>undo_messageId = dm_id m, undo_previousFolder = dm_folder m, undo_timer = t\<rparr>"
    by (simp add: w' move_out_def offer_undo_def Let_def case_prod_beta)
  have same: "x = m" if "x \<in> set (messages w)" "dm_id x = dm_id m" for x
    using that assms(1,2) by (auto simp: mail_inv_def distinct_map inj_on_def)
  then have restore: "on_key dm_id (dm_id m) (\<lambda>x. x\<lparr>dm_folder := dm_folder m\<rparr>) (on_key dm_id (dm_id m) (\<lambda>x. x\<lparr>dm_folder := target\<rparr>) x) = x"
    if "x \<in> set (messages w)" for x
    using same [OF that] by (cases "dm_id x = dm_id m") (simp_all add: on_key_def)
  have "messages (handleUndo w') = messages w"
    by (simp add: handleUndo_def u Let_def msgs restore map_idI)
  moreover have "map_of (timers w') t = Some ClearUndo"
    using inv' u by (auto simp: timers_inv_def pending_def filter_eq_Cons_iff map_eq_Cons_conv)
  then have "run_timer t w' = clearTimeout t w'\<lparr>undoAction := None\<rparr>"
    by (simp add: run_timer_def Let_def)
  ultimately show ?thesis
    by (simp add: u handleUndo_def Let_def)
qed

text \<open>The abstract mailbox: a finite map from identifiers to messages, on which the operations are a change or a
  removal of the entries of a set of identifiers.\<close>

definition view :: "'z mail_state_scheme \<Rightarrow> string \<Rightarrow> display_message option" where
  "view w = by_key dm_id (messages w)"

definition spec_update :: "string set \<Rightarrow> (display_message \<Rightarrow> display_message) \<Rightarrow> (string \<Rightarrow> display_message option) \<Rightarrow> string \<Rightarrow> display_message option" where
  "spec_update ids f V i = (if i \<in> ids then map_option f (V i) else V i)"

definition spec_remove :: "string set \<Rightarrow> (string \<Rightarrow> display_message option) \<Rightarrow> string \<Rightarrow> display_message option" where
  "spec_remove ids V i = (if i \<in> ids then None else V i)"

lemma view_update:
  "(\<And>m. dm_id (f m) = dm_id m) \<Longrightarrow> by_key dm_id (map (on_keys dm_id is f) ms) = spec_update (set is) f (by_key dm_id ms)"
  by (rule ext) (simp add: spec_update_def message_table.lookup_modify)

lemma view_remove: "by_key dm_id (filter (\<lambda>m. dm_id m \<notin> set is) ms) = spec_remove (set is) (by_key dm_id ms)"
  by (rule ext) (simp add: spec_remove_def message_table.lookup_discard)

lemma spec_empty [simp]: "spec_update {} f V = V" "spec_remove {} V = V"
  by (simp_all add: spec_update_def spec_remove_def fun_eq_iff)

lemma set_fold_delete: "set (fold set_delete ks xs) = set xs - set ks"
  by (induction ks arbitrary: xs) (auto simp: set_delete_def)

lemma with_box_frame:
  fixes w :: "'z mail_state_scheme"
  assumes "\<And>b i. \<exists>p meth bdy. r b i = apiRequest N p meth bdy"
  shows "messages (with_box (\<lambda>box. fold (\<lambda>i. fire (r (mb_id box) i)) is) w) = messages w"
    "selectedIds (with_box (\<lambda>box. fold (\<lambda>i. fire (r (mb_id box) i)) is) w) = selectedIds w"
    "selectedMsg (with_box (\<lambda>box. fold (\<lambda>i. fire (r (mb_id box) i)) is) w) = selectedMsg w"
proof -
  obtain p meth bdy where r: "r b i = apiRequest N (p b i) (meth b i) (bdy b i)" for b i
    using assms by metis
  have "messages (fold (\<lambda>i. fire (r b i)) is v) = messages v" "selectedIds (fold (\<lambda>i. fire (r b i)) is v) = selectedIds v"
    "selectedMsg (fold (\<lambda>i. fire (r b i)) is v) = selectedMsg v" for b and v :: "'z mail_state_scheme"
    by (induction "is" arbitrary: v) (simp_all add: r fire_api)
  then show "messages (with_box (\<lambda>box. fold (\<lambda>i. fire (r (mb_id box) i)) is) w) = messages w"
    "selectedIds (with_box (\<lambda>box. fold (\<lambda>i. fire (r (mb_id box) i)) is) w) = selectedIds w"
    "selectedMsg (with_box (\<lambda>box. fold (\<lambda>i. fire (r (mb_id box) i)) is) w) = selectedMsg w"
    by (simp_all add: with_box_def split: option.splits)
qed

lemmas box_frame =
  with_box_frame [of "\<lambda>b i. setMessageRead N b i rd" N for N rd, OF api_requests(1)]
  with_box_frame [of "\<lambda>b i. updateMessageFolder N b i fo fi" N for N fo fi, OF api_requests(2)]
  with_box_frame [of "\<lambda>b i. attachMessageLabel N b i l" N for N l, OF api_requests(3)]
  with_box_frame [of "\<lambda>b i. detachMessageLabel N b i l" N for N l, OF api_requests(4)]

text \<open>C12: The batch operations refine the abstract mailbox. Each changes exactly the selected messages as its name
  says (or removes them), leaves every other message as it is and clears the selection; the operations
  that take messages away close the reading pane exactly when it shows one of them; a move sends one
  request for each message, in order, that names the same folder as the local change.\<close>

theorem batch_refines_mailbox:
  "view (handleBatchArchive w) = spec_update (set (selectedIds w)) (\<lambda>m. m\<lparr>dm_folder := ''archive''\<rparr>) (view w)
   \<and> view (handleBatchSpam w) = spec_update (set (selectedIds w)) (\<lambda>m. m\<lparr>dm_folder := ''spam''\<rparr>) (view w)
   \<and> view (handleBatchTrash w) = spec_update (set (selectedIds w)) (\<lambda>m. m\<lparr>dm_folder := ''trash''\<rparr>) (view w)
   \<and> view (handleBatchDeleteForever w) = spec_remove (set (selectedIds w)) (view w)
   \<and> view (handleBatchToggleRead N b w) = spec_update (set (selectedIds w)) (\<lambda>m. m\<lparr>dm_read := b\<rparr>) (view w)
   \<and> view (handleBatchToggleStarred b w) = spec_update (set (selectedIds w)) (\<lambda>m. m\<lparr>dm_starred := b\<rparr>) (view w)
   \<and> selectedIds (handleBatchArchive w) = [] \<and> selectedIds (handleBatchDeleteForever w) = []
   \<and> selectedIds (handleBatchToggleRead N b w) = []
   \<and> selectedMsg (handleBatchTrash w) =
       (case selectedMsg w of Some s \<Rightarrow> if dm_id s \<in> set (selectedIds w) then None else Some s | None \<Rightarrow> None)
   \<and> (let target = find (\<lambda>cf. fo_id cf = f) (customFolders w);
          folder = (case target of Some _ \<Rightarrow> ''inbox'' | None \<Rightarrow> f)
      in view (handleMoveMessages N is f w) =
           spec_update (set is) (\<lambda>m. m\<lparr>dm_folder := folder, dm_folderId := map_option fo_id target\<rparr>) (view w)
         \<and> set (selectedIds (handleMoveMessages N is f w)) = set (selectedIds w) - set is
         \<and> sent (handleMoveMessages N is f w) = sent w @
             (case selectedMailbox w of None \<Rightarrow> []
              | Some box \<Rightarrow> map (\<lambda>i. api_request N (''/v1/mailboxes/'' @ mb_id box @ ''/messages/'' @ i @ ''/folder'') ''PUT''
                  (Some (JsonBody (JObj [(''folder'', JStr (case target of Some _ \<Rightarrow> ''custom'' | None \<Rightarrow> f)),
                     (''folder_id'', case map_option fo_id target of Some j \<Rightarrow> JStr j | None \<Rightarrow> JNull)])))
                  (sessionStorage w)) is))"
proof -
  have "sent (handleMoveMessages N is f w) = sent w @
             (case selectedMailbox w of None \<Rightarrow> []
              | Some box \<Rightarrow> map (\<lambda>i. api_request N (''/v1/mailboxes/'' @ mb_id box @ ''/messages/'' @ i @ ''/folder'') ''PUT''
                  (Some (JsonBody (JObj [(''folder'', JStr (case find (\<lambda>cf. fo_id cf = f) (customFolders w) of Some _ \<Rightarrow> ''custom'' | None \<Rightarrow> f)),
                     (''folder_id'', case map_option fo_id (find (\<lambda>cf. fo_id cf = f) (customFolders w)) of Some j \<Rightarrow> JStr j | None \<Rightarrow> JNull)])))
                  (sessionStorage w)) is)"
    unfolding handleMoveMessages_def updateMessageFolder_def Let_def
    by (cases "selectedMailbox w") (simp_all add: with_box_def fold_fire_api del: append.simps)
  moreover have "view (handleMoveMessages N is f w) =
           spec_update (set is) (\<lambda>m. m\<lparr>dm_folder := (case find (\<lambda>cf. fo_id cf = f) (customFolders w) of Some _ \<Rightarrow> ''inbox'' | None \<Rightarrow> f),
              dm_folderId := map_option fo_id (find (\<lambda>cf. fo_id cf = f) (customFolders w))\<rparr>) (view w)
         \<and> set (selectedIds (handleMoveMessages N is f w)) = set (selectedIds w) - set is"
    by (simp add: handleMoveMessages_def Let_def view_def box_frame view_update set_fold_delete)
  ultimately show ?thesis
    unfolding Let_def
    by (simp add: view_def handleBatchArchive_def handleBatchSpam_def handleBatchTrash_def handleBatchDeleteForever_def
        handleBatchToggleRead_def handleBatchToggleStarred_def Let_def box_frame view_update view_remove on_selected_def
        split: option.split)
qed

text \<open>Labels. Toggling a label on some messages removes it from all of them when all of them have it, and
  otherwise gives it to all of them; the other labels of every message and all other messages are
  unchanged, and a message never gets the same label twice.\<close>

theorem label_toggle:
  "(let w' = toggleMessageLabel N is l w;
        targets = (\<lambda>w. filter (\<lambda>m. dm_id m \<in> set is) (messages w));
        removing = (targets w \<noteq> [] \<and> list_all (has_label l) (targets w))
    in filter (has_label l) (targets w') = (if removing then [] else targets w')
       \<and> map dm_id (messages w') = map dm_id (messages w)
       \<and> filter (\<lambda>m. dm_id m \<notin> set is) (messages w') = filter (\<lambda>m. dm_id m \<notin> set is) (messages w)
       \<and> map (\<lambda>m. filter (\<lambda>i. i \<noteq> l) (label_ids m)) (messages w') = map (\<lambda>m. filter (\<lambda>i. i \<noteq> l) (label_ids m)) (messages w)
       \<and> (list_all (\<lambda>m. distinct (label_ids m)) (messages w) \<longrightarrow> list_all (\<lambda>m. distinct (label_ids m)) (messages w')))"
proof -
  have msgs: "messages (change_labels (\<lambda>b i. attachMessageLabel N b i l) f is w) = map (on_keys dm_id is f) (messages w)"
    "messages (change_labels (\<lambda>b i. detachMessageLabel N b i l) f is w) = map (on_keys dm_id is f) (messages w)" for f
    by (simp_all add: change_labels_def Let_def box_frame)
  have lab: "has_label l (add_label l m)" "\<not> has_label l (drop_label l m)"
    "filter (\<lambda>i. i \<noteq> l) (label_ids (add_label l m)) = filter (\<lambda>i. i \<noteq> l) (label_ids m)"
    "filter (\<lambda>i. i \<noteq> l) (label_ids (drop_label l m)) = filter (\<lambda>i. i \<noteq> l) (label_ids m)"
    "dm_id (add_label l m) = dm_id m" "dm_id (drop_label l m) = dm_id m"
    "distinct (label_ids m) \<Longrightarrow> distinct (label_ids (add_label l m))" "distinct (label_ids m) \<Longrightarrow> distinct (label_ids (drop_label l m))" for m
    by (auto simp: has_label_def add_label_def drop_label_def label_ids_def split: option.splits)
  show ?thesis
    by (auto simp: toggleMessageLabel_def Let_def msgs filter_map o_def on_keys_def lab list_all_iff filter_empty_conv
        intro!: filter_True map_cong map_idI)
qed

end
