(* ===== verification/App_View.thy ===== *)
theory App_View
  imports App_Mail "HOL-Library.Product_Lexorder" "HOL-Library.Multiset"
begin

text \<open>
  What the webmail application shows of the message list: the filter by folder, label and search query,
  the sort order, the pages, the counts of the sidebar, the selection filters and the encrypted search
  (App.tsx, lines 406 to 421, 1989 to 2116 and 2795 to 2850).

  The platform's date parser is the parameter \<open>parse_date\<close> of the theory Utilities; a date it does not
  accept makes the comparison \<open>NaN\<close>, which a sort treats as equality.
\<close>

section \<open>Filter\<close>

definition match_folder :: "'z mail_state_scheme \<Rightarrow> display_message \<Rightarrow> bool" where
  "match_folder w m =
     (case activeCustomFolder w of
        Some customFolder \<Rightarrow> dm_folderId m = Some (fo_id customFolder) \<and> dm_folder m \<noteq> ''trash''
      | None \<Rightarrow>
          (case activeLabel w of
             Some lab \<Rightarrow> has_label (la_id lab) m \<and> dm_folder m \<noteq> ''trash''
           | None \<Rightarrow> if currentFolder w = ''inbox''
                     then \<not> nonempty (dm_folderId m) \<and> (dm_folder m = [] \<or> dm_folder m = ''inbox'')
                     else dm_folder m = currentFolder w))"

definition match_query :: "'z mail_state_scheme \<Rightarrow> string \<Rightarrow> display_message \<Rightarrow> bool" where
  "match_query w q m \<longleftrightarrow>
     str_includes (toLowerCase (dm_sender m)) q \<or> str_includes (toLowerCase (dm_subject m)) q
     \<or> str_includes (toLowerCase (dm_snippet m)) q
     \<or> dm_id m \<in> set (serverMatchedMsgIds w)
     \<or> (nonempty (dm_messageId m) \<and> filled (dm_messageId m) \<in> set (serverMatchedMsgIds w))"

definition filteredMessages :: "'z mail_state_scheme \<Rightarrow> display_message list" where
  "filteredMessages w =
     (let q = trim (toLowerCase (searchQuery w))
      in filter (\<lambda>m. if q = [] then match_folder w m else match_folder w m \<and> match_query w q m) (messages w))"

section \<open>Order and pages\<close>

definition date_diff :: "date_platform \<Rightarrow> display_message \<Rightarrow> display_message \<Rightarrow> int" where
  "date_diff P a b =
     (case (parse_date P (dm_date a), parse_date P (dm_date b)) of (Some x, Some y) \<Rightarrow> x - y | _ \<Rightarrow> 0)"

definition sortedMessages :: "date_platform \<Rightarrow> 'z mail_state_scheme \<Rightarrow> display_message list" where
  "sortedMessages P w =
     (let list = filteredMessages w; order = sortOrder w
      in if order = ''newest'' then sort_cmp (\<lambda>a b. date_diff P b a) list
         else if order = ''oldest'' then sort_cmp (date_diff P) list
         else if order = ''unread''
         then sort_cmp (\<lambda>a b. if dm_read a = dm_read b then date_diff P b a else if dm_read a then 1 else - 1) list
         else list)"

definition pageSize :: nat where
  "pageSize = 50"

definition paginatedMessages :: "date_platform \<Rightarrow> 'z mail_state_scheme \<Rightarrow> display_message list" where
  "paginatedMessages P w =
     (let list = sortedMessages P w; start = (currentPage w - 1) * pageSize in slice start (start + pageSize) list)"

definition handleSelectFilter :: "date_platform \<Rightarrow> string \<Rightarrow> 'z mail_state_scheme \<Rightarrow> 'z mail_state_scheme" where
  "handleSelectFilter P flt w =
     (let visible = paginatedMessages P w; pick = (\<lambda>p. w\<lparr>selectedIds := uniq (map dm_id (filter p visible))\<rparr>)
      in if flt = ''none'' then w\<lparr>selectedIds := []\<rparr>
         else if flt = ''all'' then pick (\<lambda>m. True)
         else if flt = ''read'' then pick dm_read
         else if flt = ''unread'' then pick (\<lambda>m. \<not> dm_read m)
         else if flt = ''starred'' then pick dm_starred
         else if flt = ''unstarred'' then pick (\<lambda>m. \<not> dm_starred m)
         else w)"

text \<open>\<open>findIndex\<close>; \<open>None\<close> stands for -1.\<close>

fun find_index :: "('a \<Rightarrow> bool) \<Rightarrow> 'a list \<Rightarrow> nat option" where
  "find_index p [] = None"
| "find_index p (x # xs) = (if p x then Some 0 else map_option Suc (find_index p xs))"

definition currentMsgIndex :: "date_platform \<Rightarrow> 'z mail_state_scheme \<Rightarrow> nat option" where
  "currentMsgIndex P w =
     (case selectedMsg w of None \<Rightarrow> None | Some sel \<Rightarrow> find_index (\<lambda>m. dm_id m = dm_id sel) (sortedMessages P w))"

definition hasPrevMessage :: "date_platform \<Rightarrow> 'z mail_state_scheme \<Rightarrow> bool" where
  "hasPrevMessage P w = (case currentMsgIndex P w of None \<Rightarrow> False | Some idx \<Rightarrow> 0 < idx)"

definition hasNextMessage :: "date_platform \<Rightarrow> 'z mail_state_scheme \<Rightarrow> bool" where
  "hasNextMessage P w =
     (case currentMsgIndex P w of None \<Rightarrow> False | Some idx \<Rightarrow> Suc idx < length (sortedMessages P w))"

section \<open>Counts\<close>

type_synonym counts = "string \<Rightarrow> nat option"

definition bump :: "string \<Rightarrow> counts \<Rightarrow> counts" where
  "bump k c = c(k \<mapsto> Suc (case c k of Some n \<Rightarrow> n | None \<Rightarrow> 0))"

definition zero_counts :: counts where
  "zero_counts = [''inbox'' \<mapsto> 0, ''sent'' \<mapsto> 0, ''drafts'' \<mapsto> 0, ''archive'' \<mapsto> 0, ''spam'' \<mapsto> 0, ''trash'' \<mapsto> 0]"

definition count_folder :: "display_message \<Rightarrow> counts \<Rightarrow> counts" where
  "count_folder m c =
     (if dm_folder m = ''trash'' then bump ''trash'' c
      else if dm_folder m = ''inbox'' then (if nonempty (dm_folderId m) then c else bump ''inbox'' c)
      else if c (dm_folder m) \<noteq> None then bump (dm_folder m) c else c)"

definition folderCounts :: "'z mail_state_scheme \<Rightarrow> counts" where
  "folderCounts w = fold count_folder (messages w) zero_counts"

definition customFolderCounts :: "'z mail_state_scheme \<Rightarrow> counts" where
  "customFolderCounts w =
     fold (\<lambda>m c. if dm_folder m \<noteq> ''trash'' \<and> nonempty (dm_folderId m) then bump (filled (dm_folderId m)) c else c)
       (messages w) Map.empty"

definition labelCounts :: "'z mail_state_scheme \<Rightarrow> counts" where
  "labelCounts w =
     fold (\<lambda>m c. if dm_folder m \<noteq> ''trash'' then fold bump (label_ids m) c else c) (messages w) Map.empty"

section \<open>Encrypted search\<close>

text \<open>The effect on the query: one token for each keyword is computed and looked up. A run that is superseded
  by a later one is cancelled and leaves the results alone; this is a run that is not.\<close>

fun search_tokens ::
  "net \<Rightarrow> (string \<Rightarrow> byte list \<Rightarrow> byte list \<Rightarrow> js_error + byte list) \<Rightarrow> string \<Rightarrow> string \<Rightarrow> string list \<Rightarrow> string list \<Rightarrow> ('z, string list) io" where
  "search_tokens N hmac sKey boxId [] matched = io_return matched"
| "search_tokens N hmac sKey boxId (kw # kws) matched =
     io_bind (io_lift (computeSearchToken hmac sKey kw)) (\<lambda>tokenHex.
     io_bind (searchMailboxTokens N boxId tokenHex) (\<lambda>ids.
     search_tokens N hmac sKey boxId kws (fold (\<lambda>v. set_add (to_text v)) ids matched)))"

definition search_effect ::
  "net \<Rightarrow> (string \<Rightarrow> byte list \<Rightarrow> byte list \<Rightarrow> js_error + byte list) \<Rightarrow> 'z mail_state_scheme \<Rightarrow> 'z mail_state_scheme" where
  "search_effect N hmac w =
     (let q = trim (searchQuery w)
      in if q = [] \<or> \<not> nonempty (searchKey w) \<or> selectedMailbox w = None then w\<lparr>serverMatchedMsgIds := []\<rparr>
         else if extractKeywords q = [] then w\<lparr>serverMatchedMsgIds := []\<rparr>
         else case search_tokens N hmac (filled (searchKey w)) (mb_id (the (selectedMailbox w))) (extractKeywords q) []
                     (w\<lparr>isSearchingTokens := True\<rparr>) of
                (Inl e, w1) \<Rightarrow> w1\<lparr>isSearchingTokens := False\<rparr>
              | (Inr matched, w1) \<Rightarrow> w1\<lparr>serverMatchedMsgIds := matched, isSearchingTokens := False\<rparr>)"

section \<open>Lemmas\<close>

text \<open>With a comparison given by a key the insertion sort is the library's stable sort.\<close>

lemma insert_cmp_key:
  assumes "\<And>y. y \<in> set ys \<Longrightarrow> cmp x y \<le> 0 \<longleftrightarrow> k x \<le> k y"
  shows "insert_cmp cmp x ys = insort_key k x ys"
  using assms by (induction ys) auto

lemma set_insert_cmp: "set (insert_cmp cmp x ys) = insert x (set ys)"
  by (induction ys) auto

lemma set_sort_cmp: "set (sort_cmp cmp xs) = set xs"
  by (induction xs) (auto simp: sort_cmp_def set_insert_cmp)

lemma mset_sort_cmp: "mset (sort_cmp cmp xs) = mset xs"
proof -
  have "mset (insert_cmp cmp x ys) = add_mset x (mset ys)" for x ys
    by (induction ys) auto
  then show ?thesis by (induction xs) (simp_all add: sort_cmp_def)
qed

lemma sort_cmp_key:
  assumes "\<And>x y. x \<in> set xs \<Longrightarrow> y \<in> set xs \<Longrightarrow> cmp x y \<le> 0 \<longleftrightarrow> k x \<le> k y"
  shows "sort_cmp cmp xs = sort_key k xs"
  using assms
proof (induction xs)
  case (Cons x xs)
  then have "sort_cmp cmp xs = sort_key k xs" by simp
  moreover have "insert_cmp cmp x (sort_key k xs) = insort_key k x (sort_key k xs)"
    by (rule insert_cmp_key) (simp add: Cons.prems)
  ultimately show ?case by (simp add: sort_cmp_def)
qed (simp add: sort_cmp_def)

text \<open>Consecutive pages.\<close>

lemma pages_concat:
  "concat (map (\<lambda>p. slice (p * k) (p * k + k) xs) [0..<n]) = take (n * k) xs"
  by (induction n) (simp_all add: slice_def take_add [symmetric] add.commute)

lemma fold_bump: "fold bump ls c k = (if k \<in> set ls then Some (count_list ls k + (case c k of Some n \<Rightarrow> n | None \<Rightarrow> 0)) else c k)"
  by (induction ls arbitrary: c) (auto simp: bump_def count_list_0_iff split: option.splits)

abbreviation count_of :: "counts \<Rightarrow> string \<Rightarrow> nat" where
  "count_of c k \<equiv> (case c k of Some n \<Rightarrow> n | None \<Rightarrow> 0)"

lemma fold_count:
  assumes "\<And>m c. count_of (step m c) k = n m + count_of c k"
  shows "count_of (fold step ms c) k = sum_list (map n ms) + count_of c k"
  by (induction ms arbitrary: c) (simp_all add: assms)

lemma sum_list_indicator: "sum_list (map (\<lambda>x. if p x then 1 else 0) xs) = length (filter p xs)"
  by (induction xs) auto

lemma count_bump: "count_of (bump j c) k = (if j = k then 1 else 0) + count_of c k"
  by (simp add: bump_def)

lemma count_labels: "count_of (fold bump ls c) k = count_list ls k + count_of c k"
  by (induction ls arbitrary: c) (simp_all add: count_bump)

lemma count_list_distinct: "distinct xs \<Longrightarrow> count_list xs x = (if x \<in> set xs then 1 else 0)"
  by (induction xs) (auto simp: count_list_0_iff)

text \<open>The six folders keep their entries.\<close>

lemma zero_counts_entries:
  assumes "f \<in> {''inbox'', ''sent'', ''drafts'', ''archive'', ''spam'', ''trash''}"
  shows "f \<in> dom zero_counts" "zero_counts f = Some 0"
  using assms by (elim insertE emptyE; simp add: zero_counts_def)+

lemma dom_bump: "dom (bump k c) = insert k (dom c)"
  by (simp add: bump_def)

lemma count_folder_dom:
  assumes "dom c = dom zero_counts"
  shows "dom (count_folder m c) = dom zero_counts"
proof -
  have "''inbox'' \<in> dom c" "''trash'' \<in> dom c" using zero_counts_entries(1) assms by simp_all
  then show ?thesis
    using assms by (cases "c (dm_folder m)") (auto simp: count_folder_def dom_bump)
qed

lemma fold_count_folder:
  assumes "f \<in> dom zero_counts" "dom c = dom zero_counts"
  shows "fold count_folder ms c f =
     Some (the (c f) + length (filter (\<lambda>m. dm_folder m = f \<and> (f = ''inbox'' \<longrightarrow> \<not> nonempty (dm_folderId m))) ms))"
  using assms(2)
proof (induction ms arbitrary: c)
  case Nil
  with assms(1) obtain n where "c f = Some n" by blast
  then show ?case by simp
next
  case (Cons m ms)
  obtain n where n: "c f = Some n" using Cons.prems assms(1) by blast
  then have "count_folder m c f = Some (n + (if dm_folder m = f \<and> (f = ''inbox'' \<longrightarrow> \<not> nonempty (dm_folderId m)) then 1 else 0))"
    by (auto simp: count_folder_def bump_def)
  with Cons.IH [OF count_folder_dom [OF Cons.prems], of m] n show ?case by simp
qed

lemma all_dropWhile: "(\<forall>x \<in> set (dropWhile P xs). P x) \<longleftrightarrow> (\<forall>x \<in> set xs. P x)"
  by (induction xs) auto

lemma trim_Nil_iff: "trim s = [] \<longleftrightarrow> list_all is_ws s"
  by (simp add: trim_def list_all_iff dropWhile_eq_Nil_conv all_dropWhile)

lemma trim_toLowerCase: "trim s = [] \<Longrightarrow> trim (toLowerCase s) = []"
  by (auto simp: trim_Nil_iff list_all_iff toLowerCase_def is_ws_def lower_char_def is_upper_ascii_def)

lemma filtered_page: "filteredMessages (w\<lparr>currentPage := p\<rparr>) = filteredMessages w"
  by (simp add: filteredMessages_def match_folder_def match_query_def cong: option.case_cong)

section \<open>Properties\<close>

text \<open>The order of the list. When the dates of the messages are readable, the list is the stable sort of the
  messages that pass the filter: by falling date, by rising date, or unread before read and then by
  falling date. In every case it is a permutation of them, and the pages 1 to n, laid end to end, are
  exactly the first 50 n messages of it.\<close>

theorem sorted_pages:
  assumes "\<forall>m \<in> set (messages w). parse_date P (dm_date m) \<noteq> None"
  shows "(sortOrder w = ''newest'' \<longrightarrow> sortedMessages P w = sort_key (\<lambda>m. - the (parse_date P (dm_date m))) (filteredMessages w))
    \<and> (sortOrder w = ''oldest'' \<longrightarrow> sortedMessages P w = sort_key (\<lambda>m. the (parse_date P (dm_date m))) (filteredMessages w))
    \<and> (sortOrder w = ''unread'' \<longrightarrow>
         sortedMessages P w = sort_key (\<lambda>m. (dm_read m, - the (parse_date P (dm_date m)))) (filteredMessages w))
    \<and> mset (sortedMessages P w) = mset (filteredMessages w)
    \<and> concat (map (\<lambda>p. paginatedMessages P (w\<lparr>currentPage := Suc p\<rparr>)) [0..<n]) = take (n * 50) (sortedMessages P w)"
proof -
  have dates: "\<exists>t. parse_date P (dm_date m) = Some t" if "m \<in> set (filteredMessages w)" for m
    using that assms by (auto simp: filteredMessages_def Let_def split: if_splits)
  have same: "sortedMessages P (w\<lparr>currentPage := p\<rparr>) = sortedMessages P w" for p
    by (simp add: sortedMessages_def filtered_page)
  have "concat (map (\<lambda>p. paginatedMessages P (w\<lparr>currentPage := Suc p\<rparr>)) [0..<n]) = take (n * 50) (sortedMessages P w)"
    using pages_concat [of 50 "sortedMessages P w" n] by (simp add: paginatedMessages_def same pageSize_def Let_def)
  moreover have "mset (sortedMessages P w) = mset (filteredMessages w)"
    by (simp add: sortedMessages_def mset_sort_cmp Let_def)
  moreover have "sortedMessages P w = sort_key (\<lambda>m. - the (parse_date P (dm_date m))) (filteredMessages w)" if "sortOrder w = ''newest''"
    using that by (auto simp: sortedMessages_def intro!: sort_cmp_key dest!: dates simp: date_diff_def)
  moreover have "sortedMessages P w = sort_key (\<lambda>m. the (parse_date P (dm_date m))) (filteredMessages w)" if "sortOrder w = ''oldest''"
    using that by (auto simp: sortedMessages_def intro!: sort_cmp_key dest!: dates simp: date_diff_def)
  moreover have "sortedMessages P w = sort_key (\<lambda>m. (dm_read m, - the (parse_date P (dm_date m)))) (filteredMessages w)" if "sortOrder w = ''unread''"
    using that by (auto simp: sortedMessages_def intro!: sort_cmp_key dest!: dates simp: date_diff_def less_eq_prod_def less_prod_def split: if_splits)
  ultimately show ?thesis by simp
qed

definition toy_dates :: date_platform where
  "toy_dates = \<lparr>parse_date = (\<lambda>s. Some (int (length s))), number_date = (\<lambda>_. None), getDate = id, getMonth = id, getFullYear = id,
     toLocaleTimeString = (\<lambda>_ _. []), toLocaleDateString = (\<lambda>_ _ _. []), number_text = (\<lambda>_. [])\<rparr>"

text \<open>The counts of the sidebar are the numbers of messages shown. With no query and every message in a named
  folder, the count of each of the six folders is the number of messages listed when it is selected, the
  count of a custom folder (or no entry) is the number listed in it, and so for a label, as labels do
  not repeat on a message.\<close>

theorem counts_match_view:
  assumes "trim (searchQuery w) = []" "\<forall>m \<in> set (messages w). dm_folder m \<noteq> [] \<and> distinct (label_ids m)"
    and "f \<in> {''inbox'', ''sent'', ''drafts'', ''archive'', ''spam'', ''trash''}" "fo_id cf \<noteq> []"
  shows "folderCounts w f = Some (length (filteredMessages (w\<lparr>currentFolder := f, activeCustomFolder := None, activeLabel := None\<rparr>)))
    \<and> (case customFolderCounts w (fo_id cf) of Some n \<Rightarrow> n | None \<Rightarrow> 0) = length (filteredMessages (w\<lparr>activeCustomFolder := Some cf\<rparr>))
    \<and> (case labelCounts w (la_id lab) of Some n \<Rightarrow> n | None \<Rightarrow> 0)
        = length (filteredMessages (w\<lparr>activeCustomFolder := None, activeLabel := Some lab\<rparr>))"
proof -
  have q: "trim (toLowerCase (searchQuery w)) = []"
    using assms(1) by (simp add: trim_toLowerCase)
  then have shown: "filteredMessages v = filter (match_folder v) (messages w)" if "searchQuery v = searchQuery w" "messages v = messages w"
    for v :: "'a mail_state_scheme"
    using that by (simp add: filteredMessages_def)
  have "folderCounts w f = Some (length (filter (\<lambda>m. dm_folder m = f \<and> (f = ''inbox'' \<longrightarrow> \<not> nonempty (dm_folderId m))) (messages w)))"
    using fold_count_folder [of f zero_counts "messages w"] zero_counts_entries [OF assms(3)] by (simp add: folderCounts_def)
  then have folders: "folderCounts w f = Some (length (filteredMessages (w\<lparr>currentFolder := f, activeCustomFolder := None, activeLabel := None\<rparr>)))"
    using assms(2) by (auto simp: shown match_folder_def intro!: arg_cong [where f = length] filter_cong split: if_splits)
  have custom: "(dm_folder m \<noteq> ''trash'' \<and> nonempty (dm_folderId m) \<and> filled (dm_folderId m) = fo_id cf) =
      match_folder (w\<lparr>activeCustomFolder := Some cf\<rparr>) m" for m
    using assms(4) by (cases "dm_folderId m") (auto simp: match_folder_def nonempty_def filled_def)
  have "count_of (customFolderCounts w) (fo_id cf) =
      length (filter (\<lambda>m. dm_folder m \<noteq> ''trash'' \<and> nonempty (dm_folderId m) \<and> filled (dm_folderId m) = fo_id cf) (messages w))"
    unfolding customFolderCounts_def
    by (subst fold_count [where n = "\<lambda>m. if dm_folder m \<noteq> ''trash'' \<and> nonempty (dm_folderId m) \<and> filled (dm_folderId m) = fo_id cf then 1 else 0"])
      (auto simp: count_bump sum_list_indicator)
  then have customs: "count_of (customFolderCounts w) (fo_id cf) = length (filteredMessages (w\<lparr>activeCustomFolder := Some cf\<rparr>))"
    by (simp add: shown custom)
  have "count_of (labelCounts w) (la_id lab) = sum_list (map (\<lambda>m. if dm_folder m \<noteq> ''trash'' then count_list (label_ids m) (la_id lab) else 0) (messages w))"
    unfolding labelCounts_def
    by (subst fold_count [where n = "\<lambda>m. if dm_folder m \<noteq> ''trash'' then count_list (label_ids m) (la_id lab) else 0"]) (auto simp: count_labels)
  also have "\<dots> = sum_list (map (\<lambda>m. if has_label (la_id lab) m \<and> dm_folder m \<noteq> ''trash'' then 1 else 0) (messages w))"
    using assms(2) by (intro arg_cong [where f = sum_list] map_cong) (auto simp: count_list_distinct has_label_def label_ids_def split: option.splits)
  also have "\<dots> = length (filteredMessages (w\<lparr>activeCustomFolder := None, activeLabel := Some lab\<rparr>))"
    by (simp add: sum_list_indicator shown match_folder_def [abs_def])
  finally show ?thesis using folders customs by simp
qed

end
