(* ===== verification/App_Load.thy ===== *)
theory App_Load
  imports App_View "HOL-Library.Sublist"
begin

text \<open>
  Loading a mailbox (App.tsx, \<open>loadMailboxData\<close>, lines 1739 to 1963): drafts, messages, folders, labels
  and attachments are fetched together, turned into the rows of the message list, and then previews,
  appearance settings and read receipts are added in the background.

  The five requests are sent before any of them is awaited, so all are sent whatever the outcomes. The
  three background tasks are modelled as running one after the other. The dynamic import of the core
  succeeds. \<open>P\<close> and \<open>now\<close> are the platform's date functions and clock.
\<close>

section \<open>Texts\<close>

text \<open>\<open>text.match(/^Subject:\s*(.*)$/im)\<close>: the first line that starts with the word; the white space may
  cross line ends.\<close>

definition starts_subject :: "string \<Rightarrow> bool" where
  "starts_subject s \<longleftrightarrow> startsWith (toLowerCase s) ''subject:''"

fun subject_match_at :: "bool \<Rightarrow> string \<Rightarrow> string option" where
  "subject_match_at line_start [] = None"
| "subject_match_at line_start (c # s) =
     (if line_start \<and> starts_subject (c # s)
      then Some (takeWhile (\<lambda>d. \<not> is_line_end d) (dropWhile is_ws (drop 8 (c # s))))
      else subject_match_at (is_line_end c) s)"

definition subject_match :: "string \<Rightarrow> string option" where
  "subject_match s = subject_match_at True s"

text \<open>\<open>text.split(/\r?\n\r?\n/)\<close>\<close>

definition line_break :: "string \<Rightarrow> nat" where
  "line_break s =
     (if startsWith s [CHR 13, CHR 10] then 2 else if startsWith s [CHR 10] then 1 else 0)"

definition blank_line :: "string \<Rightarrow> nat" where
  "blank_line s =
     (let a = line_break s; b = line_break (drop a s) in if a = 0 \<or> b = 0 then 0 else a + b)"

function split_blank :: "string \<Rightarrow> string list" where
  "split_blank [] = [[]]"
| "split_blank (c # s) =
     (if blank_line (c # s) > 0 then [] # split_blank (drop (blank_line (c # s)) (c # s))
      else case split_blank s of [] \<Rightarrow> [[c]] | w # ws \<Rightarrow> (c # w) # ws)"
  by pat_completeness auto
termination
  by (relation "measure length") auto

text \<open>\<open>text.replace(/\s+/g, " ")\<close>\<close>

fun collapse_ws :: "string \<Rightarrow> string" where
  "collapse_ws [] = []"
| "collapse_ws (c # s) =
     (if is_ws c then (if s \<noteq> [] \<and> is_ws (hd s) then collapse_ws s else CHR '' '' # collapse_ws s)
      else c # collapse_ws s)"

definition mail_body :: "string \<Rightarrow> string" where
  "mail_body plaintext =
     (let parts = split_blank plaintext
      in if 1 < length parts then join (newline @ newline) (tl parts) else plaintext)"

definition mail_subject :: "string \<Rightarrow> string \<Rightarrow> string" where
  "mail_subject plaintext fallback =
     (case subject_match plaintext of Some s \<Rightarrow> if s = [] then fallback else trim s | None \<Rightarrow> fallback)"

definition mail_snippet :: "string \<Rightarrow> string" where
  "mail_snippet bodyText = collapse_ws (take 100 (trim bodyText))"

definition clipped :: "string \<Rightarrow> string" where
  "clipped t = take 80 t @ (if 80 < length t then ellipsis else [])"

section \<open>Rows\<close>

fun dedup_names :: "('a \<Rightarrow> string) \<Rightarrow> string list \<Rightarrow> 'a list \<Rightarrow> 'a list" where
  "dedup_names name seen [] = []"
| "dedup_names name seen (item # rest) =
     (let k = toLowerCase (trim (name item))
      in if k \<in> set seen then dedup_names name seen rest else item # dedup_names name (k # seen) rest)"

definition deduplicateByName :: "('a \<Rightarrow> string) \<Rightarrow> 'a list \<Rightarrow> 'a list" where
  "deduplicateByName name rest = dedup_names name [] rest"

definition attachmentsByMsgId :: "json list \<Rightarrow> string \<Rightarrow> json list" where
  "attachmentsByMsgId atts =
     fold (\<lambda>att m. let i = text_prop ''message_id'' att in if i = [] then m else m(i := m i @ [att])) atts (\<lambda>_. [])"

definition getAttachmentExt :: "string \<Rightarrow> string" where
  "getAttachmentExt filename =
     (let ext = toUpperCase (last (split_char (CHR ''.'') filename)) in if 4 < length ext then take 4 ext else ext)"

definition time_format_of :: "string \<Rightarrow> time_format" where
  "time_format_of s = (if s = ''12h'' then H12 else H24)"

fun traverse :: "('a \<Rightarrow> js_error + 'b) \<Rightarrow> 'a list \<Rightarrow> js_error + 'b list" where
  "traverse f [] = Inr []"
| "traverse f (x # xs) = bind_err (f x) (\<lambda>y. bind_err (traverse f xs) (\<lambda>ys. Inr (y # ys)))"

definition realMessage ::
  "date_platform \<Rightarrow> int \<Rightarrow> (string \<Rightarrow> json list) \<Rightarrow> 'z mail_state_scheme \<Rightarrow> json \<Rightarrow> js_error + display_message" where
  "realMessage P now byMsg w m =
     bind_err (need (Some m)) (\<lambda>_.
     bind_err (case strings_prop ''recipients'' m of Some rs \<Rightarrow> Inr rs | None \<Rightarrow> throw_msg ''TypeError'') (\<lambda>recipients.
     let i = text_prop ''id'' m;
         msgAtts = byMsg i;
         uniqueTypes = uniq (filter (\<lambda>t. t \<noteq> []) (map (\<lambda>a. getAttachmentExt (text_prop ''filename'' a)) msgAtts));
         attCount = (if msgAtts \<noteq> [] then length msgAtts else if bool_prop ''has_attachments'' m then 1 else 0);
         folder = text_prop ''folder'' m
     in Inr \<lparr>dm_id = i, dm_messageSeq = int_prop ''message_seq'' m, dm_version = None,
             dm_folder = or_else (if folder = ''custom'' then ''inbox'' else folder)
                           (if text_prop ''direction'' m = ''sent'' then ''sent'' else ''inbox''),
             dm_folderId = (if nonempty (str_prop ''folder_id'' m) then str_prop ''folder_id'' m else None),
             dm_labelIds = Some (case strings_prop ''label_ids'' m of Some ls \<Rightarrow> ls | None \<Rightarrow> []),
             dm_sender = text_prop ''sender'' m, dm_recipient = join '', '' recipients,
             dm_subject = or_else (filled (getItem (sessionStorage w) (''byos_msg_subject_'' @ i))) ''(Encrypted message)'',
             dm_snippet = or_else (filled (getItem (sessionStorage w) (''byos_msg_snippet_'' @ i)))
                            (''Encrypted payload '' @ bullet @ '' '' @ text_prop ''storage_object_id'' m),
             dm_encryptedBody = text_prop ''storage_object_id'' m,
             dm_date = formatMessageDate P now (DString (or_else (text_prop ''sent_at'' m) (text_prop ''received_at'' m)))
                         (time_format_of (timeFormat w)) (language w),
             dm_read = bool_prop ''is_read'' m, dm_starred = False, dm_isRealApi = True, dm_messageId = Some i,
             dm_hasAttachments = (bool_prop ''has_attachments'' m \<or> msgAtts \<noteq> []),
             dm_attachmentCount = attCount, dm_attachmentTypes = uniqueTypes,
             dm_trackingToken = None, dm_trackingInfo = None\<rparr>))"

text \<open>The mailbox key, when it is the key of this mailbox.\<close>

definition unlocked_key :: "string \<Rightarrow> 'z core_state_scheme \<Rightarrow> byte list option" where
  "unlocked_key boxId w = (if unlockedBoxId w = Some boxId then mailboxKey w else None)"

definition draft_snippet :: "wasm_core \<Rightarrow> byte list option \<Rightarrow> string \<Rightarrow> string \<Rightarrow> string" where
  "draft_snippet W key mailboxId envelope =
     (case key of
        Some k \<Rightarrow> if envelope \<noteq> []
                  then (case decryptDraftEnvelope W k mailboxId envelope of
                          Inr t \<Rightarrow> clipped t | Inl _ \<Rightarrow> ''Encrypted draft (decryption failed).'')
                  else ''Draft payload'' @ ellipsis
      | None \<Rightarrow> if envelope = [] then ''Draft payload'' @ ellipsis
                else ''Encrypted draft '' @ em_dash @ '' unlock mailbox to preview.'')"

definition user_email :: "'z core_state_scheme \<Rightarrow> string" where
  "user_email w = or_else (case currentUser w of Some u \<Rightarrow> u_email u | None \<Rightarrow> []) ''me@byos.local''"

definition draftMessage ::
  "wasm_core \<Rightarrow> date_platform \<Rightarrow> int \<Rightarrow> string \<Rightarrow> 'z mail_state_scheme \<Rightarrow> json \<Rightarrow> js_error + display_message" where
  "draftMessage W P now mailboxId w d =
     bind_err (need (Some d)) (\<lambda>_.
     let envelope = text_prop ''encrypted_envelope'' d
     in Inr \<lparr>dm_id = text_prop ''id'' d, dm_messageSeq = None, dm_version = int_prop ''version'' d, dm_folder = ''drafts'',
             dm_folderId = None, dm_labelIds = None, dm_sender = user_email w,
             dm_recipient = or_else (text_prop ''recipient'' d) ''(no recipient)'',
             dm_subject = or_else (text_prop ''subject'' d) ''(no subject)'',
             dm_snippet = draft_snippet W (unlocked_key mailboxId w) mailboxId envelope,
             dm_encryptedBody = or_else envelope ''Encrypted draft envelope'',
             dm_date = formatMessageDate P now (DString (text_prop ''created_at'' d)) (time_format_of (timeFormat w)) (language w),
             dm_read = True, dm_starred = False, dm_isRealApi = True, dm_messageId = None, dm_hasAttachments = False,
             dm_attachmentCount = 0, dm_attachmentTypes = [], dm_trackingToken = None, dm_trackingInfo = None\<rparr>)"

section \<open>Background tasks\<close>

definition body_input :: "int \<Rightarrow> json \<Rightarrow> message_input" where
  "body_input seq body =
     \<lparr>message_seq = of_int seq, encryption_version = nat (case int_prop ''encryption_version'' body of Some n \<Rightarrow> n | None \<Rightarrow> 0),
      encrypted_body = text_prop ''encrypted_body'' body, content_key_hpke_wrapped = text_prop ''content_key_hpke_wrapped'' body\<rparr>"

definition preview_message ::
  "net \<Rightarrow> wasm_core \<Rightarrow> byte list \<Rightarrow> string \<Rightarrow> display_message \<Rightarrow> 'z mail_state_scheme \<Rightarrow> 'z mail_state_scheme" where
  "preview_message N W key mailboxId m w =
     (if nonempty (getItem (sessionStorage w) (''byos_msg_subject_'' @ dm_id m)) then w
      else case io_bind (fetchMessageBody N mailboxId (dm_id m)) (\<lambda>v. io_lift (bind_err (need v)
                  (\<lambda>body. case dm_messageSeq m of None \<Rightarrow> throw_msg ''Invalid message sequence.''
                          | Some seq \<Rightarrow> decryptMessageEnvelope W key mailboxId (body_input seq body)))) w of
             (Inl _, w1) \<Rightarrow> w1
           | (Inr plaintext, w1) \<Rightarrow>
               (let sub = mail_subject plaintext (dm_subject m); snip = mail_snippet (mail_body plaintext)
                in w1\<lparr>sessionStorage := setItem (''byos_msg_snippet_'' @ dm_id m) snip
                        (setItem (''byos_msg_subject_'' @ dm_id m) sub (sessionStorage w1)),
                      messages := map (on_key dm_id (dm_id m) (\<lambda>x. x\<lparr>dm_subject := sub, dm_snippet := snip\<rparr>)) (messages w1)\<rparr>))"

definition store_pref :: "string \<Rightarrow> string \<Rightarrow> 'z core_state_scheme \<Rightarrow> 'z core_state_scheme" where
  "store_pref k v w = w\<lparr>localStorage := setItem k v (localStorage w)\<rparr>"

definition apply_settings :: "net \<Rightarrow> json \<Rightarrow> 'z core_state_scheme \<Rightarrow> 'z core_state_scheme" where
  "apply_settings N s w =
     (let pick = (\<lambda>k f w. if text_prop k s = [] then w else f (text_prop k s) w);
          w1 = pick ''density'' (\<lambda>v w. store_pref ''byos_density'' v (w\<lparr>density := v\<rparr>)) w;
          w2 = pick ''layout_mode'' (\<lambda>v w. store_pref ''byos_layout'' v (w\<lparr>layoutMode := v\<rparr>)) w1;
          w3 = pick ''theme'' (\<lambda>v. handleSetTheme N v False) w2;
          w4 = pick ''language'' (\<lambda>v w. store_pref ''byos_language'' v (w\<lparr>language := v\<rparr>)) w3;
          w5 = pick ''time_format'' (\<lambda>v w. store_pref ''byos_time_format'' v (w\<lparr>timeFormat := v\<rparr>)) w4
      in pick ''week_start'' (\<lambda>v w. store_pref ''byos_week_start'' v (w\<lparr>weekStart := v\<rparr>)) w5)"

definition load_settings :: "net \<Rightarrow> string \<Rightarrow> 'z core_state_scheme \<Rightarrow> 'z core_state_scheme" where
  "load_settings N mailboxId w =
     (case io_bind (fetchMailboxSettings N mailboxId) (\<lambda>v. io_lift (need v)) w of
        (Inl _, w1) \<Rightarrow> w1 | (Inr s, w1) \<Rightarrow> apply_settings N s w1)"

definition track_key :: "string \<Rightarrow> string \<Rightarrow> string" where
  "track_key subject recipient = toLowerCase (trim subject) @ '':::'' @ toLowerCase (trim recipient)"

definition tracked :: "json list \<Rightarrow> display_message \<Rightarrow> json option" where
  "tracked trackList m =
     (let byToken = (\<lambda>t. find (\<lambda>item. text_prop ''tracking_token'' item = t \<and> t \<noteq> []) (rev trackList));
          byKey = (\<lambda>k. find (\<lambda>item. track_key (text_prop ''subject'' item) (text_prop ''recipient'' item) = k) (rev trackList))
      in case (if nonempty (dm_trackingToken m) then byToken (filled (dm_trackingToken m)) else None) of
           Some item \<Rightarrow> Some item
         | None \<Rightarrow> byKey (track_key (dm_subject m) (dm_recipient m)))"

definition apply_tracking :: "json list \<Rightarrow> display_message \<Rightarrow> display_message" where
  "apply_tracking trackList m =
     (case tracked trackList m of
        None \<Rightarrow> m
      | Some item \<Rightarrow> m\<lparr>dm_trackingToken := str_prop ''tracking_token'' item,
          dm_trackingInfo := Some \<lparr>ti_openCount = (case int_prop ''open_count'' item of Some n \<Rightarrow> n | None \<Rightarrow> 0),
            ti_firstOpenedAt = str_prop ''first_opened_at'' item, ti_lastOpenedAt = str_prop ''last_opened_at'' item\<rparr>\<rparr>)"

definition load_tracking :: "net \<Rightarrow> string \<Rightarrow> 'z mail_state_scheme \<Rightarrow> 'z mail_state_scheme" where
  "load_tracking N mailboxId w =
     (case fetchTrackingList N mailboxId w of
        (Inr (Some (JArr trackList)), w1) \<Rightarrow>
          if trackList = [] \<or> JNull \<in> set trackList then w1
          else w1\<lparr>messages := map (apply_tracking trackList) (messages w1)\<rparr>
      | (_, w1) \<Rightarrow> w1)"

section \<open>Loading\<close>

definition storage_banner :: string where
  "storage_banner = ''Mailbox storage is currently disconnected or unreachable. Inbound emails are held safely at the mail transfer agent and will deliver automatically once storage is reconnected.''"

definition storage_error :: "string \<Rightarrow> bool" where
  "storage_error msg \<longleftrightarrow> str_includes msg ''503'' \<or> str_includes msg ''storage_disconnected'' \<or> str_includes msg ''storage disconnected''"

definition load_failed :: "js_error \<Rightarrow> 'z core_state_scheme \<Rightarrow> 'z core_state_scheme" where
  "load_failed e w = (if storage_error (err_message e) then w\<lparr>storageErrorBanner := Some storage_banner\<rparr> else w)"

definition show_mailbox ::
  "net \<Rightarrow> wasm_core \<Rightarrow> date_platform \<Rightarrow> int \<Rightarrow> string \<Rightarrow> json list \<Rightarrow> json list \<Rightarrow> json list \<Rightarrow> 'z mail_state_scheme \<Rightarrow> 'z mail_state_scheme" where
  "show_mailbox N W P now mailboxId draftsList messageList attachmentList w =
     (case traverse (realMessage P now (attachmentsByMsgId attachmentList) w) messageList of
        Inl e \<Rightarrow> load_failed e w
      | Inr realMessages \<Rightarrow>
          (case traverse (draftMessage W P now mailboxId w) draftsList of
             Inl e \<Rightarrow> load_failed e w
           | Inr draftMessages \<Rightarrow>
               (let w1 = w\<lparr>messages := realMessages @ draftMessages\<rparr>;
                    w2 = (case unlocked_key mailboxId w of
                            Some key \<Rightarrow> fold (preview_message N W key mailboxId) realMessages w1 | None \<Rightarrow> w1)
                in load_tracking N mailboxId (load_settings N mailboxId w2))))"

definition loadMailboxData ::
  "net \<Rightarrow> wasm_core \<Rightarrow> date_platform \<Rightarrow> int \<Rightarrow> string \<Rightarrow> 'z mail_state_scheme \<Rightarrow> 'z mail_state_scheme" where
  "loadMailboxData N W P now mailboxId w =
     (let (draftsList, w1) = fetchDrafts N mailboxId (w\<lparr>storageErrorBanner := None\<rparr>);
          (messageList, w2) = fetchMessages N mailboxId w1;
          (folderList, w3) = fetchFolders N mailboxId w2;
          (labelList, w4) = fetchLabels N mailboxId w3;
          (attachmentList, w5) = fetchAttachments N mailboxId w4
      in case bind_err draftsList (\<lambda>d. bind_err messageList (\<lambda>m. bind_err folderList (\<lambda>f. bind_err labelList (\<lambda>l.
              bind_err attachmentList (\<lambda>a. Inr (d, m, f, l, a)))))) of
           Inl e \<Rightarrow> load_failed e w5
         | Inr (d, m, f, l, a) \<Rightarrow>
             show_mailbox N W P now mailboxId d m a
               (w5\<lparr>customFolders := deduplicateByName fo_name (map folder_of f),
                   labels := deduplicateByName la_name (map label_of l)\<rparr>))"

section \<open>Lemmas\<close>

lemma dedup_names_spec:
  "distinct (map (\<lambda>x. toLowerCase (trim (name x))) (dedup_names name seen xs))
   \<and> (\<lambda>x. toLowerCase (trim (name x))) ` set (dedup_names name seen xs) = (\<lambda>x. toLowerCase (trim (name x))) ` set xs - set seen
   \<and> subseq (dedup_names name seen xs) xs"
proof (induction xs arbitrary: seen)
  case (Cons x xs)
  then show ?case
  proof (cases "toLowerCase (trim (name x)) \<in> set seen")
    case True
    then show ?thesis using Cons [of seen] by (auto simp: Let_def)
  next
    case False
    have "toLowerCase (trim (name x)) \<notin> (\<lambda>x. toLowerCase (trim (name x))) ` set (dedup_names name (toLowerCase (trim (name x)) # seen) xs)"
      using Cons [of "toLowerCase (trim (name x)) # seen"] by auto
    with False Cons [of "toLowerCase (trim (name x)) # seen"] show ?thesis
      by (auto simp: Let_def)
  qed
qed simp

text \<open>A part of a run that only sends requests for reading, keeps the keys and the accounts, and writes only the
  named entries of the storages.\<close>

definition pref_keys :: "string set" where
  "pref_keys = {''byos_density'', ''byos_layout'', ''byos_theme'', ''byos_language'', ''byos_time_format'', ''byos_week_start''}"

definition cache_key :: "string \<Rightarrow> bool" where
  "cache_key k \<longleftrightarrow> startsWith k ''byos_msg_''"

definition read_only :: "'z mail_state_scheme \<Rightarrow> 'z mail_state_scheme \<Rightarrow> bool" where
  "read_only w w' \<longleftrightarrow>
     (\<exists>rs. sent w' = sent w @ rs \<and> list_all (\<lambda>r. req_method r = ''GET'' \<and> req_body r = None) rs)
     \<and> mailboxKey w' = mailboxKey w \<and> searchKey w' = searchKey w \<and> unlockedBoxId w' = unlockedBoxId w
     \<and> connectedAccounts w' = connectedAccounts w \<and> selectedMailbox w' = selectedMailbox w \<and> currentUser w' = currentUser w
     \<and> (\<forall>k. k \<in> pref_keys \<or> getItem (localStorage w') k = getItem (localStorage w) k)
     \<and> (\<forall>k. cache_key k \<or> getItem (sessionStorage w') k = getItem (sessionStorage w) k)"

lemma read_only_refl [intro]: "read_only w w"
  by (simp add: read_only_def)

lemma read_only_trans:
  assumes "read_only w v" "read_only v u"
  shows "read_only w u"
proof -
  from assms obtain rs rs' where "sent v = sent w @ rs" "sent u = sent v @ rs'"
    "list_all (\<lambda>r. req_method r = ''GET'' \<and> req_body r = None) (rs @ rs')"
    by (auto simp: read_only_def)
  then have "\<exists>qs. sent u = sent w @ qs \<and> list_all (\<lambda>r. req_method r = ''GET'' \<and> req_body r = None) qs" by auto
  moreover have "k \<in> pref_keys \<or> getItem (localStorage u) k = getItem (localStorage w) k" for k
    using assms by (auto simp: read_only_def dest!: spec [where x = k])
  moreover have "cache_key k \<or> getItem (sessionStorage u) k = getItem (sessionStorage w) k" for k
    using assms by (auto simp: read_only_def dest!: spec [where x = k])
  ultimately show ?thesis using assms unfolding read_only_def by simp
qed

lemma read_only_get: "read_only w (w\<lparr>sent := sent w @ [api_request N p ''GET'' None (sessionStorage w)]\<rparr>)"
  by (simp add: read_only_def api_request_def)

lemma read_only_update:
  "read_only w (v\<lparr>messages := ms\<rparr>) = read_only w v" "read_only w (v\<lparr>customFolders := fs\<rparr>) = read_only w v"
  "read_only w (v\<lparr>labels := ls\<rparr>) = read_only w v" "read_only w (v\<lparr>storageErrorBanner := b\<rparr>) = read_only w v"
  "read_only (v\<lparr>storageErrorBanner := b\<rparr>) w = read_only v w"
  by (simp_all add: read_only_def)

lemma read_only_fold: "(\<And>x v. read_only v (f x v)) \<Longrightarrow> read_only w u \<Longrightarrow> read_only w (fold f xs u)"
proof (induction xs arbitrary: u)
  case (Cons x xs)
  then show ?case using read_only_trans [of w u "f x u"] by simp
qed simp

text \<open>The reading endpoints.\<close>

lemma endpoint_state:
  "snd (fetchDrafts N b w) = snd (apiRequest N (''/v1/mailboxes/'' @ b @ ''/drafts'') ''GET'' None w)"
  "snd (fetchMessages N b w) = snd (apiRequest N (''/v1/mailboxes/'' @ b @ ''/messages'') ''GET'' None w)"
  "snd (fetchFolders N b w) = snd (apiRequest N (''/v1/mailboxes/'' @ b @ ''/folders'') ''GET'' None w)"
  "snd (fetchLabels N b w) = snd (apiRequest N (''/v1/mailboxes/'' @ b @ ''/labels'') ''GET'' None w)"
  "snd (fetchAttachments N b w) = snd (apiRequest N (''/v1/mailboxes/'' @ b @ ''/attachments'') ''GET'' None w)"
  by (simp_all add: fetchDrafts_def fetchMessages_def fetchFolders_def fetchLabels_def fetchAttachments_def
      io_catch_def io_bind_def apiRequest_eq split: sum.splits)

lemma endpoints_read_only:
  "read_only w (snd (fetchDrafts N b w))" "read_only w (snd (fetchMessages N b w))" "read_only w (snd (fetchFolders N b w))"
  "read_only w (snd (fetchLabels N b w))" "read_only w (snd (fetchAttachments N b w))"
  unfolding endpoint_state apiRequest_eq snd_conv by (rule read_only_get)+

lemma get_call_frame:
  assumes "io_bind (apiRequest N p ''GET'' None) (\<lambda>v. io_lift (f v)) w = (r, w')"
  shows "w' = w\<lparr>sent := sent w @ [api_request N p ''GET'' None (sessionStorage w)]\<rparr>"
  using assms by (auto simp: io_bind_def apiRequest_eq split: sum.splits)

lemma preview_read_only: "read_only w (preview_message N W key b m w)"
proof -
  have "cache_key (''byos_msg_snippet_'' @ i)" "cache_key (''byos_msg_subject_'' @ i)" for i
    by (simp_all add: cache_key_def startsWith_def)
  then have "read_only v (v\<lparr>sessionStorage := setItem (''byos_msg_snippet_'' @ i) a (setItem (''byos_msg_subject_'' @ i) c (sessionStorage v)), messages := ms\<rparr>)"
    for v :: "'a mail_state_scheme" and i a c ms
    unfolding read_only_def by simp
  note cached = read_only_trans [OF _ this]
  show ?thesis
    by (auto simp: preview_message_def fetchMessageBody_def Let_def read_only_get intro!: cached
        dest!: get_call_frame split: prod.splits sum.splits simp del: append.simps)
qed

lemma store_pref_read_only:
  "k \<in> pref_keys \<Longrightarrow> read_only w (store_pref k v w)"
  by (simp add: read_only_def store_pref_def)

lemma settings_read_only: "read_only w (load_settings N b w)"
proof -
  have upd: "read_only v (u\<lparr>density := x\<rparr>) = read_only v u" "read_only v (u\<lparr>layoutMode := x\<rparr>) = read_only v u"
    "read_only v (u\<lparr>language := x\<rparr>) = read_only v u" "read_only v (u\<lparr>timeFormat := x\<rparr>) = read_only v u"
    "read_only v (u\<lparr>weekStart := x\<rparr>) = read_only v u" for x and v u :: "'a mail_state_scheme"
    by (simp_all add: read_only_def)
  have theme: "read_only v (handleSetTheme N x False v)" for x and v :: "'a mail_state_scheme"
    by (auto simp: read_only_def handleSetTheme_def apply_theme_def pref_keys_def)
  have keys: "''byos_density'' \<in> pref_keys" "''byos_layout'' \<in> pref_keys" "''byos_language'' \<in> pref_keys"
    "''byos_time_format'' \<in> pref_keys" "''byos_week_start'' \<in> pref_keys"
    by (simp_all add: pref_keys_def)
  have pref: "read_only v (if t then u else store_pref k x (f u))"
    if "k \<in> pref_keys" "\<And>w'. read_only v (f w') = read_only v w'" "read_only v u" for t k x f and v u :: "'a mail_state_scheme"
    using that by (auto intro: read_only_trans store_pref_read_only)
  note prefs = pref [OF keys(1) upd(1)] pref [OF keys(2) upd(2)] pref [OF keys(3) upd(3)] pref [OF keys(4) upd(4)] pref [OF keys(5) upd(5)]
  have theme': "read_only v (if t then u else handleSetTheme N x False u)" if "read_only v u" for t x and v u :: "'a mail_state_scheme"
    using that by (auto intro: read_only_trans theme)
  have "read_only v (apply_settings N s v)" for s and v :: "'a mail_state_scheme"
    unfolding apply_settings_def Let_def by (intro prefs theme' read_only_refl)
  then show ?thesis
    by (auto simp: load_settings_def fetchMailboxSettings_def dest!: get_call_frame
        intro: read_only_trans [OF read_only_get] read_only_get split: prod.splits sum.splits simp del: append.simps)
qed

lemma tracking_read_only: "read_only w (load_tracking N b w)"
  by (auto simp: load_tracking_def fetchTrackingList_def apiRequest_eq read_only_update read_only_get
      split: sum.splits option.splits json.splits simp del: append.simps)

lemma load_failed_read_only: "read_only w (load_failed e w)"
  by (simp add: load_failed_def read_only_update read_only_refl)

lemma show_mailbox_read_only: "read_only w (show_mailbox N W P now b ds ms as w)"
  by (auto simp: show_mailbox_def Let_def read_only_update intro!: load_failed_read_only read_only_fold preview_read_only
      read_only_trans [OF _ tracking_read_only] read_only_trans [OF _ settings_read_only]
      split: sum.splits option.splits)

lemma load_read_only: "read_only w (loadMailboxData N W P now b w)"
proof -
  let ?w0 = "w\<lparr>storageErrorBanner := None\<rparr>"
  let ?w5 = "snd (fetchAttachments N b (snd (fetchLabels N b (snd (fetchFolders N b (snd (fetchMessages N b (snd (fetchDrafts N b ?w0)))))))))"
  have "read_only ?w0 ?w5"
    by (intro read_only_trans [OF _ endpoints_read_only(5)] read_only_trans [OF _ endpoints_read_only(4)]
        read_only_trans [OF _ endpoints_read_only(3)] read_only_trans [OF _ endpoints_read_only(2)] endpoints_read_only(1))
  then have w5: "read_only w ?w5" by (simp add: read_only_update)
  show ?thesis
    unfolding loadMailboxData_def Let_def
    by (auto simp: case_prod_beta read_only_update w5 intro!: read_only_trans [OF w5 load_failed_read_only]
        read_only_trans [OF _ show_mailbox_read_only] split: sum.splits)
qed

section \<open>Properties\<close>

text \<open>Loading a mailbox only reads. Whatever the server answers, every request it sends is a GET without a
  body, so no decrypted text leaves the browser; the keys, the accounts, the user and the selected mailbox
  stay as they are; local storage changes only in the six appearance settings and session storage only
  in the cached previews.\<close>

theorem load_only_reads:
  "\<exists>rs. sent (loadMailboxData N W P now b w) = sent w @ rs \<and> list_all (\<lambda>r. req_method r = ''GET'' \<and> req_body r = None) rs
     \<and> mailboxKey (loadMailboxData N W P now b w) = mailboxKey w
     \<and> unlockedBoxId (loadMailboxData N W P now b w) = unlockedBoxId w
     \<and> connectedAccounts (loadMailboxData N W P now b w) = connectedAccounts w
     \<and> selectedMailbox (loadMailboxData N W P now b w) = selectedMailbox w
     \<and> (k \<in> {''byos_density'', ''byos_layout'', ''byos_theme'', ''byos_language'', ''byos_time_format'', ''byos_week_start''}
        \<or> getItem (localStorage (loadMailboxData N W P now b w)) k = getItem (localStorage w) k)
     \<and> (startsWith j ''byos_msg_'' \<or> getItem (sessionStorage (loadMailboxData N W P now b w)) j = getItem (sessionStorage w) j)"
proof -
  note r = load_read_only [of w N W P now b, unfolded read_only_def pref_keys_def cache_key_def]
  then obtain rs where "sent (loadMailboxData N W P now b w) = sent w @ rs"
    "list_all (\<lambda>r. req_method r = ''GET'' \<and> req_body r = None) rs" by blast
  with r show ?thesis by (intro exI [of _ rs]) blast
qed

text \<open>The names of a list of folders, as the source compares them.\<close>

definition folder_keys :: "mailbox_folder list \<Rightarrow> string list" where
  "folder_keys fs = map (\<lambda>f. toLowerCase (trim (fo_name f))) fs"

lemma trim_idem [simp]: "trim (trim s) = trim s"
proof -
  have drop: "dropWhile is_ws (dropWhile is_ws t) = dropWhile is_ws t" for t
    by (induction t) auto
  have "dropWhile is_ws (rev (dropWhile is_ws (rev (dropWhile is_ws s)))) = rev (dropWhile is_ws (rev (dropWhile is_ws s)))"
  proof (cases "dropWhile is_ws s")
    case (Cons c t)
    then have "\<not> is_ws c" using hd_dropWhile [of is_ws s] by auto
    then have "\<exists>u. rev (dropWhile is_ws (rev (c # t))) = c # u"
      by (auto simp: dropWhile_append) (metis rev_rev_ident)
    with Cons \<open>\<not> is_ws c\<close> show ?thesis by auto
  next
    case Nil
    show ?thesis unfolding Nil by simp
  qed
  then show ?thesis by (simp add: trim_def drop)
qed

lemma distinct_sort_cmp: "distinct (map f (sort_cmp cmp xs)) = distinct (map f xs)"
  by (metis mset_sort_cmp mset_map mset_eq_imp_distinct_iff)

lemma replace_distinct:
  assumes "distinct (map g xs)" "distinct (map k xs)" "\<And>x. x \<in> set xs \<Longrightarrow> k x \<noteq> i \<Longrightarrow> g x \<noteq> g u"
  shows "distinct (map g (map (on_key k i (\<lambda>_. u)) xs))"
  using assms
proof (induction xs)
  case (Cons x xs)
  have other: "k y \<noteq> i" if "k x = i" "y \<in> set xs" for y
    using Cons.prems(2) that by (metis distinct.simps(2) image_eqI list.set_map list.simps(9))
  then have rest: "map (on_key k i (\<lambda>_. u)) xs = xs" if "k x = i"
    using that by (intro map_idI) (simp add: on_key_def)
  show ?case
  proof (cases "k x = i")
    case True
    have "g y \<noteq> g u" if "y \<in> set xs" for y
      using Cons.prems(3) [of y] other [OF True that] that by simp
    then have "g u \<notin> g ` set xs" by (metis imageE)
    moreover have "on_key k i (\<lambda>_. u) x = u" using True by (simp add: on_key_def)
    ultimately show ?thesis
      using rest [OF True] Cons.prems(1) by (simp del: map_map)
  next
    case False
    then have "g x \<notin> g ` set (map (on_key k i (\<lambda>_. u)) xs)"
      using Cons.prems by (auto simp: on_key_def split: if_splits)
    moreover have "on_key k i (\<lambda>_. u) x = x" using False by (simp add: on_key_def)
    ultimately show ?thesis using Cons by (simp del: map_map)
  qed
qed simp

text \<open>Folder names. Loading removes folders whose name repeats an earlier one (up to case and surrounding white
  space) and loses no name; and when names and identifiers of the folders are unique and the server
  stores the name it is given, saving a folder keeps the names unique.\<close>

theorem folder_names_unique:
  assumes "distinct (folder_keys (customFolders w))" "distinct (map fo_id (customFolders w))"
    and "\<forall>p meth bdy v. fst (apiRequest N p meth bdy w) = Inr (Some v) \<longrightarrow> str_prop ''name'' v = Some (trim name)"
  shows "distinct (folder_keys (customFolders (handleSaveFolder N lc name parent notify w)))
    \<and> distinct (folder_keys (deduplicateByName fo_name fs))
    \<and> set (folder_keys (deduplicateByName fo_name fs)) = set (folder_keys fs)"
proof -
  have dd: "distinct (folder_keys (deduplicateByName fo_name fs))"
    "set (folder_keys (deduplicateByName fo_name fs)) = set (folder_keys fs)"
    using dedup_names_spec [of fo_name "[]" fs] by (simp_all add: folder_keys_def deduplicateByName_def)
  have named: "fo_name (folder_of v) = trim name \<and> customFolders w1 = customFolders w"
    if "io_bind (apiRequest N p meth bdy) (\<lambda>v. io_lift (need v)) w = (Inr v, w1)" for p meth bdy v w1
  proof -
    from that obtain v' where "fst (apiRequest N p meth bdy w) = Inr (Some v')" "v' = v"
      by (auto simp: io_bind_def apiRequest_eq need_def split: sum.splits option.splits json.splits)
    with assms(3) need_call_frame [OF that] show ?thesis by (simp add: folder_of_def filled_def)
  qed
  have failed: "customFolders w1 = customFolders w"
    if "io_bind (apiRequest N p meth bdy) (\<lambda>v. io_lift (need v)) w = (Inl e, w1)" for p meth bdy e w1
    using need_call_frame [OF that] by simp
  have "distinct (folder_keys (customFolders (handleSaveFolder N lc name parent notify w)))"
  proof (cases "selectedMailbox w")
    case (Some box)
    let ?prev = "customFolders w" and ?k = "\<lambda>f. toLowerCase (trim (fo_name f))"
    have edit: "distinct (folder_keys (sort_cmp c (map (on_key fo_id (fo_id e) (\<lambda>_. u)) ?prev)))"
      if "fo_name u = trim name" "\<not> list_ex (\<lambda>f. same_name (fo_name f) (trim name) \<and> fo_id f \<noteq> fo_id e) ?prev" for c e u
      unfolding folder_keys_def distinct_sort_cmp
      using that assms(1,2) by (intro replace_distinct) (auto simp: folder_keys_def list_ex_iff same_name_def)
    have create: "distinct (folder_keys (sort_cmp c (?prev @ [u])))"
      if "fo_name u = trim name" "\<not> list_ex (\<lambda>f. fo_id f = fo_id u \<or> same_name (fo_name f) (trim name)) ?prev" for c u
      unfolding folder_keys_def distinct_sort_cmp
      using that assms(1) by (auto simp: folder_keys_def list_ex_iff same_name_def)
    show ?thesis
      using assms(1) Some
      by (auto simp: handleSaveFolder_def Let_def updateFolder_def createFolder_def
          intro!: edit create split: option.splits prod.splits sum.splits dest!: failed named
          simp del: append.simps)
  qed (simp add: handleSaveFolder_def assms)
  with dd show ?thesis by simp
qed

end
