(* ===== verification/App_Reader.thy ===== *)
theory App_Reader
  imports App_Load
begin

text \<open>
  The rest of the application's state, locking the mailbox, and reading a message (App.tsx,
  \<open>lockMailbox\<close>, \<open>handleDownloadAttachment\<close> and \<open>openMessage\<close>, lines 1964 to 2336).

  \<open>openMessage\<close> suspends at its \<open>await\<close> expressions, and other actions may run before it resumes. It is
  modelled by the continuations that are pending: a task holds what the rest of the function captured.
  A response is computed when its request is sent and is delivered when the task resumes. The theorems
  hold for every interleaving of opening messages, resuming tasks, list actions, reloading and locking.
\<close>

section \<open>State\<close>

record display_contact =
  ct_id :: string
  ct_version :: int
  ct_name :: string
  ct_email :: string
  ct_notes :: string

record draft_ref =
  dr_id :: string
  dr_version :: int

record two_factor =
  tf_challenge_token :: string
  tf_methods :: "string list"
  tf_preferred_method :: string
  tf_destination_masked :: string

datatype reader_task =
    DraftTask nat display_message mailbox "byte list"
  | FetchTask nat display_message mailbox "js_error + json option" "json list"
  | DecryptTask nat display_message mailbox "byte list" "json option"
  | IndexTask string string string "string list"

text \<open>A blob given to the user as a file: its name, content type and bytes.\<close>

type_synonym saved_file = "string \<times> string \<times> byte list"

record app_state = mail_state +
  isDecrypting :: bool
  decryptedContent :: "string option"
  editablePlaintext :: "string option"
  messagePlaintext :: "string option"
  messageAttachments :: "json list"
  downloadingAttachment :: "string option"
  savedFiles :: "saved_file list"
  currentDecryptSeq :: nat
  tasks :: "reader_task list"
  composeOpen :: bool
  composeTo :: string
  composeSubject :: string
  composeBody :: string
  composeBodyHtml :: string
  scheduledTime :: string
  composeTrackOpens :: bool
  composeStatus :: "string option"
  errorMessage :: "string option"
  composeAttachments :: "json list"
  editingDraft :: "draft_ref option"
  contactsOpen :: bool
  contacts :: "display_contact list"
  contactsLoading :: bool
  contactsError :: "string option"
  editingContact :: "display_contact option"
  contactName :: string
  contactEmail :: string
  contactNotes :: string
  loginEmail :: string
  loginPassword :: string
  loginBusy :: bool
  loginError :: "string option"
  useRecoveryPhrase :: bool
  recoveryPhraseInput :: string
  twoFactorChallenge :: "two_factor option"
  twoFactorCodeInput :: string
  cachedPassword :: string
  twoFactorBusy :: bool
  twoFactorError :: "string option"
  selected2FAMethod :: string
  forgotPasswordModalOpen :: bool
  forgotStep :: nat
  forgotEmail :: string
  forgotMethods :: "json list"
  forgotSelectedMethod :: string
  forgotChallengeToken :: string
  forgotDestinationMasked :: string
  forgotCode :: string
  forgotNewPassword :: string
  forgotConfirmPassword :: string
  forgotBusy :: bool
  forgotError :: "string option"
  forgotMailboxId :: string
  forgotOldWrappedSk :: string
  forgotRecoveryPhrase :: string
  showPhraseInput :: bool

text \<open>The initial values of the signals.\<close>

definition initial_app :: "store \<Rightarrow> store \<Rightarrow> app_state" where
  "initial_app session local =
     mail_state.extend (initial_mail session local)
       \<lparr>isDecrypting = False, decryptedContent = None, editablePlaintext = None, messagePlaintext = None,
        messageAttachments = [], downloadingAttachment = None, savedFiles = [], currentDecryptSeq = 0, tasks = [],
        composeOpen = False, composeTo = [], composeSubject = [], composeBody = [], composeBodyHtml = [], scheduledTime = [],
        composeTrackOpens = False, composeStatus = None, errorMessage = None, composeAttachments = [], editingDraft = None,
        contactsOpen = False, contacts = [], contactsLoading = False, contactsError = None, editingContact = None,
        contactName = [], contactEmail = [], contactNotes = [],
        loginEmail = [], loginPassword = [], loginBusy = False, loginError = None, useRecoveryPhrase = False, recoveryPhraseInput = [],
        twoFactorChallenge = None, twoFactorCodeInput = [], cachedPassword = [], twoFactorBusy = False, twoFactorError = None,
        selected2FAMethod = ''totp'', forgotPasswordModalOpen = False, forgotStep = 1, forgotEmail = [], forgotMethods = [],
        forgotSelectedMethod = ''email'', forgotChallengeToken = [], forgotDestinationMasked = [], forgotCode = [],
        forgotNewPassword = [], forgotConfirmPassword = [], forgotBusy = False, forgotError = None, forgotMailboxId = [],
        forgotOldWrappedSk = [], forgotRecoveryPhrase = [], showPhraseInput = False\<rparr>"

type_synonym hmac = "string \<Rightarrow> byte list \<Rightarrow> byte list \<Rightarrow> js_error + byte list"

section \<open>Locking\<close>

definition lockMailbox :: "'z app_state_scheme \<Rightarrow> 'z app_state_scheme" where
  "lockMailbox w =
     w\<lparr>mailboxKey := None, searchKey := None, serverMatchedMsgIds := [], unlockedBoxId := None, selectedIds := [],
       currentPage := 1, selectedMsg := None, decryptedContent := None, editablePlaintext := None, messagePlaintext := None,
       editingDraft := None, contacts := [], contactsOpen := False, editingContact := None, contactName := [],
       contactEmail := [], contactNotes := [], contactsError := None, customFolders := [], labels := [],
       activeCustomFolder := None, activeLabel := None\<rparr>"

section \<open>Attachments of the open message\<close>

definition handleDownloadAttachment :: "net \<Rightarrow> wasm_core \<Rightarrow> json \<Rightarrow> 'z app_state_scheme \<Rightarrow> 'z app_state_scheme" where
  "handleDownloadAttachment N W att w =
     (case selectedMailbox w of
        None \<Rightarrow> w
      | Some box \<Rightarrow>
          (let w0 = w\<lparr>downloadingAttachment := Some (text_prop ''id'' att)\<rparr>;
               filename = text_prop ''filename'' att;
               failed = (\<lambda>e. alert (''Failed to download attachment: '' @ err_message e));
               w1 = (case unlocked_key (mb_id box) w0 of
                       Some key \<Rightarrow>
                         (case downloadAndDecryptAttachment N W (mb_id box) (text_prop ''id'' att) key w0 of
                            (Inl e, w1) \<Rightarrow> failed e w1
                          | (Inr (ct, bs), w1) \<Rightarrow> w1\<lparr>savedFiles := savedFiles w1 @ [(filename, ct, bs)]\<rparr>)
                     | None \<Rightarrow>
                         (case downloadAttachment N (mb_id box) (text_prop ''id'' att) w0 of
                            (Inl e, w1) \<Rightarrow> failed e w1
                          | (Inr (ct, bs), w1) \<Rightarrow>
                              alert (''Attachment downloaded as encrypted file ('' @ filename @ ''.encrypted).'' @ newline @ newline
                                       @ ''Sign in again to download decrypted files.'')
                                (w1\<lparr>savedFiles := savedFiles w1 @ [(filename @ ''.encrypted'', ct, bs)]\<rparr>)))
           in w1\<lparr>downloadingAttachment := None\<rparr>))"

section \<open>Opening a message\<close>

definition show_status :: "string \<Rightarrow> 'z app_state_scheme \<Rightarrow> 'z app_state_scheme" where
  "show_status t w = w\<lparr>decryptedContent := Some t, isDecrypting := False\<rparr>"

text \<open>The part of \<open>openMessage\<close> that runs at once.\<close>

definition openMessage :: "net \<Rightarrow> display_message \<Rightarrow> 'z app_state_scheme \<Rightarrow> 'z app_state_scheme" where
  "openMessage N msg w =
     (let seq = Suc (currentDecryptSeq w);
          w1 = w\<lparr>currentDecryptSeq := seq, selectedMsg := Some msg, isDecrypting := True, decryptedContent := None,
                 editablePlaintext := None, messagePlaintext := None, messageAttachments := []\<rparr>;
          w2 = (if \<not> dm_read msg
                then with_box (\<lambda>box. fire (setMessageRead N (mb_id box) (dm_id msg) True))
                       (w1\<lparr>messages := map (on_key dm_id (dm_id msg) (\<lambda>m. m\<lparr>dm_read := True\<rparr>)) (messages w1)\<rparr>)
                else w1)
      in case selectedMailbox w2 of
           None \<Rightarrow> show_status ''No mailbox selected.'' w2
         | Some box \<Rightarrow>
             if dm_folder msg = ''drafts''
             then (case unlocked_key (mb_id box) w2 of
                     None \<Rightarrow> show_status ''Mailbox is locked. Please sign in with your password to read this draft.'' w2
                   | Some key \<Rightarrow> w2\<lparr>tasks := tasks w2 @ [DraftTask seq msg box key]\<rparr>)
             else (let (body, w3) = fetchMessageBody N (mb_id box) (dm_id msg) w2;
                       (atts, w4) = fetchAttachments N (mb_id box) w3
                   in w4\<lparr>tasks := tasks w4 @ [FetchTask seq msg box body (case atts of Inr as \<Rightarrow> as | Inl _ \<Rightarrow> [])]\<rparr>))"

text \<open>The \<open>catch\<close> block.\<close>

definition open_failed :: "nat \<Rightarrow> js_error \<Rightarrow> 'z app_state_scheme \<Rightarrow> 'z app_state_scheme" where
  "open_failed seq e w =
     (if seq \<noteq> currentDecryptSeq w then w
      else show_status (''Failed to open message: '' @ err_message e)
             (if storage_error (err_message e) then w\<lparr>storageErrorBanner := Some storage_banner\<rparr> else w))"

definition att_message_id :: "json \<Rightarrow> string option" where
  "att_message_id a = (case str_prop ''message_id'' a of Some s \<Rightarrow> Some s | None \<Rightarrow> str_prop ''messageId'' a)"

definition attachments_of :: "display_message \<Rightarrow> json list \<Rightarrow> json list" where
  "attachments_of msg atts =
     (let targetId = (case dm_messageId msg of Some i \<Rightarrow> i | None \<Rightarrow> dm_id msg)
      in filter (\<lambda>a. nonempty (att_message_id a) \<and> att_message_id a = Some targetId) atts)"

text \<open>The draft is decrypted after the import of the core.\<close>

definition resume_draft :: "wasm_core \<Rightarrow> nat \<Rightarrow> display_message \<Rightarrow> mailbox \<Rightarrow> byte list \<Rightarrow> 'z app_state_scheme \<Rightarrow> 'z app_state_scheme" where
  "resume_draft W seq msg box key w =
     (case decryptDraftEnvelope W key (mb_id box) (dm_encryptedBody msg) of
        Inl e \<Rightarrow> open_failed seq e w
      | Inr plaintext \<Rightarrow>
          if seq = currentDecryptSeq w then show_status plaintext (w\<lparr>editablePlaintext := Some plaintext\<rparr>) else w)"

text \<open>The body and the attachments have arrived; the key is read now.\<close>

definition resume_fetch ::
  "nat \<Rightarrow> display_message \<Rightarrow> mailbox \<Rightarrow> js_error + json option \<Rightarrow> json list \<Rightarrow> 'z app_state_scheme \<Rightarrow> 'z app_state_scheme" where
  "resume_fetch seq msg box body atts w =
     (case body of
        Inl e \<Rightarrow> open_failed seq e w
      | Inr b \<Rightarrow>
          if seq \<noteq> currentDecryptSeq w then w
          else (let w1 = w\<lparr>messageAttachments := attachments_of msg atts\<rparr>
                in case (unlocked_key (mb_id box) w1, dm_messageSeq msg) of
                     (Some key, Some _) \<Rightarrow> w1\<lparr>tasks := tasks w1 @ [DecryptTask seq msg box key b]\<rparr>
                   | _ \<Rightarrow> show_status ''Mailbox is locked. Please sign in with your password to decrypt this message.'' w1))"

definition decrypt_body :: "wasm_core \<Rightarrow> display_message \<Rightarrow> mailbox \<Rightarrow> byte list \<Rightarrow> json option \<Rightarrow> js_error + string" where
  "decrypt_body W msg box key body =
     bind_err (need body) (\<lambda>b. decryptMessageEnvelope W key (mb_id box) (body_input (the (dm_messageSeq msg)) b))"

definition shown_text :: "string \<Rightarrow> string" where
  "shown_text plaintext = or_else (trim (mail_body plaintext)) plaintext"

definition resume_decrypt ::
  "wasm_core \<Rightarrow> nat \<Rightarrow> display_message \<Rightarrow> mailbox \<Rightarrow> byte list \<Rightarrow> json option \<Rightarrow> 'z app_state_scheme \<Rightarrow> 'z app_state_scheme" where
  "resume_decrypt W seq msg box key body w =
     (case decrypt_body W msg box key body of
        Inl e \<Rightarrow> open_failed seq e w
      | Inr plaintext \<Rightarrow>
          (let sub = mail_subject plaintext (dm_subject msg);
               snip = mail_snippet (mail_body plaintext);
               w1 = w\<lparr>sessionStorage := setItem (''byos_msg_snippet_'' @ dm_id msg) snip
                        (setItem (''byos_msg_subject_'' @ dm_id msg) sub (sessionStorage w))\<rparr>;
               updatedMsg = msg\<lparr>dm_subject := sub, dm_snippet := or_else snip (dm_snippet msg), dm_read := True\<rparr>;
               w2 = (if seq = currentDecryptSeq w1
                     then show_status (shown_text plaintext)
                            (w1\<lparr>selectedMsg := Some updatedMsg,
                                messages := map (on_key dm_id (dm_id msg) (\<lambda>_. updatedMsg)) (messages w1),
                                messagePlaintext := Some (shown_text plaintext)\<rparr>)
                     else w1)
           in if nonempty (searchKey w2)
              then w2\<lparr>tasks := tasks w2 @
                     [IndexTask (mb_id box) (dm_id msg) (filled (searchKey w2)) (extractKeywords (dm_subject msg @ '' '' @ plaintext))]\<rparr>
              else w2))"

text \<open>One keyword is indexed; errors are ignored.\<close>

definition resume_index ::
  "net \<Rightarrow> hmac \<Rightarrow> string \<Rightarrow> string \<Rightarrow> string \<Rightarrow> string list \<Rightarrow> 'z app_state_scheme \<Rightarrow> 'z app_state_scheme" where
  "resume_index N hm boxId msgId sKey kws w =
     (case kws of
        [] \<Rightarrow> w
      | kw # kws' \<Rightarrow>
          (let w1 = (case computeSearchToken hm sKey kw of
                       Inr tokenHex \<Rightarrow> fire (indexSearchToken N boxId msgId tokenHex) w | Inl _ \<Rightarrow> w)
           in w1\<lparr>tasks := tasks w1 @ [IndexTask boxId msgId sKey kws']\<rparr>))"

definition resume_task :: "net \<Rightarrow> wasm_core \<Rightarrow> hmac \<Rightarrow> reader_task \<Rightarrow> 'z app_state_scheme \<Rightarrow> 'z app_state_scheme" where
  "resume_task N W hm t w =
     (case t of
        DraftTask seq msg box key \<Rightarrow> resume_draft W seq msg box key w
      | FetchTask seq msg box body atts \<Rightarrow> resume_fetch seq msg box body atts w
      | DecryptTask seq msg box key body \<Rightarrow> resume_decrypt W seq msg box key body w
      | IndexTask boxId msgId sKey kws \<Rightarrow> resume_index N hm boxId msgId sKey kws w)"

definition run_task :: "net \<Rightarrow> wasm_core \<Rightarrow> hmac \<Rightarrow> nat \<Rightarrow> 'z app_state_scheme \<Rightarrow> 'z app_state_scheme" where
  "run_task N W hm i w =
     (if i < length (tasks w)
      then resume_task N W hm (tasks w ! i) (w\<lparr>tasks := take i (tasks w) @ drop (Suc i) (tasks w)\<rparr>)
      else w)"

definition handlePrevMessage :: "net \<Rightarrow> date_platform \<Rightarrow> 'z app_state_scheme \<Rightarrow> 'z app_state_scheme" where
  "handlePrevMessage N P w =
     (case currentMsgIndex P w of
        Some idx \<Rightarrow> if 0 < idx then openMessage N (sortedMessages P w ! (idx - 1)) w else w | None \<Rightarrow> w)"

definition handleNextMessage :: "net \<Rightarrow> date_platform \<Rightarrow> 'z app_state_scheme \<Rightarrow> 'z app_state_scheme" where
  "handleNextMessage N P w =
     (case currentMsgIndex P w of
        Some idx \<Rightarrow> if Suc idx < length (sortedMessages P w) then openMessage N (sortedMessages P w ! Suc idx) w else w
      | None \<Rightarrow> w)"

section \<open>Frame of the list actions\<close>

text \<open>A view of the state that no signal of the message list or of the session enters. The list actions and reloading
  leave every such view alone.\<close>

locale mail_frame =
  fixes S :: "'z app_state_scheme \<Rightarrow> 'b"
  assumes frame_updates: "\<And>f w. S (sessionStorage_update f w) = S w" "\<And>f w. S (localStorage_update f w) = S w"
      "\<And>f w. S (sent_update f w) = S w" "\<And>f w. S (currentUser_update f w) = S w"
      "\<And>f w. S (mailboxes_update f w) = S w" "\<And>f w. S (selectedMailbox_update f w) = S w"
      "\<And>f w. S (isLoading_update f w) = S w" "\<And>f w. S (isSetupAccount_update f w) = S w"
      "\<And>f w. S (isImpersonating_update f w) = S w" "\<And>f w. S (impersonateMailboxId_update f w) = S w"
      "\<And>f w. S (impersonateEmail_update f w) = S w" "\<And>f w. S (mailboxKey_update f w) = S w"
      "\<And>f w. S (searchKey_update f w) = S w" "\<And>f w. S (unlockedBoxId_update f w) = S w"
      "\<And>f w. S (storageErrorBanner_update f w) = S w" "\<And>f w. S (signatureText_update f w) = S w"
      "\<And>f w. S (signatureSaved_update f w) = S w" "\<And>f w. S (density_update f w) = S w"
      "\<And>f w. S (layoutMode_update f w) = S w" "\<And>f w. S (theme_update f w) = S w"
      "\<And>f w. S (language_update f w) = S w" "\<And>f w. S (timeFormat_update f w) = S w"
      "\<And>f w. S (weekStart_update f w) = S w" "\<And>f w. S (document_theme_update f w) = S w"
      "\<And>f w. S (document_dark_update f w) = S w" "\<And>f w. S (connectedAccounts_update f w) = S w"
      "\<And>f w. S (addMailboxModalOpen_update f w) = S w" "\<And>f w. S (toastMessage_update f w) = S w"
      "\<And>f w. S (toastTimer_update f w) = S w" "\<And>f w. S (timers_update f w) = S w"
      "\<And>f w. S (nextTimer_update f w) = S w" "\<And>f w. S (alerts_update f w) = S w"
      "\<And>f w. S (currentFolder_update f w) = S w" "\<And>f w. S (messages_update f w) = S w"
      "\<And>f w. S (selectedMsg_update f w) = S w" "\<And>f w. S (searchQuery_update f w) = S w"
      "\<And>f w. S (serverMatchedMsgIds_update f w) = S w" "\<And>f w. S (isSearchingTokens_update f w) = S w"
      "\<And>f w. S (selectedIds_update f w) = S w" "\<And>f w. S (sortOrder_update f w) = S w"
      "\<And>f w. S (currentPage_update f w) = S w" "\<And>f w. S (undoAction_update f w) = S w"
      "\<And>f w. S (customFolders_update f w) = S w" "\<And>f w. S (activeCustomFolder_update f w) = S w"
      "\<And>f w. S (createFolderModalOpen_update f w) = S w" "\<And>f w. S (folderToEdit_update f w) = S w"
      "\<And>f w. S (importEmailsModalOpen_update f w) = S w" "\<And>f w. S (labels_update f w) = S w"
      "\<And>f w. S (activeLabel_update f w) = S w" "\<And>f w. S (createLabelModalOpen_update f w) = S w"
      "\<And>f w. S (labelToEdit_update f w) = S w"
begin

declare frame_updates [simp]

lemma frame_prims [simp]:
  "S (showToast m w) = S w" "S (on_selected p f w) = S w"
  "S (offer_undo i fld w) = S w" "S (clearTimeout t w) = S w"
  "S (alert m w) = S w"
  by (simp_all add: showToast_def on_selected_def offer_undo_def clearTimeout_def setTimeout_def alert_def Let_def split: option.splits)

lemma frame_requests:
  assumes "\<And>b i. \<exists>p meth bdy. r b i = apiRequest N p meth bdy"
  shows "S (with_box (\<lambda>box. fold (\<lambda>i. fire (r (mb_id box) i)) is) w) = S w"
proof -
  obtain p meth bdy where r: "r b i = apiRequest N (p b i) (meth b i) (bdy b i)" for b i
    using assms by metis
  have "S (fold (\<lambda>i. fire (r b i)) is v) = S v" for b v
    by (induction "is" arbitrary: v) (simp_all add: r fire_api)
  then show ?thesis by (simp add: with_box_def split: option.splits)
qed

lemmas frame_box =
  frame_requests [of "\<lambda>b i. setMessageRead N b i rd" N for N rd, OF api_requests(1)]
  frame_requests [of "\<lambda>b i. updateMessageFolder N b i fo fi" N for N fo fi, OF api_requests(2)]
  frame_requests [of "\<lambda>b i. attachMessageLabel N b i l" N for N l, OF api_requests(3)]
  frame_requests [of "\<lambda>b i. detachMessageLabel N b i l" N for N l, OF api_requests(4)]

lemma frame_read: "S (with_box (\<lambda>box. fire (setMessageRead N (mb_id box) i rd)) w) = S w"
  by (simp add: with_box_def setMessageRead_def fire_api split: option.splits)

lemma frame_saves [simp]:
  "S (handleSaveFolder N lc n p nt w) = S w" "S (handleSaveLabel N lc n c cn w) = S w"
  "S (handleDeleteFolder N b fo w) = S w" "S (handleDeleteLabel N b la w) = S w"
  by (auto simp: handleSaveFolder_def handleSaveLabel_def handleDeleteFolder_def handleDeleteLabel_def Let_def
      updateFolder_def createFolder_def updateLabel_def createLabel_def deleteFolder_def deleteLabel_def
      split: option.splits prod.splits sum.splits dest!: need_call_frame api_call_frame simp del: append.simps)

lemma frame_toggle [simp]: "S (toggleMessageLabel N is l w) = S w"
  by (simp add: toggleMessageLabel_def change_labels_def Let_def frame_box)

lemma frame_move [simp]: "S (handleMoveMessages N is f w) = S w"
  by (simp add: handleMoveMessages_def Let_def frame_box)

lemma mail_step_frame: "mail_step N lc w w' \<Longrightarrow> S w' = S w"
  by (cases rule: mail_step.cases, assumption)
    (simp_all add: list_ops Let_def toggleMessageRead_def frame_read handleArchiveMessage_def handleTrashMessage_def move_out_def
      handleUndo_def run_timer_def handleBatchToggleRead_def frame_box handleAttachLabel_def change_labels_def
      handleBatchToggleLabel_def handleBatchMoveTo_def split: option.splits timer_action.splits)

lemma frame_preview: "S (preview_message N W key b m w) = S w"
  by (auto simp: preview_message_def fetchMessageBody_def Let_def dest!: get_call_frame split: prod.splits sum.splits simp del: append.simps)

lemma frame_settings: "S (load_settings N b w) = S w"
proof -
  have "S (apply_settings N s v) = S v" for s and v :: "'z app_state_scheme"
    by (simp add: apply_settings_def Let_def store_pref_def handleSetTheme_def apply_theme_def)
  then show ?thesis
    by (auto simp: load_settings_def fetchMailboxSettings_def dest!: get_call_frame split: prod.splits sum.splits simp del: append.simps)
qed

lemma frame_tracking: "S (load_tracking N b w) = S w"
  by (auto simp: load_tracking_def fetchTrackingList_def apiRequest_eq split: sum.splits option.splits json.splits simp del: append.simps)

lemma frame_load_failed: "S (load_failed e w) = S w"
  by (simp add: load_failed_def)

lemma frame_fold: "(\<And>x v. S (f x v) = S v) \<Longrightarrow> S (fold f xs w) = S w"
  by (induction xs arbitrary: w) simp_all

lemma load_frame: "S (loadMailboxData N W P now b w) = S w"
  by (auto simp: loadMailboxData_def show_mailbox_def Let_def case_prod_beta endpoint_state apiRequest_eq frame_tracking frame_settings
      frame_load_failed frame_fold frame_preview split: sum.splits option.splits simp del: append.simps)

lemma read_frame:
  "S (with_box (\<lambda>box. fire (setMessageRead N (mb_id box) i rd)) w) = S w"
  by (simp add: with_box_def setMessageRead_def fire_api split: option.splits)

lemma fetch_frame: "S (snd (fetchMessageBody N b i w)) = S w" "S (snd (fetchAttachments N b w)) = S w"
  by (simp_all add: fetchMessageBody_def endpoint_state apiRequest_eq del: append.simps)

end

text \<open>The signals of the reader.\<close>

definition reader_sig where
  "reader_sig w = (tasks w, currentDecryptSeq w, decryptedContent w, messagePlaintext w, editablePlaintext w, isDecrypting w)"

interpretation reader_frame: mail_frame reader_sig
  by unfold_locales (simp_all add: reader_sig_def)

declare reader_frame.frame_updates [simp]

section \<open>Interleavings\<close>

text \<open>\<open>reads N W hm P lc m w\<close>: the state \<open>w\<close> is reached, by any interleaving, after \<open>m\<close> was the last message opened.
  Tasks of earlier messages may be pending when it is opened.\<close>

definition task_seq :: "reader_task \<Rightarrow> nat option" where
  "task_seq t = (case t of DraftTask s _ _ _ \<Rightarrow> Some s | FetchTask s _ _ _ _ \<Rightarrow> Some s | DecryptTask s _ _ _ _ \<Rightarrow> Some s | IndexTask _ _ _ _ \<Rightarrow> None)"

definition tasks_bounded :: "'z app_state_scheme \<Rightarrow> bool" where
  "tasks_bounded w \<longleftrightarrow> (\<forall>t \<in> set (tasks w). \<forall>s. task_seq t = Some s \<longrightarrow> s \<le> currentDecryptSeq w)"

inductive reads ::
  "net \<Rightarrow> wasm_core \<Rightarrow> hmac \<Rightarrow> date_platform \<Rightarrow> (string \<Rightarrow> string \<Rightarrow> int) \<Rightarrow> display_message \<Rightarrow> 'z app_state_scheme \<Rightarrow> bool"
  for N W hm P lc where
  first: "tasks_bounded w \<Longrightarrow> reads N W hm P lc m (openMessage N m w)"
| again: "reads N W hm P lc m w \<Longrightarrow> reads N W hm P lc m' (openMessage N m' w)"
| run: "reads N W hm P lc m w \<Longrightarrow> reads N W hm P lc m (run_task N W hm i w)"
| list: "reads N W hm P lc m w \<Longrightarrow> mail_step N lc w w' \<Longrightarrow> reads N W hm P lc m w'"
| load: "reads N W hm P lc m w \<Longrightarrow> reads N W hm P lc m (loadMailboxData N W P now b w)"
| lock: "reads N W hm P lc m w \<Longrightarrow> reads N W hm P lc m (lockMailbox w)"
| close: "reads N W hm P lc m w \<Longrightarrow> reads N W hm P lc m (w\<lparr>selectedMsg := None\<rparr>)"

text \<open>What the server answered to a request for the body of a message.\<close>

definition body_answer :: "net \<Rightarrow> string \<Rightarrow> string \<Rightarrow> js_error + json option \<Rightarrow> bool" where
  "body_answer N boxId msgId body \<longleftrightarrow>
     (\<exists>past session. body = api_response (server N past
        (api_request N (''/v1/mailboxes/'' @ boxId @ ''/messages/'' @ msgId @ ''/body'') ''GET'' None session)))"

definition status_text :: "string \<Rightarrow> bool" where
  "status_text c \<longleftrightarrow> c = ''No mailbox selected.''
     \<or> c = ''Mailbox is locked. Please sign in with your password to read this draft.''
     \<or> c = ''Mailbox is locked. Please sign in with your password to decrypt this message.''
     \<or> startsWith c ''Failed to open message: ''"

text \<open>The plaintext of a message as it is shown, and of a draft.\<close>

definition message_text :: "net \<Rightarrow> wasm_core \<Rightarrow> display_message \<Rightarrow> string \<Rightarrow> bool" where
  "message_text N W m c \<longleftrightarrow>
     (\<exists>box key body plaintext. body_answer N (mb_id box) (dm_id m) (Inr body)
        \<and> decrypt_body W m box key body = Inr plaintext \<and> c = shown_text plaintext)"

definition draft_text :: "wasm_core \<Rightarrow> display_message \<Rightarrow> string \<Rightarrow> bool" where
  "draft_text W m c \<longleftrightarrow>
     dm_folder m = ''drafts'' \<and> (\<exists>key boxId. decryptDraftEnvelope W key boxId (dm_encryptedBody m) = Inr c)"

definition task_of :: "net \<Rightarrow> display_message \<Rightarrow> reader_task \<Rightarrow> bool" where
  "task_of N m t = (case t of
       DraftTask s x box key \<Rightarrow> x = m \<and> dm_folder m = ''drafts''
     | FetchTask s x box body atts \<Rightarrow> x = m \<and> body_answer N (mb_id box) (dm_id m) body
     | DecryptTask s x box key body \<Rightarrow> x = m \<and> body_answer N (mb_id box) (dm_id m) (Inr body)
     | IndexTask _ _ _ _ \<Rightarrow> True)"

text \<open>What is shown, and what the tasks of \<open>m\<close> will show.\<close>

definition reader_rest :: "net \<Rightarrow> wasm_core \<Rightarrow> display_message \<Rightarrow> 'z app_state_scheme \<Rightarrow> bool" where
  "reader_rest N W m w \<longleftrightarrow>
     tasks_bounded w
     \<and> (\<forall>t \<in> set (tasks w). task_seq t = Some (currentDecryptSeq w) \<longrightarrow> task_of N m t)
     \<and> (\<forall>c. decryptedContent w = Some c \<longrightarrow> status_text c \<or> message_text N W m c \<or> draft_text W m c)
     \<and> (\<forall>c. messagePlaintext w = Some c \<longrightarrow> message_text N W m c)
     \<and> (\<forall>c. editablePlaintext w = Some c \<longrightarrow> draft_text W m c)"

text \<open>While the spinner is shown, a task that will end it is pending.\<close>

definition reader_inv :: "net \<Rightarrow> wasm_core \<Rightarrow> display_message \<Rightarrow> 'z app_state_scheme \<Rightarrow> bool" where
  "reader_inv N W m w \<longleftrightarrow>
     reader_rest N W m w \<and> (isDecrypting w \<longrightarrow> (\<exists>t \<in> set (tasks w). task_seq t = Some (currentDecryptSeq w)))"

lemmas reader_defs = reader_inv_def reader_rest_def tasks_bounded_def

text \<open>The invariant depends only on the signals of the reader.\<close>

lemma reader_inv_sig: "reader_sig w' = reader_sig w \<Longrightarrow> reader_inv N W m w' = reader_inv N W m w"
  by (simp add: reader_sig_def reader_defs)

lemma status_texts [simp]:
  "status_text ''No mailbox selected.''" "status_text ''Mailbox is locked. Please sign in with your password to read this draft.''"
  "status_text ''Mailbox is locked. Please sign in with your password to decrypt this message.''"
  "status_text (''Failed to open message: '' @ e)"
  by (simp_all add: status_text_def startsWith_def)

lemma fetchMessageBody_answer: "body_answer N b i (fst (fetchMessageBody N b i w))"
  by (auto simp: body_answer_def fetchMessageBody_def apiRequest_eq)

text \<open>The state right after the signals of the reader were reset.\<close>

lemma opened_inv:
  assumes "tasks_bounded w" "reader_sig v = (tasks w, Suc (currentDecryptSeq w), None, None, None, True)"
  shows "status_text t \<Longrightarrow> reader_inv N W m (show_status t v)"
    and "task_seq x = Some (Suc (currentDecryptSeq w)) \<Longrightarrow> task_of N m x \<Longrightarrow> reader_inv N W m (v\<lparr>tasks := tasks v @ [x]\<rparr>)"
proof -
  have old: "\<forall>t \<in> set (tasks w). \<forall>s. task_seq t = Some s \<longrightarrow> s \<le> currentDecryptSeq w"
    using assms(1) by (simp add: tasks_bounded_def)
  show "reader_inv N W m (show_status t v)" if "status_text t"
    using assms(2) old that by (auto simp: reader_sig_def reader_defs show_status_def le_Suc_eq)
  show "reader_inv N W m (v\<lparr>tasks := tasks v @ [x]\<rparr>)" if "task_seq x = Some (Suc (currentDecryptSeq w))" "task_of N m x"
    using assms(2) old that by (auto simp: reader_sig_def reader_defs le_Suc_eq)
qed

lemma open_inv:
  assumes "tasks_bounded w"
  shows "reader_inv N W m (openMessage N m w)"
proof -
  define w1 where "w1 = w\<lparr>currentDecryptSeq := Suc (currentDecryptSeq w), selectedMsg := Some m, isDecrypting := True, decryptedContent := None,
      editablePlaintext := None, messagePlaintext := None, messageAttachments := []\<rparr>"
  define w2 where "w2 = (if \<not> dm_read m then with_box (\<lambda>box. fire (setMessageRead N (mb_id box) (dm_id m) True))
      (w1\<lparr>messages := map (on_key dm_id (dm_id m) (\<lambda>x. x\<lparr>dm_read := True\<rparr>)) (messages w1)\<rparr>) else w1)"
  have "reader_sig w1 = (tasks w, Suc (currentDecryptSeq w), None, None, None, True)"
    by (simp add: w1_def reader_sig_def)
  moreover have "reader_sig (w1\<lparr>messages := ms\<rparr>) = reader_sig w1" for ms
    by (simp add: reader_sig_def)
  ultimately have sig: "reader_sig w2 = (tasks w, Suc (currentDecryptSeq w), None, None, None, True)"
    by (simp add: w2_def reader_frame.read_frame)
  note inv = opened_inv [OF assms]
  have fetched: "reader_inv N W m ((snd (fetchAttachments N b (snd (fetchMessageBody N b i w2))))\<lparr>tasks :=
      tasks (snd (fetchAttachments N b (snd (fetchMessageBody N b i w2)))) @ [x]\<rparr>)"
    if "task_seq x = Some (Suc (currentDecryptSeq w))" "task_of N m x" for b i x
    using that sig by (intro inv(2)) (simp_all add: reader_frame.fetch_frame)
  show ?thesis
    unfolding openMessage_def Let_def w1_def [symmetric] w2_def [symmetric] case_prod_beta
    by (auto simp: task_seq_def task_of_def fetchMessageBody_answer split: option.splits
        intro!: inv(1) [OF sig] inv(2) [OF sig] fetched)
qed

lemma rest_show_status:
  "reader_rest N W m w \<Longrightarrow> status_text t \<or> message_text N W m t \<or> draft_text W m t \<Longrightarrow> reader_inv N W m (show_status t w)"
  by (simp add: reader_defs show_status_def)

lemma rest_open_failed:
  assumes "reader_rest N W m w" "seq = currentDecryptSeq w"
  shows "reader_inv N W m (open_failed seq e w)"
proof -
  have "reader_rest N W m (w\<lparr>storageErrorBanner := b\<rparr>)" for b
    using assms(1) by (simp add: reader_defs)
  then show ?thesis
    using assms by (simp add: open_failed_def rest_show_status del: append.simps)
qed

lemma rest_push:
  "reader_rest N W m w \<Longrightarrow> task_seq t = Some (currentDecryptSeq w) \<Longrightarrow> task_of N m t \<Longrightarrow> reader_inv N W m (w\<lparr>tasks := tasks w @ [t]\<rparr>)"
  by (simp add: reader_defs)

lemma inv_push_index: "reader_inv N W m w \<Longrightarrow> reader_inv N W m (w\<lparr>tasks := tasks w @ [IndexTask b i k ks]\<rparr>)"
  by (auto simp: reader_defs task_seq_def)

lemma rest_updates [simp]:
  "reader_rest N W m (w\<lparr>messageAttachments := as\<rparr>) = reader_rest N W m w"
  "reader_rest N W m (w\<lparr>sessionStorage := ss\<rparr>) = reader_rest N W m w"
  "reader_inv N W m (w\<lparr>sessionStorage := ss\<rparr>) = reader_inv N W m w"
  by (simp_all add: reader_defs)

lemma take_out:
  assumes "reader_inv N W m w" "i < length (tasks w)" "w' = w\<lparr>tasks := take i (tasks w) @ drop (Suc i) (tasks w)\<rparr>"
  shows "reader_rest N W m w'" and "task_seq (tasks w ! i) = Some (currentDecryptSeq w) \<Longrightarrow> task_of N m (tasks w ! i)"
    and "task_seq (tasks w ! i) \<noteq> Some (currentDecryptSeq w) \<Longrightarrow> reader_inv N W m w'"
proof -
  have split: "set (tasks w) = insert (tasks w ! i) (set (take i (tasks w)) \<union> set (drop (Suc i) (tasks w)))"
    using id_take_nth_drop [OF assms(2)] by (metis Un_insert_right list.simps(15) set_append)
  show "reader_rest N W m w'" "task_seq (tasks w ! i) = Some (currentDecryptSeq w) \<Longrightarrow> task_of N m (tasks w ! i)"
    "task_seq (tasks w ! i) \<noteq> Some (currentDecryptSeq w) \<Longrightarrow> reader_inv N W m w'"
    using assms(1) unfolding assms(3) reader_defs split by auto
qed

lemma resume_draft_current:
  assumes "reader_rest N W m w" "dm_folder m = ''drafts''"
  shows "reader_inv N W m (resume_draft W (currentDecryptSeq w) m box key w)"
proof (cases "decryptDraftEnvelope W key (mb_id box) (dm_encryptedBody m)")
  case (Inr plaintext)
  then have "draft_text W m plaintext"
    using assms(2) by (auto simp: draft_text_def)
  moreover have "reader_rest N W m (w\<lparr>editablePlaintext := Some plaintext\<rparr>)"
    using assms(1) calculation by (simp add: reader_defs)
  ultimately show ?thesis using Inr by (simp add: resume_draft_def rest_show_status)
qed (simp add: resume_draft_def rest_open_failed assms)

lemma resume_fetch_current:
  assumes "reader_rest N W m w" "body_answer N (mb_id box) (dm_id m) body"
  shows "reader_inv N W m (resume_fetch (currentDecryptSeq w) m box body atts w)"
proof (cases body)
  case (Inr b)
  let ?w = "w\<lparr>messageAttachments := attachments_of m atts\<rparr>"
  have "reader_inv N W m (?w\<lparr>tasks := tasks ?w @ [DecryptTask (currentDecryptSeq w) m box key b]\<rparr>)" for key
    using assms Inr by (intro rest_push) (simp_all add: task_seq_def task_of_def)
  then show ?thesis
    using Inr assms(1) by (auto simp: resume_fetch_def Let_def rest_show_status split: option.splits)
qed (simp add: resume_fetch_def rest_open_failed assms)

text \<open>The keywords are indexed after the message is shown, whether or not it is still the open one.\<close>

lemma decrypt_index:
  assumes "decrypt_body W msg box key body = Inr plaintext"
  shows "\<exists>v. reader_sig v = (if seq = currentDecryptSeq w
           then (tasks w, seq, Some (shown_text plaintext), Some (shown_text plaintext), editablePlaintext w, False) else reader_sig w)
         \<and> (resume_decrypt W seq msg box key body w = v
            \<or> (\<exists>k ks. resume_decrypt W seq msg box key body w = v\<lparr>tasks := tasks v @ [IndexTask (mb_id box) (dm_id msg) k ks]\<rparr>))"
proof -
  define v where "v = (let sub = mail_subject plaintext (dm_subject msg); snip = mail_snippet (mail_body plaintext);
      w1 = w\<lparr>sessionStorage := setItem (''byos_msg_snippet_'' @ dm_id msg) snip
               (setItem (''byos_msg_subject_'' @ dm_id msg) sub (sessionStorage w))\<rparr>;
      updatedMsg = msg\<lparr>dm_subject := sub, dm_snippet := or_else snip (dm_snippet msg), dm_read := True\<rparr>
      in if seq = currentDecryptSeq w1
         then show_status (shown_text plaintext) (w1\<lparr>selectedMsg := Some updatedMsg,
                messages := map (on_key dm_id (dm_id msg) (\<lambda>_. updatedMsg)) (messages w1), messagePlaintext := Some (shown_text plaintext)\<rparr>)
         else w1)"
  have "reader_sig v = (if seq = currentDecryptSeq w
           then (tasks w, seq, Some (shown_text plaintext), Some (shown_text plaintext), editablePlaintext w, False) else reader_sig w)"
    by (simp add: v_def Let_def reader_sig_def show_status_def del: append.simps)
  moreover have "resume_decrypt W seq msg box key body w = (if nonempty (searchKey v)
      then v\<lparr>tasks := tasks v @ [IndexTask (mb_id box) (dm_id msg) (filled (searchKey v)) (extractKeywords (dm_subject msg @ '' '' @ plaintext))]\<rparr> else v)"
    unfolding resume_decrypt_def assms v_def Let_def by (simp only: sum.case)
  ultimately show ?thesis by (metis (no_types))
qed

lemma resume_decrypt_current:
  assumes "reader_rest N W m w" "body_answer N (mb_id box) (dm_id m) (Inr body)"
  shows "reader_inv N W m (resume_decrypt W (currentDecryptSeq w) m box key body w)"
proof (cases "decrypt_body W m box key body")
  case (Inr plaintext)
  then have shown: "message_text N W m (shown_text plaintext)"
    using assms(2) unfolding message_text_def by blast
  obtain v where v: "reader_sig v = (tasks w, currentDecryptSeq w, Some (shown_text plaintext), Some (shown_text plaintext), editablePlaintext w, False)"
    "resume_decrypt W (currentDecryptSeq w) m box key body w = v
     \<or> (\<exists>k ks. resume_decrypt W (currentDecryptSeq w) m box key body w = v\<lparr>tasks := tasks v @ [IndexTask (mb_id box) (dm_id m) k ks]\<rparr>)"
    using decrypt_index [OF Inr, of "currentDecryptSeq w" w] by auto
  have "reader_inv N W m v"
    using v(1) assms(1) shown by (simp add: reader_sig_def reader_defs)
  then show ?thesis using v(2) inv_push_index by metis
qed (simp add: resume_decrypt_def rest_open_failed assms)

lemma resume_index_inv:
  assumes "reader_inv N W m w"
  shows "reader_inv N W m (resume_index N hm b i k ks w)"
proof (cases ks)
  case (Cons kw kws)
  let ?v = "case computeSearchToken hm k kw of Inr t \<Rightarrow> fire (indexSearchToken N b i t) w | Inl _ \<Rightarrow> w"
  have "reader_sig ?v = reader_sig w"
    by (simp add: indexSearchToken_def fire_api split: sum.split del: append.simps)
  then have "reader_inv N W m ?v" using assms reader_inv_sig by blast
  then show ?thesis using Cons by (simp add: resume_index_def Let_def inv_push_index)
qed (simp add: resume_index_def assms)

lemma resume_inv:
  shows "reader_rest N W m w \<Longrightarrow> task_seq t = Some (currentDecryptSeq w) \<Longrightarrow> task_of N m t \<Longrightarrow> reader_inv N W m (resume_task N W hm t w)"
    and "reader_inv N W m w \<Longrightarrow> task_seq t \<noteq> Some (currentDecryptSeq w) \<Longrightarrow> reader_inv N W m (resume_task N W hm t w)"
proof -
  show "reader_inv N W m (resume_task N W hm t w)"
    if "reader_rest N W m w" "task_seq t = Some (currentDecryptSeq w)" "task_of N m t"
    using that by (cases t) (auto simp: resume_task_def task_seq_def task_of_def resume_draft_current resume_fetch_current resume_decrypt_current)
  show "reader_inv N W m (resume_task N W hm t w)" if "reader_inv N W m w" "task_seq t \<noteq> Some (currentDecryptSeq w)"
  proof (cases t)
    case (DecryptTask seq x box key body)
    then have neq: "seq \<noteq> currentDecryptSeq w" using that by (simp add: task_seq_def)
    show ?thesis
    proof (cases "decrypt_body W x box key body")
      case (Inr plaintext)
      then show ?thesis
        using decrypt_index [OF Inr, of seq w] neq that(1) DecryptTask
        by (auto simp: resume_task_def dest: reader_inv_sig [THEN iffD2] intro!: inv_push_index)
    qed (use DecryptTask neq that in \<open>simp add: resume_task_def resume_decrypt_def open_failed_def\<close>)
  qed (use that in \<open>auto simp: resume_task_def task_seq_def resume_draft_def resume_fetch_def open_failed_def resume_index_inv split: sum.splits\<close>)
qed

lemma run_inv:
  assumes "reader_inv N W m w"
  shows "reader_inv N W m (run_task N W hm i w)"
proof (cases "i < length (tasks w)")
  case True
  let ?w = "w\<lparr>tasks := take i (tasks w) @ drop (Suc i) (tasks w)\<rparr>"
  note out = take_out [OF assms True refl]
  show ?thesis
  proof (cases "task_seq (tasks w ! i) = Some (currentDecryptSeq w)")
    case cur: True
    then show ?thesis using True out(1,2) resume_inv(1) [of N W m ?w "tasks w ! i"] by (simp add: run_task_def)
  next
    case False
    then show ?thesis using True out(3) resume_inv(2) [of N W m ?w "tasks w ! i"] by (simp add: run_task_def)
  qed
qed (simp add: run_task_def assms)

lemma lock_inv: "reader_inv N W m w \<Longrightarrow> reader_inv N W m (lockMailbox w)"
  by (simp add: reader_defs lockMailbox_def)

lemma reads_inv: "reads N W hm P lc m w \<Longrightarrow> reader_inv N W m w"
proof (induction rule: reads.induct)
  case (again m w m')
  then show ?case by (intro open_inv) (simp add: reader_defs)
next
  case (list m w w')
  then show ?case using reader_frame.mail_step_frame reader_inv_sig by blast
next
  case (load m w now b)
  then show ?case using reader_frame.load_frame reader_inv_sig by blast
next
  case (close m w)
  then show ?case by (simp add: reader_defs)
qed (simp_all add: open_inv run_inv lock_inv)

section \<open>Termination\<close>

text \<open>A fetch is followed by at most one decryption, a decryption by at most one indexing task, and an indexing task by one
  with fewer keywords.\<close>

definition fetches :: "reader_task \<Rightarrow> nat" where
  "fetches t = (case t of FetchTask _ _ _ _ _ \<Rightarrow> 1 | _ \<Rightarrow> 0)"

definition decrypts :: "reader_task \<Rightarrow> nat" where
  "decrypts t = (case t of DraftTask _ _ _ _ \<Rightarrow> 1 | DecryptTask _ _ _ _ _ \<Rightarrow> 1 | _ \<Rightarrow> 0)"

definition keyword_count :: "reader_task \<Rightarrow> nat" where
  "keyword_count t = (case t of IndexTask _ _ _ ks \<Rightarrow> Suc (length ks) | _ \<Rightarrow> 0)"

definition task_order :: "(reader_task \<times> reader_task) set" where
  "task_order = measures [fetches, decrypts, keyword_count]"

definition total_of :: "(reader_task \<Rightarrow> nat) \<Rightarrow> 'z app_state_scheme \<Rightarrow> nat" where
  "total_of f w = sum_list (map f (tasks w))"

definition state_order :: "('z app_state_scheme \<times> 'z app_state_scheme) set" where
  "state_order = measures [total_of fetches, total_of decrypts, total_of keyword_count]"

lemma resume_tasks:
  "tasks (resume_task N W hm t w) = tasks w \<or> (\<exists>t'. tasks (resume_task N W hm t w) = tasks w @ [t'] \<and> (t', t) \<in> task_order)"
proof (cases t)
  case (DecryptTask seq x box key body)
  show ?thesis
  proof (cases "decrypt_body W x box key body")
    case (Inr plaintext)
    obtain v where v: "reader_sig v = (if seq = currentDecryptSeq w
           then (tasks w, seq, Some (shown_text plaintext), Some (shown_text plaintext), editablePlaintext w, False) else reader_sig w)"
      "resume_decrypt W seq x box key body w = v
       \<or> (\<exists>k ks. resume_decrypt W seq x box key body w = v\<lparr>tasks := tasks v @ [IndexTask (mb_id box) (dm_id x) k ks]\<rparr>)"
      using decrypt_index [OF Inr, of seq w] by auto
    have "tasks v = tasks w" using v(1) by (simp add: reader_sig_def split: if_splits)
    then show ?thesis
      using v(2) DecryptTask by (auto simp: resume_task_def task_order_def fetches_def decrypts_def)
  qed (simp add: DecryptTask resume_task_def resume_decrypt_def open_failed_def show_status_def)
next
  case (IndexTask b i k ks)
  have "tasks (case computeSearchToken hm k kw of Inr t \<Rightarrow> fire (indexSearchToken N b i t) w | Inl _ \<Rightarrow> w) = tasks w" for kw
    by (simp add: indexSearchToken_def fire_api split: sum.split del: append.simps)
  then show ?thesis
    using IndexTask by (cases ks) (auto simp: resume_task_def resume_index_def task_order_def fetches_def decrypts_def keyword_count_def Let_def)
qed (auto simp: resume_task_def resume_draft_def resume_fetch_def open_failed_def show_status_def task_order_def fetches_def Let_def
    split: sum.splits option.splits)

lemma run_task_decreases:
  assumes "i < length (tasks w)"
  shows "(run_task N W hm i w, w) \<in> state_order"
proof -
  let ?rest = "take i (tasks w) @ drop (Suc i) (tasks w)" and ?t = "tasks w ! i"
  have before: "sum_list (map f (tasks w)) = sum_list (map f ?rest) + f ?t" for f :: "reader_task \<Rightarrow> nat"
    using arg_cong [OF id_take_nth_drop [OF assms], of "\<lambda>xs. sum_list (map f xs)"] by simp
  have pos: "0 < fetches ?t + decrypts ?t + keyword_count ?t"
    by (cases ?t) (simp_all add: fetches_def decrypts_def keyword_count_def)
  from resume_tasks [of N W hm ?t "w\<lparr>tasks := ?rest\<rparr>"]
  have "tasks (run_task N W hm i w) = ?rest \<or> (\<exists>t'. tasks (run_task N W hm i w) = ?rest @ [t'] \<and> (t', ?t) \<in> task_order)"
    using assms by (simp add: run_task_def)
  then show ?thesis
    using pos by (auto simp: state_order_def task_order_def total_of_def before)
qed

text \<open>A core that decrypts everything to the same text, and an unlocked mailbox for the witnesses.\<close>

definition fixed_core :: wasm_core where
  "fixed_core = toy_core\<lparr>wasm_aes_gcm_decrypt := (\<lambda>_ _ _. Inr ''6869'')\<rparr>"

definition sample_box :: mailbox where
  "sample_box = \<lparr>mb_id = ''000000000000000000000000000000ab'', mb_local_part = ''ann'', mb_domain_id = ''d'', mb_mode = ''password'',
     mb_public_key = None, mb_wrapped_sk_user = None, mb_previous_wrapped_sk_user = None\<rparr>"

definition sample_app :: app_state where
  "sample_app = (initial_app [] [])\<lparr>selectedMailbox := Some sample_box, mailboxKey := Some (replicate 32 5), unlockedBoxId := Some (mb_id sample_box)\<rparr>"

definition sample_draft :: display_message where
  "sample_draft = (sample_message ''a'')\<lparr>dm_folder := ''drafts'', dm_encryptedBody := ''AAAA''\<rparr>"

lemma sample_reads: "reads N W hm P lc sample_draft (run_task N W hm i (openMessage N sample_draft sample_app))"
proof -
  have "tasks_bounded sample_app"
    by (simp add: tasks_bounded_def sample_app_def initial_app_def mail_state.extend_def)
  then show ?thesis by (intro reads.run reads.first)
qed

text \<open>C2: for every interleaving of opening messages, resuming pending requests and decryptions, list actions,
  reloading the mailbox, closing the message and locking: the reading pane shows nothing, one of the status texts, or the
  decrypted text of the message that was opened last, and never that of a message whose response arrives late. The text
  that a reply quotes comes from the decrypted body the server returned for that message, and the text that an edited
  draft starts from is the decrypted draft.\<close>

theorem reader_shows_opened:
  assumes "reads N W hm P lc m w"
  shows "(\<forall>c. decryptedContent w = Some c \<longrightarrow> status_text c \<or> message_text N W m c \<or> draft_text W m c)
     \<and> (\<forall>c. messagePlaintext w = Some c \<longrightarrow> message_text N W m c)
     \<and> (\<forall>c. editablePlaintext w = Some c \<longrightarrow> draft_text W m c)"
  using reads_inv [OF assms] by (simp add: reader_defs)

theorem reader_shows_opened_witness: "draft_text fixed_core sample_draft ''hi''"
proof -
  have "editablePlaintext (run_task silent_net fixed_core (\<lambda>_ _ _. Inr []) 0 (openMessage silent_net sample_draft sample_app)) = Some ''hi''"
    by code_simp
  with reader_shows_opened [OF sample_reads] show ?thesis by blast
qed

text \<open>C26: the reader settles. There is no infinite sequence of resumptions, whatever the order in which pending tasks are
  resumed, and as long as the decryption indicator is on there is a pending task; so when every task has been resumed
  the indicator is off.\<close>

theorem reader_settles:
  "wf {(run_task N W hm i w, w) | i w. i < length (tasks w)}
   \<and> (\<forall>m w. reads N W hm P lc m w \<longrightarrow> tasks w = [] \<longrightarrow> \<not> isDecrypting w)"
proof
  have "{(run_task N W hm i w, w) | i w. i < length (tasks w)} \<subseteq> state_order"
    using run_task_decreases by auto
  then show "wf {(run_task N W hm i w, w) | i w. i < length (tasks w)}"
    by (rule wf_subset [rotated]) (simp add: state_order_def)
  show "\<forall>m w. reads N W hm P lc m w \<longrightarrow> tasks w = [] \<longrightarrow> \<not> isDecrypting w"
    using reads_inv by (fastforce simp: reader_inv_def)
qed

theorem reader_settles_witness:
  "\<not> isDecrypting (run_task silent_net fixed_core (\<lambda>_ _ _. Inr []) 0 (openMessage silent_net sample_draft sample_app))"
proof -
  have "tasks (run_task silent_net fixed_core (\<lambda>_ _ _. Inr []) 0 (openMessage silent_net sample_draft sample_app)) = []"
    by code_simp
  with reader_settles [THEN conjunct2] sample_reads show ?thesis by blast
qed

lemma open_draft:
  assumes "selectedMailbox v = Some box" "unlocked_key (mb_id box) v = Some key" "tasks v = []"
    and "dm_read m" "dm_folder m = ''drafts''" "decryptDraftEnvelope W key (mb_id box) (dm_encryptedBody m) = Inr t"
  shows "decryptedContent (run_task N W hm 0 (openMessage N m v)) = Some t"
    "editablePlaintext (run_task N W hm 0 (openMessage N m v)) = Some t"
proof -
  let ?v = "v\<lparr>currentDecryptSeq := Suc (currentDecryptSeq v), selectedMsg := Some m, isDecrypting := True, decryptedContent := None,
      editablePlaintext := None, messagePlaintext := None, messageAttachments := []\<rparr>"
  have "unlocked_key (mb_id box) ?v = Some key"
    using assms(2) by (simp add: unlocked_key_def split: if_splits)
  then have "openMessage N m v = ?v\<lparr>tasks := [DraftTask (Suc (currentDecryptSeq v)) m box key]\<rparr>"
    using assms(1,3,4,5) by (simp add: openMessage_def Let_def)
  then show "decryptedContent (run_task N W hm 0 (openMessage N m v)) = Some t"
    "editablePlaintext (run_task N W hm 0 (openMessage N m v)) = Some t"
    using assms(6) by (simp_all add: run_task_def resume_task_def resume_draft_def show_status_def)
qed

section \<open>Locking while a message is being read\<close>

text \<open>A pending task that captured the key and whose decryption succeeds.\<close>

definition reveals :: "wasm_core \<Rightarrow> nat \<Rightarrow> reader_task \<Rightarrow> bool" where
  "reveals W s t = (case t of
       DraftTask s' m box key \<Rightarrow> s' = s \<and> is_ok (decryptDraftEnvelope W key (mb_id box) (dm_encryptedBody m))
     | DecryptTask s' m box key body \<Rightarrow> s' = s \<and> is_ok (decrypt_body W m box key body)
     | _ \<Rightarrow> False)"

definition stays_hidden :: "wasm_core \<Rightarrow> 'z app_state_scheme \<Rightarrow> bool" where
  "stays_hidden W w \<longleftrightarrow> mailboxKey w = None \<and> messagePlaintext w = None \<and> editablePlaintext w = None
     \<and> (\<forall>t \<in> set (tasks w). \<not> reveals W (currentDecryptSeq w) t)"

lemma hidden_updates:
  "stays_hidden W (show_status t w) = stays_hidden W w"
  "stays_hidden W (w\<lparr>messageAttachments := as\<rparr>) = stays_hidden W w" "stays_hidden W (w\<lparr>storageErrorBanner := ban\<rparr>) = stays_hidden W w"
  "stays_hidden W w \<Longrightarrow> stays_hidden W (w\<lparr>tasks := tasks w @ [IndexTask b i k ks]\<rparr>)"
  by (simp_all add: stays_hidden_def show_status_def, simp add: reveals_def)

lemma hidden_failed: "stays_hidden W w \<Longrightarrow> stays_hidden W (open_failed s e w)"
  by (simp add: open_failed_def hidden_updates del: append.simps)

lemma resume_hidden:
  assumes "stays_hidden W w" "\<not> reveals W (currentDecryptSeq w) t"
  shows "stays_hidden W (resume_task N W hm t w)"
proof (cases t)
  case (DraftTask s m box key)
  then show ?thesis using assms
    by (auto simp: resume_task_def resume_draft_def reveals_def hidden_updates hidden_failed split: sum.splits)
next
  case (FetchTask s m box body atts)
  have "unlocked_key b (w\<lparr>messageAttachments := as\<rparr>) = None" for b as
    using assms(1) by (simp add: stays_hidden_def unlocked_key_def)
  then show ?thesis using FetchTask assms(1)
    by (auto simp: resume_task_def resume_fetch_def Let_def hidden_updates hidden_failed split: sum.splits)
next
  case (DecryptTask s m box key body)
  show ?thesis
  proof (cases "decrypt_body W m box key body")
    case (Inr plaintext)
    then have stale: "s \<noteq> currentDecryptSeq w"
      using DecryptTask assms(2) by (auto simp: reveals_def)
    have "stays_hidden W (w\<lparr>sessionStorage := st\<rparr>)" "stays_hidden W (w\<lparr>sessionStorage := st, tasks := tasks w @ [IndexTask b i k ks]\<rparr>)"
      for st b i k ks
      using assms(1) by (auto simp: stays_hidden_def reveals_def)
    then show ?thesis
      using DecryptTask Inr stale by (simp add: resume_task_def resume_decrypt_def Let_def hidden_updates del: append.simps)
  qed (simp add: DecryptTask resume_task_def resume_decrypt_def hidden_failed assms(1))
next
  case (IndexTask b i k ks)
  have "stays_hidden W (case computeSearchToken hm k kw of Inr t \<Rightarrow> fire (indexSearchToken N b i t) w | Inl _ \<Rightarrow> w)" for kw
    using assms(1) by (simp add: stays_hidden_def indexSearchToken_def fire_api split: sum.split del: append.simps)
  then show ?thesis
    using IndexTask assms(1) by (cases ks) (simp_all add: resume_task_def resume_index_def Let_def hidden_updates)
qed

lemma run_hidden: "stays_hidden W w \<Longrightarrow> stays_hidden W (run_task N W hm i w)"
proof (cases "i < length (tasks w)")
  case True
  assume hid: "stays_hidden W w"
  have "stays_hidden W (w\<lparr>tasks := take i (tasks w) @ drop (Suc i) (tasks w)\<rparr>)"
    using hid by (auto simp: stays_hidden_def dest: in_set_takeD in_set_dropD)
  moreover have "\<not> reveals W (currentDecryptSeq w) (tasks w ! i)"
    using hid True by (simp add: stays_hidden_def)
  ultimately show ?thesis
    using True by (simp add: run_task_def resume_hidden)
qed (simp add: run_task_def)

lemma runs_hidden: "stays_hidden W w \<Longrightarrow> stays_hidden W (fold (run_task N W hm) is w)"
  by (induction "is" arbitrary: w) (simp_all add: run_hidden)

lemma reveals_shows:
  assumes "reveals W (currentDecryptSeq w) t"
  shows "messagePlaintext (resume_task N W hm t w) \<noteq> None \<or> editablePlaintext (resume_task N W hm t w) \<noteq> None"
proof (cases t)
  case (DraftTask s m box key)
  then show ?thesis
    using assms by (cases "decryptDraftEnvelope W key (mb_id box) (dm_encryptedBody m)")
      (simp_all add: reveals_def resume_task_def resume_draft_def show_status_def)
next
  case (DecryptTask s m box key body)
  then obtain plaintext where p: "decrypt_body W m box key body = Inr plaintext" and s: "s = currentDecryptSeq w"
    using assms by (cases "decrypt_body W m box key body") (simp_all add: reveals_def)
  from decrypt_index [OF p, of s w] DecryptTask show ?thesis
    by (auto simp: s resume_task_def reader_sig_def)
qed (use assms in \<open>simp_all add: reveals_def\<close>)

text \<open>C6: locking. \<open>lockMailbox\<close> drops the keys and every decrypted text. Afterwards, whatever the order in which the
  pending tasks are resumed, decrypted text is shown again exactly when a decryption of the open message that had
  captured the key before the lock was still pending and succeeds: the continuation does not check that the mailbox
  was locked.\<close>

theorem lock_hides_text:
  "mailboxKey (lockMailbox w) = None \<and> searchKey (lockMailbox w) = None \<and> unlockedBoxId (lockMailbox w) = None
   \<and> decryptedContent (lockMailbox w) = None \<and> messagePlaintext (lockMailbox w) = None \<and> editablePlaintext (lockMailbox w) = None
   \<and> contacts (lockMailbox w) = []
   \<and> ((\<exists>is c. let w' = fold (run_task N W hm) is (lockMailbox w) in messagePlaintext w' = Some c \<or> editablePlaintext w' = Some c)
      \<longleftrightarrow> (\<exists>t \<in> set (tasks w). reveals W (currentDecryptSeq w) t))"
proof -
  have hidden: "stays_hidden W (lockMailbox w)" if "\<not> (\<exists>t \<in> set (tasks w). reveals W (currentDecryptSeq w) t)"
    using that by (simp add: stays_hidden_def lockMailbox_def)
  have again: "\<exists>is c. let w' = fold (run_task N W hm) is (lockMailbox w) in messagePlaintext w' = Some c \<or> editablePlaintext w' = Some c"
    if mem: "t \<in> set (tasks w)" and rev: "reveals W (currentDecryptSeq w) t" for t
  proof -
    obtain i where i: "i < length (tasks w)" "tasks w ! i = t"
      using mem by (auto simp: in_set_conv_nth)
    let ?w = "(lockMailbox w)\<lparr>tasks := take i (tasks w) @ drop (Suc i) (tasks w)\<rparr>"
    have "run_task N W hm i (lockMailbox w) = resume_task N W hm t ?w"
      using i by (simp add: run_task_def lockMailbox_def)
    moreover have "currentDecryptSeq ?w = currentDecryptSeq w" by (simp add: lockMailbox_def)
    then have "messagePlaintext (resume_task N W hm t ?w) \<noteq> None \<or> editablePlaintext (resume_task N W hm t ?w) \<noteq> None"
      using rev by (rule_tac reveals_shows) simp
    ultimately show ?thesis by (intro exI [of _ "[i]"]) (auto simp: Let_def)
  qed
  have forth: "\<exists>t \<in> set (tasks w). reveals W (currentDecryptSeq w) t"
    if "let w' = fold (run_task N W hm) is (lockMailbox w) in messagePlaintext w' = Some c \<or> editablePlaintext w' = Some c" for "is" c
  proof (rule ccontr)
    assume "\<not> (\<exists>t \<in> set (tasks w). reveals W (currentDecryptSeq w) t)"
    from runs_hidden [OF hidden [OF this], of N hm "is"] that show False
      by (simp add: Let_def stays_hidden_def)
  qed
  have "mailboxKey (lockMailbox w) = None \<and> searchKey (lockMailbox w) = None \<and> unlockedBoxId (lockMailbox w) = None
   \<and> decryptedContent (lockMailbox w) = None \<and> messagePlaintext (lockMailbox w) = None \<and> editablePlaintext (lockMailbox w) = None
   \<and> contacts (lockMailbox w) = []"
    by (simp add: lockMailbox_def)
  with again forth show ?thesis by blast
qed

end
