(* ===== verification/App_Session.thy ===== *)
theory App_Session
  imports App_Reader
begin

text \<open>
  Sessions of the webmail (App.tsx, lines 905 to 1184 and 1667 to 1747): starting a session, the list of connected
  accounts and its copies in the two browser storages, switching and adding accounts, the events of other windows,
  and signing out. The invariants relate the list in memory to its copies; signing out is shown to remove the keys.
\<close>

section \<open>Stored keys and accounts\<close>

text \<open>\<open>new Uint8Array(s.match(/.{1,2}/g)!.map((b) => parseInt(b, 16)))\<close>: no match is an error.\<close>

definition key_bytes :: "string \<Rightarrow> byte list option" where
  "key_bytes s = (case match_pairs s of [] \<Rightarrow> None | ps \<Rightarrow> Some (map (\<lambda>b. toUint8 (parseInt16 b)) ps))"

abbreviation sk_item :: "string \<Rightarrow> string" where
  "sk_item boxId \<equiv> ''byos_mailbox_sk_'' @ boxId"

abbreviation skey_item :: "string \<Rightarrow> string" where
  "skey_item boxId \<equiv> ''byos_mailbox_skey_'' @ boxId"

abbreviation accounts_item :: string where
  "accounts_item \<equiv> ''byos_connected_accounts''"

abbreviation token_item :: string where
  "token_item \<equiv> ''byos_active_session_token''"

definition durable :: "connected_account \<Rightarrow> connected_account" where
  "durable a = a\<lparr>acc_mailboxSkHex := [], acc_searchKeyHex := []\<rparr>"

definition same_account :: "connected_account \<Rightarrow> connected_account \<Rightarrow> bool" where
  "same_account a b \<longleftrightarrow> acc_id b = acc_id a \<or> toLowerCase (acc_email b) = toLowerCase (acc_email a)"

text \<open>The list with \<open>a\<close> moved to the front, written to both storages; the durable copy has no keys.\<close>

definition front :: "connected_account \<Rightarrow> connected_account list \<Rightarrow> connected_account list" where
  "front a list = a # filter (\<lambda>b. \<not> same_account a b) list"

definition persist_accounts :: "connected_account list \<Rightarrow> 'z core_state_scheme \<Rightarrow> 'z core_state_scheme" where
  "persist_accounts list w =
     w\<lparr>sessionStorage := setItem accounts_item (accounts_text list) (sessionStorage w),
       localStorage := setItem accounts_item (accounts_text (map durable list)) (localStorage w),
       connectedAccounts := list\<rparr>"

definition saved_accounts :: "'z core_state_scheme \<Rightarrow> string" where
  "saved_accounts w = or_else (filled (getItem (sessionStorage w) accounts_item)) (filled (getItem (localStorage w) accounts_item))"

text \<open>The filter over the stored list reads \<open>a.id\<close> and \<open>a.email.toLowerCase()\<close> of values that were parsed from a storage.\<close>

definition readable :: "string \<Rightarrow> json \<Rightarrow> bool" where
  "readable actId v \<longleftrightarrow> v \<noteq> JNull \<and> (str_prop ''id'' v = Some actId \<or> str_prop ''email'' v \<noteq> None)"

definition merge_saved :: "connected_account \<Rightarrow> string \<Rightarrow> js_error + connected_account list" where
  "merge_saved act text =
     (let list = (if text \<noteq> [] then (case json_parse text of Some (JArr vs) \<Rightarrow> vs | _ \<Rightarrow> []) else [])
      in if list_all (readable (acc_id act)) list then Inr (front act (map account_of list))
         else throw_msg ''TypeError'')"

section \<open>Starting a session\<close>

definition target_box :: "user_me \<Rightarrow> mailbox list \<Rightarrow> 'z core_state_scheme \<Rightarrow> mailbox option" where
  "target_box user boxes w =
     (let bound =
            (if nonempty (u_mailbox_id user)
             then (case find (\<lambda>b. Some (mb_id b) = u_mailbox_id user) boxes of
                     Some b \<Rightarrow> Some b
                   | None \<Rightarrow>
                       if nonempty (u_mailbox_local_part user)
                       then Some \<lparr>mb_id = filled (u_mailbox_id user), mb_local_part = filled (u_mailbox_local_part user),
                                  mb_domain_id = [], mb_mode = or_else (filled (u_mailbox_mode user)) ''org_managed'',
                                  mb_public_key = None, mb_wrapped_sk_user = None, mb_previous_wrapped_sk_user = None\<rparr>
                       else None)
             else None);
          imp = (if bound = None \<and> isImpersonating w \<and> nonempty (impersonateMailboxId w)
                 then find (\<lambda>b. Some (mb_id b) = impersonateMailboxId w) boxes else bound)
      in if imp = None \<and> boxes \<noteq> [] then Some (hd boxes) else imp)"

text \<open>The key is unwrapped with the password, or restored from the session. The result is the hexadecimal key and search
  key for the account list; the key is recorded even when deriving the search key fails.\<close>

definition unlock_with_password ::
  "wasm_core \<Rightarrow> string \<Rightarrow> string \<Rightarrow> string \<Rightarrow> 'z core_state_scheme \<Rightarrow> string \<times> string \<times> 'z core_state_scheme" where
  "unlock_with_password W password wrappedSk boxId w =
     (case autoUnwrapMailboxKey W password wrappedSk of
        Inl e \<Rightarrow> ([], [], w)
      | Inr skBytes \<Rightarrow>
          (case wasm_derive_search_key W (bytesToHex skBytes) of
             Inl e \<Rightarrow> (bytesToHex skBytes, [], w)
           | Inr sKey \<Rightarrow>
               (bytesToHex skBytes, sKey,
                w\<lparr>mailboxKey := Some skBytes, searchKey := Some sKey, unlockedBoxId := Some boxId,
                  sessionStorage := setItem (skey_item boxId) sKey (setItem (sk_item boxId) (bytesToHex skBytes) (sessionStorage w))\<rparr>)))"

definition restore_key :: "string \<Rightarrow> 'z core_state_scheme \<Rightarrow> string \<times> string \<times> 'z core_state_scheme" where
  "restore_key boxId w =
     (let savedSk = filled (getItem (sessionStorage w) (sk_item boxId));
          savedSKey = filled (getItem (sessionStorage w) (skey_item boxId))
      in if savedSk = [] then ([], [], w)
         else case key_bytes savedSk of
                None \<Rightarrow> ([], [], w\<lparr>sessionStorage := removeItem (skey_item boxId) (removeItem (sk_item boxId) (sessionStorage w))\<rparr>)
              | Some bytes \<Rightarrow>
                  (savedSk, savedSKey,
                   (if savedSKey \<noteq> [] then w\<lparr>searchKey := Some savedSKey\<rparr> else w)\<lparr>mailboxKey := Some bytes, unlockedBoxId := Some boxId\<rparr>))"

definition unlock_box ::
  "wasm_core \<Rightarrow> user_me \<Rightarrow> mailbox \<Rightarrow> string option \<Rightarrow> 'z core_state_scheme \<Rightarrow> string \<times> string \<times> 'z core_state_scheme" where
  "unlock_box W user box password w =
     (let wrappedSk = or_else (filled (u_wrapped_sk_user user)) (filled (mb_wrapped_sk_user box))
      in if nonempty password \<and> wrappedSk \<noteq> [] then unlock_with_password W (filled password) wrappedSk (mb_id box) w
         else if \<not> nonempty password then restore_key (mb_id box) w
         else ([], [], w))"

definition active_account :: "user_me \<Rightarrow> mailbox \<Rightarrow> string \<Rightarrow> string \<Rightarrow> string \<Rightarrow> connected_account" where
  "active_account user box tok skHex sKey =
     \<lparr>acc_id = mb_id box, acc_email = u_email user,
      acc_displayName = or_else (filled (u_display_name user)) (or_else (mb_local_part box) (hd (split_char CHR ''@'' (u_email user)))),
      acc_role = or_else (u_role user) ''member'', acc_privacyMode = or_else (mb_mode box) ''org_managed'',
      acc_sessionToken = tok, acc_mailboxSkHex = skHex, acc_searchKeyHex = sKey\<rparr>"

definition bootstrapSession ::
  "net \<Rightarrow> wasm_core \<Rightarrow> date_platform \<Rightarrow> int \<Rightarrow> user_me \<Rightarrow> string option \<Rightarrow> string option
     \<Rightarrow> 'z mail_state_scheme \<Rightarrow> (js_error + unit) \<times> 'z mail_state_scheme" where
  "bootstrapSession N W P now user password sessionToken w =
     (let w0 = w\<lparr>currentUser := Some user\<rparr>;
          (res, w1) = fetchMailboxes N (u_org_id user) w0;
          boxes = (case res of Inr vs \<Rightarrow> map mailbox_of vs | Inl _ \<Rightarrow> [])
      in case target_box user boxes w1 of
           None \<Rightarrow> (Inr (), w1\<lparr>mailboxes := [], selectedMailbox := None\<rparr>)
         | Some box \<Rightarrow>
             (let w2 = refreshSignature (Some (mb_id box)) (w1\<lparr>mailboxes := [box], selectedMailbox := Some box\<rparr>);
                  (skHex, sKey, w3) = unlock_box W user box password w2;
                  tokenToSave = or_else (filled sessionToken) (filled (getItem (sessionStorage w3) token_item));
                  w4 = (if tokenToSave \<noteq> [] then w3\<lparr>sessionStorage := setItem token_item tokenToSave (sessionStorage w3)\<rparr> else w3)
              in case merge_saved (active_account user box tokenToSave skHex sKey) (saved_accounts w4) of
                   Inl e \<Rightarrow> (Inl e, w4)
                 | Inr list \<Rightarrow> (Inr (), loadMailboxData N W P now (mb_id box) (persist_accounts list w4))))"

section \<open>Switching between accounts\<close>

definition switch_keys :: "connected_account \<Rightarrow> 'z core_state_scheme \<Rightarrow> 'z core_state_scheme" where
  "switch_keys a w =
     (if acc_mailboxSkHex a \<noteq> []
      then (case key_bytes (acc_mailboxSkHex a) of
              None \<Rightarrow> w
            | Some bytes \<Rightarrow>
                w\<lparr>mailboxKey := Some bytes, searchKey := Some (acc_searchKeyHex a), unlockedBoxId := Some (acc_id a),
                  sessionStorage := setItem (skey_item (acc_id a)) (acc_searchKeyHex a)
                                      (setItem (sk_item (acc_id a)) (acc_mailboxSkHex a) (sessionStorage w))\<rparr>)
      else w\<lparr>mailboxKey := None, searchKey := None, unlockedBoxId := None\<rparr>)"

definition switched_box :: "connected_account \<Rightarrow> mailbox" where
  "switched_box a =
     \<lparr>mb_id = acc_id a, mb_local_part = hd (split_char CHR ''@'' (acc_email a)), mb_domain_id = [], mb_mode = acc_privacyMode a,
      mb_public_key = None, mb_wrapped_sk_user = None, mb_previous_wrapped_sk_user = None\<rparr>"

definition switched_user :: "connected_account \<Rightarrow> user_me option \<Rightarrow> user_me" where
  "switched_user a prev =
     \<lparr>u_id = Some (acc_id a), u_user_id = acc_id a, u_email = acc_email a,
      u_org_id = (case prev of Some u \<Rightarrow> u_org_id u | None \<Rightarrow> []), u_role = acc_role a, u_plan = None, u_display_name = None,
      u_mailbox_id = Some (acc_id a), u_mailbox_local_part = None, u_mailbox_mode = Some (acc_privacyMode a),
      u_wrapped_sk_user = None, u_previous_wrapped_sk_user = None\<rparr>"

definition handleSwitchAccount ::
  "net \<Rightarrow> wasm_core \<Rightarrow> date_platform \<Rightarrow> int \<Rightarrow> connected_account \<Rightarrow> 'z mail_state_scheme \<Rightarrow> 'z mail_state_scheme" where
  "handleSwitchAccount N W P now account w =
     (let w0 = w\<lparr>isLoading := True\<rparr>;
          w1 = (if acc_sessionToken account \<noteq> []
                then w0\<lparr>sessionStorage := setItem token_item (acc_sessionToken account) (sessionStorage w0)\<rparr> else w0);
          w2 = switch_keys account w1;
          w3 = w2\<lparr>selectedMailbox := Some (switched_box account), mailboxes := [switched_box account],
                  currentUser := Some (switched_user account (currentUser w2))\<rparr>;
          w4 = persist_accounts (front account (connectedAccounts w3)) w3;
          w5 = refreshSignature (Some (acc_id account)) (loadMailboxData N W P now (acc_id account) w4)
      in w5\<lparr>isLoading := False\<rparr>)"

definition handleAccountAdded ::
  "net \<Rightarrow> wasm_core \<Rightarrow> date_platform \<Rightarrow> int \<Rightarrow> connected_account \<Rightarrow> 'z mail_state_scheme \<Rightarrow> 'z mail_state_scheme" where
  "handleAccountAdded N W P now account w =
     (let w1 = (persist_accounts (front account (connectedAccounts w)) w)\<lparr>addMailboxModalOpen := False\<rparr>
      in showToast (''Connected '' @ acc_email account @ '' successfully'') (handleSwitchAccount N W P now account w1))"

text \<open>The address the page moves to is the first component.\<close>

definition handleExitImpersonation :: "net \<Rightarrow> 'z world_scheme \<Rightarrow> string \<times> 'z world_scheme" where
  "handleExitImpersonation N w =
     (''http://127.0.0.1:3000/dashboard/mailboxes'',
      fire (logout N) (w\<lparr>sessionStorage := removeItem ''byos_impersonation_token'' (sessionStorage w)\<rparr>))"

text \<open>An event of another window: the key and the new value of the local storage.\<close>

definition handleStorageChange :: "string \<Rightarrow> string option \<Rightarrow> 'z core_state_scheme \<Rightarrow> 'z core_state_scheme" where
  "handleStorageChange key newValue w =
     (if key = accounts_item \<and> nonempty newValue
      then (case parse_accounts (filled newValue) of
              Some list \<Rightarrow> w\<lparr>connectedAccounts := list, sessionStorage := setItem accounts_item (filled newValue) (sessionStorage w)\<rparr>
            | None \<Rightarrow> w)
      else w)"

section \<open>Opening the page\<close>

text \<open>\<open>params\<close> is the query of the address.\<close>

definition restore_accounts :: "'z core_state_scheme \<Rightarrow> 'z core_state_scheme" where
  "restore_accounts w =
     (case (if saved_accounts w \<noteq> [] then parse_accounts (saved_accounts w) else None) of
        None \<Rightarrow> w
      | Some [] \<Rightarrow> w
      | Some (a # as) \<Rightarrow>
          (let w1 = w\<lparr>connectedAccounts := a # as, sessionStorage := setItem accounts_item (accounts_text (a # as)) (sessionStorage w)\<rparr>
           in if \<not> nonempty (getItem (sessionStorage w1) token_item) \<and> acc_sessionToken a \<noteq> []
              then w1\<lparr>sessionStorage := setItem token_item (acc_sessionToken a) (sessionStorage w1)\<rparr> else w1))"

definition onMount ::
  "net \<Rightarrow> wasm_core \<Rightarrow> date_platform \<Rightarrow> int \<Rightarrow> string \<Rightarrow> (string \<Rightarrow> string option) \<Rightarrow> 'z mail_state_scheme \<Rightarrow> 'z mail_state_scheme" where
  "onMount N W P now pathname params w =
     (if pathname = ''/setup-account'' \<or> params ''token'' \<noteq> None
      then w\<lparr>isSetupAccount := True, isLoading := False\<rparr>
      else
        (let w1 = (if params ''impersonate'' = Some ''1''
                   then (let v = w\<lparr>isImpersonating := True, impersonateMailboxId := params ''mailbox_id'', impersonateEmail := params ''email''\<rparr>
                         in if nonempty (params ''session_token'')
                            then v\<lparr>sessionStorage := setItem ''byos_impersonation_token'' (filled (params ''session_token'')) (sessionStorage v)\<rparr>
                            else v)
                   else w);
             w2 = (restore_accounts w1)\<lparr>isLoading := True\<rparr>;
             (res, w3) = fetchCurrentUser N w2;
             w4 = (case res of
                     Inr (Some v) \<Rightarrow> if truthy (Some v) then snd (bootstrapSession N W P now (user_of v) None None w3) else w3
                   | _ \<Rightarrow> w3)
         in w4\<lparr>isLoading := False\<rparr>))"

section \<open>Signing out\<close>

definition clearComposeForm :: "'z app_state_scheme \<Rightarrow> 'z app_state_scheme" where
  "clearComposeForm w =
     w\<lparr>composeTo := [], composeSubject := [], composeBody := [], composeBodyHtml := [], scheduledTime := [],
       composeTrackOpens := False, composeAttachments := [], editingDraft := None\<rparr>"

definition is_key_item :: "string \<Rightarrow> bool" where
  "is_key_item k \<longleftrightarrow> startsWith k ''byos_mailbox_sk_'' \<or> startsWith k ''byos_mailbox_skey_''"

text \<open>The loop runs over the positions of the storage from the last to the first.\<close>

definition drop_key_items :: "store \<Rightarrow> store" where
  "drop_key_items s = fold removeItem (filter is_key_item (rev (map fst s))) s"

definition full_logout :: "net \<Rightarrow> 'z app_state_scheme \<Rightarrow> 'z app_state_scheme" where
  "full_logout N w =
     (let w1 = w\<lparr>sessionStorage := drop_key_items (removeItem accounts_item (removeItem token_item
                    (removeItem ''byos_impersonation_token'' (sessionStorage w)))),
                 localStorage := removeItem accounts_item (localStorage w), connectedAccounts := [], isImpersonating := False\<rparr>;
          w2 = clearComposeForm ((lockMailbox (fire (logout N) w1))\<lparr>composeOpen := False\<rparr>)
      in (refreshSignature None (w2\<lparr>currentUser := None, mailboxes := [], selectedMailbox := None, messages := []\<rparr>))
           \<lparr>loginPassword := [], loginError := None\<rparr>)"

text \<open>The request that revokes one session carries that session's token instead of the active one.\<close>

definition revoke_session :: "net \<Rightarrow> string \<Rightarrow> 'z world_scheme \<Rightarrow> 'z world_scheme" where
  "revoke_session N tok w =
     snd (do_fetch N ((api_request N ''/v1/auth/logout'' ''POST'' None [])\<lparr>req_headers :=
            [(''Content-Type'', ''application/json''), (''X-BYOS-Client'', ''webmail'')] @ bearer tok\<rparr>) w)"

definition handleLogout ::
  "net \<Rightarrow> wasm_core \<Rightarrow> date_platform \<Rightarrow> int \<Rightarrow> string option \<Rightarrow> bool \<Rightarrow> 'z app_state_scheme \<Rightarrow> 'z app_state_scheme" where
  "handleLogout N W P now accountIdToLogout logOutAll w =
     (let accounts = connectedAccounts w;
          currentBoxId = (if nonempty (map_option mb_id (selectedMailbox w)) then map_option mb_id (selectedMailbox w)
                          else Option.bind (currentUser w) u_id);
          target = (case accountIdToLogout of Some i \<Rightarrow> Some i | None \<Rightarrow> currentBoxId)
      in if logOutAll \<or> \<not> nonempty target \<or> length accounts \<le> 1 then full_logout N w
         else
           (let targetId = filled target;
                targetAccount = find (\<lambda>a. acc_id a = targetId) accounts;
                targetEmail = (case targetAccount of Some a \<Rightarrow> or_else (acc_email a) ''Account'' | None \<Rightarrow> ''Account'');
                w1 = w\<lparr>sessionStorage := removeItem (skey_item targetId) (removeItem (sk_item targetId) (sessionStorage w))\<rparr>;
                w2 = (case targetAccount of Some a \<Rightarrow> if acc_sessionToken a \<noteq> [] then revoke_session N (acc_sessionToken a) w1 else w1
                      | None \<Rightarrow> w1);
                remaining = filter (\<lambda>a. acc_id a \<noteq> targetId) accounts;
                w3 = w2\<lparr>connectedAccounts := remaining,
                        sessionStorage := setItem accounts_item (accounts_text remaining) (sessionStorage w2),
                        localStorage := setItem accounts_item (accounts_text remaining) (localStorage w2)\<rparr>
            in if target = currentBoxId \<and> remaining \<noteq> []
               then showToast (''Signed out of '' @ targetEmail @ ''. Switched to '' @ acc_email (hd remaining) @ ''.'')
                      (handleSwitchAccount N W P now (hd remaining) w3)
               else showToast (''Signed out of '' @ targetEmail @ ''.'') w3))"

section \<open>The copies of the account list\<close>

lemma parse_accounts_text: "parse_accounts (accounts_text as) = Some as"
proof -
  have "wf_json (account_json a)" for a
    by (simp add: account_json_def)
  then have "wf_json (JArr (map account_json as))"
    by (simp add: list_all_iff)
  moreover have "account_of (account_json a) = a" for a
    by (simp add: account_of_def account_json_def str_prop_def jprop_def filled_def)
  ultimately show ?thesis
    by (simp add: parse_accounts_def accounts_text_def json_roundtrip o_def del: stringify.simps)
qed

text \<open>The session's copy is the list, the durable copy is the list without keys.\<close>

definition accounts_inv :: "'z core_state_scheme \<Rightarrow> bool" where
  "accounts_inv w \<longleftrightarrow>
     Option.bind (getItem (sessionStorage w) accounts_item) parse_accounts = Some (connectedAccounts w)
     \<and> Option.bind (getItem (localStorage w) accounts_item) parse_accounts = Some (map durable (connectedAccounts w))"

lemma persist_inv: "accounts_inv (persist_accounts as w)"
  by (simp add: accounts_inv_def persist_accounts_def parse_accounts_text)

lemma read_only_keeps:
  assumes "read_only w w'"
  shows "\<not> cache_key k \<Longrightarrow> getItem (sessionStorage w') k = getItem (sessionStorage w) k"
    and "k \<notin> pref_keys \<Longrightarrow> getItem (localStorage w') k = getItem (localStorage w) k"
    and "connectedAccounts w' = connectedAccounts w"
  using assms by (auto simp: read_only_def)

lemma accounts_inv_read_only:
  assumes "read_only w w'"
  shows "accounts_inv w' = accounts_inv w"
proof -
  have "\<not> cache_key accounts_item" "accounts_item \<notin> pref_keys"
    by (simp_all add: cache_key_def startsWith_def pref_keys_def)
  from this(1) [THEN read_only_keeps(1) [OF assms]] this(2) [THEN read_only_keeps(2) [OF assms]] show ?thesis
    by (simp add: accounts_inv_def read_only_keeps(3) [OF assms] del: append.simps)
qed

lemma load_accounts_inv: "accounts_inv (loadMailboxData N W P now b w) = accounts_inv w"
  using load_read_only by (rule accounts_inv_read_only)

lemma accounts_inv_updates [simp]:
  "accounts_inv (w\<lparr>isLoading := l\<rparr>) = accounts_inv w" "accounts_inv (w\<lparr>addMailboxModalOpen := m\<rparr>) = accounts_inv w"
  "accounts_inv (refreshSignature b w) = accounts_inv w" "accounts_inv (showToast t w) = accounts_inv w"
  by (simp_all add: accounts_inv_def refreshSignature_def showToast_def setTimeout_def clearTimeout_def Let_def split: option.split)

lemma load_keeps:
  "connectedAccounts (loadMailboxData N W P now b w) = connectedAccounts w"
  "mailboxKey (loadMailboxData N W P now b w) = mailboxKey w" "unlockedBoxId (loadMailboxData N W P now b w) = unlockedBoxId w"
  "selectedMailbox (loadMailboxData N W P now b w) = selectedMailbox w"
  using load_read_only [of w N W P now b] by (simp_all add: read_only_def)

lemma switch_accounts:
  "accounts_inv (handleSwitchAccount N W P now a w)"
  "connectedAccounts (handleSwitchAccount N W P now a w) = front a (connectedAccounts w)"
proof -
  show "accounts_inv (handleSwitchAccount N W P now a w)"
    by (simp add: handleSwitchAccount_def Let_def load_accounts_inv persist_inv)
  show "connectedAccounts (handleSwitchAccount N W P now a w) = front a (connectedAccounts w)"
    by (simp add: handleSwitchAccount_def Let_def refreshSignature_def load_keeps persist_accounts_def switch_keys_def split: option.split)
qed

lemma bootstrap_accounts:
  "(\<exists>e. fst (bootstrapSession N W P now u pw tok w) = Inl e)
   \<or> selectedMailbox (snd (bootstrapSession N W P now u pw tok w)) = None
   \<or> accounts_inv (snd (bootstrapSession N W P now u pw tok w))"
proof -
  let ?w1 = "snd (fetchMailboxes N (u_org_id u) (w\<lparr>currentUser := Some u\<rparr>))"
  let ?boxes = "case fst (fetchMailboxes N (u_org_id u) (w\<lparr>currentUser := Some u\<rparr>)) of Inr vs \<Rightarrow> map mailbox_of vs | Inl _ \<Rightarrow> []"
  show ?thesis
  proof (cases "target_box u ?boxes ?w1")
    case None
    then show ?thesis by (simp add: bootstrapSession_def Let_def case_prod_beta)
  next
    case (Some box)
    have "accounts_inv (loadMailboxData N W P now (mb_id box) (persist_accounts as v))" for as and v :: "'a mail_state_scheme"
      by (simp add: load_accounts_inv persist_inv)
    then show ?thesis
      unfolding bootstrapSession_def Let_def case_prod_beta Some option.case
      by (simp only: split: sum.split) simp
  qed
qed

lemma front_distinct: "distinct (map acc_id as) \<Longrightarrow> distinct (map acc_id (front a as))"
  by (auto simp: front_def same_account_def distinct_map inj_on_def)

text \<open>Dropping the keys of the session.\<close>

lemma getItem_drop_keys: "getItem (drop_key_items s) k = (if is_key_item k then None else getItem s k)"
proof (cases "is_key_item k \<and> k \<notin> fst ` set s")
  case True
  then have "getItem s k = None" by (simp add: getItem_def map_of_eq_None_iff)
  with True show ?thesis by (auto simp: drop_key_items_def storage.get_del_fold)
qed (auto simp: drop_key_items_def storage.get_del_fold)


lemma full_logout_state:
  fixes N :: net and w :: "'z app_state_scheme"
  defines "w' \<equiv> full_logout N w"
  shows "mailboxKey w' = None" "searchKey w' = None" "unlockedBoxId w' = None" "decryptedContent w' = None"
    "messagePlaintext w' = None" "editablePlaintext w' = None" "messages w' = []" "contacts w' = []"
    "composeBody w' = []" "currentUser w' = None" "selectedMailbox w' = None" "connectedAccounts w' = []"
    "localStorage w' = removeItem accounts_item (localStorage w)"
    "sessionStorage w' = drop_key_items (removeItem accounts_item (removeItem token_item (removeItem ''byos_impersonation_token'' (sessionStorage w))))"
  unfolding w'_def full_logout_def Let_def logout_def fire_api refreshSignature_def lockMailbox_def clearComposeForm_def
  by simp_all

text \<open>C16: signing out of everything. No key, user, mailbox, message or decrypted text stays in memory; of the session
  storage exactly the tokens, the account list and the mailbox keys are removed, of the local storage exactly the account
  list. Entries with other names stay, among them the cached subjects and snippets of decrypted messages. The
  one request that is sent carries no authorization, since the tokens are removed first.\<close>

theorem logout_everything:
  "let w' = handleLogout N W P now i True w in
     mailboxKey w' = None \<and> searchKey w' = None \<and> unlockedBoxId w' = None
   \<and> decryptedContent w' = None \<and> messagePlaintext w' = None \<and> editablePlaintext w' = None
   \<and> messages w' = [] \<and> contacts w' = [] \<and> composeBody w' = []
   \<and> currentUser w' = None \<and> selectedMailbox w' = None \<and> connectedAccounts w' = []
   \<and> (\<forall>k. getItem (localStorage w') k = (if k = accounts_item then None else getItem (localStorage w) k))
   \<and> (\<forall>k. getItem (sessionStorage w') k =
          (if startsWith k ''byos_mailbox_sk_'' \<or> startsWith k ''byos_mailbox_skey_''
              \<or> k \<in> {''byos_impersonation_token'', token_item, accounts_item} then None else getItem (sessionStorage w) k))
   \<and> (\<exists>r. sent w' = sent w @ [r] \<and> req_url r = api_base N @ ''/v1/auth/logout'' \<and> header ''Authorization'' r = None)"
proof -
  have full: "handleLogout N W P now i True w = full_logout N w"
    by (simp add: handleLogout_def Let_def)
  let ?s = "drop_key_items (removeItem accounts_item (removeItem token_item (removeItem ''byos_impersonation_token'' (sessionStorage w))))"
  have items: "getItem ?s k = (if startsWith k ''byos_mailbox_sk_'' \<or> startsWith k ''byos_mailbox_skey_''
      \<or> k \<in> {''byos_impersonation_token'', token_item, accounts_item} then None else getItem (sessionStorage w) k)" for k
    by (simp add: getItem_drop_keys is_key_item_def)
  have "sent (full_logout N w) = sent w @ [api_request N ''/v1/auth/logout'' ''POST'' None ?s]"
    unfolding full_logout_def Let_def logout_def fire_api refreshSignature_def lockMailbox_def clearComposeForm_def by simp
  moreover have "auth_headers ?s = []"
    by (simp add: auth_headers_def Let_def items startsWith_def)
  then have "header ''Authorization'' (api_request N ''/v1/auth/logout'' ''POST'' None ?s) = None"
    by (simp add: header_def api_request_def)
  moreover have "req_url (api_request N ''/v1/auth/logout'' ''POST'' None ?s) = api_base N @ ''/v1/auth/logout''"
    by (simp add: api_request_def)
  ultimately show ?thesis
    unfolding Let_def full full_logout_state items by (auto simp del: append.simps)
qed

lemma toast_keeps:
  "connectedAccounts (showToast t w) = connectedAccounts w" "sessionStorage (showToast t w) = sessionStorage w"
  "localStorage (showToast t w) = localStorage w" "sent (showToast t w) = sent w"
  "selectedMailbox (showToast t w) = selectedMailbox w" "mailboxKey (showToast t w) = mailboxKey w"
  by (simp_all add: showToast_def clearTimeout_def setTimeout_def Let_def split: option.split)

text \<open>Signing out of one account that is not the active one. The account leaves the list and both copies, its stored
  keys are removed, its own token is used to revoke its session, and the active mailbox and its key are untouched. The
  copy in the local storage is the list as it is: the keys of the remaining accounts are written to the durable storage.\<close>

theorem logout_selective:
  assumes "find (\<lambda>a. acc_id a = i) (connectedAccounts w) = Some a" "1 < length (connectedAccounts w)" "i \<noteq> []"
    and "selectedMailbox w = Some box" "mb_id box \<noteq> []" "mb_id box \<noteq> i" "acc_sessionToken a \<noteq> []"
  shows "let w' = handleLogout N W P now (Some i) False w in
     connectedAccounts w' = filter (\<lambda>a. acc_id a \<noteq> i) (connectedAccounts w)
   \<and> getItem (sessionStorage w') (sk_item i) = None \<and> getItem (sessionStorage w') (skey_item i) = None
   \<and> (\<exists>r. sent w' = sent w @ [r] \<and> header ''Authorization'' r = Some (''Bearer '' @ acc_sessionToken a))
   \<and> selectedMailbox w' = selectedMailbox w \<and> mailboxKey w' = mailboxKey w
   \<and> Option.bind (getItem (localStorage w') accounts_item) parse_accounts = Some (connectedAccounts w')"
proof -
  let ?rest = "filter (\<lambda>a. acc_id a \<noteq> i) (connectedAccounts w)"
  let ?r = "(api_request N ''/v1/auth/logout'' ''POST'' None [])\<lparr>req_headers :=
            [(''Content-Type'', ''application/json''), (''X-BYOS-Client'', ''webmail'')] @ bearer (acc_sessionToken a)\<rparr>"
  let ?w = "w\<lparr>sent := sent w @ [?r], connectedAccounts := ?rest,
      sessionStorage := setItem accounts_item (accounts_text ?rest) (removeItem (skey_item i) (removeItem (sk_item i) (sessionStorage w))),
      localStorage := setItem accounts_item (accounts_text ?rest) (localStorage w)\<rparr>"
  have w': "handleLogout N W P now (Some i) False w = showToast (''Signed out of '' @ or_else (acc_email a) ''Account'' @ ''.'') ?w"
    using assms unfolding handleLogout_def Let_def revoke_session_def do_fetch_def
    by (simp add: nonempty_def filled_def del: append.simps)
  have "header ''Authorization'' ?r = Some (''Bearer '' @ acc_sessionToken a)"
    by (simp add: header_def bearer_def)
  moreover have "accounts_item \<noteq> sk_item i" "accounts_item \<noteq> skey_item i" "sk_item i \<noteq> skey_item i" by simp_all
  ultimately show ?thesis
    unfolding Let_def w' by (simp add: toast_keeps parse_accounts_text del: append.simps)
qed

definition sample_accounts :: app_state where
  "sample_accounts = sample_app\<lparr>connectedAccounts :=
     [\<lparr>acc_id = mb_id sample_box, acc_email = ''ann@x.y'', acc_displayName = ''ann'', acc_role = ''member'', acc_privacyMode = ''private'',
       acc_sessionToken = ''t1'', acc_mailboxSkHex = ''05'', acc_searchKeyHex = ''06''\<rparr>,
      \<lparr>acc_id = ''b'', acc_email = ''bob@x.y'', acc_displayName = ''bob'', acc_role = ''member'', acc_privacyMode = ''private'',
       acc_sessionToken = ''t2'', acc_mailboxSkHex = ''07'', acc_searchKeyHex = ''08''\<rparr>]\<rparr>"

subsection \<open>Stored keys\<close>

lemma key_bytes_bytesToHex: "sk \<noteq> [] \<Longrightarrow> key_bytes (bytesToHex sk) = Some sk"
proof -
  assume "sk \<noteq> []"
  have "list_all (\<lambda>c. \<not> is_line_end c) (bytesToHex sk)"
    using bytesToHex_lower_hex [of sk] by (auto simp: list_all_iff dest: lower_hex_not_line_end)
  then have "map (\<lambda>b. toUint8 (parseInt16 b)) (match_pairs (bytesToHex sk)) = sk"
    by (simp add: match_pairs_loop hexToBytes_loop_bytesToHex)
  with \<open>sk \<noteq> []\<close> show ?thesis by (auto simp: key_bytes_def split: list.splits)
qed

lemma sk_item_neq_skey_item [simp]: "sk_item a \<noteq> skey_item b"
  by simp

lemma restore_stored:
  assumes "getItem (sessionStorage v) (sk_item boxId) = Some (bytesToHex sk)" "sk \<noteq> []"
    and "getItem (sessionStorage v) (skey_item boxId) = Some sKey" "sKey \<noteq> []"
  shows "restore_key boxId v = (bytesToHex sk, sKey, v\<lparr>searchKey := Some sKey, mailboxKey := Some sk, unlockedBoxId := Some boxId\<rparr>)"
  using assms by (simp add: restore_key_def filled_def key_bytes_bytesToHex Let_def del: append.simps)

text \<open>Refreshing the page. After a key was unwrapped with the password, a later start of the session that finds
  the same session storage restores the same key, search key and mailbox without the password.\<close>

theorem refresh_restores_key:
  assumes "autoUnwrapMailboxKey W password wrappedSk = Inr sk" "sk \<noteq> []"
    and "wasm_derive_search_key W (bytesToHex sk) = Inr sKey" "sKey \<noteq> []"
    and "sessionStorage v = sessionStorage (snd (snd (unlock_with_password W password wrappedSk boxId w)))"
  shows "restore_key boxId v = (bytesToHex sk, sKey, v\<lparr>searchKey := Some sKey, mailboxKey := Some sk, unlockedBoxId := Some boxId\<rparr>)"
proof -
  have "sessionStorage v = setItem (skey_item boxId) sKey (setItem (sk_item boxId) (bytesToHex sk) (sessionStorage w))"
    using assms by (simp add: unlock_with_password_def del: append.simps)
  then show ?thesis
    using assms(2,4) by (intro restore_stored) (simp_all del: append.simps)
qed

end
