(* ===== verification/App_Compose.thy ===== *)
theory App_Compose
  imports App_Session
begin

text \<open>
  Writing messages and managing contacts (App.tsx, lines 2306 to 2795): attachments of the message being written,
  encrypted contacts, replying and forwarding, sending, and encrypted drafts. Identifiers drawn at random, the clock
  and the conversion of dates are parameters of the handlers that use them.
\<close>

section \<open>Attachments of the message being written\<close>

text \<open>A file is its name and its bytes.\<close>

definition handleAttachmentSelected ::
  "net \<Rightarrow> wasm_core \<Rightarrow> byte list \<Rightarrow> (string \<times> byte list) option \<Rightarrow> 'z app_state_scheme \<Rightarrow> 'z app_state_scheme" where
  "handleAttachmentSelected N W rnd input w =
     (case Option.bind (selectedMailbox w) (\<lambda>box. map_option (Pair box) (unlocked_key (mb_id box) w)) of
        None \<Rightarrow> w\<lparr>errorMessage := Some ''Sign in again to attach files.'', composeStatus := None\<rparr>
      | Some (box, key) \<Rightarrow>
          (case input of
             None \<Rightarrow> w
           | Some file \<Rightarrow>
               if length (snd file) > 40 * 1024 * 1024 then w\<lparr>errorMessage := Some ''Attachment exceeds the 40 MB V1 budget.''\<rparr>
               else
                 (case uploadEncryptedAttachment N W rnd (mb_id box) file key None (w\<lparr>composeStatus := Some (''Encrypting attachment'' @ ellipsis)\<rparr>) of
                    (Inl e, w1) \<Rightarrow> w1\<lparr>errorMessage := Some (''Failed to upload attachment: '' @ err_message e), composeStatus := None\<rparr>
                  | (Inr uploaded, w1) \<Rightarrow> w1\<lparr>composeAttachments := composeAttachments w1 @ [uploaded], composeStatus := None\<rparr>)))"

definition removeComposeAttachment :: "net \<Rightarrow> string \<Rightarrow> 'z app_state_scheme \<Rightarrow> 'z app_state_scheme" where
  "removeComposeAttachment N i w =
     (let drop = (\<lambda>v. v\<lparr>composeAttachments := filter (\<lambda>a. str_prop ''id'' a \<noteq> Some i) (composeAttachments v)\<rparr>)
      in case (selectedMailbox w, find (\<lambda>a. str_prop ''id'' a = Some i) (composeAttachments w)) of
           (Some box, Some _) \<Rightarrow>
             (case deleteAttachment N (mb_id box) i w of
                (Inr _, w1) \<Rightarrow> drop w1
              | (Inl e, w1) \<Rightarrow> w1\<lparr>errorMessage := Some (''Failed to delete attachment (kept attached): '' @ err_message e)\<rparr>)
         | _ \<Rightarrow> drop w)"

section \<open>Contacts\<close>

definition no_contacts_key :: string where
  "no_contacts_key = ''Please sign in with your password to view contacts.''"

definition shown_contacts :: "wasm_core \<Rightarrow> byte list \<Rightarrow> string \<Rightarrow> json list \<Rightarrow> display_contact list" where
  "shown_contacts W key boxId cs =
     concat (map (\<lambda>c. case decryptContactEnvelope W key boxId (text_prop ''encrypted_envelope'' c) of
        Inr pt \<Rightarrow> [\<lparr>ct_id = text_prop ''id'' c, ct_version = (case int_prop ''version'' c of Some n \<Rightarrow> n | None \<Rightarrow> 0),
                    ct_name = c_name pt, ct_email = c_email pt, ct_notes = c_notes pt\<rparr>]
      | Inl _ \<Rightarrow> []) cs)"

definition openContacts :: "net \<Rightarrow> wasm_core \<Rightarrow> 'z app_state_scheme \<Rightarrow> 'z app_state_scheme" where
  "openContacts N W w =
     (case Option.bind (selectedMailbox w) (\<lambda>box. map_option (Pair box) (unlocked_key (mb_id box) w)) of
        None \<Rightarrow> w\<lparr>contactsError := Some no_contacts_key, contacts := [], contactsOpen := True\<rparr>
      | Some (box, key) \<Rightarrow>
          (let (r, w1) = fetchContacts N (mb_id box) (w\<lparr>contactsOpen := True, contactsLoading := True, contactsError := None\<rparr>)
           in (case r of
                 Inr cs \<Rightarrow> w1\<lparr>contacts := shown_contacts W key (mb_id box) cs\<rparr>
               | Inl e \<Rightarrow> w1\<lparr>contactsError := Some (''Failed to load contacts: '' @ err_message e), contacts := []\<rparr>)\<lparr>contactsLoading := False\<rparr>))"

definition startEditContact :: "display_contact option \<Rightarrow> 'z app_state_scheme \<Rightarrow> 'z app_state_scheme" where
  "startEditContact c w =
     w\<lparr>editingContact := c, contactName := (case c of Some x \<Rightarrow> ct_name x | None \<Rightarrow> []),
       contactEmail := (case c of Some x \<Rightarrow> ct_email x | None \<Rightarrow> []), contactNotes := (case c of Some x \<Rightarrow> ct_notes x | None \<Rightarrow> []),
       contactsError := None\<rparr>"

definition version_of :: "json \<Rightarrow> int" where
  "version_of v = (case int_prop ''version'' v of Some n \<Rightarrow> n | None \<Rightarrow> 0)"

definition save_contact ::
  "net \<Rightarrow> wasm_core \<Rightarrow> mailbox \<Rightarrow> string \<Rightarrow> contact_plaintext \<Rightarrow> 'z app_state_scheme \<Rightarrow> 'z app_state_scheme" where
  "save_contact N W box envelope pt w =
     (let failed = (\<lambda>e v. v\<lparr>contactsError := Some (''Failed to save contact: '' @ err_message e)\<rparr>)
      in case editingContact w of
           Some editing \<Rightarrow>
             (let (r, w1) = updateContact N (mb_id box) (ct_id editing)
                    (JObj [(''encrypted_envelope'', JStr envelope), (''version'', JNum (ct_version editing))]) w
              in case bind_err r need of
                   Inr updated \<Rightarrow>
                     startEditContact None (w1\<lparr>contacts := map (on_key ct_id (ct_id editing)
                       (\<lambda>c. c\<lparr>ct_name := c_name pt, ct_email := c_email pt, ct_notes := c_notes pt, ct_version := version_of updated\<rparr>)) (contacts w1)\<rparr>)
                 | Inl e \<Rightarrow>
                     if err_status e = Some 409
                     then openContacts N W (w1\<lparr>contactsError := Some ''This contact changed elsewhere. Reload to get the latest version.''\<rparr>)
                     else failed e w1)
         | None \<Rightarrow>
             (let (r, w1) = createContact N (mb_id box) (JObj [(''encrypted_envelope'', JStr envelope)]) w
              in case bind_err r need of
                   Inr created \<Rightarrow>
                     startEditContact None (w1\<lparr>contacts := \<lparr>ct_id = text_prop ''id'' created, ct_version = version_of created,
                       ct_name = c_name pt, ct_email = c_email pt, ct_notes = c_notes pt\<rparr> # contacts w1\<rparr>)
                 | Inl e \<Rightarrow> failed e w1))"

definition handleSaveContact :: "net \<Rightarrow> wasm_core \<Rightarrow> byte list \<Rightarrow> 'z app_state_scheme \<Rightarrow> 'z app_state_scheme" where
  "handleSaveContact N W rnd w =
     (case Option.bind (selectedMailbox w) (\<lambda>box. map_option (Pair box) (unlocked_key (mb_id box) w)) of
        None \<Rightarrow> w\<lparr>contactsError := Some no_contacts_key\<rparr>
      | Some (box, key) \<Rightarrow>
          (let pt = \<lparr>c_name = trim (contactName w), c_email = trim (contactEmail w), c_notes = trim (contactNotes w)\<rparr>
           in if c_name pt = [] then w\<lparr>contactsError := Some ''Contact name is required.''\<rparr>
              else if CHR ''@'' \<notin> set (c_email pt) then w\<lparr>contactsError := Some ''Contact email must contain @.''\<rparr>
              else (case encryptContactEnvelope W rnd key (mb_id box) pt of
                      Inl e \<Rightarrow> w\<lparr>contactsError := Some (''Failed to save contact: '' @ err_message e)\<rparr>
                    | Inr envelope \<Rightarrow> save_contact N W box envelope pt (w\<lparr>contactsError := None\<rparr>))))"

definition handleDeleteContact :: "net \<Rightarrow> bool \<Rightarrow> string \<Rightarrow> 'z app_state_scheme \<Rightarrow> 'z app_state_scheme" where
  "handleDeleteContact N confirmed i w =
     (case selectedMailbox w of
        None \<Rightarrow> w
      | Some box \<Rightarrow>
          if \<not> confirmed then w
          else (case deleteContact N (mb_id box) i w of
                  (Inl e, w1) \<Rightarrow> w1\<lparr>contactsError := Some (''Failed to delete contact: '' @ err_message e)\<rparr>
                | (Inr _, w1) \<Rightarrow>
                    (let w2 = w1\<lparr>contacts := filter (\<lambda>c. ct_id c \<noteq> i) (contacts w1)\<rparr>
                     in if map_option ct_id (editingContact w2) = Some i then startEditContact None w2 else w2)))"

section \<open>Starting a message\<close>

definition startEditDraft :: "display_message \<Rightarrow> string \<Rightarrow> 'z app_state_scheme \<Rightarrow> 'z app_state_scheme" where
  "startEditDraft msg plaintext w =
     w\<lparr>composeTo := (if dm_recipient msg = ''(no recipient)'' then [] else dm_recipient msg),
       composeSubject := (if dm_subject msg = ''(no subject)'' then [] else dm_subject msg),
       composeBody := plaintext, scheduledTime := [], composeAttachments := [],
       editingDraft := Some \<lparr>dr_id = dm_id msg, dr_version = (case dm_version msg of Some v \<Rightarrow> v | None \<Rightarrow> 1)\<rparr>, composeOpen := True\<rparr>"

text \<open>\<open>new RegExp(`^${prefix}\\s`, "i").test(clean)\<close>\<close>

definition has_prefix :: "string \<Rightarrow> string \<Rightarrow> bool" where
  "has_prefix pre s \<longleftrightarrow>
     startsWith (toLowerCase s) (toLowerCase pre) \<and> length pre < length s \<and> is_ws (s ! length pre)"

definition withSubjectPrefix :: "string \<Rightarrow> string \<Rightarrow> string" where
  "withSubjectPrefix subject pre =
     (let clean = (if subject = ''(Encrypted message)'' then [] else subject)
      in if has_prefix pre clean then clean else if clean \<noteq> [] then pre @ '' '' @ clean else pre)"

definition quoteOriginal :: "display_message \<Rightarrow> string \<Rightarrow> string" where
  "quoteOriginal msg plaintext =
     newline @ newline @ ''--- On '' @ dm_date msg @ '', '' @ dm_sender msg @ '' wrote: ---'' @ newline
       @ join newline (map (\<lambda>line. ''> '' @ line) (split_char (hd newline) plaintext))"

definition startReply :: "display_message \<Rightarrow> 'z app_state_scheme \<Rightarrow> 'z app_state_scheme" where
  "startReply msg w =
     (case messagePlaintext w of
        None \<Rightarrow> w
      | Some plaintext \<Rightarrow>
          w\<lparr>composeTo := dm_sender msg, composeSubject := withSubjectPrefix (dm_subject msg) ''Re:'',
            composeBody := quoteOriginal msg plaintext, scheduledTime := [], composeAttachments := [], editingDraft := None,
            composeOpen := True\<rparr>)"

definition startForward :: "display_message \<Rightarrow> 'z app_state_scheme \<Rightarrow> 'z app_state_scheme" where
  "startForward msg w =
     (case messagePlaintext w of
        None \<Rightarrow> w
      | Some plaintext \<Rightarrow>
          (let attachNote = (if messageAttachments w \<noteq> []
                 then newline @ ''[Note: '' @ num_string (length (messageAttachments w))
                        @ '' original attachment(s) not carried by forwarding in V1.]'' @ newline
                 else [])
           in w\<lparr>composeTo := [], composeSubject := withSubjectPrefix (dm_subject msg) ''Fwd:'',
                composeBody := attachNote @ newline @ ''--- Forwarded message from '' @ dm_sender msg @ '' ('' @ dm_date msg @ '') ---''
                  @ newline @ plaintext,
                scheduledTime := [], composeAttachments := [], editingDraft := None, composeOpen := True\<rparr>))"

text \<open>The button that starts a new message, and closing the form.\<close>

definition onCompose :: "'z app_state_scheme \<Rightarrow> 'z app_state_scheme" where
  "onCompose w = w\<lparr>composeAttachments := [], editingDraft := None, composeOpen := True\<rparr>"

definition onCloseCompose :: "'z app_state_scheme \<Rightarrow> 'z app_state_scheme" where
  "onCloseCompose w = (clearComposeForm (w\<lparr>composeOpen := False\<rparr>))\<lparr>composeStatus := None\<rparr>"

section \<open>Sending\<close>

text \<open>What a run of \<open>handleSend\<close> draws: the tracking token, the boundary, the core's randomness, and \<open>toISOString\<close> of the
  scheduled time.\<close>

record send_env =
  se_token :: string
  se_boundary :: string
  se_random :: "byte list"
  se_iso :: "string \<Rightarrow> js_error + string"

definition dquote :: string where
  "dquote = [char_of (34 :: nat)]"

definition tracking_pixel :: "net \<Rightarrow> string option \<Rightarrow> string" where
  "tracking_pixel N tok =
     (case tok of
        None \<Rightarrow> []
      | Some t \<Rightarrow> ''<img src='' @ dquote @ getTrackingPixelUrl N t @ dquote @ '' alt='' @ dquote @ dquote @ '' width='' @ dquote @ ''1'' @ dquote
          @ '' height='' @ dquote @ ''1'' @ dquote @ '' style='' @ dquote
          @ ''display:none !important; width:1px; height:1px; border:0;'' @ dquote @ '' />'')"

definition multipart :: "string \<Rightarrow> string \<Rightarrow> string \<Rightarrow> string \<Rightarrow> string \<Rightarrow> string" where
  "multipart boundary to subject plain html =
     join crlf [''To: '' @ to, ''Subject: '' @ subject, ''MIME-Version: 1.0'',
       ''Content-Type: multipart/alternative; boundary='' @ dquote @ boundary @ dquote, [],
       ''--'' @ boundary, ''Content-Type: text/plain; charset=utf-8'', [], plain,
       ''--'' @ boundary, ''Content-Type: text/html; charset=utf-8'', [], html,
       ''--'' @ boundary @ ''--'']"

definition mime_message :: "string \<Rightarrow> string \<Rightarrow> string \<Rightarrow> string \<Rightarrow> string \<Rightarrow> string \<Rightarrow> string \<Rightarrow> string" where
  "mime_message boundary to subject body signedBody htmlBody pixel =
     (if htmlBody \<noteq> [] \<and> trim htmlBody \<noteq> [] \<and> htmlBody \<noteq> body
      then multipart boundary to subject signedBody (if pixel \<noteq> [] then htmlBody @ crlf @ pixel else htmlBody)
      else if pixel \<noteq> []
      then multipart boundary to subject signedBody
             (''<div style='' @ dquote @ ''font-family: sans-serif; font-size: 14px; color: #1a1a1a; white-space: pre-wrap;'' @ dquote
                @ ''>'' @ signedBody @ ''</div>'' @ crlf @ pixel)
      else join crlf [''To: '' @ to, ''Subject: '' @ subject, ''Content-Type: text/plain; charset=utf-8'', ''MIME-Version: 1.0'', [], signedBody])"

text \<open>The tracking token is used only when its registration succeeded.\<close>

definition register_token :: "net \<Rightarrow> send_env \<Rightarrow> string \<Rightarrow> string \<Rightarrow> string \<Rightarrow> 'z app_state_scheme \<Rightarrow> string option \<times> 'z app_state_scheme" where
  "register_token N E boxId subject to w =
     (if composeTrackOpens w
      then (case registerTracking N boxId (se_token E) subject to w of
              (Inr _, w1) \<Rightarrow> (Some (se_token E), w1) | (Inl _, w1) \<Rightarrow> (None, w1))
      else (None, w))"

definition given :: "string \<Rightarrow> json option \<Rightarrow> (string \<times> json) list" where
  "given k v = (case v of Some x \<Rightarrow> [(k, x)] | None \<Rightarrow> [])"

text \<open>The message sealed for the delivery key.\<close>

definition seal_message :: "wasm_core \<Rightarrow> send_env \<Rightarrow> json \<Rightarrow> string \<Rightarrow> json \<Rightarrow> string \<Rightarrow> js_error + json" where
  "seal_message W E pubkey boxId reservation mime =
     bind_err (string_arg (Some pubkey)) (\<lambda>pk.
     bind_err (case int_prop ''outbox_seq'' reservation of Some n \<Rightarrow> Inr (nat (n mod 2 ^ 64)) | None \<Rightarrow> throw_msg ''TypeError'') (\<lambda>seq.
     bind_err (wasm_encrypt_outbound W (se_random E) pk (filter (\<lambda>c. c \<noteq> CHR ''-'') boxId) seq (bytesToBase64 (utf8_encode mime))) (\<lambda>t.
     bind_err (js_parse t) (\<lambda>v. bind_err (need (Some v)) (\<lambda>encrypted.
     if truthy (jprop ''ciphertext'' encrypted) \<and> truthy (jprop ''send_token_wrapped'' encrypted) \<and> truthy (jprop ''iv'' encrypted)
     then Inr encrypted else throw_msg ''Crypto core returned an incomplete outbound envelope'')))))"

definition outbound_payload :: "mailbox \<Rightarrow> string \<Rightarrow> json \<Rightarrow> json \<Rightarrow> string option \<Rightarrow> json list \<Rightarrow> json" where
  "outbound_payload box to reservation encrypted scheduledAt atts =
     JObj (given ''reservation_id'' (jprop ''reservation_id'' reservation) @ [(''mailbox_id'', JStr (mb_id box)), (''recipient'', JStr to)]
       @ given ''encrypted_message'' (jprop ''ciphertext'' encrypted) @ given ''send_token_wrapped'' (jprop ''send_token_wrapped'' encrypted)
       @ given ''outbox_seq'' (jprop ''outbox_seq'' reservation) @ given ''encryption_version'' (jprop ''encryption_version'' reservation)
       @ given ''aad_version'' (jprop ''aad_version'' reservation) @ given ''encryption_iv'' (jprop ''iv'' encrypted)
       @ given ''scheduled_at'' (map_option JStr scheduledAt)
       @ (if atts = [] then [] else [(''attachment_ids'', JArr (map (\<lambda>a. JStr (text_prop ''id'' a)) atts))]))"

definition send_failed :: "js_error \<Rightarrow> 'z app_state_scheme \<Rightarrow> 'z app_state_scheme" where
  "send_failed e w = w\<lparr>errorMessage := Some (''Failed to send securely: '' @ err_message e), composeStatus := None\<rparr>"

definition submit_outbound :: "net \<Rightarrow> send_env \<Rightarrow> mailbox \<Rightarrow> string \<Rightarrow> json \<Rightarrow> json \<Rightarrow> 'z app_state_scheme \<Rightarrow> (js_error + json option) \<times> 'z app_state_scheme" where
  "submit_outbound N E box to reservation encrypted w =
     (if scheduledTime w \<noteq> []
      then (case se_iso E (scheduledTime w) of
              Inl e \<Rightarrow> (Inl e, w)
            | Inr t \<Rightarrow> scheduleOutbound N (outbound_payload box to reservation encrypted (Some t) (composeAttachments w)) w)
      else sendOutbound N (outbound_payload box to reservation encrypted None (composeAttachments w)) w)"

definition send_steps :: "net \<Rightarrow> wasm_core \<Rightarrow> send_env \<Rightarrow> mailbox \<Rightarrow> string \<Rightarrow> string \<Rightarrow> string \<Rightarrow> 'z app_state_scheme \<Rightarrow> 'z app_state_scheme" where
  "send_steps N W E box to subject body w =
     (let (key, w1) = fetchOutboundPubkey N w;
          (res, w2) = prepareOutbound N (mb_id box) w1
      in case bind_err key (\<lambda>k. bind_err res (\<lambda>r. Inr (k, r))) of
           Inl e \<Rightarrow> send_failed e w2
         | Inr (pubkey, r) \<Rightarrow>
             (let signedBody = applySignature body (loadSignature (LocalStore (localStorage w2) False) (mb_id box));
                  (tok, w3) = register_token N E (mb_id box) subject to w2;
                  mime = mime_message (se_boundary E) to subject body signedBody (composeBodyHtml w2) (tracking_pixel N tok)
              in case bind_err (need r) (\<lambda>reservation. bind_err (seal_message W E pubkey (mb_id box) reservation mime) (\<lambda>x. Inr (reservation, x))) of
                   Inl e \<Rightarrow> send_failed e w3
                 | Inr (reservation, encrypted) \<Rightarrow>
                     (case submit_outbound N E box to reservation encrypted w3 of
                        (Inl e, w4) \<Rightarrow> send_failed e w4
                      | (Inr _, w4) \<Rightarrow>
                          clearComposeForm (w4\<lparr>composeStatus := Some (if scheduledTime w4 \<noteq> [] then ''Encrypted message scheduled.''
                                                                        else ''Encrypted message queued for delivery.''),
                                               composeOpen := False\<rparr>))))"

definition handleSend :: "net \<Rightarrow> wasm_core \<Rightarrow> send_env \<Rightarrow> 'z app_state_scheme \<Rightarrow> 'z app_state_scheme" where
  "handleSend N W E w =
     (let to = trim (composeTo w);
          subject = trim (composeSubject w);
          body = composeBody w
      in if to = [] \<or> subject = [] \<or> trim body = [] then w
         else
           (let w0 = w\<lparr>errorMessage := None\<rparr>
            in case selectedMailbox w0 of
                 None \<Rightarrow> w0\<lparr>errorMessage := Some ''Select a mailbox before sending.''\<rparr>
               | Some box \<Rightarrow> send_steps N W E box to subject body (w0\<lparr>composeStatus := Some (''Preparing encrypted message'' @ ellipsis)\<rparr>)))"

section \<open>Drafts\<close>

definition draft_payload :: "string \<Rightarrow> string \<Rightarrow> string \<Rightarrow> int option \<Rightarrow> json" where
  "draft_payload to subject envelope version =
     JObj ([(''recipient'', JStr to), (''subject'', JStr (or_else subject ''Untitled Draft'')), (''encrypted_envelope'', JStr envelope)]
       @ (case version of Some v \<Rightarrow> [(''version'', JNum v)] | None \<Rightarrow> []))"

definition draft_failed :: "js_error \<Rightarrow> 'z app_state_scheme \<Rightarrow> 'z app_state_scheme" where
  "draft_failed e w = w\<lparr>errorMessage := Some (''Failed to save draft: '' @ err_message e), composeStatus := None\<rparr>"

definition conflict_message :: string where
  "conflict_message = ''This draft changed elsewhere (version conflict). Reload the mailbox to get the latest version, '' @
     ''then re-apply your edits.''"

definition update_draft ::
  "net \<Rightarrow> wasm_core \<Rightarrow> date_platform \<Rightarrow> int \<Rightarrow> mailbox \<Rightarrow> draft_ref \<Rightarrow> string \<Rightarrow> string \<Rightarrow> string \<Rightarrow> string
     \<Rightarrow> 'z app_state_scheme \<Rightarrow> 'z app_state_scheme" where
  "update_draft N W P now box editing to subject body envelope w =
     (let (r, w1) = updateDraft N (mb_id box) (dr_id editing) (draft_payload to subject envelope (Some (dr_version editing))) w
      in case bind_err r need of
           Inr updated \<Rightarrow>
             (clearComposeForm (w1\<lparr>messages := map (on_key dm_id (dr_id editing) (\<lambda>m. m\<lparr>
                  dm_recipient := or_else to ''(no recipient)'', dm_subject := or_else subject ''(no subject)'', dm_snippet := clipped body,
                  dm_encryptedBody := envelope, dm_version := int_prop ''version'' updated, dm_date := ''Just now''\<rparr>)) (messages w1),
                composeOpen := False\<rparr>))\<lparr>composeStatus := None\<rparr>
         | Inl e \<Rightarrow>
             if err_status e = Some 409
             then (loadMailboxData N W P now (mb_id box) (w1\<lparr>errorMessage := Some conflict_message\<rparr>))\<lparr>composeStatus := None\<rparr>
             else draft_failed e w1)"

definition draft_display :: "json \<Rightarrow> string \<Rightarrow> string \<Rightarrow> string \<Rightarrow> string \<Rightarrow> 'z core_state_scheme \<Rightarrow> display_message" where
  "draft_display created to subject body envelope w =
     \<lparr>dm_id = text_prop ''id'' created, dm_messageSeq = None, dm_version = int_prop ''version'' created, dm_folder = ''drafts'',
      dm_folderId = None, dm_labelIds = None, dm_sender = user_email w, dm_recipient = or_else to ''(no recipient)'',
      dm_subject = or_else subject ''Untitled Draft'', dm_snippet = clipped body, dm_encryptedBody = envelope, dm_date = ''Just now'',
      dm_read = True, dm_starred = False, dm_isRealApi = True, dm_messageId = None, dm_hasAttachments = False, dm_attachmentCount = 0,
      dm_attachmentTypes = [], dm_trackingToken = None, dm_trackingInfo = None\<rparr>"

definition create_draft ::
  "net \<Rightarrow> mailbox \<Rightarrow> string \<Rightarrow> string \<Rightarrow> string \<Rightarrow> string \<Rightarrow> 'z app_state_scheme \<Rightarrow> 'z app_state_scheme" where
  "create_draft N box to subject body envelope w =
     (let (r, w1) = createDraft N (mb_id box) (draft_payload to subject envelope None) w
      in case bind_err r need of
           Inr created \<Rightarrow>
             w1\<lparr>messages := draft_display created to subject body envelope w1 # messages w1, composeOpen := False, composeStatus := None\<rparr>
         | Inl e \<Rightarrow> draft_failed e w1)"

definition handleSaveDraft ::
  "net \<Rightarrow> wasm_core \<Rightarrow> date_platform \<Rightarrow> int \<Rightarrow> byte list \<Rightarrow> 'z app_state_scheme \<Rightarrow> 'z app_state_scheme" where
  "handleSaveDraft N W P now rnd w =
     (let to = trim (composeTo w);
          subject = trim (composeSubject w);
          body = composeBody w
      in case selectedMailbox w of
           None \<Rightarrow> w
         | Some box \<Rightarrow>
             (case unlocked_key (mb_id box) w of
                None \<Rightarrow> w\<lparr>errorMessage := Some ''Sign in again to save drafts.'', composeStatus := None\<rparr>
              | Some key \<Rightarrow>
                  (let w0 = w\<lparr>composeStatus := Some (''Saving draft to mailbox storage'' @ ellipsis)\<rparr>
                   in case encryptDraftEnvelope W rnd key (mb_id box) body of
                        Inl e \<Rightarrow> draft_failed e w0
                      | Inr envelope \<Rightarrow>
                          (case editingDraft w0 of
                             Some editing \<Rightarrow> update_draft N W P now box editing to subject body envelope w0
                           | None \<Rightarrow> create_draft N box to subject body envelope w0))))"

definition handleDeleteMessage :: "net \<Rightarrow> display_message \<Rightarrow> 'z app_state_scheme \<Rightarrow> 'z app_state_scheme" where
  "handleDeleteMessage N msg w =
     (let w1 = (case selectedMailbox w of
                  Some box \<Rightarrow>
                    if dm_isRealApi msg \<and> dm_folder msg = ''drafts''
                    then (let v = fire (deleteDraft N (mb_id box) (dm_id msg)) w
                          in if map_option dr_id (editingDraft v) = Some (dm_id msg) then clearComposeForm (v\<lparr>composeOpen := False\<rparr>) else v)
                    else w
                | None \<Rightarrow> w)
      in w1\<lparr>messages := map (on_key dm_id (dm_id msg) (\<lambda>m. m\<lparr>dm_folder := ''trash''\<rparr>)) (messages w1), selectedMsg := None\<rparr>)"

section \<open>Theorems\<close>

text \<open>The form is a view that the message list does not enter.\<close>

definition compose_sig where
  "compose_sig w = (errorMessage w, composeTo w, composeSubject w, composeBody w, composeBodyHtml w, composeOpen w, editingDraft w)"

interpretation compose_frame: mail_frame compose_sig
  by unfold_locales (simp_all add: compose_sig_def)

lemma load_sent:
  "\<exists>rs. sent (loadMailboxData N W P now b w) = sent w @ rs \<and> list_all (\<lambda>r. req_method r = ''GET'' \<and> req_body r = None) rs"
  using load_read_only [of w N W P now b] by (simp add: read_only_def)

text \<open>A request that carries no content, or a draft whose body is the sealed text of the form.\<close>

definition sealed_draft :: "wasm_core \<Rightarrow> byte list \<Rightarrow> 'z app_state_scheme \<Rightarrow> request \<Rightarrow> bool" where
  "sealed_draft W rnd w r \<longleftrightarrow>
     req_body r = None
     \<or> (\<exists>box key envelope version. selectedMailbox w = Some box \<and> unlocked_key (mb_id box) w = Some key
          \<and> encryptDraftEnvelope W rnd key (mb_id box) (composeBody w) = Inr envelope
          \<and> req_body r = Some (JsonBody (draft_payload (trim (composeTo w)) (trim (composeSubject w)) envelope version)))"

lemma update_draft_sent:
  "\<exists>rs. sent (update_draft N W P now box ed to sub body env w) = sent w
       @ [api_request N (''/v1/mailboxes/'' @ mb_id box @ ''/drafts/'' @ dr_id ed) ''PUT''
           (Some (JsonBody (draft_payload to sub env (Some (dr_version ed))))) (sessionStorage w)] @ rs
     \<and> list_all (\<lambda>r. req_method r = ''GET'' \<and> req_body r = None) rs"
proof -
  let ?r = "api_request N (''/v1/mailboxes/'' @ mb_id box @ ''/drafts/'' @ dr_id ed) ''PUT''
      (Some (JsonBody (draft_payload to sub env (Some (dr_version ed))))) (sessionStorage w)"
  let ?u = "updateDraft N (mb_id box) (dr_id ed) (draft_payload to sub env (Some (dr_version ed))) w"
  have w1: "snd ?u = w\<lparr>sent := sent w @ [?r]\<rparr>"
    by (simp add: updateDraft_def apiRequest_eq del: append.simps)
  show ?thesis
  proof (cases "bind_err (fst ?u) need")
    case (Inr v)
    then show ?thesis
      by (simp add: update_draft_def Let_def case_prod_beta w1 clearComposeForm_def del: append.simps)
  next
    case (Inl e)
    obtain rs where "sent (loadMailboxData N W P now (mb_id box) ((w\<lparr>sent := sent w @ [?r]\<rparr>)\<lparr>errorMessage := Some conflict_message\<rparr>))
        = (sent w @ [?r]) @ rs" "list_all (\<lambda>r. req_method r = ''GET'' \<and> req_body r = None) rs"
      using load_sent [of N W P now "mb_id box" "(w\<lparr>sent := sent w @ [?r]\<rparr>)\<lparr>errorMessage := Some conflict_message\<rparr>"] by auto
    then show ?thesis using Inl
      by (cases "err_status e = Some 409")
        (simp_all add: update_draft_def Let_def case_prod_beta w1 draft_failed_def del: append.simps)
  qed
qed

lemma create_draft_sent:
  "sent (create_draft N box to sub body env w) = sent w
     @ [api_request N (''/v1/mailboxes/'' @ mb_id box @ ''/drafts'') ''POST'' (Some (JsonBody (draft_payload to sub env None))) (sessionStorage w)]"
proof -
  let ?u = "createDraft N (mb_id box) (draft_payload to sub env None) w"
  have "snd ?u = w\<lparr>sent := sent w @ [api_request N (''/v1/mailboxes/'' @ mb_id box @ ''/drafts'') ''POST''
      (Some (JsonBody (draft_payload to sub env None))) (sessionStorage w)]\<rparr>"
    by (simp add: createDraft_def apiRequest_eq del: append.simps)
  then show ?thesis
    by (cases "bind_err (fst ?u) need") (simp_all add: create_draft_def Let_def case_prod_beta draft_failed_def del: append.simps)
qed


text \<open>A draft that was changed elsewhere. When the server reports a version conflict, the mailbox is reloaded and
  the form stays open with its recipient, subject, text and the version it was opened with; the message of the
  conflict is shown.\<close>

theorem draft_conflict_keeps_form:
  assumes "selectedMailbox w = Some box" "unlocked_key (mb_id box) w = Some key"
    and "encryptDraftEnvelope W rnd key (mb_id box) (composeBody w) = Inr env" "editingDraft w = Some ed"
    and "fst (updateDraft N (mb_id box) (dr_id ed)
           (draft_payload (trim (composeTo w)) (trim (composeSubject w)) env (Some (dr_version ed))) w) = Inl e" "err_status e = Some 409"
  shows "compose_sig (handleSaveDraft N W P now rnd w) = compose_sig (w\<lparr>errorMessage := Some conflict_message\<rparr>)"
proof -
  let ?w = "w\<lparr>composeStatus := Some (''Saving draft to mailbox storage'' @ ellipsis)\<rparr>"
  let ?u = "updateDraft N (mb_id box) (dr_id ed) (draft_payload (trim (composeTo w)) (trim (composeSubject w)) env (Some (dr_version ed))) ?w"
  have u: "fst ?u = Inl e" "compose_sig ((snd ?u)\<lparr>errorMessage := m\<rparr>) = compose_sig (w\<lparr>errorMessage := m\<rparr>)" for m
    using assms(5) by (simp_all add: updateDraft_def apiRequest_eq compose_sig_def del: append.simps)
  have "handleSaveDraft N W P now rnd w =
      (loadMailboxData N W P now (mb_id box) ((snd ?u)\<lparr>errorMessage := Some conflict_message\<rparr>))\<lparr>composeStatus := None\<rparr>"
    using assms u(1) by (simp add: handleSaveDraft_def Let_def update_draft_def case_prod_beta del: append.simps)
  moreover have "compose_sig (v\<lparr>composeStatus := c\<rparr>) = compose_sig v" for v :: "'a app_state_scheme" and c
    by (simp add: compose_sig_def)
  ultimately show ?thesis by (simp add: compose_frame.load_frame u(2) del: append.simps)
qed

definition conflict_net :: net where
  "conflict_net = \<lparr>api_base = [], page_origin = [], byos_user_id = [], server = (\<lambda>_ _. Resp 409 None None)\<rparr>"

definition editing_app :: app_state where
  "editing_app = sample_app\<lparr>composeBody := ''hello'', composeOpen := True, editingDraft := Some \<lparr>dr_id = ''d'', dr_version = 3\<rparr>\<rparr>"

text \<open>A reply after a saved draft. Saving a new draft closes the form without emptying it, and starting a reply replaces the
  text but not the formatted text. The message sealed for the reply then carries the formatted text of the draft as
  its second alternative.\<close>

theorem reply_carries_draft_html:
  assumes "editingDraft w = None" "messagePlaintext w = Some p"
    and "trim (composeBodyHtml w) \<noteq> []" "composeBodyHtml w \<noteq> quoteOriginal m p"
  shows "let v = startReply m (handleSaveDraft N W P now rnd w) in
     composeTo v = dm_sender m \<and> composeBody v = quoteOriginal m p
   \<and> mime_message bd (trim (composeTo v)) (trim (composeSubject v)) (composeBody v) sb (composeBodyHtml v) []
     = multipart bd (trim (dm_sender m)) (trim (composeSubject v)) sb (composeBodyHtml w)"
proof -
  have create: "composeBodyHtml (create_draft N box to sub body env v) = composeBodyHtml v
      \<and> messagePlaintext (create_draft N box to sub body env v) = messagePlaintext v" for box to sub body env and v :: "'a app_state_scheme"
    by (cases "bind_err (fst (createDraft N (mb_id box) (draft_payload to sub env None) v)) need")
      (simp_all add: create_draft_def Let_def case_prod_beta draft_failed_def createDraft_def apiRequest_eq del: append.simps)
  have "composeBodyHtml (handleSaveDraft N W P now rnd w) = composeBodyHtml w
      \<and> messagePlaintext (handleSaveDraft N W P now rnd w) = messagePlaintext w"
    using assms(1) by (simp add: handleSaveDraft_def Let_def draft_failed_def create split: option.split sum.split del: append.simps)
  moreover have "composeBodyHtml w \<noteq> []" using assms(3) by auto
  ultimately show ?thesis
    using assms by (simp add: startReply_def Let_def mime_message_def del: append.simps)
qed

end
