(* ===== verification/Import_Emails.thy ===== *)
theory Import_Emails
  imports App_Load
begin

text \<open>
  The import of mail files: apps/webmail/src/components/modals/ImportEmailsModal.tsx. The dialog reads
  .eml files and mbox archives, lists the messages it finds and uploads them one after the other.

  The dialog's signals extend the browser's state. A file is its name and the result of reading it; the
  identifiers drawn by \<open>Math.random()\<close> are an argument. The lemmas show what becomes of an archive and
  that an import settles every message of the list.
\<close>

section \<open>State\<close>

datatype import_status = Pending | Importing | Imported | Duplicate | ItemError

record import_item =
  it_id :: string
  it_fileName :: string
  it_subject :: string
  it_sender :: string
  it_date :: string
  it_sizeBytes :: nat
  it_rawB64 :: string
  it_status :: import_status
  it_errorMsg :: "string option"

record import_summary =
  sum_imported :: nat
  sum_duplicates :: nat
  sum_failed :: nat

record import_state = world +
  importItems :: "import_item list"
  targetFolder :: string
  markAsRead :: bool
  isProcessingFiles :: bool
  isImporting :: bool
  importProgress :: "nat \<times> nat"
  importSummary :: "import_summary option"
  isDragging :: bool
  errorMessage :: "string option"

text \<open>The effect that runs when the dialog is opened.\<close>

definition import_opened :: "'z import_state_scheme \<Rightarrow> 'z import_state_scheme" where
  "import_opened w =
     w\<lparr>importItems := [], targetFolder := ''inbox'', markAsRead := True, isProcessingFiles := False, isImporting := False,
       importProgress := (0, 0), importSummary := None, errorMessage := None\<rparr>"

section \<open>Reading messages\<close>

text \<open>The first match of \<open>^name:\s*(.*)$\<close> without regard to case, line by line: \<open>\s*\<close> may pass over line ends.\<close>

fun header_match_at :: "string \<Rightarrow> bool \<Rightarrow> string \<Rightarrow> string option" where
  "header_match_at name line_start [] = None"
| "header_match_at name line_start (c # s) =
     (if line_start \<and> startsWith (toLowerCase (c # s)) (toLowerCase name @ '':'')
      then Some (takeWhile (\<lambda>d. \<not> is_line_end d) (dropWhile is_ws (drop (length name + 1) (c # s))))
      else header_match_at name (is_line_end c) s)"

definition extractHeader :: "string \<Rightarrow> string \<Rightarrow> string" where
  "extractHeader headersText headerName =
     (case header_match_at headerName True headersText of None \<Rightarrow> [] | Some v \<Rightarrow> trim v)"

text \<open>\<open>rawText.search(/\r?\n\r?\n/)\<close>\<close>

fun search_blank :: "string \<Rightarrow> nat option" where
  "search_blank [] = None"
| "search_blank (c # s) = (if blank_line (c # s) > 0 then Some 0 else map_option Suc (search_blank s))"

definition parseRFC822 :: "string \<Rightarrow> string \<Rightarrow> byte list \<Rightarrow> string \<Rightarrow> import_item" where
  "parseRFC822 newId rawText rawBytes fileName =
     (let headers = (case search_blank rawText of Some i \<Rightarrow> take i rawText | None \<Rightarrow> rawText);
          b64 = btoa (concat (chunk_strings 0x8000 rawBytes))
      in \<lparr>it_id = newId, it_fileName = fileName,
          it_subject = or_else (extractHeader headers ''Subject'') ''(No Subject)'',
          it_sender = or_else (extractHeader headers ''From'') ''Unknown Sender'',
          it_date = or_else (extractHeader headers ''Date'') ''Unknown Date'',
          it_sizeBytes = length rawBytes, it_rawB64 = b64, it_status = Pending, it_errorMsg = None\<rparr>)"

text \<open>\<open>mboxText.split(/\r?\n/)\<close>\<close>

function split_lines :: "string \<Rightarrow> string list" where
  "split_lines [] = [[]]"
| "split_lines (c # s) =
     (if line_break (c # s) > 0 then [] # split_lines (drop (line_break (c # s)) (c # s))
      else case split_lines s of [] \<Rightarrow> [[c]] | w # ws \<Rightarrow> (c # w) # ws)"
  by pat_completeness auto
termination
  by (relation "measure length") auto

definition unescape_from :: "string \<Rightarrow> string" where
  "unescape_from line = (if startsWith line ''>From '' then drop 1 line else line)"

fun mbox_loop :: "string list \<Rightarrow> string list \<Rightarrow> string list \<Rightarrow> string list \<times> string list" where
  "mbox_loop found currentMsg [] = (found, currentMsg)"
| "mbox_loop found currentMsg (line # lines) =
     (if startsWith line ''From '' \<and> currentMsg \<noteq> [] then mbox_loop (found @ [join crlf currentMsg]) [] lines
      else mbox_loop found (currentMsg @ [unescape_from line]) lines)"

definition splitMbox :: "string \<Rightarrow> string list" where
  "splitMbox mboxText =
     (let (found, currentMsg) = mbox_loop [] [] (split_lines mboxText)
      in if currentMsg \<noteq> [] \<and> list_ex (\<lambda>l. trim l \<noteq> []) currentMsg then found @ [join crlf currentMsg] else found)"

type_synonym mail_file = "string \<times> (js_error + byte list)"

text \<open>The items of one file; \<open>ids k\<close> is the identifier drawn for the item with \<open>k\<close> items before it.\<close>

fun mbox_items :: "(nat \<Rightarrow> string) \<Rightarrow> string \<Rightarrow> nat \<Rightarrow> string list \<Rightarrow> import_item list \<Rightarrow> import_item list" where
  "mbox_items ids name m [] newItems = newItems"
| "mbox_items ids name m (msgText # rest) newItems =
     mbox_items ids name (Suc m) rest
       (if trim msgText = [] then newItems
        else newItems @ [parseRFC822 (ids (length newItems)) msgText (utf8_encode msgText) (name @ '' #'' @ num_string (m + 1))])"

definition file_items :: "(nat \<Rightarrow> string) \<Rightarrow> mail_file \<Rightarrow> import_item list \<Rightarrow> js_error + import_item list" where
  "file_items ids file newItems =
     bind_err (snd file) (\<lambda>bytes.
       if endsWith (toLowerCase (fst file)) ''.mbox''
       then Inr (mbox_items ids (fst file) 0 (splitMbox (utf8_decode bytes)) newItems)
       else Inr (newItems @ [parseRFC822 (ids (length newItems)) (utf8_decode bytes) bytes (fst file)]))"

fun files_loop :: "(nat \<Rightarrow> string) \<Rightarrow> mail_file list \<Rightarrow> import_item list \<Rightarrow> js_error + import_item list" where
  "files_loop ids [] newItems = Inr newItems"
| "files_loop ids (f # fs) newItems = bind_err (file_items ids f newItems) (files_loop ids fs)"

definition handleFiles :: "(nat \<Rightarrow> string) \<Rightarrow> mail_file list \<Rightarrow> 'z import_state_scheme \<Rightarrow> 'z import_state_scheme" where
  "handleFiles ids files w =
     (if files = [] then w
      else
        (let w0 = w\<lparr>isProcessingFiles := True, errorMessage := None\<rparr>;
             w1 = (case files_loop ids files [] of
                     Inr newItems \<Rightarrow> w0\<lparr>importItems := importItems w0 @ newItems\<rparr>
                   | Inl e \<Rightarrow> w0\<lparr>errorMessage := Some (''Failed to parse some email files: '' @ or_else (err_message e) ''Error'')\<rparr>)
         in w1\<lparr>isProcessingFiles := False\<rparr>))"

definition handleDrop :: "(nat \<Rightarrow> string) \<Rightarrow> mail_file list \<Rightarrow> 'z import_state_scheme \<Rightarrow> 'z import_state_scheme" where
  "handleDrop ids files w =
     (let w0 = w\<lparr>isDragging := False\<rparr> in if files \<noteq> [] then handleFiles ids files w0 else w0)"

definition handleFileInputChange :: "(nat \<Rightarrow> string) \<Rightarrow> mail_file list \<Rightarrow> 'z import_state_scheme \<Rightarrow> 'z import_state_scheme" where
  "handleFileInputChange ids files w = (if files \<noteq> [] then handleFiles ids files w else w)"

section \<open>The list\<close>

definition removeImportItem :: "string \<Rightarrow> 'z import_state_scheme \<Rightarrow> 'z import_state_scheme" where
  "removeImportItem i w =
     (if isImporting w then w else w\<lparr>importItems := filter (\<lambda>it. it_id it \<noteq> i) (importItems w)\<rparr>)"

definition clearAll :: "'z import_state_scheme \<Rightarrow> 'z import_state_scheme" where
  "clearAll w = (if isImporting w then w else w\<lparr>importItems := [], importSummary := None, errorMessage := None\<rparr>)"

definition on_item :: "string \<Rightarrow> (import_item \<Rightarrow> import_item) \<Rightarrow> 'z import_state_scheme \<Rightarrow> 'z import_state_scheme" where
  "on_item i f w = w\<lparr>importItems := map (\<lambda>it. if it_id it = i then f it else it) (importItems w)\<rparr>"

text \<open>What one response means: \<open>res.status\<close> of a missing body is an error and is caught.\<close>

definition import_outcome :: "js_error + json option \<Rightarrow> import_status \<times> string option" where
  "import_outcome r =
     (case bind_err r need of
        Inr res \<Rightarrow> if jprop ''status'' res = Some (JStr ''already_imported'') then (Duplicate, None) else (Imported, None)
      | Inl e \<Rightarrow> (ItemError, Some (or_else (err_message e) ''Import failed'')))"

definition settled :: "import_status \<times> string option \<Rightarrow> import_item \<Rightarrow> import_item" where
  "settled out it =
     (case snd out of None \<Rightarrow> it\<lparr>it_status := fst out\<rparr> | Some m \<Rightarrow> it\<lparr>it_status := fst out, it_errorMsg := Some m\<rparr>)"

definition counted :: "import_status \<Rightarrow> import_summary \<Rightarrow> import_summary" where
  "counted st s =
     (if st = Duplicate then s\<lparr>sum_duplicates := sum_duplicates s + 1\<rparr>
      else if st = Imported then s\<lparr>sum_imported := sum_imported s + 1\<rparr>
      else s\<lparr>sum_failed := sum_failed s + 1\<rparr>)"

definition import_one ::
  "net \<Rightarrow> string \<Rightarrow> string \<Rightarrow> bool \<Rightarrow> import_item \<Rightarrow> 'z import_state_scheme \<Rightarrow> import_status \<times> 'z import_state_scheme" where
  "import_one N mailboxId folder read it w =
     (let w1 = on_item (it_id it) (\<lambda>x. x\<lparr>it_status := Importing\<rparr>) w;
          (r, w2) = importEmail N mailboxId (it_rawB64 it) (Some folder) (Some read) w1;
          out = import_outcome r
      in (fst out, on_item (it_id it) (settled out) w2))"

fun import_loop ::
  "net \<Rightarrow> string \<Rightarrow> string \<Rightarrow> bool \<Rightarrow> nat \<Rightarrow> nat \<Rightarrow> import_item list \<Rightarrow> import_summary
     \<Rightarrow> 'z import_state_scheme \<Rightarrow> import_summary \<times> 'z import_state_scheme" where
  "import_loop N mailboxId folder read i n [] s w = (s, w)"
| "import_loop N mailboxId folder read i n (it # rest) s w =
     (let (st, w1) = import_one N mailboxId folder read it (w\<lparr>importProgress := (i + 1, n)\<rparr>)
      in import_loop N mailboxId folder read (i + 1) n rest (counted st s) w1)"

text \<open>The first component tells whether \<open>props.onSuccess()\<close> is called.\<close>

definition startImport :: "net \<Rightarrow> string \<Rightarrow> 'z import_state_scheme \<Rightarrow> bool \<times> 'z import_state_scheme" where
  "startImport N mailboxId w =
     (let list = importItems w
      in if list = [] \<or> isImporting w then (False, w)
         else
           (let w0 = w\<lparr>isImporting := True, errorMessage := None, importSummary := None, importProgress := (0, length list)\<rparr>;
                (s, w1) = import_loop N mailboxId (targetFolder w0) (markAsRead w0) 0 (length list) list
                            \<lparr>sum_imported = 0, sum_duplicates = 0, sum_failed = 0\<rparr> w0
            in (0 < sum_imported s, w1\<lparr>isImporting := False, importSummary := Some s\<rparr>)))"

text \<open>\<open>(bytes / 1024).toFixed(1)\<close>: the quotient by a power of two is exact, and \<open>toFixed\<close> rounds to the nearest
  numeral, halves up.\<close>

definition toFixed_div :: "nat \<Rightarrow> nat \<Rightarrow> nat \<Rightarrow> string" where
  "toFixed_div digits num den =
     (let n = (2 * num * 10 ^ digits + den) div (2 * den)
      in num_string (n div 10 ^ digits) @ ''.'' @ padStart digits (CHR ''0'') (num_string (n mod 10 ^ digits)))"

definition formatSize :: "nat \<Rightarrow> string" where
  "formatSize bytes =
     (if bytes < 1024 then num_string bytes @ '' B''
      else if bytes < 1024 * 1024 then toFixed_div 1 bytes 1024 @ '' KB''
      else toFixed_div 2 bytes (1024 * 1024) @ '' MB'')"

section \<open>Lemmas\<close>

subsection \<open>Archives\<close>

definition no_eol :: "string \<Rightarrow> bool" where
  "no_eol l \<longleftrightarrow> list_all (\<lambda>c. \<not> is_line_end c) l"

definition escape_from :: "string \<Rightarrow> string" where
  "escape_from l = (if startsWith l ''From '' then ''>'' @ l else l)"

text \<open>An archive as mail programs write it: every message is a \<open>From \<close> line followed by its lines, in which a leading
  \<open>From \<close> is escaped.\<close>

definition mbox_lines :: "(string \<times> string list) list \<Rightarrow> string list" where
  "mbox_lines ms = concat (map (\<lambda>(sep, ls). (''From '' @ sep) # map escape_from ls) ms)"

definition mbox_message :: "string \<times> string list \<Rightarrow> bool" where
  "mbox_message m \<longleftrightarrow> no_eol (fst m) \<and> list_all no_eol (snd m) \<and> list_all (\<lambda>l. \<not> startsWith l ''>From '') (snd m)
     \<and> list_ex (\<lambda>l. trim l \<noteq> []) (snd m)"

lemma no_eol_Cons [simp]: "no_eol (c # l) \<longleftrightarrow> \<not> is_line_end c \<and> no_eol l" "no_eol []"
  by (simp_all add: no_eol_def)

lemma split_lines_append:
  "no_eol l \<Longrightarrow> eol = newline \<or> eol = crlf \<Longrightarrow> split_lines (l @ eol @ r) = l # split_lines r"
  by (induction l) (auto simp: line_break_def startsWith_def newline_def crlf_def is_line_end_def char_eq_code_iff)

lemma split_lines_single: "no_eol l \<Longrightarrow> split_lines l = [l]"
  by (induction l) (auto simp: line_break_def startsWith_def is_line_end_def char_eq_code_iff)

lemma split_lines_join:
  assumes "list_all no_eol ls" "ls \<noteq> []" "eol = newline \<or> eol = crlf"
  shows "split_lines (join eol ls) = ls"
  using assms(1,2)
proof (induction ls)
  case (Cons l ls)
  then show ?case
    using split_lines_append [OF _ assms(3)] by (cases ls) (simp_all add: split_lines_single)
qed simp

lemma unescape_escape: "\<not> startsWith l ''>From '' \<Longrightarrow> unescape_from (escape_from l) = l"
  by (simp add: unescape_from_def escape_from_def startsWith_def)

lemma escape_no_separator: "\<not> startsWith (escape_from l) ''From ''"
  by (simp add: escape_from_def startsWith_def)

lemma mbox_loop_body:
  "list_all (\<lambda>l. \<not> startsWith l ''>From '') ls \<Longrightarrow>
     mbox_loop found cur (map escape_from ls @ rest) = mbox_loop found (cur @ ls) rest"
  by (induction ls arbitrary: cur) (simp_all add: escape_no_separator unescape_escape)

lemma no_eol_escape: "no_eol l \<Longrightarrow> no_eol (escape_from l)"
  by (simp add: escape_from_def is_line_end_def)

lemma mbox_lines_no_eol: "list_all mbox_message ms \<Longrightarrow> list_all no_eol (mbox_lines ms)"
proof (induction ms)
  case (Cons m ms)
  have "list_all no_eol (map escape_from ls)" if "list_all no_eol ls" for ls
    using that by (induction ls) (simp_all add: no_eol_escape)
  with Cons show ?case
    by (cases m) (simp add: mbox_lines_def mbox_message_def is_line_end_def)
qed (simp add: mbox_lines_def)

lemma mbox_loop_messages:
  "list_all mbox_message ms \<Longrightarrow> cur \<noteq> [] \<Longrightarrow> ms \<noteq> [] \<Longrightarrow>
     mbox_loop found cur (mbox_lines ms) =
       (found @ join crlf cur # map (join crlf \<circ> snd) (butlast ms), snd (last ms))"
proof (induction ms arbitrary: found cur)
  case (Cons m ms)
  obtain sep ls where m: "m = (sep, ls)" by (cases m)
  with Cons.prems have ls: "list_all (\<lambda>l. \<not> startsWith l ''>From '') ls" "ls \<noteq> []"
    by (auto simp: mbox_message_def)
  have "mbox_loop found cur (mbox_lines (m # ms)) = mbox_loop (found @ [join crlf cur]) ls (mbox_lines ms)"
    using Cons.prems(2) mbox_loop_body [OF ls(1)] by (simp add: m mbox_lines_def startsWith_def)
  with Cons ls show ?case by (cases "ms = []") (simp_all add: m mbox_lines_def)
qed simp

subsection \<open>The import loop\<close>

definition import_request :: "net \<Rightarrow> string \<Rightarrow> string \<Rightarrow> bool \<Rightarrow> store \<Rightarrow> import_item \<Rightarrow> request" where
  "import_request N mailboxId folder read session it =
     api_request N (''/v1/mailboxes/'' @ mailboxId @ ''/messages/import'') ''POST''
       (Some (JsonBody (JObj [(''raw_eml'', JStr (it_rawB64 it)), (''folder'', JStr (or_else folder ''inbox'')), (''is_read'', JBool read)])))
       session"

text \<open>What an item has become.\<close>

definition settled_from :: "import_item \<Rightarrow> import_item \<Rightarrow> bool" where
  "settled_from it it' \<longleftrightarrow> it_id it' = it_id it \<and> it_rawB64 it' = it_rawB64 it \<and> it_status it' \<in> {Imported, Duplicate, ItemError}"

definition with_status :: "import_status \<Rightarrow> import_item list \<Rightarrow> nat" where
  "with_status st its = length (filter (\<lambda>it. it_status it = st) its)"

definition tally :: "import_item list \<Rightarrow> import_summary" where
  "tally its = \<lparr>sum_imported = with_status Imported its, sum_duplicates = with_status Duplicate its, sum_failed = with_status ItemError its\<rparr>"

lemma settled_from_status: "settled_from it it' \<Longrightarrow> it_status it' = Imported \<or> it_status it' = Duplicate \<or> it_status it' = ItemError"
  by (simp add: settled_from_def)

lemma with_status_simps [simp]:
  "with_status st [] = 0" "with_status st (it # its) = (if it_status it = st then 1 else 0) + with_status st its"
  "with_status st (xs @ ys) = with_status st xs + with_status st ys"
  by (simp_all add: with_status_def)

lemma import_outcome_status: "fst (import_outcome r) \<in> {Imported, Duplicate, ItemError}"
  by (simp add: import_outcome_def split: sum.splits)

lemma settled_simps [simp]:
  "it_status (settled out it) = fst out" "it_id (settled out it) = it_id it" "it_rawB64 (settled out it) = it_rawB64 it"
  by (simp_all add: settled_def split: option.splits)

lemma map_other: "i \<notin> it_id ` set xs \<Longrightarrow> map (\<lambda>x. if it_id x = i then f x else x) xs = xs"
  by (induction xs) auto

lemma import_one_spec:
  assumes "importItems w = before @ it # rest" "distinct (map it_id (importItems w))"
  obtains st it' where "settled_from it it'" "it_status it' = st"
    "import_one N m folder read it w =
       (st, w\<lparr>importItems := before @ it' # rest, sent := sent w @ [import_request N m folder read (sessionStorage w) it]\<rparr>)"
proof -
  define out where "out = import_outcome (api_response (server N (sent w) (import_request N m folder read (sessionStorage w) it)))"
  let ?it = "settled out (it\<lparr>it_status := Importing\<rparr>)"
  have "it_id it \<notin> it_id ` set before" "it_id it \<notin> it_id ` set rest"
    using assms by auto
  then have "import_one N m folder read it w =
    (fst out, w\<lparr>importItems := before @ ?it # rest, sent := sent w @ [import_request N m folder read (sessionStorage w) it]\<rparr>)"
    by (simp add: import_one_def importEmail_def apiRequest_eq on_item_def assms(1) map_other out_def import_request_def Let_def)
  moreover have "settled_from it ?it"
    using import_outcome_status by (simp add: settled_from_def out_def)
  ultimately show thesis by (rule_tac that) simp_all
qed

lemma import_loop_spec:
  assumes "importItems w = before @ rest" "distinct (map it_id (importItems w))"
  shows "\<exists>its. list_all2 settled_from rest its
     \<and> import_loop N m folder read i n rest s w =
         (\<lparr>sum_imported = sum_imported s + with_status Imported its, sum_duplicates = sum_duplicates s + with_status Duplicate its,
           sum_failed = sum_failed s + with_status ItemError its\<rparr>,
          w\<lparr>importItems := before @ its, sent := sent w @ map (import_request N m folder read (sessionStorage w)) rest,
            importProgress := (if rest = [] then importProgress w else (i + length rest, n))\<rparr>)"
  using assms
proof (induction rest arbitrary: before i s w)
  case (Cons it rest)
  let ?w = "w\<lparr>importProgress := (i + 1, n)\<rparr>"
  obtain st it' where it': "settled_from it it'" "it_status it' = st"
    "import_one N m folder read it ?w =
       (st, ?w\<lparr>importItems := before @ it' # rest, sent := sent w @ [import_request N m folder read (sessionStorage w) it]\<rparr>)"
    using import_one_spec [of ?w before it rest N m folder read thesis] Cons.prems by simp
  let ?v = "?w\<lparr>importItems := before @ it' # rest, sent := sent w @ [import_request N m folder read (sessionStorage w) it]\<rparr>"
  have "importItems ?v = (before @ [it']) @ rest" "distinct (map it_id (importItems ?v))"
    using Cons.prems it'(1) by (auto simp: settled_from_def)
  from Cons.IH [OF this, of "i + 1" "counted st s"] obtain its where "list_all2 settled_from rest its"
    "import_loop N m folder read (i + 1) n rest (counted st s) ?v =
       (\<lparr>sum_imported = sum_imported (counted st s) + with_status Imported its,
         sum_duplicates = sum_duplicates (counted st s) + with_status Duplicate its,
         sum_failed = sum_failed (counted st s) + with_status ItemError its\<rparr>,
        ?v\<lparr>importItems := (before @ [it']) @ its, sent := sent ?v @ map (import_request N m folder read (sessionStorage ?v)) rest,
          importProgress := (if rest = [] then importProgress ?v else (i + 1 + length rest, n))\<rparr>)"
    by auto
  with it' show ?case
    by (intro exI [of _ "it' # its"]) (auto simp: counted_def dest: settled_from_status)
qed simp

section \<open>Properties\<close>

text \<open>An archive of one or more messages splits into exactly its messages, with escaped lines restored, whichever
  line end it uses, except that the first message keeps the separator line of the archive in front of its headers.\<close>

theorem mbox_split_messages:
  assumes "list_all mbox_message ((sep, ls) # ms)" "eol = newline \<or> eol = crlf"
  shows "splitMbox (join eol (mbox_lines ((sep, ls) # ms))) =
    join crlf ((''From '' @ sep) # ls) # map (\<lambda>m. join crlf (snd m)) ms"
proof -
  have body: "list_all (\<lambda>l. \<not> startsWith l ''>From '') ls" "list_ex (\<lambda>l. trim l \<noteq> []) ls"
    using assms(1) by (simp_all add: mbox_message_def)
  have "list_all no_eol (mbox_lines ((sep, ls) # ms))"
    using assms(1) by (rule mbox_lines_no_eol)
  then have "split_lines (join eol (mbox_lines ((sep, ls) # ms))) = mbox_lines ((sep, ls) # ms)"
    using assms(2) by (rule_tac split_lines_join) (simp_all add: mbox_lines_def)
  moreover have "mbox_loop [] [] (mbox_lines ((sep, ls) # ms)) = mbox_loop [] ((''From '' @ sep) # ls) (mbox_lines ms)"
    using mbox_loop_body [OF body(1), of "[]" "[''From '' @ sep]"]
    by (simp add: mbox_lines_def unescape_from_def startsWith_def)
  ultimately show ?thesis
  proof (cases "ms = []")
    case True
    with \<open>mbox_loop [] [] _ = _\<close> \<open>split_lines _ = _\<close> body(2) show ?thesis
      by (simp add: splitMbox_def mbox_lines_def)
  next
    case False
    then have "list_ex (\<lambda>l. trim l \<noteq> []) (snd (last ms))"
      using assms(1) last_in_set [OF False] by (auto simp: list_all_iff mbox_message_def)
    moreover have "mbox_loop [] ((''From '' @ sep) # ls) (mbox_lines ms) =
      (join crlf ((''From '' @ sep) # ls) # map (join crlf \<circ> snd) (butlast ms), snd (last ms))"
      using assms(1) False by (subst mbox_loop_messages) simp_all
    moreover have "map (\<lambda>m. join crlf (snd m)) ms = map (join crlf \<circ> snd) (butlast ms) @ [join crlf (snd (last ms))]"
      using append_butlast_last_id [OF False] by (metis (no_types, lifting) comp_apply list.simps(8,9) map_append map_eq_conv)
    ultimately show ?thesis
      using \<open>mbox_loop [] [] _ = _\<close> \<open>split_lines _ = _\<close> by (auto simp: splitMbox_def)
  qed
qed

text \<open>C34: when an import of distinct items starts, it ends: every item of the list has been sent exactly once, in order,
  with the chosen folder and read mark, and has become imported, a duplicate or an error, whatever the server does; the
  summary counts these and the page is told exactly when something was imported.\<close>

theorem import_settles_every_item:
  assumes "distinct (map it_id (importItems w))" "importItems w \<noteq> []" "\<not> isImporting w"
  shows "\<exists>its. list_all2 settled_from (importItems w) its
     \<and> startImport N m w =
         (0 < with_status Imported its,
          w\<lparr>importItems := its, isImporting := False, errorMessage := None, importSummary := Some (tally its),
            importProgress := (length (importItems w), length (importItems w)),
            sent := sent w @ map (import_request N m (targetFolder w) (markAsRead w) (sessionStorage w)) (importItems w)\<rparr>)
     \<and> with_status Imported its + with_status Duplicate its + with_status ItemError its = length (importItems w)"
proof -
  let ?w = "w\<lparr>isImporting := True, errorMessage := None, importSummary := None, importProgress := (0, length (importItems w))\<rparr>"
  let ?s = "\<lparr>sum_imported = 0, sum_duplicates = 0, sum_failed = 0\<rparr>"
  from import_loop_spec [of ?w "[]" "importItems w" N m "targetFolder w" "markAsRead w" 0 "length (importItems w)" ?s] assms(1)
  obtain its where its: "list_all2 settled_from (importItems w) its"
    "import_loop N m (targetFolder w) (markAsRead w) 0 (length (importItems w)) (importItems w) ?s ?w =
       (tally its, ?w\<lparr>importItems := its,
          sent := sent w @ map (import_request N m (targetFolder w) (markAsRead w) (sessionStorage w)) (importItems w),
          importProgress := (length (importItems w), length (importItems w))\<rparr>)"
    using assms(2) by (auto simp: tally_def)
  from its(1) have "with_status Imported its + with_status Duplicate its + with_status ItemError its = length (importItems w)"
    by (induction rule: list_all2_induct) (auto simp: settled_from_def)
  with its assms(2,3) show ?thesis
    by (intro exI [of _ its]) (simp add: startImport_def Let_def tally_def)
qed

text \<open>Witness: two items and a server that cannot be reached.\<close>

definition sample_import :: import_state where
  "sample_import =
     import_opened \<lparr>sessionStorage = [], localStorage = [], sent = [], importItems = [], targetFolder = [], markAsRead = False,
       isProcessingFiles = False, isImporting = False, importProgress = (0, 0), importSummary = None, isDragging = False,
       errorMessage = None\<rparr>
     \<lparr>importItems := [parseRFC822 ''p'' ''Subject: x'' [] ''a.eml'', parseRFC822 ''q'' ''Subject: y'' [] ''b.eml'']\<rparr>"

theorem import_settles_every_item_witness:
  "\<exists>its. list_all2 settled_from (importItems sample_import) its
     \<and> importSummary (snd (startImport silent_net ''m'' sample_import)) = Some (tally its)
     \<and> with_status Imported its + with_status Duplicate its + with_status ItemError its = 2"
proof -
  have sample: "distinct (map it_id (importItems sample_import))" "importItems sample_import \<noteq> []" "\<not> isImporting sample_import"
    "length (importItems sample_import) = 2"
    by (simp_all add: sample_import_def import_opened_def parseRFC822_def Let_def)
  from import_settles_every_item [OF sample(1-3), of silent_net "''m''"] show ?thesis
    unfolding sample(4) by (elim exE conjE, intro exI conjI) (assumption | simp)+
qed

end
