(* ===== verification/App_Login.thy ===== *)
theory App_Login
  imports App_Session
begin

text \<open>
  Signing in to the webmail (App.tsx, lines 1186 to 1665): password and second factor, password recovery,
  passkeys, and unlocking the mailbox with the password or the recovery phrase. Randomness, the authenticator and the
  server are parameters; the dynamic import of the core succeeds.
\<close>

section \<open>Password and second factor\<close>

definition or_message :: "js_error \<Rightarrow> string \<Rightarrow> string" where
  "or_message e d = or_else (err_message e) d"

definition start_challenge :: "json \<Rightarrow> string \<Rightarrow> 'z app_state_scheme \<Rightarrow> 'z app_state_scheme" where
  "start_challenge res password w =
     w\<lparr>twoFactorChallenge := Some
          \<lparr>tf_challenge_token = text_prop ''challenge_token'' res,
           tf_methods = (case strings_prop ''methods'' res of Some ms \<Rightarrow> ms | None \<Rightarrow> [''email'']),
           tf_preferred_method = or_else (text_prop ''preferred_method'' res) ''email'',
           tf_destination_masked = text_prop ''destination_masked'' res\<rparr>,
       selected2FAMethod := or_else (text_prop ''preferred_method'' res) ''email'',
       cachedPassword := password, twoFactorCodeInput := [], twoFactorError := None, loginBusy := False\<rparr>"

definition store_token :: "json \<Rightarrow> 'z world_scheme \<Rightarrow> 'z world_scheme" where
  "store_token res w =
     (if nonempty (str_prop ''token'' res)
      then w\<lparr>sessionStorage := setItem token_item (text_prop ''token'' res) (sessionStorage w)\<rparr> else w)"

definition with_wrapped :: "json \<Rightarrow> user_me \<Rightarrow> user_me" where
  "with_wrapped res user =
     (if nonempty (str_prop ''wrapped_sk_user'' res) \<and> \<not> nonempty (u_wrapped_sk_user user)
      then user\<lparr>u_wrapped_sk_user := str_prop ''wrapped_sk_user'' res\<rparr> else user)"

text \<open>\<open>fetchCurrentUser\<close> followed by the check that there is a user.\<close>

definition current_user :: "net \<Rightarrow> ('z, user_me) io" where
  "current_user N w =
     (case fetchCurrentUser N w of
        (Inr (Some v), w1) \<Rightarrow> (if truthy (Some v) then Inr (user_of v) else throw_msg ''Session was not established.'', w1)
      | (Inr None, w1) \<Rightarrow> (throw_msg ''Session was not established.'', w1)
      | (Inl e, w1) \<Rightarrow> (Inl e, w1))"

definition login_done :: "'z app_state_scheme \<Rightarrow> 'z app_state_scheme" where
  "login_done w = w\<lparr>loginPassword := [], loginBusy := False, isLoading := False\<rparr>"

definition handleLogin ::
  "net \<Rightarrow> wasm_core \<Rightarrow> date_platform \<Rightarrow> int \<Rightarrow> 'z app_state_scheme \<Rightarrow> 'z app_state_scheme" where
  "handleLogin N W P now w =
     (let email = trim (loginEmail w);
          password = loginPassword w;
          failed = (\<lambda>v. v\<lparr>loginError := Some ''Invalid email or password.''\<rparr>)
      in if email = [] \<or> password = [] then w\<lparr>loginError := Some ''Enter your email and password.''\<rparr>
         else
           (let (r, w1) = login N email password (w\<lparr>loginBusy := True, loginError := None\<rparr>)
            in login_done (case bind_err r need of
                 Inl e \<Rightarrow> failed w1
               | Inr res \<Rightarrow>
                   if truthy (jprop ''two_factor_required'' res) then start_challenge res password w1
                   else
                     (case current_user N (store_token res (w1\<lparr>isLoading := True\<rparr>)) of
                        (Inl e, w2) \<Rightarrow> failed w2
                      | (Inr user, w2) \<Rightarrow>
                          (case bootstrapSession N W P now (with_wrapped res user) (Some password) (str_prop ''token'' res) w2 of
                             (Inl e, w3) \<Rightarrow> failed w3 | (Inr _, w3) \<Rightarrow> w3)))))"

definition login_user :: "json \<Rightarrow> user_me" where
  "login_user res =
     \<lparr>u_id = Some (text_prop ''id'' res), u_user_id = text_prop ''id'' res, u_email = text_prop ''email'' res,
      u_org_id = or_else (text_prop ''org_id'' res) (text_prop ''organization_id'' res),
      u_role = or_else (text_prop ''role'' res) ''member'', u_plan = None, u_display_name = None,
      u_mailbox_id = str_prop ''mailbox_id'' res, u_mailbox_local_part = str_prop ''mailbox_local_part'' res,
      u_mailbox_mode = str_prop ''mailbox_mode'' res, u_wrapped_sk_user = None, u_previous_wrapped_sk_user = None\<rparr>"

definition handleVerifyLogin2FA ::
  "net \<Rightarrow> wasm_core \<Rightarrow> date_platform \<Rightarrow> int \<Rightarrow> 'z app_state_scheme \<Rightarrow> 'z app_state_scheme" where
  "handleVerifyLogin2FA N W P now w =
     (case (twoFactorChallenge w, trim (twoFactorCodeInput w)) of
        (Some challenge, c # cs) \<Rightarrow>
          (let failed = (\<lambda>e v. v\<lparr>twoFactorError := Some (or_message e ''Invalid or expired verification code.'')\<rparr>);
               (r, w1) = verifyLogin2FA N (tf_challenge_token challenge) (c # cs) (w\<lparr>twoFactorBusy := True, twoFactorError := None\<rparr>);
               w2 = (case bind_err r need of
                       Inl e \<Rightarrow> failed e w1
                     | Inr res \<Rightarrow>
                         (let v = store_token res (w1\<lparr>isLoading := True\<rparr>);
                              user = with_wrapped res (case currentUser v of Some u \<Rightarrow> u | None \<Rightarrow> login_user res)
                          in case bootstrapSession N W P now user (Some (cachedPassword v)) (str_prop ''token'' res) v of
                               (Inl e, v') \<Rightarrow> failed e v'
                             | (Inr _, v') \<Rightarrow> v'\<lparr>twoFactorChallenge := None, cachedPassword := [], twoFactorCodeInput := []\<rparr>))
           in w2\<lparr>twoFactorBusy := False, isLoading := False\<rparr>)
      | _ \<Rightarrow> w\<lparr>twoFactorError := Some ''Please enter your 6-digit verification code.''\<rparr>)"

definition handleSwitchLogin2FAMethod :: "net \<Rightarrow> string \<Rightarrow> 'z app_state_scheme \<Rightarrow> 'z app_state_scheme" where
  "handleSwitchLogin2FAMethod N meth w =
     (case twoFactorChallenge w of
        None \<Rightarrow> w
      | Some challenge \<Rightarrow>
          (let (r, w1) = sendLogin2FACode N (tf_challenge_token challenge) meth (w\<lparr>twoFactorBusy := True, twoFactorError := None\<rparr>)
           in (case bind_err r need of
                 Inl e \<Rightarrow> w1\<lparr>twoFactorError := Some (or_message e ''Failed to send verification code.'')\<rparr>
               | Inr res \<Rightarrow>
                   if truthy (jprop ''success'' res)
                   then w1\<lparr>selected2FAMethod := meth,
                           twoFactorChallenge := map_option (\<lambda>c. c\<lparr>tf_preferred_method := meth,
                             tf_destination_masked := text_prop ''destination_masked'' res\<rparr>) (twoFactorChallenge w1)\<rparr>
                   else w1)\<lparr>twoFactorBusy := False\<rparr>))"

definition handleCancelLogin2FA :: "'z app_state_scheme \<Rightarrow> 'z app_state_scheme" where
  "handleCancelLogin2FA w = w\<lparr>twoFactorChallenge := None, cachedPassword := [], twoFactorCodeInput := [], twoFactorError := None\<rparr>"

section \<open>Password recovery\<close>

definition handleOpenForgotPassword :: "'z app_state_scheme \<Rightarrow> 'z app_state_scheme" where
  "handleOpenForgotPassword w =
     w\<lparr>forgotEmail := trim (loginEmail w), forgotStep := 1, forgotMethods := [], forgotSelectedMethod := ''email'',
       forgotChallengeToken := [], forgotDestinationMasked := [], forgotCode := [], forgotNewPassword := [],
       forgotConfirmPassword := [], forgotMailboxId := [], forgotOldWrappedSk := [], forgotRecoveryPhrase := [],
       showPhraseInput := False, forgotError := None, forgotPasswordModalOpen := True\<rparr>"

definition handleFindRecoveryMethods :: "net \<Rightarrow> 'z app_state_scheme \<Rightarrow> 'z app_state_scheme" where
  "handleFindRecoveryMethods N w =
     (let email = toLowerCase (trim (forgotEmail w))
      in if email = [] \<or> CHR ''@'' \<notin> set email then w\<lparr>forgotError := Some ''Please enter a valid email address.''\<rparr>
         else
           (let (r, w1) = fetchRecoveryOptions N email (w\<lparr>forgotBusy := True, forgotError := None\<rparr>)
            in (case bind_err (bind_err r need) (\<lambda>res. list_prop ''methods'' (Some res)) of
                  Inl e \<Rightarrow> w1\<lparr>forgotError := Some (or_message e ''Failed to find recovery options.'')\<rparr>
                | Inr ms \<Rightarrow>
                    (let w2 = w1\<lparr>forgotMethods := ms\<rparr>
                     in case ms of [] \<Rightarrow> w2 | m # _ \<Rightarrow> w2\<lparr>forgotSelectedMethod := text_prop ''type'' m\<rparr>))\<lparr>forgotBusy := False\<rparr>))"

definition handleRequestRecoveryCode :: "net \<Rightarrow> 'z app_state_scheme \<Rightarrow> 'z app_state_scheme" where
  "handleRequestRecoveryCode N w =
     (let email = toLowerCase (trim (forgotEmail w));
          meth = or_else (forgotSelectedMethod w) ''email''
      in if email = [] then w
         else
           (let (r, w1) = requestRecoveryChallenge N email meth (w\<lparr>forgotBusy := True, forgotError := None\<rparr>)
            in (case bind_err r need of
                  Inl e \<Rightarrow> w1\<lparr>forgotError := Some (or_message e ''Failed to request recovery code.'')\<rparr>
                | Inr res \<Rightarrow>
                    (let w2 = w1\<lparr>forgotChallengeToken := text_prop ''challenge_token'' res,
                                 forgotDestinationMasked := text_prop ''destination_masked'' res\<rparr>;
                         w3 = (if nonempty (str_prop ''mailbox_id'' res) then w2\<lparr>forgotMailboxId := text_prop ''mailbox_id'' res\<rparr> else w2);
                         w4 = (if nonempty (str_prop ''wrapped_sk_user'' res)
                               then w3\<lparr>forgotOldWrappedSk := text_prop ''wrapped_sk_user'' res\<rparr> else w3)
                     in w4\<lparr>forgotStep := 2\<rparr>))\<lparr>forgotBusy := False\<rparr>))"

text \<open>The randomness one handler draws: the salts and what the core draws.\<close>

record login_random =
  rl_salt_phrase :: "byte list"
  rl_wrap_phrase :: "byte list"
  rl_wrap_root :: "byte list"
  rl_keypair :: "byte list"
  rl_salt :: "byte list"
  rl_wrap :: "byte list"

text \<open>A fresh key pair: the public key, and the private key wrapped under the password.\<close>

definition fresh_keypair :: "wasm_core \<Rightarrow> login_random \<Rightarrow> string \<Rightarrow> js_error + (string option \<times> string)" where
  "fresh_keypair W R password =
     bind_err (wasm_generate_keypair W (rl_keypair R)) (\<lambda>kpJson.
     bind_err (js_parse kpJson) (\<lambda>v.
     bind_err (need (Some v)) (\<lambda>kp.
     bind_err (string_arg (jprop ''secret_key'' kp)) (\<lambda>sk.
     bind_err (wasm_passphrase_wrap_key W (rl_wrap R) password (bytesToHex (rl_salt R)) sk) (\<lambda>env.
     Inr (str_prop ''public_key'' kp,
          stringify (JObj [(''salt'', JStr (bytesToHex (rl_salt R))), (''envelope'', JStr env)])))))))"

text \<open>The old key unsealed with the phrase and wrapped again. The mailbox identifier is passed as the bytes of its text.\<close>

definition rewrap_with_phrase :: "wasm_core \<Rightarrow> login_random \<Rightarrow> string \<Rightarrow> string \<Rightarrow> string \<Rightarrow> string \<Rightarrow> js_error + string" where
  "rewrap_with_phrase W R phrase boxId oldWrapped newPass =
     bind_err (unwrapMailboxKeyWithRecoveryPhrase W phrase boxId oldWrapped) (\<lambda>skBytes.
     bind_err (wasm_passphrase_wrap_key W (rl_wrap_phrase R) newPass (bytesToHex (rl_salt_phrase R)) (bytesToHex skBytes)) (\<lambda>env.
     bind_err (wasm_recover_root_secret W phrase) (\<lambda>rootHex.
     bind_err (wasm_wrap_mailbox_key W (rl_wrap_root R) rootHex (bytesToHex skBytes)
                 (bytesToHex (utf8_encode (filter (\<lambda>c. c \<noteq> CHR ''-'') boxId)))) (\<lambda>rootWrapped.
     Inr (stringify (JObj [(''salt'', JStr (bytesToHex (rl_salt_phrase R))), (''envelope'', JStr env), (''root_wrapped'', JStr rootWrapped)]))))))"

definition reset_material :: "wasm_core \<Rightarrow> login_random \<Rightarrow> string \<Rightarrow> string \<Rightarrow> string \<Rightarrow> string \<Rightarrow> js_error + (string option \<times> string)" where
  "reset_material W R phrase boxId oldWrapped newPass =
     (let wordCount = length (filter (\<lambda>x. x \<noteq> []) (split_ws phrase));
          rewrapped = (if wordCount = 24 \<and> oldWrapped \<noteq> [] \<and> boxId \<noteq> [] then rewrap_with_phrase W R phrase boxId oldWrapped newPass
                       else throw_msg [])
      in case rewrapped of Inr wrapped \<Rightarrow> Inr (Some [], wrapped) | Inl _ \<Rightarrow> fresh_keypair W R newPass)"

definition handleResetPasswordWithRecovery :: "net \<Rightarrow> wasm_core \<Rightarrow> login_random \<Rightarrow> 'z app_state_scheme \<Rightarrow> 'z app_state_scheme" where
  "handleResetPasswordWithRecovery N W R w =
     (let tok = forgotChallengeToken w;
          otp = trim (forgotCode w);
          newPass = forgotNewPassword w
      in if length otp \<noteq> 6 then w\<lparr>forgotError := Some ''Please enter the 6-digit verification code.''\<rparr>
         else if length newPass < 12 then w\<lparr>forgotError := Some ''New password must be at least 12 characters.''\<rparr>
         else if newPass \<noteq> forgotConfirmPassword w then w\<lparr>forgotError := Some ''Passwords do not match.''\<rparr>
         else
           (let w0 = w\<lparr>forgotBusy := True, forgotError := None\<rparr>;
                failed = (\<lambda>e v. v\<lparr>forgotError := Some (or_message e ''Failed to reset password. Please verify your code and try again.'')\<rparr>)
            in (case reset_material W R (trim (forgotRecoveryPhrase w)) (forgotMailboxId w) (forgotOldWrappedSk w) newPass of
                  Inl e \<Rightarrow> failed e w0
                | Inr (pk, wrapped) \<Rightarrow>
                    (case resetPasswordWithRecovery N tok otp newPass pk (Some wrapped) w0 of
                       (Inl e, w1) \<Rightarrow> failed e w1
                     | (Inr _, w1) \<Rightarrow> w1\<lparr>forgotStep := 3, loginEmail := trim (forgotEmail w1), loginPassword := newPass\<rparr>))\<lparr>forgotBusy := False\<rparr>))"

section \<open>Passkeys\<close>

record assertion =
  as_rawId :: "byte list"
  as_signature :: "byte list"
  as_clientDataJSON :: "byte list"

text \<open>What the page asks the authenticator for: the challenge, the relying party, the verification requirement, the timeout,
  and the accepted credentials.\<close>

record passkey_request =
  pr_challenge :: "byte list"
  pr_rpId :: string
  pr_userVerification :: "json option"
  pr_timeout :: "json option"
  pr_allow :: "byte list list option"

text \<open>The browser: whether it has passkeys, the host name, and \<open>navigator.credentials.get\<close> (\<open>None\<close> is \<open>null\<close>).\<close>

record passkey_platform =
  pk_supported :: bool
  pk_hostname :: string
  pk_get :: "passkey_request \<Rightarrow> js_error + assertion option"

definition passkey_request_of :: "string \<Rightarrow> json \<Rightarrow> js_error + passkey_request" where
  "passkey_request_of host opts =
     (let rpId = (if host = ''localhost'' \<or> host = ''127.0.0.1'' then host else or_else (text_prop ''rpId'' opts) host)
      in bind_err (case jprop ''allowCredentials'' opts of
                     Some (JArr cs) \<Rightarrow> bind_err (traverse (\<lambda>c. base64URLToBuffer (text_prop ''id'' c)) cs) (\<lambda>ids. Inr (Some ids))
                   | _ \<Rightarrow> Inr None) (\<lambda>allow.
         bind_err (base64URLToBuffer (text_prop ''challenge'' opts)) (\<lambda>challenge.
         Inr \<lparr>pr_challenge = challenge, pr_rpId = rpId, pr_userVerification = jprop ''userVerification'' opts,
              pr_timeout = jprop ''timeout'' opts, pr_allow = (if allow = Some [] then None else allow)\<rparr>)))"

text \<open>The key kept on this device for the passkey unlocks the mailbox at once.\<close>

definition unlock_from_vault :: "string \<Rightarrow> 'z core_state_scheme \<Rightarrow> 'z core_state_scheme" where
  "unlock_from_vault credId w =
     (let rawVault = filled (getItem (localStorage w) (''byos_passkey_vault_'' @ credId));
          vault = (if rawVault \<noteq> [] then json_parse rawVault else None)
      in case vault of
           None \<Rightarrow> w
         | Some v \<Rightarrow>
             if \<not> nonempty (str_prop ''mailbox_sk_hex'' v) then w
             else (case key_bytes (text_prop ''mailbox_sk_hex'' v) of
                     None \<Rightarrow> w
                   | Some bytes \<Rightarrow>
                       (let boxId = (case str_prop ''mailbox_id'' v of Some i \<Rightarrow> i | None \<Rightarrow> ''undefined'');
                            skey = text_prop ''search_key_hex'' v;
                            w1 = w\<lparr>mailboxKey := Some bytes, unlockedBoxId := str_prop ''mailbox_id'' v,
                                   sessionStorage := setItem (sk_item boxId) (text_prop ''mailbox_sk_hex'' v) (sessionStorage w)\<rparr>
                        in if skey \<noteq> []
                           then w1\<lparr>searchKey := Some skey, sessionStorage := setItem (skey_item boxId) skey (sessionStorage w1)\<rparr> else w1)))"

text \<open>The steps of the \<open>try\<close> block; an error is handled by the caller.\<close>

definition passkey_steps ::
  "net \<Rightarrow> wasm_core \<Rightarrow> date_platform \<Rightarrow> int \<Rightarrow> passkey_platform \<Rightarrow> 'z app_state_scheme \<Rightarrow> (js_error + unit) \<times> 'z app_state_scheme" where
  "passkey_steps N W P now K w =
     (let email = trim (loginEmail w);
          (r, w1) = fetchPasskeyLoginOptions N (if email = [] then None else Some email) w
      in case bind_err (bind_err r need) (\<lambda>opts. bind_err (passkey_request_of (pk_hostname K) opts) (\<lambda>q.
                bind_err (pk_get K q) (\<lambda>a. case a of None \<Rightarrow> throw_msg ''Passkey login was cancelled.'' | Some x \<Rightarrow> Inr (opts, x)))) of
           Inl e \<Rightarrow> (Inl e, w1)
         | Inr (opts, a) \<Rightarrow>
             (let credId = bufferToBase64URL (as_rawId a);
                  (r2, w2) = loginWithPasskey N (JObj ([(''credential_id'', JStr credId)]
                      @ (case jprop ''challenge'' opts of Some c \<Rightarrow> [(''challenge_token'', c)] | None \<Rightarrow> [])
                      @ [(''signature'', JStr (bytesToHex (as_signature a))), (''client_data_json'', JStr (bufferToBase64URL (as_clientDataJSON a)))])) w1
              in case bind_err r2 need of
                   Inl e \<Rightarrow> (Inl e, w2)
                 | Inr res \<Rightarrow>
                     (case current_user N (unlock_from_vault credId (store_token res (w2\<lparr>isLoading := True\<rparr>))) of
                        (Inl e, w3) \<Rightarrow> (Inl e, w3)
                      | (Inr user, w3) \<Rightarrow> bootstrapSession N W P now user None (str_prop ''token'' res) w3)))"

definition handlePasskeyLogin ::
  "net \<Rightarrow> wasm_core \<Rightarrow> date_platform \<Rightarrow> int \<Rightarrow> passkey_platform \<Rightarrow> 'z app_state_scheme \<Rightarrow> 'z app_state_scheme" where
  "handlePasskeyLogin N W P now K w =
     (if \<not> pk_supported K then w\<lparr>loginError := Some ''Passkeys are not supported in this browser.''\<rparr>
      else
        (let (r, w1) = passkey_steps N W P now K (w\<lparr>loginBusy := True, loginError := None\<rparr>)
         in (case r of Inl e \<Rightarrow> w1\<lparr>loginError := Some (or_message e ''Passkey login failed.'')\<rparr> | Inr _ \<Rightarrow> w1)
              \<lparr>loginBusy := False, isLoading := False\<rparr>))"

section \<open>Unlocking\<close>

text \<open>An account without key material gets a fresh key pair; the result is the wrapped key to unlock with.\<close>

definition heal_keys ::
  "net \<Rightarrow> wasm_core \<Rightarrow> login_random \<Rightarrow> string \<Rightarrow> json \<Rightarrow> string \<Rightarrow> 'z world_scheme \<Rightarrow> string \<times> 'z world_scheme" where
  "heal_keys N W R password res targetWrappedSk w =
     (if targetWrappedSk = [] \<and> nonempty (str_prop ''mailbox_id'' res)
      then (case fresh_keypair W R password of
              Inl e \<Rightarrow> (targetWrappedSk, w)
            | Inr (pk, wrapped) \<Rightarrow>
                (case reactivateHistoricalKeys N (text_prop ''mailbox_id'' res) wrapped pk w of
                   (Inl e, w1) \<Rightarrow> (targetWrappedSk, w1) | (Inr _, w1) \<Rightarrow> (wrapped, w1)))
      else (targetWrappedSk, w))"

definition handleUnlock ::
  "net \<Rightarrow> wasm_core \<Rightarrow> date_platform \<Rightarrow> int \<Rightarrow> login_random \<Rightarrow> 'z app_state_scheme \<Rightarrow> 'z app_state_scheme" where
  "handleUnlock N W P now R w =
     (case (currentUser w, loginPassword w) of
        (Some user, c # cs) \<Rightarrow>
          (let password = c # cs;
               failed = (\<lambda>e v. v\<lparr>loginError := Some (or_message e ''Invalid password.'')\<rparr>);
               (r, w1) = login N (u_email user) password (w\<lparr>loginBusy := True, loginError := None\<rparr>)
           in login_done (case bind_err r need of
                Inl e \<Rightarrow> failed e w1
              | Inr res \<Rightarrow>
                  if truthy (jprop ''two_factor_required'' res) then start_challenge res password w1
                  else
                    (let (wrapped, w2) = heal_keys N W R password res
                           (or_else (text_prop ''wrapped_sk_user'' res) (filled (u_wrapped_sk_user user))) (store_token res (w1\<lparr>isLoading := True\<rparr>))
                     in case bootstrapSession N W P now (user\<lparr>u_wrapped_sk_user := Some wrapped\<rparr>) (Some password) (str_prop ''token'' res) w2 of
                          (Inl e, w3) \<Rightarrow> failed e w3
                        | (Inr _, w3) \<Rightarrow>
                            if mailboxKey w3 = None
                            then failed (JsError (''Unable to unlock mailbox with this password. If your mailbox was created with a ''
                                   @ ''recovery phrase, use your recovery phrase below.'') None) w3
                            else w3)))
      | _ \<Rightarrow> w\<lparr>loginError := Some ''Enter your password.''\<rparr>)"

definition recovered_key ::
  "wasm_core \<Rightarrow> string \<Rightarrow> user_me \<Rightarrow> 'z core_state_scheme \<Rightarrow> js_error + (mailbox \<times> byte list \<times> string)" where
  "recovered_key W phrase user w =
     (case (case selectedMailbox w of Some b \<Rightarrow> Some b | None \<Rightarrow> (case mailboxes w of b # _ \<Rightarrow> Some b | [] \<Rightarrow> None)) of
        None \<Rightarrow> throw_msg ''No mailbox found.''
      | Some box \<Rightarrow>
          (let wrappedSk = or_else (filled (u_wrapped_sk_user user)) (filled (mb_wrapped_sk_user box))
           in if wrappedSk = [] then throw_msg ''No encrypted key found for this mailbox.''
              else bind_err (unwrapMailboxKeyWithRecoveryPhrase W phrase (mb_id box) wrappedSk) (\<lambda>sk.
                   bind_err (wasm_derive_search_key W (bytesToHex sk)) (\<lambda>sKey. Inr (box, sk, sKey)))))"

definition handleUnlockWithRecovery ::
  "net \<Rightarrow> wasm_core \<Rightarrow> date_platform \<Rightarrow> int \<Rightarrow> 'z app_state_scheme \<Rightarrow> 'z app_state_scheme" where
  "handleUnlockWithRecovery N W P now w =
     (case (currentUser w, trim (recoveryPhraseInput w)) of
        (Some user, c # cs) \<Rightarrow>
          (let w0 = w\<lparr>loginBusy := True, loginError := None\<rparr>
           in (case recovered_key W (c # cs) user w0 of
                 Inl e \<Rightarrow> w0\<lparr>loginError := Some (or_message e ''Invalid recovery phrase or failed to unlock mailbox keys.'')\<rparr>
               | Inr (box, sk, sKey) \<Rightarrow>
                   loadMailboxData N W P now (mb_id box)
                     (w0\<lparr>mailboxKey := Some sk, searchKey := Some sKey, unlockedBoxId := Some (mb_id box),
                         sessionStorage := setItem (skey_item (mb_id box)) sKey
                                             (setItem (sk_item (mb_id box)) (bytesToHex sk) (sessionStorage w0))\<rparr>))
                \<lparr>recoveryPhraseInput := [], loginBusy := False\<rparr>)
      | _ \<Rightarrow> w\<lparr>loginError := Some ''Enter your 24-word recovery phrase.''\<rparr>)"

section \<open>Theorems\<close>

text \<open>The core takes a mailbox identifier of 16 bytes and nothing else.\<close>

definition wrap_needs_16 :: "wasm_core \<Rightarrow> bool" where
  "wrap_needs_16 W \<longleftrightarrow>
     (\<forall>rnd rt sk mid. length mid \<noteq> 16 \<longrightarrow> \<not> is_ok (wasm_wrap_mailbox_key W rnd rt sk (bytesToHex mid)))"

lemma toy_core_needs_16: "wrap_needs_16 toy_core"
  by (simp add: wrap_needs_16_def toy_core_def)

lemma bind_err_first: "\<not> is_ok m \<Longrightarrow> \<not> is_ok (bind_err m f)"
  by (cases m) simp_all

lemma bind_err_later: "(\<And>x. \<not> is_ok (f x)) \<Longrightarrow> \<not> is_ok (bind_err m f)"
  by (cases m) simp_all

lemma rewrap_fails:
  assumes "wrap_needs_16 W" "length (utf8_encode (filter (\<lambda>c. c \<noteq> CHR ''-'') boxId)) \<noteq> 16"
  shows "\<not> is_ok (rewrap_with_phrase W R phrase boxId oldWrapped newPass)"
proof -
  have fails: "\<not> is_ok (wasm_wrap_mailbox_key W rnd rt sk (bytesToHex (utf8_encode (filter (\<lambda>c. c \<noteq> CHR ''-'') boxId))))" for rnd rt sk
    using assms by (simp add: wrap_needs_16_def)
  show ?thesis
    unfolding rewrap_with_phrase_def
    by (rule bind_err_later, rule bind_err_later, rule bind_err_later, rule bind_err_first) (rule fails)
qed

text \<open>C35: a password reset with the recovery phrase. The handler encodes the text of the mailbox identifier instead of the
  identifier, so the core rejects it unless the text has 16 bytes; a mailbox identifier has 32 digits. Then the
  recovery phrase has no effect at all: the material uploaded is a fresh key pair, exactly as if no phrase had been
  entered, although the phrase may well unseal the old key.\<close>

theorem recovery_phrase_ignored:
  assumes "wrap_needs_16 W" "length (utf8_encode (filter (\<lambda>c. c \<noteq> CHR ''-'') (forgotMailboxId w))) \<noteq> 16"
  shows "reset_material W R phrase (forgotMailboxId w) oldWrapped newPass = fresh_keypair W R newPass
    \<and> sent (handleResetPasswordWithRecovery N W R w) = sent (handleResetPasswordWithRecovery N W R (w\<lparr>forgotRecoveryPhrase := p\<rparr>))
    \<and> forgotStep (handleResetPasswordWithRecovery N W R w) = forgotStep (handleResetPasswordWithRecovery N W R (w\<lparr>forgotRecoveryPhrase := p\<rparr>))"
proof -
  have material: "reset_material W R phrase (forgotMailboxId w) oldWrapped newPass = fresh_keypair W R newPass" for phrase oldWrapped newPass
    using rewrap_fails [OF assms, of R phrase oldWrapped newPass]
    by (cases "rewrap_with_phrase W R phrase (forgotMailboxId w) oldWrapped newPass") (simp_all add: reset_material_def Let_def)
  have "sent (handleResetPasswordWithRecovery N W R w) = sent (handleResetPasswordWithRecovery N W R (w\<lparr>forgotRecoveryPhrase := p\<rparr>))
    \<and> forgotStep (handleResetPasswordWithRecovery N W R w) = forgotStep (handleResetPasswordWithRecovery N W R (w\<lparr>forgotRecoveryPhrase := p\<rparr>))"
  proof (cases "fresh_keypair W R (forgotConfirmPassword w)")
    case (Inl e)
    then show ?thesis by (simp add: handleResetPasswordWithRecovery_def Let_def material)
  next
    case (Inr m)
    obtain pk wrapped where "m = (pk, wrapped)" by (cases m)
    with Inr show ?thesis
      by (simp add: handleResetPasswordWithRecovery_def Let_def material resetPasswordWithRecovery_def apiRequest_eq
          split: sum.split del: append.simps)
  qed
  with material show ?thesis by blast
qed

definition toy_login_random :: login_random where
  "toy_login_random = \<lparr>rl_salt_phrase = replicate 16 1, rl_wrap_phrase = [], rl_wrap_root = [], rl_keypair = [],
     rl_salt = replicate 16 2, rl_wrap = []\<rparr>"

theorem recovery_phrase_ignored_witness:
  "reset_material toy_core toy_login_random ''abc'' ''000000000000000000000000000000ab'' ''w'' ''p'' = fresh_keypair toy_core toy_login_random ''p''"
proof -
  have "length (utf8_encode (filter (\<lambda>c. c \<noteq> CHR ''-'') (forgotMailboxId ((initial_app [] [])\<lparr>forgotMailboxId := ''000000000000000000000000000000ab''\<rparr>)))) \<noteq> 16"
    by code_simp
  from recovery_phrase_ignored [OF toy_core_needs_16 this] show ?thesis by simp
qed

text \<open>C30: the second factor. When the server asks for a second factor, a correct password alone opens nothing: one request
  is sent, and the user, the keys, the accounts and both storages stay as they were. The password is kept only for the
  verification and removed from the form, and cancelling the challenge forgets it.\<close>

theorem second_factor_required:
  assumes "trim (loginEmail w) \<noteq> []" "loginPassword w \<noteq> []"
    and "fst (login N (trim (loginEmail w)) (loginPassword w) w) = Inr (Some res)" "res \<noteq> JNull" "truthy (jprop ''two_factor_required'' res)"
  shows "let w' = handleLogin N W P now w in
     currentUser w' = currentUser w \<and> mailboxKey w' = mailboxKey w \<and> searchKey w' = searchKey w \<and> unlockedBoxId w' = unlockedBoxId w
   \<and> connectedAccounts w' = connectedAccounts w \<and> sessionStorage w' = sessionStorage w \<and> localStorage w' = localStorage w
   \<and> length (sent w') = Suc (length (sent w)) \<and> twoFactorChallenge w' \<noteq> None
   \<and> loginPassword w' = [] \<and> cachedPassword w' = loginPassword w
   \<and> cachedPassword (handleCancelLogin2FA w') = [] \<and> twoFactorChallenge (handleCancelLogin2FA w') = None"
proof -
  let ?v = "w\<lparr>loginBusy := True, loginError := None\<rparr>"
  have "fst (login N (trim (loginEmail w)) (loginPassword w) ?v) = Inr (Some res)"
    using assms(3) by (simp add: login_def apiRequest_eq)
  moreover have "need (Some res) = Inr res" using assms(4) by (cases res) (simp_all add: need_def)
  ultimately have "handleLogin N W P now w =
      login_done (start_challenge res (loginPassword w) (snd (login N (trim (loginEmail w)) (loginPassword w) ?v)))"
    using assms(1,2,5) by (simp add: handleLogin_def Let_def case_prod_beta)
  then show ?thesis
    by (simp add: Let_def login_done_def start_challenge_def handleCancelLogin2FA_def login_def apiRequest_eq)
qed

definition challenge_net :: net where
  "challenge_net = \<lparr>api_base = [], page_origin = [], byos_user_id = [],
     server = (\<lambda>_ _. Resp 200 (Some ''application/json'') (Some (utf8_encode (stringify (JObj [(''two_factor_required'', JBool True)])))))\<rparr>"

theorem second_factor_required_witness:
  "currentUser (handleLogin challenge_net toy_core toy_dates 0 (sample_app\<lparr>loginEmail := ''a@b.c'', loginPassword := ''pw''\<rparr>)) = currentUser sample_app"
proof -
  let ?w = "sample_app\<lparr>loginEmail := ''a@b.c'', loginPassword := ''pw''\<rparr>"
  have "fst (login challenge_net (trim (loginEmail ?w)) (loginPassword ?w) ?w) = Inr (Some (JObj [(''two_factor_required'', JBool True)]))"
    "trim (loginEmail ?w) \<noteq> []"
    by code_simp+
  moreover have "loginPassword ?w \<noteq> []" "truthy (jprop ''two_factor_required'' (JObj [(''two_factor_required'', JBool True)]))"
    by (simp_all add: truthy_def jprop_def)
  ultimately show ?thesis
    using second_factor_required [of ?w challenge_net "JObj [(''two_factor_required'', JBool True)]" toy_core toy_dates 0]
    by (simp add: Let_def)
qed

end
