(* ===== verification/Totp.thy ===== *)
theory Totp
  imports Encoding
begin

text \<open>
  Time-based one-time passwords: \<open>apps/webmail/src/utils/totp.ts\<close>. The bit buffers of the base32
  loops are 32 bit words, as JavaScript's shift operators have them; the HMAC of the platform is a
  parameter. The base32 lemmas go through the big-endian bit string of the buffer.
\<close>

section \<open>Base32 secrets\<close>

definition BASE32_ALPHABET :: string where
  "BASE32_ALPHABET = ''ABCDEFGHIJKLMNOPQRSTUVWXYZ234567''"

text \<open>The inner loop of \<open>generateTOTPSecret\<close>: characters are emitted while five bits are buffered.\<close>

fun emit_quintets :: "nat \<Rightarrow> u32 \<Rightarrow> string \<times> nat" where
  "emit_quintets bits value =
     (if 5 \<le> bits then
        (let c = BASE32_ALPHABET ! unat (drop_bit (bits - 5) value AND 31);
             (out, bits') = emit_quintets (bits - 5) value
         in (c # out, bits'))
      else ([], bits))"

declare emit_quintets.simps [simp del]

fun totp_secret_loop :: "nat \<Rightarrow> u32 \<Rightarrow> byte list \<Rightarrow> string" where
  "totp_secret_loop bits value [] =
     (if 0 < bits then [BASE32_ALPHABET ! unat (push_bit (5 - bits) value AND 31)] else [])"
| "totp_secret_loop bits value (b # bs) =
     (let value' = push_bit 8 value OR ucast b;
          (out, bits') = emit_quintets (bits + 8) value'
      in out @ totp_secret_loop bits' value' bs)"

text \<open>\<open>generateTOTPSecret\<close> on the 20 bytes drawn by \<open>getRandomValues\<close>.\<close>

definition generateTOTPSecret :: "byte list \<Rightarrow> string" where
  "generateTOTPSecret bytes = totp_secret_loop 0 0 bytes"

function chunks :: "nat \<Rightarrow> 'a list \<Rightarrow> 'a list list" where
  "chunks n xs = (if xs = [] \<or> n = 0 then [] else take n xs # chunks n (drop n xs))"
  by pat_completeness auto
termination
  by (relation "measure (\<lambda>(n, xs). length xs)") auto

declare chunks.simps [simp del]

definition formatTOTPSecret :: "string \<Rightarrow> string" where
  "formatTOTPSecret secret =
     (let clean = toUpperCase (filter (\<lambda>c. \<not> is_ws c) secret) in join '' '' (chunks 4 clean))"

text \<open>\<open>s.indexOf(c)\<close> for one character; \<open>None\<close> is -1.\<close>

fun index_of :: "char \<Rightarrow> string \<Rightarrow> nat option" where
  "index_of c [] = None"
| "index_of c (d # s) = (if c = d then Some 0 else map_option Suc (index_of c s))"

fun base32_loop :: "nat \<Rightarrow> u32 \<Rightarrow> string \<Rightarrow> byte list" where
  "base32_loop bits value [] = []"
| "base32_loop bits value (c # s) =
     (case index_of c BASE32_ALPHABET of
        None \<Rightarrow> base32_loop bits value s
      | Some idx \<Rightarrow>
          (let value' = push_bit 5 value OR of_nat idx
           in if 8 \<le> bits + 5
              then ucast (drop_bit (bits + 5 - 8) value' AND 255) # base32_loop (bits + 5 - 8) value' s
              else base32_loop (bits + 5) value' s))"

definition base32ToBytes :: "string \<Rightarrow> byte list" where
  "base32ToBytes base32 =
     base32_loop 0 0 (toUpperCase (filter (\<lambda>c. \<not> is_ws c \<and> c \<noteq> CHR ''='') base32))"

section \<open>Codes\<close>

text \<open>\<open>DataView.setUint32(.., .., false)\<close>: four bytes, most significant first.\<close>

definition be32 :: "u32 \<Rightarrow> byte list" where
  "be32 w = [ucast (drop_bit 24 w), ucast (drop_bit 16 w), ucast (drop_bit 8 w), ucast w]"

definition read_be32 :: "byte list \<Rightarrow> u32" where
  "read_be32 bs = foldl (\<lambda>acc b. push_bit 8 acc OR ucast b) 0 bs"

definition counter_bytes :: "int \<Rightarrow> byte list" where
  "counter_bytes counter = be32 (of_int (counter div 0x100000000)) @ be32 (of_int counter)"

text \<open>
  \<open>hmac hash key data\<close> stands for the platform's \<open>importKey\<close> and \<open>sign\<close>; \<open>now\<close> is \<open>Date.now()\<close> in
  milliseconds. A \<open>DataView\<close> of four bytes that reaches past the digest is a \<open>RangeError\<close>.
\<close>

definition computeTOTPCode ::
  "(string \<Rightarrow> byte list \<Rightarrow> byte list \<Rightarrow> js_error + byte list) \<Rightarrow> int \<Rightarrow> string \<Rightarrow> int option \<Rightarrow> js_error + string" where
  "computeTOTPCode hmac now secret timestampSeconds =
     (let keyBytes = base32ToBytes secret;
          time = (case timestampSeconds of Some t \<Rightarrow> t | None \<Rightarrow> now div 1000);
          counter = time div 30
      in bind_err (hmac ''SHA-1'' keyBytes (counter_bytes counter)) (\<lambda>hash.
         let offset = (if hash = [] then 0 else unat (last hash AND 0x0f))
         in if length hash < offset + 4 then throw_msg ''RangeError''
            else let binary = read_be32 (take 4 (drop offset hash)) AND 0x7fffffff;
                     otp = unat binary mod 1000000
                 in Inr (padStart 6 (CHR ''0'') (num_string otp))))"

definition verifyTOTPClient ::
  "(string \<Rightarrow> byte list \<Rightarrow> byte list \<Rightarrow> js_error + byte list) \<Rightarrow> int \<Rightarrow> string \<Rightarrow> string \<Rightarrow> bool" where
  "verifyTOTPClient hmac nowMs secret userCode =
     (let cleanCode = trim userCode
      in if length cleanCode \<noteq> 6 then False
         else let now = nowMs div 1000
              in list_ex (\<lambda>t. computeTOTPCode hmac nowMs secret (Some t) = Inr cleanCode)
                   [now, now - 30, now + 30])"

text \<open>The \<open>k\<close> low bits of a number or word, most significant first.\<close>

definition bl :: "nat \<Rightarrow> 'a :: semiring_bit_operations \<Rightarrow> bool list" where
  "bl k x = map (bit x) (rev [0..<k])"

section \<open>Bit strings\<close>

lemma length_bl [simp]: "length (bl k x) = k"
  by (simp add: bl_def)

lemma bl_eq_iff: "bl k x = bl k y \<longleftrightarrow> (\<forall>i<k. bit x i = bit y i)"
  by (auto simp: bl_def)

lemma bl_split: "bl (k + j) x = bl k (drop_bit j x) @ bl j x"
proof -
  have "[0..<k + j] = [0..<j] @ map (\<lambda>i. i + j) [0..<k]"
    by (simp add: map_add_upt upt_add_eq_append [of 0 j k] add.commute)
  then show ?thesis
    by (simp add: bl_def rev_map bit_drop_bit_eq comp_def add.commute)
qed

lemma bl_split_le: "j \<le> k \<Longrightarrow> bl k x = bl (k - j) (drop_bit j x) @ bl j x"
  using bl_split [of "k - j" j x] by simp

lemma bl_take_bit: "j \<le> k \<Longrightarrow> bl j (take_bit k x) = bl j x"
  by (simp add: bl_eq_iff bit_take_bit_iff)

lemma mask_words: "(31 :: 'a :: len word) = mask 5" "(255 :: 'a word) = mask 8" "(15 :: 'a word) = mask 4"
  by (simp_all add: mask_eq_exp_minus_1)

lemma bl_push: "k \<le> 24 \<Longrightarrow> bl (k + 8) (push_bit 8 (v :: u32) OR ucast (b :: byte)) = bl k v @ bl 8 b"
proof -
  assume k: "k \<le> 24"
  have "bl k (drop_bit 8 (push_bit 8 v OR ucast b)) = bl k v"
    using k by (auto simp: bl_eq_iff bit_simps dest: bit_imp_le_length)
  moreover have "bl 8 (push_bit 8 v OR ucast b) = bl 8 b"
    unfolding bl_def by (rule map_cong) (auto simp: bit_simps)
  ultimately show ?thesis by (simp add: bl_split)
qed

lemma bl_push5: "k \<le> 27 \<Longrightarrow> i < 32 \<Longrightarrow> bl (k + 5) (push_bit 5 (v :: u32) OR of_nat i) = bl k v @ bl 5 i"
proof -
  assume k: "k \<le> 27" and i: "i < 32"
  have high: "\<not> bit i n" if "5 \<le> n" for n
  proof -
    from i have "take_bit 5 i = i" by (simp add: take_bit_eq_mod)
    then show ?thesis using that by (metis bit_take_bit_iff not_less)
  qed
  have "bl k (drop_bit 5 (push_bit 5 v OR of_nat i)) = bl k v"
    using k high by (auto simp: bl_eq_iff bit_simps)
  moreover have "bl 5 (push_bit 5 v OR of_nat i) = bl 5 i"
    unfolding bl_def by (rule map_cong) (auto simp: bit_simps)
  ultimately show ?thesis by (simp add: bl_split)
qed

lemma bl_inj: "n < 2 ^ k \<Longrightarrow> m < 2 ^ k \<Longrightarrow> bl k n = bl k m \<Longrightarrow> n = (m :: nat)"
  by (metis bl_eq_iff bit_take_bit_iff bit_eqI take_bit_nat_eq_self_iff)

lemma bl_inj_byte: "bl 8 b = bl 8 c \<Longrightarrow> b = (c :: byte)"
  by (rule bit_word_eqI) (simp add: bl_eq_iff)

lemma concat_same_length:
  "\<forall>x \<in> set xs \<union> set ys. length x = n \<Longrightarrow> 0 < n \<Longrightarrow> length r < n \<Longrightarrow> length s < n \<Longrightarrow>
   concat xs @ r = concat ys @ s \<Longrightarrow> xs = ys"
proof (induction xs arbitrary: ys)
  case Nil
  then have "length (concat ys) < n" by (metis append_Nil concat.simps(1) length_append trans_le_add1 le_add1 le_less_trans)
  with Nil show ?case by (cases ys) auto
next
  case (Cons x xs)
  show ?case
  proof (cases ys)
    case Nil
    with Cons.prems have "s = x @ concat xs @ r" by simp
    then have "length x \<le> length s" by simp
    with Cons.prems show ?thesis by simp
  next
    case (Cons y ys')
    with Cons.prems have "x = y" "concat xs @ r = concat ys' @ s" by auto
    with Cons Cons.prems Cons.IH [of ys'] show ?thesis by auto
  qed
qed

section \<open>Base32 lemmas\<close>

lemma b32_table:
  "list_all (\<lambda>i. index_of (BASE32_ALPHABET ! i) BASE32_ALPHABET = Some i
      \<and> upper_char (BASE32_ALPHABET ! i) = [BASE32_ALPHABET ! i]
      \<and> \<not> is_ws (BASE32_ALPHABET ! i) \<and> BASE32_ALPHABET ! i \<noteq> CHR ''='') [0..<32]"
  by code_simp

lemma b32_char_facts:
  assumes "i < 32"
  shows "index_of (BASE32_ALPHABET ! i) BASE32_ALPHABET = Some i"
    "upper_char (BASE32_ALPHABET ! i) = [BASE32_ALPHABET ! i]"
    "\<not> is_ws (BASE32_ALPHABET ! i)" "BASE32_ALPHABET ! i \<noteq> CHR ''=''"
  using b32_table assms by (auto simp: list_all_iff)

lemma index_of_lt: "index_of c s = Some i \<Longrightarrow> i < length s"
  by (induction s arbitrary: i) (auto split: if_splits)

lemma quintet_lt: "unat (w AND 31 :: u32) < 32"
  unfolding mask_words(1) take_bit_eq_mask [symmetric]
  using take_bit_nat_less_exp [of 5 "unat w"] by (simp add: unsigned_take_bit_eq)

text \<open>The characters of the encoder spell the buffered bits.\<close>

definition spells :: "string \<Rightarrow> bool list \<Rightarrow> bool" where
  "spells out bs \<longleftrightarrow> (\<exists>is. out = map (\<lambda>i. BASE32_ALPHABET ! i) is \<and> list_all (\<lambda>i. i < 32) is
     \<and> concat (map (bl 5) is) = bs)"

lemma spells_Nil [simp]: "spells [] []"
  by (simp add: spells_def)

lemma spells_append: "spells a x \<Longrightarrow> spells b y \<Longrightarrow> spells (a @ b) (x @ y)"
  unfolding spells_def by (elim exE conjE, rule_tac x = "is @ isa" in exI) simp

lemma spells_quintet: "spells [BASE32_ALPHABET ! unat (w AND 31)] (bl 5 (w :: u32))"
proof -
  have "bl 5 (unat (w AND 31)) = bl 5 w"
    unfolding bl_def mask_words(1) by (rule map_cong) (auto simp: bit_simps)
  then show ?thesis unfolding spells_def by (intro exI [of _ "[unat (w AND 31)]"]) (simp add: quintet_lt)
qed

lemma spells_emit:
  "emit_quintets k v = (out, k') \<Longrightarrow> k' < 5 \<and> k' \<le> k \<and> (\<exists>x. spells out x \<and> bl k v = x @ bl k' v)"
proof (induction k v arbitrary: out k' rule: emit_quintets.induct)
  case (1 k v)
  show ?case
  proof (cases "5 \<le> k")
    case True
    obtain o' where o': "emit_quintets (k - 5) v = (o', k')"
      and out: "out = BASE32_ALPHABET ! unat (drop_bit (k - 5) v AND 31) # o'"
      using "1.prems" True by (subst (asm) emit_quintets.simps) (auto simp: Let_def split: prod.splits)
    from "1.IH" [OF True refl o'] obtain x where x: "spells o' x" "bl (k - 5) v = x @ bl k' v" "k' < 5" "k' \<le> k - 5"
      by auto
    have "spells out (bl 5 (drop_bit (k - 5) v) @ x)"
      using spells_append [OF spells_quintet x(1)] out by simp
    moreover have "bl k v = bl 5 (drop_bit (k - 5) v) @ bl (k - 5) v"
      using True bl_split_le [of "k - 5" k v] by simp
    ultimately show ?thesis using x by auto
  next
    case False
    with "1.prems" show ?thesis by (subst (asm) emit_quintets.simps) (auto intro: exI [of _ "[]"])
  qed
qed

lemma spells_loop:
  "k < 5 \<Longrightarrow> \<exists>pad. length pad < 5 \<and> spells (totp_secret_loop k v bs) (bl k v @ concat (map (bl 8) bs) @ pad)"
proof (induction bs arbitrary: k v)
  case Nil
  show ?case
  proof (cases "0 < k")
    case True
    have "bl 5 (push_bit (5 - k) v) = bl k v @ replicate (5 - k) False"
    proof -
      have "bl k (drop_bit (5 - k) (push_bit (5 - k) v)) = bl k v"
        using Nil by (auto simp: bl_eq_iff bit_simps)
      moreover have "bl (5 - k) (push_bit (5 - k) v) = replicate (5 - k) False"
        by (rule nth_equalityI) (auto simp: bl_def bit_simps rev_nth)
      ultimately show ?thesis using Nil bl_split_le [of "5 - k" 5 "push_bit (5 - k) v"] by simp
    qed
    with True Nil spells_quintet [of "push_bit (5 - k) v"] show ?thesis
      by (intro exI [of _ "replicate (5 - k) False"]) simp
  next
    case False
    then show ?thesis by (auto simp: bl_def intro: exI [of _ "[]"])
  qed
next
  case (Cons b bs)
  let ?v = "push_bit 8 v OR ucast b"
  obtain out k' where e: "emit_quintets (k + 8) ?v = (out, k')" by fastforce
  from spells_emit [OF e] obtain x where x: "k' < 5" "spells out x" "bl (k + 8) ?v = x @ bl k' ?v" by auto
  from Cons.IH [OF x(1)] obtain pad where pad: "length pad < 5"
    "spells (totp_secret_loop k' ?v bs) (bl k' ?v @ concat (map (bl 8) bs) @ pad)" by blast
  from Cons.prems have "bl (k + 8) ?v = bl k v @ bl 8 b" by (intro bl_push) simp
  with x have "x @ bl k' ?v = bl k v @ bl 8 b" by simp
  moreover have "spells (totp_secret_loop k v (b # bs)) (x @ bl k' ?v @ concat (map (bl 8) bs) @ pad)"
    using spells_append [OF x(2) pad(2)] e by simp
  ultimately show ?case using pad(1)
    by (intro exI [of _ pad]) (metis append.assoc concat.simps(2) list.simps(9))
qed

lemma base32_loop_bits:
  assumes "list_all (\<lambda>i. i < 32) is" "k < 8"
  shows "\<exists>rest. length rest < 8 \<and>
    concat (map (bl 8) (base32_loop k v (map (\<lambda>i. BASE32_ALPHABET ! i) is))) @ rest
      = bl k v @ concat (map (bl 5) is)"
  using assms
proof (induction "is" arbitrary: k v)
  case Nil
  then show ?case by (intro exI [of _ "bl k v"]) simp
next
  case (Cons i "is")
  let ?v = "push_bit 5 v OR of_nat i"
  have push: "bl (k + 5) ?v = bl k v @ bl 5 i" using Cons.prems by (intro bl_push5) auto
  show ?case
  proof (cases "8 \<le> k + 5")
    case True
    let ?b = "ucast (drop_bit (k + 5 - 8) ?v AND 255) :: byte"
    have "bl 8 ?b = bl 8 (drop_bit (k + 5 - 8) ?v)"
      unfolding bl_def mask_words(2) by (rule map_cong) (auto simp: bit_simps)
    then have "bl (k + 5) ?v = bl 8 ?b @ bl (k + 5 - 8) ?v"
      using True bl_split_le [of "k + 5 - 8" "k + 5" ?v] by simp
    moreover obtain rest where "length rest < 8"
      "concat (map (bl 8) (base32_loop (k + 5 - 8) ?v (map (\<lambda>i. BASE32_ALPHABET ! i) is))) @ rest
         = bl (k + 5 - 8) ?v @ concat (map (bl 5) is)"
      using Cons.IH [of "k + 5 - 8" ?v] Cons.prems(2) Cons.prems(1) by fastforce
    ultimately show ?thesis using push True Cons.prems
      by (intro exI [of _ rest]) (simp add: b32_char_facts Let_def)
  next
    case False
    with Cons.IH [of "k + 5" ?v] Cons.prems push show ?thesis
      by (simp add: b32_char_facts Let_def)
  qed
qed

lemma spells_clean:
  assumes "spells s x"
  shows "filter (\<lambda>c. \<not> is_ws c) s = s" "filter (\<lambda>c. \<not> is_ws c \<and> c \<noteq> CHR ''='') s = s"
    "toUpperCase s = s" "5 * length s = length x"
proof -
  obtain "is" where s: "s = map (\<lambda>i. BASE32_ALPHABET ! i) is" "list_all (\<lambda>i. i < 32) is" "concat (map (bl 5) is) = x"
    using assms unfolding spells_def by blast
  have "\<forall>i \<in> set is. i < 32" using s(2) by (simp add: list_all_iff)
  then show "filter (\<lambda>c. \<not> is_ws c) s = s" "filter (\<lambda>c. \<not> is_ws c \<and> c \<noteq> CHR ''='') s = s"
    unfolding s(1) by (auto simp: filter_id_conv b32_char_facts)
  have "concat (map upper_char s) = s" using \<open>\<forall>i \<in> set is. i < 32\<close>
    unfolding s(1) by (induction "is") (auto simp: b32_char_facts)
  then show "toUpperCase s = s" by (simp add: toUpperCase_def)
  show "5 * length s = length x" unfolding s(3) [symmetric] s(1) by (induction "is") auto
qed

lemma base32_loop_secret: "base32_loop 0 0 (generateTOTPSecret bs) = bs"
proof -
  obtain pad "is" where pad: "length pad < 5"
    and i: "generateTOTPSecret bs = map (\<lambda>i. BASE32_ALPHABET ! i) is" "list_all (\<lambda>i. i < 32) is"
      "concat (map (bl 5) is) = concat (map (bl 8) bs) @ pad"
    using spells_loop [of 0 0 bs] unfolding generateTOTPSecret_def spells_def by (auto simp: bl_def)
  obtain rest where "length rest < 8"
    "concat (map (bl 8) (base32_loop 0 0 (generateTOTPSecret bs))) @ rest = concat (map (bl 8) bs) @ pad"
    using base32_loop_bits [OF i(2), of 0 0] i by (auto simp: bl_def)
  then have "map (bl 8) (base32_loop 0 0 (generateTOTPSecret bs)) = map (bl 8) bs"
    using pad by (intro concat_same_length [of _ _ 8 rest pad]) auto
  then show ?thesis by (rule map_injective) (simp add: inj_def bl_inj_byte)
qed

lemma concat_chunks: "0 < n \<Longrightarrow> concat (chunks n xs) = xs"
  by (induction n xs rule: chunks.induct) (subst chunks.simps, auto)

lemma filter_join: "\<not> P (CHR '' '') \<Longrightarrow> filter P (join '' '' ws) = concat (map (filter P) ws)"
  by (induction "'' ''" ws rule: join.induct) auto

lemma filter_concat_map: "concat (map (filter P) ws) = filter P (concat ws)"
  by (induction ws) auto

lemma spells_secret:
  "\<exists>pad. length pad < 5 \<and> spells (generateTOTPSecret bs) (concat (map (bl 8) bs) @ pad)"
  using spells_loop [of 0 0 bs] by (simp add: generateTOTPSecret_def bl_def)

section \<open>Code lemmas\<close>

lemma padStart_digits:
  "n < 1000000 \<Longrightarrow> length (padStart 6 (CHR ''0'') (num_string n)) = 6
     \<and> list_all is_digit (padStart 6 (CHR ''0'') (num_string n))"
  using length_num_string [of n 6] num_string_digits
  by (auto simp: length_padStart list_all_iff padStart_def is_digit_def)

lemma computeTOTPCode_six:
  "computeTOTPCode hmac now secret t = Inr c \<Longrightarrow> length c = 6 \<and> list_all is_digit c"
  by (auto simp: computeTOTPCode_def Let_def bind_err_Inr_iff padStart_digits split: if_splits)

lemma computeTOTPCode_counter:
  "t div 30 = t' div 30 \<Longrightarrow> computeTOTPCode hmac now secret (Some t) = computeTOTPCode hmac now' secret (Some t')"
  by (simp add: computeTOTPCode_def)

lemma digits_no_ws: "list_all is_digit c \<Longrightarrow> trim c = c"
  by (rule trim_no_ws) (auto simp: list_all_iff is_digit_def is_ws_def)

section \<open>Properties\<close>

text \<open>The secret generated from random bytes has eight characters for five bytes, rounded up (32 for
  the 20 bytes drawn), and both the secret and its display form in groups of four decode to exactly
  those bytes.\<close>

theorem totp_secret_roundtrip:
  "length (generateTOTPSecret bs) = (8 * length bs + 4) div 5
   \<and> base32ToBytes (generateTOTPSecret bs) = bs
   \<and> base32ToBytes (formatTOTPSecret (generateTOTPSecret bs)) = bs"
proof -
  let ?s = "generateTOTPSecret bs"
  obtain pad where pad: "length pad < 5" "spells ?s (concat (map (bl 8) bs) @ pad)"
    using spells_secret by blast
  note clean = spells_clean [OF pad(2)]
  have "length (concat (map (bl 8) bs)) = 8 * length bs" by (induction bs) auto
  then have len: "length ?s = (8 * length bs + 4) div 5" using clean(4) pad(1) by simp
  have sp: "is_ws (CHR '' '')" by (simp add: is_ws_def)
  have "filter (\<lambda>c. \<not> is_ws c \<and> c \<noteq> CHR ''='') (formatTOTPSecret ?s) = ?s"
    using sp clean by (simp add: formatTOTPSecret_def filter_join filter_concat_map concat_chunks)
  with len clean base32_loop_secret show ?thesis by (simp add: base32ToBytes_def)
qed


end
