(* ===== verification/Setup_Account.thy ===== *)
theory Setup_Account
  imports App_Session Totp
begin

text \<open>
  The activation of an invited mailbox: apps/webmail/src/routes/setup-account.tsx. The page checks the
  invitation, asks for a password, makes the keys and the recovery phrase on the device, asks for a
  second factor and claims the invitation.

  The signals of the page extend the browser's state. The bytes drawn by the core and by
  \<open>getRandomValues\<close>, the clock and HMAC are arguments. The page's controls are the events of
  \<open>setup_event\<close>; the invariant relates the key material to the password and the phrase on display.
\<close>

section \<open>State\<close>

record invitation =
  iv_valid :: bool
  iv_error :: "string option"
  iv_email :: string
  iv_mailbox_id :: string
  iv_privacy_mode :: string
  iv_mailbox_pk :: "string option"
  iv_temp_wrapped_sk :: "string option"

definition invitation_of :: "json \<Rightarrow> invitation" where
  "invitation_of v = \<lparr>iv_valid = truthy (jprop ''valid'' v), iv_error = str_prop ''error'' v, iv_email = text_prop ''email'' v,
     iv_mailbox_id = text_prop ''mailbox_id'' v, iv_privacy_mode = text_prop ''privacy_mode'' v,
     iv_mailbox_pk = str_prop ''mailbox_pk'' v, iv_temp_wrapped_sk = str_prop ''temp_wrapped_sk'' v\<rparr>"

datatype two_factor_method = TotpMethod | PhoneMethod | EmailMethod

fun method_text :: "two_factor_method \<Rightarrow> string" where
  "method_text TotpMethod = ''totp''"
| "method_text PhoneMethod = ''phone''"
| "method_text EmailMethod = ''email''"

record setup_state = world +
  setupLoading :: bool
  setupError :: "string option"
  inviteData :: "invitation option"
  rawToken :: string
  setupStep :: nat
  setupPassword :: string
  confirmPassword :: string
  showPassword :: bool
  mnemonic :: string
  mnemonicCopied :: bool
  confirmedSaved :: bool
  isSubmitting :: bool
  submitError :: "string option"
  twoFactorMethod :: two_factor_method
  totpSecret :: string
  totpCode :: string
  totpVerified :: bool
  totpVerifying :: bool
  totpVerifyError :: "string option"
  totpCopied :: bool
  recoveryPhone :: string
  recoveryEmail :: string
  derivedMailboxPk :: string
  derivedWrappedSkUser :: string
  rawMailboxSkHex :: string
  clipboard :: "string option"
  location :: "string option"

definition setup_initial :: "store \<Rightarrow> store \<Rightarrow> setup_state" where
  "setup_initial session local =
     \<lparr>sessionStorage = session, localStorage = local, sent = [], setupLoading = True, setupError = None, inviteData = None,
      rawToken = [], setupStep = 1, setupPassword = [], confirmPassword = [], showPassword = False, mnemonic = [],
      mnemonicCopied = False, confirmedSaved = False, isSubmitting = False, submitError = None, twoFactorMethod = TotpMethod,
      totpSecret = [], totpCode = [], totpVerified = False, totpVerifying = False, totpVerifyError = None, totpCopied = False,
      recoveryPhone = [], recoveryEmail = [], derivedMailboxPk = [], derivedWrappedSkUser = [], rawMailboxSkHex = [],
      clipboard = None, location = None\<rparr>"

section \<open>Opening the page\<close>

definition setup_onMount :: "net \<Rightarrow> (string \<Rightarrow> string option) \<Rightarrow> 'z setup_state_scheme \<Rightarrow> 'z setup_state_scheme" where
  "setup_onMount N params w =
     (let token = trim (filled (params ''token''))
      in if token = []
         then w\<lparr>setupError := Some ''No invitation token found in the setup link. Please check your invitation URL.'',
                setupLoading := False\<rparr>
         else
           (let (r, w1) = verifyInvitation N token (w\<lparr>rawToken := token\<rparr>)
            in (case bind_err r need of
                  Inl e \<Rightarrow> w1\<lparr>setupError := Some (or_else (err_message e)
                             ''Failed to verify invitation token. Please check your connection and try again.'')\<rparr>
                | Inr resp \<Rightarrow>
                    if \<not> iv_valid (invitation_of resp)
                    then w1\<lparr>setupError := Some (or_else (filled (iv_error (invitation_of resp)))
                             ''This invitation link is invalid, expired, or has already been used.'')\<rparr>
                    else w1\<lparr>inviteData := Some (invitation_of resp)\<rparr>)\<lparr>setupLoading := False\<rparr>))"

section \<open>The password\<close>

definition passwordStrength :: "string \<Rightarrow> nat \<times> string \<times> string" where
  "passwordStrength pw =
     (if pw = [] then (0, ''Empty'', ''bg-stone-300'')
      else
        (let sc = (if 12 \<le> length pw then 1 else 0) + (if 16 \<le> length pw then 1 else 0)
                + (if list_ex is_lower_ascii pw \<and> list_ex is_upper_ascii pw then 1 else 0)
                + (if list_ex is_digit pw then 1 else 0)
                + (if list_ex (\<lambda>c. \<not> is_upper_ascii c \<and> \<not> is_lower_ascii c \<and> \<not> is_digit c) pw then 1 else 0)
         in if sc \<le> 2 then (sc, ''Weak'', ''bg-rose-500'')
            else if sc = 3 then (sc, ''Fair'', ''bg-amber-500'')
            else if sc = 4 then (sc, ''Good'', ''bg-emerald-500'')
            else (sc, ''Strong'', ''bg-emerald-600'')))"

definition isPasswordValid :: "'z setup_state_scheme \<Rightarrow> bool" where
  "isPasswordValid w \<longleftrightarrow> 12 \<le> length (setupPassword w) \<and> setupPassword w = confirmPassword w"

section \<open>Keys and recovery phrase\<close>

text \<open>The random bytes of one run.\<close>

record setup_random =
  rd_mnemonic :: "byte list"
  rd_keypair :: "byte list"
  rd_root :: "byte list"
  rd_salt :: "byte list"
  rd_pass :: "byte list"

text \<open>The private key: generated in private mode, otherwise opened from the invitation with the activation token.\<close>

definition mailbox_secret :: "wasm_core \<Rightarrow> setup_random \<Rightarrow> invitation \<Rightarrow> ('z setup_state_ext, string) io" where
  "mailbox_secret W R data =
     (if iv_privacy_mode data = ''private''
      then io_bind (io_lift (bind_err (wasm_generate_keypair W (rd_keypair R)) js_parse)) (\<lambda>kp.
           io_bind (io_lift (need (Some kp))) (\<lambda>_.
           io_bind (io_modify (\<lambda>w. w\<lparr>derivedMailboxPk := text_prop ''public_key'' kp\<rparr>)) (\<lambda>_.
           io_lift (string_arg (jprop ''secret_key'' kp)))))
      else if \<not> nonempty (iv_temp_wrapped_sk data) then io_throw ''Missing provisional wrapped key from invitation''
      else io_bind (io_gets rawToken) (\<lambda>token.
           io_bind (io_lift (wasm_aes_gcm_decrypt W token (filled (iv_temp_wrapped_sk data)) [])) (\<lambda>sk.
           if length sk \<noteq> 64 then io_throw ''Failed to decrypt provisional mailbox key with activation token''
           else io_bind (io_modify (\<lambda>w. w\<lparr>derivedMailboxPk := filled (iv_mailbox_pk data)\<rparr>)) (\<lambda>_. io_return sk))))"

definition wrapped_payload :: "string \<Rightarrow> string \<Rightarrow> string \<Rightarrow> json" where
  "wrapped_payload saltHex envelope rootWrapped =
     JObj [(''salt'', JStr saltHex), (''envelope'', JStr envelope), (''root_wrapped'', JStr rootWrapped)]"

definition make_keys :: "wasm_core \<Rightarrow> setup_random \<Rightarrow> ('z setup_state_ext, unit) io" where
  "make_keys W R =
     io_bind (io_gets inviteData) (\<lambda>inv. case inv of
       None \<Rightarrow> io_throw ''Missing invitation data''
     | Some data \<Rightarrow>
         io_bind (io_lift (mailboxIdHex (iv_mailbox_id data))) (\<lambda>boxIdHex.
         io_bind (io_lift (wasm_generate_mnemonic W (rd_mnemonic R))) (\<lambda>phrase.
         io_bind (io_modify (\<lambda>w. w\<lparr>mnemonic := phrase\<rparr>)) (\<lambda>_.
         io_bind (io_lift (wasm_recover_root_secret W phrase)) (\<lambda>rootHex.
         io_bind (mailbox_secret W R data) (\<lambda>mailboxSkHex.
         io_bind (io_lift (wasm_wrap_mailbox_key W (rd_root R) rootHex mailboxSkHex boxIdHex)) (\<lambda>rootWrappedHex.
         io_bind (io_gets setupPassword) (\<lambda>password.
         let saltHex = bytesToHex_cp (rd_salt R)
         in io_bind (io_lift (wasm_passphrase_wrap_key W (rd_pass R) password saltHex mailboxSkHex)) (\<lambda>envelope.
            io_modify (\<lambda>w. w\<lparr>derivedWrappedSkUser := stringify (wrapped_payload saltHex envelope rootWrappedHex),
                              rawMailboxSkHex := mailboxSkHex, setupStep := 2\<rparr>))))))))))"

definition handleProceedToKeys :: "wasm_core \<Rightarrow> setup_random \<Rightarrow> 'z setup_state_scheme \<Rightarrow> 'z setup_state_scheme" where
  "handleProceedToKeys W R w =
     (if \<not> isPasswordValid w then w
      else
        (let (r, w1) = make_keys W R (w\<lparr>submitError := None, isSubmitting := True\<rparr>);
             w2 = (case r of
                     Inl e \<Rightarrow> w1\<lparr>submitError := Some (or_else (err_message e) ''Failed to initialize cryptographic material.'')\<rparr>
                   | Inr _ \<Rightarrow> w1)
         in w2\<lparr>isSubmitting := False\<rparr>))"

definition handleCopyMnemonic :: "'z setup_state_scheme \<Rightarrow> 'z setup_state_scheme" where
  "handleCopyMnemonic w =
     (if mnemonic w = [] then w else w\<lparr>clipboard := Some (mnemonic w), mnemonicCopied := True\<rparr>)"

text \<open>The downloaded file, its name and its content; \<open>isoNow\<close> is the present time in ISO form.\<close>

definition handleDownloadMnemonic :: "string \<Rightarrow> 'z setup_state_scheme \<Rightarrow> (string \<times> string) option" where
  "handleDownloadMnemonic isoNow w =
     (if mnemonic w = [] then None
      else
        (let email = or_else (case inviteData w of Some d \<Rightarrow> iv_email d | None \<Rightarrow> []) ''mailbox''
         in Some
           (''byos-recovery-'' @ map (\<lambda>c. if is_lower_ascii c \<or> is_upper_ascii c \<or> is_digit c then c else CHR ''_'') email @ ''.txt'',
            join newline
              [''BYOS Zero-Knowledge Mailbox Recovery Backup'',
               ''======================================================'',
               ''Email Account: '' @ email,
               ''Generated Date: '' @ isoNow,
               [],
               ''IMPORTANT SECURITY NOTICE:'',
               ''- Keep this recovery phrase in an offline vault or secure password manager.'',
               ''- Do not upload this phrase to unencrypted cloud notes or email.'',
               ''- Anyone with these 24 words can decrypt your entire mailbox archive.'',
               [],
               ''24-Word Recovery Phrase:'',
               ''------------------------------------------------------'',
               mnemonic w,
               ''------------------------------------------------------'',
               [],
               ''If you ever lose your account password, you can use these'',
               ''24 words in the BYOS Webmail recovery ceremony to regain'',
               ''access and unwrap your end-to-end encryption keys.''])))"

definition setup_words :: "'z setup_state_scheme \<Rightarrow> string list" where
  "setup_words w = split_ws (trim (mnemonic w))"

section \<open>The second factor\<close>

definition handleProceedTo2FA :: "byte list \<Rightarrow> 'z setup_state_scheme \<Rightarrow> 'z setup_state_scheme" where
  "handleProceedTo2FA rnd w =
     (if \<not> confirmedSaved w then w
      else (if totpSecret w = [] then w\<lparr>totpSecret := generateTOTPSecret rnd\<rparr> else w)\<lparr>setupStep := 3\<rparr>)"

type_synonym hmac = "string \<Rightarrow> byte list \<Rightarrow> byte list \<Rightarrow> js_error + byte list"

definition handleVerifyTOTP :: "hmac \<Rightarrow> int \<Rightarrow> 'z setup_state_scheme \<Rightarrow> 'z setup_state_scheme" where
  "handleVerifyTOTP hm now w =
     (let otp = trim (totpCode w)
      in if length otp \<noteq> 6 then w\<lparr>totpVerifyError := Some ''Please enter a 6-digit code.''\<rparr>
         else
           (let w1 = w\<lparr>totpVerifying := True, totpVerifyError := None\<rparr>;
                w2 = (if verifyTOTPClient hm now (totpSecret w1) otp then w1\<lparr>totpVerified := True\<rparr>
                      else w1\<lparr>totpVerifyError := Some ''Invalid 6-digit code. Check your device clock or try the next code.''\<rparr>)
            in w2\<lparr>totpVerifying := False\<rparr>))"

definition totp_input :: "hmac \<Rightarrow> int \<Rightarrow> string \<Rightarrow> 'z setup_state_scheme \<Rightarrow> 'z setup_state_scheme" where
  "totp_input hm now value w =
     (let w1 = w\<lparr>totpCode := filter is_digit value\<rparr> in if length (trim value) = 6 then handleVerifyTOTP hm now w1 else w1)"

definition handleCopyTOTPSecret :: "'z setup_state_scheme \<Rightarrow> 'z setup_state_scheme" where
  "handleCopyTOTPSecret w =
     (if totpSecret w = [] then w else w\<lparr>clipboard := Some (totpSecret w), totpCopied := True\<rparr>)"

definition is2FAValid :: "'z setup_state_scheme \<Rightarrow> bool" where
  "is2FAValid w =
     (case twoFactorMethod w of
        TotpMethod \<Rightarrow> totpVerified w \<or> length (trim (totpCode w)) = 6
      | PhoneMethod \<Rightarrow> 7 \<le> length (trim (recoveryPhone w))
      | EmailMethod \<Rightarrow> str_includes (trim (recoveryEmail w)) ''@'')"

section \<open>Claiming the invitation\<close>

definition claim_json :: "string \<Rightarrow> 'z setup_state_scheme \<Rightarrow> json" where
  "claim_json pk w =
     JObj ([(''token'', JStr (rawToken w)), (''password'', JStr (setupPassword w)), (''mailbox_pk'', JStr pk),
            (''wrapped_sk_user'', JStr (derivedWrappedSkUser w)), (''two_factor_method'', JStr (method_text (twoFactorMethod w)))]
       @ (case twoFactorMethod w of
            TotpMethod \<Rightarrow> [(''totp_secret'', JStr (totpSecret w))]
          | PhoneMethod \<Rightarrow> [(''recovery_phone'', JStr (trim (recoveryPhone w)))]
          | EmailMethod \<Rightarrow> [(''recovery_email'', JStr (trim (recoveryEmail w)))]))"

text \<open>The account list of a storage with the new account in front. Reading \<open>a.id\<close> of \<open>null\<close> or lower-casing an address
  that is no text fails, and then the storage keeps its list.\<close>

definition listed :: "connected_account \<Rightarrow> json \<Rightarrow> js_error + bool" where
  "listed acc v =
     (if v = JNull then throw_msg ''TypeError''
      else if jprop ''id'' v = Some (JStr (acc_id acc)) then Inr True
      else case jprop ''email'' v of
             None \<Rightarrow> Inr False
           | Some JNull \<Rightarrow> Inr False
           | Some (JStr e) \<Rightarrow> Inr (toLowerCase e = toLowerCase (acc_email acc))
           | Some _ \<Rightarrow> throw_msg ''TypeError'')"

fun drop_listed :: "connected_account \<Rightarrow> json list \<Rightarrow> js_error + json list" where
  "drop_listed acc [] = Inr []"
| "drop_listed acc (v # vs) =
     bind_err (listed acc v) (\<lambda>b. bind_err (drop_listed acc vs) (\<lambda>rest. Inr (if b then rest else v # rest)))"

definition save_account :: "connected_account \<Rightarrow> store \<Rightarrow> store" where
  "save_account acc st =
     (let accounts = (case getItem st accounts_item of
                        Some t \<Rightarrow> (case json_parse t of Some (JArr vs) \<Rightarrow> vs | _ \<Rightarrow> [])
                      | None \<Rightarrow> [])
      in case drop_listed acc accounts of
           Inl e \<Rightarrow> st
         | Inr rest \<Rightarrow> setItem accounts_item (stringify (JArr (account_json acc # rest))) st)"

text \<open>The keys of the new mailbox in the session.\<close>

definition store_keys :: "wasm_core \<Rightarrow> string \<Rightarrow> ('z setup_state_ext, string) io" where
  "store_keys W boxId =
     io_bind (io_gets rawMailboxSkHex) (\<lambda>sk.
       if sk = [] then io_return []
       else io_bind (io_lift (wasm_derive_search_key W sk)) (\<lambda>sKey.
            io_bind (io_modify (\<lambda>w. w\<lparr>sessionStorage := setItem (skey_item boxId) sKey (setItem (sk_item boxId) sk (sessionStorage w))\<rparr>))
              (\<lambda>_. io_return sKey)))"

definition new_account :: "invitation \<Rightarrow> string \<Rightarrow> string \<Rightarrow> string \<Rightarrow> connected_account" where
  "new_account data tok sk sKey =
     \<lparr>acc_id = iv_mailbox_id data, acc_email = iv_email data,
      acc_displayName = (if iv_email data \<noteq> [] then hd (split_char CHR ''@'' (iv_email data)) else ''User''),
      acc_role = ''member'', acc_privacyMode = or_else (iv_privacy_mode data) ''private'',
      acc_sessionToken = tok, acc_mailboxSkHex = sk, acc_searchKeyHex = sKey\<rparr>"

text \<open>The phrase is sealed under the password and kept in the settings; a failure is only logged.\<close>

definition seal_phrase :: "net \<Rightarrow> wasm_core \<Rightarrow> byte list \<Rightarrow> byte list \<Rightarrow> string \<Rightarrow> ('z setup_state_ext, unit) io" where
  "seal_phrase N W salt rnd boxId =
     io_bind (io_gets (\<lambda>w. (setupPassword w, mnemonic w))) (\<lambda>(password, phrase).
     let saltHex = bytesToHex_cp salt
     in io_bind (io_lift (wasm_passphrase_wrap_key W rnd password saltHex (bytesToHex_cp (utf8_encode phrase)))) (\<lambda>wrapped.
        io_bind (updateMailboxSettings N boxId
          (JObj [(''recovery_phrase_wrapped'', JStr wrapped), (''recovery_phrase_salt'', JStr saltHex)])) (\<lambda>_. io_return ())))"

text \<open>After the claim was answered: the keys, the token and the account are stored, and the page moves to the inbox.\<close>

definition claimed ::
  "net \<Rightarrow> wasm_core \<Rightarrow> byte list \<Rightarrow> byte list \<Rightarrow> invitation \<Rightarrow> string \<Rightarrow> json option \<Rightarrow> ('z setup_state_ext, unit) io" where
  "claimed N W salt rnd data sk res =
     io_bind (store_keys W (iv_mailbox_id data)) (\<lambda>sKey.
     io_bind (io_lift (need res)) (\<lambda>claimRes.
     let tok = text_prop ''token'' claimRes; acc = new_account data tok sk sKey
     in io_bind (io_modify (\<lambda>w. if tok \<noteq> [] then w\<lparr>sessionStorage := setItem token_item tok (sessionStorage w)\<rparr> else w)) (\<lambda>_.
        io_bind (io_modify (\<lambda>w. w\<lparr>sessionStorage := save_account acc (sessionStorage w),
                                  localStorage := save_account (durable acc) (localStorage w)\<rparr>)) (\<lambda>_.
        io_bind (io_catch (seal_phrase N W salt rnd (iv_mailbox_id data)) (\<lambda>_. io_return ())) (\<lambda>_.
        io_modify (\<lambda>w. w\<lparr>location := Some ''/''\<rparr>))))))"

definition activate :: "net \<Rightarrow> wasm_core \<Rightarrow> byte list \<Rightarrow> byte list \<Rightarrow> ('z setup_state_ext, unit) io" where
  "activate N W salt rnd =
     io_bind (io_gets (\<lambda>w. w)) (\<lambda>w0. case inviteData w0 of
       None \<Rightarrow> io_throw ''Missing invitation data''
     | Some data \<Rightarrow>
        (let pk = or_else (derivedMailboxPk w0) (filled (iv_mailbox_pk data))
         in if pk = [] \<or> derivedWrappedSkUser w0 = [] then io_throw ''Cryptographic keys missing. Please return to step 1.''
            else io_bind (claimInvitation N (claim_json pk w0)) (claimed N W salt rnd data (rawMailboxSkHex w0))))"

definition handleFinalizeActivation :: "net \<Rightarrow> wasm_core \<Rightarrow> byte list \<Rightarrow> byte list \<Rightarrow> 'z setup_state_scheme \<Rightarrow> 'z setup_state_scheme" where
  "handleFinalizeActivation N W salt rnd w =
     (if \<not> confirmedSaved w then w
      else if \<not> is2FAValid w
      then w\<lparr>submitError := Some ''Please complete the required 2-Step Verification step before finalizing.''\<rparr>
      else case activate N W salt rnd (w\<lparr>isSubmitting := True, submitError := None\<rparr>) of
             (Inr _, w1) \<Rightarrow> w1
           | (Inl e, w1) \<Rightarrow> w1\<lparr>submitError := Some (or_else (err_message e) ''Failed to complete account activation.''), isSubmitting := False\<rparr>)"

section \<open>The controls of the page\<close>

datatype setup_control =
    TypePassword string | TypeConfirm string | ToggleShow | SubmitPassword setup_random
  | CopyPhrase | TickSaved bool | BackToPassword | ToSecondFactor "byte list"
  | PickMethod two_factor_method | TypeCode int string | PressVerify int | CopySecret | TypePhone string | TypeEmail string
  | BackToPhrase | PressFinalize "byte list" "byte list"

text \<open>The form is shown when the invitation was accepted; each step shows its own controls, and buttons are disabled as
  the page states it.\<close>

definition setup_visible :: "'z setup_state_scheme \<Rightarrow> bool" where
  "setup_visible w \<longleftrightarrow> \<not> setupLoading w \<and> \<not> nonempty (setupError w) \<and> inviteData w \<noteq> None"

fun control_step :: "setup_control \<Rightarrow> nat" where
  "control_step (TypePassword s) = 1"
| "control_step (TypeConfirm s) = 1"
| "control_step ToggleShow = 1"
| "control_step (SubmitPassword R) = 1"
| "control_step CopyPhrase = 2"
| "control_step (TickSaved b) = 2"
| "control_step BackToPassword = 2"
| "control_step (ToSecondFactor r) = 2"
| "control_step _ = 3"

fun control_action :: "net \<Rightarrow> wasm_core \<Rightarrow> hmac \<Rightarrow> setup_control \<Rightarrow> 'z setup_state_scheme \<Rightarrow> 'z setup_state_scheme" where
  "control_action N W hm (TypePassword s) w = w\<lparr>setupPassword := s\<rparr>"
| "control_action N W hm (TypeConfirm s) w = w\<lparr>confirmPassword := s\<rparr>"
| "control_action N W hm ToggleShow w = w\<lparr>showPassword := \<not> showPassword w\<rparr>"
| "control_action N W hm (SubmitPassword R) w =
     (if isPasswordValid w \<and> \<not> isSubmitting w then handleProceedToKeys W R w else w)"
| "control_action N W hm CopyPhrase w = handleCopyMnemonic w"
| "control_action N W hm (TickSaved b) w = w\<lparr>confirmedSaved := b\<rparr>"
| "control_action N W hm BackToPassword w = (if isSubmitting w then w else w\<lparr>setupStep := 1\<rparr>)"
| "control_action N W hm (ToSecondFactor r) w = (if confirmedSaved w \<and> \<not> isSubmitting w then handleProceedTo2FA r w else w)"
| "control_action N W hm (PickMethod m) w = w\<lparr>twoFactorMethod := m\<rparr>"
| "control_action N W hm (TypeCode now s) w = totp_input hm now s w"
| "control_action N W hm (PressVerify now) w =
     (if length (trim (totpCode w)) = 6 \<and> \<not> totpVerifying w then handleVerifyTOTP hm now w else w)"
| "control_action N W hm CopySecret w = handleCopyTOTPSecret w"
| "control_action N W hm (TypePhone s) w = w\<lparr>recoveryPhone := s\<rparr>"
| "control_action N W hm (TypeEmail s) w = w\<lparr>recoveryEmail := s\<rparr>"
| "control_action N W hm BackToPhrase w = (if isSubmitting w then w else w\<lparr>setupStep := 2\<rparr>)"
| "control_action N W hm (PressFinalize salt rnd) w =
     (if is2FAValid w \<and> \<not> isSubmitting w then handleFinalizeActivation N W salt rnd w else w)"

definition setup_event :: "net \<Rightarrow> wasm_core \<Rightarrow> hmac \<Rightarrow> setup_control \<Rightarrow> 'z setup_state_scheme \<Rightarrow> 'z setup_state_scheme" where
  "setup_event N W hm e w = (if setup_visible w \<and> setupStep w = control_step e then control_action N W hm e w else w)"

text \<open>The salt of a submitted password has the 16 bytes the page draws.\<close>

fun control_ok :: "setup_control \<Rightarrow> bool" where
  "control_ok (SubmitPassword R) = (length (rd_salt R) = 16)"
| "control_ok _ = True"

inductive setup_reach :: "net \<Rightarrow> wasm_core \<Rightarrow> hmac \<Rightarrow> setup_state \<Rightarrow> bool" for N W hm where
  opened: "setup_reach N W hm (setup_onMount N params (setup_initial session local))"
| stepped: "setup_reach N W hm w \<Longrightarrow> control_ok e \<Longrightarrow> setup_reach N W hm (setup_event N W hm e w)"

section \<open>Lemmas\<close>

text \<open>What the page relies on: the wraps are inverted by their unwraps, secrets have 32 bytes and all results are lower-case
  hexadecimal; a phrase has no surrounding white space.\<close>

definition setup_core :: "wasm_core \<Rightarrow> bool" where
  "setup_core W \<longleftrightarrow> passphrase_correct W \<and> mailbox_wrap_correct W
     \<and> (\<forall>rnd p. wasm_generate_mnemonic W rnd = Inr p \<longrightarrow> trim p = p)
     \<and> (\<forall>p r. wasm_recover_root_secret W p = Inr r \<longrightarrow> (\<exists>root. length root = 32 \<and> r = bytesToHex root))
     \<and> (\<forall>rnd j kp. wasm_generate_keypair W rnd = Inr j \<longrightarrow> js_parse j = Inr kp \<longrightarrow>
          (\<exists>sk. length sk = 32 \<and> jprop ''secret_key'' kp = Some (JStr (bytesToHex sk))))
     \<and> (\<forall>k e a p. wasm_aes_gcm_decrypt W k e a = Inr p \<longrightarrow> (\<exists>bs. p = bytesToHex bs))"

text \<open>The key material of a state is recovered by the password and by the phrase it shows.\<close>

definition keys_match :: "wasm_core \<Rightarrow> string \<Rightarrow> 'z setup_state_scheme \<Rightarrow> byte list \<Rightarrow> bool" where
  "keys_match W boxId w sk \<longleftrightarrow> length sk = 32 \<and> rawMailboxSkHex w = bytesToHex sk
     \<and> autoUnwrapMailboxKey W (setupPassword w) (derivedWrappedSkUser w) = Inr sk
     \<and> unwrapMailboxKeyWithRecoveryPhrase W (mnemonic w) boxId (derivedWrappedSkUser w) = Inr sk"

lemma payload_facts:
  fixes s e r defines "t \<equiv> stringify (wrapped_payload s e r)"
  shows "trim t = t" "t \<noteq> []" "startsWith t ''{''" "json_parse t = Some (wrapped_payload s e r)"
proof -
  have "wf_json (wrapped_payload s e r)" by (simp add: wrapped_payload_def)
  then show "json_parse t = Some (wrapped_payload s e r)" unfolding t_def by (rule json_roundtrip)
  obtain u where u: "t = CHR ''{'' # u @ ''}''" by (simp add: t_def wrapped_payload_def)
  show "trim t = t" "t \<noteq> []" "startsWith t ''{''"
    unfolding u by (simp_all add: trim_braced startsWith_brace_iff)
qed

lemma payload_password:
  assumes "length salt = 16"
  shows "autoUnwrapMailboxKey W pw (stringify (wrapped_payload (bytesToHex salt) (bytesToHex e) r)) =
    bind_err (wasm_passphrase_unwrap_key W pw (bytesToHex salt) (bytesToHex e))
      (checked_key ''Unwrapped mailbox key is invalid length'')"
proof -
  have "bytesToHex salt \<noteq> []" using assms by auto
  then have "wrapped_parts (stringify (wrapped_payload (bytesToHex salt) (bytesToHex e) r)) =
      Inr (JStr (bytesToHex salt), JStr (bytesToHex e))"
    by (simp add: wrapped_parts_def payload_facts)
      (auto simp: wrapped_payload_def first_prop_def truthy_def jprop_def)
  with assms show ?thesis
    by (simp add: autoUnwrapMailboxKey_def payload_facts has_length_def as_string_def Let_def)
qed

lemma payload_phrase:
  assumes "trim p = p" "wasm_recover_root_secret W p = Inr rt" "mailboxIdHex boxId = Inr box" "r \<noteq> []"
  shows "unwrapMailboxKeyWithRecoveryPhrase W p boxId (stringify (wrapped_payload s e r)) =
    bind_err (wasm_unwrap_mailbox_key W rt r box) (checked_key ''Unwrapped mailbox key is invalid length'')"
proof -
  have "truthy (jprop ''root_wrapped'' (wrapped_payload s e r))"
    "the (jprop ''root_wrapped'' (wrapped_payload s e r)) = JStr r"
    using assms(4) by (simp_all add: wrapped_payload_def truthy_def jprop_def)
  with assms show ?thesis
    by (simp add: unwrapMailboxKeyWithRecoveryPhrase_def payload_facts as_string_def Let_def)
qed

lemma mailbox_secret_ok:
  assumes "setup_core W" "mailbox_secret W R data w = (Inr s, w')"
  obtains sk pk where "length sk = 32" "s = bytesToHex sk" "w' = w\<lparr>derivedMailboxPk := pk\<rparr>"
proof (cases "iv_privacy_mode data = ''private''")
  case True
  with assms(2) obtain j kp where j: "wasm_generate_keypair W (rd_keypair R) = Inr j" "js_parse j = Inr kp"
    and s: "string_arg (jprop ''secret_key'' kp) = Inr s" "w' = w\<lparr>derivedMailboxPk := text_prop ''public_key'' kp\<rparr>"
    by (auto simp: mailbox_secret_def bind_err_Inr_iff split: sum.splits)
  with assms(1) obtain sk where "length sk = 32" "jprop ''secret_key'' kp = Some (JStr (bytesToHex sk))"
    unfolding setup_core_def by blast
  with s show ?thesis by (auto simp: string_arg_def intro: that)
next
  case False
  with assms(2) obtain token e where d: "wasm_aes_gcm_decrypt W token e [] = Inr s" and len: "length s = 64"
    and w': "w' = w\<lparr>derivedMailboxPk := filled (iv_mailbox_pk data)\<rparr>"
    by (auto simp: mailbox_secret_def split: sum.splits if_splits)
  from assms(1) d obtain sk where "s = bytesToHex sk" unfolding setup_core_def by blast
  with len w' show ?thesis by (intro that [of sk]) simp_all
qed

lemma make_keys_match:
  assumes W: "setup_core W" and salt: "length (rd_salt R) = 16" and ok: "make_keys W R w = (Inr u, w')"
    and data: "inviteData w = Some data"
  shows "\<exists>sk. keys_match W (iv_mailbox_id data) w' sk"
proof -
  have "\<exists>box phrase rootHex s w1 wrapped env. mailboxIdHex (iv_mailbox_id data) = Inr box
      \<and> wasm_generate_mnemonic W (rd_mnemonic R) = Inr phrase \<and> wasm_recover_root_secret W phrase = Inr rootHex
      \<and> mailbox_secret W R data (w\<lparr>mnemonic := phrase\<rparr>) = (Inr s, w1)
      \<and> wasm_wrap_mailbox_key W (rd_root R) rootHex s box = Inr wrapped
      \<and> wasm_passphrase_wrap_key W (rd_pass R) (setupPassword w1) (bytesToHex (rd_salt R)) s = Inr env
      \<and> w' = w1\<lparr>derivedWrappedSkUser := stringify (wrapped_payload (bytesToHex (rd_salt R)) env wrapped),
                   rawMailboxSkHex := s, setupStep := 2\<rparr>"
    using ok data
    by (simp add: make_keys_def Let_def bytesToHex_cp_eq io_bind_Inr del: io_bind_lift io_bind_gets io_bind_modify) metis
  then obtain box phrase rootHex s w1 wrapped env where
    box: "mailboxIdHex (iv_mailbox_id data) = Inr box" and phrase: "wasm_generate_mnemonic W (rd_mnemonic R) = Inr phrase"
    and rt: "wasm_recover_root_secret W phrase = Inr rootHex"
    and s: "mailbox_secret W R data (w\<lparr>mnemonic := phrase\<rparr>) = (Inr s, w1)"
    and wrapped: "wasm_wrap_mailbox_key W (rd_root R) rootHex s box = Inr wrapped"
    and env: "wasm_passphrase_wrap_key W (rd_pass R) (setupPassword w1) (bytesToHex (rd_salt R)) s = Inr env"
    and w': "w' = w1\<lparr>derivedWrappedSkUser := stringify (wrapped_payload (bytesToHex (rd_salt R)) env wrapped),
                   rawMailboxSkHex := s, setupStep := 2\<rparr>"
    by (elim exE conjE) (rule that; assumption)
  from W s obtain sk pk where sk: "length sk = 32" "s = bytesToHex sk" and w1: "w1 = w\<lparr>mnemonic := phrase, derivedMailboxPk := pk\<rparr>"
    by (rule mailbox_secret_ok)
  from W rt obtain rb where rb: "length rb = 32" "rootHex = bytesToHex rb" unfolding setup_core_def by blast
  obtain mid where mid: "box = bytesToHex mid" "length mid = 16" by (rule mailboxIdHex_bytes [OF box])
  from W salt env sk obtain e where e: "env = bytesToHex e"
    "wasm_passphrase_unwrap_key W (setupPassword w1) (bytesToHex (rd_salt R)) (bytesToHex e) = Inr (bytesToHex sk)"
    unfolding setup_core_def passphrase_correct_def by (metis sum.inject(2))
  from W rb sk mid wrapped obtain f where f: "f \<noteq> []" "wrapped = bytesToHex f"
    "wasm_unwrap_mailbox_key W rootHex (bytesToHex f) box = Inr (bytesToHex sk)"
    unfolding setup_core_def mailbox_wrap_correct_def by (metis sum.inject(2))
  have "trim phrase = phrase" using W phrase unfolding setup_core_def by blast
  then have "unwrapMailboxKeyWithRecoveryPhrase W phrase (iv_mailbox_id data) (derivedWrappedSkUser w') = Inr sk"
    using rt box f sk by (simp add: w' payload_phrase checked_key_bytesToHex)
  moreover have "autoUnwrapMailboxKey W (setupPassword w1) (derivedWrappedSkUser w') = Inr sk"
    using salt e sk by (simp add: w' payload_password checked_key_bytesToHex)
  ultimately show ?thesis
    using sk by (intro exI [of _ sk]) (simp add: keys_match_def w' w1)
qed

text \<open>What the operations keep.\<close>

abbreviation setup_fixed :: "'z setup_state_scheme \<Rightarrow> _" where
  "setup_fixed w \<equiv> (inviteData w, setupPassword w, confirmedSaved w, setupLoading w, setupError w, sent w, sessionStorage w, location w)"

abbreviation setup_material :: "'z setup_state_scheme \<Rightarrow> _" where
  "setup_material w \<equiv> (inviteData w, setupPassword w, mnemonic w, derivedWrappedSkUser w, rawMailboxSkHex w, setupStep w, confirmedSaved w)"

lemma mailbox_secret_keeps [io_frame]:
  "(\<And>w pk. f (w\<lparr>derivedMailboxPk := pk\<rparr>) = f w) \<Longrightarrow> io_keeps f (mailbox_secret W R data)"
  unfolding mailbox_secret_def by (intro io_frame) simp_all

lemma make_keys_keeps: "io_keeps setup_fixed (make_keys W R)" "io_fail_keeps setupStep (make_keys W R)"
  unfolding make_keys_def Let_def
  by ((intro io_frame; simp), (intro io_fail io_frame; simp))

lemma claim_keeps: "io_keeps setup_material (activate N W salt rnd)"
  unfolding activate_def claimed_def store_keys_def seal_phrase_def claimInvitation_def updateMailboxSettings_def Let_def
  by (intro io_frame; simp)

subsection \<open>The invariant of the page\<close>

definition setup_inv :: "wasm_core \<Rightarrow> 'z setup_state_scheme \<Rightarrow> bool" where
  "setup_inv W w \<longleftrightarrow>
     (2 \<le> setupStep w \<longrightarrow> (\<exists>data sk. inviteData w = Some data \<and> keys_match W (iv_mailbox_id data) w sk))
     \<and> (3 \<le> setupStep w \<longrightarrow> confirmedSaved w)"

lemma setup_inv_material: "setup_material w' = setup_material w \<Longrightarrow> setup_inv W w \<Longrightarrow> setup_inv W w'"
  by (simp add: setup_inv_def keys_match_def)

lemma setup_inv_first: "setupStep w = 1 \<Longrightarrow> setup_inv W w"
  by (simp add: setup_inv_def)

lemma proceed_inv:
  assumes "setup_core W" "length (rd_salt R) = 16" "setupStep w = 1"
  shows "setup_inv W (handleProceedToKeys W R w)"
proof (cases "isPasswordValid w")
  case True
  let ?v = "w\<lparr>submitError := None, isSubmitting := True\<rparr>"
  obtain r w1 where run: "make_keys W R ?v = (r, w1)" by fastforce
  show ?thesis
  proof (cases r)
    case (Inl e)
    with run have "setupStep w1 = setupStep ?v"
      using make_keys_keeps(2) unfolding io_fail_keeps_def by blast
    with assms(3) run True Inl show ?thesis
      by (intro setup_inv_first) (simp add: handleProceedToKeys_def)
  next
    case (Inr u)
    from run Inr have "inviteData w \<noteq> None" by (cases "inviteData w") (auto simp: make_keys_def)
    then obtain data where data: "inviteData ?v = Some data" by auto
    from make_keys_match [OF assms(1,2) _ data] run Inr obtain sk where "keys_match W (iv_mailbox_id data) w1 sk" by blast
    moreover have "setupStep w1 = 2" using run Inr data
      by (auto simp: make_keys_def Let_def io_bind_Inr simp del: io_bind_lift io_bind_gets io_bind_modify)
    moreover have "inviteData w1 = Some data"
      using io_keepsD [OF make_keys_keeps(1) run] data by simp
    ultimately show ?thesis
      using run Inr True by (auto simp: handleProceedToKeys_def setup_inv_def keys_match_def)
  qed
qed (use assms(3) in \<open>simp add: handleProceedToKeys_def setup_inv_first\<close>)

lemma finalize_material: "setup_material (handleFinalizeActivation N W salt rnd w) = setup_material w"
proof -
  obtain r w1 where run: "activate N W salt rnd (w\<lparr>isSubmitting := True, submitError := None\<rparr>) = (r, w1)" by fastforce
  from io_keepsD [OF claim_keeps run] run show ?thesis
    by (cases r) (auto simp: handleFinalizeActivation_def)
qed

lemma second_factor_material:
  "setup_material (handleVerifyTOTP hm now w) = setup_material w" "setup_material (totp_input hm now s w) = setup_material w"
  "setup_material (handleCopyTOTPSecret w) = setup_material w" "setup_material (handleCopyMnemonic w) = setup_material w"
  by (simp_all add: handleVerifyTOTP_def totp_input_def handleCopyTOTPSecret_def handleCopyMnemonic_def Let_def)

text \<open>The controls that change neither the key material nor the step.\<close>

fun neutral :: "setup_control \<Rightarrow> bool" where
  "neutral (TypePassword s) = False"
| "neutral (SubmitPassword R) = False"
| "neutral (TickSaved b) = False"
| "neutral BackToPassword = False"
| "neutral (ToSecondFactor r) = False"
| "neutral BackToPhrase = False"
| "neutral _ = True"

lemma neutral_material: "neutral e \<Longrightarrow> setup_material (control_action N W hm e w) = setup_material w"
  using finalize_material [of N W _ _ w] second_factor_material [where w = w] by (cases e) simp_all

lemma setup_event_inv:
  assumes "setup_core W" "setup_inv W w" "control_ok e"
  shows "setup_inv W (setup_event N W hm e w)"
proof (cases "setup_visible w \<and> setupStep w = control_step e")
  case True
  then have ev: "setup_event N W hm e w = control_action N W hm e w" and st: "setupStep w = control_step e"
    by (simp_all add: setup_event_def)
  show ?thesis unfolding ev
  proof (cases "neutral e")
    case True
    then show "setup_inv W (control_action N W hm e w)"
      by (rule setup_inv_material [OF neutral_material assms(2)])
  next
    case False
    then show "setup_inv W (control_action N W hm e w)"
      using assms st
      by (cases e) (auto simp: handleProceedTo2FA_def setup_inv_def keys_match_def dest: proceed_inv intro: setup_inv_first)
  qed
qed (use assms(2) in \<open>auto simp: setup_event_def\<close>)

lemma setup_reach_inv: "setup_reach N W hm w \<Longrightarrow> setup_core W \<Longrightarrow> setup_inv W w"
proof (induction rule: setup_reach.induct)
  case (opened params session local)
  have "setupStep (setup_onMount N params (setup_initial session local)) = 1"
    by (simp add: setup_onMount_def setup_initial_def verifyInvitation_def apiRequest_eq Let_def split: sum.splits)
  then show ?case by (rule setup_inv_first)
qed (blast intro: setup_event_inv)

subsection \<open>The claim\<close>

abbreviation claim_request :: "net \<Rightarrow> json \<Rightarrow> store \<Rightarrow> request" where
  "claim_request N j \<equiv> api_request N ''/v1/auth/invitations/claim'' ''POST'' (Some (JsonBody j))"

lemma claimed_sends: "io_sends (\<lambda>_. True) (claimed N W salt rnd data sk res)"
  unfolding claimed_def store_keys_def seal_phrase_def updateMailboxSettings_def Let_def
  by (intro io_request; simp)

lemma activate_sent:
  assumes "inviteData w = Some data" "pk = or_else (derivedMailboxPk w) (filled (iv_mailbox_pk data))" "pk \<noteq> []"
    and "derivedWrappedSkUser w \<noteq> []"
  obtains rs where "sent (snd (activate N W salt rnd w)) = sent w @ claim_request N (claim_json pk w) (sessionStorage w) # rs"
proof -
  let ?w = "w\<lparr>sent := sent w @ [claim_request N (claim_json pk w) (sessionStorage w)]\<rparr>"
  let ?res = "api_response (server N (sent w) (claim_request N (claim_json pk w) (sessionStorage w)))"
  have run: "activate N W salt rnd w =
      (case ?res of Inl e \<Rightarrow> (Inl e, ?w) | Inr v \<Rightarrow> claimed N W salt rnd data (rawMailboxSkHex w) v ?w)"
    using assms(1,3,4) assms(2) [symmetric] by (simp add: activate_def Let_def claimInvitation_def io_bind_def apiRequest_eq)
  show thesis
  proof (cases ?res)
    case (Inr v)
    obtain rs where "sent (snd (claimed N W salt rnd data (rawMailboxSkHex w) v ?w)) = sent ?w @ rs"
      using claimed_sends unfolding io_sends_def by blast
    with run Inr that show thesis by simp
  qed (use run that in simp)
qed

lemma claim_json_props:
  "text_prop ''password'' (claim_json pk w) = setupPassword w"
  "text_prop ''wrapped_sk_user'' (claim_json pk w) = derivedWrappedSkUser w"
  by (simp_all add: claim_json_def str_prop_def jprop_def filled_def)

lemma save_account_other: "k \<noteq> accounts_item \<Longrightarrow> getItem (save_account acc st) k = getItem st k"
  by (simp add: save_account_def Let_def split: sum.splits)

lemma claimed_ok:
  fixes w :: "'z setup_state_scheme"
  assumes "rawMailboxSkHex w = s" "s \<noteq> []" "wasm_derive_search_key W s = Inr sKey" "need res = Inr v"
  shows "\<exists>w'. claimed N W salt rnd data s' res w = (Inr (), w') \<and> location w' = Some ''/''
     \<and> getItem (sessionStorage w') (sk_item (iv_mailbox_id data)) = Some s
     \<and> getItem (sessionStorage w') (skey_item (iv_mailbox_id data)) = Some sKey"
proof -
  let ?box = "iv_mailbox_id data"
  define acc where "acc = new_account data (text_prop ''token'' v) s' sKey"
  define st where "st = setItem (skey_item ?box) sKey (setItem (sk_item ?box) s (sessionStorage w))"
  define st' where "st' = save_account acc (if text_prop ''token'' v \<noteq> [] then setItem token_item (text_prop ''token'' v) st else st)"
  define x where "x = w\<lparr>sessionStorage := st', localStorage := save_account (durable acc) (localStorage w)\<rparr>"
  let ?m = "io_catch (seal_phrase N W salt rnd ?box) (\<lambda>_. io_return ()) :: ('z setup_state_ext, unit) io"
  have "io_keeps sessionStorage ?m"
    unfolding seal_phrase_def updateMailboxSettings_def Let_def by (intro io_frame; simp)
  then have keep: "sessionStorage (snd (?m x)) = st'" by (simp add: io_keeps_def x_def)
  have "is_ok (fst (?m x))" by (rule io_catch_return_ok)
  then obtain y where run: "?m x = (Inr (), y)" by (cases "?m x"; cases "fst (?m x)") simp_all
  have step: "claimed N W salt rnd data s' res w = io_bind ?m (\<lambda>_. io_modify (\<lambda>w. w\<lparr>location := Some ''/''\<rparr>)) x"
    using assms unfolding claimed_def store_keys_def Let_def io_bind_assoc
    by (simp add: io_bind_assoc x_def st'_def st_def acc_def del: append.simps)
  have "getItem st' (sk_item ?box) = Some s" "getItem st' (skey_item ?box) = Some sKey"
    by (auto simp: st'_def st_def save_account_other)
  moreover have "claimed N W salt rnd data s' res w = (Inr (), y\<lparr>location := Some ''/''\<rparr>)"
    by (simp add: step io_bind_def run)
  ultimately show ?thesis using keep by (simp add: run del: append.simps)
qed

lemma activate_ok:
  assumes "inviteData w = Some data" "derivedMailboxPk w \<noteq> []" "derivedWrappedSkUser w \<noteq> []" "rawMailboxSkHex w = s" "s \<noteq> []"
    and "wasm_derive_search_key W s = Inr sKey" "\<forall>rs q. api_response (server N rs q) = Inr (Some (JObj ms))"
  shows "\<exists>w'. activate N W salt rnd w = (Inr (), w') \<and> location w' = Some ''/''
     \<and> getItem (sessionStorage w') (sk_item (iv_mailbox_id data)) = Some s
     \<and> getItem (sessionStorage w') (skey_item (iv_mailbox_id data)) = Some sKey"
proof -
  let ?w = "w\<lparr>sent := sent w @ [claim_request N (claim_json (derivedMailboxPk w) w) (sessionStorage w)]\<rparr>"
  have "activate N W salt rnd w = claimed N W salt rnd data s (Some (JObj ms)) ?w"
    using assms by (simp add: activate_def or_else_def claimInvitation_def io_bind_def apiRequest_eq Let_def)
  with claimed_ok [of ?w s W sKey "Some (JObj ms)" "JObj ms" N salt rnd data s] assms(4-6) show ?thesis
    by (simp add: need_def del: append.simps)
qed

text \<open>A core whose generators deliver.\<close>

definition setup_ready :: "wasm_core \<Rightarrow> bool" where
  "setup_ready W \<longleftrightarrow> setup_core W
     \<and> (\<forall>rnd. \<exists>p. wasm_generate_mnemonic W rnd = Inr p \<and> is_ok (wasm_recover_root_secret W p))
     \<and> (\<forall>rnd. \<exists>sk pk. length sk = 32 \<and> pk \<noteq> [] \<and> wasm_generate_keypair W rnd =
          Inr (stringify (JObj [(''secret_key'', JStr (bytesToHex sk)), (''public_key'', JStr pk)])))
     \<and> (\<forall>sk. length sk = 32 \<longrightarrow> (\<exists>k. k \<noteq> [] \<and> wasm_derive_search_key W (bytesToHex sk) = Inr k))"

lemma make_keys_total:
  assumes "setup_ready W" "length (rd_salt R) = 16" "inviteData w = Some data" "iv_privacy_mode data = ''private''"
    and "mailboxIdHex (iv_mailbox_id data) = Inr box"
  obtains ph pk wr sk where "pk \<noteq> []" "wr \<noteq> []" "length sk = 32"
    "make_keys W R w = (Inr (), w\<lparr>mnemonic := ph, derivedMailboxPk := pk, derivedWrappedSkUser := wr,
                                rawMailboxSkHex := bytesToHex sk, setupStep := 2\<rparr>)"
proof -
  note W = assms(1) [unfolded setup_ready_def setup_core_def]
  from W obtain ph where "wasm_generate_mnemonic W (rd_mnemonic R) = Inr ph" "is_ok (wasm_recover_root_secret W ph)" by blast
  then obtain rh where ph: "wasm_generate_mnemonic W (rd_mnemonic R) = Inr ph" "wasm_recover_root_secret W ph = Inr rh"
    by (cases "wasm_recover_root_secret W ph") simp_all
  with W obtain rt where rt: "length rt = 32" "rh = bytesToHex rt" by blast
  from W obtain sk pk where kp: "length sk = 32" "pk \<noteq> []" "wasm_generate_keypair W (rd_keypair R) =
      Inr (stringify (JObj [(''secret_key'', JStr (bytesToHex sk)), (''public_key'', JStr pk)]))" by blast
  obtain mid where mid: "box = bytesToHex mid" "length mid = 16" by (rule mailboxIdHex_bytes [OF assms(5)])
  from W rt kp(1) mid obtain e where e: "wasm_wrap_mailbox_key W (rd_root R) rh (bytesToHex sk) box = Inr (bytesToHex e)"
    unfolding mailbox_wrap_correct_def by metis
  from W assms(2) obtain f where f: "wasm_passphrase_wrap_key W (rd_pass R) (setupPassword w) (bytesToHex (rd_salt R)) (bytesToHex sk) = Inr (bytesToHex f)"
    unfolding passphrase_correct_def by metis
  let ?kp = "JObj [(''secret_key'', JStr (bytesToHex sk)), (''public_key'', JStr pk)]"
  have "wf_json ?kp" by simp
  then have parse: "js_parse (stringify ?kp) = Inr ?kp"
    using json_roundtrip by (simp add: js_parse_def del: stringify.simps)
  have "mailbox_secret W R data v = (Inr (bytesToHex sk), v\<lparr>derivedMailboxPk := pk\<rparr>)" for v :: "'a setup_state_scheme"
    using assms(4) kp(3) parse
    by (simp add: mailbox_secret_def need_def string_arg_def jprop_def str_prop_def filled_def del: stringify.simps)
  then have "make_keys W R w = (Inr (), w\<lparr>mnemonic := ph, derivedMailboxPk := pk,
      derivedWrappedSkUser := stringify (wrapped_payload (bytesToHex (rd_salt R)) (bytesToHex f) (bytesToHex e)),
      rawMailboxSkHex := bytesToHex sk, setupStep := 2\<rparr>)"
    using assms(3,5) ph e f by (simp add: make_keys_def io_bind_def bytesToHex_cp_eq del: stringify.simps)
  from that [OF kp(2) payload_facts(2) kp(1) this] show thesis .
qed

subsection \<open>A run through the page\<close>

abbreviation setup_run :: "string \<Rightarrow> setup_random \<Rightarrow> byte list \<Rightarrow> string \<Rightarrow> setup_control list" where
  "setup_run p R r email \<equiv>
     [TypePassword p, TypeConfirm p, SubmitPassword R, TickSaved True, ToSecondFactor r, PickMethod EmailMethod, TypeEmail email]"

lemma setup_run_ready:
  assumes "setup_ready W" "setup_visible w" "setupStep w = 1" "\<not> isSubmitting w" "inviteData w = Some data"
    and "iv_privacy_mode data = ''private''" "mailboxIdHex (iv_mailbox_id data) = Inr box"
    and "12 \<le> length p" "length (rd_salt R) = 16" "str_includes (trim email) ''@''"
  obtains w1 sk sKey where "fold (setup_event N W hm) (setup_run p R r email) w = w1"
    "setup_visible w1" "setupStep w1 = 3" "is2FAValid w1" "confirmedSaved w1" "\<not> isSubmitting w1" "inviteData w1 = Some data"
    "derivedMailboxPk w1 \<noteq> []" "derivedWrappedSkUser w1 \<noteq> []" "rawMailboxSkHex w1 = bytesToHex sk" "length sk = 32"
    "wasm_derive_search_key W (bytesToHex sk) = Inr sKey" "sKey \<noteq> []"
proof -
  let ?w0 = "w\<lparr>setupPassword := p, confirmPassword := p, submitError := None, isSubmitting := True\<rparr>"
  obtain ph pk wr sk where keys: "pk \<noteq> []" "wr \<noteq> []" "length sk = 32"
    "make_keys W R ?w0 = (Inr (), ?w0\<lparr>mnemonic := ph, derivedMailboxPk := pk, derivedWrappedSkUser := wr,
        rawMailboxSkHex := bytesToHex sk, setupStep := 2\<rparr>)"
    by (rule make_keys_total [OF assms(1,9), of ?w0 data]) (use assms in simp_all)
  obtain sKey where sKey: "sKey \<noteq> []" "wasm_derive_search_key W (bytesToHex sk) = Inr sKey"
    using assms(1) keys(3) unfolding setup_ready_def by blast
  define w1 where "w1 = w\<lparr>setupPassword := p, confirmPassword := p, submitError := None, mnemonic := ph, derivedMailboxPk := pk,
      derivedWrappedSkUser := wr, rawMailboxSkHex := bytesToHex sk, confirmedSaved := True,
      totpSecret := (if totpSecret w = [] then generateTOTPSecret r else totpSecret w), setupStep := 3,
      twoFactorMethod := EmailMethod, recoveryEmail := email, isSubmitting := False\<rparr>"
  have "fold (setup_event N W hm) (setup_run p R r email) w = w1"
    using assms(2-6,8) keys
    by (simp add: setup_event_def setup_visible_def isPasswordValid_def handleProceedToKeys_def handleProceedTo2FA_def w1_def)
  moreover have "setup_visible w1" "is2FAValid w1"
    using assms by (simp_all add: w1_def setup_visible_def is2FAValid_def)
  ultimately show thesis
    using assms(5) keys(1-3) sKey by (rule_tac that [of w1 sk sKey]) (simp_all add: w1_def)
qed

text \<open>A core and a server for the examples: every request is answered with the invitation.\<close>

definition toy_setup_core :: wasm_core where
  "toy_setup_core = toy_core
     \<lparr>wasm_aes_gcm_decrypt := (\<lambda>_ _ _. throw_msg ''aead::Error''),
      wasm_generate_keypair := (\<lambda>_. Inr (stringify (JObj [(''secret_key'', JStr (bytesToHex (replicate 32 9))), (''public_key'', JStr ''pk'')]))),
      wasm_generate_mnemonic := (\<lambda>_. Inr ''zoo'')\<rparr>"

definition sample_invitation :: json where
  "sample_invitation = JObj [(''valid'', JBool True), (''email'', JStr ''a@b''),
     (''mailbox_id'', JStr ''000000000000000000000000000000ab''), (''privacy_mode'', JStr ''private'')]"

definition invite_net :: net where
  "invite_net = answer_net sample_invitation"

definition sample_setup :: setup_state where
  "sample_setup = setup_onMount invite_net [''token'' \<mapsto> ''t''] (setup_initial [] [])"

definition sample_random :: setup_random where
  "sample_random = \<lparr>rd_mnemonic = [], rd_keypair = [], rd_root = [], rd_salt = replicate 16 3, rd_pass = []\<rparr>"

lemma toy_setup_ready: "setup_ready toy_setup_core"
proof -
  let ?kp = "JObj [(''secret_key'', JStr (bytesToHex (replicate 32 9))), (''public_key'', JStr ''pk'')]"
  have "wf_json ?kp" by simp
  then have "js_parse (stringify ?kp) = Inr ?kp"
    using json_roundtrip by (simp add: js_parse_def del: stringify.simps)
  moreover have "trim ''zoo'' = ''zoo''" by code_simp
  moreover have "passphrase_correct toy_setup_core" "mailbox_wrap_correct toy_setup_core"
    using toy_core_laws(3,4) by (simp_all add: passphrase_correct_def mailbox_wrap_correct_def toy_setup_core_def)
  moreover have "bytesToHex sk \<noteq> []" if "length sk = 32" for sk :: "byte list" using that by auto
  moreover have "length (replicate 32 (7 :: byte)) = 32" "length (replicate 32 (9 :: byte)) = 32" by simp_all
  ultimately show ?thesis unfolding setup_ready_def setup_core_def
    by (auto simp: toy_setup_core_def toy_core_def jprop_def simp del: stringify.simps length_replicate)
qed

lemma invite_net_answer: "api_response (server invite_net rs q) = Inr (Some sample_invitation)"
proof -
  have "wf_json sample_invitation" by (simp add: sample_invitation_def)
  from answer_net [OF this] show ?thesis by (simp add: invite_net_def answers_def)
qed

lemma sample_setup_facts:
  "setup_visible sample_setup" "setupStep sample_setup = 1" "\<not> isSubmitting sample_setup"
  "inviteData sample_setup = Some (invitation_of sample_invitation)"
  "setup_reach invite_net toy_setup_core hm sample_setup"
proof -
  have "\<exists>rs. sample_setup = (setup_initial [] [])\<lparr>rawToken := ''t'', setupLoading := False,
      inviteData := Some (invitation_of sample_invitation), sent := rs\<rparr>"
    using invite_net_answer
    by (simp add: sample_setup_def setup_onMount_def verifyInvitation_def apiRequest_eq Let_def filled_def trim_no_ws is_ws_def
        sample_invitation_def need_def invitation_of_def truthy_def jprop_def setup_initial_def)
  then obtain rs where eq: "sample_setup = (setup_initial [] [])\<lparr>rawToken := ''t'', setupLoading := False,
      inviteData := Some (invitation_of sample_invitation), sent := rs\<rparr>" by blast
  show "setup_visible sample_setup" "setupStep sample_setup = 1" "\<not> isSubmitting sample_setup"
    "inviteData sample_setup = Some (invitation_of sample_invitation)"
    by (simp_all add: eq setup_visible_def setup_initial_def nonempty_def filled_def)
  show "setup_reach invite_net toy_setup_core hm sample_setup"
    unfolding sample_setup_def by (rule opened)
qed

lemma setup_reach_fold:
  "setup_reach N W hm w \<Longrightarrow> list_all control_ok es \<Longrightarrow> setup_reach N W hm (fold (setup_event N W hm) es w)"
  by (induction es arbitrary: w) (simp_all add: stepped)

abbreviation sample_run :: setup_state where
  "sample_run \<equiv> fold (setup_event invite_net toy_setup_core (\<lambda>_ _ _. Inr [])) (setup_run ''correct horse'' sample_random [] ''c@d'') sample_setup"

lemma sample_run_facts:
  "setup_reach invite_net toy_setup_core (\<lambda>_ _ _. Inr []) sample_run" "setupStep sample_run = 3" "is2FAValid sample_run"
  "inviteData sample_run = Some (invitation_of sample_invitation)" "derivedMailboxPk sample_run \<noteq> []" "setup_core toy_setup_core"
proof -
  have "iv_privacy_mode (invitation_of sample_invitation) = ''private''"
    "mailboxIdHex (iv_mailbox_id (invitation_of sample_invitation)) = Inr ''000000000000000000000000000000ab''"
    "str_includes (trim ''c@d'') ''@''" by (code_simp, code_simp, code_simp)
  from setup_run_ready [OF toy_setup_ready sample_setup_facts(1-4) this(1,2) _ _ this(3), of "''correct horse''" sample_random
      invite_net "\<lambda>_ _ _. Inr []" "[]"]
  show "setupStep sample_run = 3" "is2FAValid sample_run" "inviteData sample_run = Some (invitation_of sample_invitation)"
    "derivedMailboxPk sample_run \<noteq> []"
    by (auto simp: sample_random_def simp del: fold_simps)
  show "setup_reach invite_net toy_setup_core (\<lambda>_ _ _. Inr []) sample_run"
    by (intro setup_reach_fold sample_setup_facts) (simp add: sample_random_def)
  show "setup_core toy_setup_core" using toy_setup_ready by (simp add: setup_ready_def)
qed

section \<open>Properties\<close>

text \<open>C13: in every state the page can reach, from the second step on, the wrapped key that will be uploaded is opened by the
  password now in the form and by the recovery phrase now on display, and both yield the private key of the page; going
  back, changing the password and failed attempts included. The third step is reached only with the phrase confirmed.\<close>

theorem setup_keys_recoverable:
  assumes "setup_core W" "setup_reach N W hm w" "2 \<le> setupStep w"
  shows "\<exists>data sk. inviteData w = Some data \<and> length sk = 32 \<and> rawMailboxSkHex w = bytesToHex sk
     \<and> autoUnwrapMailboxKey W (setupPassword w) (derivedWrappedSkUser w) = Inr sk
     \<and> unwrapMailboxKeyWithRecoveryPhrase W (mnemonic w) (iv_mailbox_id data) (derivedWrappedSkUser w) = Inr sk
     \<and> (setupStep w = 3 \<longrightarrow> confirmedSaved w)"
  using setup_reach_inv [OF assms(2,1)] assms(3) by (auto simp: setup_inv_def keys_match_def)

theorem setup_keys_recoverable_witness:
  "\<exists>data sk. inviteData sample_run = Some data \<and> rawMailboxSkHex sample_run = bytesToHex sk
     \<and> autoUnwrapMailboxKey toy_setup_core (setupPassword sample_run) (derivedWrappedSkUser sample_run) = Inr sk"
  using setup_keys_recoverable [OF sample_run_facts(6,1)] sample_run_facts(2) by (auto simp del: fold_simps)

text \<open>C24: finishing sends nothing unless the phrase was confirmed and the second factor is complete. Otherwise the first
  request holds both the password and the wrapped key in clear text form, so that whoever reads this one request obtains the
  private key.\<close>

theorem claim_discloses_key:
  assumes "setup_core W" "setup_reach N W hm w" "setupStep w = 3" "inviteData w = Some data"
    and "or_else (derivedMailboxPk w) (filled (iv_mailbox_pk data)) \<noteq> []"
  shows "(\<not> is2FAValid w \<longrightarrow> sent (handleFinalizeActivation N W salt rnd w) = sent w)
    \<and> (is2FAValid w \<longrightarrow> (\<exists>j sk rs. sent (handleFinalizeActivation N W salt rnd w) = sent w @ claim_request N j (sessionStorage w) # rs
         \<and> rawMailboxSkHex w = bytesToHex sk
         \<and> autoUnwrapMailboxKey W (text_prop ''password'' j) (text_prop ''wrapped_sk_user'' j) = Inr sk))"
proof -
  from setup_reach_inv [OF assms(2,1)] assms(3,4) obtain sk where sk: "keys_match W (iv_mailbox_id data) w sk"
    and saved: "confirmedSaved w" by (auto simp: setup_inv_def)
  from sk have "derivedWrappedSkUser w \<noteq> []" by (auto simp: keys_match_def autoUnwrapMailboxKey_def)
  let ?v = "w\<lparr>isSubmitting := True, submitError := None\<rparr>"
  let ?pk = "or_else (derivedMailboxPk w) (filled (iv_mailbox_pk data))"
  obtain rs where "sent (snd (activate N W salt rnd ?v)) = sent ?v @ claim_request N (claim_json ?pk ?v) (sessionStorage ?v) # rs"
    by (rule activate_sent [of ?v data ?pk N W salt rnd]) (use assms(4,5) \<open>derivedWrappedSkUser w \<noteq> []\<close> in simp_all)
  with saved sk show ?thesis
    by (cases "activate N W salt rnd ?v"; cases "fst (activate N W salt rnd ?v)")
      (auto simp: handleFinalizeActivation_def claim_json_props keys_match_def)
qed

theorem claim_discloses_key_witness:
  "\<exists>j sk rs. sent (handleFinalizeActivation invite_net toy_setup_core [] [] sample_run) =
         sent sample_run @ claim_request invite_net j (sessionStorage sample_run) # rs
     \<and> rawMailboxSkHex sample_run = bytesToHex sk
     \<and> autoUnwrapMailboxKey toy_setup_core (text_prop ''password'' j) (text_prop ''wrapped_sk_user'' j) = Inr sk"
  using claim_discloses_key [OF sample_run_facts(6,1,2,4), of "[]" "[]"] sample_run_facts(3,5)
  by (simp add: or_else_def del: fold_simps)

text \<open>The second factor of the page. Six digits typed into the code field complete the step whether or not the code is
  right for the secret; a phone number needs seven characters and an address an at sign. Verified codes are exactly those
  the verifier accepts.\<close>

theorem setup_code_unchecked:
  assumes "length digits = 6" "list_all is_digit digits"
  shows "is2FAValid (totp_input hm now digits (w\<lparr>twoFactorMethod := TotpMethod\<rparr>))
    \<and> (totpVerified (totp_input hm now digits (w\<lparr>totpVerified := False\<rparr>)) \<longleftrightarrow> verifyTOTPClient hm now (totpSecret w) digits)"
proof -
  have "filter is_digit digits = digits" "trim digits = digits"
    using assms(2) by (simp add: list_all_iff) (rule digits_no_ws [OF assms(2)])
  with assms(1) show ?thesis
    by (simp add: totp_input_def handleVerifyTOTP_def is2FAValid_def Let_def)
qed



end
