(* ===== verification/Add_Mailbox.thy ===== *)
theory Add_Mailbox
  imports App_Session
begin

text \<open>
  Connecting a further mailbox: apps/webmail/src/components/AddMailboxModal.tsx. The dialog signs in to
  another account, with the second factor where it is asked for, unwraps its key with the password (or
  makes a new key pair for an account that has none) and stores the account beside the others.

  The signals of the dialog extend the browser's state. The page's callback \<open>onSuccess\<close> is
  \<open>handleAccountAdded\<close> of the page; the handlers return the account it is called with.
\<close>

section \<open>State\<close>

record mailbox_challenge =
  mc_challenge_token :: string
  mc_methods :: "string list"
  mc_preferred_method :: string
  mc_destination_masked :: string
  mc_debug_code :: "string option"

record add_state = world +
  amSecondStep :: bool
  amEmail :: string
  amPassword :: string
  amLoading :: bool
  amError :: "string option"
  cachedMail :: string
  cachedPassword :: string
  amChallenge :: "mailbox_challenge option"
  amCode :: string
  amBusy :: bool

definition resetForm :: "'z add_state_scheme \<Rightarrow> 'z add_state_scheme" where
  "resetForm w =
     w\<lparr>amEmail := [], amPassword := [], amError := None, amSecondStep := False, cachedMail := [], cachedPassword := [],
       amChallenge := None, amCode := [], amLoading := False, amBusy := False\<rparr>"

definition add_closed :: "'z add_state_scheme \<Rightarrow> 'z add_state_scheme" where
  "add_closed w = resetForm w"

section \<open>The keys of the account\<close>

text \<open>Unwrapping with the password; the key stays when only the search key fails.\<close>

definition unwrap_account :: "wasm_core \<Rightarrow> string \<Rightarrow> string \<Rightarrow> string \<times> string" where
  "unwrap_account W pass wrapped =
     (case autoUnwrapMailboxKey W pass wrapped of
        Inl e \<Rightarrow> ([], [])
      | Inr sk \<Rightarrow> (case wasm_derive_search_key W (bytesToHex_cp sk) of
                    Inl e \<Rightarrow> (bytesToHex_cp sk, [])
                  | Inr sKey \<Rightarrow> (bytesToHex_cp sk, sKey)))"

record heal_random =
  hr_keypair :: "byte list"
  hr_salt :: "byte list"
  hr_wrap :: "byte list"

definition heal_request :: "net \<Rightarrow> string \<Rightarrow> string \<Rightarrow> string \<Rightarrow> json option \<Rightarrow> request" where
  "heal_request N boxId tok wrapped pk =
     \<lparr>req_method = ''POST'', req_url = api_base N @ ''/v1/mailboxes/'' @ boxId @ ''/reactivate-keys'',
      req_headers = [(''Content-Type'', ''application/json''), (''X-BYOS-Client'', ''webmail''), (''Authorization'', ''Bearer '' @ tok)],
      with_credentials = False,
      req_body = Some (JsonBody (JObj ([(''wrapped_sk_user'', JStr wrapped)] @ (case pk of Some v \<Rightarrow> [(''mailbox_pk'', v)] | None \<Rightarrow> []))))\<rparr>"

text \<open>A new key pair, wrapped under the password and registered; the token is that of the response, or the active one.\<close>

definition heal_account :: "net \<Rightarrow> wasm_core \<Rightarrow> heal_random \<Rightarrow> string \<Rightarrow> json \<Rightarrow> ('z add_state_ext, string \<times> string) io" where
  "heal_account N W R pass res =
     io_bind (io_lift (bind_err (bind_err (wasm_generate_keypair W (hr_keypair R)) js_parse) (\<lambda>kp. need (Some kp)))) (\<lambda>kp.
     let saltHex = bytesToHex_cp (hr_salt R)
     in io_bind (io_lift (bind_err (string_arg (jprop ''secret_key'' kp)) (\<lambda>sk.
                 bind_err (wasm_passphrase_wrap_key W (hr_wrap R) pass saltHex sk) (\<lambda>e. Inr (sk, e))))) (\<lambda>(sk, envelope).
        io_bind (\<lambda>w. (let tok = (if nonempty (str_prop ''token'' res) then text_prop ''token'' res
                                 else (case getItem (sessionStorage w) token_item of Some t \<Rightarrow> t | None \<Rightarrow> ''null''));
                          wrapped = stringify (JObj [(''salt'', JStr saltHex), (''envelope'', JStr envelope)]);
                          (r, w') = do_fetch N (heal_request N (text_prop ''mailbox_id'' res) tok wrapped (jprop ''public_key'' kp)) w
                      in (case r of
                            NetFail m \<Rightarrow> throw_msg m
                          | Resp st ct t \<Rightarrow> if \<not> resp_ok st
                                then throw_msg (or_else (text_or_empty t) (''Failed to repair mailbox: status '' @ num_string st))
                                else Inr (), w'))) (\<lambda>_.
        io_bind (io_lift (wasm_derive_search_key W sk)) (\<lambda>sKey. io_return (sk, sKey)))))"

definition account_keys :: "net \<Rightarrow> wasm_core \<Rightarrow> heal_random \<Rightarrow> string \<Rightarrow> json \<Rightarrow> ('z add_state_ext, string \<times> string) io" where
  "account_keys N W R pass res =
     (if nonempty (str_prop ''wrapped_sk_user'' res) then io_return (unwrap_account W pass (text_prop ''wrapped_sk_user'' res))
      else if nonempty (str_prop ''mailbox_id'' res)
      then io_catch (heal_account N W R pass res)
             (\<lambda>_. io_throw ''Failed to initialize cryptographic keys for the newly connected mailbox.'')
      else io_return ([], []))"

section \<open>Storing the account\<close>

definition added_account :: "json \<Rightarrow> string \<Rightarrow> string \<Rightarrow> string \<Rightarrow> connected_account" where
  "added_account res mail skHex sKey =
     (let mailAddr = text_prop ''email'' res
      in \<lparr>acc_id = or_else (text_prop ''mailbox_id'' res) (text_prop ''id'' res), acc_email = or_else mailAddr mail,
          acc_displayName = or_else (text_prop ''mailbox_local_part'' res)
            (hd (split_char CHR ''@'' (if mailAddr \<noteq> [] then mailAddr else mail))),
          acc_role = or_else (text_prop ''role'' res) ''member'',
          acc_privacyMode = or_else (text_prop ''mailbox_mode'' res) ''org_managed'',
          acc_sessionToken = text_prop ''token'' res, acc_mailboxSkHex = skHex, acc_searchKeyHex = sKey\<rparr>)"

text \<open>The filter over the stored list reads \<open>a.id\<close> and \<open>a.email.toLowerCase()\<close>; an entry without an address fails, and
  then the storage keeps its list.\<close>

definition same_entry :: "connected_account \<Rightarrow> json \<Rightarrow> js_error + bool" where
  "same_entry acc v =
     (if v = JNull then throw_msg ''TypeError''
      else if jprop ''id'' v = Some (JStr (acc_id acc)) then Inr True
      else case str_prop ''email'' v of
             Some e \<Rightarrow> Inr (toLowerCase e = toLowerCase (acc_email acc))
           | None \<Rightarrow> throw_msg ''TypeError'')"

fun other_entries :: "connected_account \<Rightarrow> json list \<Rightarrow> js_error + json list" where
  "other_entries acc [] = Inr []"
| "other_entries acc (v # vs) =
     bind_err (same_entry acc v) (\<lambda>b. bind_err (other_entries acc vs) (\<lambda>rest. Inr (if b then rest else v # rest)))"

definition stored_entries :: "store \<Rightarrow> json list" where
  "stored_entries st =
     (case getItem st accounts_item of Some t \<Rightarrow> (case json_parse t of Some (JArr vs) \<Rightarrow> vs | _ \<Rightarrow> []) | None \<Rightarrow> [])"

definition append_account :: "connected_account \<Rightarrow> store \<Rightarrow> store" where
  "append_account acc st =
     (case other_entries acc (stored_entries st) of
        Inl e \<Rightarrow> st
      | Inr rest \<Rightarrow> setItem accounts_item (stringify (JArr (rest @ [account_json acc]))) st)"

definition store_session :: "connected_account \<Rightarrow> store \<Rightarrow> store" where
  "store_session acc st =
     (let st1 = append_account acc st;
          st2 = (if acc_id acc \<noteq> [] \<and> acc_mailboxSkHex acc \<noteq> []
                 then setItem (skey_item (acc_id acc)) (acc_searchKeyHex acc) (setItem (sk_item (acc_id acc)) (acc_mailboxSkHex acc) st1)
                 else st1)
      in if acc_sessionToken acc \<noteq> [] then setItem token_item (acc_sessionToken acc) st2 else st2)"

definition processAccountLogin ::
  "net \<Rightarrow> wasm_core \<Rightarrow> heal_random \<Rightarrow> json option \<Rightarrow> string \<Rightarrow> string \<Rightarrow> ('z add_state_ext, connected_account) io" where
  "processAccountLogin N W R r mail pass =
     io_bind (io_lift (need r)) (\<lambda>res.
     io_bind (account_keys N W R pass res) (\<lambda>(skHex, sKey).
     let acc = added_account res mail skHex sKey
     in io_bind (io_modify (\<lambda>w. resetForm (w\<lparr>sessionStorage := store_session acc (sessionStorage w),
                                             localStorage := append_account (durable acc) (localStorage w)\<rparr>)))
          (\<lambda>_. io_return acc)))"

section \<open>Handlers\<close>

text \<open>The first component is the account \<open>onSuccess\<close> is called with.\<close>

definition failed_add :: "string \<Rightarrow> (js_error + 'a option) \<times> 'z add_state_scheme \<Rightarrow> 'a option \<times> 'z add_state_scheme" where
  "failed_add fallback p =
     (case p of (Inr a, w) \<Rightarrow> (a, w) | (Inl e, w) \<Rightarrow> (None, w\<lparr>amError := Some (or_else (err_message e) fallback)\<rparr>))"

definition challenge_of :: "json \<Rightarrow> mailbox_challenge" where
  "challenge_of res =
     \<lparr>mc_challenge_token = text_prop ''challenge_token'' res,
      mc_methods = (case strings_prop ''methods'' res of Some ms \<Rightarrow> ms | None \<Rightarrow> [''totp'']),
      mc_preferred_method = or_else (text_prop ''preferred_method'' res) ''totp'',
      mc_destination_masked = text_prop ''destination_masked'' res, mc_debug_code = str_prop ''debug_code'' res\<rparr>"

definition add_handleSubmit ::
  "net \<Rightarrow> wasm_core \<Rightarrow> heal_random \<Rightarrow> 'z add_state_scheme \<Rightarrow> connected_account option \<times> 'z add_state_scheme" where
  "add_handleSubmit N W R w =
     (let mail = trim (amEmail w); pass = amPassword w
      in if mail = [] \<or> pass = [] then (None, w\<lparr>amError := Some ''Please enter both email and password.''\<rparr>)
         else
           (let (acc, w1) = failed_add ''Invalid credentials or failed to connect mailbox.''
                  (io_bind (login N mail pass) (\<lambda>r.
                   io_bind (io_lift (need r)) (\<lambda>res.
                   if truthy (jprop ''two_factor_required'' res)
                   then io_bind (io_modify (\<lambda>v. v\<lparr>cachedMail := mail, cachedPassword := pass, amChallenge := Some (challenge_of res),
                                                   amCode := [], amSecondStep := True\<rparr>)) (\<lambda>_. io_return None)
                   else io_bind (processAccountLogin N W R (Some res) mail pass) (\<lambda>a. io_return (Some a))))
                   (w\<lparr>amLoading := True, amError := None\<rparr>))
            in (acc, w1\<lparr>amLoading := False, amPassword := []\<rparr>)))"

definition add_handleVerify2FA ::
  "net \<Rightarrow> wasm_core \<Rightarrow> heal_random \<Rightarrow> 'z add_state_scheme \<Rightarrow> connected_account option \<times> 'z add_state_scheme" where
  "add_handleVerify2FA N W R w =
     (let otp = trim (amCode w)
      in case amChallenge w of
           None \<Rightarrow> (None, w\<lparr>amError := Some ''Please enter your 6-digit verification code.''\<rparr>)
         | Some ch \<Rightarrow>
             if otp = [] then (None, w\<lparr>amError := Some ''Please enter your 6-digit verification code.''\<rparr>)
             else
               (let (acc, w1) = failed_add ''Invalid or expired verification code.''
                      (io_bind (verifyLogin2FA N (mc_challenge_token ch) otp) (\<lambda>r.
                       io_bind (io_gets (\<lambda>v. (cachedMail v, cachedPassword v))) (\<lambda>(mail, pass).
                       io_bind (processAccountLogin N W R r mail pass) (\<lambda>a. io_return (Some a))))
                       (w\<lparr>amBusy := True, amError := None\<rparr>))
                in (acc, w1\<lparr>amBusy := False\<rparr>)))"

definition handleSwitch2FAMethod :: "net \<Rightarrow> string \<Rightarrow> 'z add_state_scheme \<Rightarrow> 'z add_state_scheme" where
  "handleSwitch2FAMethod N meth w =
     (case amChallenge w of
        None \<Rightarrow> w
      | Some ch \<Rightarrow>
          (try_catch (\<lambda>e v. v\<lparr>amError := Some (or_else (err_message e) ''Failed to send code.'')\<rparr>)
             (io_bind (sendLogin2FACode N (mc_challenge_token ch) meth) (\<lambda>r.
              io_bind (io_lift (need r)) (\<lambda>res.
              if truthy (jprop ''success'' res)
              then io_modify (\<lambda>v. v\<lparr>amChallenge := map_option (\<lambda>c. c\<lparr>mc_preferred_method := meth,
                      mc_destination_masked := text_prop ''destination_masked'' res\<rparr>) (amChallenge v)\<rparr>)
              else io_return ())))
             (w\<lparr>amBusy := True, amError := None\<rparr>))\<lparr>amBusy := False\<rparr>)"

section \<open>Lemmas\<close>

lemma switch_unlocks:
  assumes "acc_mailboxSkHex a = bytesToHex sk" "sk \<noteq> []"
  shows "mailboxKey (handleSwitchAccount N W P now a w) = Some sk" "unlockedBoxId (handleSwitchAccount N W P now a w) = Some (acc_id a)"
  using assms by (simp_all add: handleSwitchAccount_def Let_def refreshSignature_def load_keeps persist_accounts_def switch_keys_def
      key_bytes_bytesToHex)

lemma added_unlocks:
  assumes "acc_mailboxSkHex a = bytesToHex sk" "sk \<noteq> []"
  shows "mailboxKey (handleAccountAdded N W P now a w) = Some sk" "unlockedBoxId (handleAccountAdded N W P now a w) = Some (acc_id a)"
  by (simp_all add: handleAccountAdded_def switch_unlocks [OF assms] showToast_def setTimeout_def clearTimeout_def Let_def split: option.split)

lemma append_account_other: "k \<noteq> accounts_item \<Longrightarrow> getItem (append_account acc st) k = getItem st k"
  by (simp add: append_account_def split: sum.splits)

lemma processAccountLogin_unwraps:
  assumes "nonempty (str_prop ''wrapped_sk_user'' res)" "need (Some res) = Inr res"
    and "autoUnwrapMailboxKey W pass (text_prop ''wrapped_sk_user'' res) = Inr sk" "wasm_derive_search_key W (bytesToHex sk) = Inr sKey"
  shows "processAccountLogin N W R (Some res) mail pass w =
    (let acc = added_account res mail (bytesToHex sk) sKey
     in (Inr acc, resetForm (w\<lparr>sessionStorage := store_session acc (sessionStorage w),
                               localStorage := append_account (durable acc) (localStorage w)\<rparr>)))"
  using assms by (simp add: processAccountLogin_def account_keys_def unwrap_account_def bytesToHex_cp_eq Let_def)

section \<open>Properties\<close>

text \<open>Connecting a further mailbox. While a second factor is asked for, no account is handed over and no storage changes;
  the password leaves the form. Otherwise the account whose key the password unwraps is handed to the page, the page then has
  this key unlocked, and of the local storage only the account list changed, by an entry without keys.\<close>

theorem add_mailbox_unlocked:
  assumes "answers N res" "need (Some res) = Inr res" "trim (amEmail w) \<noteq> []" "amPassword w \<noteq> []"
    and "nonempty (str_prop ''wrapped_sk_user'' res)" "sk \<noteq> []"
    and "autoUnwrapMailboxKey W (amPassword w) (text_prop ''wrapped_sk_user'' res) = Inr sk"
    and "wasm_derive_search_key W (bytesToHex sk) = Inr sKey"
  shows "let (handed, w') = add_handleSubmit N W R w
    in amPassword w' = [] \<and> (if truthy (jprop ''two_factor_required'' res)
       then handed = None \<and> amSecondStep w' \<and> sessionStorage w' = sessionStorage w \<and> localStorage w' = localStorage w
       else (\<exists>acc. handed = Some acc
          \<and> mailboxKey (handleAccountAdded N' W P now acc v) = Some sk
          \<and> unlockedBoxId (handleAccountAdded N' W P now acc v) = Some (acc_id acc)
          \<and> localStorage w' = append_account (durable acc) (localStorage w)
          \<and> acc_mailboxSkHex (durable acc) = [] \<and> acc_searchKeyHex (durable acc) = []))"
proof (cases "truthy (jprop ''two_factor_required'' res)")
  case True
  with assms(1-4) show ?thesis
    by (simp add: add_handleSubmit_def login_def io_bind_def answers_apiRequest failed_add_def Let_def)
next
  case False
  let ?acc = "added_account res (trim (amEmail w)) (bytesToHex sk) sKey"
  have "acc_mailboxSkHex ?acc = bytesToHex sk" by (simp add: added_account_def Let_def)
  note unlocked = added_unlocks [OF this assms(6), of N' W P now v]
  from False assms(1-4) have "fst (add_handleSubmit N W R w) = Some ?acc"
    "localStorage (snd (add_handleSubmit N W R w)) = append_account (durable ?acc) (localStorage w)"
    "amPassword (snd (add_handleSubmit N W R w)) = []"
    by (simp_all add: add_handleSubmit_def login_def io_bind_def answers_apiRequest failed_add_def
        processAccountLogin_unwraps [OF assms(5,2,7,8)] resetForm_def Let_def)
  with unlocked False show ?thesis
    by (cases "add_handleSubmit N W R w") (auto simp: durable_def)
qed

definition sample_add :: add_state where
  "sample_add = \<lparr>sessionStorage = [], localStorage = [], sent = [], amSecondStep = False, amEmail = ''a@b'', amPassword = ''pw'',
     amLoading = False, amError = None, cachedMail = [], cachedPassword = [], amChallenge = None, amCode = [], amBusy = False\<rparr>"

definition sample_login :: json where
  "sample_login = JObj [(''mailbox_id'', JStr ''b''), (''email'', JStr ''a@b''),
     (''wrapped_sk_user'', JStr (projr (wrapMailboxKeyWithPassphrase toy_core (replicate 16 1) [] ''pw'' (replicate 32 9))))]"

end
