(* ===== verification/Control_Api.thy ===== *)
theory Control_Api
  imports Webmail_Api
begin

text \<open>
  The API clients of the control plane (\<open>apps/control-plane/src/lib/api/*.ts\<close>) and of the support
  application (\<open>apps/support-crm/src/lib/api.ts\<close>), with the client-side mailbox cryptography of
  \<open>mailboxes.ts\<close>: creation, invitation and administrative recovery. Names that the webmail client uses
  too carry the suffix \<open>_cp\<close> or \<open>_crm\<close>.
\<close>

section \<open>Headers and calls\<close>

definition getCpHeaders :: "store \<Rightarrow> (string \<times> string) list \<Rightarrow> (string \<times> string) list" where
  "getCpHeaders local extraHeaders =
     [(''X-BYOS-Client'', ''control-plane'')] @ extraHeaders @
     (case getItem local ''byos_cp_session_token'' of Some t \<Rightarrow> if t = [] then [] else bearer t | None \<Rightarrow> [])"

definition getAuthHeader :: "net \<Rightarrow> (string \<times> string) list" where
  "getAuthHeader N = (if byos_user_id N = [] then [] else [(''X-User-Id'', byos_user_id N)])"

abbreviation cp_headers :: "(string \<times> string) list \<Rightarrow> store \<Rightarrow> (string \<times> string) list" where
  "cp_headers extra local \<equiv> getCpHeaders local extra"

abbreviation plain_headers :: "(string \<times> string) list \<Rightarrow> store \<Rightarrow> (string \<times> string) list" where
  "plain_headers extra local \<equiv> extra"

text \<open>The calls of the clients: \<open>fetch\<close>, then an error with the status unless the response is a success,
  then its JSON. The headers may depend on the local storage.\<close>

definition cp_request :: "(store \<Rightarrow> (string \<times> string) list) \<Rightarrow> string \<Rightarrow> string \<Rightarrow> bool \<Rightarrow> body option \<Rightarrow> store \<Rightarrow> request" where
  "cp_request hdr meth url creds bdy local =
     \<lparr>req_method = meth, req_url = url, req_headers = hdr local, with_credentials = creds, req_body = bdy\<rparr>"

definition cp_call ::
  "net \<Rightarrow> (store \<Rightarrow> (string \<times> string) list) \<Rightarrow> string \<Rightarrow> string \<Rightarrow> bool \<Rightarrow> body option
    \<Rightarrow> (nat \<Rightarrow> string option \<Rightarrow> byte list option \<Rightarrow> js_error + 'a) \<Rightarrow> ('z, 'a) io" where
  "cp_call N hdr meth url creds bdy k w =
     (let (res, w') = do_fetch N (cp_request hdr meth url creds bdy (localStorage w)) w
      in (case res of NetFail m \<Rightarrow> throw_msg m | Resp st ct t \<Rightarrow> k st ct t, w'))"

definition json_call ::
  "net \<Rightarrow> (store \<Rightarrow> (string \<times> string) list) \<Rightarrow> string \<Rightarrow> string \<Rightarrow> bool \<Rightarrow> body option \<Rightarrow> string \<Rightarrow> ('z, json) io" where
  "json_call N hdr meth url creds bdy fallback =
     cp_call N hdr meth url creds bdy (\<lambda>st ct t. if \<not> resp_ok st then Inl (status_error fallback st t) else resp_json t)"

definition void_call ::
  "net \<Rightarrow> (store \<Rightarrow> (string \<times> string) list) \<Rightarrow> string \<Rightarrow> string \<Rightarrow> bool \<Rightarrow> body option \<Rightarrow> string \<Rightarrow> ('z, unit) io" where
  "void_call N hdr meth url creds bdy fallback =
     cp_call N hdr meth url creds bdy
       (\<lambda>st ct t. if \<not> resp_ok st \<and> st \<noteq> 204 then Inl (status_error fallback st t) else Inr ())"

section \<open>Authentication: auth.ts\<close>

text \<open>\<open>if (data.token) localStorage.setItem(...)\<close>\<close>

definition keep_token :: "json \<Rightarrow> ('z, json) io" where
  "keep_token data =
     io_bind (io_lift (access ''token'' data)) (\<lambda>tok.
     io_bind (io_modify (\<lambda>w. if truthy tok
                             then w\<lparr>localStorage := setItem ''byos_cp_session_token'' (to_text (the tok)) (localStorage w)\<rparr>
                             else w)) (\<lambda>_. io_return data))"

definition register ::
  "net \<Rightarrow> string \<Rightarrow> string \<Rightarrow> string \<Rightarrow> string option \<Rightarrow> string option \<Rightarrow> ('z, json) io" where
  "register N email verifier orgRecoveryPk wrappedOrgRecoverySk salt =
     (let payload = JObj ([(''email'', JStr (trim email)), (''password'', JStr verifier), (''org_recovery_pk'', JStr orgRecoveryPk)]
            @ opt_prop ''wrapped_org_recovery_sk'' wrappedOrgRecoverySk @ opt_prop ''recovery_salt'' salt)
      in json_call N (cp_headers [(''Content-Type'', ''application/json'')]) ''POST'' (api_base N @ ''/v1/auth/register'') True
           (Some (JsonBody payload)) ''Register failed '')"

definition login_cp :: "net \<Rightarrow> string \<Rightarrow> string \<Rightarrow> ('z, json) io" where
  "login_cp N email password =
     io_bind (json_call N (cp_headers [(''Content-Type'', ''application/json'')]) ''POST'' (api_base N @ ''/v1/auth/login'') True
       (Some (JsonBody (JObj [(''email'', JStr email), (''password'', JStr password), (''client'', JStr ''control-plane'')])))
       ''Login failed '') keep_token"

text \<open>The message of a failed second factor: the \<open>error\<close> property of a JSON body, otherwise the body.\<close>

definition verify_error :: "nat \<Rightarrow> byte list option \<Rightarrow> js_error" where
  "verify_error st t =
     (let text = text_or_empty t; errorMsg = or_else text (''Verification failed '' @ num_string st)
      in JsError (case json_parse text of
                    Some v \<Rightarrow> if v \<noteq> JNull \<and> truthy (jprop ''error'' v) then to_text (the (jprop ''error'' v)) else errorMsg
                  | None \<Rightarrow> errorMsg) (Some st))"

definition verifyLogin2FA_cp :: "net \<Rightarrow> string \<Rightarrow> string \<Rightarrow> ('z, json) io" where
  "verifyLogin2FA_cp N challengeToken otp =
     io_bind (cp_call N (cp_headers [(''Content-Type'', ''application/json'')]) ''POST'' (api_base N @ ''/v1/auth/2fa/verify-login'') True
       (Some (JsonBody (JObj [(''challenge_token'', JStr challengeToken), (''code'', JStr otp)])))
       (\<lambda>st ct t. if \<not> resp_ok st then Inl (verify_error st t) else resp_json t)) keep_token"

definition logout_cp :: "net \<Rightarrow> ('z, unit) io" where
  "logout_cp N =
     io_bind (io_modify (\<lambda>w. w\<lparr>localStorage := removeItem ''byos_cp_session_token'' (localStorage w)\<rparr>))
       (\<lambda>_. void_call N (cp_headers []) ''POST'' (api_base N @ ''/v1/auth/logout'') True None ''Logout failed '')"

definition fetchPasskeyLoginOptions_cp :: "net \<Rightarrow> string option \<Rightarrow> ('z, json) io" where
  "fetchPasskeyLoginOptions_cp N email =
     json_call N (cp_headers []) ''GET''
       (api_base N @ ''/v1/auth/passkeys/login-options'' @
          (case email of Some e \<Rightarrow> if e = [] then [] else ''?email='' @ encodeURIComponent e | None \<Rightarrow> []))
       True None ''Failed to fetch passkey options: ''"

definition loginWithPasskey_cp :: "net \<Rightarrow> json \<Rightarrow> ('z, json) io" where
  "loginWithPasskey_cp N data =
     io_bind (json_call N (cp_headers [(''Content-Type'', ''application/json'')]) ''POST'' (api_base N @ ''/v1/auth/passkeys/login'') True
       (Some (JsonBody data)) ''Passkey login failed: '') keep_token"

definition listPasskeys_cp :: "net \<Rightarrow> ('z, json) io" where
  "listPasskeys_cp N =
     cp_call N (cp_headers []) ''GET'' (api_base N @ ''/v1/auth/passkeys'') True None
       (\<lambda>st ct t. if \<not> resp_ok st then Inr (JArr []) else resp_json t)"

section \<open>Calls with one request\<close>

definition checkEmailAvailability :: "net \<Rightarrow> string \<Rightarrow> ('z, json) io" where
  "checkEmailAvailability N email =
     json_call N (cp_headers [(''Content-Type'', ''application/json'')]) ''POST'' (api_base N @ ''/v1/auth/check-email'') True (Some (JsonBody (JObj [(''email'', JStr (trim email))]))) ''Check email failed ''"

definition sendLogin2FACode_cp :: "net \<Rightarrow> string \<Rightarrow> string \<Rightarrow> ('z, json) io" where
  "sendLogin2FACode_cp N challengeToken channel =
     json_call N (cp_headers [(''Content-Type'', ''application/json'')]) ''POST'' (api_base N @ ''/v1/auth/2fa/send-code'') True (Some (JsonBody (JObj [(''challenge_token'', JStr challengeToken), (''method'', JStr channel)]))) ''Failed to send code: status ''"

definition me :: "net \<Rightarrow> ('z, json) io" where
  "me N =
     json_call N (cp_headers []) ''GET'' (api_base N @ ''/v1/auth/me'') True None ''Not authenticated ''"

definition fetchPasskeyRegisterOptions_cp :: "net \<Rightarrow> ('z, json) io" where
  "fetchPasskeyRegisterOptions_cp N =
     json_call N (cp_headers []) ''GET'' (api_base N @ ''/v1/auth/passkeys/register-options'') True None ''Failed to fetch passkey registration options: ''"

definition registerPasskey_cp :: "net \<Rightarrow> json \<Rightarrow> ('z, json) io" where
  "registerPasskey_cp N data =
     json_call N (cp_headers [(''Content-Type'', ''application/json'')]) ''POST'' (api_base N @ ''/v1/auth/passkeys/register'') True (Some (JsonBody data)) ''Failed to register passkey: ''"

definition deletePasskey_cp :: "net \<Rightarrow> string \<Rightarrow> ('z, unit) io" where
  "deletePasskey_cp N passkeyId =
     void_call N (cp_headers []) ''DELETE'' (api_base N @ ''/v1/auth/passkeys/'' @ passkeyId) True None ''Failed to delete passkey: ''"

definition getBillingInfo :: "net \<Rightarrow> string \<Rightarrow> ('z, json) io" where
  "getBillingInfo N orgId =
     json_call N (plain_headers []) ''GET'' (api_base N @ ''/v1/organizations/'' @ orgId @ ''/billing'') True None ''Failed to fetch billing ''"

definition updatePlan_cp :: "net \<Rightarrow> string \<Rightarrow> string \<Rightarrow> ('z, json) io" where
  "updatePlan_cp N orgId plan =
     json_call N (plain_headers [(''Content-Type'', ''application/json'')]) ''POST'' (api_base N @ ''/v1/organizations/'' @ orgId @ ''/billing/plan'') True (Some (JsonBody (JObj [(''plan'', JStr plan)]))) ''Failed to update plan ''"

definition updateCapacity_cp :: "net \<Rightarrow> string \<Rightarrow> int \<Rightarrow> string \<Rightarrow> ('z, json) io" where
  "updateCapacity_cp N orgId seatCount cycle =
     json_call N (plain_headers [(''Content-Type'', ''application/json'')]) ''POST'' (api_base N @ ''/v1/organizations/'' @ orgId @ ''/billing/capacity'') True (Some (JsonBody (JObj [(''seat_count'', JNum seatCount), (''billing_cycle'', JStr cycle)]))) ''Failed to update capacity ''"

definition createBridgeCredential_cp :: "net \<Rightarrow> string \<Rightarrow> string \<Rightarrow> ('z, json) io" where
  "createBridgeCredential_cp N mailboxId label =
     json_call N (plain_headers [(''Content-Type'', ''application/json'')]) ''POST'' (api_base N @ ''/v1/mailboxes/'' @ mailboxId @ ''/bridge/credentials'') True (Some (JsonBody (JObj [(''label'', JStr label)]))) ''Failed to create bridge credential ''"

definition revokeBridgeCredential_cp :: "net \<Rightarrow> string \<Rightarrow> string \<Rightarrow> ('z, unit) io" where
  "revokeBridgeCredential_cp N mailboxId credentialId =
     void_call N (plain_headers []) ''DELETE'' (api_base N @ ''/v1/mailboxes/'' @ mailboxId @ ''/bridge/credentials/'' @ credentialId) True None ''Failed to revoke bridge credential ''"

definition enrollDevice :: "net \<Rightarrow> json \<Rightarrow> ('z, json) io" where
  "enrollDevice N params =
     json_call N (plain_headers [(''Content-Type'', ''application/json'')]) ''POST'' (api_base N @ ''/v1/auth/device-enroll'') True (Some (JsonBody params)) ''Device enroll failed ''"

definition revokeDevice :: "net \<Rightarrow> string \<Rightarrow> ('z, unit) io" where
  "revokeDevice N deviceId =
     void_call N (plain_headers [(''Content-Type'', ''application/json'')]) ''POST'' (api_base N @ ''/v1/auth/device-revoke'') True (Some (JsonBody (JObj [(''device_id'', JStr deviceId)]))) ''Device revoke failed ''"

definition createAttachmentMetadata :: "net \<Rightarrow> string \<Rightarrow> string \<Rightarrow> int \<Rightarrow> string \<Rightarrow> string option \<Rightarrow> ('z, json) io" where
  "createAttachmentMetadata N mailboxId filename sizeBytes contentType messageId =
     json_call N (plain_headers [(''Content-Type'', ''application/json'')]) ''POST'' (api_base N @ ''/v1/mailboxes/'' @ mailboxId @ ''/attachments'') True (Some (JsonBody (JObj ([(''filename'', JStr filename), (''size_bytes'', JNum sizeBytes), (''content_type'', JStr contentType)]
         @ (case messageId of Some m \<Rightarrow> [(''message_id'', JStr m)] | None \<Rightarrow> []))))) ''Failed to create attachment ''"

definition deleteAttachment_cp :: "net \<Rightarrow> string \<Rightarrow> string \<Rightarrow> ('z, unit) io" where
  "deleteAttachment_cp N mailboxId attachmentId =
     void_call N (plain_headers []) ''DELETE'' (api_base N @ ''/v1/mailboxes/'' @ mailboxId @ ''/attachments/'' @ attachmentId) True None ''Failed to delete attachment ''"

definition inviteMember :: "net \<Rightarrow> json \<Rightarrow> ('z, json) io" where
  "inviteMember N req =
     json_call N (cp_headers [(''Content-Type'', ''application/json'')]) ''POST'' (api_base N @ ''/v1/auth/organization-members'') True (Some (JsonBody req)) ''Invite member failed ''"

definition changeMemberRole :: "net \<Rightarrow> string \<Rightarrow> string \<Rightarrow> ('z, unit) io" where
  "changeMemberRole N targetUserId newRole =
     void_call N (cp_headers [(''Content-Type'', ''application/json'')]) ''PATCH'' (api_base N @ ''/v1/auth/change-member-role'') True (Some (JsonBody (JObj [(''target_user_id'', JStr targetUserId), (''new_role'', JStr newRole)]))) ''Change role failed ''"

definition terminateUser :: "net \<Rightarrow> string \<Rightarrow> string \<Rightarrow> ('z, unit) io" where
  "terminateUser N targetUserId reason =
     void_call N (cp_headers [(''Content-Type'', ''application/json'')]) ''DELETE'' (api_base N @ ''/v1/auth/terminate-user'') True (Some (JsonBody (JObj [(''target_user_id'', JStr targetUserId), (''reason'', JStr reason)]))) ''Terminate user failed ''"

definition enrollRecovery :: "net \<Rightarrow> string \<Rightarrow> ('z, json) io" where
  "enrollRecovery N recoveryAuthPk =
     json_call N (plain_headers [(''Content-Type'', ''application/json'')]) ''POST'' (api_base N @ ''/v1/auth/recovery-enroll'') True (Some (JsonBody (JObj [(''recovery_auth_pk'', JStr recoveryAuthPk)]))) ''Enroll failed ''"

definition getRecoveryChallenge :: "net \<Rightarrow> string \<Rightarrow> ('z, json) io" where
  "getRecoveryChallenge N email =
     json_call N (plain_headers [(''Content-Type'', ''application/json'')]) ''POST'' (api_base N @ ''/v1/auth/recovery-challenge'') False (Some (JsonBody (JObj [(''email'', JStr email)]))) ''Challenge failed ''"

definition verifyRecovery :: "net \<Rightarrow> string \<Rightarrow> string \<Rightarrow> ('z, json) io" where
  "verifyRecovery N challengeId signature =
     json_call N (plain_headers [(''Content-Type'', ''application/json'')]) ''POST'' (api_base N @ ''/v1/auth/recovery-verify'') True (Some (JsonBody (JObj [(''challenge_id'', JStr challengeId), (''signature'', JStr signature)]))) ''Recovery failed ''"

definition changePassword :: "net \<Rightarrow> string \<Rightarrow> ('z, unit) io" where
  "changePassword N newPassword =
     void_call N (plain_headers [(''Content-Type'', ''application/json'')]) ''POST'' (api_base N @ ''/v1/auth/change-password'') True (Some (JsonBody (JObj [(''new_password'', JStr newPassword)]))) ''Password change failed ''"

text \<open>Calls that return one property of the response.\<close>

definition prop_call :: "string \<Rightarrow> ('z, json) io \<Rightarrow> ('z, json option) io" where
  "prop_call k m = io_bind m (\<lambda>v. io_lift (access k v))"

definition getBridgeCredentials :: "net \<Rightarrow> string \<Rightarrow> ('z, json option) io" where
  "getBridgeCredentials N mailboxId =
     prop_call ''credentials'' (json_call N (plain_headers []) ''GET''
       (api_base N @ ''/v1/mailboxes/'' @ mailboxId @ ''/bridge/credentials'') True None ''Failed to fetch bridge credentials '')"

definition getAttachments :: "net \<Rightarrow> string \<Rightarrow> string option \<Rightarrow> ('z, json option) io" where
  "getAttachments N mailboxId messageId =
     prop_call ''attachments'' (json_call N (plain_headers []) ''GET''
       (api_base N @ ''/v1/mailboxes/'' @ mailboxId @ ''/attachments'' @
          (case messageId of Some m \<Rightarrow> if m = [] then [] else ''?message_id='' @ encodeURIComponent m | None \<Rightarrow> []))
       True None ''Failed to fetch attachments '')"

definition getMembers :: "net \<Rightarrow> ('z, json option) io" where
  "getMembers N =
     prop_call ''members'' (json_call N (cp_headers []) ''GET'' (api_base N @ ''/v1/auth/organization-members'') True None
       ''List members failed '')"

section \<open>Request functions of mailboxes.ts, storage.ts, domains.ts and principals.ts\<close>

definition org_headers :: "net \<Rightarrow> store \<Rightarrow> (string \<times> string) list" where
  "org_headers N local = [(''Content-Type'', ''application/json'')] @ getCpHeaders local [] @ getAuthHeader N"

definition mailbox_request :: "net \<Rightarrow> string \<Rightarrow> string \<Rightarrow> body option \<Rightarrow> ('z, json) io" where
  "mailbox_request N path meth bdy =
     cp_call N (org_headers N) meth (api_base N @ path) True bdy
       (\<lambda>st ct t. if \<not> resp_ok st then Inl (status_error ''Request failed '' st t)
                  else if str_includes (case ct of Some c \<Rightarrow> c | None \<Rightarrow> []) ''application/json'' then resp_json t
                  else Inr (JObj []))"

definition storage_base :: "net \<Rightarrow> string" where
  "storage_base N = or_else (api_base N) ''http://127.0.0.1:8080''"

definition storage_request :: "net \<Rightarrow> string \<Rightarrow> string \<Rightarrow> body option \<Rightarrow> ('z, json) io" where
  "storage_request N path meth bdy =
     cp_call N (org_headers N) meth (storage_base N @ path) True bdy
       (\<lambda>st ct t. if \<not> resp_ok st then throw_msg (or_else (text_or_empty t) (''Request failed '' @ num_string st))
                  else resp_json t)"

definition domain_request :: "net \<Rightarrow> string \<Rightarrow> string \<Rightarrow> body option \<Rightarrow> ('z, json) io" where
  "domain_request N path meth bdy = json_call N (org_headers N) meth (api_base N @ path) True bdy ''Request failed ''"

definition principal_request :: "net \<Rightarrow> string \<Rightarrow> string \<Rightarrow> body option \<Rightarrow> ('z, json option) io" where
  "principal_request N path meth bdy =
     cp_call N (plain_headers [(''Content-Type'', ''application/json'')]) meth (api_base N @ path) True bdy
       (\<lambda>st ct t. if \<not> resp_ok st then Inl (status_error ''Request failed '' st t)
                  else if st = 204 then Inr None else bind_err (resp_json t) (\<lambda>v. Inr (Some v)))"

definition listMailboxes :: "net \<Rightarrow> string \<Rightarrow> ('z, json list) io" where
  "listMailboxes N orgId =
     io_bind (mailbox_request N (''/v1/organizations/'' @ orgId @ ''/mailboxes'') ''GET'' None)
       (\<lambda>res. io_lift (list_prop ''mailboxes'' (Some res)))"

definition getMailbox :: "net \<Rightarrow> string \<Rightarrow> ('z, json) io" where
  "getMailbox N mailboxId =
     mailbox_request N (''/v1/mailboxes/'' @ mailboxId) ''GET'' None"

definition deleteMailbox :: "net \<Rightarrow> string \<Rightarrow> string \<Rightarrow> ('z, json) io" where
  "deleteMailbox N orgId mailboxId =
     mailbox_request N (''/v1/organizations/'' @ orgId @ ''/mailboxes/'' @ mailboxId) ''DELETE'' None"

definition impersonateMailbox :: "net \<Rightarrow> string \<Rightarrow> string \<Rightarrow> ('z, json) io" where
  "impersonateMailbox N orgId mailboxId =
     mailbox_request N (''/v1/organizations/'' @ orgId @ ''/mailboxes/'' @ mailboxId @ ''/impersonate'') ''POST'' None"

definition rotateRoot :: "net \<Rightarrow> string \<Rightarrow> string \<Rightarrow> string option \<Rightarrow> ('z, json) io" where
  "rotateRoot N orgId mailboxId rootSecretWrappedHex =
     mailbox_request N (''/v1/organizations/'' @ orgId @ ''/mailboxes/'' @ mailboxId @ ''/rotate-root'') ''POST'' (Some (JsonBody (JObj (opt_prop ''root_secret_wrapped'' rootSecretWrappedHex))))"

definition createAlias :: "net \<Rightarrow> string \<Rightarrow> string \<Rightarrow> string option \<Rightarrow> ('z, json) io" where
  "createAlias N mailboxId localPartOrFullAlias domainId =
     mailbox_request N (''/v1/mailboxes/'' @ mailboxId @ ''/aliases'') ''POST'' (Some (JsonBody (JObj (case opt_prop ''domain_id'' domainId of [] \<Rightarrow> [(''alias'', JStr localPartOrFullAlias)]
         | d \<Rightarrow> (''local_part'', JStr localPartOrFullAlias) # d))))"

definition deleteAlias :: "net \<Rightarrow> string \<Rightarrow> string \<Rightarrow> ('z, json) io" where
  "deleteAlias N mailboxId aliasId =
     mailbox_request N (''/v1/mailboxes/'' @ mailboxId @ ''/aliases/'' @ aliasId) ''DELETE'' None"

definition listAliases :: "net \<Rightarrow> string \<Rightarrow> ('z, json list) io" where
  "listAliases N mailboxId =
     io_bind (mailbox_request N (''/v1/mailboxes/'' @ mailboxId @ ''/aliases'') ''GET'' None)
       (\<lambda>res. io_lift (list_prop ''aliases'' (Some res)))"

definition listOrgAliases :: "net \<Rightarrow> string \<Rightarrow> ('z, json list) io" where
  "listOrgAliases N orgId =
     io_bind (mailbox_request N (''/v1/organizations/'' @ orgId @ ''/aliases'') ''GET'' None)
       (\<lambda>res. io_lift (list_prop ''aliases'' (Some res)))"

definition getStorageConnection :: "net \<Rightarrow> string \<Rightarrow> ('z, json) io" where
  "getStorageConnection N orgId =
     storage_request N (''/v1/organizations/'' @ orgId @ ''/storage/connection'') ''GET'' None"

definition createStorageConnection :: "net \<Rightarrow> string \<Rightarrow> json \<Rightarrow> ('z, json) io" where
  "createStorageConnection N orgId payload =
     storage_request N (''/v1/organizations/'' @ orgId @ ''/storage/connection'') ''POST'' (Some (JsonBody payload))"

definition updateStorageConnection :: "net \<Rightarrow> string \<Rightarrow> json \<Rightarrow> ('z, json) io" where
  "updateStorageConnection N orgId payload =
     storage_request N (''/v1/organizations/'' @ orgId @ ''/storage/connection'') ''PUT'' (Some (JsonBody payload))"

definition authorizeGoogleDrive :: "net \<Rightarrow> string \<Rightarrow> ('z, json) io" where
  "authorizeGoogleDrive N orgId =
     storage_request N (''/v1/organizations/'' @ orgId @ ''/storage/google-drive/authorize'') ''GET'' None"

definition getStorageMigrationStatus :: "net \<Rightarrow> string \<Rightarrow> string \<Rightarrow> ('z, json) io" where
  "getStorageMigrationStatus N orgId migrationId =
     storage_request N (''/v1/organizations/'' @ orgId @ ''/storage/migration/'' @ migrationId) ''GET'' None"

definition retryStorageMigration :: "net \<Rightarrow> string \<Rightarrow> string \<Rightarrow> ('z, json) io" where
  "retryStorageMigration N orgId migrationId =
     storage_request N (''/v1/organizations/'' @ orgId @ ''/storage/migration/'' @ migrationId @ ''/retry'') ''POST'' (Some (JsonBody (JObj [])))"

definition createDomain :: "net \<Rightarrow> string \<Rightarrow> string \<Rightarrow> ('z, json) io" where
  "createDomain N orgId domainName =
     domain_request N (''/v1/organizations/'' @ orgId @ ''/domains'') ''POST'' (Some (JsonBody (JObj [(''domain'', JStr domainName)])))"

definition verifyDomain :: "net \<Rightarrow> string \<Rightarrow> string \<Rightarrow> ('z, json) io" where
  "verifyDomain N orgId domainId =
     domain_request N (''/v1/organizations/'' @ orgId @ ''/domains/'' @ domainId @ ''/verify'') ''POST'' None"

definition enrollPrincipal :: "net \<Rightarrow> string \<Rightarrow> json \<Rightarrow> ('z, json option) io" where
  "enrollPrincipal N orgId payload =
     principal_request N (''/v1/organizations/'' @ orgId @ ''/recovery-principals'') ''POST'' (Some (JsonBody payload))"

definition listPrincipals :: "net \<Rightarrow> string \<Rightarrow> ('z, json list) io" where
  "listPrincipals N orgId =
     io_bind (principal_request N (''/v1/organizations/'' @ orgId @ ''/recovery-principals'') ''GET'' None)
       (\<lambda>res. io_lift (list_prop ''principals'' res))"

definition getPrincipal :: "net \<Rightarrow> string \<Rightarrow> string \<Rightarrow> ('z, json option) io" where
  "getPrincipal N orgId principalId =
     principal_request N (''/v1/organizations/'' @ orgId @ ''/recovery-principals/'' @ principalId) ''GET'' None"

definition revokePrincipal :: "net \<Rightarrow> string \<Rightarrow> string \<Rightarrow> ('z, json option) io" where
  "revokePrincipal N orgId principalId =
     principal_request N (''/v1/organizations/'' @ orgId @ ''/recovery-principals/'' @ principalId @ ''/revoke'') ''POST'' (Some (JsonBody (JObj [])))"

text \<open>The normal form of a domain; a property that is \<open>undefined\<close> is \<open>None\<close>.\<close>

record domain =
  dom_id :: "json option"
  dom_name :: "json option"
  dom_is_verified :: json
  dom_verified :: json
  verification_token :: "json option"
  dkim_selector :: "json option"
  dkim_public_key :: "json option"
  dns_records :: "json option"

text \<open>\<open>a ?? b\<close>\<close>

definition nullish :: "json option \<Rightarrow> json \<Rightarrow> json" where
  "nullish v d = (case v of None \<Rightarrow> d | Some JNull \<Rightarrow> d | Some x \<Rightarrow> x)"

definition normalize_domain :: "json \<Rightarrow> domain" where
  "normalize_domain d =
     (let verified = nullish (jprop ''is_verified'' d) (nullish (jprop ''verified'' d) (JBool False))
      in \<lparr>dom_id = jprop ''id'' d, dom_name = jprop ''name'' d, dom_is_verified = verified, dom_verified = verified,
          verification_token = jprop ''verification_token'' d, dkim_selector = jprop ''dkim_selector'' d,
          dkim_public_key = jprop ''dkim_public_key'' d, dns_records = jprop ''dns_records'' d\<rparr>)"

definition listDomains :: "net \<Rightarrow> string \<Rightarrow> ('z, domain list) io" where
  "listDomains N orgId =
     io_bind (domain_request N (''/v1/organizations/'' @ orgId @ ''/domains'') ''GET'' None)
       (\<lambda>body. io_lift (bind_err (list_prop ''domains'' (Some body)) (\<lambda>ds.
          if JNull \<in> set ds then throw_msg ''TypeError'' else Inr (map normalize_domain ds))))"

text \<open>The two storage calls that build their own headers. The result of a test is the parsed body; the time
  stamp of the fallback result is an argument.\<close>

definition testStorageConnection :: "net \<Rightarrow> string \<Rightarrow> string \<Rightarrow> ('z, json) io" where
  "testStorageConnection N nowIso orgId =
     cp_call N (\<lambda>_. [(''Content-Type'', ''application/json'')] @ getAuthHeader N) ''POST''
       (storage_base N @ ''/v1/organizations/'' @ orgId @ ''/storage/connection/test'') True None
       (\<lambda>st ct t.
          let parsed = (let body = text_or_empty t in if body = [] then None else json_parse body);
              code = (case parsed of Some v \<Rightarrow> jprop ''code'' v | None \<Rightarrow> None);
              msg = (case parsed of Some v \<Rightarrow> jprop ''message'' v | None \<Rightarrow> None)
          in if resp_ok st then
               (if truthy parsed \<and> truthy code then Inr (the parsed)
                else Inr (JObj [(''status'', JStr ''ok''), (''code'', JStr ''verified''), (''last_checked'', JStr nowIso)]))
             else if st = 409 \<and> code = Some (JStr ''configuration_changed'') then
               Inl (JsError (if truthy msg then to_text (the msg)
                             else ''Storage configuration changed while the test was running. Please test again.'') (Some 409))
             else if st = 403 then throw_msg (''You don'' @ [CHR 0x27] @ ''t have permission to test this storage connection.'')
             else if st = 404 then throw_msg ''No storage connection found.''
             else throw_msg (if truthy msg then to_text (the msg) else if truthy code then to_text (the code)
                             else ''Request failed '' @ num_string st))"

definition deleteStorageConnection :: "net \<Rightarrow> string \<Rightarrow> ('z, unit) io" where
  "deleteStorageConnection N orgId =
     cp_call N (\<lambda>_. [(''Content-Type'', ''application/json'')] @ getAuthHeader N) ''DELETE''
       (storage_base N @ ''/v1/organizations/'' @ orgId @ ''/storage/connection'') True None
       (\<lambda>st ct t.
          if resp_ok st then Inr ()
          else if st = 404 then throw_msg ''No active storage connection for this organization''
          else if st = 403 then throw_msg (''You don'' @ [CHR 0x27] @ ''t have permission to disconnect storage'')
          else throw_msg (or_else (text_or_empty t) (''Request failed '' @ num_string st)))"

section \<open>Mailbox cryptography: mailboxes.ts\<close>

text \<open>\<open>Array.from(atob(b64), \<dots>)\<close>: base64 to hexadecimal.\<close>

definition b64_to_hex :: "string \<Rightarrow> js_error + string" where
  "b64_to_hex b64 = bind_err (atob b64) (\<lambda>bin. Inr (bytesToHex_cp (bytes_of_binary bin)))"

definition recoverMailboxSecret :: "net \<Rightarrow> wasm_core \<Rightarrow> string \<Rightarrow> string \<Rightarrow> string \<Rightarrow> ('z, string) io" where
  "recoverMailboxSecret N W orgId mailboxId recoverySkHex =
     io_bind (mailbox_request N (''/v1/organizations/'' @ orgId @ ''/mailboxes/'' @ mailboxId @ ''/recovery-material'') ''GET'' None)
     (\<lambda>material. io_bind (getMailbox N mailboxId) (\<lambda>mailbox.
      io_lift (
        bind_err (bind_err (access ''root_secret_wrapped'' material) string_arg) (\<lambda>wrappedRoot.
        bind_err (b64_to_hex wrappedRoot) (\<lambda>wrappedRootHex.
        bind_err (wasm_hpke_open W (trim recoverySkHex) wrappedRootHex []) (\<lambda>rootSecretHex.
        bind_err (access ''mailbox_sk_wrapped'' mailbox) (\<lambda>wrappedKey.
        if \<not> truthy wrappedKey then throw_msg ''mailbox wrapped key unavailable''
        else bind_err (bind_err (string_arg wrappedKey) b64_to_hex) (\<lambda>wrappedKeyHex.
             wasm_unwrap_mailbox_key W rootSecretHex wrappedKeyHex (filter (\<lambda>c. c \<noteq> CHR ''-'') mailboxId)))))))))"

text \<open>The organization's public recovery key, with or without the length check.\<close>

definition org_recovery_pk :: "json \<Rightarrow> js_error + string" where
  "org_recovery_pk orgData =
     bind_err (access ''org_recovery_pk'' orgData) (\<lambda>pk.
       if \<not> truthy pk then throw_msg ''organization recovery key not available''
       else bind_err (string_arg pk) (\<lambda>b64.
            if length b64 < 10 then throw_msg ''organization recovery key not available'' else b64_to_hex b64))"

definition checked_org_pk :: "json \<Rightarrow> js_error + string" where
  "checked_org_pk orgData =
     bind_err (org_recovery_pk orgData) (\<lambda>hex. if length hex \<noteq> 64 then throw_msg ''invalid org recovery pk'' else Inr hex)"

definition fetchOrgRecoveryPkHex :: "net \<Rightarrow> string \<Rightarrow> ('z, string) io" where
  "fetchOrgRecoveryPkHex N orgId =
     io_bind (mailbox_request N (''/v1/organizations/'' @ orgId) ''GET'' None) (\<lambda>orgData. io_lift (checked_org_pk orgData))"

text \<open>The randomness of a new mailbox: its identifier, the entropy, and what the core draws.\<close>

record mailbox_random =
  rnd_uuid :: string
  rnd_entropy :: "byte list"
  rnd_kp :: "byte list"
  rnd_hpke :: "byte list"
  rnd_wrap_key :: "byte list"
  rnd_token :: "byte list"

definition new_keypair :: "wasm_core \<Rightarrow> byte list \<Rightarrow> js_error + json" where
  "new_keypair W rnd = bind_err (wasm_generate_keypair W rnd) js_parse"

text \<open>A property of an object literal whose value may be \<open>undefined\<close>.\<close>

definition maybe :: "string \<Rightarrow> json option \<Rightarrow> (string \<times> json) list" where
  "maybe k v = (case v of Some x \<Rightarrow> [(k, x)] | None \<Rightarrow> [])"

definition createMailbox ::
  "net \<Rightarrow> wasm_core \<Rightarrow> mailbox_random \<Rightarrow> string \<Rightarrow> string \<Rightarrow> string \<Rightarrow> bool \<Rightarrow> ('z, json) io" where
  "createMailbox N W rnd orgId localPart domainId orgManaged =
     (let mailboxId = rnd_uuid rnd; mailboxIdHex = filter (\<lambda>c. c \<noteq> CHR ''-'') mailboxId
      in io_bind (io_lift (wasm_derive_root_secret W (bytesToHex_cp (rnd_entropy rnd)))) (\<lambda>rootSecretHex.
         io_bind (io_lift (new_keypair W (rnd_kp rnd))) (\<lambda>kp.
         io_bind (io_lift (access ''public_key'' kp)) (\<lambda>mailboxPk.
         if orgManaged then
           io_bind (mailbox_request N (''/v1/organizations/'' @ orgId) ''GET'' None) (\<lambda>orgData.
           io_bind (io_lift (checked_org_pk orgData)) (\<lambda>orgPkHex.
           io_bind (io_lift (wasm_hpke_seal W (rnd_hpke rnd) orgPkHex rootSecretHex [])) (\<lambda>rootWrapped.
           io_bind (io_lift (bind_err (string_arg (jprop ''secret_key'' kp)) (\<lambda>sk.
                       wasm_wrap_mailbox_key W (rnd_wrap_key rnd) rootSecretHex sk mailboxIdHex))) (\<lambda>skWrapped.
           mailbox_request N (''/v1/organizations/'' @ orgId @ ''/mailboxes'') ''POST'' (Some (JsonBody (JObj (
             [(''id'', JStr mailboxId), (''local_part'', JStr localPart), (''domain_id'', JStr domainId),
              (''mode'', JStr ''org_managed''), (''root_secret_wrapped'', JStr rootWrapped),
              (''mailbox_sk_wrapped'', JStr skWrapped)] @ maybe ''mailbox_pk'' mailboxPk))))))))
         else
           io_bind (io_lift (bind_err (string_arg (jprop ''secret_key'' kp)) (\<lambda>sk.
                       wasm_wrap_mailbox_key W (rnd_wrap_key rnd) rootSecretHex sk mailboxIdHex))) (\<lambda>skWrapped.
           mailbox_request N (''/v1/organizations/'' @ orgId @ ''/mailboxes'') ''POST'' (Some (JsonBody (JObj (
             [(''id'', JStr mailboxId), (''local_part'', JStr localPart), (''domain_id'', JStr domainId),
              (''mode'', JStr ''private''), (''mailbox_sk_wrapped'', JStr skWrapped)] @ maybe ''mailbox_pk'' mailboxPk)))))))))"

record invite_request =
  inv_address :: string
  inv_name :: "string option"
  inv_privacy_mode :: string

definition invite_name :: "invite_request \<Rightarrow> string" where
  "invite_name req =
     or_else (case inv_name req of Some n \<Rightarrow> n | None \<Rightarrow> []) (hd (split_char (CHR ''@'') (inv_address req)))"

definition inviteMailbox :: "net \<Rightarrow> wasm_core \<Rightarrow> mailbox_random \<Rightarrow> string \<Rightarrow> invite_request \<Rightarrow> ('z, json) io" where
  "inviteMailbox N W rnd orgId req =
     (if inv_privacy_mode req = ''organization_managed'' \<or> inv_privacy_mode req = ''org_managed'' then
        io_bind (io_lift (new_keypair W (rnd_kp rnd))) (\<lambda>kp.
        io_bind (mailbox_request N (''/v1/organizations/'' @ orgId) ''GET'' None) (\<lambda>orgData.
        io_bind (io_lift (org_recovery_pk orgData)) (\<lambda>orgPkHex.
        io_bind (io_lift (bind_err (access ''secret_key'' kp) string_arg)) (\<lambda>sk.
        io_bind (io_lift (wasm_hpke_seal W (rnd_hpke rnd) orgPkHex sk [])) (\<lambda>wrappedSkOrg.
        let tokenHex = bytesToHex_cp (rnd_token rnd)
        in io_bind (io_lift (wasm_aes_gcm_encrypt W (rnd_wrap_key rnd) tokenHex sk [])) (\<lambda>tempWrapped.
           mailbox_request N (''/v1/organizations/'' @ orgId @ ''/mailboxes/invite'') ''POST'' (Some (JsonBody (JObj (
             [(''address'', JStr (inv_address req)), (''name'', JStr (invite_name req)),
              (''privacy_mode'', JStr ''organization_managed''), (''token'', JStr tokenHex)]
             @ maybe ''mailbox_pk'' (jprop ''public_key'' kp)
             @ [(''wrapped_sk_org'', JStr wrappedSkOrg), (''temp_wrapped_sk'', JStr tempWrapped)]))))))))))
      else
        mailbox_request N (''/v1/organizations/'' @ orgId @ ''/mailboxes/invite'') ''POST'' (Some (JsonBody (JObj
          [(''address'', JStr (inv_address req)), (''name'', JStr (invite_name req)), (''privacy_mode'', JStr ''private'')]))))"

section \<open>The support application\<close>

definition getAdminToken :: "store \<Rightarrow> string" where
  "getAdminToken local =
     or_else (case getItem local ''byos_support_admin_token'' of Some t \<Rightarrow> t | None \<Rightarrow> []) ''mock-support-agent''"

definition adminFetch :: "net \<Rightarrow> string \<Rightarrow> string \<Rightarrow> body option \<Rightarrow> ('z, json) io" where
  "adminFetch N endpoint meth bdy =
     cp_call N (\<lambda>local. bearer (getAdminToken local) @
                  (if bdy = None then [] else [(''Content-Type'', ''application/json'')])) meth endpoint False bdy
       (\<lambda>st ct t. if \<not> resp_ok st
                  then throw_msg (or_else (text_or_empty t) (''Request failed: HTTP '' @ num_string st))
                  else resp_json t)"

text \<open>\<open>{...v, k: x}\<close>: an object of the client, properties may be \<open>undefined\<close>; a spread of another value than
  an object adds nothing.\<close>

definition spread :: "json \<Rightarrow> (string \<times> json option) list" where
  "spread v = (case v of JObj ms \<Rightarrow> map (\<lambda>(k, x). (k, Some x)) ms | _ \<Rightarrow> [])"

definition with_prop :: "string \<Rightarrow> json option \<Rightarrow> (string \<times> json option) list \<Rightarrow> (string \<times> json option) list" where
  "with_prop k v ms = (if k \<in> fst ` set ms then map (\<lambda>(j, x). (j, if j = k then v else x)) ms else ms @ [(k, v)])"

definition or_value :: "json option \<Rightarrow> json option \<Rightarrow> json option" where
  "or_value a b = (if truthy a then a else b)"

definition crm_organization :: "json \<Rightarrow> (string \<times> json option) list" where
  "crm_organization org =
     with_prop ''storage_total_bytes'' (jprop ''storage_quota'' org)
     (with_prop ''storage_used_bytes'' (jprop ''storage_used'' org)
     (with_prop ''seat_count'' (or_value (jprop ''seat_count'' org) (Some (JNum 10)))
     (with_prop ''plan_tier'' (jprop ''plan'' org)
     (with_prop ''org_uuid'' (jprop ''id'' org) (spread org)))))"

definition map_array :: "(json \<Rightarrow> 'a) \<Rightarrow> json \<Rightarrow> js_error + 'a list" where
  "map_array f v = (case v of JArr vs \<Rightarrow> if JNull \<in> set vs then throw_msg ''TypeError'' else Inr (map f vs)
                    | _ \<Rightarrow> throw_msg ''TypeError'')"

definition getOrganizations :: "net \<Rightarrow> ('z, (string \<times> json option) list list) io" where
  "getOrganizations N =
     io_bind (adminFetch N ''/admin/v1/organizations'' ''GET'' None) (\<lambda>raw. io_lift (map_array crm_organization raw))"

definition crm_reason :: "string option \<Rightarrow> string \<Rightarrow> string" where
  "crm_reason reason fallback = or_else (case reason of Some r \<Rightarrow> r | None \<Rightarrow> []) fallback"

definition suspendOrganization :: "net \<Rightarrow> string \<Rightarrow> string \<Rightarrow> string option \<Rightarrow> ('z, json) io" where
  "suspendOrganization N uuid status reason =
     adminFetch N (''/admin/v1/organizations/'' @ uuid @ ''/suspend'') ''POST'' (Some (JsonBody (JObj
       [(''status'', JStr status),
        (''reason'', JStr (crm_reason reason (''Admin intervention status set to '' @ status)))])))"

definition updatePlan_crm :: "net \<Rightarrow> string \<Rightarrow> string \<Rightarrow> string option \<Rightarrow> ('z, json) io" where
  "updatePlan_crm N uuid tier reason =
     adminFetch N (''/admin/v1/organizations/'' @ uuid @ ''/plan'') ''POST'' (Some (JsonBody (JObj
       [(''plan'', JStr tier), (''reason'', JStr (crm_reason reason (''Admin plan adjustment to '' @ tier)))])))"

definition updateCapacity_crm :: "net \<Rightarrow> string \<Rightarrow> int \<Rightarrow> string option \<Rightarrow> ('z, json) io" where
  "updateCapacity_crm N uuid seatCount reason =
     adminFetch N (''/admin/v1/organizations/'' @ uuid @ ''/capacity'') ''POST'' (Some (JsonBody (JObj
       [(''seat_count'', JNum seatCount),
        (''reason'', JStr (crm_reason reason (''Admin capacity adjustment to '' @ int_text seatCount @ '' mailboxes'')))])))"

definition triggerStateReset :: "net \<Rightarrow> string \<Rightarrow> string option \<Rightarrow> ('z, json) io" where
  "triggerStateReset N uuid reason =
     adminFetch N (''/admin/v1/organizations/'' @ uuid @ ''/state-reset'') ''POST'' (Some (JsonBody (JObj
       [(''reason'', JStr (crm_reason reason ''Admin triggered zero-knowledge offline verifier recovery flow''))])))"

definition crm_audit_entry :: "json \<Rightarrow> (string \<times> json option) list" where
  "crm_audit_entry e =
     with_prop ''action'' (or_value (jprop ''action'' e) (or_value (jprop ''action_type'' e) (Some (JStr ''UNKNOWN''))))
     (with_prop ''admin_uuid'' (or_value (jprop ''admin_uuid'' e) (or_value (jprop ''actor_uuid'' e) (Some (JStr ''admin_system''))))
       (spread e))"

definition getAuditLogs :: "net \<Rightarrow> ('z, (string \<times> json option) list list) io" where
  "getAuditLogs N =
     io_bind (adminFetch N ''/admin/v1/audit-logs'' ''GET'' None) (\<lambda>raw. io_lift (map_array crm_audit_entry raw))"

definition getMailboxHealth :: "net \<Rightarrow> string \<Rightarrow> ('z, json) io" where
  "getMailboxHealth N uuid = adminFetch N (''/admin/v1/mailboxes/'' @ uuid @ ''/health'') ''GET'' None"

definition executeIntervention :: "net \<Rightarrow> string \<Rightarrow> string \<Rightarrow> string option \<Rightarrow> ('z, json) io" where
  "executeIntervention N action targetMailboxUuid reason =
     adminFetch N ''/admin/v1/interventions/execute'' ''POST'' (Some (JsonBody (JObj
       [(''action'', JStr action), (''target_mailbox_uuid'', JStr targetMailboxUuid),
        (''reason'', JStr (crm_reason reason (''Intervention '' @ action @ '' dispatched'')))])))"

section \<open>Lemmas\<close>

text \<open>HPKE of the core, for one key pair and empty associated data.\<close>

definition hpke_correct :: "wasm_core \<Rightarrow> byte list \<Rightarrow> byte list \<Rightarrow> bool" where
  "hpke_correct W sk pk \<longleftrightarrow>
     (\<forall>rnd p. \<exists>e. wasm_hpke_seal W rnd (bytesToHex pk) (bytesToHex p) [] = Inr (bytesToHex e)
        \<and> wasm_hpke_open W (bytesToHex sk) (bytesToHex e) [] = Inr (bytesToHex p))"

definition json_response :: "json \<Rightarrow> response" where
  "json_response v = Resp 200 (Some ''application/json'') (Some (utf8_encode (stringify v)))"

lemma cp_call_eq:
  "cp_call N hdr meth url creds bdy k w =
     (case server N (sent w) (cp_request hdr meth url creds bdy (localStorage w)) of
        NetFail m \<Rightarrow> throw_msg m | Resp st ct t \<Rightarrow> k st ct t,
      w\<lparr>sent := sent w @ [cp_request hdr meth url creds bdy (localStorage w)]\<rparr>)"
  by (simp add: cp_call_def do_fetch_def Let_def)

lemma resp_json_stringify: "wf_json v \<Longrightarrow> resp_json (Some (utf8_encode (stringify v))) = Inr v"
  by (simp add: resp_json_def utf8_decode_encode js_parse_def json_roundtrip)

lemma includes_self: "str_includes s s"
  using str_includes_iff [of s s] by (metis append_Nil append_Nil2)

text \<open>Every call sends its one request and keeps everything else.\<close>

lemma cp_call_sends: "sends (cp_call N hdr meth url creds bdy k) w [cp_request hdr meth url creds bdy (localStorage w)]"
  by (simp add: sends_def cp_call_eq)

lemma io_keeps_cp_call [io_frame]:
  "(\<And>w rs. f (w\<lparr>sent := rs\<rparr>) = f w) \<Longrightarrow> io_keeps f (cp_call N hdr meth url creds bdy k)"
  "(\<And>w rs. f (w\<lparr>sent := rs\<rparr>) = f w) \<Longrightarrow> io_keeps f (json_call N hdr meth url creds bdy fallback)"
  "(\<And>w rs. f (w\<lparr>sent := rs\<rparr>) = f w) \<Longrightarrow> io_keeps f (void_call N hdr meth url creds bdy fallback)"
  by (simp_all add: io_keeps_def cp_call_eq json_call_def void_call_def)

lemma io_sends_cp_call [io_request]:
  "(\<And>local. P (cp_request hdr meth url creds bdy local)) \<Longrightarrow> io_sends P (cp_call N hdr meth url creds bdy k)"
  "(\<And>local. P (cp_request hdr meth url creds bdy local)) \<Longrightarrow> io_sends P (json_call N hdr meth url creds bdy fallback)"
  "(\<And>local. P (cp_request hdr meth url creds bdy local)) \<Longrightarrow> io_sends P (void_call N hdr meth url creds bdy fallback)"
  by (simp_all add: io_sends_def cp_call_eq json_call_def void_call_def)

text \<open>A server that answers a request by its method and URL.\<close>

definition answers_at :: "net \<Rightarrow> string \<Rightarrow> string \<Rightarrow> json \<Rightarrow> bool" where
  "answers_at N meth path v \<longleftrightarrow>
     (\<forall>rs q. req_method q = meth \<longrightarrow> req_url q = api_base N @ path \<longrightarrow> server N rs q = json_response v)"

lemma mailbox_request_json:
  assumes "answers_at N meth path v" "wf_json v"
  shows "mailbox_request N path meth bdy w =
    (Inr v, w\<lparr>sent := sent w @ [cp_request (org_headers N) meth (api_base N @ path) True bdy (localStorage w)]\<rparr>)"
  using assms includes_self [of "''application/json''"]
  by (simp add: answers_at_def cp_request_def mailbox_request_def cp_call_eq json_response_def resp_ok_def
      resp_json_stringify del: stringify.simps)

lemma json_call_answers:
  assumes "answers_at N meth path v" "wf_json v"
  shows "json_call N hdr meth (api_base N @ path) creds bdy fallback w =
    (Inr v, w\<lparr>sent := sent w @ [cp_request hdr meth (api_base N @ path) creds bdy (localStorage w)]\<rparr>)"
  using assms
  by (simp add: answers_at_def cp_request_def json_call_def cp_call_eq json_response_def resp_ok_def
      resp_json_stringify del: stringify.simps)

lemma length_b64_encode: "length (b64_encode xs) = 4 * ((length xs + 2) div 3)"
proof -
  have "(5 + n) div 3 = Suc (Suc (Suc n) div 3)" for n :: nat by presburger
  then show ?thesis by (induction xs rule: b64_encode.induct) auto
qed

lemma length_bytesToBase64: "length (bytesToBase64 bs) = 4 * ((length bs + 2) div 3)"
  by (simp add: bytesToBase64_eq btoa_def length_b64_encode binary_of_bytes_def)

lemma b64_to_hex_bytes: "b64_to_hex (bytesToBase64 bs) = Inr (bytesToHex bs)"
  by (simp add: b64_to_hex_def bytesToBase64_eq b64.decode_encode bytesToHex_cp_eq)

lemma b64_not_Nil: "bs \<noteq> [] \<Longrightarrow> bytesToBase64 bs \<noteq> []"
  using length_bytesToBase64 [of bs] by (cases bs) auto

lemma checked_org_pk_ok:
  assumes "length pk = 32"
  shows "checked_org_pk (JObj [(''org_recovery_pk'', JStr (bytesToBase64 pk))]) = Inr (bytesToHex pk)"
proof -
  have "bytesToBase64 pk \<noteq> []" using assms by (intro b64_not_Nil) auto
  with assms show ?thesis
    by (auto simp: checked_org_pk_def org_recovery_pk_def access_def jprop_def truthy_def string_arg_def
        length_bytesToBase64 b64_to_hex_bytes)
qed

lemma new_keypair_ok:
  "wasm_generate_keypair W rnd = Inr (stringify (JObj [(''secret_key'', JStr sk), (''public_key'', JStr pk)])) \<Longrightarrow>
   new_keypair W rnd = Inr (JObj [(''secret_key'', JStr sk), (''public_key'', JStr pk)])"
  using json_roundtrip [of "JObj [(''secret_key'', JStr sk), (''public_key'', JStr pk)]"]
  by (simp add: new_keypair_def js_parse_def del: stringify.simps)

lemma recoverMailboxSecret_ok:
  assumes "wasm_hpke_open W (bytesToHex osk) (bytesToHex r) [] = Inr rootHex"
    and "wasm_unwrap_mailbox_key W rootHex (bytesToHex s) (filter (\<lambda>c. c \<noteq> CHR ''-'') mailboxId) = Inr skHex"
    and "s \<noteq> []"
    and "answers_at N ''GET'' (''/v1/organizations/'' @ orgId @ ''/mailboxes/'' @ mailboxId @ ''/recovery-material'')
        (JObj [(''root_secret_wrapped'', JStr (bytesToBase64 r))])"
    and "answers_at N ''GET'' (''/v1/mailboxes/'' @ mailboxId) (JObj [(''mailbox_sk_wrapped'', JStr (bytesToBase64 s))])"
  shows "fst (recoverMailboxSecret N W orgId mailboxId (bytesToHex osk) w) = Inr skHex"
proof -
  have material: "wf_json (JObj [(''root_secret_wrapped'', JStr (bytesToBase64 r))])"
    and mailbox: "wf_json (JObj [(''mailbox_sk_wrapped'', JStr (bytesToBase64 s))])" by simp_all
  show ?thesis
    using assms(1,2) b64_not_Nil [OF assms(3)]
    unfolding recoverMailboxSecret_def getMailbox_def io_bind_def
      mailbox_request_json [OF assms(4) material] mailbox_request_json [OF assms(5) mailbox]
    by (simp add: access_def jprop_def string_arg_def b64_to_hex_bytes truthy_def)
qed

lemma io_bind_ok: "m w = (Inr a, w') \<Longrightarrow> io_bind m f w = f a w'"
  by (simp add: io_bind_def)

lemma sent_mailbox_request: "sent (snd (mailbox_request N path meth bdy w)) =
    sent w @ [cp_request (org_headers N) meth (api_base N @ path) True bdy (localStorage w)]"
  by (simp add: mailbox_request_def cp_call_eq)

text \<open>The concrete core with a working key generator and HPKE, for the witnesses.\<close>

definition toy_admin_core :: wasm_core where
  "toy_admin_core = toy_core
     \<lparr>wasm_generate_keypair := (\<lambda>rnd. Inr (stringify (JObj [(''secret_key'', JStr (bytesToHex (replicate 32 9))),
                                                          (''public_key'', JStr ''pk'')])))\<rparr>"

definition toy_mailbox_random :: mailbox_random where
  "toy_mailbox_random = \<lparr>rnd_uuid = ''000000000000000000000000000000ab'', rnd_entropy = [], rnd_kp = [], rnd_hpke = [],
     rnd_wrap_key = [], rnd_token = replicate 32 6\<rparr>"

definition toy_org :: net where
  "toy_org = \<lparr>api_base = [], page_origin = [], byos_user_id = [],
     server = (\<lambda>_ q. json_response (JObj [(''org_recovery_pk'', JStr (bytesToBase64 (replicate 32 2)))]))\<rparr>"

lemma toy_admin_laws:
  "mailbox_wrap_correct toy_admin_core" "aead_correct toy_admin_core" "hpke_correct toy_admin_core sk pk"
proof -
  show "mailbox_wrap_correct toy_admin_core" "aead_correct toy_admin_core"
    using toy_core_laws(1,4) by (simp_all add: mailbox_wrap_correct_def aead_correct_def toy_admin_core_def)
  show "hpke_correct toy_admin_core sk pk"
    using toy_seal_law [of "[]"] by (fastforce simp: hpke_correct_def toy_admin_core_def toy_core_def)
qed

section \<open>Properties\<close>

text \<open>An organization-managed mailbox is recoverable. The creation request carries only wrapped material;
  and when the server returns that material, the holder of the organization's recovery key obtains
  exactly the private key that was generated.\<close>

theorem org_mailbox_recoverable:
  assumes "mailbox_wrap_correct W" "hpke_correct W osk opk" "length opk = 32"
    and "wasm_derive_root_secret W (bytesToHex (rnd_entropy rnd)) = Inr (bytesToHex rootS)" "length rootS = 32"
    and "wasm_generate_keypair W (rnd_kp rnd) =
           Inr (stringify (JObj [(''secret_key'', JStr (bytesToHex sk)), (''public_key'', JStr pk)]))" "length sk = 32"
    and "filter (\<lambda>c. c \<noteq> CHR ''-'') (rnd_uuid rnd) = bytesToHex mid" "length mid = 16"
    and "answers_at N ''GET'' (''/v1/organizations/'' @ orgId) (JObj [(''org_recovery_pk'', JStr (bytesToBase64 opk))])"
  shows "\<exists>r s. req_body (last (sent (snd (createMailbox N W rnd orgId localPart domainId True w)))) =
       Some (JsonBody (JObj [(''id'', JStr (rnd_uuid rnd)), (''local_part'', JStr localPart), (''domain_id'', JStr domainId),
          (''mode'', JStr ''org_managed''), (''root_secret_wrapped'', JStr (bytesToHex r)),
          (''mailbox_sk_wrapped'', JStr (bytesToHex s)), (''mailbox_pk'', JStr pk)]))
     \<and> (\<forall>N' w' :: 'z world_scheme.
          answers_at N' ''GET'' (''/v1/organizations/'' @ orgId @ ''/mailboxes/'' @ rnd_uuid rnd @ ''/recovery-material'')
            (JObj [(''root_secret_wrapped'', JStr (bytesToBase64 r))]) \<longrightarrow>
          answers_at N' ''GET'' (''/v1/mailboxes/'' @ rnd_uuid rnd) (JObj [(''mailbox_sk_wrapped'', JStr (bytesToBase64 s))]) \<longrightarrow>
          fst (recoverMailboxSecret N' W orgId (rnd_uuid rnd) (bytesToHex osk) w') = Inr (bytesToHex sk))"
proof -
  obtain r where r: "wasm_hpke_seal W (rnd_hpke rnd) (bytesToHex opk) (bytesToHex rootS) [] = Inr (bytesToHex r)"
    "wasm_hpke_open W (bytesToHex osk) (bytesToHex r) [] = Inr (bytesToHex rootS)"
    using assms(2) unfolding hpke_correct_def by metis
  obtain s where s: "wasm_wrap_mailbox_key W (rnd_wrap_key rnd) (bytesToHex rootS) (bytesToHex sk) (bytesToHex mid) = Inr (bytesToHex s)"
    "wasm_unwrap_mailbox_key W (bytesToHex rootS) (bytesToHex s) (bytesToHex mid) = Inr (bytesToHex sk)" "s \<noteq> []"
    using assms(1,5,7,9) unfolding mailbox_wrap_correct_def by metis
  note kp = new_keypair_ok [OF assms(6)] and org = mailbox_request_json [OF assms(10)]
  have "req_body (last (sent (snd (createMailbox N W rnd orgId localPart domainId True w)))) =
       Some (JsonBody (JObj [(''id'', JStr (rnd_uuid rnd)), (''local_part'', JStr localPart), (''domain_id'', JStr domainId),
          (''mode'', JStr ''org_managed''), (''root_secret_wrapped'', JStr (bytesToHex r)),
          (''mailbox_sk_wrapped'', JStr (bytesToHex s)), (''mailbox_pk'', JStr pk)]))"
    unfolding createMailbox_def Let_def bytesToHex_cp_eq assms(4,8) kp
    using r s checked_org_pk_ok [OF assms(3)]
    by (simp add: access_def jprop_def io_bind_ok [OF org] string_arg_def maybe_def sent_mailbox_request cp_request_def
        del: append.simps)
  with recoverMailboxSecret_ok [OF r(2)] s(2,3) assms(8) show ?thesis by metis
qed

text \<open>The invitation of an organization-managed mailbox discloses its private key to the server: the request
  body holds both the activation token and the private key encrypted under that token, so whoever reads
  the request recovers the key with one decryption.\<close>

theorem invite_discloses_key:
  assumes "aead_correct W" "hpke_correct W osk opk" "length opk = 32" "length (rnd_token rnd) = 32"
    and "wasm_generate_keypair W (rnd_kp rnd) =
           Inr (stringify (JObj [(''secret_key'', JStr (bytesToHex sk)), (''public_key'', JStr pk)]))"
    and "inv_privacy_mode req = ''org_managed''"
    and "answers_at N ''GET'' (''/v1/organizations/'' @ orgId) (JObj [(''org_recovery_pk'', JStr (bytesToBase64 opk))])"
  shows "\<exists>v tokenHex temp. req_body (last (sent (snd (inviteMailbox N W rnd orgId req w)))) = Some (JsonBody v)
     \<and> jprop ''token'' v = Some (JStr tokenHex) \<and> jprop ''temp_wrapped_sk'' v = Some (JStr temp)
     \<and> wasm_aes_gcm_decrypt W tokenHex temp [] = Inr (bytesToHex sk)"
proof -
  obtain r where r: "wasm_hpke_seal W (rnd_hpke rnd) (bytesToHex opk) (bytesToHex sk) [] = Inr (bytesToHex r)"
    using assms(2) unfolding hpke_correct_def by metis
  from sealE [OF assms(1,4)] obtain e where
    e: "wasm_aes_gcm_encrypt W (rnd_wrap_key rnd) (bytesToHex (rnd_token rnd)) (bytesToHex sk) (bytesToHex []) = Inr (bytesToHex e)"
      "wasm_aes_gcm_decrypt W (bytesToHex (rnd_token rnd)) (bytesToHex e) (bytesToHex []) = Inr (bytesToHex sk)" .
  have pk: "org_recovery_pk (JObj [(''org_recovery_pk'', JStr (bytesToBase64 opk))]) = Inr (bytesToHex opk)"
    using checked_org_pk_ok [OF assms(3)] by (auto simp: checked_org_pk_def bind_err_Inr_iff split: if_splits)
  note kp = new_keypair_ok [OF assms(5)] and org = mailbox_request_json [OF assms(7)]
  show ?thesis
    unfolding inviteMailbox_def Let_def bytesToHex_cp_eq kp
    using assms(6) r e pk
    by (simp add: io_bind_ok [OF org] access_def jprop_def string_arg_def maybe_def sent_mailbox_request cp_request_def
        del: append.simps)
qed

text \<open>The session token of the control plane. A login whose response carries a token stores it, and every
  later request with control-plane headers presents it; logging out removes the token whatever the server
  answers, and the logout request itself carries no authorization because the token is removed first.\<close>

theorem cp_session_lifecycle:
  assumes "answers_at N ''POST'' ''/v1/auth/login'' (JObj [(''token'', JStr (c # t))])"
  shows "getItem (localStorage (snd (login_cp N email pw w))) ''byos_cp_session_token'' = Some (c # t)
    \<and> header ''Authorization'' (cp_request (cp_headers extra) meth url creds bdy (localStorage (snd (login_cp N email pw w))))
        = Some (''Bearer '' @ c # t)
    \<and> getItem (localStorage (snd (logout_cp N' w'))) ''byos_cp_session_token'' = None
    \<and> (\<exists>r. sent (snd (logout_cp N' w')) = sent w' @ [r] \<and> header ''Authorization'' r = None)"
proof -
  have wf: "wf_json (JObj [(''token'', JStr (c # t))])" by simp
  have store: "localStorage (snd (login_cp N email pw w)) = setItem ''byos_cp_session_token'' (c # t) (localStorage w)"
    unfolding login_cp_def io_bind_ok [OF json_call_answers [OF assms wf]]
    by (simp add: keep_token_def access_def jprop_def truthy_def to_text_def)
  then show ?thesis
    by (auto simp: header_def cp_request_def getCpHeaders_def bearer_def logout_cp_def void_call_def cp_call_eq)
qed

end
