(* ===== verification/Control_Session.thy ===== *)
theory Control_Session
  imports App_Login Control_Api Client_Crypto
begin

text \<open>
  Sessions of the control plane: the organization context
  (\<open>apps/control-plane/src/context/OrgContext.tsx\<close>), the guard in front of the dashboard
  (\<open>components/AuthGuard.tsx\<close>), the sign-in page (\<open>routes/login.tsx\<close>) and the registration page
  (\<open>routes/register.tsx\<close>).

  Each page extends the browser's state by its signals and by \<open>navigated\<close>, the address the page last sent
  the browser to. The address of the page is an argument (\<open>search\<close>, \<open>pathname\<close>); \<open>webmailBase\<close> is the build-time
  \<open>VITE_WEBMAIL_URL\<close> with its default.
\<close>

section \<open>Query strings\<close>

text \<open>\<open>new URLSearchParams(window.location.search).get(name)\<close>: pieces between \<open>&\<close>, empty ones dropped, split at the first
  \<open>=\<close>; in names and values a plus sign is a space, then percent-decoding and UTF-8.\<close>

fun percent_decode :: "string \<Rightarrow> byte list" where
  "percent_decode [] = []"
| "percent_decode (c # cs) =
     (case cs of
        a # b # rest \<Rightarrow>
          (case (hex_value a, hex_value b) of
             (Some i, Some j) \<Rightarrow> if c = CHR ''%'' then of_nat (16 * i + j) # percent_decode rest else utf8_char c @ percent_decode cs
           | _ \<Rightarrow> utf8_char c @ percent_decode cs)
      | _ \<Rightarrow> utf8_char c @ percent_decode cs)"

definition form_decode :: "string \<Rightarrow> string" where
  "form_decode s =
     concat (map point_units (utf8_points utf8_init (percent_decode (map (\<lambda>c. if c = CHR ''+'' then CHR '' '' else c) s))))"

definition url_params :: "string \<Rightarrow> (string \<times> string) list" where
  "url_params search =
     (let q = (if startsWith search ''?'' then tl search else search)
      in map (\<lambda>p. (form_decode (takeWhile (\<lambda>c. c \<noteq> CHR ''='') p), form_decode (tl (dropWhile (\<lambda>c. c \<noteq> CHR ''='') p))))
           (filter (\<lambda>p. p \<noteq> []) (split_char CHR ''&'' q)))"

abbreviation url_get :: "string \<Rightarrow> string \<Rightarrow> string option" where
  "url_get search k \<equiv> map_of (url_params search) k"

text \<open>\<open>URLSearchParams.toString()\<close>.\<close>

definition form_encode :: "string \<Rightarrow> string" where
  "form_encode s =
     concat (map (\<lambda>c. if is_digit c \<or> is_upper_ascii c \<or> is_lower_ascii c \<or> c \<in> set ''*-._'' then [c]
                      else if c = CHR '' '' then ''+'' else concat (map percent_byte (utf8_char c))) s)"

definition form_string :: "(string \<times> string) list \<Rightarrow> string" where
  "form_string ps = join ''&'' (map (\<lambda>(k, v). form_encode k @ ''='' @ form_encode v) ps)"

section \<open>The organization context\<close>

record nav_state = world +
  navigated :: "string option"

record user_profile =
  profile_id :: string
  profile_email :: string
  profile_displayName :: string

record org_state = nav_state +
  org_user :: "user_profile option"
  org_orgId :: string
  org_role :: "string option"
  org_plan :: string
  org_isLoading :: bool

definition profile_of :: "json \<Rightarrow> user_profile" where
  "profile_of data =
     (let userEmail = text_prop ''email'' data
      in \<lparr>profile_id = or_else (text_prop ''id'' data) (text_prop ''user_id'' data), profile_email = userEmail,
          profile_displayName = or_else (text_prop ''display_name'' data) (or_else (hd (split_char CHR ''@'' userEmail)) ''User'')\<rparr>)"

definition no_session :: "'z org_state_scheme \<Rightarrow> 'z org_state_scheme" where
  "no_session w = w\<lparr>org_user := None, org_orgId := [], org_role := None, org_plan := ''solo''\<rparr>"

definition set_session :: "json \<Rightarrow> 'z org_state_scheme \<Rightarrow> 'z org_state_scheme" where
  "set_session data w =
     w\<lparr>org_user := Some (profile_of data), org_orgId := or_else (text_prop ''org_id'' data) (text_prop ''organization_id'' data),
       org_role := Some (or_else (text_prop ''role'' data) ''member''), org_plan := or_else (text_prop ''plan'' data) ''solo''\<rparr>"

definition fetchSession :: "net \<Rightarrow> 'z org_state_scheme \<Rightarrow> 'z org_state_scheme" where
  "fetchSession N w =
     (try_catch (\<lambda>_. no_session)
        (io_bind (cp_call N (cp_headers [(''Content-Type'', ''application/json'')]) ''GET'' (api_base N @ ''/v1/auth/me'') True None
           (\<lambda>st ct t. if resp_ok st then bind_err (resp_json t) (\<lambda>data. bind_err (need (Some data)) (\<lambda>d. Inr (Some d))) else Inr None))
           (\<lambda>r. io_modify (case r of Some data \<Rightarrow> set_session data | None \<Rightarrow> no_session)))
        (w\<lparr>org_isLoading := True\<rparr>))\<lparr>org_isLoading := False\<rparr>"

definition org_handleLogout :: "net \<Rightarrow> 'z org_state_scheme \<Rightarrow> 'z org_state_scheme" where
  "org_handleLogout N w =
     (no_session (try_catch (\<lambda>_ v. v)
        (cp_call N (cp_headers []) ''POST'' (api_base N @ ''/v1/auth/logout'') True None (\<lambda>st ct t. Inr ()))
        (w\<lparr>localStorage := removeItem ''byos_cp_session_token'' (localStorage w)\<rparr>)))\<lparr>navigated := Some ''/login''\<rparr>"

definition isOwner :: "'z org_state_scheme \<Rightarrow> bool" where
  "isOwner w \<longleftrightarrow> org_role w = Some ''owner''"

definition isAdmin :: "'z org_state_scheme \<Rightarrow> bool" where
  "isAdmin w \<longleftrightarrow> org_role w = Some ''admin'' \<or> org_role w = Some ''owner''"

definition isMember :: "'z org_state_scheme \<Rightarrow> bool" where
  "isMember w \<longleftrightarrow> org_role w = Some ''member''"

definition isAuthenticated :: "'z org_state_scheme \<Rightarrow> bool" where
  "isAuthenticated w \<longleftrightarrow> org_user w \<noteq> None \<and> org_orgId w \<noteq> []"

section \<open>The guard\<close>

definition guard_effect :: "string \<Rightarrow> string \<Rightarrow> 'z org_state_scheme \<Rightarrow> 'z org_state_scheme" where
  "guard_effect webmailBase pathname w =
     (if org_isLoading w then w
      else if \<not> isAuthenticated w
      then w\<lparr>navigated := Some (if pathname \<noteq> [] \<and> pathname \<noteq> ''/login''
                                 then ''/login?redirect='' @ encodeURIComponent pathname else ''/login'')\<rparr>
      else if isMember w then w\<lparr>navigated := Some webmailBase\<rparr>
      else w)"

datatype guard_view = Verifying | SessionRequired | MemberNotice | Children

definition guard_views :: "'z org_state_scheme \<Rightarrow> guard_view list" where
  "guard_views w =
     (if org_isLoading w then [Verifying] else []) @
     (if \<not> org_isLoading w \<and> \<not> isAuthenticated w then [SessionRequired] else []) @
     (if \<not> org_isLoading w \<and> isAuthenticated w \<and> isMember w then [MemberNotice] else []) @
     (if \<not> org_isLoading w \<and> isAuthenticated w \<and> isAdmin w then [Children] else [])"

section \<open>Signing in\<close>

record cp_challenge =
  cc_challenge_token :: string
  cc_methods :: "string list"
  cc_preferred_method :: string
  cc_destination_masked :: "string option"
  cc_debug_code :: "string option"

record login_state = nav_state +
  li_email :: string
  li_password :: string
  li_error :: "string option"
  li_loading :: bool
  li_passkeyLoading :: bool
  li_checkingSession :: bool
  li_challenge :: "cp_challenge option"
  li_code :: string
  li_busy :: bool
  li_method :: string

definition getSuccessfulRedirect :: "string \<Rightarrow> string" where
  "getSuccessfulRedirect search =
     (let seats = filled (url_get search ''seats'');
          cycle = or_else (filled (url_get search ''billing_cycle'')) (filled (url_get search ''cycle''));
          redirect = filled (url_get search ''redirect'')
      in if redirect \<noteq> [] then redirect
         else if seats \<noteq> [] then ''/onboarding/pricing?seats='' @ seats @ (if cycle \<noteq> [] then ''&billing_cycle='' @ cycle else [])
         else ''/dashboard'')"

text \<open>The same choice written again for a session that already exists.\<close>

definition existing_redirect :: "string \<Rightarrow> string" where
  "existing_redirect search =
     (let seats = filled (url_get search ''seats'');
          cycle = or_else (filled (url_get search ''billing_cycle'')) (filled (url_get search ''cycle''));
          redirect = filled (url_get search ''redirect'')
      in if redirect = [] \<and> seats \<noteq> []
         then ''/onboarding/pricing?seats='' @ seats @ (if cycle \<noteq> [] then ''&billing_cycle='' @ cycle else [])
         else if redirect = [] then ''/dashboard''
         else redirect)"

definition login_onMount :: "net \<Rightarrow> string \<Rightarrow> string \<Rightarrow> 'z login_state_scheme \<Rightarrow> 'z login_state_scheme" where
  "login_onMount N webmailBase search w =
     (try_catch (\<lambda>_ v. v)
        (io_bind (me N) (\<lambda>session.
         if session \<noteq> JNull \<and> nonempty (str_prop ''id'' session)
         then io_modify (\<lambda>v. v\<lparr>navigated := Some (if text_prop ''role'' session = ''member'' then webmailBase
                                                   else existing_redirect search)\<rparr>)
         else io_return ())) w)\<lparr>li_checkingSession := False\<rparr>"

text \<open>The end of every way to sign in.\<close>

definition signed_in :: "string \<Rightarrow> string \<Rightarrow> json \<Rightarrow> 'z login_state_scheme \<Rightarrow> 'z login_state_scheme" where
  "signed_in webmailBase search res w =
     w\<lparr>navigated := Some (if text_prop ''role'' res = ''member'' then webmailBase else getSuccessfulRedirect search)\<rparr>"

definition cp_passkey_request :: "string \<Rightarrow> json \<Rightarrow> js_error + passkey_request" where
  "cp_passkey_request host options =
     bind_err (base64URLToBuffer (text_prop ''challenge'' options)) (\<lambda>challenge.
     bind_err (case jprop ''allowCredentials'' options of
                 Some (JArr cs) \<Rightarrow> traverse (\<lambda>c. base64URLToBuffer (text_prop ''id'' c)) cs
               | _ \<Rightarrow> Inr []) (\<lambda>allow.
     Inr \<lparr>pr_challenge = challenge, pr_rpId = or_else (text_prop ''rpId'' options) host,
          pr_userVerification = jprop ''userVerification'' options,
          pr_timeout = Some (if truthy (jprop ''timeout'' options) then the (jprop ''timeout'' options) else JNum 60000),
          pr_allow = (if allow = [] then None else Some allow)\<rparr>))"

definition cp_handlePasskeyLogin ::
  "net \<Rightarrow> passkey_platform \<Rightarrow> string \<Rightarrow> string \<Rightarrow> 'z login_state_scheme \<Rightarrow> 'z login_state_scheme" where
  "cp_handlePasskeyLogin N K webmailBase search w =
     (let em = toLowerCase (trim (li_email w))
      in (try_catch (\<lambda>e v. v\<lparr>li_error := Some (err_message e)\<rparr>)
        (io_bind (fetchPasskeyLoginOptions_cp N (if em = [] then None else Some em)) (\<lambda>r.
         io_bind (io_lift (need (Some r))) (\<lambda>options.
         io_bind (io_lift (bind_err (cp_passkey_request (pk_hostname K) options) (pk_get K))) (\<lambda>credential.
         case credential of
           None \<Rightarrow> io_throw ''No credential returned from authenticator''
         | Some a \<Rightarrow>
             io_bind (loginWithPasskey_cp N (JObj ([(''credential_id'', JStr (bufferToBase64URL (as_rawId a)))]
                 @ (case jprop ''challenge'' options of Some c \<Rightarrow> [(''challenge_token'', c)] | None \<Rightarrow> [])
                 @ [(''signature'', JStr (bytesToHex_cp (as_signature a))),
                    (''client_data_json'', JStr (bufferToBase64URL (as_clientDataJSON a)))]))) (\<lambda>loginRes.
             io_modify (signed_in webmailBase search loginRes))))))
        (w\<lparr>li_error := None, li_passkeyLoading := True\<rparr>))\<lparr>li_passkeyLoading := False\<rparr>)"

text \<open>The password is submitted as typed; a refusal with status 401 is followed by an attempt with the derived verifier, whose
  own failure is reported as the first one.\<close>

definition submit_password :: "net \<Rightarrow> pbkdf2 \<Rightarrow> string \<Rightarrow> string \<Rightarrow> ('z, json) io" where
  "submit_password N kdf em password =
     io_catch (login_cp N em password) (\<lambda>loginErr.
       if err_status loginErr = Some 401
       then io_catch (io_bind (io_lift (deriveClientPasswordVerifier kdf password em)) (\<lambda>verifier. login_cp N em verifier))
              (\<lambda>_. io_lift (Inl loginErr))
       else io_lift (Inl loginErr))"

definition challenge_cp :: "json \<Rightarrow> cp_challenge" where
  "challenge_cp res =
     \<lparr>cc_challenge_token = text_prop ''challenge_token'' res,
      cc_methods = (case strings_prop ''methods'' res of Some ms \<Rightarrow> ms | None \<Rightarrow> [''email'']),
      cc_preferred_method = or_else (text_prop ''preferred_method'' res) ''email'',
      cc_destination_masked = Some (text_prop ''destination_masked'' res), cc_debug_code = str_prop ''debug_code'' res\<rparr>"

definition cp_handleSubmit ::
  "net \<Rightarrow> pbkdf2 \<Rightarrow> string \<Rightarrow> string \<Rightarrow> 'z login_state_scheme \<Rightarrow> 'z login_state_scheme" where
  "cp_handleSubmit N kdf webmailBase search w =
     (try_catch (\<lambda>e v. v\<lparr>li_error := Some (if err_status e = Some 429 then ''Too many attempts. Please try again later.''
                                          else if err_status e = Some 401 then ''Invalid email or password.''
                                          else err_message e)\<rparr>)
        (io_bind (submit_password N kdf (toLowerCase (trim (li_email w))) (li_password w)) (\<lambda>res.
         if truthy (jprop ''two_factor_required'' res)
         then io_modify (\<lambda>v. v\<lparr>li_challenge := Some (challenge_cp res),
                                li_method := or_else (text_prop ''preferred_method'' res) ''email'',
                                li_code := text_prop ''debug_code'' res, li_error := None\<rparr>)
         else io_modify (signed_in webmailBase search res)))
        (w\<lparr>li_error := None, li_loading := True\<rparr>))\<lparr>li_loading := False\<rparr>"

definition cp_handleVerify2FA :: "net \<Rightarrow> string \<Rightarrow> string \<Rightarrow> 'z login_state_scheme \<Rightarrow> 'z login_state_scheme" where
  "cp_handleVerify2FA N webmailBase search w =
     (let otp = trim (li_code w)
      in case li_challenge w of
           None \<Rightarrow> w\<lparr>li_error := Some ''Please enter your 6-digit verification code.''\<rparr>
         | Some ch \<Rightarrow>
             if otp = [] then w\<lparr>li_error := Some ''Please enter your 6-digit verification code.''\<rparr>
             else (try_catch (\<lambda>e v. v\<lparr>li_error := Some (err_message e)\<rparr>)
                     (io_bind (verifyLogin2FA_cp N (cc_challenge_token ch) otp) (\<lambda>res. io_modify (signed_in webmailBase search res)))
                     (w\<lparr>li_error := None, li_busy := True\<rparr>))\<lparr>li_busy := False\<rparr>)"

definition cp_handleSwitch2FAMethod :: "net \<Rightarrow> string \<Rightarrow> 'z login_state_scheme \<Rightarrow> 'z login_state_scheme" where
  "cp_handleSwitch2FAMethod N meth w =
     (case li_challenge w of
        None \<Rightarrow> w
      | Some ch \<Rightarrow>
          (try_catch (\<lambda>e v. v\<lparr>li_error := Some (or_message e ''Failed to switch verification method.'')\<rparr>)
             (io_bind (sendLogin2FACode_cp N (cc_challenge_token ch) meth) (\<lambda>r.
              io_bind (io_modify (\<lambda>v. v\<lparr>li_method := meth\<rparr>)) (\<lambda>_.
              io_bind (io_lift (need (Some r))) (\<lambda>resp.
              io_modify (\<lambda>v. v\<lparr>li_challenge := map_option (\<lambda>c. c\<lparr>cc_preferred_method := meth,
                     cc_destination_masked := str_prop ''destination_masked'' resp, cc_debug_code := str_prop ''debug_code'' resp\<rparr>) (li_challenge v),
                   li_code := (if nonempty (str_prop ''debug_code'' resp) then text_prop ''debug_code'' resp else li_code v)\<rparr>)))))
             (w\<lparr>li_busy := True, li_error := None\<rparr>))\<lparr>li_busy := False\<rparr>)"

definition cp_handleCancel2FA :: "'z login_state_scheme \<Rightarrow> 'z login_state_scheme" where
  "cp_handleCancel2FA w = w\<lparr>li_challenge := None, li_code := [], li_error := None\<rparr>"

section \<open>Lemmas\<close>

lemma percent_decode_other: "c \<noteq> CHR ''%'' \<Longrightarrow> percent_decode (c # cs) = utf8_char c @ percent_decode cs"
  by (auto split: list.split option.split)

lemma upper_hex_digit: "n < 16 \<Longrightarrow> \<exists>c. upper_char (digit_char n) = [c] \<and> hex_value c = Some n"
  by (cases "n < 10") (auto simp: upper_char_def code_digit_char is_lower_ascii_def is_digit_def hex_value_def)

lemma percent_decode_byte: "percent_decode (percent_byte b @ cs) = b # percent_decode cs"
proof -
  have "unat b div 16 < 16" "unat b mod 16 < 16" using unat_byte_lt [of b] by auto
  from upper_hex_digit [OF this(1)] upper_hex_digit [OF this(2)]
  obtain c d where "upper_char (digit_char (unat b div 16)) = [c]" "hex_value c = Some (unat b div 16)"
    "upper_char (digit_char (unat b mod 16)) = [d]" "hex_value d = Some (unat b mod 16)" by blast
  moreover have "word_of_nat (16 * (unat b div 16) + unat b mod 16) = b"
    unfolding mult_div_mod_eq by simp
  ultimately show ?thesis
    by (simp only: percent_byte_def toUpperCase_def hex_byte_eq list.map concat.simps append.simps percent_decode.simps list.case
        prod.case option.case if_True simp_thms)
qed

lemma percent_decode_encodeURIComponent: "percent_decode (encodeURIComponent s) = utf8_encode s"
proof (induction s)
  case (Cons c s)
  have bytes: "percent_decode (concat (map percent_byte bs) @ cs) = bs @ percent_decode cs" for bs cs
    by (induction bs) (simp_all add: percent_decode_byte)
  have "is_uri_unreserved c \<Longrightarrow> c \<noteq> CHR ''%''"
    by (auto simp: is_uri_unreserved_def is_digit_def is_upper_ascii_def is_lower_ascii_def)
  with Cons show ?case
    using bytes [of "utf8_char c" "encodeURIComponent s"]
    by (simp add: encodeURIComponent_def utf8_encode_def percent_decode_other del: percent_decode.simps(2))
qed (simp add: encodeURIComponent_def utf8_encode_def)

lemma encodeURIComponent_safe:
  "CHR ''+'' \<notin> set (encodeURIComponent s)" "CHR ''&'' \<notin> set (encodeURIComponent s)"
  by (auto dest!: encodeURIComponent_chars simp: is_uri_unreserved_def is_digit_def is_upper_ascii_def is_lower_ascii_def)

lemma form_decode_encodeURIComponent: "form_decode (encodeURIComponent s) = s"
proof -
  have "map (\<lambda>c. if c = CHR ''+'' then CHR '' '' else c) (encodeURIComponent s) = encodeURIComponent s"
    using encodeURIComponent_safe(1) [of s] by (intro map_idI) auto
  then show ?thesis
    by (simp add: form_decode_def percent_decode_encodeURIComponent utf8_points_encode point_units_def comp_def)
qed

text \<open>The redirect parameter comes back as it was encoded, whatever it is.\<close>

lemma redirect_param: "url_params (''?redirect='' @ encodeURIComponent u) = [(''redirect'', u)]"
proof -
  have "form_decode ''redirect'' = ''redirect''" by code_simp
  moreover have "CHR ''&'' \<notin> set (''redirect='' @ encodeURIComponent u)"
    using encodeURIComponent_safe(2) by simp
  ultimately show ?thesis
    by (simp add: url_params_def startsWith_def split_char_absent form_decode_encodeURIComponent)
qed

lemma redirect_followed: "u \<noteq> [] \<Longrightarrow> getSuccessfulRedirect (''?redirect='' @ encodeURIComponent u) = u"
  by (simp add: getSuccessfulRedirect_def redirect_param filled_def del: append.simps)

text \<open>The two copies of the choice agree.\<close>

lemma existing_redirect_eq: "existing_redirect search = getSuccessfulRedirect search"
  by (simp add: existing_redirect_def getSuccessfulRedirect_def Let_def)

text \<open>The session the server vouches for: the object of a successful response.\<close>

definition session_answer :: "response \<Rightarrow> json option" where
  "session_answer r =
     (case r of NetFail m \<Rightarrow> None
      | Resp st ct t \<Rightarrow> if resp_ok st then (case resp_json t of Inr v \<Rightarrow> if v = JNull then None else Some v | Inl e \<Rightarrow> None) else None)"

definition session_request :: "net \<Rightarrow> store \<Rightarrow> request" where
  "session_request N = cp_request (cp_headers [(''Content-Type'', ''application/json'')]) ''GET'' (api_base N @ ''/v1/auth/me'') True None"

lemma need_Some: "need (Some v) = (if v = JNull then throw_msg ''TypeError'' else Inr v)"
  by (simp add: need_def split: json.split)

lemma fetchSession_eq:
  "fetchSession N w =
     ((case session_answer (server N (sent w) (session_request N (localStorage w))) of Some d \<Rightarrow> set_session d | None \<Rightarrow> no_session)
       (w\<lparr>sent := sent w @ [session_request N (localStorage w)]\<rparr>))\<lparr>org_isLoading := False\<rparr>"
  by (simp add: fetchSession_def try_catch_def io_bind_def cp_call_eq session_answer_def session_request_def need_Some
      no_session_def set_session_def split: response.split sum.split)

lemma submit_first_request:
  "\<exists>rs. sent (snd (submit_password N kdf em pw w)) =
     sent w @ cp_request (cp_headers [(''Content-Type'', ''application/json'')]) ''POST'' (api_base N @ ''/v1/auth/login'') True
       (Some (JsonBody (JObj [(''email'', JStr em), (''password'', JStr pw), (''client'', JStr ''control-plane'')]))) (localStorage w) # rs"
proof -
  let ?r = "cp_request (cp_headers [(''Content-Type'', ''application/json'')]) ''POST'' (api_base N @ ''/v1/auth/login'') True
       (Some (JsonBody (JObj [(''email'', JStr em), (''password'', JStr pw), (''client'', JStr ''control-plane'')]))) (localStorage w)"
  have keep: "sent (snd (keep_token d v)) = sent v" for d and v :: "'a world_scheme"
    by (simp add: keep_token_def access_def)
  have first: "sent (snd (login_cp N em pw w)) = sent w @ [?r]"
    by (simp add: login_cp_def io_bind_def json_call_def cp_call_eq keep split: sum.split)
  have "io_sends (\<lambda>_. True) (io_catch (io_bind (io_lift (deriveClientPasswordVerifier kdf pw em)) (\<lambda>verifier. login_cp N em verifier))
              (\<lambda>_. io_lift (Inl e)))" for e
    unfolding login_cp_def keep_token_def by (intro io_request; simp)
  then have "\<exists>rs. sent (snd (io_catch (io_bind (io_lift (deriveClientPasswordVerifier kdf pw em)) (\<lambda>verifier. login_cp N em verifier))
              (\<lambda>_. io_lift (Inl e)) v)) = sent v @ rs" for e and v :: "'a world_scheme"
    unfolding io_sends_def by blast
  note again = this
  show ?thesis
  proof (cases "login_cp N em pw w")
    case (Pair r v)
    show ?thesis
    proof (cases r)
      case (Inl e)
      obtain rs where "sent (snd (io_catch (io_bind (io_lift (deriveClientPasswordVerifier kdf pw em)) (\<lambda>verifier. login_cp N em verifier))
              (\<lambda>_. io_lift (Inl e)) v)) = sent v @ rs" using again by blast
      with Pair Inl first show ?thesis
        by (simp add: submit_password_def io_catch_def [of "login_cp N em pw"])
    next
      case (Inr a)
      with Pair first show ?thesis by (simp add: submit_password_def io_catch_def [of "login_cp N em pw"])
    qed
  qed
qed

section \<open>Properties\<close>

text \<open>C25: the dashboard is shown exactly to a session whose server answer names an organization and the role owner or admin.
  Every other answer, a failed request included, ends at the notice for members or for visitors, except that a session with a
  role of another name gets neither a page nor a redirect. Signing out removes the token first, so that its own request and
  every later one go out without it.\<close>

theorem guard_admits_admins:
  "guard_views (fetchSession N w) =
     (case session_answer (server N (sent w) (session_request N (localStorage w))) of
        None \<Rightarrow> [SessionRequired]
      | Some d \<Rightarrow>
          (let org = or_else (text_prop ''org_id'' d) (text_prop ''organization_id'' d); rl = or_else (text_prop ''role'' d) ''member''
           in if org = [] then [SessionRequired]
              else if rl = ''member'' then [MemberNotice]
              else if rl = ''owner'' \<or> rl = ''admin'' then [Children] else []))
   \<and> navigated (guard_effect B p (fetchSession N w)) =
        (if SessionRequired \<in> set (guard_views (fetchSession N w))
         then Some (if p = [] \<or> p = ''/login'' then ''/login'' else ''/login?redirect='' @ encodeURIComponent p)
         else if MemberNotice \<in> set (guard_views (fetchSession N w)) then Some B
         else navigated w)
   \<and> guard_views ((org_handleLogout N w)\<lparr>org_isLoading := False\<rparr>) = [SessionRequired]
   \<and> (\<exists>r. sent (org_handleLogout N w) = sent w @ [r] \<and> header ''Authorization'' r = None)
   \<and> getItem (localStorage (org_handleLogout N w)) ''byos_cp_session_token'' = None"
proof (intro conjI)
  let ?a = "session_answer (server N (sent w) (session_request N (localStorage w)))"
  let ?w = "fetchSession N w"
  have views: "guard_views ?w = (case ?a of None \<Rightarrow> [SessionRequired] | Some d \<Rightarrow>
      (let org = or_else (text_prop ''org_id'' d) (text_prop ''organization_id'' d); rl = or_else (text_prop ''role'' d) ''member''
       in if org = [] then [SessionRequired] else if rl = ''member'' then [MemberNotice]
          else if rl = ''owner'' \<or> rl = ''admin'' then [Children] else []))"
    by (simp add: fetchSession_eq guard_views_def isAuthenticated_def isMember_def isAdmin_def set_session_def no_session_def Let_def
        split: option.split)
  then show "guard_views ?w = (case ?a of None \<Rightarrow> [SessionRequired] | Some d \<Rightarrow>
      (let org = or_else (text_prop ''org_id'' d) (text_prop ''organization_id'' d); rl = or_else (text_prop ''role'' d) ''member''
       in if org = [] then [SessionRequired] else if rl = ''member'' then [MemberNotice]
          else if rl = ''owner'' \<or> rl = ''admin'' then [Children] else []))" .
  have "org_isLoading ?w = False" "navigated ?w = navigated w"
    by (simp_all add: fetchSession_eq set_session_def no_session_def split: option.split)
  then show "navigated (guard_effect B p ?w) =
      (if SessionRequired \<in> set (guard_views ?w)
       then Some (if p = [] \<or> p = ''/login'' then ''/login'' else ''/login?redirect='' @ encodeURIComponent p)
       else if MemberNotice \<in> set (guard_views ?w) then Some B else navigated w)"
    by (auto simp: guard_effect_def guard_views_def)
qed (simp_all add: org_handleLogout_def no_session_def try_catch_def cp_call_eq guard_views_def isAuthenticated_def isMember_def
    isAdmin_def header_def cp_request_def getCpHeaders_def split: response.split)

text \<open>A visitor whom the guard stops at a page comes back to that page by signing in. The page follows every address in
  the redirect parameter, also that of another site.\<close>

theorem sign_in_redirect:
  fixes w :: "'z login_state_scheme"
  assumes "\<not> org_isLoading v" "\<not> isAuthenticated v" "p \<noteq> []" "p \<noteq> ''/login''" "u \<noteq> []"
    and "\<And>w :: 'z login_state_scheme. \<exists>res. fst (login_cp N (toLowerCase (trim (li_email w))) (li_password w) w) = Inr res
            \<and> \<not> truthy (jprop ''two_factor_required'' res) \<and> text_prop ''role'' res \<noteq> ''member''"
  shows "\<exists>search. navigated (guard_effect B p v) = Some (''/login'' @ search)
      \<and> navigated (cp_handleSubmit N kdf B search w) = Some p
      \<and> navigated (cp_handleSubmit N kdf B (''?redirect='' @ encodeURIComponent u) w) = Some u"
proof -
  have nav: "navigated (cp_handleSubmit N kdf B search w) = Some (getSuccessfulRedirect search)" for search
  proof -
    let ?w = "w\<lparr>li_error := None, li_loading := True\<rparr>"
    obtain res where res: "fst (login_cp N (toLowerCase (trim (li_email w))) (li_password w) ?w) = Inr res"
      "\<not> truthy (jprop ''two_factor_required'' res)" "text_prop ''role'' res \<noteq> ''member''"
      using assms(6) [of ?w] by auto
    then show ?thesis
      by (cases "login_cp N (toLowerCase (trim (li_email w))) (li_password w) ?w")
        (simp add: cp_handleSubmit_def submit_password_def try_catch_def io_bind_def io_catch_def signed_in_def)
  qed
  have "navigated (guard_effect B p v) = Some (''/login'' @ ''?redirect='' @ encodeURIComponent p)"
    using assms(1-4) by (simp add: guard_effect_def)
  then show ?thesis
    using nav redirect_followed [OF assms(3)] redirect_followed [OF assms(5)] by (metis (no_types))
qed

definition sample_org :: org_state where
  "sample_org = \<lparr>sessionStorage = [], localStorage = [], sent = [], navigated = None, org_user = None, org_orgId = [],
     org_role = None, org_plan = ''solo'', org_isLoading = False\<rparr>"

definition sample_login :: login_state where
  "sample_login = \<lparr>sessionStorage = [], localStorage = [], sent = [], navigated = None, li_email = ''A@b.c'', li_password = ''pw'',
     li_error = None, li_loading = False, li_passkeyLoading = False, li_checkingSession = False, li_challenge = None,
     li_code = [], li_busy = False, li_method = ''email''\<rparr>"

text \<open>A server that answers every request with an owner's session.\<close>

lemma owner_net_login: "fst (login_cp (answer_net (JObj [(''role'', JStr ''owner'')])) em pw w) = Inr (JObj [(''role'', JStr ''owner'')])"
proof -
  have "wf_json (JObj [(''role'', JStr ''owner'')])" by simp
  then show ?thesis
    by (simp add: login_cp_def io_bind_def json_call_def cp_call_eq answer_net_def resp_ok_def resp_json_stringify keep_token_def
        access_def del: stringify.simps)
qed

end
