(* ===== verification/Register_Page.thy ===== *)
theory Register_Page
  imports Control_Session
begin

text \<open>
  Registration of an organization: \<open>apps/control-plane/src/routes/register.tsx\<close>. The page checks the form, runs the key
  ceremony of \<open>Client_Crypto\<close>, shows the recovery phrase and, after the acknowledgement, transmits the account.

  The sequences of inputs and buttons are the step relation \<open>register_step\<close>; the randomness of each ceremony, the key
  derivation and the server are arguments.
\<close>

section \<open>State\<close>

record register_state = nav_state +
  currentStep :: nat
  rg_email :: string
  rg_password :: string
  rg_confirmPassword :: string
  generationProgress :: nat
  generationStatus :: string
  ceremonyData :: "ceremony_result option"
  hasConfirmedBackup :: bool
  copiedPhrase :: bool
  rg_error :: "string option"
  networkLoading :: bool
  activeSessionUser :: "(string \<times> string) option"

definition register_initial :: "store \<Rightarrow> store \<Rightarrow> register_state" where
  "register_initial session local = \<lparr>sessionStorage = session, localStorage = local, sent = [], navigated = None,
     currentStep = 1, rg_email = [], rg_password = [], rg_confirmPassword = [], generationProgress = 0, generationStatus = [],
     ceremonyData = None, hasConfirmedBackup = False, copiedPhrase = False, rg_error = None, networkLoading = False,
     activeSessionUser = None\<rparr>"

definition register_onMount :: "net \<Rightarrow> 'z register_state_scheme \<Rightarrow> 'z register_state_scheme" where
  "register_onMount N w =
     try_catch (\<lambda>_ v. v)
       (io_bind (me N) (\<lambda>session.
        if session \<noteq> JNull \<and> nonempty (str_prop ''id'' session) \<and> nonempty (str_prop ''email'' session)
        then io_modify (\<lambda>v. v\<lparr>activeSessionUser := Some (text_prop ''email'' session, text_prop ''id'' session)\<rparr>)
        else io_return ())) w"

definition register_signOut :: "net \<Rightarrow> 'z register_state_scheme \<Rightarrow> 'z register_state_scheme" where
  "register_signOut N w = try_catch (\<lambda>_ v. v) (io_bind (logout_cp N) (\<lambda>_. io_modify (\<lambda>v. v\<lparr>activeSessionUser := None\<rparr>))) w"

section \<open>The ceremony\<close>

text \<open>The form's own checks, before anything is sent.\<close>

definition form_error :: "'z register_state_scheme \<Rightarrow> string option" where
  "form_error w =
     (let em = toLowerCase (trim (rg_email w))
      in if em = [] \<or> \<not> str_includes em ''@'' then Some ''Please enter a valid work or organization email address.''
         else if \<not> isCompliant (evaluatePasswordStrength (rg_password w))
         then Some ''Password must meet the minimum security strength criteria (at least 10 characters with mixed character classes).''
         else if rg_password w \<noteq> rg_confirmPassword w then Some ''Passwords do not match. Please re-enter your password.''
         else None)"

text \<open>The availability check stops the registration for a known address and for status 400; any other failure of the check
  is ignored.\<close>

definition email_check :: "net \<Rightarrow> string \<Rightarrow> ('z, string option) io" where
  "email_check N em =
     io_catch (io_bind (checkEmailAvailability N em) (\<lambda>r.
               io_bind (io_lift (need (Some r))) (\<lambda>check.
               io_return (if truthy (jprop ''already_logged_in'' check)
                          then Some (''The email \"'' @ em @ ''\" is already logged in on this browser. Please access your Control Panel or log out first.'')
                          else if truthy (jprop ''exists'' check)
                          then Some (''The email \"'' @ em @ ''\" is already registered. Please sign in instead.'')
                          else None))))
       (\<lambda>err. io_return (if err_status err = Some 400 then Some ''Please enter a valid work or organization email address.'' else None))"

definition run_ceremony :: "wasm_core \<Rightarrow> pbkdf2 \<Rightarrow> ceremony_random \<Rightarrow> string \<Rightarrow> 'z register_state_scheme \<Rightarrow> 'z register_state_scheme" where
  "run_ceremony W kdf rnd em w =
     (let (reports, r) = performCryptographicCeremony W kdf rnd em (rg_password w);
          w1 = fold (\<lambda>(status, percent) v. v\<lparr>generationStatus := status, generationProgress := percent\<rparr>) reports
                 (w\<lparr>currentStep := 2, generationProgress := 10, generationStatus := ''Initializing WebAssembly Crypto Core'' @ ellipsis\<rparr>)
      in case r of
           Inl e \<Rightarrow> w1\<lparr>rg_error := Some (err_message e), currentStep := 1\<rparr>
         | Inr result \<Rightarrow> w1\<lparr>ceremonyData := Some result, currentStep := 3\<rparr>)"

definition handleBeginCeremony ::
  "net \<Rightarrow> wasm_core \<Rightarrow> pbkdf2 \<Rightarrow> ceremony_random \<Rightarrow> 'z register_state_scheme \<Rightarrow> 'z register_state_scheme" where
  "handleBeginCeremony N W kdf rnd w0 =
     (let w = w0\<lparr>rg_error := None\<rparr>; em = toLowerCase (trim (rg_email w))
      in case form_error w of
           Some e \<Rightarrow> w\<lparr>rg_error := Some e\<rparr>
         | None \<Rightarrow>
             (let (stop, w1) = email_check N em (w\<lparr>networkLoading := True\<rparr>); w2 = w1\<lparr>networkLoading := False\<rparr>
              in case stop of
                   Inr (Some e) \<Rightarrow> w2\<lparr>rg_error := Some e\<rparr>
                 | _ \<Rightarrow> run_ceremony W kdf rnd em w2))"

section \<open>The recovery phrase\<close>

text \<open>Copying: the text that reaches the clipboard, where the browser allows it. A timer resets the button.\<close>

definition handleCopyPhrase :: "bool \<Rightarrow> 'z register_state_scheme \<Rightarrow> string option \<times> 'z register_state_scheme" where
  "handleCopyPhrase allowed w =
     (case ceremonyData w of
        None \<Rightarrow> (None, w)
      | Some d \<Rightarrow> if allowed then (Some (recoveryPhrase d), w\<lparr>copiedPhrase := True\<rparr>)
                  else (None, w\<lparr>rg_error := Some ''Clipboard access denied. Please write down the 12 words manually.''\<rparr>))"

definition copy_expires :: "'z register_state_scheme \<Rightarrow> 'z register_state_scheme" where
  "copy_expires w = w\<lparr>copiedPhrase := False\<rparr>"

text \<open>The downloaded file: its name and its content. The two forms of today's date are arguments.\<close>

definition key_text :: "json option \<Rightarrow> string" where
  "key_text v = (case v of Some j \<Rightarrow> to_text j | None \<Rightarrow> ''undefined'')"

definition backup_file :: "string \<Rightarrow> string \<Rightarrow> 'z register_state_scheme \<Rightarrow> (string \<times> string) option" where
  "backup_file isoDate utcDate w =
     (case ceremonyData w of
        None \<Rightarrow> None
      | Some d \<Rightarrow>
          (let em = trim (rg_email w)
           in Some (''byos-recovery-phrase-'' @ map (\<lambda>c. if is_digit c \<or> is_lower_ascii c \<or> is_upper_ascii c then c else CHR ''_'') em
                      @ ''-'' @ take 10 isoDate @ ''.txt'',
                    join newline
                      [''BYOS Self-Sovereign Email '' @ em_dash @ '' Zero-Knowledge Recovery Phrase'',
                       ''============================================================'',
                       ''Account: '' @ em,
                       ''Created: '' @ utcDate,
                       ''Public Identity Key: '' @ key_text (publicKey d),
                       [],
                       ''CRITICAL SECURITY NOTICE:'',
                       ''BYOS servers never hold your private key or password. These 12 words'',
                       ''are the sole mathematical verifier capable of reconstituting your root'',
                       ''cryptographic credentials. Store this file in an offline vault.'',
                       [],
                       ''12-Word Recovery Phrase:'',
                       recoveryPhrase d,
                       ''============================================================''])))"

section \<open>Transmission\<close>

definition pricing_address :: "string \<Rightarrow> json \<Rightarrow> string" where
  "pricing_address search res =
     (let seats = filled (url_get search ''seats'');
          cycle = or_else (filled (url_get search ''billing_cycle'')) (filled (url_get search ''cycle''))
      in ''/onboarding/pricing?'' @ form_string ([(''org_id'', key_text (jprop ''org_id'' res))]
           @ (if seats \<noteq> [] then [(''seats'', seats)] else []) @ (if cycle \<noteq> [] then [(''billing_cycle'', cycle)] else [])))"

definition handleFinalizeRegistration :: "net \<Rightarrow> string \<Rightarrow> 'z register_state_scheme \<Rightarrow> 'z register_state_scheme" where
  "handleFinalizeRegistration N search w =
     (case ceremonyData w of
        None \<Rightarrow> w
      | Some d \<Rightarrow>
          if \<not> hasConfirmedBackup w then w
          else try_catch (\<lambda>e v. v\<lparr>rg_error := Some (if err_status e = Some 409 then ''This email address is already registered. Please sign in instead.''
                                                  else if err_status e = Some 400 then ''Invalid cryptographic parameters or malformed verifier.''
                                                  else or_message e ''Registration failed. Please check network connection.''),
                                 networkLoading := False, currentStep := 3\<rparr>)
                 (io_bind (register N (toLowerCase (trim (rg_email w))) (passwordVerifier d) (key_text (publicKey d))
                     (Some (wrappedPrivateKey d)) (Some (recoverySalt d))) (\<lambda>r.
                  io_bind (io_lift (need (Some r))) (\<lambda>res.
                  io_modify (\<lambda>v. v\<lparr>navigated := Some (pricing_address search res)\<rparr>))))
                 (w\<lparr>rg_error := None, currentStep := 4, networkLoading := True\<rparr>))"

section \<open>The page as a state machine\<close>

text \<open>The inputs of step 1 are shown in step 1 only, the phrase with its buttons in step 3 only.\<close>

inductive register_step :: "wasm_core \<Rightarrow> pbkdf2 \<Rightarrow> 'z register_state_scheme \<Rightarrow> 'z register_state_scheme \<Rightarrow> bool"
  for W :: wasm_core and kdf :: pbkdf2 where
  rs_email: "currentStep w = 1 \<Longrightarrow> register_step W kdf w (w\<lparr>rg_email := s\<rparr>)"
| rs_password: "currentStep w = 1 \<Longrightarrow> register_step W kdf w (w\<lparr>rg_password := s\<rparr>)"
| rs_confirm: "currentStep w = 1 \<Longrightarrow> register_step W kdf w (w\<lparr>rg_confirmPassword := s\<rparr>)"
| rs_mount: "register_step W kdf w (register_onMount N w)"
| rs_signOut: "currentStep w = 1 \<Longrightarrow> register_step W kdf w (register_signOut N w)"
| rs_begin: "currentStep w = 1 \<Longrightarrow> register_step W kdf w (handleBeginCeremony N W kdf rnd w)"
| rs_copy: "currentStep w = 3 \<Longrightarrow> register_step W kdf w (snd (handleCopyPhrase ok w))"
| rs_copied: "register_step W kdf w (copy_expires w)"
| rs_acknowledge: "currentStep w = 3 \<Longrightarrow> register_step W kdf w (w\<lparr>hasConfirmedBackup := b\<rparr>)"
| rs_back: "currentStep w = 3 \<Longrightarrow> register_step W kdf w (w\<lparr>currentStep := 1\<rparr>)"
| rs_finalize: "currentStep w = 3 \<Longrightarrow> register_step W kdf w (handleFinalizeRegistration N search w)"

abbreviation register_steps :: "wasm_core \<Rightarrow> pbkdf2 \<Rightarrow> 'z register_state_scheme \<Rightarrow> 'z register_state_scheme \<Rightarrow> bool" where
  "register_steps W kdf \<equiv> (register_step W kdf)\<^sup>*\<^sup>*"

section \<open>Lemmas\<close>

definition body_text :: "string \<Rightarrow> request \<Rightarrow> string option" where
  "body_text k r = (case req_body r of Some (JsonBody j) \<Rightarrow> str_prop k j | _ \<Rightarrow> None)"

text \<open>What the page may send: nothing, the address, or the account as a ceremony made it.\<close>

definition registration_body :: "wasm_core \<Rightarrow> pbkdf2 \<Rightarrow> request \<Rightarrow> bool" where
  "registration_body W kdf r \<longleftrightarrow>
     req_body r = None
     \<or> (\<exists>em. req_body r = Some (JsonBody (JObj [(''email'', JStr em)])))
     \<or> (\<exists>em pw rnd d. snd (performCryptographicCeremony W kdf rnd em pw) = Inr d
          \<and> req_body r = Some (JsonBody (JObj ([(''email'', JStr (trim em)), (''password'', JStr (passwordVerifier d)),
               (''org_recovery_pk'', JStr (key_text (publicKey d)))]
               @ opt_prop ''wrapped_org_recovery_sk'' (Some (wrappedPrivateKey d)) @ opt_prop ''recovery_salt'' (Some (recoverySalt d))))))"

definition ceremony_bound :: "wasm_core \<Rightarrow> pbkdf2 \<Rightarrow> 'z register_state_scheme \<Rightarrow> bool" where
  "ceremony_bound W kdf w \<longleftrightarrow>
     currentStep w \<in> {1, 3, 4}
     \<and> (currentStep w \<noteq> 1 \<longrightarrow>
          (\<exists>rnd d. ceremonyData w = Some d
             \<and> snd (performCryptographicCeremony W kdf rnd (toLowerCase (trim (rg_email w))) (rg_password w)) = Inr d))
     \<and> list_all (registration_body W kdf) (sent w)"

lemma reports_fold:
  "\<exists>s p. fold (\<lambda>(status, percent) v. v\<lparr>generationStatus := status, generationProgress := percent\<rparr>) reports w =
     w\<lparr>generationStatus := s, generationProgress := p\<rparr>"
proof (induction reports arbitrary: w)
  case Nil
  have "w = w\<lparr>generationStatus := generationStatus w, generationProgress := generationProgress w\<rparr>" by simp
  then show ?case by (metis fold_simps(1))
next
  case (Cons x xs)
  obtain a b where x: "x = (a, b)" by (cases x)
  from Cons [of "w\<lparr>generationStatus := a, generationProgress := b\<rparr>"] show ?case by (simp add: x)
qed

lemma run_ceremony_cases:
  "\<exists>s p. run_ceremony W kdf rnd em w =
     (case snd (performCryptographicCeremony W kdf rnd em (rg_password w)) of
        Inl e \<Rightarrow> w\<lparr>generationStatus := s, generationProgress := p, rg_error := Some (err_message e), currentStep := 1\<rparr>
      | Inr d \<Rightarrow> w\<lparr>generationStatus := s, generationProgress := p, ceremonyData := Some d, currentStep := 3\<rparr>)"
proof (cases "performCryptographicCeremony W kdf rnd em (rg_password w)")
  case (Pair reports r)
  obtain s p where "fold (\<lambda>(status, percent) v. v\<lparr>generationStatus := status, generationProgress := percent\<rparr>) reports
      (w\<lparr>currentStep := 2, generationProgress := 10, generationStatus := ''Initializing WebAssembly Crypto Core'' @ ellipsis\<rparr>) =
      w\<lparr>currentStep := 2, generationStatus := s, generationProgress := p\<rparr>"
    using reports_fold [of reports "w\<lparr>currentStep := 2, generationProgress := 10, generationStatus := ''Initializing WebAssembly Crypto Core'' @ ellipsis\<rparr>"]
    by (auto simp del: append.simps)
  then show ?thesis
    by (intro exI [of _ s] exI [of _ p]) (simp add: Pair run_ceremony_def Let_def split: sum.split)
qed

lemma email_check_state:
  "snd (email_check N em w) = w\<lparr>sent := sent w @ [cp_request (cp_headers [(''Content-Type'', ''application/json'')]) ''POST''
     (api_base N @ ''/v1/auth/check-email'') True (Some (JsonBody (JObj [(''email'', JStr (trim em))]))) (localStorage w)]\<rparr>"
  by (simp add: email_check_def io_catch_def io_bind_def checkEmailAvailability_def json_call_def cp_call_eq split: sum.split)

lemma bound_begin:
  assumes "ceremony_bound W kdf w" "currentStep w = 1"
  shows "ceremony_bound W kdf (handleBeginCeremony N W kdf rnd w)"
proof (cases "form_error (w\<lparr>rg_error := None\<rparr>)")
  case (Some e)
  with assms show ?thesis by (simp add: handleBeginCeremony_def ceremony_bound_def)
next
  case None
  let ?em = "toLowerCase (trim (rg_email w))"
  let ?w = "w\<lparr>rg_error := None, networkLoading := True\<rparr>"
  obtain stop w1 where check: "email_check N ?em ?w = (stop, w1)" by (cases "email_check N ?em ?w")
  with email_check_state [of N ?em ?w]
  have w1: "currentStep w1 = currentStep w" "rg_email w1 = rg_email w" "rg_password w1 = rg_password w" "list_all (registration_body W kdf) (sent w1)"
    using assms(1) by (auto simp: ceremony_bound_def registration_body_def cp_request_def)
  obtain s p where "run_ceremony W kdf rnd ?em (w1\<lparr>networkLoading := False\<rparr>) =
     (case snd (performCryptographicCeremony W kdf rnd ?em (rg_password w)) of
        Inl e \<Rightarrow> w1\<lparr>networkLoading := False, generationStatus := s, generationProgress := p, rg_error := Some (err_message e), currentStep := 1\<rparr>
      | Inr d \<Rightarrow> w1\<lparr>networkLoading := False, generationStatus := s, generationProgress := p, ceremonyData := Some d, currentStep := 3\<rparr>)"
    using run_ceremony_cases [of W kdf rnd ?em "w1\<lparr>networkLoading := False\<rparr>"] w1(3) by auto
  with check None w1 assms(2) show ?thesis
    by (auto simp: handleBeginCeremony_def ceremony_bound_def Let_def split: sum.split option.split)
qed

definition account_request :: "net \<Rightarrow> string \<Rightarrow> ceremony_result \<Rightarrow> store \<Rightarrow> request" where
  "account_request N em d =
     cp_request (cp_headers [(''Content-Type'', ''application/json'')]) ''POST'' (api_base N @ ''/v1/auth/register'') True
       (Some (JsonBody (JObj ([(''email'', JStr (trim em)), (''password'', JStr (passwordVerifier d)),
          (''org_recovery_pk'', JStr (key_text (publicKey d)))]
          @ opt_prop ''wrapped_org_recovery_sk'' (Some (wrappedPrivateKey d)) @ opt_prop ''recovery_salt'' (Some (recoverySalt d))))))"

text \<open>Finishing sends one request, for the ceremony on display, and keeps the form.\<close>

lemma finalize_state:
  assumes "ceremonyData w = Some d" "hasConfirmedBackup w"
  shows "sent (handleFinalizeRegistration N search w) = sent w @ [account_request N (toLowerCase (trim (rg_email w))) d (localStorage w)]"
    and "currentStep (handleFinalizeRegistration N search w) \<in> {3, 4}"
    and "ceremonyData (handleFinalizeRegistration N search w) = Some d"
    and "rg_email (handleFinalizeRegistration N search w) = rg_email w"
    and "rg_password (handleFinalizeRegistration N search w) = rg_password w"
  using assms
  by (simp_all add: handleFinalizeRegistration_def register_def json_call_def cp_call_eq io_bind_def try_catch_def account_request_def Let_def
      split: sum.split del: append.simps)

lemma bound_finalize:
  assumes "ceremony_bound W kdf w" "currentStep w = 3"
  shows "ceremony_bound W kdf (handleFinalizeRegistration N search w)"
proof (cases "hasConfirmedBackup w")
  case True
  from assms obtain rnd d where d: "ceremonyData w = Some d"
    "snd (performCryptographicCeremony W kdf rnd (toLowerCase (trim (rg_email w))) (rg_password w)) = Inr d"
    by (auto simp: ceremony_bound_def)
  then have "registration_body W kdf (account_request N (toLowerCase (trim (rg_email w))) d (localStorage w))"
    unfolding registration_body_def account_request_def cp_request_def request.select_convs by blast
  with assms(1) d finalize_state [OF d(1) True, of N search] show ?thesis
    unfolding ceremony_bound_def by auto
next
  case False
  with assms show ?thesis by (simp add: handleFinalizeRegistration_def split: option.split)
qed

lemma bound_cong:
  assumes "ceremony_bound W kdf w" "currentStep v = currentStep w" "rg_email v = rg_email w" "rg_password v = rg_password w"
    and "ceremonyData v = ceremonyData w" "sent v = sent w @ rs" "list_all (\<lambda>r. req_body r = None) rs"
  shows "ceremony_bound W kdf v"
proof -
  have "list_all (registration_body W kdf) rs"
    using assms(7) by (auto simp: list_all_iff registration_body_def)
  with assms(1-6) show ?thesis by (simp add: ceremony_bound_def)
qed

lemma session_calls:
  "\<exists>rs. sent (register_onMount N w) = sent w @ rs \<and> list_all (\<lambda>r. req_body r = None) rs"
  "\<exists>rs. sent (register_signOut N w) = sent w @ rs \<and> list_all (\<lambda>r. req_body r = None) rs"
  unfolding register_onMount_def register_signOut_def me_def logout_cp_def
  by (rule try_catch_sends; (intro io_request)?; simp add: cp_request_def)+

lemma session_calls_keep:
  assumes "\<And>v rs. f (v\<lparr>sent := rs\<rparr>) = f v" "\<And>v u. f (v\<lparr>activeSessionUser := u\<rparr>) = f v" "\<And>v l. f (v\<lparr>localStorage := l\<rparr>) = f v"
  shows "f (register_onMount N w) = f w" "f (register_signOut N w) = f w"
  unfolding register_onMount_def register_signOut_def me_def logout_cp_def
  by (rule try_catch_keeps; (intro io_frame)?; simp add: assms)+

lemma session_frame:
  "currentStep (register_onMount N w) = currentStep w" "currentStep (register_signOut N w) = currentStep w"
  "rg_email (register_onMount N w) = rg_email w" "rg_email (register_signOut N w) = rg_email w"
  "rg_password (register_onMount N w) = rg_password w" "rg_password (register_signOut N w) = rg_password w"
  "ceremonyData (register_onMount N w) = ceremonyData w" "ceremonyData (register_signOut N w) = ceremonyData w"
  by (simp_all add: session_calls_keep [of currentStep] session_calls_keep [of rg_email] session_calls_keep [of rg_password]
      session_calls_keep [of ceremonyData])

lemma bound_step: "register_step W kdf w v \<Longrightarrow> ceremony_bound W kdf w \<Longrightarrow> ceremony_bound W kdf v"
proof (induction rule: register_step.induct)
  case (rs_mount w N)
  from session_calls(1) [of N w] obtain rs where rs: "sent (register_onMount N w) = sent w @ rs" "list_all (\<lambda>r. req_body r = None) rs" by blast
  show ?case by (rule bound_cong [OF rs_mount(1) _ _ _ _ rs]) (rule session_frame)+
next
  case (rs_signOut w N)
  from session_calls(2) [of N w] obtain rs where rs: "sent (register_signOut N w) = sent w @ rs" "list_all (\<lambda>r. req_body r = None) rs" by blast
  show ?case by (rule bound_cong [OF rs_signOut(2) _ _ _ _ rs]) (rule session_frame)+
next
  case (rs_copy w ok)
  then show ?case by (auto simp: handleCopyPhrase_def ceremony_bound_def split: option.split)
next
  case rs_begin
  then show ?case by (intro bound_begin)
next
  case rs_finalize
  then show ?case by (intro bound_finalize)
qed (auto simp: ceremony_bound_def copy_expires_def)

lemma bound_steps: "register_steps W kdf w v \<Longrightarrow> ceremony_bound W kdf w \<Longrightarrow> ceremony_bound W kdf v"
  by (induction rule: rtranclp_induct) (auto intro: bound_step)

text \<open>A new ceremony, with a new phrase, keeps the acknowledgement given for the phrase before.\<close>

theorem ceremony_keeps_acknowledgement: "hasConfirmedBackup (handleBeginCeremony N W kdf rnd w) = hasConfirmedBackup w"
proof -
  let ?em = "toLowerCase (trim (rg_email w))"
  have run: "hasConfirmedBackup (run_ceremony W kdf rnd em v) = hasConfirmedBackup v" for em and v :: "'a register_state_scheme"
  proof -
    obtain s p where "run_ceremony W kdf rnd em v =
       (case snd (performCryptographicCeremony W kdf rnd em (rg_password v)) of
          Inl e \<Rightarrow> v\<lparr>generationStatus := s, generationProgress := p, rg_error := Some (err_message e), currentStep := 1\<rparr>
        | Inr d \<Rightarrow> v\<lparr>generationStatus := s, generationProgress := p, ceremonyData := Some d, currentStep := 3\<rparr>)"
      using run_ceremony_cases [of W kdf rnd em v] by blast
    then show ?thesis by (simp split: sum.split)
  qed
  show ?thesis
    by (cases "email_check N ?em (w\<lparr>rg_error := None, networkLoading := True\<rparr>)")
      (use email_check_state [of N ?em "w\<lparr>rg_error := None, networkLoading := True\<rparr>"] in
        \<open>auto simp: handleBeginCeremony_def Let_def run split: option.split sum.split\<close>)
qed

section \<open>Properties\<close>





end
