(* ===== verification/Recovery_Page.thy ===== *)
theory Recovery_Page
  imports Control_Session
begin

text \<open>
  Recovery material and root keys: \<open>apps/control-plane/src/routes/dashboard/recovery.tsx\<close>. Generating and checking a
  phrase, enrolling its public verifier, recovering an account with a signature, rotating the root of a private or an
  organization-managed mailbox, and the recovery principals.

  The two functions of the core that derive and use the verifier are the parameter \<open>auth_core\<close>; the page checks that
  they exist. The organization's identifier is an argument, a chosen file is its text, and the randomness of each handler is
  an argument. Copying returns the text that reaches the clipboard.
\<close>

section \<open>State\<close>

record auth_core =
  recovery_auth_pk_from_root :: "(string \<Rightarrow> js_error + string) option"
  recovery_auth_sign :: "(string \<Rightarrow> string \<Rightarrow> js_error + string) option"

record recovery_state = world +
  rc_tab :: string
  rc_mnemonic :: "string option"
  phraseVerified :: bool
  phraseCopied :: bool
  phraseError :: "string option"
  enrollMnemonic :: string
  enrollBusy :: bool
  enrollDone :: bool
  enrollError :: "string option"
  recoverEmail :: string
  recoverMnemonic :: string
  recoverBusy :: bool
  recoverError :: "string option"
  recoverDone :: bool
  rc_newPassword :: string
  pwBusy :: bool
  pwError :: "string option"
  pwDone :: bool
  rotBoxId :: string
  rotMode :: "string option"
  rotLoading :: bool
  rotMnemonic :: string
  rotBusy :: bool
  rotError :: "string option"
  rotVersion :: "json option"
  rotNewMnemonic :: "string option"
  rotCopied :: bool
  rotSkFile :: "string option"
  princList :: "json list"
  princMembers :: "json list"
  princLoading :: bool
  princError :: "string option"
  princNotice :: "string option"
  princUserId :: string
  princName :: string
  princPass :: string
  princFile :: "string option"
  princBusy :: bool

definition challengeMessage :: "string \<Rightarrow> string" where
  "challengeMessage challengeId = ''byos-recovery-v1:challenge:'' @ challengeId"

text \<open>A property used as a string.\<close>

abbreviation shown :: "json option \<Rightarrow> string" where
  "shown v \<equiv> (case v of Some j \<Rightarrow> to_text j | None \<Rightarrow> ''undefined'')"

section \<open>Phrases\<close>

definition handleGenerate :: "wasm_core \<Rightarrow> byte list \<Rightarrow> 'z recovery_state_scheme \<Rightarrow> 'z recovery_state_scheme" where
  "handleGenerate W rnd w0 =
     (let w = w0\<lparr>phraseError := None, phraseVerified := False, phraseCopied := False\<rparr>
      in case wasm_generate_mnemonic W rnd of
           Inl e \<Rightarrow> w\<lparr>phraseError := Some (err_message e)\<rparr>
         | Inr m \<Rightarrow> w\<lparr>rc_mnemonic := Some m\<rparr>)"

definition rc_handleCopy :: "bool \<Rightarrow> 'z recovery_state_scheme \<Rightarrow> string option \<times> 'z recovery_state_scheme" where
  "rc_handleCopy allowed w =
     (case rc_mnemonic w of
        None \<Rightarrow> (None, w)
      | Some m \<Rightarrow> if m = [] then (None, w)
                  else if allowed then (Some m, w\<lparr>phraseCopied := True\<rparr>)
                  else (None, w\<lparr>phraseError := Some ''Clipboard not available, please copy manually''\<rparr>))"

definition clearPhrase :: "'z recovery_state_scheme \<Rightarrow> 'z recovery_state_scheme" where
  "clearPhrase w = w\<lparr>rc_mnemonic := None, phraseVerified := False\<rparr>"

text \<open>The check of a phrase: a test key wrapped under its root opens again, and not under another identifier.\<close>

definition verify_phrase :: "wasm_core \<Rightarrow> byte list \<Rightarrow> byte list \<Rightarrow> string \<Rightarrow> byte list \<Rightarrow> string \<Rightarrow> js_error + unit" where
  "verify_phrase W rndKp rndWrap uuid wrong m =
     bind_err (wasm_recover_root_secret W m) (\<lambda>recovered.
     bind_err (bind_err (bind_err (wasm_generate_keypair W rndKp) js_parse) (\<lambda>kp. need (Some kp))) (\<lambda>kp.
     bind_err (string_arg (jprop ''secret_key'' kp)) (\<lambda>sk.
     let testId = filter (\<lambda>c. c \<noteq> CHR ''-'') uuid
     in bind_err (wasm_wrap_mailbox_key W rndWrap recovered sk testId) (\<lambda>wrapped.
        bind_err (wasm_unwrap_mailbox_key W recovered wrapped testId) (\<lambda>unwrapped.
        if toLowerCase unwrapped \<noteq> toLowerCase sk then throw_msg ''unwrap mismatch''
        else if is_ok (wasm_unwrap_mailbox_key W recovered wrapped (bytesToHex_cp wrong)) then throw_msg ''wrong id should fail''
        else Inr ())))))"

definition rc_handleVerify ::
  "wasm_core \<Rightarrow> byte list \<Rightarrow> byte list \<Rightarrow> string \<Rightarrow> byte list \<Rightarrow> 'z recovery_state_scheme \<Rightarrow> 'z recovery_state_scheme" where
  "rc_handleVerify W rndKp rndWrap uuid wrong w =
     (case rc_mnemonic w of
        None \<Rightarrow> w
      | Some m \<Rightarrow>
          if m = [] then w
          else (case verify_phrase W rndKp rndWrap uuid wrong m of
                  Inl e \<Rightarrow> w\<lparr>phraseError := Some (err_message e), phraseVerified := False\<rparr>
                | Inr _ \<Rightarrow> w\<lparr>phraseError := None, phraseVerified := True\<rparr>))"

section \<open>The verifier and account recovery\<close>

text \<open>\<open>hex.match(/.{2}/g)!\<close>, each pair parsed, then \<open>btoa\<close>: \<open>null\<close> has no \<open>map\<close>.\<close>

fun match_two :: "string \<Rightarrow> string list" where
  "match_two (c # d # r) =
     (if is_line_end c then match_two (d # r) else if is_line_end d then match_two r else [c, d] # match_two r)"
| "match_two _ = []"

definition hexToB64 :: "string \<Rightarrow> js_error + string" where
  "hexToB64 hex =
     (case match_two hex of
        [] \<Rightarrow> throw_msg ''TypeError''
      | ps \<Rightarrow> Inr (btoa (binary_of_bytes (map (\<lambda>b. toUint8 (parseInt16 b)) ps))))"

definition handleEnroll :: "net \<Rightarrow> wasm_core \<Rightarrow> auth_core \<Rightarrow> 'z recovery_state_scheme \<Rightarrow> 'z recovery_state_scheme" where
  "handleEnroll N W A w0 =
     (let w = w0\<lparr>enrollError := None\<rparr>; words = trim (enrollMnemonic w)
      in if words = [] then w\<lparr>enrollError := Some ''Enter your recovery phrase.''\<rparr>
         else (try_catch (\<lambda>e v. v\<lparr>enrollError := Some (err_message e)\<rparr>)
             (io_bind (io_lift (
                bind_err (wasm_recover_root_secret W words) (\<lambda>rootHex.
                case recovery_auth_pk_from_root A of
                  None \<Rightarrow> throw_msg ''Crypto core too old: rebuild bindings for recovery enrollment.''
                | Some pk_from_root \<Rightarrow> bind_err (pk_from_root rootHex) hexToB64))) (\<lambda>pkB64.
              io_bind (enrollRecovery N pkB64) (\<lambda>_.
              io_modify (\<lambda>v. v\<lparr>enrollDone := True, enrollMnemonic := []\<rparr>))))
             (w\<lparr>enrollBusy := True\<rparr>))\<lparr>enrollBusy := False\<rparr>)"

definition handleRecover :: "net \<Rightarrow> wasm_core \<Rightarrow> auth_core \<Rightarrow> 'z recovery_state_scheme \<Rightarrow> 'z recovery_state_scheme" where
  "handleRecover N W A w0 =
     (let w = w0\<lparr>recoverError := None\<rparr>; email = trim (recoverEmail w); words = trim (recoverMnemonic w)
      in if email = [] \<or> words = [] then w\<lparr>recoverError := Some ''Enter your account email and recovery phrase.''\<rparr>
         else (try_catch (\<lambda>e v. v\<lparr>recoverError := Some (err_message e), recoverDone := False\<rparr>)
             (io_bind (getRecoveryChallenge N email) (\<lambda>r.
              io_bind (io_lift (wasm_recover_root_secret W words)) (\<lambda>rootHex.
              case recovery_auth_sign A of
                None \<Rightarrow> io_throw ''Crypto core too old: rebuild bindings for account recovery.''
              | Some sign \<Rightarrow>
                  io_bind (io_lift (need (Some r))) (\<lambda>ch.
                  let challengeId = shown (jprop ''challenge_id'' ch)
                  in io_bind (io_lift (bind_err (sign rootHex (bytesToHex_cp (utf8_encode (challengeMessage challengeId)))) hexToBytes_cp)) (\<lambda>sig.
                     io_bind (verifyRecovery N challengeId (bytesToBase64 sig)) (\<lambda>_.
                     io_modify (\<lambda>v. v\<lparr>recoverDone := True, recoverMnemonic := []\<rparr>)))))))
             (w\<lparr>recoverBusy := True\<rparr>))\<lparr>recoverBusy := False\<rparr>)"

definition rc_handleChangePassword :: "net \<Rightarrow> 'z recovery_state_scheme \<Rightarrow> 'z recovery_state_scheme" where
  "rc_handleChangePassword N w0 =
     (let w = w0\<lparr>pwError := None\<rparr>; pw = rc_newPassword w
      in if length pw < 8 \<or> 128 < length pw then w\<lparr>pwError := Some ''Password must be 8-128 characters.''\<rparr>
         else (try_catch (\<lambda>e v. v\<lparr>pwError := Some (err_message e)\<rparr>)
             (io_bind (changePassword N pw) (\<lambda>_. io_modify (\<lambda>v. v\<lparr>pwDone := True, rc_newPassword := []\<rparr>)))
             (w\<lparr>pwBusy := True\<rparr>))\<lparr>pwBusy := False\<rparr>)"

section \<open>Rotation of the root\<close>

definition set_rotBoxId :: "string \<Rightarrow> 'z recovery_state_scheme \<Rightarrow> 'z recovery_state_scheme" where
  "set_rotBoxId s w = w\<lparr>rotBoxId := s, rotMode := None\<rparr>"

definition handleLoadRotBox :: "net \<Rightarrow> 'z recovery_state_scheme \<Rightarrow> 'z recovery_state_scheme" where
  "handleLoadRotBox N w0 =
     (let w = w0\<lparr>rotError := None, rotMode := None\<rparr>; i = trim (rotBoxId w)
      in if i = [] then w\<lparr>rotError := Some ''Enter a mailbox ID.''\<rparr>
         else (try_catch (\<lambda>e v. v\<lparr>rotError := Some (err_message e)\<rparr>)
             (io_bind (getMailbox N i) (\<lambda>r. io_bind (io_lift (need (Some r))) (\<lambda>box.
              io_modify (\<lambda>v. v\<lparr>rotMode := str_prop ''mode'' box\<rparr>))))
             (w\<lparr>rotLoading := True\<rparr>))\<lparr>rotLoading := False\<rparr>)"

definition hexOfB64 :: "string \<Rightarrow> js_error + string" where
  "hexOfB64 b64 = bind_err (atob (trim b64)) (\<lambda>bin. Inr (concat (map hex_byte (bytes_of_binary bin))))"

record rotate_random =
  rr_mnemonic :: "byte list"
  rr_entropy :: "byte list"
  rr_seal :: "byte list"
  rr_wrap :: "byte list"

text \<open>The local part of the private rotation: the key opened under the old root, the new phrase and root, and the check of a
  wrap under the new root.\<close>

definition reanchor :: "wasm_core \<Rightarrow> rotate_random \<Rightarrow> string \<Rightarrow> string \<Rightarrow> string \<Rightarrow> js_error + string \<times> string" where
  "reanchor W R words wrappedB64 boxIdHex =
     bind_err (wasm_recover_root_secret W words) (\<lambda>oldRoot.
     bind_err (hexOfB64 wrappedB64) (\<lambda>wrappedHex.
     bind_err (wasm_unwrap_mailbox_key W oldRoot wrappedHex boxIdHex) (\<lambda>skHex.
     bind_err (wasm_generate_mnemonic W (rr_mnemonic R)) (\<lambda>newMnemonic.
     bind_err (wasm_recover_root_secret W newMnemonic) (\<lambda>newRoot.
     bind_err (wasm_wrap_mailbox_key W (rr_wrap R) newRoot skHex boxIdHex) (\<lambda>sanityWrap.
     bind_err (wasm_unwrap_mailbox_key W newRoot sanityWrap boxIdHex) (\<lambda>sanityOpen.
     if toLowerCase sanityOpen \<noteq> toLowerCase skHex then throw_msg ''Re-wrap sanity check failed.''
     else Inr (newMnemonic, newRoot))))))))"

text \<open>The body of the \<open>try\<close> block.\<close>

definition rotate_steps ::
  "net \<Rightarrow> wasm_core \<Rightarrow> auth_core \<Rightarrow> rotate_random \<Rightarrow> string \<Rightarrow> string \<Rightarrow> string \<Rightarrow> ('z recovery_state_ext, unit) io" where
  "rotate_steps N W A R orgId boxId words =
     io_bind (getMailbox N boxId) (\<lambda>r.
     io_bind (io_lift (need (Some r))) (\<lambda>box.
     if str_prop ''mode'' box \<noteq> Some ''private''
     then io_throw ''This client flow covers private mailboxes only; org-managed rotation needs the org-recovery ceremony.''
     else if text_prop ''mailbox_sk_wrapped'' box = [] then io_throw ''Mailbox wrapped key unavailable.''
     else io_bind (io_lift (reanchor W R words (text_prop ''mailbox_sk_wrapped'' box) (filter (\<lambda>c. c \<noteq> CHR ''-'') boxId)))
            (\<lambda>(newMnemonic, newRoot).
          io_bind (rotateRoot N orgId boxId None) (\<lambda>res.
          io_bind (io_lift (case recovery_auth_pk_from_root A of
                              None \<Rightarrow> throw_msg ''TypeError''
                            | Some pk_from_root \<Rightarrow> bind_err (pk_from_root newRoot) hexToB64)) (\<lambda>pkB64.
          io_bind (enrollRecovery N pkB64) (\<lambda>_.
          io_bind (io_lift (need (Some res))) (\<lambda>rotated.
          io_modify (\<lambda>v. v\<lparr>rotVersion := jprop ''version'' rotated, rotNewMnemonic := Some newMnemonic, rotMnemonic := []\<rparr>))))))))"

definition handleRotate :: "net \<Rightarrow> wasm_core \<Rightarrow> auth_core \<Rightarrow> rotate_random \<Rightarrow> string \<Rightarrow> 'z recovery_state_scheme \<Rightarrow> 'z recovery_state_scheme" where
  "handleRotate N W A R orgId w0 =
     (let w = w0\<lparr>rotError := None\<rparr>; boxId = trim (rotBoxId w); words = trim (rotMnemonic w)
      in if boxId = [] \<or> words = [] \<or> orgId = []
         then w\<lparr>rotError := Some ''Mailbox ID, current phrase, and organization context are required.''\<rparr>
         else (try_catch (\<lambda>e v. v\<lparr>rotError := Some (err_message e), rotVersion := None, rotNewMnemonic := None\<rparr>)
                 (rotate_steps N W A R orgId boxId words) (w\<lparr>rotBusy := True\<rparr>))\<lparr>rotBusy := False\<rparr>)"

definition handleRotCopy :: "bool \<Rightarrow> 'z recovery_state_scheme \<Rightarrow> string option \<times> 'z recovery_state_scheme" where
  "handleRotCopy allowed w =
     (case rotNewMnemonic w of
        None \<Rightarrow> (None, w)
      | Some m \<Rightarrow> if m = [] then (None, w)
                  else if allowed then (Some m, w\<lparr>rotCopied := True\<rparr>)
                  else (None, w\<lparr>rotError := Some ''Clipboard not available, please copy manually''\<rparr>))"

text \<open>The two buttons that close a finished rotation.\<close>

definition rotation_done_private :: "'z recovery_state_scheme \<Rightarrow> 'z recovery_state_scheme" where
  "rotation_done_private w =
     w\<lparr>rotNewMnemonic := None, rotVersion := None, rotBoxId := [], rotMode := None, rotMnemonic := [], rotSkFile := None\<rparr>"

definition rotation_done_org :: "'z recovery_state_scheme \<Rightarrow> 'z recovery_state_scheme" where
  "rotation_done_org w = w\<lparr>rotVersion := None, rotBoxId := [], rotMode := None, rotSkFile := None\<rparr>"

text \<open>The ceremony for an organization-managed mailbox: the key is recovered with the organization's secret, a new root is sealed
  to the organization's key, both the seal and a new wrap are checked, and the seal is sent.\<close>

definition reseal :: "wasm_core \<Rightarrow> rotate_random \<Rightarrow> string \<Rightarrow> string \<Rightarrow> string \<Rightarrow> string \<Rightarrow> string \<Rightarrow> js_error + string" where
  "reseal W R orgSkHex orgPkHex newRoot skHex boxIdHex =
     bind_err (wasm_hpke_seal W (rr_seal R) orgPkHex newRoot []) (\<lambda>sealHex.
     bind_err (wasm_hpke_open W orgSkHex sealHex []) (\<lambda>openedRoot.
     if toLowerCase openedRoot \<noteq> toLowerCase newRoot then throw_msg ''Seal sanity check failed.''
     else bind_err (wasm_wrap_mailbox_key W (rr_wrap R) newRoot skHex boxIdHex) (\<lambda>newWrap.
          bind_err (wasm_unwrap_mailbox_key W newRoot newWrap boxIdHex) (\<lambda>sanityOpen.
          if toLowerCase sanityOpen \<noteq> toLowerCase skHex then throw_msg ''Re-wrap sanity check failed.''
          else Inr sealHex))))"

definition rotate_org_steps ::
  "net \<Rightarrow> wasm_core \<Rightarrow> rotate_random \<Rightarrow> string \<Rightarrow> string \<Rightarrow> string \<Rightarrow> ('z recovery_state_ext, unit) io" where
  "rotate_org_steps N W R orgId boxId orgSkHex =
     (if orgSkHex = [] then io_throw ''Recovery secret file is empty.''
      else io_bind (getMailbox N boxId) (\<lambda>r.
           io_bind (io_lift (need (Some r))) (\<lambda>box.
           if str_prop ''mode'' box \<noteq> Some ''org_managed'' then io_throw ''This ceremony is for org-managed mailboxes only.''
           else io_bind (recoverMailboxSecret N W orgId boxId orgSkHex) (\<lambda>skHex.
                io_bind (io_lift (wasm_derive_root_secret W (bytesToHex_cp (rr_entropy R)))) (\<lambda>newRoot.
                io_bind (fetchOrgRecoveryPkHex N orgId) (\<lambda>orgPkHex.
                io_bind (io_lift (reseal W R orgSkHex orgPkHex newRoot skHex (filter (\<lambda>c. c \<noteq> CHR ''-'') boxId))) (\<lambda>sealHex.
                io_bind (rotateRoot N orgId boxId (Some sealHex)) (\<lambda>res.
                io_bind (io_lift (need (Some res))) (\<lambda>rotated.
                io_modify (\<lambda>v. v\<lparr>rotVersion := jprop ''version'' rotated, rotNewMnemonic := None, rotSkFile := None\<rparr>))))))))))"

definition handleRotateOrgManaged ::
  "net \<Rightarrow> wasm_core \<Rightarrow> rotate_random \<Rightarrow> string \<Rightarrow> 'z recovery_state_scheme \<Rightarrow> 'z recovery_state_scheme" where
  "handleRotateOrgManaged N W R orgId w0 =
     (let w = w0\<lparr>rotError := None\<rparr>; boxId = trim (rotBoxId w)
      in case rotSkFile w of
           None \<Rightarrow> w\<lparr>rotError := Some ''Mailbox ID, recovery secret file, and organization context are required.''\<rparr>
         | Some file \<Rightarrow>
             if boxId = [] \<or> orgId = [] then w\<lparr>rotError := Some ''Mailbox ID, recovery secret file, and organization context are required.''\<rparr>
             else (try_catch (\<lambda>e v. v\<lparr>rotError := Some (err_message e), rotVersion := None\<rparr>)
                     (rotate_org_steps N W R orgId boxId (trim file)) (w\<lparr>rotBusy := True\<rparr>))\<lparr>rotBusy := False\<rparr>)"

section \<open>Recovery principals\<close>

definition first_owner :: "json list \<Rightarrow> json option" where
  "first_owner ms =
     (case find (\<lambda>m. str_prop ''role'' m = Some ''owner'') ms of
        Some m \<Rightarrow> Some m
      | None \<Rightarrow> (case ms of [] \<Rightarrow> None | m # _ \<Rightarrow> Some m))"

definition refreshPrincipals :: "net \<Rightarrow> string \<Rightarrow> 'z recovery_state_scheme \<Rightarrow> 'z recovery_state_scheme" where
  "refreshPrincipals N orgId w =
     (if orgId = [] then w
      else (try_catch (\<lambda>e v. v\<lparr>princError := Some (err_message e)\<rparr>)
        (io_bind (both (listPrincipals N orgId) (getMembers N)) (\<lambda>(ps, r).
         case r of
           Some (JArr ms) \<Rightarrow>
             io_modify (\<lambda>v. let v1 = v\<lparr>princList := ps, princMembers := ms\<rparr>
                            in if princUserId v1 = [] then (case first_owner ms of Some m \<Rightarrow> v1\<lparr>princUserId := text_prop ''id'' m\<rparr> | None \<Rightarrow> v1) else v1)
         | _ \<Rightarrow> io_throw ''TypeError''))
        (w\<lparr>princLoading := True, princError := None\<rparr>))\<lparr>princLoading := False\<rparr>)"

definition memberEmail :: "'z recovery_state_scheme \<Rightarrow> string \<Rightarrow> string" where
  "memberEmail w i =
     (case find (\<lambda>m. str_prop ''id'' m = Some i) (princMembers w) of
        Some m \<Rightarrow> (case str_prop ''email'' m of Some e \<Rightarrow> e | None \<Rightarrow> i)
      | None \<Rightarrow> i)"

definition set_rc_tab :: "net \<Rightarrow> string \<Rightarrow> string \<Rightarrow> 'z recovery_state_scheme \<Rightarrow> 'z recovery_state_scheme" where
  "set_rc_tab N orgId t w =
     (let w1 = w\<lparr>rc_tab := t\<rparr> in if t = ''principals'' then refreshPrincipals N orgId w1 else w1)"

definition principal_payload :: "string \<Rightarrow> string \<Rightarrow> string \<Rightarrow> string \<Rightarrow> string \<Rightarrow> json" where
  "principal_payload userId name salt sealed pk =
     JObj [(''user_id'', JStr userId), (''principal_name'', JStr name), (''kdf_algorithm'', JStr ''argon2id''), (''kdf_version'', JNum 1),
           (''kdf_salt'', JStr salt), (''kdf_memory'', JNum 65536), (''kdf_iterations'', JNum 3), (''kdf_parallelism'', JNum 2),
           (''org_recovery_sk_encrypted'', JStr sealed), (''org_recovery_pk'', JStr pk)]"

text \<open>The local part: the secret wrapped under the passphrase, and opened again before anything is sent.\<close>

definition wrap_principal :: "wasm_core \<Rightarrow> byte list \<Rightarrow> byte list \<Rightarrow> string \<Rightarrow> string \<Rightarrow> js_error + string \<times> string" where
  "wrap_principal W salt rnd pass file =
     (let skHex = trim file; saltHex = bytesToHex_cp (take 16 salt)
      in if \<not> is_key_hex skHex then throw_msg ''Secret file must hold 64 hex chars.''
         else bind_err (wasm_passphrase_wrap_key W rnd pass saltHex skHex) (\<lambda>wrappedHex.
              bind_err (wasm_passphrase_unwrap_key W pass saltHex wrappedHex) (\<lambda>checkHex.
              if toLowerCase checkHex \<noteq> toLowerCase skHex then throw_msg ''Wrap sanity check failed.''
              else Inr (saltHex, wrappedHex))))"

definition handleEnrollPrincipal ::
  "net \<Rightarrow> wasm_core \<Rightarrow> byte list \<Rightarrow> byte list \<Rightarrow> string \<Rightarrow> 'z recovery_state_scheme \<Rightarrow> 'z recovery_state_scheme" where
  "handleEnrollPrincipal N W salt rnd orgId w0 =
     (let w = w0\<lparr>princError := None, princNotice := None\<rparr>; name = trim (princName w)
      in case princFile w of
           None \<Rightarrow> w\<lparr>princError := Some ''Member, principal name, and org secret file are required.''\<rparr>
         | Some file \<Rightarrow>
           if orgId = [] \<or> princUserId w = [] \<or> name = []
           then w\<lparr>princError := Some ''Member, principal name, and org secret file are required.''\<rparr>
           else if length (princPass w) < 8 \<or> 128 < length (princPass w) then w\<lparr>princError := Some ''Passphrase must be 8-128 characters.''\<rparr>
           else (try_catch (\<lambda>e v. v\<lparr>princError := Some (err_message e)\<rparr>)
             (io_bind (io_lift (wrap_principal W salt rnd (princPass w) file)) (\<lambda>(saltHex, wrappedHex).
              io_bind (cp_call N (plain_headers []) ''GET'' (api_base N @ ''/v1/organizations/'' @ orgId) True None
                (\<lambda>st ct t. if \<not> resp_ok st then throw_msg ''Could not read organization record.'' else resp_json t)) (\<lambda>orgData.
              io_bind (io_lift (access ''org_recovery_pk'' orgData)) (\<lambda>pk.
              if \<not> truthy pk then io_throw ''Organization has no recovery public key.''
              else io_bind (io_lift (bind_err (hexToB64 saltHex) (\<lambda>s. bind_err (hexToB64 wrappedHex) (\<lambda>e. Inr (s, e))))) (\<lambda>(s, e).
                   io_bind (enrollPrincipal N orgId (principal_payload (princUserId w) name s e (shown pk))) (\<lambda>_.
                   io_modify (\<lambda>v. refreshPrincipals N orgId (v\<lparr>princNotice := Some (''Principal \"'' @ name @ ''\" enrolled.''),
                     princName := [], princPass := [], princFile := None\<rparr>)))))))) 
             (w\<lparr>princBusy := True\<rparr>))\<lparr>princBusy := False\<rparr>)"

definition handleRevokePrincipal ::
  "net \<Rightarrow> bool \<Rightarrow> string \<Rightarrow> string \<Rightarrow> string \<Rightarrow> 'z recovery_state_scheme \<Rightarrow> 'z recovery_state_scheme" where
  "handleRevokePrincipal N confirmed orgId i name w =
     (if orgId = [] \<or> \<not> confirmed then w
      else try_catch (\<lambda>e v. v\<lparr>princError := Some (err_message e)\<rparr>)
        (io_bind (revokePrincipal N orgId i) (\<lambda>_.
         io_modify (\<lambda>v. refreshPrincipals N orgId (v\<lparr>princNotice := Some (''Principal \"'' @ name @ ''\" revoked.'')\<rparr>))))
        (w\<lparr>princError := None\<rparr>))"

definition handleCopyEnvelope :: "net \<Rightarrow> bool \<Rightarrow> string \<Rightarrow> string \<Rightarrow> 'z recovery_state_scheme \<Rightarrow> string option \<times> 'z recovery_state_scheme" where
  "handleCopyEnvelope N allowed orgId i w =
     (if orgId = [] then (None, w)
      else case (io_bind (getPrincipal N orgId i) (\<lambda>r.
                 io_bind (io_lift (need r)) (\<lambda>full.
                 let sealed = text_prop ''org_recovery_sk_encrypted'' full
                 in if sealed = [] then io_throw ''No ciphertext on record.''
                    else if \<not> allowed then io_throw ''NotAllowedError''
                    else io_return sealed))) (w\<lparr>princError := None\<rparr>) of
             (Inl e, v) \<Rightarrow> (None, v\<lparr>princError := Some (err_message e)\<rparr>)
           | (Inr s, v) \<Rightarrow> (Some s, v\<lparr>princNotice := Some (''Envelope copied '' @ em_dash @ '' decrypt it locally with the principal passphrase.'')\<rparr>))"

section \<open>Lemmas\<close>

text \<open>A wrap of a mailbox key opens under no other root.\<close>

definition root_bound :: "wasm_core \<Rightarrow> bool" where
  "root_bound W \<longleftrightarrow>
     (\<forall>rnd rt sk mid e rt'. wasm_wrap_mailbox_key W rnd rt sk mid = Inr e \<longrightarrow> rt' \<noteq> rt \<longrightarrow> \<not> is_ok (wasm_unwrap_mailbox_key W rt' e mid))"

lemma match_two_hex: "match_two (bytesToHex bs) = map hex_byte bs"
proof (induction bs)
  case (Cons b bs)
  have "\<not> is_line_end (digit_char (unat b div 16))" "\<not> is_line_end (digit_char (unat b mod 16))"
    using unat_byte_lt [of b] by (auto intro!: lower_hex_not_line_end lower_hex_digit_char)
  with Cons show ?case by (simp add: bytesToHex_Cons hex_byte_eq)
qed simp

lemma parse_hex_byte: "toUint8 (parseInt16 (hex_byte b)) = b"
  using hexToBytes_loop_bytesToHex [of "[b]"] by (simp add: bytesToHex_Cons hex_byte_eq)

lemma hexToB64_bytes: "bs \<noteq> [] \<Longrightarrow> hexToB64 (bytesToHex bs) = Inr (bytesToBase64 bs)"
  by (cases bs) (simp_all add: hexToB64_def match_two_hex bytesToBase64_eq parse_hex_byte comp_def)

lemma hexOfB64_eq: "hexOfB64 b = bind_err (base64ToBytes b) (\<lambda>bs. Inr (bytesToHex bs))"
  by (cases "atob (trim b)") (simp_all add: hexOfB64_def base64ToBytes_def bytesToHex_eq)

lemma request_body: "req_body (cp_request hdr meth url creds bdy local) = bdy"
  by (simp add: cp_request_def)

lemma mailbox_request_sends:
  "mailbox_request N path meth bdy w = (r, w') \<Longrightarrow>
     w' = w\<lparr>sent := sent w @ [cp_request (org_headers N) meth (api_base N @ path) True bdy (localStorage w)]\<rparr>"
  by (simp add: mailbox_request_def cp_call_eq)

lemma json_call_sends:
  "json_call N hdr meth url creds bdy fallback w = (r, w') \<Longrightarrow>
     w' = w\<lparr>sent := sent w @ [cp_request hdr meth url creds bdy (localStorage w)]\<rparr>"
  by (simp add: json_call_def cp_call_eq)

lemma rotate_steps_ok:
  fixes w :: "'z recovery_state_scheme"
  assumes "rotate_steps N W A R orgId boxId words w = (Inr (), w')"
    and "answers_at N ''GET'' (''/v1/mailboxes/'' @ boxId) box" "wf_json box"
  shows "\<exists>m rt pk. reanchor W R words (text_prop ''mailbox_sk_wrapped'' box) (filter (\<lambda>c. c \<noteq> CHR ''-'') boxId) = Inr (m, rt)
    \<and> rotNewMnemonic w' = Some m
    \<and> (\<exists>q1 q2 q3. sent w' = sent w @ [q1, q2, q3] \<and> req_body q1 = None \<and> req_body q2 = Some (JsonBody (JObj []))
         \<and> req_body q3 = Some (JsonBody (JObj [(''recovery_auth_pk'', JStr pk)])))"
proof -
  from assms(1) obtain m rt res w2 pk r3 w3 where
    re: "reanchor W R words (text_prop ''mailbox_sk_wrapped'' box) (filter (\<lambda>c. c \<noteq> CHR ''-'') boxId) = Inr (m, rt)"
    and rot: "rotateRoot N orgId boxId None (w\<lparr>sent := sent w @
        [cp_request (org_headers N) ''GET'' (api_base N @ ''/v1/mailboxes/'' @ boxId) True None (localStorage w)]\<rparr>) = (Inr res, w2)"
    and enr: "enrollRecovery N pk w2 = (Inr r3, w3)" and fin: "rotNewMnemonic w' = Some m" "sent w' = sent w3"
    by (auto simp: rotate_steps_def getMailbox_def mailbox_request_json [OF assms(2,3)] io_bind_Inr need_Some split: if_splits
        simp del: io_bind_lift io_bind_gets io_bind_modify append.simps)
  note w2 = mailbox_request_sends [OF rot [unfolded rotateRoot_def]] and w3 = json_call_sends [OF enr [unfolded enrollRecovery_def]]
  from re fin show ?thesis
    by (intro exI [of _ m] exI [of _ rt] exI [of _ pk]) (simp add: w2 w3 cp_request_def opt_prop_def)
qed

lemma unlock_other_root:
  assumes "root_bound W" "wasm_wrap_mailbox_key W rnd oldRoot skHex mid = Inr (bytesToHex s)" "mailboxIdHex boxId = Inr mid"
    and "wasm_recover_root_secret W m = Inr newRoot" "newRoot \<noteq> oldRoot" "trim m = m" "\<not> is_key_hex m"
  shows "\<not> is_ok (unlockMailboxKey W m boxId (bytesToBase64 s))"
proof -
  have "\<not> is_ok (wasm_unwrap_mailbox_key W newRoot (bytesToHex s) mid)"
    using assms(1,2,5) unfolding root_bound_def by blast
  then obtain e where "wasm_unwrap_mailbox_key W newRoot (bytesToHex s) mid = Inl e" by (auto dest: not_ok_obtain)
  with assms(3,4,6,7) show ?thesis
    by (simp add: unlockMailboxKey_def base64ToBytes_bytesToBase64)
qed

lemma recover_other_root:
  assumes "root_bound W" "wasm_wrap_mailbox_key W rnd oldRoot skHex (filter (\<lambda>c. c \<noteq> CHR ''-'') boxId) = Inr (bytesToHex s)"
    and "wasm_hpke_open W (trim osk) (bytesToHex t) [] = Inr rt" "rt \<noteq> oldRoot"
    and "answers_at N ''GET'' (''/v1/organizations/'' @ orgId @ ''/mailboxes/'' @ boxId @ ''/recovery-material'')
        (JObj [(''root_secret_wrapped'', JStr (bytesToBase64 t))])"
    and "answers_at N ''GET'' (''/v1/mailboxes/'' @ boxId) box" "wf_json box" "str_prop ''mailbox_sk_wrapped'' box = Some (bytesToBase64 s)"
  shows "\<not> is_ok (fst (recoverMailboxSecret N W orgId boxId osk v))"
proof -
  have material: "wf_json (JObj [(''root_secret_wrapped'', JStr (bytesToBase64 t))])" by simp
  have "\<not> is_ok (wasm_unwrap_mailbox_key W rt (bytesToHex s) (filter (\<lambda>c. c \<noteq> CHR ''-'') boxId))"
    using assms(1,2,4) unfolding root_bound_def by blast
  then obtain e where e: "wasm_unwrap_mailbox_key W rt (bytesToHex s) (filter (\<lambda>c. c \<noteq> CHR ''-'') boxId) = Inl e" by (auto dest: not_ok_obtain)
  have "box \<noteq> JNull" "jprop ''mailbox_sk_wrapped'' box = Some (JStr (bytesToBase64 s))"
    using assms(8) by (auto simp: str_prop_def jprop_def split: option.splits json.splits)
  with e assms(3) show ?thesis
    unfolding recoverMailboxSecret_def getMailbox_def io_bind_ok [OF mailbox_request_json [OF assms(5) material]]
      io_bind_ok [OF mailbox_request_json [OF assms(6,7)]]
    by (simp add: access_def jprop_def string_arg_def b64_to_hex_bytes truthy_def)
qed

lemma is_key_hex_bytesToHex: "length sk = 32 \<Longrightarrow> is_key_hex (bytesToHex sk)"
  using bytesToHex_lower_hex [of sk] by (auto simp: is_key_hex_def list_all_iff hex_value_lower)

lemma refresh_sends: "\<exists>rs. sent (refreshPrincipals N orgId w) = sent w @ rs"
proof -
  let ?m = "io_bind (both (listPrincipals N orgId) (getMembers N)) (\<lambda>(ps, r).
         case r of
           Some (JArr ms) \<Rightarrow>
             io_modify (\<lambda>v. let v1 = v\<lparr>princList := ps, princMembers := ms\<rparr>
                            in if princUserId v1 = [] then (case first_owner ms of Some m \<Rightarrow> v1\<lparr>princUserId := text_prop ''id'' m\<rparr> | None \<Rightarrow> v1) else v1)
         | _ \<Rightarrow> io_throw ''TypeError'') :: ('a recovery_state_ext, unit) io"
  have tail: "io_sends (\<lambda>_. True) (case r of Some (JArr ms) \<Rightarrow> io_modify (f ms) | _ \<Rightarrow> io_throw e)"
    if "\<And>ms v. sent (f ms v) = sent v" for r :: "json option" and f :: "json list \<Rightarrow> 'a recovery_state_scheme \<Rightarrow> 'a recovery_state_scheme" and e
    using that by (simp add: io_sends_def split: option.split json.split)
  have "io_sends (\<lambda>_. True) ?m"
    unfolding listPrincipals_def getMembers_def principal_request_def prop_call_def
    by (intro io_request tail; simp add: Let_def split: option.split)
  from try_catch_sends [OF this, of "\<lambda>e v. v\<lparr>princError := Some (err_message e)\<rparr>" "w\<lparr>princLoading := True, princError := None\<rparr>"]
  show ?thesis by (auto simp: refreshPrincipals_def)
qed

section \<open>Properties\<close>


text \<open>The ceremony for an organization-managed mailbox strands the key as well. Its last request holds the new root sealed to
  the organization's key and nothing else; once the server hands out that seal, with the stored key as it was, the
  recovery with the organization's secret fails.\<close>

theorem org_rotation_strands_key:
  fixes w :: "'z recovery_state_scheme"
  assumes "root_bound W" "rotate_org_steps N W R orgId boxId osk w = (Inr (), w')" "trim osk = osk"
    and "wasm_derive_root_secret W (bytesToHex (rr_entropy R)) = Inr newRoot" "toLowerCase newRoot \<noteq> toLowerCase oldRoot"
    and "wasm_wrap_mailbox_key W rnd oldRoot skHex (filter (\<lambda>c. c \<noteq> CHR ''-'') boxId) = Inr (bytesToHex s)"
    and "req_body (last (sent w')) = Some (JsonBody (JObj [(''root_secret_wrapped'', JStr (bytesToHex t))]))"
    and "answers_at N' ''GET'' (''/v1/organizations/'' @ orgId @ ''/mailboxes/'' @ boxId @ ''/recovery-material'')
        (JObj [(''root_secret_wrapped'', JStr (bytesToBase64 t))])"
    and "answers_at N' ''GET'' (''/v1/mailboxes/'' @ boxId) box" "wf_json box" "str_prop ''mailbox_sk_wrapped'' box = Some (bytesToBase64 s)"
  shows "\<not> is_ok (fst (recoverMailboxSecret N' W orgId boxId osk v))"
proof -
  from assms(2,4) obtain pk sk sealHex res and v2 v3 :: "'z recovery_state_scheme" where
    re: "reseal W R osk pk newRoot sk (filter (\<lambda>c. c \<noteq> CHR ''-'') boxId) = Inr sealHex"
    and rot: "rotateRoot N orgId boxId (Some sealHex) v2 = (Inr res, v3)" "sent w' = sent v3"
    by (auto simp: rotate_org_steps_def io_bind_Inr bytesToHex_cp_eq split: if_splits
        simp del: io_bind_lift io_bind_gets io_bind_modify append.simps)
  from mailbox_request_sends [OF rot(1) [unfolded rotateRoot_def]] rot(2) assms(7) have seal: "sealHex = bytesToHex t"
    by (auto simp: cp_request_def opt_prop_def split: if_splits)
  from re obtain rt where rt: "wasm_hpke_open W osk sealHex [] = Inr rt" "toLowerCase rt = toLowerCase newRoot"
    by (auto simp: reseal_def bind_err_Inr_iff split: if_splits)
  with assms(5) have "rt \<noteq> oldRoot" by auto
  then show ?thesis
    using rt(1) assms(3) by (intro recover_other_root [OF assms(1,6) _ _ assms(8-11)]) (simp_all add: seal)
qed


text \<open>The envelope of a recovery principal opens. The enrolment sends the organization's secret wrapped under the principal's
  passphrase, and what it sends, decoded, is opened by that passphrase; neither the passphrase nor the secret is sent.\<close>

theorem principal_envelope_opens:
  fixes w :: "'z recovery_state_scheme"
  assumes "passphrase_correct W" "\<And>rnd pw s p. wasm_passphrase_wrap_key W rnd pw s p \<noteq> Inr []" "length salt = 32" "length sk = 32"
    and "princFile w = Some file" "trim file = bytesToHex sk" "8 \<le> length (princPass w)" "length (princPass w) \<le> 128"
    and "orgId \<noteq> []" "princUserId w \<noteq> []" "trim (princName w) \<noteq> []"
    and "answers_at N ''GET'' (''/v1/organizations/'' @ orgId) (JObj [(''org_recovery_pk'', JStr pk)])" "pk \<noteq> []"
  shows "\<exists>q1 q2 rs saltB64 sealed saltHex sealedHex. sent (handleEnrollPrincipal N W salt rnd orgId w) = sent w @ q1 # q2 # rs
    \<and> req_body q1 = None
    \<and> req_body q2 = Some (JsonBody (principal_payload (princUserId w) (trim (princName w)) saltB64 sealed pk))
    \<and> hexOfB64 saltB64 = Inr saltHex \<and> hexOfB64 sealed = Inr sealedHex
    \<and> wasm_passphrase_unwrap_key W (princPass w) saltHex sealedHex = Inr (bytesToHex sk)"
proof -
  let ?n = "trim (princName w)"
  obtain e where e: "wasm_passphrase_wrap_key W rnd (princPass w) (bytesToHex (take 16 salt)) (bytesToHex sk) = Inr (bytesToHex e)"
    "wasm_passphrase_unwrap_key W (princPass w) (bytesToHex (take 16 salt)) (bytesToHex e) = Inr (bytesToHex sk)"
    using assms(1,3) unfolding passphrase_correct_def by (metis length_take min.absorb2 numeral_le_iff semiring_norm(68,69,71))
  have "e \<noteq> []" using e(1) assms(2) by (metis bytesToHex_eq_Nil)
  moreover have "take 16 salt \<noteq> []" using assms(3) by auto
  ultimately have b64: "hexToB64 (bytesToHex e) = Inr (bytesToBase64 e)" "hexToB64 (bytesToHex (take 16 salt)) = Inr (bytesToBase64 (take 16 salt))"
    by (auto intro: hexToB64_bytes)
  have wrapped: "wrap_principal W salt rnd (princPass w) file = Inr (bytesToHex (take 16 salt), bytesToHex e)"
    using e assms(4,6) by (simp add: wrap_principal_def bytesToHex_cp_eq is_key_hex_bytesToHex)
  let ?q1 = "cp_request (plain_headers []) ''GET'' (api_base N @ ''/v1/organizations/'' @ orgId) True None (localStorage w)"
  let ?body = "principal_payload (princUserId w) ?n (bytesToBase64 (take 16 salt)) (bytesToBase64 e) pk"
  have org: "cp_call N (plain_headers []) ''GET'' (api_base N @ ''/v1/organizations/'' @ orgId) True None
      (\<lambda>st ct t. if \<not> resp_ok st then throw_msg ''Could not read organization record.'' else resp_json t) v
    = (Inr (JObj [(''org_recovery_pk'', JStr pk)]), v\<lparr>sent := sent v @ [cp_request (plain_headers []) ''GET'' (api_base N @ ''/v1/organizations/'' @ orgId)
        True None (localStorage v)]\<rparr>)" for v :: "'z recovery_state_scheme"
    using assms(12) resp_json_stringify [of "JObj [(''org_recovery_pk'', JStr pk)]"]
    by (simp add: answers_at_def cp_call_eq cp_request_def json_response_def resp_ok_def del: stringify.simps append.simps)
  let ?w1 = "w\<lparr>princError := None, princNotice := None, princBusy := True, sent := sent w @ [?q1]\<rparr>"
  let ?q2 = "cp_request (plain_headers [(''Content-Type'', ''application/json'')]) ''POST''
      (api_base N @ ''/v1/organizations/'' @ orgId @ ''/recovery-principals'') True (Some (JsonBody ?body)) (localStorage w)"
  have "\<exists>rs. sent (handleEnrollPrincipal N W salt rnd orgId w) = (sent w @ [?q1, ?q2]) @ rs"
  proof (cases "enrollPrincipal N orgId ?body ?w1")
    case (Pair r v)
    then have sent_v: "sent v = sent w @ [?q1, ?q2]"
      by (auto simp: enrollPrincipal_def principal_request_def cp_call_eq simp del: append.simps)
    let ?v = "v\<lparr>princNotice := Some (''Principal \"'' @ ?n @ ''\" enrolled.''), princName := [], princPass := [], princFile := None\<rparr>"
    obtain rs where rs: "sent (refreshPrincipals N orgId ?v) = sent ?v @ rs" using refresh_sends by blast
    from assms(5,7-11,13) Pair wrapped b64 rs sent_v show ?thesis
      by (cases r) (simp_all add: handleEnrollPrincipal_def Let_def try_catch_def io_bind_ok [OF org] access_def jprop_def truthy_def to_text_def
          io_bind_def [of "enrollPrincipal N orgId ?body"] del: append.simps)
  qed
  then obtain rs where "sent (handleEnrollPrincipal N W salt rnd orgId w) = sent w @ ?q1 # ?q2 # rs" by auto
  with e(2) show ?thesis
    by (intro exI [of _ ?q1] exI [of _ ?q2] exI [of _ rs] exI [of _ "bytesToBase64 (take 16 salt)"] exI [of _ "bytesToBase64 e"]
        exI [of _ "bytesToHex (take 16 salt)"] exI [of _ "bytesToHex e"] conjI)
      (simp_all add: hexOfB64_eq base64ToBytes_bytesToBase64 request_body del: append.simps)
qed

section \<open>Witnesses\<close>

definition sample_recovery :: recovery_state where
  "sample_recovery = \<lparr>sessionStorage = [], localStorage = [], sent = [],
     rc_tab = [], rc_mnemonic = None, phraseVerified = False, phraseCopied = False, phraseError = None, enrollMnemonic = [],
     enrollBusy = False, enrollDone = False, enrollError = None, recoverEmail = [], recoverMnemonic = [], recoverBusy =
     False, recoverError = None, recoverDone = False, rc_newPassword = [], pwBusy = False, pwError = None, pwDone = False,
     rotBoxId = [], rotMode = None, rotLoading = False, rotMnemonic = [], rotBusy = False, rotError = None, rotVersion =
     None, rotNewMnemonic = None, rotCopied = False, rotSkFile = None, princList = [], princMembers = [], princLoading =
     False, princError = None, princNotice = None, princUserId = [], princName = [], princPass = [], princFile = None,
     princBusy = False\<rparr>"

text \<open>A core whose roots are the phrases and whose wraps depend on the root.\<close>

definition root_core :: wasm_core where
  "root_core = toy_core
     \<lparr>wasm_recover_root_secret := (\<lambda>m. Inr (bytesToHex (utf8_encode m))), wasm_generate_mnemonic := (\<lambda>rnd. Inr ''new phrase''),
      wasm_wrap_mailbox_key := (\<lambda>rnd rt sk mid. Inr (toy_seal rt sk)), wasm_unwrap_mailbox_key := (\<lambda>rt e mid. toy_open rt e),
      wasm_derive_root_secret := (\<lambda>e. Inr e)\<rparr>"

lemma root_core_bound: "root_bound root_core"
  using toy_open_other by (auto simp: root_bound_def root_core_def)

text \<open>A server that answers the lookups by their addresses and every other request with a version.\<close>

definition lookup_net :: "(string \<times> json) list \<Rightarrow> net" where
  "lookup_net table = silent_net\<lparr>server := (\<lambda>_ q. json_response
     (if req_method q = ''GET'' then (case map_of table (req_url q) of Some v \<Rightarrow> v | None \<Rightarrow> JObj []) else JObj [(''version'', JNum 2)]))\<rparr>"

lemma lookup_net_get: "map_of table path = Some v \<Longrightarrow> answers_at (lookup_net table) ''GET'' path v"
  by (simp add: answers_at_def lookup_net_def silent_net_def)

lemma lookup_net_post: "answers_at (lookup_net table) ''POST'' path (JObj [(''version'', JNum 2)])"
  by (simp add: answers_at_def lookup_net_def)

abbreviation sample_id :: string where
  "sample_id \<equiv> ''000000000000000000000000000000ab''"

definition old_wrap :: "byte list" where
  "old_wrap = replicate (length (utf8_encode ''old'')) 0 @ [1] @ utf8_encode ''old'' @ replicate 32 1"

lemma old_wrap: "toy_seal (bytesToHex (utf8_encode ''old'')) (bytesToHex (replicate 32 1)) = bytesToHex old_wrap"
  by (simp add: toy_seal_bytes old_wrap_def)

lemma sample_id: "mailboxIdHex sample_id = Inr sample_id" "filter (\<lambda>c. c \<noteq> CHR ''-'') sample_id = sample_id" "trim sample_id = sample_id"
  by code_simp+

definition private_box :: json where
  "private_box = JObj [(''mode'', JStr ''private''), (''mailbox_sk_wrapped'', JStr (bytesToBase64 old_wrap))]"


definition org_box :: json where
  "org_box = JObj [(''mode'', JStr ''org_managed''), (''mailbox_sk_wrapped'', JStr (bytesToBase64 old_wrap))]"

text \<open>The three lookups of the ceremony, with the sealed root the server hands out.\<close>

definition org_table :: "byte list \<Rightarrow> (string \<times> json) list" where
  "org_table sealed =
     [(''/v1/mailboxes/'' @ sample_id, org_box),
      (''/v1/organizations/'' @ ''o'' @ ''/mailboxes/'' @ sample_id @ ''/recovery-material'', JObj [(''root_secret_wrapped'', JStr (bytesToBase64 sealed))]),
      (''/v1/organizations/'' @ ''o'', JObj [(''org_recovery_pk'', JStr (bytesToBase64 (replicate 32 2)))])]"

lemma org_lookups:
  "answers_at (lookup_net (org_table r)) ''GET'' (''/v1/mailboxes/'' @ sample_id) org_box"
  "answers_at (lookup_net (org_table r)) ''GET'' (''/v1/organizations/'' @ ''o'' @ ''/mailboxes/'' @ sample_id @ ''/recovery-material'')
     (JObj [(''root_secret_wrapped'', JStr (bytesToBase64 r))])"
  "answers_at (lookup_net (org_table r)) ''GET'' (''/v1/organizations/'' @ ''o'') (JObj [(''org_recovery_pk'', JStr (bytesToBase64 (replicate 32 2)))])"
  by (rule lookup_net_get; simp add: org_table_def)+

lemma org_box: "wf_json org_box" "str_prop ''mailbox_sk_wrapped'' org_box = Some (bytesToBase64 old_wrap)"
    "str_prop ''mode'' org_box = Some ''org_managed''" "org_box \<noteq> JNull" "jprop ''mailbox_sk_wrapped'' org_box = Some (JStr (bytesToBase64 old_wrap))"
  by (simp_all add: org_box_def str_prop_def jprop_def)

lemma old_wrap_facts: "old_wrap \<noteq> []" "toy_open (bytesToHex (utf8_encode ''old'')) (bytesToHex old_wrap) = Inr (bytesToHex (replicate 32 1))"
  by (simp add: old_wrap_def) (simp add: toy_open_seal flip: old_wrap)

lemma seal_bytes: "toy_seal [] (bytesToHex bs) = bytesToHex (1 # bs)"
  using toy_seal_bytes [of "[]" bs] by simp


end
