(* ===== verification/Mailboxes_Page.thy ===== *)
theory Mailboxes_Page
  imports Control_Session
begin

text \<open>
  Provisioning of mailboxes and aliases: \<open>apps/control-plane/src/routes/dashboard/mailboxes.tsx\<close>. Invitations with the
  quota of the plan, access to organization-managed mailboxes, deletion, aliases, and the recovery of a mailbox key
  with the organization's recovery key.

  The four resources of the page (domains, mailboxes, aliases, billing) are fields, filled by their loaders; an aborted
  load of the mailboxes (status 403) is an error in the field. A banner that is to disappear after a while does so by
  \<open>banner_expires\<close> at any later time.
\<close>

section \<open>State\<close>

datatype banner_kind = BannerSuccess | BannerError

record mailboxes_state = world +
  mp_tab :: string
  mp_localPart :: string
  mp_displayName :: string
  selectedDomainId :: string
  selectedMode :: string
  createdInvite :: "json option"
  copiedLink :: bool
  isAccessing :: "string option"
  knownInvites :: "string \<rightharpoonup> string"
  mp_banner :: "(banner_kind \<times> string) option"
  isCreating :: bool
  recoveryMailboxId :: string
  recoveryKeyFile :: "string option"
  isRecovering :: bool
  deleteTargetMailbox :: "json option"
  isDeletingMailbox :: bool
  aliasLocalPart :: string
  aliasTargetMailboxId :: string
  aliasDomainId :: string
  isCreatingAlias :: bool
  isDeletingAlias :: string
  mp_domains :: "domain list"
  mp_mailboxes :: "js_error + json list"
  mp_aliases :: "json list"
  mp_billing :: "json option"
  mp_opened :: "string list"

definition mailbox_rows :: "'z mailboxes_state_scheme \<Rightarrow> json list" where
  "mailbox_rows w = (case mp_mailboxes w of Inr ms \<Rightarrow> ms | Inl e \<Rightarrow> [])"

definition domain_text :: "json option \<Rightarrow> string" where
  "domain_text v = (case v of Some (JStr s) \<Rightarrow> s | _ \<Rightarrow> [])"

definition verifiedDomains :: "'z mailboxes_state_scheme \<Rightarrow> domain list" where
  "verifiedDomains w = filter (\<lambda>d. truthy (Some (dom_is_verified d)) \<or> truthy (Some (dom_verified d))) (mp_domains w)"

definition getDomainName :: "'z mailboxes_state_scheme \<Rightarrow> string \<Rightarrow> string" where
  "getDomainName w domainId =
     (case find (\<lambda>d. dom_id d = Some (JStr domainId)) (mp_domains w) of
        Some d \<Rightarrow> domain_text (dom_name d)
      | None \<Rightarrow> take 8 domainId)"

section \<open>Resources and effects\<close>

text \<open>The two effects of the page: the first verified domain and the first mailbox are selected while nothing is.\<close>

definition select_defaults :: "'z mailboxes_state_scheme \<Rightarrow> 'z mailboxes_state_scheme" where
  "select_defaults w =
     (let w1 = (case verifiedDomains w of
                  [] \<Rightarrow> w
                | d # _ \<Rightarrow> w\<lparr>selectedDomainId := or_else (selectedDomainId w) (domain_text (dom_id d)),
                              aliasDomainId := or_else (aliasDomainId w) (domain_text (dom_id d))\<rparr>)
      in case mailbox_rows w1 of
           [] \<Rightarrow> w1
         | m # _ \<Rightarrow> w1\<lparr>aliasTargetMailboxId := or_else (aliasTargetMailboxId w1) (text_prop ''id'' m)\<rparr>)"

definition refetchDomains :: "net \<Rightarrow> string \<Rightarrow> 'z mailboxes_state_scheme \<Rightarrow> 'z mailboxes_state_scheme" where
  "refetchDomains N orgId w =
     select_defaults (if orgId = [] then w\<lparr>mp_domains := []\<rparr>
       else try_catch (\<lambda>_ v. v\<lparr>mp_domains := []\<rparr>) (io_bind (listDomains N orgId) (\<lambda>ds. io_modify (\<lambda>v. v\<lparr>mp_domains := ds\<rparr>))) w)"

definition refetchMailboxes :: "net \<Rightarrow> string \<Rightarrow> 'z mailboxes_state_scheme \<Rightarrow> 'z mailboxes_state_scheme" where
  "refetchMailboxes N orgId w =
     select_defaults (if orgId = [] then w\<lparr>mp_mailboxes := Inr []\<rparr>
       else try_catch (\<lambda>e v. v\<lparr>mp_mailboxes := (if err_status e = Some 403 then Inl e else Inr [])\<rparr>)
              (io_bind (listMailboxes N orgId) (\<lambda>ms. io_modify (\<lambda>v. v\<lparr>mp_mailboxes := Inr ms\<rparr>))) w)"

definition refetchAliases :: "net \<Rightarrow> string \<Rightarrow> 'z mailboxes_state_scheme \<Rightarrow> 'z mailboxes_state_scheme" where
  "refetchAliases N orgId w =
     (if orgId = [] then w\<lparr>mp_aliases := []\<rparr>
      else try_catch (\<lambda>_ v. v\<lparr>mp_aliases := []\<rparr>) (io_bind (listOrgAliases N orgId) (\<lambda>xs. io_modify (\<lambda>v. v\<lparr>mp_aliases := xs\<rparr>))) w)"

definition refetchBilling :: "net \<Rightarrow> string \<Rightarrow> 'z mailboxes_state_scheme \<Rightarrow> 'z mailboxes_state_scheme" where
  "refetchBilling N orgId w =
     (if orgId = [] then w\<lparr>mp_billing := None\<rparr>
      else try_catch (\<lambda>_ v. v\<lparr>mp_billing := None\<rparr>)
             (io_bind (getBillingInfo N orgId) (\<lambda>b. io_modify (\<lambda>v. v\<lparr>mp_billing := (if b = JNull then None else Some b)\<rparr>))) w)"

definition mailboxCount :: "'z mailboxes_state_scheme \<Rightarrow> nat" where
  "mailboxCount w = length (mailbox_rows w)"

definition aliasCount :: "'z mailboxes_state_scheme \<Rightarrow> nat" where
  "aliasCount w = length (mp_aliases w)"

text \<open>\<open>billing()?.mailbox_limit ?? 1\<close>, shown as text.\<close>

definition mailboxLimit :: "'z mailboxes_state_scheme \<Rightarrow> string" where
  "mailboxLimit w = to_text (case mp_billing w of Some b \<Rightarrow> nullish (jprop ''mailbox_limit'' b) (JNum 1) | None \<Rightarrow> JNum 1)"

definition isQuotaFull :: "'z mailboxes_state_scheme \<Rightarrow> bool" where
  "isQuotaFull w =
     (case mp_billing w of
        None \<Rightarrow> False
      | Some b \<Rightarrow> (case (jprop ''used_mailboxes'' b, jprop ''mailbox_limit'' b) of
                     (Some (JNum used), Some (JNum limit)) \<Rightarrow> limit \<le> used
                   | _ \<Rightarrow> False))"

definition banner_expires :: "'z mailboxes_state_scheme \<Rightarrow> 'z mailboxes_state_scheme" where
  "banner_expires w = w\<lparr>mp_banner := None\<rparr>"

section \<open>Invitations\<close>

text \<open>The detail of an error: the \<open>error\<close> property of a message that is JSON.\<close>

definition error_detail :: "string \<Rightarrow> string" where
  "error_detail msg = (case json_parse msg of Some v \<Rightarrow> if v = JNull then [] else text_prop ''error'' v | None \<Rightarrow> [])"

definition create_error :: "string \<Rightarrow> string \<Rightarrow> js_error \<Rightarrow> string" where
  "create_error n limit e =
     (let msg = err_message e; detail = error_detail msg; st = err_status e
      in if st = Some 402 \<or> detail = ''mailbox_limit_reached'' \<or> str_includes msg ''mailbox_limit_reached''
         then ''Plan mailbox limit reached ('' @ n @ ''/'' @ limit @ ''). Upgrade to a higher tier in Billing to provision more mailboxes.''
         else if st = Some 409 \<or> str_includes msg ''already exists'' \<or> str_includes detail ''already exists''
         then ''Mailbox username or email already exists for this organization.''
         else if st = Some 403 then ''You don'' @ [CHR 0x27] @ ''t have permission to manage mailboxes for this organization.''
         else if st = Some 400 \<and> (str_includes msg ''verified'' \<or> str_includes detail ''verified'')
         then ''Domain not verified. Verify the domain in the Domains tab first.''
         else if st = Some 503 \<or> str_includes msg ''storage_disconnected'' \<or> str_includes detail ''storage_disconnected''
         then ''No active storage connected '' @ em_dash @ '' please connect storage in the Storage tab first.''
         else if st = Some 400 \<and> (str_includes msg ''local_part'' \<or> str_includes detail ''local_part'')
         then ''Invalid mailbox username (cannot contain spaces, @, or special symbols).''
         else or_else (or_else detail msg) ''Failed to create mailbox.'')"

definition quota_text :: "'z mailboxes_state_scheme \<Rightarrow> string" where
  "quota_text w = ''Plan mailbox limit reached ('' @ num_string (mailboxCount w) @ ''/'' @ mailboxLimit w
     @ ''). Upgrade your subscription in Billing to provision additional mailboxes.''"

definition handleCreate ::
  "net \<Rightarrow> wasm_core \<Rightarrow> mailbox_random \<Rightarrow> string \<Rightarrow> 'z mailboxes_state_scheme \<Rightarrow> 'z mailboxes_state_scheme" where
  "handleCreate N W rnd orgId w =
     (let lp = trim (mp_localPart w); domId = trim (selectedDomainId w); domName = getDomainName w domId
      in if lp = [] \<or> domId = [] \<or> orgId = [] \<or> domName = [] then w
         else if isQuotaFull w then w\<lparr>mp_banner := Some (BannerError, quota_text w)\<rparr>
         else
           (let email = lp @ ''@'' @ domName
            in (try_catch (\<lambda>e v. v\<lparr>mp_banner := Some (BannerError, create_error (num_string (mailboxCount v)) (mailboxLimit v) e)\<rparr>)
                 (io_bind (inviteMailbox N W rnd orgId \<lparr>inv_address = email, inv_name = Some (or_else (trim (mp_displayName w)) lp),
                            inv_privacy_mode = selectedMode w\<rparr>) (\<lambda>r.
                  io_bind (io_modify (\<lambda>v. v\<lparr>createdInvite := (if r = JNull then None else Some r)\<rparr>)) (\<lambda>_.
                  io_bind (io_lift (need (Some r))) (\<lambda>resp.
                  io_modify (\<lambda>v.
                    let url = text_prop ''invite_url'' resp;
                        v1 = v\<lparr>knownInvites := (knownInvites v)(text_prop ''mailbox_id'' resp \<mapsto> url, email \<mapsto> url), mp_localPart := [], mp_displayName := []\<rparr>
                    in (refetchBilling N orgId (refetchDomains N orgId (refetchMailboxes N orgId v1)))
                         \<lparr>mp_banner := Some (BannerSuccess, ''Invitation generated for '' @ email @ ''. Share the setup link below.'')\<rparr>)))))
                 (w\<lparr>isCreating := True, mp_banner := None\<rparr>))\<lparr>isCreating := False\<rparr>))"

text \<open>Copying a link: the text that goes to the clipboard.\<close>

definition handleCopyInvite :: "string \<Rightarrow> 'z mailboxes_state_scheme \<Rightarrow> string \<times> 'z mailboxes_state_scheme" where
  "handleCopyInvite url w = (url, w\<lparr>copiedLink := True\<rparr>)"

definition row_address :: "'z mailboxes_state_scheme \<Rightarrow> json \<Rightarrow> string" where
  "row_address w mb =
     (let lp = or_else (text_prop ''local_part'' mb) (text_prop ''localPart'' mb);
          dom = or_else (text_prop ''domain_name'' mb) (getDomainName w (or_else (text_prop ''domain_id'' mb) (text_prop ''domainId'' mb)))
      in or_else (text_prop ''email'' mb) (lp @ ''@'' @ dom))"

definition pendingInviteUrl :: "'z mailboxes_state_scheme \<Rightarrow> json \<Rightarrow> string" where
  "pendingInviteUrl w mb = or_else (filled (knownInvites w (text_prop ''id'' mb))) (filled (knownInvites w (row_address w mb)))"

definition copySetupLink :: "json \<Rightarrow> 'z mailboxes_state_scheme \<Rightarrow> string option \<times> 'z mailboxes_state_scheme" where
  "copySetupLink mb w =
     (let url = pendingInviteUrl w mb
      in if url \<noteq> [] then (let (t, w') = handleCopyInvite url w in (Some t, w'))
         else (None, w\<lparr>mp_banner := Some (BannerError, ''Invitation URL was generated earlier. For security, re-invite or check your records.'')\<rparr>))"

section \<open>Access, deletion and recovery\<close>

definition handleAccessMailbox :: "net \<Rightarrow> string \<Rightarrow> json \<Rightarrow> 'z mailboxes_state_scheme \<Rightarrow> 'z mailboxes_state_scheme" where
  "handleAccessMailbox N orgId mb w =
     (if orgId = [] then w
      else if str_prop ''mode'' mb = Some ''private''
      then w\<lparr>mp_banner := Some (BannerError, ''Private mailboxes cannot be accessed by administrators.'')\<rparr>
      else (try_catch (\<lambda>e v. v\<lparr>mp_banner := Some (BannerError, or_message e ''Failed to access mailbox.'')\<rparr>)
             (io_bind (impersonateMailbox N orgId (text_prop ''id'' mb)) (\<lambda>r.
              io_bind (io_lift (need (Some r))) (\<lambda>res.
              io_modify (\<lambda>v. v\<lparr>mp_opened := mp_opened v @ [text_prop ''webmail_url'' res]\<rparr>))))
             (w\<lparr>isAccessing := Some (text_prop ''id'' mb)\<rparr>))\<lparr>isAccessing := None\<rparr>)"

definition handleDeleteMailbox :: "net \<Rightarrow> string \<Rightarrow> 'z mailboxes_state_scheme \<Rightarrow> 'z mailboxes_state_scheme" where
  "handleDeleteMailbox N orgId w =
     (case deleteTargetMailbox w of
        None \<Rightarrow> w
      | Some target \<Rightarrow>
          if orgId = [] then w
          else (try_catch (\<lambda>e v. v\<lparr>mp_banner := Some (BannerError, or_message e ''Failed to delete mailbox.'')\<rparr>)
                 (io_bind (deleteMailbox N orgId (text_prop ''id'' target)) (\<lambda>_.
                  io_modify (\<lambda>v.
                    let name = or_else (or_else (text_prop ''email'' target) (text_prop ''local_part'' target)) ''Mailbox''
                    in refetchBilling N orgId (refetchAliases N orgId (refetchMailboxes N orgId
                         (v\<lparr>deleteTargetMailbox := None, mp_banner := Some (BannerSuccess, ''Mailbox '' @ name @ '' was successfully deleted.'')\<rparr>))))))
                 (w\<lparr>isDeletingMailbox := True\<rparr>))\<lparr>isDeletingMailbox := False\<rparr>)"

text \<open>The second component of the first result is the downloaded file: its name and its text.\<close>

definition handleRecovery ::
  "net \<Rightarrow> wasm_core \<Rightarrow> string \<Rightarrow> 'z mailboxes_state_scheme \<Rightarrow> (string \<times> string) option \<times> 'z mailboxes_state_scheme" where
  "handleRecovery N W orgId w =
     (case recoveryKeyFile w of
        None \<Rightarrow> (None, w)
      | Some file \<Rightarrow>
          if recoveryMailboxId w = [] \<or> orgId = [] then (None, w)
          else (case recoverMailboxSecret N W orgId (recoveryMailboxId w) file (w\<lparr>isRecovering := True, mp_banner := None\<rparr>) of
                  (Inr skHex, v) \<Rightarrow>
                    (Some (''byos-mailbox-'' @ recoveryMailboxId w @ ''-recovered-sk.hex'', skHex),
                     v\<lparr>mp_banner := Some (BannerSuccess, ''Mailbox secret key recovered and downloaded successfully.''), isRecovering := False\<rparr>)
                | (Inl e, v) \<Rightarrow>
                    (None, v\<lparr>mp_banner := Some (BannerError, if err_status e = Some 403 then ''Private mailboxes cannot be recovered by the organization.''
                        else ''Mailbox recovery failed. Ensure you uploaded the correct organization recovery key.''), isRecovering := False\<rparr>)))"

definition recoverable_rows :: "'z mailboxes_state_scheme \<Rightarrow> json list" where
  "recoverable_rows w = filter (\<lambda>mb. str_prop ''mode'' mb = Some ''org_managed'') (mailbox_rows w)"

section \<open>Aliases\<close>

definition alias_error :: "js_error \<Rightarrow> string" where
  "alias_error e =
     (let msg = err_message e; detail = error_detail msg; st = err_status e
      in if st = Some 402 \<or> detail = ''alias_limit_reached'' \<or> str_includes msg ''alias_limit_reached''
         then ''Alias limit reached for this mailbox. Upgrade your plan in Billing to add more aliases.''
         else if st = Some 409 \<or> str_includes msg ''already exists'' \<or> str_includes detail ''already exists''
         then ''This email alias already exists on this domain.''
         else if st = Some 400 \<and> (str_includes msg ''local_part'' \<or> str_includes detail ''local_part'')
         then ''Invalid alias username (cannot contain spaces, @, or special symbols).''
         else or_else (or_else detail msg) ''Failed to create alias.'')"

definition handleCreateAlias :: "net \<Rightarrow> string \<Rightarrow> 'z mailboxes_state_scheme \<Rightarrow> 'z mailboxes_state_scheme" where
  "handleCreateAlias N orgId w =
     (let mbId = trim (aliasTargetMailboxId w); lp = trim (aliasLocalPart w); domId = trim (aliasDomainId w)
      in if mbId = [] \<or> lp = [] \<or> domId = [] then w
         else (try_catch (\<lambda>e v. v\<lparr>mp_banner := Some (BannerError, alias_error e)\<rparr>)
                (io_bind (createAlias N mbId lp (Some domId)) (\<lambda>_.
                 io_modify (\<lambda>v. let v1 = refetchAliases N orgId (v\<lparr>aliasLocalPart := []\<rparr>)
                                in v1\<lparr>mp_banner := Some (BannerSuccess, ''Alias '' @ lp @ ''@'' @ getDomainName v1 domId @ '' created successfully.'')\<rparr>)))
                (w\<lparr>isCreatingAlias := True, mp_banner := None\<rparr>))\<lparr>isCreatingAlias := False\<rparr>)"

definition handleDeleteAlias ::
  "net \<Rightarrow> bool \<Rightarrow> string \<Rightarrow> string \<Rightarrow> string \<Rightarrow> string \<Rightarrow> 'z mailboxes_state_scheme \<Rightarrow> 'z mailboxes_state_scheme" where
  "handleDeleteAlias N confirmed orgId mailboxId aliasId address w =
     (if \<not> confirmed then w
      else (try_catch (\<lambda>_ v. v\<lparr>mp_banner := Some (BannerError, ''Failed to delete alias.'')\<rparr>)
             (io_bind (deleteAlias N mailboxId aliasId) (\<lambda>_.
              io_modify (\<lambda>v. (refetchAliases N orgId v)\<lparr>mp_banner := Some (BannerSuccess, ''Alias '' @ address @ '' deleted.'')\<rparr>)))
             (w\<lparr>isDeletingAlias := aliasId\<rparr>))\<lparr>isDeletingAlias := []\<rparr>)"

definition addAliasFor :: "json \<Rightarrow> 'z mailboxes_state_scheme \<Rightarrow> 'z mailboxes_state_scheme" where
  "addAliasFor mb w = w\<lparr>aliasTargetMailboxId := text_prop ''id'' mb, mp_tab := ''aliases''\<rparr>"

section \<open>Lemmas\<close>

lemma select_defaults_frame [simp]:
  "knownInvites (select_defaults w) = knownInvites w" "sent (select_defaults w) = sent w" "mp_opened (select_defaults w) = mp_opened w"
  by (simp_all add: select_defaults_def Let_def split: list.split)

text \<open>Loading a resource changes neither the invitations known to the page nor the windows it opened, and only reads.\<close>

lemma refetch_keeps:
  "knownInvites (refetchDomains N orgId w) = knownInvites w" "knownInvites (refetchMailboxes N orgId w) = knownInvites w"
  "knownInvites (refetchAliases N orgId w) = knownInvites w" "knownInvites (refetchBilling N orgId w) = knownInvites w"
  unfolding refetchDomains_def refetchMailboxes_def refetchAliases_def refetchBilling_def listDomains_def domain_request_def
    listMailboxes_def listOrgAliases_def mailbox_request_def getBillingInfo_def
  by (simp_all, (rule impI, rule try_catch_keeps; (intro io_frame)?; simp)+)

lemma refetch_reads:
  "\<exists>rs. sent (refetchDomains N orgId w) = sent w @ rs \<and> list_all (\<lambda>r. req_method r = ''GET'') rs"
  "\<exists>rs. sent (refetchMailboxes N orgId w) = sent w @ rs \<and> list_all (\<lambda>r. req_method r = ''GET'') rs"
  "\<exists>rs. sent (refetchAliases N orgId w) = sent w @ rs \<and> list_all (\<lambda>r. req_method r = ''GET'') rs"
  "\<exists>rs. sent (refetchBilling N orgId w) = sent w @ rs \<and> list_all (\<lambda>r. req_method r = ''GET'') rs"
  unfolding refetchDomains_def refetchMailboxes_def refetchAliases_def refetchBilling_def listDomains_def domain_request_def
    listMailboxes_def listOrgAliases_def mailbox_request_def getBillingInfo_def
  by (simp_all, (rule impI, rule try_catch_sends; (intro io_request)?; simp add: cp_request_def)+)

section \<open>Theorems\<close>

text \<open>After a successful invitation the setup link can be copied from the row of the new mailbox.\<close>

theorem invite_link_kept:
  fixes w :: "'z mailboxes_state_scheme"
  assumes "trim (mp_localPart w) \<noteq> []" "trim (selectedDomainId w) \<noteq> []" "orgId \<noteq> []" "getDomainName w (trim (selectedDomainId w)) \<noteq> []"
    and "\<not> isQuotaFull w"
    and "fst (inviteMailbox N W rnd orgId \<lparr>inv_address = trim (mp_localPart w) @ ''@'' @ getDomainName w (trim (selectedDomainId w)),
           inv_name = Some (or_else (trim (mp_displayName w)) (trim (mp_localPart w))), inv_privacy_mode = selectedMode w\<rparr>
           (w\<lparr>isCreating := True, mp_banner := None\<rparr>)) = Inr resp"
    and "resp \<noteq> JNull" "text_prop ''invite_url'' resp \<noteq> []" "text_prop ''id'' mb = text_prop ''mailbox_id'' resp"
  shows "fst (copySetupLink mb (handleCreate N W rnd orgId w)) = Some (text_prop ''invite_url'' resp)"
proof -
  let ?email = "trim (mp_localPart w) @ ''@'' @ getDomainName w (trim (selectedDomainId w))"
  let ?req = "\<lparr>inv_address = ?email, inv_name = Some (or_else (trim (mp_displayName w)) (trim (mp_localPart w))), inv_privacy_mode = selectedMode w\<rparr>"
  obtain v where v: "inviteMailbox N W rnd orgId ?req (w\<lparr>isCreating := True, mp_banner := None\<rparr>) = (Inr resp, v)"
    using assms(6) by (metis prod.collapse)
  have "knownInvites (handleCreate N W rnd orgId w) =
      (knownInvites v)(text_prop ''mailbox_id'' resp \<mapsto> text_prop ''invite_url'' resp, ?email \<mapsto> text_prop ''invite_url'' resp)"
    using assms(1-5,7) v
    by (simp add: handleCreate_def Let_def try_catch_def io_bind_def [of "inviteMailbox N W rnd orgId ?req"] need_Some refetch_keeps
        del: append.simps)
  then have "pendingInviteUrl (handleCreate N W rnd orgId w) mb = text_prop ''invite_url'' resp"
    using assms(8,9) by (simp add: pendingInviteUrl_def or_else_def filled_def del: append.simps)
  with assms(8) show ?thesis by (simp add: copySetupLink_def handleCopyInvite_def)
qed

text \<open>Guards of the page: at a full quota no invitation is sent, a private mailbox is not opened, an alias is deleted only after
  the confirmation, and only organization-managed mailboxes are offered for recovery.\<close>

theorem provisioning_guards:
  "(isQuotaFull w \<longrightarrow> sent (handleCreate N W rnd orgId w) = sent w)
   \<and> (str_prop ''mode'' mb = Some ''private'' \<longrightarrow>
        sent (handleAccessMailbox N orgId mb w) = sent w \<and> mp_opened (handleAccessMailbox N orgId mb w) = mp_opened w)
   \<and> handleDeleteAlias N False orgId mailboxId aliasId address w = w
   \<and> (\<forall>row \<in> set (recoverable_rows w). str_prop ''mode'' row = Some ''org_managed'')"
  by (simp add: handleCreate_def Let_def handleAccessMailbox_def handleDeleteAlias_def recoverable_rows_def)

text \<open>With the organization's recovery key the page downloads exactly the mailbox's key.\<close>

theorem recovery_downloads_key:
  assumes "wasm_hpke_open W (bytesToHex osk) (bytesToHex r) [] = Inr rootHex"
    and "wasm_unwrap_mailbox_key W rootHex (bytesToHex s) (filter (\<lambda>c. c \<noteq> CHR ''-'') mailboxId) = Inr skHex" "s \<noteq> []"
    and "answers_at N ''GET'' (''/v1/organizations/'' @ orgId @ ''/mailboxes/'' @ mailboxId @ ''/recovery-material'')
        (JObj [(''root_secret_wrapped'', JStr (bytesToBase64 r))])"
    and "answers_at N ''GET'' (''/v1/mailboxes/'' @ mailboxId) (JObj [(''mailbox_sk_wrapped'', JStr (bytesToBase64 s))])"
    and "recoveryKeyFile w = Some (bytesToHex osk)" "recoveryMailboxId w = mailboxId" "mailboxId \<noteq> []" "orgId \<noteq> []"
  shows "fst (handleRecovery N W orgId w) = Some (''byos-mailbox-'' @ mailboxId @ ''-recovered-sk.hex'', skHex)"
proof -
  let ?w = "w\<lparr>isRecovering := True, mp_banner := None\<rparr>"
  have "fst (recoverMailboxSecret N W orgId mailboxId (bytesToHex osk) ?w) = Inr skHex"
    by (rule recoverMailboxSecret_ok [OF assms(1-5)])
  then show ?thesis
    using assms(6-9) by (cases "recoverMailboxSecret N W orgId mailboxId (bytesToHex osk) ?w") (simp add: handleRecovery_def)
qed

end
