(* ===== verification/Storage_Page.thy ===== *)
theory Storage_Page
  imports Control_Session Utilities
begin

text \<open>
  The storage of an organization: the page \<open>apps/control-plane/src/routes/dashboard/storage.tsx\<close> and the dialog
  \<open>components/storage/ConnectStorageDialog.tsx\<close>, which collects the credentials of a bucket, validates them with the
  validators of \<open>Utilities\<close> and hands them to the page. The page and the dialog share one state; the dialog's
  \<open>onSubmit\<close> and \<open>onClose\<close> are the page's functions.
\<close>

section \<open>State\<close>

record storage_state = world +
  dialogOpen :: bool
  dialogMode :: string
  sp_banner :: "(bool \<times> string) option"
  isTesting :: bool
  isDisconnecting :: bool
  migrationId :: string
  migration :: "json option"
  isMigrationBusy :: bool
  sp_connection :: "js_error + json option"
  dg_provider :: string
  dg_endpoint :: string
  dg_bucket :: string
  dg_accessKey :: string
  dg_secretKey :: string
  dg_region :: string
  dg_pathStyle :: bool
  dg_root :: string
  dg_accessToken :: string
  dg_refreshToken :: string
  dg_folderId :: string
  dg_submitting :: bool
  dg_errors :: "(string \<times> string) list"
  dg_topError :: string
  dg_assigned :: "string option"

text \<open>A banner: whether it reports a success, and its text.\<close>

abbreviation success_banner :: "string \<Rightarrow> (bool \<times> string) option" where
  "success_banner t \<equiv> Some (True, t)"

abbreviation error_banner :: "string \<Rightarrow> (bool \<times> string) option" where
  "error_banner t \<equiv> Some (False, t)"

section \<open>The page\<close>

text \<open>The resource: a missing connection is recognised by the digits of the status in the message.\<close>

definition load_connection :: "net \<Rightarrow> string \<Rightarrow> 'z storage_state_scheme \<Rightarrow> 'z storage_state_scheme" where
  "load_connection N orgId w =
     (if orgId = [] then w\<lparr>sp_connection := Inr None\<rparr>
      else try_catch (\<lambda>e v. v\<lparr>sp_connection := (if str_includes (err_message e) ''404'' then Inr None else Inl e)\<rparr>)
             (io_bind (getStorageConnection N orgId) (\<lambda>c. io_modify (\<lambda>v. v\<lparr>sp_connection := Inr (if c = JNull then None else Some c)\<rparr>))) w)"

text \<open>What the card shows of it.\<close>

definition card_error :: "'z storage_state_scheme \<Rightarrow> string option" where
  "card_error w = (case sp_connection w of Inl e \<Rightarrow> Some ''Unable to reach the BYOS API.'' | Inr _ \<Rightarrow> None)"

definition openCreate :: "'z storage_state_scheme \<Rightarrow> 'z storage_state_scheme" where
  "openCreate w = w\<lparr>dialogMode := ''create'', dialogOpen := True\<rparr>"

definition openReplace :: "'z storage_state_scheme \<Rightarrow> 'z storage_state_scheme" where
  "openReplace w = w\<lparr>dialogMode := ''replace'', dialogOpen := True\<rparr>"

definition storage_payload :: "string \<Rightarrow> config \<Rightarrow> json" where
  "storage_payload provider c =
     JObj [(''provider'', JStr provider), (''config'', JObj (concat (map (\<lambda>(k, v). case v of Some j \<Rightarrow> [(k, j)] | None \<Rightarrow> []) c)))]"

definition page_handleSubmit :: "net \<Rightarrow> string \<Rightarrow> string \<Rightarrow> config \<Rightarrow> ('z storage_state_ext, unit) io" where
  "page_handleSubmit N orgId provider c =
     (if orgId = [] then io_throw ''Missing organization''
      else io_bind (io_gets dialogMode) (\<lambda>mode.
           io_bind (if mode = ''create''
                    then io_bind (createStorageConnection N orgId (storage_payload provider c)) (\<lambda>_.
                         io_modify (\<lambda>v. v\<lparr>sp_banner := success_banner ''Storage configuration saved and encrypted.''\<rparr>))
                    else io_bind (updateStorageConnection N orgId (storage_payload provider c)) (\<lambda>_.
                         io_modify (\<lambda>v. v\<lparr>sp_banner := success_banner ''Storage configuration updated and re-encrypted.''\<rparr>))) (\<lambda>_.
           io_modify (load_connection N orgId))))"

definition test_text :: "string \<Rightarrow> bool \<times> string" where
  "test_text c =
     (if c = ''verified'' then (True, ''Storage connection verified successfully.'')
      else if c = ''authentication_failed'' then (False, ''Authentication failed '' @ en_dash @ '' check access key and secret key.'')
      else if c = ''provider_unavailable'' then (False, ''Provider unavailable '' @ en_dash @ '' check endpoint and bucket name.'')
      else if c = ''configuration_error'' then (False, ''Configuration error '' @ en_dash @ '' check provider settings.'')
      else (False, ''Storage service temporarily unavailable.''))"

definition test_error :: "js_error \<Rightarrow> string" where
  "test_error e =
     (let msg = err_message e
      in if str_includes msg ''configuration_changed'' \<or> err_status e = Some 409
         then ''Storage configuration changed while the test was running. Please test again.''
         else if str_includes msg ''403'' then ''You don'' @ [CHR 0x27] @ ''t have permission to test this storage connection.''
         else if str_includes msg ''404'' then ''No storage connection found.''
         else ''Storage service temporarily unavailable.'')"

definition handleTest :: "net \<Rightarrow> string \<Rightarrow> string \<Rightarrow> 'z storage_state_scheme \<Rightarrow> 'z storage_state_scheme" where
  "handleTest N nowIso orgId w =
     (if orgId = [] then w
      else (try_catch (\<lambda>e v. load_connection N orgId (v\<lparr>sp_banner := error_banner (test_error e)\<rparr>))
             (io_bind (testStorageConnection N nowIso orgId) (\<lambda>r.
              io_bind (io_modify (load_connection N orgId)) (\<lambda>_.
              io_bind (io_lift (need (Some r))) (\<lambda>res.
              io_modify (\<lambda>v. v\<lparr>sp_banner := Some (test_text (text_prop ''code'' res))\<rparr>)))))
             (w\<lparr>isTesting := True, sp_banner := None\<rparr>))\<lparr>isTesting := False\<rparr>)"

definition handleDisconnect :: "net \<Rightarrow> string \<Rightarrow> 'z storage_state_scheme \<Rightarrow> 'z storage_state_scheme" where
  "handleDisconnect N orgId w =
     (if orgId = [] then w
      else (try_catch (\<lambda>e v. v\<lparr>sp_banner := error_banner (
                 if str_includes (err_message e) ''403'' then ''You don'' @ [CHR 0x27] @ ''t have permission to disconnect storage.''
                 else if str_includes (err_message e) ''404'' then ''No active storage connection.''
                 else ''Failed to disconnect storage.'')\<rparr>)
             (io_bind (deleteStorageConnection N orgId) (\<lambda>_.
              io_modify (\<lambda>v. (load_connection N orgId v)\<lparr>sp_banner := success_banner ''Storage disconnected.''\<rparr>)))
             (w\<lparr>isDisconnecting := True\<rparr>))\<lparr>isDisconnecting := False\<rparr>)"

definition handleMigrationStatus :: "net \<Rightarrow> string \<Rightarrow> 'z storage_state_scheme \<Rightarrow> 'z storage_state_scheme" where
  "handleMigrationStatus N orgId w =
     (if orgId = [] \<or> trim (migrationId w) = [] then w
      else (try_catch (\<lambda>_ v. v\<lparr>migration := None, sp_banner := error_banner ''Unable to load migration status.''\<rparr>)
             (io_bind (getStorageMigrationStatus N orgId (trim (migrationId w))) (\<lambda>m.
              io_modify (\<lambda>v. v\<lparr>migration := (if m = JNull then None else Some m), sp_banner := None\<rparr>)))
             (w\<lparr>isMigrationBusy := True\<rparr>))\<lparr>isMigrationBusy := False\<rparr>)"

definition handleMigrationRetry :: "net \<Rightarrow> string \<Rightarrow> 'z storage_state_scheme \<Rightarrow> 'z storage_state_scheme" where
  "handleMigrationRetry N orgId w =
     (if orgId = [] \<or> trim (migrationId w) = [] then w
      else (try_catch (\<lambda>_ v. v\<lparr>sp_banner := error_banner ''Migration could not be retried. It may already be running or completed.''\<rparr>)
             (io_bind (retryStorageMigration N orgId (trim (migrationId w))) (\<lambda>m.
              io_modify (\<lambda>v. v\<lparr>migration := (if m = JNull then None else Some m), sp_banner := success_banner ''Migration retry started.''\<rparr>)))
             (w\<lparr>isMigrationBusy := True\<rparr>))\<lparr>isMigrationBusy := False\<rparr>)"

section \<open>The dialog\<close>

definition clearSensitive :: "'z storage_state_scheme \<Rightarrow> 'z storage_state_scheme" where
  "clearSensitive w = w\<lparr>dg_accessKey := [], dg_secretKey := [], dg_accessToken := [], dg_refreshToken := []\<rparr>"

definition dialog_handleClose :: "'z storage_state_scheme \<Rightarrow> 'z storage_state_scheme" where
  "dialog_handleClose w = (clearSensitive w)\<lparr>dg_errors := [], dg_topError := [], dialogOpen := False\<rparr>"

text \<open>The organization is read from a meta element of the page, an argument here.\<close>

definition startGoogleAuthorization :: "net \<Rightarrow> string \<Rightarrow> 'z storage_state_scheme \<Rightarrow> 'z storage_state_scheme" where
  "startGoogleAuthorization N metaOrgId w =
     try_catch (\<lambda>_ v. v\<lparr>dg_topError := ''Google Drive authorization is unavailable. Check OAuth configuration.'', dg_submitting := False\<rparr>)
       (if metaOrgId = [] then io_throw ''Organization ID is unavailable.''
        else io_bind (authorizeGoogleDrive N metaOrgId) (\<lambda>r.
             io_bind (io_lift (need (Some r))) (\<lambda>res.
             io_modify (\<lambda>v. v\<lparr>dg_assigned := Some (text_prop ''authorization_url'' res)\<rparr>))))
       (w\<lparr>dg_topError := [], dg_submitting := True\<rparr>)"

definition dialog_config :: "'z storage_state_scheme \<Rightarrow> config" where
  "dialog_config w =
     (if dg_provider w = ''google_drive_mock''
      then (if trim (dg_root w) \<noteq> [] then [(''root'', Some (JStr (trim (dg_root w))))] else [])
      else if dg_provider w = ''google_drive''
      then [(''access_token'', Some (JStr (dg_accessToken w)))]
        @ (if trim (dg_refreshToken w) \<noteq> [] then [(''refresh_token'', Some (JStr (trim (dg_refreshToken w))))] else [])
        @ (if trim (dg_folderId w) \<noteq> [] then [(''folder_id'', Some (JStr (trim (dg_folderId w))))] else [])
      else [(''endpoint'', Some (JStr (trim (dg_endpoint w)))), (''bucket'', Some (JStr (trim (dg_bucket w)))),
            (''access_key'', Some (JStr (dg_accessKey w))), (''secret_key'', Some (JStr (dg_secretKey w)))]
        @ (if trim (dg_region w) \<noteq> [] then [(''region'', Some (JStr (trim (dg_region w))))] else [])
        @ [(''path_style'', Some (JBool (dg_pathStyle w)))])"

definition submit_error :: "js_error \<Rightarrow> string" where
  "submit_error e =
     (let msg = err_message e
      in if str_includes msg ''409'' then ''An active storage configuration already exists for this organization. Use Replace to rotate credentials.''
         else if str_includes msg ''403'' then ''You don'' @ [CHR 0x27] @ ''t have permission to manage storage for this organization.''
         else if str_includes msg ''400'' then msg
         else ''Storage service temporarily unavailable.'')"

definition dialog_handleSubmit :: "net \<Rightarrow> string \<Rightarrow> 'z storage_state_scheme \<Rightarrow> 'z storage_state_scheme" where
  "dialog_handleSubmit N orgId w0 =
     (let w = w0\<lparr>dg_topError := [], dg_errors := []\<rparr>; c = dialog_config w
      in case validateStorageConfig (dg_provider w) c of
           Invalid f m \<Rightarrow> w\<lparr>dg_errors := [(f, m)]\<rparr>
         | Valid \<Rightarrow>
             (try_catch (\<lambda>e v. clearSensitive (v\<lparr>dg_topError := submit_error e\<rparr>))
                (io_bind (page_handleSubmit N orgId (dg_provider w) c) (\<lambda>_.
                 io_modify (\<lambda>v. (clearSensitive v)\<lparr>dg_endpoint := [], dg_bucket := [], dg_region := [], dg_root := [], dialogOpen := False\<rparr>)))
                (w\<lparr>dg_submitting := True\<rparr>))\<lparr>dg_submitting := False\<rparr>)"

section \<open>Lemmas\<close>

lemma load_connection_keeps:
  assumes "\<And>v rs. f (v\<lparr>sent := rs\<rparr>) = f v" "\<And>v c. f (v\<lparr>sp_connection := c\<rparr>) = f v"
  shows "f (load_connection N orgId w) = f w"
  unfolding load_connection_def getStorageConnection_def storage_request_def
  by (simp add: assms, rule impI, rule try_catch_keeps; (intro io_frame)?; simp add: assms)

lemma load_connection_reads:
  "\<exists>rs. sent (load_connection N orgId w) = sent w @ rs \<and> list_all (\<lambda>r. req_method r = ''GET'' \<and> req_body r = None) rs"
  unfolding load_connection_def getStorageConnection_def storage_request_def
  by (simp, rule impI, rule try_catch_sends; (intro io_request)?; simp add: cp_request_def)

lemma io_sends_load: "(\<And>r. req_body r = None \<Longrightarrow> P r) \<Longrightarrow> io_sends P (io_modify (load_connection N orgId))"
  using load_connection_reads unfolding io_sends_def list_all_iff by (simp, metis)

text \<open>A handler whose last step and whose error branch end in a known state.\<close>

lemma try_catch_modify: "try_catch h (io_bind m (\<lambda>_. io_modify g)) w = (case m w of (Inl e, v) \<Rightarrow> h e v | (Inr _, v) \<Rightarrow> g v)"
  by (simp add: try_catch_def io_bind_def split: prod.split sum.split)

lemma dialog_config_clean: "dialog_config (w\<lparr>dg_topError := t, dg_errors := es\<rparr>) = dialog_config w"
  by (simp add: dialog_config_def)

section \<open>Properties\<close>

text \<open>C27: the credentials of a bucket. A configuration that does not validate is not sent. Otherwise the only body that leaves the
  page is the validated configuration, and afterwards, whether the server accepted it or not, the keys and tokens are gone
  from the form; closing the dialog removes them too.\<close>

theorem storage_secrets_cleared:
  "(if validateStorageConfig (dg_provider w) (dialog_config w) = Valid
    then (\<exists>rs. sent (dialog_handleSubmit N orgId w) = sent w @ rs
            \<and> list_all (\<lambda>r. req_body r \<in> {None, Some (JsonBody (storage_payload (dg_provider w) (dialog_config w)))}) rs)
       \<and> dg_accessKey (dialog_handleSubmit N orgId w) = [] \<and> dg_secretKey (dialog_handleSubmit N orgId w) = []
       \<and> dg_accessToken (dialog_handleSubmit N orgId w) = [] \<and> dg_refreshToken (dialog_handleSubmit N orgId w) = []
    else sent (dialog_handleSubmit N orgId w) = sent w \<and> dg_errors (dialog_handleSubmit N orgId w) \<noteq> [])
   \<and> dg_accessKey (dialog_handleClose w) = [] \<and> dg_secretKey (dialog_handleClose w) = []
   \<and> dg_accessToken (dialog_handleClose w) = [] \<and> dg_refreshToken (dialog_handleClose w) = []"
proof (cases "validateStorageConfig (dg_provider w) (dialog_config w)")
  case Valid
  let ?P = "\<lambda>r. req_body r \<in> {None, Some (JsonBody (storage_payload (dg_provider w) (dialog_config w)))}"
  let ?m = "io_bind (page_handleSubmit N orgId (dg_provider w) (dialog_config w)) (\<lambda>_. io_modify (\<lambda>v. (clearSensitive v)
      \<lparr>dg_endpoint := [], dg_bucket := [], dg_region := [], dg_root := [], dialogOpen := False\<rparr>)) :: ('a storage_state_ext, unit) io"
  let ?h = "\<lambda>e v. clearSensitive (v\<lparr>dg_topError := submit_error e\<rparr>)"
  let ?w = "w\<lparr>dg_topError := [], dg_errors := [], dg_submitting := True\<rparr>"
  have "io_sends ?P ?m"
    unfolding page_handleSubmit_def createStorageConnection_def updateStorageConnection_def storage_request_def
    by (intro io_request io_sends_load; simp add: cp_request_def clearSensitive_def)
  from try_catch_sends [OF this, of ?h ?w] have sends: "\<exists>rs. sent (dialog_handleSubmit N orgId w) = sent w @ rs \<and> list_all ?P rs"
    using Valid by (simp add: dialog_handleSubmit_def dialog_config_clean clearSensitive_def)
  have "dialog_handleSubmit N orgId w = (try_catch ?h ?m ?w)\<lparr>dg_submitting := False\<rparr>"
    using Valid by (simp add: dialog_handleSubmit_def dialog_config_clean)
  then have "dg_accessKey (dialog_handleSubmit N orgId w) = []" "dg_secretKey (dialog_handleSubmit N orgId w) = []"
      "dg_accessToken (dialog_handleSubmit N orgId w) = []" "dg_refreshToken (dialog_handleSubmit N orgId w) = []"
    by (simp_all add: try_catch_modify clearSensitive_def split: prod.split sum.split)
  with sends Valid show ?thesis by (simp add: dialog_handleClose_def clearSensitive_def)
next
  case (Invalid f m)
  then show ?thesis
    by (simp add: dialog_handleSubmit_def dialog_config_clean dialog_handleClose_def clearSensitive_def)
qed

text \<open>The page reads the status of a failure from the digits in its message. The server's text for a missing connection has
  none: an organization without storage is told that the service cannot be reached, and a test of the missing connection
  that the service is unavailable.\<close>

theorem storage_status_misread:
  assumes "\<And>rs q. server N rs q = Resp 404 ct (Some (utf8_encode t))" "t \<noteq> []" "\<not> str_includes t ''404''" "orgId \<noteq> []"
  shows "card_error (load_connection N orgId w) = Some ''Unable to reach the BYOS API.''
    \<and> sp_banner (handleTest N nowIso orgId w) = Some (False, ''Storage service temporarily unavailable.'')"
proof
  have "fst (getStorageConnection N orgId w) = throw_msg t"
    using assms(1,2) by (simp add: getStorageConnection_def storage_request_def cp_call_eq resp_ok_def text_or_empty_def utf8_decode_encode or_else_def)
  then show "card_error (load_connection N orgId w) = Some ''Unable to reach the BYOS API.''"
    using assms(3,4) by (cases "getStorageConnection N orgId w") (simp add: load_connection_def try_catch_def io_bind_def card_error_def)
  have test: "fst (testStorageConnection N nowIso orgId v) = throw_msg ''No storage connection found.''" for v :: "'a storage_state_scheme"
    using assms(1) by (simp add: testStorageConnection_def cp_call_eq resp_ok_def Let_def)
  have "test_error (JsError ''No storage connection found.'' None) = ''Storage service temporarily unavailable.''" by code_simp
  then show "sp_banner (handleTest N nowIso orgId w) = Some (False, ''Storage service temporarily unavailable.'')"
    using assms(4) test [of "w\<lparr>isTesting := True, sp_banner := None\<rparr>"]
    by (cases "testStorageConnection N nowIso orgId (w\<lparr>isTesting := True, sp_banner := None\<rparr>)")
      (simp add: handleTest_def try_catch_def io_bind_def load_connection_keeps [of sp_banner])
qed

definition sample_storage :: storage_state where
  "sample_storage = \<lparr>sessionStorage = [], localStorage = [], sent = [], dialogOpen = False, dialogMode = ''create'', sp_banner = None,
     isTesting = False, isDisconnecting = False, migrationId = [], migration = None, isMigrationBusy = False, sp_connection = Inr None,
     dg_provider = ''s3'', dg_endpoint = [], dg_bucket = [], dg_accessKey = [], dg_secretKey = [], dg_region = [], dg_pathStyle = True,
     dg_root = [], dg_accessToken = [], dg_refreshToken = [], dg_folderId = [], dg_submitting = False, dg_errors = [], dg_topError = [],
     dg_assigned = None\<rparr>"

end
