(* ===== verification/Regex.thy ===== *)
theory Regex
  imports Prelude
begin

text \<open>
  Regular expressions of the language, as far as the clients use them: classes, sequences, alternatives, greedy and lazy
  repetition and numbered groups. \<open>rx_matches\<close> is the backtracking matcher: it lists what remains of the text after each
  match at its start, in the order in which the matcher tries them, with the texts of the groups. \<open>rx_lang\<close> is the
  language; \<open>rx_matches_lang\<close> relates the two, so that a test without regard to the order is membership in a language.
\<close>

named_theorems rx_simps

section \<open>Expressions and their matches\<close>

datatype rx =
    REps
  | RCls "char \<Rightarrow> bool"
  | RSeq rx rx
  | RAlt rx rx
  | RStar bool rx
  | RGroup nat rx

text \<open>The flag of \<open>RStar\<close> is true for a greedy repetition. An iteration that matches nothing ends the repetition.\<close>

type_synonym captures = "(nat \<times> string) list"

function rx_matches :: "rx \<Rightarrow> string \<times> captures \<Rightarrow> (string \<times> captures) list" where
  "rx_matches REps st = [st]"
| "rx_matches (RCls p) st = (case fst st of [] \<Rightarrow> [] | c # s \<Rightarrow> if p c then [(s, snd st)] else [])"
| "rx_matches (RSeq a b) st = concat (map (rx_matches b) (rx_matches a st))"
| "rx_matches (RAlt a b) st = rx_matches a st @ rx_matches b st"
| "rx_matches (RStar greedy a) st =
     (let more = concat (map (\<lambda>st'. if length (fst st') < length (fst st) then rx_matches (RStar greedy a) st' else [])
                          (rx_matches a st))
      in if greedy then more @ [st] else st # more)"
| "rx_matches (RGroup n a) st =
     map (\<lambda>(s, cs). (s, (n, take (length (fst st) - length s) (fst st)) # cs)) (rx_matches a st)"
  by pat_completeness auto
termination
  by (relation "measures [\<lambda>(r, st). size r, \<lambda>(r, st). length (fst st)]") auto

section \<open>Derived forms\<close>

definition rx_any :: "string \<Rightarrow> rx" where
  "rx_any cs = RCls (\<lambda>c. c \<in> set cs)"

text \<open>A literal, and a literal under the flag \<open>i\<close>. Case folding identifies a letter with its upper case where that is one
  code unit; the code units of the model fold as \<open>lower_char\<close> does.\<close>

primrec rx_lit :: "string \<Rightarrow> rx" where
  "rx_lit [] = REps"
| "rx_lit (c # s) = RSeq (RCls (\<lambda>d. d = c)) (rx_lit s)"

primrec rx_lit_i :: "string \<Rightarrow> rx" where
  "rx_lit_i [] = REps"
| "rx_lit_i (c # s) = RSeq (RCls (\<lambda>d. lower_char d = lower_char c)) (rx_lit_i s)"

definition rx_opt :: "rx \<Rightarrow> rx" where
  "rx_opt r = RAlt r REps"

definition rx_plus :: "rx \<Rightarrow> rx" where
  "rx_plus r = RSeq r (RStar True r)"

text \<open>\<open>r{n}\<close> and \<open>r{0,n}\<close>\<close>

primrec rx_times :: "nat \<Rightarrow> rx \<Rightarrow> rx" where
  "rx_times 0 r = REps"
| "rx_times (Suc n) r = RSeq r (rx_times n r)"

primrec rx_upto :: "nat \<Rightarrow> rx \<Rightarrow> rx" where
  "rx_upto 0 r = REps"
| "rx_upto (Suc n) r = rx_opt (RSeq r (rx_upto n r))"

primrec rx_alts :: "rx list \<Rightarrow> rx" where
  "rx_alts [] = RCls (\<lambda>_. False)"
| "rx_alts (r # rs) = (if rs = [] then r else RAlt r (rx_alts rs))"

section \<open>Using an expression\<close>

text \<open>\<open>/^r$/.test(s)\<close>\<close>

definition rx_full :: "rx \<Rightarrow> string \<Rightarrow> bool" where
  "rx_full r s = list_ex (\<lambda>st. fst st = []) (rx_matches r (s, []))"

text \<open>\<open>/r/.test(s)\<close>: a match at some position.\<close>

fun rx_test :: "rx \<Rightarrow> string \<Rightarrow> bool" where
  "rx_test r [] = (rx_matches r ([], []) \<noteq> [])"
| "rx_test r (c # s) = (rx_matches r (c # s, []) \<noteq> [] \<or> rx_test r s)"

text \<open>\<open>s.replace(/r/g, f)\<close> with a function that also collects: the first match at every position, from the left. The
  function gets the match and the groups. The pieces are kept apart for the proofs: \<open>Inl\<close> a character outside a match,
  \<open>Inr\<close> a match with its groups. A match of nothing does not occur with the expressions of the clients; it is
  passed over here.\<close>

definition rx_first :: "rx \<Rightarrow> string \<Rightarrow> (string \<times> captures \<times> string) option" where
  "rx_first r s =
     (case rx_matches r (s, []) of
        (t, cs) # _ \<Rightarrow> if length t < length s then Some (take (length s - length t) s, cs, t) else None
      | [] \<Rightarrow> None)"

lemma rx_first_less: "rx_first r s = Some (m, cs, t) \<Longrightarrow> length t < length s"
  by (auto simp: rx_first_def split: list.splits if_splits)

function rx_pieces :: "rx \<Rightarrow> string \<Rightarrow> (char + string \<times> captures) list" where
  "rx_pieces r s =
     (case rx_first r s of
        Some (m, cs, t) \<Rightarrow> Inr (m, cs) # rx_pieces r t
      | None \<Rightarrow> (case s of [] \<Rightarrow> [] | c # s' \<Rightarrow> Inl c # rx_pieces r s'))"
  by pat_completeness auto
termination
  by (relation "measure (\<lambda>(r, s). length s)") (auto dest: rx_first_less)

declare rx_pieces.simps [simp del]

definition group_text :: "nat \<Rightarrow> captures \<Rightarrow> string" where
  "group_text n cs = (case map_of cs n of Some t \<Rightarrow> t | None \<Rightarrow> [])"

section \<open>Languages\<close>

inductive_set rx_star :: "string set \<Rightarrow> string set" for L :: "string set" where
  star_Nil [intro!, simp]: "[] \<in> rx_star L"
| star_app [intro]: "u \<in> L \<Longrightarrow> v \<in> rx_star L \<Longrightarrow> u @ v \<in> rx_star L"

primrec rx_lang :: "rx \<Rightarrow> string set" where
  "rx_lang REps = {[]}"
| "rx_lang (RCls p) = {[c] |c. p c}"
| "rx_lang (RSeq a b) = {u @ v |u v. u \<in> rx_lang a \<and> v \<in> rx_lang b}"
| "rx_lang (RAlt a b) = rx_lang a \<union> rx_lang b"
| "rx_lang (RStar g a) = rx_star (rx_lang a)"
| "rx_lang (RGroup n a) = rx_lang a"

lemma star_cases:
  assumes "u \<in> rx_star L"
  shows "u = [] \<or> (\<exists>v w. v \<in> L \<and> v \<noteq> [] \<and> w \<in> rx_star L \<and> u = v @ w)"
  using assms
proof (induction rule: rx_star.induct)
  case (star_app u v)
  then show ?case by (cases "u = []") auto
qed simp

primrec group_free :: "rx \<Rightarrow> bool" where
  "group_free REps = True"
| "group_free (RCls p) = True"
| "group_free (RSeq a b) = (group_free a \<and> group_free b)"
| "group_free (RAlt a b) = (group_free a \<and> group_free b)"
| "group_free (RStar g a) = group_free a"
| "group_free (RGroup n a) = False"

text \<open>The matches at the start of a text are the prefixes in the language.\<close>

lemma rx_matches_lang:
  "(\<exists>cs'. (t, cs') \<in> set (rx_matches r st)) \<longleftrightarrow> (\<exists>u \<in> rx_lang r. fst st = u @ t)"
proof (induction r st arbitrary: t rule: rx_matches.induct)
  case (3 a b st)
  have "(\<exists>cs'. (t, cs') \<in> set (rx_matches (RSeq a b) st))
      \<longleftrightarrow> (\<exists>s' cs1. (s', cs1) \<in> set (rx_matches a st) \<and> (\<exists>v \<in> rx_lang b. s' = v @ t))"
  proof -
    have "(\<exists>cs'. (t, cs') \<in> set (rx_matches (RSeq a b) st))
        \<longleftrightarrow> (\<exists>st1 \<in> set (rx_matches a st). \<exists>cs'. (t, cs') \<in> set (rx_matches b st1))"
      by auto
    also have "\<dots> \<longleftrightarrow> (\<exists>st1 \<in> set (rx_matches a st). \<exists>v \<in> rx_lang b. fst st1 = v @ t)"
      by (intro bex_cong refl 3(2))
    also have "\<dots> \<longleftrightarrow> (\<exists>s' cs1. (s', cs1) \<in> set (rx_matches a st) \<and> (\<exists>v \<in> rx_lang b. s' = v @ t))"
      unfolding Bex_def split_paired_Ex fst_conv by (rule refl)
    finally show ?thesis .
  qed
  also have "\<dots> \<longleftrightarrow> (\<exists>s'. (\<exists>u \<in> rx_lang a. fst st = u @ s') \<and> (\<exists>v \<in> rx_lang b. s' = v @ t))"
    using 3(1) by blast
  also have "\<dots> \<longleftrightarrow> (\<exists>u \<in> rx_lang (RSeq a b). fst st = u @ t)" by fastforce
  finally show ?case .
next
  case (5 g a st)
  have "(\<exists>cs'. (t, cs') \<in> set (rx_matches (RStar g a) st))
      \<longleftrightarrow> t = fst st \<or> (\<exists>s' cs1. (s', cs1) \<in> set (rx_matches a st) \<and> length s' < length (fst st) \<and> (\<exists>v \<in> rx_lang (RStar g a). s' = v @ t))"
    (is "_ \<longleftrightarrow> ?r")
  proof -
    have "(\<exists>cs'. (t, cs') \<in> set (rx_matches (RStar g a) st)) \<longleftrightarrow> t = fst st
        \<or> (\<exists>st' \<in> set (rx_matches a st). length (fst st') < length (fst st) \<and> (\<exists>cs'. (t, cs') \<in> set (rx_matches (RStar g a) st')))"
      by (subst rx_matches.simps, cases st) (auto simp: Let_def simp del: rx_matches.simps split: if_splits)
    also have "\<dots> \<longleftrightarrow> t = fst st
        \<or> (\<exists>st' \<in> set (rx_matches a st). length (fst st') < length (fst st) \<and> (\<exists>v \<in> rx_lang (RStar g a). fst st' = v @ t))"
      by (intro disj_cong bex_cong conj_cong refl 5(2)) auto
    also have "\<dots> \<longleftrightarrow> ?r" by force
    finally show ?thesis .
  qed
  also have "\<dots> \<longleftrightarrow> t = fst st \<or> (\<exists>s'. (\<exists>u \<in> rx_lang a. fst st = u @ s') \<and> length s' < length (fst st) \<and> (\<exists>v \<in> rx_star (rx_lang a). s' = v @ t))"
    using 5(1) by auto
  also have "\<dots> \<longleftrightarrow> (\<exists>u \<in> rx_lang (RStar g a). fst st = u @ t)"
    (is "?l \<longleftrightarrow> ?r")
  proof
    assume ?l
    then show ?r
    proof (elim disjE exE conjE bexE)
      fix s' u v assume "fst st = u @ s'" "u \<in> rx_lang a" "v \<in> rx_star (rx_lang a)" "s' = v @ t"
      then show ?r by (intro bexI [of _ "u @ v"]) auto
    qed simp
  next
    assume ?r
    then obtain u where u: "u \<in> rx_star (rx_lang a)" "fst st = u @ t" by auto
    from star_cases [OF u(1)] show ?l
    proof (elim disjE exE conjE)
      fix v w assume "v \<in> rx_lang a" "v \<noteq> []" "w \<in> rx_star (rx_lang a)" "u = v @ w"
      with u(2) show ?l by (intro disjI2 exI [of _ "w @ t"]) auto
    qed (use u(2) in simp)
  qed
  finally show ?case .
next
  case (4 a b st)
  show ?case unfolding rx_matches.simps rx_lang.simps set_append Un_iff ex_disj_distrib 4 by blast
next
  case (6 n a st)
  have "(\<exists>cs'. (t, cs') \<in> set (rx_matches (RGroup n a) st)) \<longleftrightarrow> (\<exists>cs'. (t, cs') \<in> set (rx_matches a st))"
    by force
  then show ?case unfolding rx_lang.simps 6 .
qed (auto split: list.splits)

lemma rx_matches_captures:
  "group_free r \<Longrightarrow> st' \<in> set (rx_matches r st) \<Longrightarrow> snd st' = snd st"
proof (induction r st arbitrary: st' rule: rx_matches.induct)
  case (3 a b st)
  then obtain st1 where st1: "st1 \<in> set (rx_matches a st)" "st' \<in> set (rx_matches b st1)" by auto
  with 3(3) show ?case using 3(1) [of st1] 3(2) [of st1 st'] by simp
next
  case (5 g a st)
  from 5(4) have "st' = st \<or> (\<exists>st1 \<in> set (rx_matches a st). length (fst st1) < length (fst st) \<and> st' \<in> set (rx_matches (RStar g a) st1))"
    by (subst (asm) rx_matches.simps) (auto simp: Let_def simp del: rx_matches.simps split: if_splits)
  then show ?case
  proof (elim disjE bexE conjE)
    fix st1 assume "st1 \<in> set (rx_matches a st)" "length (fst st1) < length (fst st)" "st' \<in> set (rx_matches (RStar g a) st1)"
    with 5(3) show ?thesis using 5(1) [of st1] 5(2) [of st1 st'] by simp
  qed simp
qed (auto split: list.splits if_splits)

lemma rx_matches_free:
  assumes "group_free r"
  shows "(t, cs') \<in> set (rx_matches r (s, cs)) \<longleftrightarrow> cs' = cs \<and> (\<exists>u \<in> rx_lang r. s = u @ t)"
proof -
  have cs: "cs' = cs" if "(t, cs') \<in> set (rx_matches r (s, cs))" for cs'
    using rx_matches_captures [OF assms that] by simp
  then show ?thesis using rx_matches_lang [of t r "(s, cs)"] by (metis fst_conv)
qed

lemma rx_matches_group:
  assumes "group_free r"
  shows "(t, cs') \<in> set (rx_matches (RGroup n r) (s, cs)) \<longleftrightarrow> (\<exists>u \<in> rx_lang r. s = u @ t \<and> cs' = (n, u) # cs)"
proof -
  have "(t, cs') \<in> set (rx_matches (RGroup n r) (s, cs)) \<longleftrightarrow>
      (\<exists>cs1. (t, cs1) \<in> set (rx_matches r (s, cs)) \<and> cs' = (n, take (length s - length t) s) # cs1)"
    by force
  then show ?thesis by (auto simp: rx_matches_free [OF assms])
qed

lemma rx_matches_seq:
  "st' \<in> set (rx_matches (RSeq a b) st) \<longleftrightarrow> (\<exists>s1 cs1. (s1, cs1) \<in> set (rx_matches a st) \<and> st' \<in> set (rx_matches b (s1, cs1)))"
  by auto

lemma rx_full_iff: "rx_full r s \<longleftrightarrow> s \<in> rx_lang r"
  using rx_matches_lang [of "[]" r "(s, [])"] by (force simp: rx_full_def list_ex_iff)

lemma rx_matches_some: "rx_matches r (s, cs) \<noteq> [] \<longleftrightarrow> (\<exists>u v. u \<in> rx_lang r \<and> s = u @ v)"
proof -
  have "rx_matches r (s, cs) \<noteq> [] \<longleftrightarrow> (\<exists>t cs'. (t, cs') \<in> set (rx_matches r (s, cs)))"
    by (cases "rx_matches r (s, cs)") auto
  then show ?thesis using rx_matches_lang [of _ r "(s, cs)"] by auto
qed

lemma rx_test_iff: "rx_test r s \<longleftrightarrow> (\<exists>u v w. v \<in> rx_lang r \<and> s = u @ v @ w)"
proof (induction s)
  case Nil
  show ?case by (simp add: rx_matches_some)
next
  case (Cons c s)
  show ?case
  proof
    assume "rx_test r (c # s)"
    then show "\<exists>u v w. v \<in> rx_lang r \<and> c # s = u @ v @ w"
      unfolding rx_test.simps rx_matches_some Cons.IH by (metis append_Cons append_Nil)
  next
    assume "\<exists>u v w. v \<in> rx_lang r \<and> c # s = u @ v @ w"
    then obtain u v w where "v \<in> rx_lang r" "c # s = u @ v @ w" by blast
    then show "rx_test r (c # s)"
      unfolding rx_test.simps rx_matches_some Cons.IH by (cases u) auto
  qed
qed

section \<open>Languages of the derived forms\<close>

lemma in_lang_seq: "u \<in> rx_lang (RSeq a b) \<longleftrightarrow> (\<exists>v w. u = v @ w \<and> v \<in> rx_lang a \<and> w \<in> rx_lang b)"
  by auto

lemma in_lang_cls_seq [rx_simps]:
  "u \<in> rx_lang (RSeq (RCls p) b) \<longleftrightarrow> (\<exists>c v. u = c # v \<and> p c \<and> v \<in> rx_lang b)"
proof
  assume "\<exists>c v. u = c # v \<and> p c \<and> v \<in> rx_lang b"
  then obtain c v where "u = [c] @ v" "p c" "v \<in> rx_lang b" by auto
  then show "u \<in> rx_lang (RSeq (RCls p) b)" unfolding rx_lang.simps by blast
qed auto

lemma lang_lit [simp]: "rx_lang (rx_lit s) = {s}"
  by (induction s) auto

lemma in_lang_lit_i: "t \<in> rx_lang (rx_lit_i s) \<longleftrightarrow> toLowerCase t = toLowerCase s"
proof (induction s arbitrary: t)
  case (Cons c s)
  then show ?case
    by (cases t) (auto simp: toLowerCase_def rx_simps simp del: rx_lang.simps)
qed (simp add: toLowerCase_def)

lemma lang_lit_i [simp]: "rx_lang (rx_lit_i s) = {t. toLowerCase t = toLowerCase s}"
  by (auto simp: in_lang_lit_i)

lemma lang_opt [simp]: "rx_lang (rx_opt r) = insert [] (rx_lang r)"
  by (auto simp: rx_opt_def)

lemma lang_alts: "rx_lang (rx_alts rs) = (\<Union>r \<in> set rs. rx_lang r)"
  by (induction rs) auto

lemma star_cls: "rx_star {[c] |c. p c} = {u. list_all p u}"
proof -
  have "list_all p u \<Longrightarrow> u \<in> rx_star {[c] |c. p c}" for u
  proof (induction u)
    case (Cons c u)
    then have "[c] @ u \<in> rx_star {[c] |c. p c}" by (intro star_app) auto
    then show ?case by simp
  qed simp
  moreover have "u \<in> rx_star {[c] |c. p c} \<Longrightarrow> list_all p u" for u
    by (induction rule: rx_star.induct) auto
  ultimately show ?thesis by blast
qed

lemma lang_star_cls [simp]: "rx_lang (RStar g (RCls p)) = {u. list_all p u}"
  by (simp add: star_cls)

lemma lang_plus_cls [simp]: "rx_lang (rx_plus (RCls p)) = {u. u \<noteq> [] \<and> list_all p u}"
proof -
  have "u \<in> rx_lang (rx_plus (RCls p)) \<longleftrightarrow> u \<noteq> [] \<and> list_all p u" for u
    unfolding rx_plus_def in_lang_cls_seq by (cases u) (auto simp: star_cls)
  then show ?thesis by blast
qed

lemma lang_times_cls [simp]: "rx_lang (rx_times n (RCls p)) = {u. length u = n \<and> list_all p u}"
proof (induction n)
  case (Suc n)
  have "u \<in> rx_lang (rx_times (Suc n) (RCls p)) \<longleftrightarrow> length u = Suc n \<and> list_all p u" for u
    unfolding rx_times.simps in_lang_cls_seq Suc by (cases u) auto
  then show ?case by blast
qed auto

lemma lang_upto_cls [simp]: "rx_lang (rx_upto n (RCls p)) = {u. length u \<le> n \<and> list_all p u}"
proof (induction n)
  case (Suc n)
  have "u \<in> rx_lang (rx_upto (Suc n) (RCls p)) \<longleftrightarrow> length u \<le> Suc n \<and> list_all p u" for u
    unfolding rx_upto.simps lang_opt insert_iff in_lang_cls_seq Suc by (cases u) auto
  then show ?case by blast
qed auto

section \<open>Replacement\<close>

definition piece_text :: "char + string \<times> captures \<Rightarrow> string" where
  "piece_text p = (case p of Inl c \<Rightarrow> [c] | Inr (m, cs) \<Rightarrow> m)"

lemma piece_text_simps [simp]: "piece_text (Inl c) = [c]" "piece_text (Inr (m, cs)) = m"
  by (simp_all add: piece_text_def)

text \<open>The pieces of a text make up the text, and each match is a match of the expression where it stands.\<close>

lemma rx_matches_suffix:
  assumes "(t, cs') \<in> set (rx_matches r (s, cs))"
  shows "\<exists>u. s = u @ t"
  using assms rx_matches_lang [of t r "(s, cs)"] by auto

lemma rx_first_Some:
  assumes "rx_first r s = Some (m, cs, t)"
  shows "s = m @ t" "(t, cs) \<in> set (rx_matches r (s, []))" "m \<noteq> []"
proof -
  from assms obtain rest where r: "rx_matches r (s, []) = (t, cs) # rest" "length t < length s" "m = take (length s - length t) s"
    by (auto simp: rx_first_def split: list.splits if_splits)
  then show mem: "(t, cs) \<in> set (rx_matches r (s, []))" by simp
  from rx_matches_suffix [OF this] r show "s = m @ t" "m \<noteq> []" by auto
qed

lemma pieces_text: "concat (map piece_text (rx_pieces r s)) = s"
proof (induction r s rule: rx_pieces.induct)
  case (1 r s)
  show ?case
  proof (cases "rx_first r s")
    case None
    show ?thesis
    proof (cases s)
      case Nil
      with None show ?thesis by (subst rx_pieces.simps) simp
    next
      case (Cons c s')
      with None 1(1) [OF None Cons] show ?thesis by (subst rx_pieces.simps) simp
    qed
  next
    case (Some x)
    obtain m cs t where x: "x = (m, cs, t)" by (cases x)
    with Some 1(2) [OF Some] x rx_first_Some(1) [of r s m cs t] show ?thesis
      by (subst rx_pieces.simps) simp
  qed
qed

section \<open>Locality\<close>

text \<open>A character that no class of an expression accepts ends every match before it: what follows is irrelevant.\<close>

primrec rx_avoids :: "char \<Rightarrow> rx \<Rightarrow> bool" where
  "rx_avoids x REps = True"
| "rx_avoids x (RCls p) = (\<not> p x)"
| "rx_avoids x (RSeq a b) = (rx_avoids x a \<and> rx_avoids x b)"
| "rx_avoids x (RAlt a b) = (rx_avoids x a \<and> rx_avoids x b)"
| "rx_avoids x (RStar g a) = rx_avoids x a"
| "rx_avoids x (RGroup n a) = rx_avoids x a"

definition with_rest :: "char \<Rightarrow> string \<Rightarrow> string \<times> captures \<Rightarrow> string \<times> captures" where
  "with_rest x t st = (fst st @ x # t, snd st)"

lemma with_rest_sel [simp]: "fst (with_rest x t st) = fst st @ x # t" "snd (with_rest x t st) = snd st"
  by (simp_all add: with_rest_def)

lemma rx_matches_avoids:
  "rx_avoids x r \<Longrightarrow> rx_matches r (with_rest x t st) = map (with_rest x t) (rx_matches r st)"
proof (induction r st rule: rx_matches.induct)
  case (2 p st)
  then show ?case by (cases "fst st") (auto simp: with_rest_def)
next
  case (3 a b st)
  then have "map (rx_matches b \<circ> with_rest x t) (rx_matches a st) = map (map (with_rest x t) \<circ> rx_matches b) (rx_matches a st)"
    by (intro map_cong) auto
  then show ?case using 3(1,3) unfolding rx_matches.simps by (simp only: rx_avoids.simps map_map map_concat)
next
  case (5 g a st)
  let ?next = "\<lambda>st0 st'. if length (fst st') < length (fst st0) then rx_matches (RStar g a) st' else []"
  have "map (?next (with_rest x t st) \<circ> with_rest x t) (rx_matches a st) = map (map (with_rest x t) \<circ> ?next st) (rx_matches a st)"
    using 5(2,3) by (intro map_cong refl) (simp del: rx_matches.simps)
  moreover have "rx_matches a (with_rest x t st) = map (with_rest x t) (rx_matches a st)" using 5(1,3) by simp
  ultimately have "concat (map (?next (with_rest x t st)) (rx_matches a (with_rest x t st)))
      = map (with_rest x t) (concat (map (?next st) (rx_matches a st)))"
    by (simp only: map_map map_concat)
  then show ?case
    unfolding rx_matches.simps(5) [of _ _ "with_rest x t st"] rx_matches.simps(5) [of _ _ st] Let_def
    by (cases g) (simp_all only: if_True if_False map_append list.map)
next
  case (6 n a st)
  have "with_rest x t (s, (n, take (length (fst st) - length s) (fst st)) # cs) =
      (s @ x # t, (n, take (length (fst st @ x # t) - length (s @ x # t)) (fst st @ x # t)) # cs)" for s cs
    by (simp add: with_rest_def)
  with 6 show ?case by (auto simp: with_rest_def case_prod_beta)
qed auto

lemma avoids_lit_i: "rx_avoids x (rx_lit_i s) \<longleftrightarrow> list_all (\<lambda>c. lower_char x \<noteq> lower_char c) s"
  by (induction s) auto

lemma lang_avoids: "rx_avoids x r \<Longrightarrow> u \<in> rx_lang r \<Longrightarrow> x \<notin> set u"
proof (induction r arbitrary: u)
  case (RStar g r)
  from RStar.prems(2) have "u \<in> rx_star (rx_lang r)" by simp
  then show ?case using RStar.IH RStar.prems(1) by (induction rule: rx_star.induct) auto
qed auto

lemma concat_guard: "concat (map (\<lambda>x. if P x then [f x] else []) xs) = map f (filter P xs)"
  by (induction xs) simp_all

text \<open>So an expression that ends in such a character matches exactly up to its first occurrence.\<close>

lemma first_delimited:
  assumes "rx_avoids x r" "x \<notin> set u"
  shows "rx_first (RSeq r (rx_lit [x])) (u @ x # t) =
    (case filter (\<lambda>st. fst st = []) (rx_matches r (u, [])) of [] \<Rightarrow> None | st # _ \<Rightarrow> Some (u @ [x], snd st, t))"
proof -
  have "rx_matches (RSeq r (rx_lit [x])) (u @ x # t, []) =
      concat (map (\<lambda>st. rx_matches (rx_lit [x]) (with_rest x t st)) (rx_matches r (u, [])))"
    using rx_matches_avoids [OF assms(1), of t "(u, [])"] by (simp add: with_rest_def comp_def)
  also have "\<dots> = concat (map (\<lambda>st. if fst st = [] then [(t, snd st)] else []) (rx_matches r (u, [])))"
  proof (intro arg_cong [of _ _ concat] map_cong refl)
    fix st assume "st \<in> set (rx_matches r (u, []))"
    with rx_matches_suffix [of "fst st" "snd st" r u "[]"] assms(2) have "x \<notin> set (fst st)" by auto
    then show "rx_matches (rx_lit [x]) (with_rest x t st) = (if fst st = [] then [(t, snd st)] else [])"
      by (cases "fst st") (auto simp: with_rest_def)
  qed
  also have "\<dots> = map (\<lambda>st. (t, snd st)) (filter (\<lambda>st. fst st = []) (rx_matches r (u, [])))"
    by (rule concat_guard)
  finally show ?thesis by (auto simp: rx_first_def split: list.split)
qed

lemma first_undelimited:
  assumes "x \<notin> set s"
  shows "rx_first (RSeq r (rx_lit [x])) s = None"
proof (rule ccontr)
  assume "rx_first (RSeq r (rx_lit [x])) s \<noteq> None"
  then obtain m cs t where f: "rx_first (RSeq r (rx_lit [x])) s = Some (m, cs, t)" by auto
  have "(\<exists>cs'. (t, cs') \<in> set (rx_matches (RSeq r (rx_lit [x])) (s, [])))" using rx_first_Some(2) [OF f] by blast
  then have "\<exists>u \<in> rx_lang (RSeq r (rx_lit [x])). s = u @ t" by (simp only: rx_matches_lang fst_conv)
  then show False using assms by auto
qed

end
