(* ===== verification/Text_Format.thy ===== *)
theory Text_Format
  imports Prelude
begin

text \<open>
  Numbers as text: \<open>toFixed\<close>, which the clients use for sizes. Sizes are whole numbers of bytes divided by a power of two,
  so the quotient is exact in a double and is given here by its numerator and denominator.
\<close>

text \<open>The integer nearest to \<open>a / b * 10 ^ f\<close>, the larger of two; then its digits with the point before the last \<open>f\<close>.\<close>

definition scaled_round :: "nat \<Rightarrow> nat \<Rightarrow> nat \<Rightarrow> nat" where
  "scaled_round f a b = (2 * a * 10 ^ f + b) div (2 * b)"

definition toFixed :: "nat \<Rightarrow> nat \<Rightarrow> nat \<Rightarrow> string" where
  "toFixed f a b =
     (let m = num_string (scaled_round f a b); m' = padStart (Suc f) (CHR ''0'') m
      in if f = 0 then m else take (length m' - f) m' @ ''.'' @ drop (length m' - f) m')"

text \<open>The number of digits after the point, and the value the digits stand for.\<close>

lemma scaled_round_near:
  assumes "0 < b"
  shows "2 * a * 10 ^ f < 2 * b * scaled_round f a b + b + 1" "2 * b * scaled_round f a b \<le> 2 * a * 10 ^ f + b"
proof -
  let ?n = "2 * a * 10 ^ f + b"
  have "?n = 2 * b * scaled_round f a b + ?n mod (2 * b)" by (simp add: scaled_round_def mult.commute)
  moreover have "?n mod (2 * b) < 2 * b" using assms by simp
  ultimately show "2 * a * 10 ^ f < 2 * b * scaled_round f a b + b + 1" "2 * b * scaled_round f a b \<le> 2 * a * 10 ^ f + b"
    by linarith+
qed

lemma toFixed_point:
  assumes "0 < f"
  shows "\<exists>whole frac. toFixed f a b = whole @ ''.'' @ frac \<and> whole \<noteq> [] \<and> length frac = f
           \<and> list_all is_digit (whole @ frac)"
proof -
  let ?m = "num_string (scaled_round f a b)"
  let ?p = "padStart (Suc f) (CHR ''0'') ?m"
  have len: "Suc f \<le> length ?p" by (simp add: padStart_def)
  have digits: "list_all is_digit ?p"
    using num_string_digits [of _ "scaled_round f a b"] by (auto simp: padStart_def list_all_iff is_digit_def)
  let ?k = "length ?p - f"
  have "toFixed f a b = take ?k ?p @ ''.'' @ drop ?k ?p" using assms by (simp add: toFixed_def Let_def)
  moreover have "take ?k ?p \<noteq> []" using len by (cases ?p) auto
  moreover have "length (drop ?k ?p) = f" using len by simp
  moreover have "list_all is_digit (take ?k ?p @ drop ?k ?p)" using digits by simp
  ultimately show ?thesis by blast
qed

end
