(* ===== verification/Reading_Pane.thy ===== *)
theory Reading_Pane
  imports Regex Text_Format Utilities App_Reader
begin

text \<open>
  The reading pane of the webmail, \<open>components/ReadingPane.tsx\<close>, as far as it computes: the filter of tracking images, the
  names shown for a sender, attachments, what is shown of a message; and the badge of \<open>components/AttachmentBadge.tsx\<close>.
  The HTML sanitizer is a parameter.
\<close>

section \<open>Senders and attachments\<close>

text \<open>\<open>/<.*?>/g\<close>: the dot does not match a line terminator.\<close>

definition angle_rx :: rx where
  "angle_rx = RSeq (rx_lit ''<'') (RSeq (RStar False (RCls (\<lambda>c. \<not> is_line_end c))) (rx_lit ''>''))"

definition drop_pieces :: "(char + string \<times> captures) list \<Rightarrow> string" where
  "drop_pieces ps = concat (map (\<lambda>p. case p of Inl c \<Rightarrow> [c] | Inr _ \<Rightarrow> []) ps)"

text \<open>\<open>s.split(/[\s._-]+/).filter(Boolean)\<close>: the maximal runs of other characters.\<close>

definition is_name_sep :: "char \<Rightarrow> bool" where
  "is_name_sep c \<longleftrightarrow> is_ws c \<or> c \<in> set ''._-''"

function name_parts :: "string \<Rightarrow> string list" where
  "name_parts s =
     (case dropWhile is_name_sep s of
        [] \<Rightarrow> []
      | c # s' \<Rightarrow> (c # takeWhile (\<lambda>d. \<not> is_name_sep d) s') # name_parts (dropWhile (\<lambda>d. \<not> is_name_sep d) s'))"
  by pat_completeness auto
termination
proof (relation "measure length")
  fix s c s' assume "dropWhile is_name_sep s = c # s'"
  then have "length (c # s') \<le> length s" using length_dropWhile_le [of is_name_sep s] by simp
  moreover have "length (dropWhile (\<lambda>d. \<not> is_name_sep d) s') \<le> length s'" by (rule length_dropWhile_le)
  ultimately show "(dropWhile (\<lambda>d. \<not> is_name_sep d) s', s) \<in> measure length" by simp
qed simp

definition getSenderInitials :: "string \<Rightarrow> string" where
  "getSenderInitials sender =
     (if sender = [] then ''?''
      else (let clean = trim (drop_pieces (rx_pieces angle_rx sender)); parts = name_parts clean
            in if 2 \<le> length parts then toUpperCase ([hd (parts ! 0)] @ [hd (parts ! 1)])
               else or_else (toUpperCase (take 2 clean)) ''?''))"

definition formatFileSize :: "nat \<Rightarrow> string" where
  "formatFileSize bytes =
     (if bytes < 1024 then num_string bytes @ '' B''
      else if bytes < 1024 * 1024 then toFixed 1 bytes 1024 @ '' KB''
      else toFixed 1 bytes (1024 * 1024) @ '' MB'')"

text \<open>The pane has its own table of attachment types, with a label and a style; the icon of an entry is markup and left out.\<close>

definition getAttachmentTypeInfo :: "string \<Rightarrow> string \<Rightarrow> string \<times> string" where
  "getAttachmentTypeInfo filename contentType =
     (let ext = toLowerCase (last (split_char (CHR ''.'') filename)); ct = toLowerCase contentType
      in if ext = ''pdf'' \<or> str_includes ct ''pdf'' then (''PDF'', ''bg-rose-50 text-rose-600 border border-rose-200'')
         else if ext \<in> set [''png'', ''jpg'', ''jpeg'', ''gif'', ''webp'', ''svg'', ''bmp'', ''ico''] \<or> startsWith ct ''image/''
              then (''IMG'', ''bg-blue-50 text-blue-600 border border-blue-200'')
         else if ext \<in> set [''xlsx'', ''xls'', ''csv'', ''tsv'', ''ods''] \<or> str_includes ct ''spreadsheet''
                 \<or> str_includes ct ''csv'' \<or> str_includes ct ''excel''
              then (''SHEET'', ''bg-emerald-50 text-emerald-600 border border-emerald-200'')
         else if ext \<in> set [''doc'', ''docx'', ''txt'', ''rtf'', ''odt'', ''md''] \<or> str_includes ct ''word'' \<or> startsWith ct ''text/''
              then (''DOC'', ''bg-indigo-50 text-indigo-600 border border-indigo-200'')
         else if ext \<in> set [''zip'', ''tar'', ''gz'', ''7z'', ''rar'', ''bz2'', ''xz''] \<or> str_includes ct ''zip'' \<or> str_includes ct ''tar''
                 \<or> str_includes ct ''compressed'' \<or> str_includes ct ''archive''
              then (''ZIP'', ''bg-amber-50 text-amber-600 border border-amber-200'')
         else (if ext \<noteq> [] then take 4 (toUpperCase ext) else ''FILE'', ''bg-[#F0EEE9] text-[#A27561] border border-[#E2DFD8]''))"

text \<open>The badge of the message list: a category stands for a file name with that extension.\<close>

definition badge_info :: "string option \<Rightarrow> string option \<Rightarrow> string option \<Rightarrow> file_type_info" where
  "badge_info cat filename contentType =
     (if cat \<noteq> None \<and> cat \<noteq> Some [] then getFileTypeInfo (Some (''file.'' @ toLowerCase (the cat))) (Some [])
      else getFileTypeInfo filename contentType)"

section \<open>The filter of tracking images\<close>

abbreviation is_quote :: "char \<Rightarrow> bool" where
  "is_quote c \<equiv> c = CHR 0x22 \<or> c = CHR 0x27"

abbreviation rx_quote :: rx where
  "rx_quote \<equiv> rx_opt (RCls is_quote)"

definition url_rx :: rx where
  "url_rx = RSeq (rx_lit_i ''http'') (RSeq (rx_opt (rx_lit_i ''s'')) (RSeq (rx_lit_i ''://'')
              (rx_plus (RCls (\<lambda>c. \<not> is_quote c \<and> \<not> is_ws c \<and> c \<noteq> CHR ''>'')))))"

definition img_body :: rx where
  "img_body = RSeq (rx_lit_i ''<img'') (RSeq (rx_plus (RCls is_ws)) (RSeq (RStar False (RCls (\<lambda>c. c \<noteq> CHR ''>'')))
     (RSeq (rx_lit_i ''src='') (RSeq rx_quote (RSeq (RGroup 1 url_rx) (RSeq rx_quote (RStar False (RCls (\<lambda>c. c \<noteq> CHR ''>'')))))))))"

definition imgRegex :: rx where
  "imgRegex = RSeq img_body (rx_lit ''>'')"

definition zero_or_one :: rx where
  "zero_or_one = rx_any ''01''"

definition attr_rx :: "string \<Rightarrow> rx" where
  "attr_rx name = RSeq (rx_lit_i (name @ ''='')) (RSeq rx_quote (RSeq zero_or_one rx_quote))"

definition style_rx :: "string \<Rightarrow> rx \<Rightarrow> rx" where
  "style_rx name v = RSeq (rx_lit_i (name @ '':'')) (RSeq (RStar True (RCls is_ws)) v)"

definition is_tiny :: "string \<Rightarrow> bool" where
  "is_tiny m \<longleftrightarrow> rx_test (attr_rx ''width'') m \<and> rx_test (attr_rx ''height'') m"

definition is_hidden :: "string \<Rightarrow> bool" where
  "is_hidden m \<longleftrightarrow> rx_test (style_rx ''display'' (rx_lit_i ''none'')) m \<or> rx_test (style_rx ''visibility'' (rx_lit_i ''hidden'')) m
     \<or> rx_test (style_rx ''width'' (RSeq zero_or_one (rx_lit_i ''px''))) m"

definition tracker_words :: "string list" where
  "tracker_words = [''track'', ''pixel'', ''open'', ''beacon'', ''wf/open'', ''mandrillapp'', ''mailfoogae'', ''sidekick'', ''hubspot'',
     ''sendgrid'', ''convertkit'', ''/v1/track'']"

definition is_tracker_url :: "string \<Rightarrow> bool" where
  "is_tracker_url src \<longleftrightarrow> rx_test (rx_alts (map rx_lit_i tracker_words)) src"

definition is_tracker :: "string \<Rightarrow> string \<Rightarrow> bool" where
  "is_tracker m src \<longleftrightarrow> is_tiny m \<or> is_hidden m \<or> is_tracker_url src"

definition blocked_comment :: "string \<Rightarrow> string" where
  "blocked_comment src = ''<!-- [BYOS Shield: Blocked Tracker: '' @ src @ ''] -->''"

record tracker_info =
  ti_count :: nat
  ti_urls :: "string list"
  ti_sanitized :: string

definition tracker_step :: "bool \<Rightarrow> tracker_info \<Rightarrow> char + string \<times> captures \<Rightarrow> tracker_info" where
  "tracker_step allowRemoteImages i p =
     (case p of
        Inl c \<Rightarrow> i\<lparr>ti_sanitized := ti_sanitized i @ [c]\<rparr>
      | Inr (m, cs) \<Rightarrow>
          (let src = group_text 1 cs
           in if is_tracker m src
              then \<lparr>ti_count = ti_count i + 1, ti_urls = (if src \<in> set (ti_urls i) then ti_urls i else ti_urls i @ [src]),
                    ti_sanitized = ti_sanitized i @ (if allowRemoteImages then m else blocked_comment src)\<rparr>
              else i\<lparr>ti_sanitized := ti_sanitized i @ m\<rparr>))"

definition trackerInfo :: "bool \<Rightarrow> string option \<Rightarrow> tracker_info" where
  "trackerInfo allowRemoteImages content =
     (let txt = (case content of Some t \<Rightarrow> t | None \<Rightarrow> []); start = \<lparr>ti_count = 0, ti_urls = [], ti_sanitized = []\<rparr>
      in if txt = [] then start else foldl (tracker_step allowRemoteImages) start (rx_pieces imgRegex txt))"

section \<open>What the pane shows\<close>

definition first_angle_rx :: rx where
  "first_angle_rx = RSeq (rx_lit ''<'') (RSeq (RGroup 1 (rx_plus (RCls (\<lambda>c. c \<noteq> CHR ''>'')))) (rx_lit ''>''))"

definition senderEmail :: "string \<Rightarrow> string" where
  "senderEmail sender =
     (case filter (\<lambda>p. \<not> isl p) (rx_pieces first_angle_rx sender) of
        Inr (m, cs) # _ \<Rightarrow> group_text 1 cs
      | _ \<Rightarrow> sender)"

definition senderDisplayName :: "string \<Rightarrow> string" where
  "senderDisplayName sender =
     (let name = takeWhile (\<lambda>c. c \<noteq> CHR ''<'') sender in if name \<noteq> [] then trim name else sender)"

definition canReply :: "display_message \<Rightarrow> bool \<Rightarrow> string option \<Rightarrow> bool" where
  "canReply m decrypting content \<longleftrightarrow>
     dm_folder m \<noteq> ''drafts'' \<and> \<not> decrypting
     \<and> (case content of None \<Rightarrow> False | Some t \<Rightarrow> \<not> startsWith t ''Failed to open'' \<and> \<not> startsWith t ''Mailbox is locked'')"

text \<open>The pane is mounted while a message is selected; its signals live as long as it is mounted.\<close>

record pane_state = app_state +
  allowRemoteImages :: bool
  showTrackerDetails :: bool

datatype pane_body = NoBody | PlainBody string | HtmlBody string

definition markup_rx :: rx where
  "markup_rx = RSeq (rx_lit ''<'') (RSeq (RCls (\<lambda>c. is_lower_ascii (lower_char c)))
     (RSeq (RStar True (RCls (\<lambda>_. True))) (rx_lit ''>'')))"

definition message_body :: "(string \<Rightarrow> string) \<Rightarrow> 'z pane_state_scheme \<Rightarrow> pane_body" where
  "message_body purify w =
     (case decryptedContent w of
        None \<Rightarrow> NoBody
      | Some t \<Rightarrow>
          if isDecrypting w \<or> t = [] then NoBody
          else if rx_test markup_rx t then HtmlBody (purify (ti_sanitized (trackerInfo (allowRemoteImages w) (Some t))))
          else PlainBody t)"

definition tracker_banner :: "'z pane_state_scheme \<Rightarrow> string option" where
  "tracker_banner w =
     (let n = ti_count (trackerInfo (allowRemoteImages w) (decryptedContent w))
      in if 0 < n then Some (num_string n @ '' email tracker'' @ (if 1 < n then ''s'' else []) @ '' blocked'') else None)"

definition loadRemoteImages :: "'z pane_state_scheme \<Rightarrow> 'z pane_state_scheme" where
  "loadRemoteImages w = w\<lparr>allowRemoteImages := True\<rparr>"

text \<open>Rendering after a change of the state: the pane is created anew, with its signals at their defaults, only when no message
  was selected before.\<close>

definition rerender :: "'z pane_state_scheme \<Rightarrow> 'z pane_state_scheme \<Rightarrow> 'z pane_state_scheme" where
  "rerender w w' =
     (if selectedMsg w = None \<and> selectedMsg w' \<noteq> None then w'\<lparr>allowRemoteImages := False, showTrackerDetails := False\<rparr> else w')"

section \<open>Matches of the image expression\<close>

abbreviation gt :: char where
  "gt \<equiv> CHR ''>''"

lemma img_body_avoids: "rx_avoids gt img_body"
  by code_simp

lemma url_avoids: "is_quote c \<or> is_ws c \<or> c = gt \<Longrightarrow> rx_avoids c url_rx"
proof -
  assume "is_quote c \<or> is_ws c \<or> c = gt"
  then have "code c \<in> {34, 39, 9, 10, 11, 12, 13, 32, 160, 62}" by (auto simp: is_ws_def)
  then have "code c \<in> set [34, 39, 9, 10, 11, 12, 13, 32, 160, 62]" by simp
  moreover have "list_all (\<lambda>n. rx_avoids (char_of (n :: nat)) url_rx) [34, 39, 9, 10, 11, 12, 13, 32, 160, 62]" by code_simp
  ultimately have "rx_avoids (char_of (code c)) url_rx" unfolding list_all_iff by blast
  then show ?thesis by simp
qed

definition safe_url :: "string \<Rightarrow> bool" where
  "safe_url src \<longleftrightarrow> toLowerCase (take 4 src) = ''http'' \<and> list_all (\<lambda>c. \<not> is_quote c \<and> \<not> is_ws c \<and> c \<noteq> gt) src"

lemma url_safe:
  assumes "u \<in> rx_lang url_rx"
  shows "safe_url u"
proof -
  have http: "toLowerCase ''http'' = ''http''" by code_simp
  from assms obtain h v where h: "u = h @ v" "toLowerCase h = ''http''"
    unfolding url_rx_def in_lang_seq [of u "rx_lit_i ''http''"] in_lang_lit_i http by blast
  then have "length h = length ''http''" by (metis length_toLowerCase)
  then have "toLowerCase (take 4 u) = ''http''" using h by simp
  moreover have "list_all (\<lambda>c. \<not> is_quote c \<and> \<not> is_ws c \<and> c \<noteq> gt) u"
    using lang_avoids [OF url_avoids assms] by (auto simp: list_all_iff)
  ultimately show ?thesis by (simp add: safe_url_def)
qed

lemma group_free_parts [simp]:
  "group_free (rx_lit_i s)" "group_free (rx_lit s)" "group_free rx_quote" "group_free url_rx" "group_free (rx_plus (RCls p))"
  by (induction s) (simp_all add: rx_opt_def url_rx_def rx_plus_def, code_simp?)

lemma img_body_capture:
  assumes "(t, cs) \<in> set (rx_matches img_body (s, []))"
  shows "safe_url (group_text 1 cs)"
proof -
  from assms obtain u where "u \<in> rx_lang url_rx" "cs = [(1, u)]"
    unfolding img_body_def by (auto simp: rx_matches_seq rx_matches_free rx_matches_group simp del: rx_matches.simps rx_lang.simps)
  then show ?thesis using url_safe by (simp add: group_text_def)
qed

lemma img_first:
  assumes "gt \<notin> set b"
  shows "rx_first imgRegex (b @ gt # t) =
    (case filter (\<lambda>st. fst st = []) (rx_matches img_body (b, [])) of [] \<Rightarrow> None | st # _ \<Rightarrow> Some (b @ [gt], snd st, t))"
  unfolding imgRegex_def by (rule first_delimited [OF img_body_avoids assms])

lemma img_first_None:
  assumes "gt \<notin> set b"
  shows "rx_first imgRegex (b @ gt # t) = None \<longleftrightarrow> b \<notin> rx_lang img_body"
proof -
  have "filter (\<lambda>st. fst st = []) (rx_matches img_body (b, [])) = [] \<longleftrightarrow> \<not> (\<exists>cs. ([], cs) \<in> set (rx_matches img_body (b, [])))"
    by (auto simp: filter_empty_conv)
  also have "\<dots> \<longleftrightarrow> b \<notin> rx_lang img_body" by (simp add: rx_matches_lang)
  finally show ?thesis unfolding img_first [OF assms] by (auto split: list.split)
qed

lemma img_first_Some:
  assumes "rx_first imgRegex s = Some (m, cs, t)"
  obtains b where "s = b @ gt # t" "m = b @ [gt]" "gt \<notin> set b" "b \<in> rx_lang img_body" "safe_url (group_text 1 cs)"
    "\<And>t'. rx_first imgRegex (b @ gt # t') = Some (m, cs, t')"
proof -
  have "gt \<in> set s" using first_undelimited [of gt s img_body] assms by (auto simp: imgRegex_def)
  then obtain b t1 where b: "s = b @ gt # t1" "gt \<notin> set b" using split_list_first by metis
  then have "b \<in> rx_lang img_body" using img_first_None [of b t1] assms by auto
  moreover obtain st rest where st: "filter (\<lambda>st. fst st = []) (rx_matches img_body (b, [])) = st # rest"
    using assms b by (auto simp: img_first split: list.splits)
  then have "st \<in> set (rx_matches img_body (b, []))" using filter_is_subset [of "\<lambda>st. fst st = []" "rx_matches img_body (b, [])"] by auto
  moreover have "m = b @ [gt]" "cs = snd st" "t = t1" "\<And>t'. rx_first imgRegex (b @ gt # t') = Some (m, cs, t')"
    using assms b st by (auto simp: img_first)
  ultimately show ?thesis using that [of b] b img_body_capture [of "fst st" "snd st" b] by simp
qed

section \<open>The filtered text\<close>

definition tracker_piece :: "char + string \<times> captures \<Rightarrow> bool" where
  "tracker_piece p = (case p of Inl c \<Rightarrow> False | Inr (m, cs) \<Rightarrow> is_tracker m (group_text 1 cs))"

definition clean_piece :: "char + string \<times> captures \<Rightarrow> string" where
  "clean_piece p = (if tracker_piece p then blocked_comment (group_text 1 (snd (projr p))) else piece_text p)"

definition clean :: "string \<Rightarrow> string" where
  "clean s = concat (map clean_piece (rx_pieces imgRegex s))"

lemma clean_None:
  "clean [] = []" "rx_first imgRegex (c # s) = None \<Longrightarrow> clean (c # s) = c # clean s"
proof -
  have "rx_first imgRegex [] = None" using rx_first_less [of imgRegex "[]"] by (cases "rx_first imgRegex []") auto
  then show "clean [] = []" unfolding clean_def by (subst rx_pieces.simps) simp
  show "clean (c # s) = c # clean s" if "rx_first imgRegex (c # s) = None"
    unfolding clean_def by (subst rx_pieces.simps) (simp add: that clean_piece_def tracker_piece_def)
qed

lemma clean_Some:
  "rx_first imgRegex s = Some (m, cs, t) \<Longrightarrow>
   clean s = (if is_tracker m (group_text 1 cs) then blocked_comment (group_text 1 cs) else m) @ clean t"
  unfolding clean_def by (subst rx_pieces.simps) (simp add: clean_piece_def tracker_piece_def)

text \<open>The comment up to its end, which is its only closing bracket when the address is safe.\<close>

definition comment_open :: "string \<Rightarrow> string" where
  "comment_open src = ''<!-- [BYOS Shield: Blocked Tracker: '' @ src @ ''] --''"

lemma comment_split: "blocked_comment src = comment_open src @ [gt]"
  by (simp add: blocked_comment_def comment_open_def)

lemma comment_no_gt: "safe_url src \<Longrightarrow> gt \<notin> set (comment_open src)"
  by (auto simp: comment_open_def safe_url_def list_all_iff)

text \<open>An image starts with \<open><img\<close> and white space; none starts inside the comment.\<close>

definition starts_img :: "string \<Rightarrow> bool" where
  "starts_img u \<longleftrightarrow> (\<exists>h c v. u = h @ c # v \<and> toLowerCase h = ''<img'' \<and> is_ws c)"

lemma lower_letters:
  assumes "toLowerCase h = ''<img''"
  shows "\<exists>i m g. h = [CHR ''<'', i, m, g] \<and> lower_char i = CHR ''i'' \<and> lower_char m = CHR ''m'' \<and> lower_char g = CHR ''g''"
proof -
  from assms obtain l i m g where h: "h = [l, i, m, g]" "lower_char l = CHR ''<''" "lower_char i = CHR ''i''" "lower_char m = CHR ''m''" "lower_char g = CHR ''g''"
    by (auto simp: toLowerCase_def)
  have "code (lower_char l) = 60" using h(2) by simp
  then have "code l = 60" by (auto simp: code_lower_char split: if_splits simp: is_upper_ascii_def)
  then have "l = CHR ''<''" by (simp add: char_eq_code_iff)
  with h show ?thesis by blast
qed

lemma lang_starts_img: "u \<in> rx_lang img_body \<Longrightarrow> starts_img u"
proof -
  assume "u \<in> rx_lang img_body"
  moreover have "toLowerCase ''<img'' = ''<img''" by code_simp
  ultimately obtain h w v where u: "u = h @ w @ v" "toLowerCase h = ''<img''" "w \<in> rx_lang (rx_plus (RCls is_ws))"
    unfolding img_body_def in_lang_seq [of _ "rx_lit_i ''<img''"] in_lang_seq [of _ "rx_plus (RCls is_ws)"] in_lang_lit_i by auto
  then show ?thesis unfolding starts_img_def lang_plus_cls by (cases w) auto
qed

lemma starts_img_Cons: "starts_img (c # u) \<Longrightarrow> c = CHR ''<''"
  unfolding starts_img_def using lower_letters by fastforce

lemma append_split_le:
  assumes "p @ x = v @ u" "length p \<le> length v"
  shows "\<exists>v'. v = p @ v' \<and> x = v' @ u"
  using assms by (auto simp: append_eq_append_conv2)

lemma no_img_in_comment:
  assumes "safe_url src" "comment_open src = v @ u"
  shows "\<not> starts_img u"
proof
  assume "starts_img u"
  then obtain i m g c r where u: "u = [CHR ''<'', i, m, g, c] @ r" "lower_char i = CHR ''i''" "lower_char m = CHR ''m''" "lower_char g = CHR ''g''" "is_ws c"
    unfolding starts_img_def using lower_letters by fastforce
  have bracket: "lower_char (CHR '']'') = CHR '']''" "\<not> is_ws (CHR '']'')" by code_simp+
  have tail: False if "src @ ''] --'' = v' @ u" for v'
  proof -
    have no_ws: "\<not> is_ws d" if "d \<in> set src" for d using assms(1) that by (simp add: safe_url_def list_all_iff)
    from that [symmetric] u(1) consider (inside) w where "src = v' @ w" "w @ ''] --'' = u" | (after) w where "''] --'' = w @ u"
      by (auto simp: append_eq_append_conv2)
    then show False
    proof cases
      case after
      with u(1) show False by (auto simp: Cons_eq_append_conv)
    next
      case inside
      with u bracket no_ws show False by (auto simp: Cons_eq_append_conv append_eq_Cons_conv)
    qed
  qed
  show False
  proof (cases "length v < length ''<!-- [BYOS Shield: Blocked Tracker: ''")
    case True
    have "lower_char (CHR ''!'') \<noteq> CHR ''i''" by code_simp
    with True assms(2) u show False
      by (auto simp: comment_open_def Cons_eq_append_conv append_eq_Cons_conv less_Suc_eq)
  next
    case False
    then have "\<exists>v'. src @ ''] --'' = v' @ u"
      using append_split_le [OF assms(2) [unfolded comment_open_def]] by (meson linorder_not_less)
    then show False using tail by blast
  qed
qed

text \<open>The first segment of the filtered text, up to its first closing bracket, is that of the text or ends in a comment.\<close>

definition same_segment :: "string \<Rightarrow> string \<Rightarrow> bool" where
  "same_segment s u \<longleftrightarrow>
     (\<exists>b t t'. s = b @ gt # t \<and> u = b @ gt # t' \<and> gt \<notin> set b) \<or> (gt \<notin> set s \<and> gt \<notin> set u)"

definition comment_segment :: "string \<Rightarrow> string \<Rightarrow> bool" where
  "comment_segment s u \<longleftrightarrow>
     (\<exists>g b t src t'. s = g @ b @ gt # t \<and> u = g @ comment_open src @ gt # t' \<and> gt \<notin> set g \<and> gt \<notin> set b
        \<and> b \<in> rx_lang img_body \<and> safe_url src)"

lemma segment_Cons:
  assumes "same_segment s u \<or> comment_segment s u"
  shows "same_segment (c # s) (c # u) \<or> comment_segment (c # s) (c # u)"
proof (cases "c = gt")
  case True
  then have "c # s = [] @ gt # s \<and> c # u = [] @ gt # u \<and> gt \<notin> set []" by simp
  then show ?thesis unfolding same_segment_def by blast
next
  case False
  from assms show ?thesis
  proof
    assume same: "same_segment s u"
    show ?thesis using same [unfolded same_segment_def]
    proof (elim disjE exE conjE)
      fix b t t' assume "s = b @ gt # t" "u = b @ gt # t'" "gt \<notin> set b"
      then have "c # s = (c # b) @ gt # t \<and> c # u = (c # b) @ gt # t' \<and> gt \<notin> set (c # b)" using False by simp
      then show ?thesis unfolding same_segment_def by blast
    qed (use False in \<open>simp add: same_segment_def\<close>)
  next
    assume "comment_segment s u"
    then obtain g b t src t' where "s = g @ b @ gt # t" "u = g @ comment_open src @ gt # t'" "gt \<notin> set g"
      and rest: "gt \<notin> set b" "b \<in> rx_lang img_body" "safe_url src" unfolding comment_segment_def by blast
    then have "c # s = (c # g) @ b @ gt # t" "c # u = (c # g) @ comment_open src @ gt # t'" "gt \<notin> set (c # g)" using False by simp_all
    with rest show ?thesis unfolding comment_segment_def by blast
  qed
qed

lemma clean_segment: "same_segment s (clean s) \<or> comment_segment s (clean s)"
proof (induction s rule: length_induct)
  case (1 s)
  show ?case
  proof (cases "rx_first imgRegex s")
    case (Some x)
    obtain m cs t where x: "x = (m, cs, t)" by (cases x)
    with Some obtain b where b: "s = b @ gt # t" "m = b @ [gt]" "gt \<notin> set b" "b \<in> rx_lang img_body" "safe_url (group_text 1 cs)"
      using img_first_Some by blast
    note cl = clean_Some [OF Some [unfolded x]]
    show ?thesis
    proof (cases "is_tracker m (group_text 1 cs)")
      case True
      have "s = [] @ b @ gt # t" "clean s = [] @ comment_open (group_text 1 cs) @ gt # clean t" "gt \<notin> set []"
        using b(1) cl True by (simp_all add: comment_split)
      with b(3-5) show ?thesis unfolding comment_segment_def by blast
    next
      case False
      then have "clean s = b @ gt # clean t" using cl b(2) by simp
      with b(1,3) show ?thesis unfolding same_segment_def by blast
    qed
  next
    case None
    show ?thesis
    proof (cases s)
      case Nil
      then show ?thesis by (simp add: clean_None same_segment_def)
    next
      case (Cons c s')
      with None 1 show ?thesis using segment_Cons clean_None(2) by simp
    qed
  qed
qed

text \<open>Text before an image belongs to it as soon as it starts like one.\<close>

lemma img_extends:
  assumes "starts_img g" "b \<in> rx_lang img_body" "gt \<notin> set g" "gt \<notin> set b"
  shows "g @ b \<in> rx_lang img_body"
proof -
  from assms(1) obtain h c v where g: "g = h @ [c] @ v" "toLowerCase h = toLowerCase ''<img''" "is_ws c"
  proof -
    have "toLowerCase ''<img'' = ''<img''" by code_simp
    with assms(1) that show thesis unfolding starts_img_def by auto
  qed
  let ?tail = "RSeq (rx_lit_i ''src='') (RSeq rx_quote (RSeq (RGroup 1 url_rx) (RSeq rx_quote (RStar False (RCls (\<lambda>c. c \<noteq> gt))))))"
  from assms(2) obtain h' w x e where b: "b = h' @ w @ x @ e" "e \<in> rx_lang ?tail"
    unfolding img_body_def in_lang_seq [of _ "rx_lit_i ''<img''"] in_lang_seq [of _ "rx_plus (RCls is_ws)"]
      in_lang_seq [of _ "RStar False (RCls (\<lambda>c. c \<noteq> gt))"] by blast
  have "[c] \<in> rx_lang (rx_plus (RCls is_ws))" using g(3) by simp
  moreover have "v @ h' @ w @ x \<in> rx_lang (RStar False (RCls (\<lambda>c. c \<noteq> gt)))"
    using assms(3,4) g(1) b(1) unfolding lang_star_cls by (auto simp: list_all_iff)
  moreover have "h \<in> rx_lang (rx_lit_i ''<img'')" using g(2) in_lang_lit_i by blast
  moreover have "g @ b = h @ [c] @ (v @ h' @ w @ x) @ e" using g(1) b(1) by simp
  ultimately show ?thesis
    using b(2) unfolding img_body_def in_lang_seq [of _ "rx_lit_i ''<img''"] in_lang_seq [of _ "rx_plus (RCls is_ws)"]
      in_lang_seq [of _ "RStar False (RCls (\<lambda>c. c \<noteq> gt))"] by blast
qed

text \<open>Where the text has no image the filtered text has none, and in comments there is none.\<close>

lemma img_first_segment:
  "gt \<notin> set s \<Longrightarrow> rx_first imgRegex s = None"
  "gt \<notin> set b \<Longrightarrow> \<not> starts_img b \<Longrightarrow> rx_first imgRegex (b @ gt # t) = None"
  using first_undelimited [of gt s img_body] img_first_None [of b t] lang_starts_img [of b] by (auto simp: imgRegex_def)

lemma clean_no_match:
  assumes "rx_first imgRegex (c # s) = None"
  shows "rx_first imgRegex (c # clean s) = None"
proof -
  have cl: "clean (c # s) = c # clean s" by (rule clean_None(2) [OF assms])
  from clean_segment [of "c # s"] show ?thesis unfolding cl
  proof
    assume same: "same_segment (c # s) (c # clean s)"
    show ?thesis using same [unfolded same_segment_def]
    proof (elim disjE exE conjE)
      fix b t t' assume "c # s = b @ gt # t" "c # clean s = b @ gt # t'" "gt \<notin> set b"
      then show ?thesis using assms img_first_None [of b] by simp
    qed (rule img_first_segment(1))
  next
    assume "comment_segment (c # s) (c # clean s)"
    then obtain g b t src t' where s: "c # s = g @ b @ gt # t" "c # clean s = g @ comment_open src @ gt # t'" "gt \<notin> set g" "gt \<notin> set b"
      "b \<in> rx_lang img_body" "safe_url src" unfolding comment_segment_def by blast
    then have "g @ b \<notin> rx_lang img_body" using img_first_None [of "g @ b" t] assms by simp
    then have g: "\<not> starts_img g" using img_extends s(3-5) by blast
    have "\<not> starts_img (g @ comment_open src)"
    proof
      assume "starts_img (g @ comment_open src)"
      then obtain h d v where st: "g @ comment_open src = h @ d # v" "toLowerCase h = ''<img''" "is_ws d" unfolding starts_img_def by blast
      from st(1) consider (before) w where "g = h @ d # w" | (inside) w where "h = g @ w" "comment_open src = w @ d # v"
        by (auto simp: append_eq_append_conv2 append_eq_Cons_conv Cons_eq_append_conv)
      then show False
      proof cases
        case before
        then show False using g st(2,3) unfolding starts_img_def by blast
      next
        case inside
        obtain r where r: "comment_open src = CHR ''<'' # r" by (simp add: comment_open_def)
        have lt: "\<not> is_ws (CHR ''<'')" "lower_char (CHR ''<'') = CHR ''<''" by code_simp+
        show False
        proof (cases g)
          case Nil
          then show False using inside st(2,3) no_img_in_comment [OF s(6), of "[]"] unfolding starts_img_def by auto
        next
          case (Cons a g')
          have "CHR ''<'' \<notin> set w" using lower_letters [OF st(2)] inside(1) Cons lt by (auto simp: Cons_eq_append_conv append_eq_Cons_conv)
          then show False using r inside(2) st(3) lt(1) by (cases w) auto
        qed
      qed
    qed
    then show ?thesis using s(2,3) comment_no_gt [OF s(6)] img_first_segment(2) [of "g @ comment_open src" t'] by simp
  qed
qed

lemma pieces_None: "rx_first r (c # s) = None \<Longrightarrow> rx_pieces r (c # s) = Inl c # rx_pieces r s"
  by (subst rx_pieces.simps) simp

lemma pieces_Some: "rx_first r s = Some (m, cs, t) \<Longrightarrow> rx_pieces r s = Inr (m, cs) # rx_pieces r t"
  by (subst rx_pieces.simps) simp

lemma pieces_comment:
  assumes "safe_url src"
  shows "comment_open src = v @ u \<Longrightarrow> rx_pieces imgRegex (u @ gt # s) = map Inl (u @ [gt]) @ rx_pieces imgRegex s"
proof (induction u arbitrary: v)
  case Nil
  have "\<not> starts_img []" by (simp add: starts_img_def)
  then show ?case using pieces_None [of imgRegex gt s] img_first_segment(2) [of "[]" s] by simp
next
  case (Cons c u)
  have "gt \<notin> set (c # u)" using comment_no_gt [OF assms] Cons.prems by auto
  then have "rx_first imgRegex (c # u @ gt # s) = None"
    using img_first_segment(2) [of "c # u" s] no_img_in_comment [OF assms Cons.prems] by simp
  then show ?case using Cons.IH [of "v @ [c]"] Cons.prems pieces_None by simp
qed

text \<open>The pieces of the filtered text: those of the text, with the characters of a comment for each tracker.\<close>

lemma pieces_clean:
  "rx_pieces imgRegex (clean s) = concat (map (\<lambda>p. if tracker_piece p then map Inl (clean_piece p) else [p]) (rx_pieces imgRegex s))"
proof (induction s rule: length_induct)
  case (1 s)
  show ?case
  proof (cases "rx_first imgRegex s")
    case (Some x)
    obtain m cs t where x: "x = (m, cs, t)" by (cases x)
    note first = Some [unfolded x]
    from img_first_Some [OF first] obtain b where b: "s = b @ gt # t" "m = b @ [gt]" "safe_url (group_text 1 cs)"
      "\<And>t'. rx_first imgRegex (b @ gt # t') = Some (m, cs, t')" by metis
    note IH = 1 [rule_format, OF rx_first_less [OF first]]
    show ?thesis
    proof (cases "is_tracker m (group_text 1 cs)")
      case True
      then show ?thesis
        using clean_Some [OF first] IH pieces_Some [OF first] pieces_comment [OF b(3), of "[]" _ "clean t"]
        by (simp add: comment_split tracker_piece_def clean_piece_def)
    next
      case False
      then show ?thesis
        using clean_Some [OF first] IH pieces_Some [OF first] pieces_Some [OF b(4) [of "clean t"]] b(2) by (simp add: tracker_piece_def)
    qed
  next
    case None
    show ?thesis
    proof (cases s)
      case Nil
      have "rx_pieces imgRegex [] = []" using img_first_segment(1) [of "[]"] by (subst rx_pieces.simps) simp
      with Nil show ?thesis by (simp add: clean_None)
    next
      case (Cons c s')
      with None 1 show ?thesis
        using clean_None(2) [of c s'] clean_no_match [of c s'] by (simp add: pieces_None tracker_piece_def)
    qed
  qed
qed

lemma pieces_clean_quiet: "filter tracker_piece (rx_pieces imgRegex (clean s)) = []"
  unfolding pieces_clean by (auto simp: filter_empty_conv tracker_piece_def split: if_splits)

text \<open>The loop in closed form.\<close>

definition piece_src :: "char + string \<times> captures \<Rightarrow> string" where
  "piece_src p = group_text 1 (snd (projr p))"

definition add_url :: "string list \<Rightarrow> string \<Rightarrow> string list" where
  "add_url us u = (if u \<in> set us then us else us @ [u])"

lemma tracker_step_eq:
  "tracker_step allow i p =
     \<lparr>ti_count = ti_count i + (if tracker_piece p then 1 else 0),
      ti_urls = (if tracker_piece p then add_url (ti_urls i) (piece_src p) else ti_urls i),
      ti_sanitized = ti_sanitized i @ (if allow then piece_text p else clean_piece p)\<rparr>"
  by (cases p) (auto simp: tracker_step_def tracker_piece_def clean_piece_def piece_src_def add_url_def Let_def)

lemma tracker_fold:
  "foldl (tracker_step allow) i ps =
     \<lparr>ti_count = ti_count i + length (filter tracker_piece ps),
      ti_urls = foldl add_url (ti_urls i) (map piece_src (filter tracker_piece ps)),
      ti_sanitized = ti_sanitized i @ concat (map (if allow then piece_text else clean_piece) ps)\<rparr>"
proof (induction ps arbitrary: i)
  case (Cons p ps)
  then show ?case by (simp add: tracker_step_eq)
qed simp

lemma piece_safe:
  assumes "p \<in> set (rx_pieces imgRegex s)" "tracker_piece p"
  shows "safe_url (piece_src p)"
  using assms(1)
proof (induction s rule: length_induct)
  case (1 s)
  show ?case
  proof (cases "rx_first imgRegex s")
    case (Some x)
    obtain m cs t where x: "x = (m, cs, t)" by (cases x)
    note first = Some [unfolded x]
    then have "safe_url (group_text 1 cs)" using img_first_Some by blast
    with 1 pieces_Some [OF first] rx_first_less [OF first] show ?thesis by (auto simp: piece_src_def)
  next
    case None
    then show ?thesis using 1 assms(2) by (cases s) (auto simp: pieces_None tracker_piece_def rx_pieces.simps [of _ "[]"])
  qed
qed

lemma foldl_add_url: "set (foldl add_url us vs) = set us \<union> set vs" "distinct us \<Longrightarrow> distinct (foldl add_url us vs)"
  by (induction vs arbitrary: us) (auto simp: add_url_def)

lemma trackerInfo_eq:
  "trackerInfo allow (Some t) =
     \<lparr>ti_count = length (filter tracker_piece (rx_pieces imgRegex t)),
      ti_urls = foldl add_url [] (map piece_src (filter tracker_piece (rx_pieces imgRegex t))),
      ti_sanitized = (if allow then t else clean t)\<rparr>"
proof -
  have "rx_pieces imgRegex [] = []" using img_first_segment(1) [of "[]"] by (subst rx_pieces.simps) simp
  then show ?thesis by (simp add: trackerInfo_def tracker_fold pieces_text clean_def Let_def)
qed

section \<open>Properties\<close>

text \<open>C5: the filter of tracking images is complete for what it looks for. Filtering the filtered text finds no tracker and
  changes nothing; with remote images allowed the text is shown as it is, with the same count and addresses. The addresses
  are listed once each and hold no white space, quote or bracket, so that a comment ends where the filter ends it.\<close>

theorem tracker_filter_complete:
  "let blocked = trackerInfo False (Some t); allowed = trackerInfo True (Some t)
   in trackerInfo False (Some (ti_sanitized blocked)) = \<lparr>ti_count = 0, ti_urls = [], ti_sanitized = ti_sanitized blocked\<rparr>
    \<and> ti_sanitized allowed = t \<and> ti_count allowed = ti_count blocked \<and> ti_urls allowed = ti_urls blocked
    \<and> distinct (ti_urls blocked) \<and> (ti_urls blocked = [] \<longleftrightarrow> ti_count blocked = 0)
    \<and> list_all safe_url (ti_urls blocked)"
proof -
  have urls: "set (foldl add_url [] (map piece_src (filter tracker_piece ps))) = piece_src ` {p \<in> set ps. tracker_piece p}" for ps
    by (simp add: foldl_add_url)
  have again: "clean (clean t) = clean t"
    unfolding clean_def [of "clean t"] by (metis clean_piece_def pieces_clean_quiet filter_empty_conv map_cong pieces_text)
  have safe: "safe_url (piece_src p)" if "p \<in> set (rx_pieces imgRegex t)" "tracker_piece p" for p
    using piece_safe that by blast
  show ?thesis
    unfolding Let_def trackerInfo_eq tracker_info.simps
    using urls [of "rx_pieces imgRegex t"] again safe foldl_add_url(2) [of "[]"]
    by (auto simp: pieces_clean_quiet list_all_iff filter_empty_conv)
qed

text \<open>An image is recognised only with white space after its name: a text without that is not filtered, whatever it holds.\<close>

theorem tracker_filter_passes:
  assumes "\<And>u v. t = v @ u \<Longrightarrow> \<not> starts_img u"
  shows "trackerInfo allow (Some t) = \<lparr>ti_count = 0, ti_urls = [], ti_sanitized = t\<rparr>"
proof -
  have "t = v @ u \<Longrightarrow> rx_pieces imgRegex u = map Inl u" for u v
  proof (induction u arbitrary: v)
    case Nil
    show ?case using img_first_segment(1) [of "[]"] by (subst rx_pieces.simps) simp
  next
    case (Cons c u)
    have "rx_first imgRegex (c # u) = None"
    proof (rule ccontr)
      assume "rx_first imgRegex (c # u) \<noteq> None"
      then obtain m cs r where "rx_first imgRegex (c # u) = Some (m, cs, r)" by auto
      then obtain b where "c # u = b @ gt # r" "b \<in> rx_lang img_body" using img_first_Some by blast
      then have "starts_img (c # u)" using lang_starts_img unfolding starts_img_def by fastforce
      then show False using assms Cons.prems by blast
    qed
    then show ?case using Cons.IH [of "v @ [c]"] Cons.prems by (simp add: pieces_None)
  qed
  from this [of "[]" t] have p: "rx_pieces imgRegex t = map Inl t" by simp
  have "filter tracker_piece (map Inl t) = []" by (simp add: filter_empty_conv tracker_piece_def)
  moreover have "clean t = t" unfolding clean_def p by (simp add: clean_piece_def tracker_piece_def comp_def)
  ultimately show ?thesis unfolding trackerInfo_eq p by simp
qed

lemma resume_keeps_images:
  fixes w :: "'z pane_state_scheme"
  shows "allowRemoteImages (resume_draft W seq m box key w) = allowRemoteImages w"
    "allowRemoteImages (resume_fetch seq m box body atts w) = allowRemoteImages w"
    "allowRemoteImages (resume_decrypt W seq m box key b w) = allowRemoteImages w"
    "allowRemoteImages (resume_index N hm boxId msgId sKey kws w) = allowRemoteImages w"
  by (simp_all add: resume_draft_def resume_fetch_def resume_decrypt_def resume_index_def open_failed_def show_status_def
      indexSearchToken_def fire_api Let_def del: append.simps split: sum.split option.split list.split)

lemma attachments_keep_images:
  fixes w :: "'z pane_state_scheme"
  shows "allowRemoteImages (snd (fetchAttachments N b w)) = allowRemoteImages w"
proof -
  have "io_keeps (allowRemoteImages :: 'z pane_state_scheme \<Rightarrow> bool) (fetchAttachments N b)"
    unfolding fetchAttachments_def by (intro io_frame; simp)
  then show ?thesis by (simp add: io_keeps_def)
qed

lemma tasks_keep_images:
  fixes w :: "'z pane_state_scheme"
  shows "allowRemoteImages (openMessage N m w) = allowRemoteImages w"
    "allowRemoteImages (run_task N W hm i w) = allowRemoteImages w"
  by (simp_all add: openMessage_def with_box_def fire_api show_status_def setMessageRead_def fetchMessageBody_def attachments_keep_images
      apiRequest_eq run_task_def resume_task_def resume_keeps_images Let_def case_prod_beta del: append.simps split: option.split reader_task.split)

text \<open>C19: the permission to load images is not that of one message. Once given, it stays while messages are opened from one another,
  and whatever of the next message arrives is shown unfiltered, although the banner still counts its trackers as blocked.\<close>

theorem images_permission_carries_over:
  fixes w :: "'z pane_state_scheme"
  assumes "selectedMsg w \<noteq> None"
  shows "let v = loadRemoteImages w; w' = fold (run_task N W hm) is (rerender v (openMessage N m v))
         in message_body purify w' = (case decryptedContent w' of
              None \<Rightarrow> NoBody
            | Some t \<Rightarrow> if isDecrypting w' \<or> t = [] then NoBody else if rx_test markup_rx t then HtmlBody (purify t) else PlainBody t)
          \<and> tracker_banner w' = tracker_banner (w'\<lparr>allowRemoteImages := False\<rparr>)"
proof -
  let ?v = "loadRemoteImages w"
  let ?w = "fold (run_task N W hm) is (rerender ?v (openMessage N m ?v))"
  have keep: "allowRemoteImages (fold (run_task N W hm) is v) = allowRemoteImages v" for v :: "'z pane_state_scheme"
    by (induction "is" arbitrary: v) (simp_all add: tasks_keep_images)
  have "selectedMsg ?v \<noteq> None" using assms by (simp add: loadRemoteImages_def)
  then have "rerender ?v (openMessage N m ?v) = openMessage N m ?v" by (auto simp: rerender_def)
  moreover have "allowRemoteImages ?v" by (simp add: loadRemoteImages_def)
  ultimately have allowed: "allowRemoteImages ?w" unfolding keep by (simp add: tasks_keep_images)
  have count: "ti_count (trackerInfo True c) = ti_count (trackerInfo False c)" for c
    by (cases c) (simp_all add: trackerInfo_eq, simp add: trackerInfo_def)
  show ?thesis unfolding Let_def
  proof
    show "message_body purify ?w = (case decryptedContent ?w of
              None \<Rightarrow> NoBody
            | Some t \<Rightarrow> if isDecrypting ?w \<or> t = [] then NoBody else if rx_test markup_rx t then HtmlBody (purify t) else PlainBody t)"
      using allowed by (simp add: message_body_def trackerInfo_eq split: option.split)
    show "tracker_banner ?w = tracker_banner (?w\<lparr>allowRemoteImages := False\<rparr>)"
      using allowed by (simp add: tracker_banner_def count)
  qed
qed

definition sample_pane :: pane_state where
  "sample_pane = app_state.extend (sample_app\<lparr>selectedMsg := Some sample_draft\<rparr>) (pane_state.fields False False)"

theorem images_permission_carries_over_witness:
  "tracker_banner (fold (run_task silent_net fixed_core (\<lambda>_ _ _. Inr [])) [0] (rerender (loadRemoteImages sample_pane)
     (openMessage silent_net sample_draft (loadRemoteImages sample_pane)))) =
   tracker_banner ((fold (run_task silent_net fixed_core (\<lambda>_ _ _. Inr [])) [0] (rerender (loadRemoteImages sample_pane)
     (openMessage silent_net sample_draft (loadRemoteImages sample_pane))))\<lparr>allowRemoteImages := False\<rparr>)"
proof -
  have "selectedMsg sample_pane \<noteq> None" by (simp add: sample_pane_def app_state.defs)
  then show ?thesis using images_permission_carries_over [of sample_pane] unfolding Let_def by blast
qed

text \<open>A tracking image whose name is followed by a slash passes the filter.\<close>

theorem slash_image_passes:
  "trackerInfo False (Some ''<img/src=http://t.io/pixel width=1 height=1>'') =
     \<lparr>ti_count = 0, ti_urls = [], ti_sanitized = ''<img/src=http://t.io/pixel width=1 height=1>''\<rparr>"
  by code_simp

text \<open>The badge of a category: the names of two categories are not extensions the table knows.\<close>

theorem badge_categories:
  "map (\<lambda>c. category (badge_info (Some c) None None)) [''PDF'', ''IMG'', ''SHEET'', ''DOC'', ''ZIP'', ''FILE''] =
     [PDF, FILE, FILE, DOC, ZIP, FILE]"
  by code_simp

end
