(* ===== verification/Filters_Tab.thy ===== *)
theory Filters_Tab
  imports App_Login
begin

text \<open>
  The filters of a mailbox: \<open>apps/webmail/src/routes/settings/FiltersTab.tsx\<close>. Filters are built from conditions and actions in
  a form or written as a Sieve script; address rules list senders as spam, blocked or allowed. The confirmation dialog is
  an argument. Objects of the server are read through their declared types in \<open>api.ts\<close>.
\<close>

section \<open>Filters\<close>

record filter_condition =
  fc_field :: string
  fc_comparator :: string
  fc_value :: string

record filter_actions =
  fa_folder :: "string option"
  fa_folder_id :: "string option"
  fa_label_ids :: "string list option"
  fa_mark_read :: bool
  fa_star :: bool

record filter_rules =
  fr_match :: string
  fr_conditions :: "filter_condition list"
  fr_actions :: filter_actions

record filter_item =
  fi_id :: string
  fi_name :: string
  fi_type :: string
  fi_rules :: "filter_rules option"
  fi_sieve :: "string option"
  fi_active :: bool

definition condition_of :: "json \<Rightarrow> filter_condition" where
  "condition_of v = \<lparr>fc_field = text_prop ''field'' v, fc_comparator = text_prop ''comparator'' v, fc_value = text_prop ''value'' v\<rparr>"

definition texts_of :: "json \<Rightarrow> string list option" where
  "texts_of v = (case v of JArr vs \<Rightarrow> Some (map (\<lambda>x. case x of JStr s \<Rightarrow> s | _ \<Rightarrow> []) vs) | _ \<Rightarrow> None)"

definition actions_of :: "json option \<Rightarrow> filter_actions" where
  "actions_of a =
     (case a of
        None \<Rightarrow> \<lparr>fa_folder = None, fa_folder_id = None, fa_label_ids = None, fa_mark_read = False, fa_star = False\<rparr>
      | Some v \<Rightarrow> \<lparr>fa_folder = str_prop ''folder'' v, fa_folder_id = str_prop ''folder_id'' v,
                   fa_label_ids = Option.bind (jprop ''label_ids'' v) texts_of,
                   fa_mark_read = bool_prop ''mark_read'' v, fa_star = bool_prop ''star'' v\<rparr>)"

definition rules_of :: "json \<Rightarrow> filter_rules" where
  "rules_of v =
     \<lparr>fr_match = text_prop ''match'' v,
      fr_conditions = (case jprop ''conditions'' v of Some (JArr vs) \<Rightarrow> map condition_of vs | _ \<Rightarrow> []),
      fr_actions = actions_of (jprop ''actions'' v)\<rparr>"

definition filter_item_of :: "json \<Rightarrow> filter_item" where
  "filter_item_of v =
     \<lparr>fi_id = text_prop ''id'' v, fi_name = text_prop ''name'' v, fi_type = text_prop ''filter_type'' v,
      fi_rules = (case jprop ''rules_json'' v of Some (JObj m) \<Rightarrow> Some (rules_of (JObj m)) | _ \<Rightarrow> None),
      fi_sieve = str_prop ''sieve_script'' v, fi_active = bool_prop ''is_active'' v\<rparr>"

section \<open>State\<close>

record filters_state = world +
  ft_loading :: bool
  ft_error :: "string option"
  ft_success :: "string option"
  filters :: "filter_item list"
  customFilterModalOpen :: bool
  sieveFilterModalOpen :: bool
  savingFilter :: bool
  editingFilterId :: "string option"
  filterName :: string
  filterMatch :: string
  filterConditions :: "filter_condition list"
  actionMoveFolder :: string
  actionApplyMove :: bool
  actionMarkRead :: bool
  actionStar :: bool
  sieveFilterName :: string
  sieveScript :: string
  activeRuleTab :: string
  addressRules :: "json list"
  addRuleModalOpen :: bool
  newRuleListType :: string
  newRuleValue :: string
  savingRule :: bool

definition items_of :: "json option \<Rightarrow> json list" where
  "items_of v = (case v of Some (JArr vs) \<Rightarrow> vs | _ \<Rightarrow> [])"

definition load_filters :: "net \<Rightarrow> string \<Rightarrow> 'z filters_state_scheme \<Rightarrow> 'z filters_state_scheme" where
  "load_filters N boxId w =
     (try_catch (\<lambda>e v. v\<lparr>ft_error := Some (or_message e ''Failed to load filters and rules.'')\<rparr>)
        (io_bind (both (fetchFilters N boxId) (fetchAddressRules N boxId None)) (\<lambda>(fList, rList).
         io_modify (\<lambda>v. v\<lparr>filters := map filter_item_of (items_of fList), addressRules := items_of rList\<rparr>)))
        (w\<lparr>ft_loading := True\<rparr>))\<lparr>ft_loading := False\<rparr>"

abbreviation show_done :: "string \<Rightarrow> 'z filters_state_scheme \<Rightarrow> 'z filters_state_scheme" where
  "show_done t w \<equiv> w\<lparr>ft_success := Some t\<rparr>"

section \<open>The form\<close>

definition blank_condition :: filter_condition where
  "blank_condition = \<lparr>fc_field = ''from'', fc_comparator = ''contains'', fc_value = []\<rparr>"

definition handleAddCondition :: "'z filters_state_scheme \<Rightarrow> 'z filters_state_scheme" where
  "handleAddCondition w = w\<lparr>filterConditions := filterConditions w @ [blank_condition]\<rparr>"

definition handleRemoveCondition :: "nat \<Rightarrow> 'z filters_state_scheme \<Rightarrow> 'z filters_state_scheme" where
  "handleRemoveCondition index w =
     w\<lparr>filterConditions := map fst (filter (\<lambda>(_, i). i \<noteq> index) (zip (filterConditions w) [0..<length (filterConditions w)]))\<rparr>"

text \<open>The key names one of the three fields.\<close>

definition set_condition :: "string \<Rightarrow> string \<Rightarrow> filter_condition \<Rightarrow> filter_condition" where
  "set_condition key v c =
     (if key = ''field'' then c\<lparr>fc_field := v\<rparr> else if key = ''comparator'' then c\<lparr>fc_comparator := v\<rparr> else c\<lparr>fc_value := v\<rparr>)"

definition handleUpdateCondition :: "nat \<Rightarrow> string \<Rightarrow> string \<Rightarrow> 'z filters_state_scheme \<Rightarrow> 'z filters_state_scheme" where
  "handleUpdateCondition index key v w =
     w\<lparr>filterConditions := map (\<lambda>(c, i). if i = index then set_condition key v c else c)
                             (zip (filterConditions w) [0..<length (filterConditions w)])\<rparr>"

definition openCreateCustomFilter :: "'z filters_state_scheme \<Rightarrow> 'z filters_state_scheme" where
  "openCreateCustomFilter w =
     w\<lparr>editingFilterId := None, filterName := [], filterMatch := ''all'', filterConditions := [blank_condition],
       actionApplyMove := False, actionMoveFolder := ''archive'', actionMarkRead := False, actionStar := False,
       customFilterModalOpen := True\<rparr>"

definition openEditCustomFilter :: "filter_item \<Rightarrow> 'z filters_state_scheme \<Rightarrow> 'z filters_state_scheme" where
  "openEditCustomFilter item w0 =
     (let w = w0\<lparr>editingFilterId := Some (fi_id item), filterName := fi_name item\<rparr>
      in case fi_rules item of
           None \<Rightarrow> w\<lparr>customFilterModalOpen := True\<rparr>
         | Some r \<Rightarrow>
             (let w1 = w\<lparr>filterMatch := or_else (fr_match r) ''all'',
                         filterConditions := (if fr_conditions r \<noteq> [] then fr_conditions r else [blank_condition])\<rparr>;
                  w2 = (if nonempty (fa_folder (fr_actions r))
                        then w1\<lparr>actionApplyMove := True, actionMoveFolder := filled (fa_folder (fr_actions r))\<rparr>
                        else w1\<lparr>actionApplyMove := False\<rparr>)
              in w2\<lparr>actionMarkRead := fa_mark_read (fr_actions r), actionStar := fa_star (fr_actions r), customFilterModalOpen := True\<rparr>))"

text \<open>The rules the form stands for; a member that is \<open>undefined\<close> is not written.\<close>

definition condition_json :: "filter_condition \<Rightarrow> json" where
  "condition_json c = JObj [(''field'', JStr (fc_field c)), (''comparator'', JStr (fc_comparator c)), (''value'', JStr (fc_value c))]"

definition form_rules :: "'z filters_state_scheme \<Rightarrow> json" where
  "form_rules w =
     JObj [(''match'', JStr (filterMatch w)),
           (''conditions'', JArr (map condition_json (filter (\<lambda>c. trim (fc_value c) \<noteq> []) (filterConditions w)))),
           (''actions'', JObj ((if actionApplyMove w then [(''folder'', JStr (actionMoveFolder w))] else [])
              @ (if actionMarkRead w then [(''mark_read'', JBool True)] else [])
              @ (if actionStar w then [(''star'', JBool True)] else [])))]"

definition form_filter :: "'z filters_state_scheme \<Rightarrow> json" where
  "form_filter w = JObj [(''name'', JStr (trim (filterName w))), (''filter_type'', JStr ''custom''), (''rules_json'', form_rules w)]"

definition replace_filter :: "filter_item \<Rightarrow> filter_item list \<Rightarrow> filter_item list" where
  "replace_filter updated = map (\<lambda>f. if fi_id f = fi_id updated then updated else f)"

definition save_filter :: "net \<Rightarrow> string \<Rightarrow> 'z filters_state_scheme \<Rightarrow> ('z filters_state_ext, unit) io" where
  "save_filter N boxId w =
     (if nonempty (editingFilterId w)
      then io_bind (updateFilter N boxId (filled (editingFilterId w)) (form_filter w)) (\<lambda>r.
           io_bind (io_lift (need r)) (\<lambda>u.
           io_modify (\<lambda>v. show_done (''Filter \"'' @ text_prop ''name'' u @ ''\" updated.'')
             (v\<lparr>filters := replace_filter (filter_item_of u) (filters v)\<rparr>))))
      else io_bind (createFilter N boxId (form_filter w)) (\<lambda>r.
           io_bind (io_lift (need r)) (\<lambda>c.
           io_modify (\<lambda>v. show_done (''Filter \"'' @ text_prop ''name'' c @ ''\" created.'')
             (v\<lparr>filters := filters v @ [filter_item_of c]\<rparr>)))))"

definition handleSaveCustomFilter :: "net \<Rightarrow> string \<Rightarrow> 'z filters_state_scheme \<Rightarrow> 'z filters_state_scheme" where
  "handleSaveCustomFilter N boxId w =
     (if trim (filterName w) = [] then w
      else (try_catch (\<lambda>e v. v\<lparr>ft_error := Some (or_message e ''Failed to save filter.'')\<rparr>)
              (io_bind (save_filter N boxId w) (\<lambda>_. io_modify (\<lambda>v. v\<lparr>customFilterModalOpen := False\<rparr>)))
              (w\<lparr>savingFilter := True, ft_error := None\<rparr>))\<lparr>savingFilter := False\<rparr>)"

section \<open>Scripts and the list\<close>

definition openCreateSieveFilter :: "'z filters_state_scheme \<Rightarrow> 'z filters_state_scheme" where
  "openCreateSieveFilter w = w\<lparr>sieveFilterName := [], sieveFilterModalOpen := True\<rparr>"

definition handleSaveSieveFilter :: "net \<Rightarrow> string \<Rightarrow> 'z filters_state_scheme \<Rightarrow> 'z filters_state_scheme" where
  "handleSaveSieveFilter N boxId w =
     (if trim (sieveFilterName w) = [] \<or> trim (sieveScript w) = [] then w
      else (try_catch (\<lambda>e v. v\<lparr>ft_error := Some (or_message e ''Failed to save Sieve filter.'')\<rparr>)
              (io_bind (createFilter N boxId (JObj [(''name'', JStr (trim (sieveFilterName w))), (''filter_type'', JStr ''sieve''),
                          (''sieve_script'', JStr (sieveScript w))])) (\<lambda>r.
               io_bind (io_lift (need r)) (\<lambda>c.
               io_modify (\<lambda>v. show_done (''Sieve filter \"'' @ text_prop ''name'' c @ ''\" saved.'')
                 (v\<lparr>filters := filters v @ [filter_item_of c], sieveFilterModalOpen := False\<rparr>)))))
              (w\<lparr>savingFilter := True, ft_error := None\<rparr>))\<lparr>savingFilter := False\<rparr>)"

definition handleToggleFilterActive :: "net \<Rightarrow> string \<Rightarrow> filter_item \<Rightarrow> 'z filters_state_scheme \<Rightarrow> 'z filters_state_scheme" where
  "handleToggleFilterActive N boxId f =
     try_catch (\<lambda>e v. v\<lparr>ft_error := Some (or_message e ''Failed to toggle filter status.'')\<rparr>)
       (io_bind (updateFilter N boxId (fi_id f) (JObj [(''is_active'', JBool (\<not> fi_active f))])) (\<lambda>r.
        io_bind (io_lift (need r)) (\<lambda>u.
        io_modify (\<lambda>v. v\<lparr>filters := replace_filter (filter_item_of u) (filters v)\<rparr>))))"

definition handleDeleteFilter :: "net \<Rightarrow> string \<Rightarrow> bool \<Rightarrow> filter_item \<Rightarrow> 'z filters_state_scheme \<Rightarrow> 'z filters_state_scheme" where
  "handleDeleteFilter N boxId confirmed f w =
     (if \<not> confirmed then w
      else try_catch (\<lambda>e v. v\<lparr>ft_error := Some (or_message e ''Failed to delete filter.'')\<rparr>)
             (io_bind (deleteFilter N boxId (fi_id f)) (\<lambda>_.
              io_modify (\<lambda>v. show_done (''Filter \"'' @ fi_name f @ ''\" deleted.'')
                (v\<lparr>filters := filter (\<lambda>x. fi_id x \<noteq> fi_id f) (filters v)\<rparr>)))) w)"

section \<open>Address rules\<close>

definition currentTabRules :: "'z filters_state_scheme \<Rightarrow> json list" where
  "currentTabRules w = filter (\<lambda>r. str_prop ''list_type'' r = Some (activeRuleTab w)) (addressRules w)"

definition handleAddAddressRule :: "net \<Rightarrow> string \<Rightarrow> 'z filters_state_scheme \<Rightarrow> 'z filters_state_scheme" where
  "handleAddAddressRule N boxId w =
     (let val = trim (newRuleValue w)
      in if val = [] then w
         else (try_catch (\<lambda>e v. v\<lparr>ft_error := Some (or_message e ''Failed to add address rule.'')\<rparr>)
                 (io_bind (createAddressRule N boxId (JObj [(''list_type'', JStr (newRuleListType w)), (''value'', JStr val)])) (\<lambda>r.
                  io_modify (\<lambda>v. show_done (''Added \"'' @ val @ ''\" to '' @ newRuleListType v @ '' list.'')
                    (v\<lparr>addressRules := (case r of Some c \<Rightarrow> c | None \<Rightarrow> JNull) # addressRules v, addRuleModalOpen := False, newRuleValue := []\<rparr>))))
                 (w\<lparr>savingRule := True, ft_error := None\<rparr>))\<lparr>savingRule := False\<rparr>)"

definition handleDeleteAddressRule :: "net \<Rightarrow> string \<Rightarrow> json \<Rightarrow> 'z filters_state_scheme \<Rightarrow> 'z filters_state_scheme" where
  "handleDeleteAddressRule N boxId rule =
     try_catch (\<lambda>e v. v\<lparr>ft_error := Some (or_message e ''Failed to delete address rule.'')\<rparr>)
       (io_bind (deleteAddressRule N boxId (text_prop ''id'' rule)) (\<lambda>_.
        io_modify (\<lambda>v. show_done (''Removed \"'' @ text_prop ''value'' rule @ ''\".'')
          (v\<lparr>addressRules := filter (\<lambda>r. text_prop ''id'' r \<noteq> text_prop ''id'' rule) (addressRules v)\<rparr>))))"

section \<open>Properties\<close>

text \<open>What the form keeps of the rules of a filter.\<close>

definition editable :: "filter_rules \<Rightarrow> filter_rules" where
  "editable r =
     \<lparr>fr_match = or_else (fr_match r) ''all'',
      fr_conditions = filter (\<lambda>c. trim (fc_value c) \<noteq> []) (fr_conditions r),
      fr_actions = \<lparr>fa_folder = (if nonempty (fa_folder (fr_actions r)) then fa_folder (fr_actions r) else None), fa_folder_id = None,
        fa_label_ids = None, fa_mark_read = fa_mark_read (fr_actions r), fa_star = fa_star (fr_actions r)\<rparr>\<rparr>"

lemma condition_of_json: "condition_of (condition_json c) = c"
  by (simp add: condition_of_def condition_json_def jprop_def str_prop_def filled_def)

lemma form_rules_of:
  "rules_of (form_rules w) =
     \<lparr>fr_match = filterMatch w, fr_conditions = filter (\<lambda>c. trim (fc_value c) \<noteq> []) (filterConditions w),
      fr_actions = \<lparr>fa_folder = (if actionApplyMove w then Some (actionMoveFolder w) else None), fa_folder_id = None, fa_label_ids = None,
        fa_mark_read = actionMarkRead w, fa_star = actionStar w\<rparr>\<rparr>"
  by (simp add: rules_of_def form_rules_def actions_of_def jprop_def str_prop_def bool_prop_def comp_def condition_of_json filled_def)

lemma edited_rules: "fi_rules item = Some r \<Longrightarrow> rules_of (form_rules (openEditCustomFilter item w)) = editable r"
  unfolding form_rules_of by (auto simp: openEditCustomFilter_def editable_def Let_def blank_condition_def nonempty_def filled_def split: option.split)


definition sample_filters :: filters_state where
  "sample_filters =
     \<lparr>sessionStorage = [], localStorage = [], sent = [], ft_loading = False, ft_error = None, ft_success = None, filters = [],
      customFilterModalOpen = False, sieveFilterModalOpen = False, savingFilter = False, editingFilterId = None, filterName = [],
      filterMatch = ''all'', filterConditions = [blank_condition], actionMoveFolder = ''archive'', actionApplyMove = False,
      actionMarkRead = False, actionStar = False, sieveFilterName = [], sieveScript = [], activeRuleTab = ''spam'', addressRules = [],
      addRuleModalOpen = False, newRuleListType = ''spam'', newRuleValue = [], savingRule = False\<rparr>"

definition label_filter :: filter_item where
  "label_filter =
     \<lparr>fi_id = ''f'', fi_name = ''receipts'', fi_type = ''custom'',
      fi_rules = Some \<lparr>fr_match = ''any'', fr_conditions = [\<lparr>fc_field = ''subject'', fc_comparator = ''contains'', fc_value = ''receipt''\<rparr>, blank_condition],
        fr_actions = \<lparr>fa_folder = Some ''archive'', fa_folder_id = None, fa_label_ids = Some [''l''], fa_mark_read = True, fa_star = False\<rparr>\<rparr>,
      fi_sieve = None, fi_active = True\<rparr>"


end
