(* ===== verification/Settings_Tabs.thy ===== *)
theory Settings_Tabs
  imports Filters_Tab Text_Format
begin

text \<open>
  Further tabs of the webmail's settings, all under \<open>apps/webmail/src/routes/settings\<close>: the automatic reply
  (\<open>AutoReplyTab.tsx\<close>), the credentials of the mail bridge (\<open>BridgeTab.tsx\<close>), signatures and the picture of the sender
  (\<open>SignaturesTab.tsx\<close>) and the appearance (\<open>AppearanceTab.tsx\<close>).
\<close>

section \<open>Automatic reply\<close>

text \<open>The platform's dates: \<open>new Date(s).getTime()\<close>, \<open>None\<close> for an invalid date, and \<open>toISOString\<close>.\<close>

record date_clock =
  clock_parse :: "string \<Rightarrow> int option"
  clock_iso :: "int \<Rightarrow> string"

definition to_iso :: "date_clock \<Rightarrow> string \<Rightarrow> js_error + string" where
  "to_iso C s = (case clock_parse C s of Some t \<Rightarrow> Inr (clock_iso C t) | None \<Rightarrow> throw_msg ''Invalid time value'')"

record autoreply_state = world +
  ar_loading :: bool
  ar_saving :: bool
  ar_savedSuccess :: bool
  ar_error :: "string option"
  isActive :: bool
  subjectTemplate :: string
  bodyTemplate :: string
  replyAll :: bool
  startTime :: string
  endTime :: string
  allowedSenders :: "string list"
  allowedInput :: string
  blockedSenders :: "string list"
  blockedInput :: string

definition senders_of :: "string \<Rightarrow> json \<Rightarrow> string list" where
  "senders_of k rule = (case Option.bind (jprop k rule) texts_of of Some ts \<Rightarrow> ts | None \<Rightarrow> [])"

text \<open>The time of a rule as the form shows it.\<close>

definition form_time :: "date_clock \<Rightarrow> string \<Rightarrow> json \<Rightarrow> js_error + string option" where
  "form_time C k rule =
     (if nonempty (str_prop k rule) then bind_err (to_iso C (text_prop k rule)) (\<lambda>t. Inr (Some (take 16 t))) else Inr None)"

definition load_rule :: "date_clock \<Rightarrow> json \<Rightarrow> ('z autoreply_state_ext, unit) io" where
  "load_rule C rule =
     io_bind (io_modify (\<lambda>v. v\<lparr>isActive := truthy (jprop ''is_active'' rule),
        subjectTemplate := or_else (text_prop ''subject_template'' rule) (subjectTemplate v),
        bodyTemplate := or_else (text_prop ''body_template'' rule) (bodyTemplate v), replyAll := truthy (jprop ''reply_all'' rule),
        allowedSenders := senders_of ''allowed_senders'' rule, blockedSenders := senders_of ''blocked_senders'' rule\<rparr>)) (\<lambda>_.
     io_bind (io_lift (form_time C ''start_time'' rule)) (\<lambda>st.
     io_bind (io_modify (\<lambda>v. case st of Some t \<Rightarrow> v\<lparr>startTime := t\<rparr> | None \<Rightarrow> v)) (\<lambda>_.
     io_bind (io_lift (form_time C ''end_time'' rule)) (\<lambda>et.
     io_modify (\<lambda>v. case et of Some t \<Rightarrow> v\<lparr>endTime := t\<rparr> | None \<Rightarrow> v)))))"

definition autoreply_onMount :: "net \<Rightarrow> date_clock \<Rightarrow> string \<Rightarrow> 'z autoreply_state_scheme \<Rightarrow> 'z autoreply_state_scheme" where
  "autoreply_onMount N C boxId w =
     (try_catch (\<lambda>_ v. v)
        (io_bind (fetchAutoReplyRule N boxId) (\<lambda>r. io_bind (io_lift (need r)) (load_rule C)))
        (w\<lparr>ar_loading := True\<rparr>))\<lparr>ar_loading := False\<rparr>"

definition addAllowedSender :: "'z autoreply_state_scheme \<Rightarrow> 'z autoreply_state_scheme" where
  "addAllowedSender w =
     (let val = trim (allowedInput w)
      in if val \<noteq> [] \<and> val \<notin> set (allowedSenders w) then w\<lparr>allowedSenders := allowedSenders w @ [val], allowedInput := []\<rparr> else w)"

definition removeAllowedSender :: "string \<Rightarrow> 'z autoreply_state_scheme \<Rightarrow> 'z autoreply_state_scheme" where
  "removeAllowedSender sender w = w\<lparr>allowedSenders := filter (\<lambda>s. s \<noteq> sender) (allowedSenders w)\<rparr>"

definition addBlockedSender :: "'z autoreply_state_scheme \<Rightarrow> 'z autoreply_state_scheme" where
  "addBlockedSender w =
     (let val = trim (blockedInput w)
      in if val \<noteq> [] \<and> val \<notin> set (blockedSenders w) then w\<lparr>blockedSenders := blockedSenders w @ [val], blockedInput := []\<rparr> else w)"

definition removeBlockedSender :: "string \<Rightarrow> 'z autoreply_state_scheme \<Rightarrow> 'z autoreply_state_scheme" where
  "removeBlockedSender sender w = w\<lparr>blockedSenders := filter (\<lambda>s. s \<noteq> sender) (blockedSenders w)\<rparr>"

definition payload_time :: "date_clock \<Rightarrow> string \<Rightarrow> string \<Rightarrow> js_error + (string \<times> json) list" where
  "payload_time C k t = (if t \<noteq> [] then bind_err (to_iso C t) (\<lambda>i. Inr [(k, JStr i)]) else Inr [])"

definition autoreply_payload :: "date_clock \<Rightarrow> 'z autoreply_state_scheme \<Rightarrow> js_error + json" where
  "autoreply_payload C w =
     bind_err (payload_time C ''start_time'' (startTime w)) (\<lambda>st.
     bind_err (payload_time C ''end_time'' (endTime w)) (\<lambda>et.
     Inr (JObj ([(''is_active'', JBool (isActive w)), (''subject_template'', JStr (trim (subjectTemplate w))),
        (''body_template'', JStr (trim (bodyTemplate w))), (''reply_all'', JBool (replyAll w)),
        (''allowed_senders'', JArr (map JStr (allowedSenders w))), (''blocked_senders'', JArr (map JStr (blockedSenders w)))] @ st @ et))))"

definition autoreply_handleSave :: "net \<Rightarrow> date_clock \<Rightarrow> string \<Rightarrow> 'z autoreply_state_scheme \<Rightarrow> 'z autoreply_state_scheme" where
  "autoreply_handleSave N C boxId w =
     (try_catch (\<lambda>e v. v\<lparr>ar_error := Some (or_message e ''Failed to save auto-reply settings.'')\<rparr>)
        (io_bind (io_lift (autoreply_payload C w)) (\<lambda>p.
         io_bind (updateAutoReplyRule N boxId p) (\<lambda>_. io_modify (\<lambda>v. v\<lparr>ar_savedSuccess := True\<rparr>))))
        (w\<lparr>ar_saving := True, ar_error := None\<rparr>))\<lparr>ar_saving := False\<rparr>"

section \<open>Bridge credentials\<close>

record bridge_state = world +
  br_loading :: bool
  credentials :: "json list"
  br_error :: "string option"
  revokingId :: "string option"
  showModal :: bool
  tokenLabel :: string
  br_creating :: bool
  generatedToken :: "string option"
  br_copied :: bool

definition mailboxAddress :: "string option \<Rightarrow> string \<Rightarrow> string" where
  "mailboxAddress userEmail localPart =
     (let parts = (case userEmail of Some e \<Rightarrow> split_char (CHR ''@'') e | None \<Rightarrow> []);
          domain_part = (if 1 < length parts then or_else (parts ! 1) ''byos.local'' else ''byos.local'')
      in localPart @ ''@'' @ domain_part)"

definition loadCredentials :: "net \<Rightarrow> string \<Rightarrow> 'z bridge_state_scheme \<Rightarrow> 'z bridge_state_scheme" where
  "loadCredentials N boxId w =
     (try_catch (\<lambda>e v. v\<lparr>br_error := Some (or_message e ''Failed to load bridge credentials.'')\<rparr>)
        (io_bind (listBridgeCredentials N boxId) (\<lambda>cs. io_modify (\<lambda>v. v\<lparr>credentials := cs\<rparr>)))
        (w\<lparr>br_loading := True\<rparr>))\<lparr>br_loading := False\<rparr>"

definition handleCreateToken :: "net \<Rightarrow> string \<Rightarrow> 'z bridge_state_scheme \<Rightarrow> 'z bridge_state_scheme" where
  "handleCreateToken N boxId w =
     (if trim (tokenLabel w) = [] then w
      else (try_catch (\<lambda>e v. v\<lparr>br_error := Some (or_message e ''Failed to generate bridge credential.'')\<rparr>)
              (io_bind (createBridgeCredential N boxId (trim (tokenLabel w))) (\<lambda>r.
               io_bind (io_lift (need r)) (\<lambda>cred.
               io_modify (\<lambda>v. loadCredentials N boxId (v\<lparr>generatedToken := Some (or_else (text_prop ''token'' cred) ''token-generated''), tokenLabel := []\<rparr>)))))
              (w\<lparr>br_creating := True, br_error := None\<rparr>))\<lparr>br_creating := False\<rparr>)"

definition handleRevoke :: "net \<Rightarrow> string \<Rightarrow> bool \<Rightarrow> string \<Rightarrow> 'z bridge_state_scheme \<Rightarrow> 'z bridge_state_scheme" where
  "handleRevoke N boxId confirmed i w =
     (if \<not> confirmed then w
      else (try_catch (\<lambda>e v. v\<lparr>br_error := Some (or_message e ''Failed to revoke credential.'')\<rparr>)
              (io_bind (revokeBridgeCredential N boxId i) (\<lambda>_.
               io_modify (\<lambda>v. v\<lparr>credentials := filter (\<lambda>c. text_prop ''id'' c \<noteq> i) (credentials v)\<rparr>)))
              (w\<lparr>revokingId := Some i\<rparr>))\<lparr>revokingId := None\<rparr>)"

text \<open>The text that reaches the clipboard.\<close>

definition handleCopyToken :: "'z bridge_state_scheme \<Rightarrow> string option \<times> 'z bridge_state_scheme" where
  "handleCopyToken w = (if nonempty (generatedToken w) then (generatedToken w, w\<lparr>br_copied := True\<rparr>) else (None, w))"

section \<open>Signatures and the picture of the sender\<close>

record signature_state = world +
  sg_loading :: bool
  sg_saving :: bool
  sg_savedSuccess :: bool
  sg_error :: "string option"
  displayName :: string
  avatarUrl :: string
  avatarInputUrl :: string
  signaturePlain :: string
  signatureHtml :: string
  insertOnReply :: bool
  aliases :: "json list"
  selectedSenderIdentity :: string

definition primaryEmail :: "string option \<Rightarrow> string \<Rightarrow> string" where
  "primaryEmail userEmail localPart =
     (let parts = (case userEmail of Some e \<Rightarrow> split_char (CHR ''@'') e | None \<Rightarrow> []);
          domain_part = (if 1 < length parts then or_else (parts ! 1) ''byos.local'' else ''byos.local'')
      in localPart @ ''@'' @ domain_part)"

text \<open>The two keys a picture is stored under: the lower-case address and the mailbox.\<close>

definition avatar_keys :: "string \<Rightarrow> string \<Rightarrow> string list" where
  "avatar_keys email boxId = [''byos_avatar_'' @ trim (toLowerCase email), ''byos_avatar_'' @ boxId]"

definition saveAvatarLocally :: "string \<Rightarrow> string \<Rightarrow> string \<Rightarrow> 'z signature_state_scheme \<Rightarrow> 'z signature_state_scheme" where
  "saveAvatarLocally email boxId url w =
     (if url \<noteq> [] then w\<lparr>localStorage := fold (\<lambda>k. setItem k url) (avatar_keys email boxId) (localStorage w)\<rparr>
      else w\<lparr>localStorage := fold removeItem (avatar_keys email boxId) (localStorage w)\<rparr>)"

text \<open>\<open>Math.round\<close> of the quotient of two whole numbers.\<close>

definition round_quotient :: "nat \<Rightarrow> nat \<Rightarrow> nat" where
  "round_quotient a b = scaled_round 0 a b"

definition maxDim :: nat where
  "maxDim = 128"

definition avatar_size :: "nat \<Rightarrow> nat \<Rightarrow> nat \<times> nat" where
  "avatar_size w h =
     (if w > maxDim \<or> h > maxDim
      then (if w > h then (maxDim, round_quotient (h * maxDim) w) else (round_quotient (w * maxDim) h, maxDim))
      else (w, h))"

text \<open>The uploaded file is empty, cannot be drawn, or is a picture with its width and height; \<open>canvas\<close> draws it at the
  size it is given.\<close>

datatype upload = NoPicture | Picture nat nat

definition handleAvatarFileUpload ::
  "(nat \<Rightarrow> nat \<Rightarrow> string option) \<Rightarrow> string \<Rightarrow> string \<Rightarrow> upload \<Rightarrow> 'z signature_state_scheme \<Rightarrow> 'z signature_state_scheme" where
  "handleAvatarFileUpload canvas email boxId file w =
     (case file of NoPicture \<Rightarrow> w
      | Picture wd ht \<Rightarrow>
          (let (cw, ch) = avatar_size wd ht
           in case canvas cw ch of None \<Rightarrow> w
              | Some downscaled \<Rightarrow>
                  saveAvatarLocally email boxId downscaled
                    (w\<lparr>avatarUrl := downscaled, avatarInputUrl := (if prefix ''data:'' downscaled then [] else downscaled)\<rparr>)))"

definition handleAvatarUrlChange :: "string \<Rightarrow> string \<Rightarrow> string \<Rightarrow> 'z signature_state_scheme \<Rightarrow> 'z signature_state_scheme" where
  "handleAvatarUrlChange email boxId url w =
     (let trimmed = trim url
      in saveAvatarLocally email boxId trimmed (w\<lparr>avatarInputUrl := trimmed, avatarUrl := trimmed\<rparr>))"

definition removeAvatar :: "string \<Rightarrow> string \<Rightarrow> 'z signature_state_scheme \<Rightarrow> 'z signature_state_scheme" where
  "removeAvatar email boxId w = saveAvatarLocally email boxId [] (w\<lparr>avatarUrl := [], avatarInputUrl := []\<rparr>)"

text \<open>\<open>purify\<close> is DOMPurify, with and without the extra tags.\<close>

definition initial_html :: "json \<Rightarrow> string" where
  "initial_html settings =
     or_else (text_prop ''signature_html'' settings)
       (concat (map (\<lambda>c. if [c] = newline then ''<br/>'' else [c]) (text_prop ''signature_plain'' settings)))"

definition stored_avatar :: "string \<Rightarrow> string \<Rightarrow> json \<Rightarrow> store \<Rightarrow> string" where
  "stored_avatar email boxId settings s =
     or_else (text_prop ''avatar_url'' settings)
       (or_else (filled (getItem s (avatar_keys email boxId ! 0))) (filled (getItem s (avatar_keys email boxId ! 1))))"

definition load_signature :: "(bool \<Rightarrow> string \<Rightarrow> string) \<Rightarrow> string \<Rightarrow> string \<Rightarrow> json \<Rightarrow> json list \<Rightarrow> 'z signature_state_scheme \<Rightarrow> 'z signature_state_scheme" where
  "load_signature purify email boxId settings aliasList w =
     (let avatar = stored_avatar email boxId settings (localStorage w);
          w1 = w\<lparr>displayName := text_prop ''display_name'' settings, signaturePlain := text_prop ''signature_plain'' settings,
                 signatureHtml := purify True (initial_html settings),
                 insertOnReply := truthy (jprop ''insert_signature_on_reply'' settings), aliases := aliasList,
                 selectedSenderIdentity := email\<rparr>
      in if avatar = [] then w1
         else w1\<lparr>avatarUrl := avatar, avatarInputUrl := (if prefix ''data:'' avatar then avatarInputUrl w1 else avatar)\<rparr>)"

definition signatures_onMount ::
  "net \<Rightarrow> (bool \<Rightarrow> string \<Rightarrow> string) \<Rightarrow> string \<Rightarrow> string \<Rightarrow> 'z signature_state_scheme \<Rightarrow> 'z signature_state_scheme" where
  "signatures_onMount N purify email boxId w =
     (try_catch (\<lambda>e v. v\<lparr>sg_error := Some (or_message e ''Failed to load mailbox settings.'')\<rparr>)
        (io_bind (both (fetchMailboxSettings N boxId) (fetchMailboxAliases N boxId)) (\<lambda>(r, aliasList).
         io_bind (io_lift (need r)) (\<lambda>settings. io_modify (load_signature purify email boxId settings aliasList))))
        (w\<lparr>sg_loading := True\<rparr>))\<lparr>sg_loading := False\<rparr>"

definition signature_payload :: "(bool \<Rightarrow> string \<Rightarrow> string) \<Rightarrow> 'z signature_state_scheme \<Rightarrow> json" where
  "signature_payload purify w =
     JObj [(''display_name'', JStr (trim (displayName w))), (''signature_plain'', JStr (signaturePlain w)),
           (''signature_html'', JStr (purify False (signatureHtml w))), (''insert_signature_on_reply'', JBool (insertOnReply w)),
           (''avatar_url'', JStr (avatarUrl w))]"

definition signatures_handleSave ::
  "net \<Rightarrow> (bool \<Rightarrow> string \<Rightarrow> string) \<Rightarrow> string \<Rightarrow> string \<Rightarrow> 'z signature_state_scheme \<Rightarrow> 'z signature_state_scheme" where
  "signatures_handleSave N purify email boxId w =
     (try_catch (\<lambda>e v. v\<lparr>sg_error := Some (or_message e ''Failed to save signature settings.'')\<rparr>)
        (io_bind (io_modify (saveAvatarLocally email boxId (avatarUrl w))) (\<lambda>_.
         io_bind (updateMailboxSettings N boxId (signature_payload purify w)) (\<lambda>_.
         io_modify (\<lambda>v. v\<lparr>localStorage := items (saveSignature (LocalStore (localStorage v) False) boxId (signaturePlain v)),
                            sg_savedSuccess := True\<rparr>))))
        (w\<lparr>sg_saving := True, sg_error := None\<rparr>))\<lparr>sg_saving := False\<rparr>"

section \<open>Appearance\<close>

text \<open>The six choices of the tab, and its state on top of the application's, whose handlers it calls.\<close>

record look =
  look_density :: string
  look_layout :: string
  look_theme :: string
  look_language :: string
  look_timeFormat :: string
  look_weekStart :: string

record appearance_state = core_state +
  ap_loading :: bool
  ap_saving :: bool
  ap_savedSuccess :: bool
  ap_error :: "string option"
  tab_look :: look

definition app_look :: "'z core_state_scheme \<Rightarrow> look" where
  "app_look w = \<lparr>look_density = density w, look_layout = layoutMode w, look_theme = theme w, look_language = language w,
     look_timeFormat = timeFormat w, look_weekStart = weekStart w\<rparr>"

definition notify_density :: "net \<Rightarrow> string \<Rightarrow> 'z appearance_state_scheme \<Rightarrow> 'z appearance_state_scheme" where
  "notify_density N x w = handleSetDensity N x False w"

definition notify_layout :: "net \<Rightarrow> string \<Rightarrow> 'z appearance_state_scheme \<Rightarrow> 'z appearance_state_scheme" where
  "notify_layout N x w = handleSetLayoutMode N x False w"

definition notify_theme :: "net \<Rightarrow> string \<Rightarrow> 'z appearance_state_scheme \<Rightarrow> 'z appearance_state_scheme" where
  "notify_theme N x w = handleSetTheme N x False w"

definition notify_language :: "string \<Rightarrow> 'z appearance_state_scheme \<Rightarrow> 'z appearance_state_scheme" where
  "notify_language x w = w\<lparr>language := x, localStorage := setItem ''byos_language'' x (localStorage w)\<rparr>"

definition notify_timeFormat :: "string \<Rightarrow> 'z appearance_state_scheme \<Rightarrow> 'z appearance_state_scheme" where
  "notify_timeFormat x w = w\<lparr>timeFormat := x, localStorage := setItem ''byos_time_format'' x (localStorage w)\<rparr>"

definition notify_weekStart :: "string \<Rightarrow> 'z appearance_state_scheme \<Rightarrow> 'z appearance_state_scheme" where
  "notify_weekStart x w = w\<lparr>weekStart := x, localStorage := setItem ''byos_week_start'' x (localStorage w)\<rparr>"

text \<open>The effects that follow the application's own values, where they are not empty.\<close>

definition sync_props :: "'z appearance_state_scheme \<Rightarrow> 'z appearance_state_scheme" where
  "sync_props w = w\<lparr>tab_look :=
     \<lparr>look_density = or_else (density w) (look_density (tab_look w)), look_layout = or_else (layoutMode w) (look_layout (tab_look w)),
      look_theme = or_else (theme w) (look_theme (tab_look w)), look_language = or_else (language w) (look_language (tab_look w)),
      look_timeFormat = or_else (timeFormat w) (look_timeFormat (tab_look w)),
      look_weekStart = or_else (weekStart w) (look_weekStart (tab_look w))\<rparr>\<rparr>"

definition take_setting ::
  "json \<Rightarrow> string \<Rightarrow> (string \<Rightarrow> look \<Rightarrow> look) \<Rightarrow> (string \<Rightarrow> 'z appearance_state_scheme \<Rightarrow> 'z appearance_state_scheme)
   \<Rightarrow> 'z appearance_state_scheme \<Rightarrow> 'z appearance_state_scheme" where
  "take_setting s k upd notify w =
     (let x = text_prop k s in if x = [] then w else sync_props (notify x (w\<lparr>tab_look := upd x (tab_look w)\<rparr>)))"

definition appearance_onMount :: "net \<Rightarrow> string \<Rightarrow> 'z appearance_state_scheme \<Rightarrow> 'z appearance_state_scheme" where
  "appearance_onMount N boxId w =
     (try_catch (\<lambda>_ v. v)
        (io_bind (fetchMailboxSettings N boxId) (\<lambda>r. io_bind (io_lift (need r)) (\<lambda>s. io_modify (\<lambda>v.
           take_setting s ''week_start'' (\<lambda>x. look_weekStart_update (\<lambda>_. x)) notify_weekStart
          (take_setting s ''time_format'' (\<lambda>x. look_timeFormat_update (\<lambda>_. x)) notify_timeFormat
          (take_setting s ''language'' (\<lambda>x. look_language_update (\<lambda>_. x)) notify_language
          (take_setting s ''theme'' (\<lambda>x. look_theme_update (\<lambda>_. x)) (notify_theme N)
          (take_setting s ''layout_mode'' (\<lambda>x. look_layout_update (\<lambda>_. x)) (notify_layout N)
          (take_setting s ''density'' (\<lambda>x. look_density_update (\<lambda>_. x)) (notify_density N) v)))))))))
        (w\<lparr>ap_loading := True\<rparr>))\<lparr>ap_loading := False\<rparr>"

definition store_look :: "look \<Rightarrow> store \<Rightarrow> store" where
  "store_look l s =
     fold (\<lambda>(k, v). setItem k v)
       [(''byos_density'', look_density l), (''byos_layout'', look_layout l), (''byos_theme'', look_theme l),
        (''byos_language'', look_language l), (''byos_time_format'', look_timeFormat l), (''byos_week_start'', look_weekStart l)] s"

definition look_json :: "look \<Rightarrow> json" where
  "look_json l = JObj [(''density'', JStr (look_density l)), (''layout_mode'', JStr (look_layout l)), (''theme'', JStr (look_theme l)),
     (''language'', JStr (look_language l)), (''time_format'', JStr (look_timeFormat l)), (''week_start'', JStr (look_weekStart l))]"

definition notify_all :: "net \<Rightarrow> look \<Rightarrow> 'z appearance_state_scheme \<Rightarrow> 'z appearance_state_scheme" where
  "notify_all N l w =
     sync_props (notify_weekStart (look_weekStart l) (notify_timeFormat (look_timeFormat l) (notify_language (look_language l)
       (notify_theme N (look_theme l) (notify_layout N (look_layout l) (notify_density N (look_density l) w))))))"

definition handleApply :: "net \<Rightarrow> string \<Rightarrow> look \<Rightarrow> 'z appearance_state_scheme \<Rightarrow> 'z appearance_state_scheme" where
  "handleApply N boxId l w =
     (try_catch (\<lambda>e v. v\<lparr>ap_error := Some (or_message e ''Failed to update appearance preferences.'')\<rparr>)
        (io_bind (io_modify (\<lambda>v. notify_all N l (v\<lparr>tab_look := l, localStorage := store_look l (localStorage v)\<rparr>))) (\<lambda>_.
         io_bind (updateMailboxSettings N boxId (look_json l)) (\<lambda>_. io_modify (\<lambda>v. v\<lparr>ap_savedSuccess := True\<rparr>))))
        (w\<lparr>ap_saving := True, ap_error := None\<rparr>))\<lparr>ap_saving := False\<rparr>"

section \<open>Properties\<close>

text \<open>What a picture is scaled to.\<close>

lemma round_quotient_le:
  assumes "0 < b" "a \<le> b * m"
  shows "round_quotient a b \<le> m"
proof -
  have "2 * b * round_quotient a b \<le> 2 * a + b" using scaled_round_near(2) [OF assms(1), of 0 a] by (simp add: round_quotient_def)
  also have "\<dots> < 2 * b * Suc m" using assms by simp
  finally have "round_quotient a b < Suc m" by (rule mult_less_cancel1 [THEN iffD1, THEN conjunct2])
  then show ?thesis by simp
qed

lemma round_quotient_0_iff: "0 < b \<Longrightarrow> round_quotient a b = 0 \<longleftrightarrow> 2 * a < b"
  by (auto simp: round_quotient_def scaled_round_def div_eq_0_iff)

lemma avatar_size_swap: "w \<noteq> h \<Longrightarrow> avatar_size h w = prod.swap (avatar_size w h)"
  by (auto simp: avatar_size_def)

theorem avatar_size_bounds:
  assumes "0 < w" "0 < h"
  shows "fst (avatar_size w h) \<le> 128 \<and> snd (avatar_size w h) \<le> 128
    \<and> (w \<le> 128 \<and> h \<le> 128 \<longleftrightarrow> avatar_size w h = (w, h))
    \<and> (0 \<in> {fst (avatar_size w h), snd (avatar_size w h)} \<longleftrightarrow> 256 * min w h < max w h)"
proof (cases "w > 128 \<or> h > 128")
  case False
  then show ?thesis using assms by (auto simp: avatar_size_def maxDim_def min_def max_def)
next
  case True
  let ?lo = "min w h" and ?hi = "max w h"
  have hi: "128 < ?hi" "0 < ?hi" using True by auto
  have le: "round_quotient (?lo * 128) ?hi \<le> 128" by (rule round_quotient_le [OF hi(2)]) simp
  have zero: "round_quotient (?lo * 128) ?hi = 0 \<longleftrightarrow> 256 * ?lo < ?hi"
    using round_quotient_0_iff [OF hi(2), of "?lo * 128"] by (simp add: mult.commute)
  have size: "avatar_size w h = (if w > h then (128, round_quotient (?lo * 128) ?hi) else (round_quotient (?lo * 128) ?hi, 128))"
    using True by (simp add: avatar_size_def maxDim_def)
  have "avatar_size w h \<noteq> (w, h)"
    using True le size by (auto split: if_splits)
  with True le zero size show ?thesis by (auto split: if_splits)
qed

text \<open>Times of a rule, from the rule to the form and back.\<close>

lemma form_time_shown:
  assumes "text_prop k rule = s" "s \<noteq> []" "clock_parse C s = Some T"
  shows "form_time C k rule = Inr (Some (take 16 (clock_iso C T)))"
  using assms by (auto simp: form_time_def to_iso_def nonempty_def bind_err_def split: option.splits)

lemma payload_time_sent:
  assumes "clock_parse C t = Some T" "t \<noteq> []"
  shows "payload_time C k t = Inr [(k, JStr (clock_iso C T))]"
  using assms by (simp add: payload_time_def to_iso_def bind_err_def)

lemma texts_of_map: "texts_of (JArr (map JStr ts)) = Some ts"
  by (simp add: texts_of_def comp_def)


definition sample_clock :: date_clock where
  "sample_clock = \<lparr>clock_parse = map_of [(''2026-03-01T09:00:00.000Z'', 1772355600000), (''2026-03-01T09:00'', 1772352000000),
       (''2026-03-08T17:30:00.000Z'', 1772991000000), (''2026-03-08T17:30'', 1772987400000)],
     clock_iso = (\<lambda>t. if t = 1772355600000 then ''2026-03-01T09:00:00.000Z'' else if t = 1772352000000 then ''2026-03-01T08:00:00.000Z''
       else if t = 1772991000000 then ''2026-03-08T17:30:00.000Z'' else ''2026-03-08T16:30:00.000Z'')\<rparr>"

definition sample_rule :: json where
  "sample_rule = JObj [(''is_active'', JBool True), (''allowed_senders'', JArr [JStr ''ann@example.org'']),
     (''start_time'', JStr ''2026-03-01T09:00:00.000Z''), (''end_time'', JStr ''2026-03-08T17:30:00.000Z'')]"

definition sample_autoreply :: autoreply_state where
  "sample_autoreply = \<lparr>sessionStorage = [], localStorage = [], sent = [], ar_loading = False, ar_saving = False, ar_savedSuccess = False,
     ar_error = None, isActive = False, subjectTemplate = ''Out of Office: {subject}'', bodyTemplate = ''Hello'', replyAll = False,
     startTime = [], endTime = [], allowedSenders = [], allowedInput = [], blockedSenders = [], blockedInput = []\<rparr>"


text \<open>Applying an appearance.\<close>

lemma notify_all_simps [simp]:
  fixes w :: "'z appearance_state_scheme"
  shows "density (notify_all N l w) = look_density l" "layoutMode (notify_all N l w) = look_layout l"
    "theme (notify_all N l w) = look_theme l" "language (notify_all N l w) = look_language l"
    "timeFormat (notify_all N l w) = look_timeFormat l" "weekStart (notify_all N l w) = look_weekStart l"
    "document_theme (notify_all N l w) = look_theme l" "document_dark (notify_all N l w) = (look_theme l = ''dark'')"
    "sent (notify_all N l w) = sent w"
  by (simp_all add: notify_all_def sync_props_def notify_density_def notify_layout_def notify_theme_def notify_language_def
      notify_timeFormat_def notify_weekStart_def handleSetDensity_def handleSetLayoutMode_def handleSetTheme_def apply_theme_def)

lemma notify_all_tab:
  fixes w :: "'z appearance_state_scheme"
  shows "tab_look w = l \<Longrightarrow> tab_look (notify_all N l w) = l"
  by (simp add: notify_all_def sync_props_def notify_density_def notify_layout_def notify_theme_def notify_language_def
      notify_timeFormat_def notify_weekStart_def handleSetDensity_def handleSetLayoutMode_def handleSetTheme_def apply_theme_def or_else_def)

lemma notify_all_stored:
  fixes w :: "'z appearance_state_scheme"
  shows "getItem (localStorage (notify_all N l w)) k = getItem (store_look l (localStorage w)) k"
  by (simp add: notify_all_def sync_props_def notify_density_def notify_layout_def notify_theme_def notify_language_def
      notify_timeFormat_def notify_weekStart_def handleSetDensity_def handleSetLayoutMode_def handleSetTheme_def apply_theme_def store_look_def)

lemma store_look_idem: "getItem (store_look l (store_look l s)) k = getItem (store_look l s) k"
  by (simp add: store_look_def)

lemma handleApply_kept:
  fixes f :: "'z appearance_state_scheme \<Rightarrow> 'b" and w :: "'z appearance_state_scheme"
  assumes "\<And>v rs. f (v\<lparr>sent := rs\<rparr>) = f v" "\<And>v b. f (v\<lparr>ap_savedSuccess := b\<rparr>) = f v"
    "\<And>v e. f (v\<lparr>ap_error := e\<rparr>) = f v" "\<And>v b. f (v\<lparr>ap_saving := b\<rparr>) = f v"
  shows "f (handleApply N boxId l w) =
    f (notify_all N l (w\<lparr>ap_saving := True, ap_error := None, tab_look := l, localStorage := store_look l (localStorage w)\<rparr>))"
proof -
  have "io_keeps f (io_bind (updateMailboxSettings N boxId (look_json l)) (\<lambda>_. io_modify (\<lambda>v. v\<lparr>ap_savedSuccess := True\<rparr>)))"
    unfolding updateMailboxSettings_def by (intro io_frame) (simp_all add: assms)
  from try_catch_keeps [OF this] show ?thesis
    unfolding handleApply_def by (simp add: assms try_catch_def)
qed

text \<open>Applying an appearance reaches the tab, the application, the document and the browser's storage, whatever the server
  answers, and asks the server once for all six choices.\<close>

theorem appearance_applied:
  fixes w :: "'z appearance_state_scheme"
  assumes w'_def: "w' = handleApply N boxId l w"
  shows "app_look w' = l \<and> tab_look w' = l \<and> document_theme w' = look_theme l \<and> (document_dark w' \<longleftrightarrow> look_theme l = ''dark'')
    \<and> getItem (localStorage w') k = getItem (store_look l (localStorage w)) k"
proof -
  note kept = handleApply_kept [of _ N boxId l w]
  have "app_look w' = l" unfolding w'_def by (subst kept) (simp_all add: app_look_def)
  moreover have "tab_look w' = l" unfolding w'_def by (subst kept) (simp_all add: notify_all_tab)
  moreover have "document_theme w' = look_theme l" unfolding w'_def by (subst kept) simp_all
  moreover have "document_dark w' \<longleftrightarrow> look_theme l = ''dark''" unfolding w'_def by (subst kept) simp_all
  moreover have "getItem (localStorage w') k = getItem (store_look l (localStorage w)) k"
    unfolding w'_def by (subst kept) (simp_all add: notify_all_stored store_look_idem)
  ultimately show ?thesis by blast
qed

end
