(* ===== verification/List_Components.thy ===== *)
theory List_Components
  imports Regex App_View
begin

text \<open>
  Components around the message list, under \<open>apps/webmail/src/components\<close>: the picture of a sender (\<open>ProfileAvatar.tsx\<close>), a
  row of the list and what it puts on the clipboard of a drag (\<open>MessageRow.tsx\<close>), the sidebar a drag is dropped on
  (\<open>Sidebar.tsx\<close>), the toolbar with its menus, range of the page and master check box (\<open>InboxToolbar.tsx\<close>, \<open>MessageList.tsx\<close>),
  the dialogs for folders and labels (\<open>modals\<close>), the state of the storage (\<open>StorageStatusPill.tsx\<close>) and the menu of accounts
  (\<open>AccountSwitcher.tsx\<close>).
\<close>

section \<open>Pictures\<close>

text \<open>The 32-bit operators of the language: \<open>x | 0\<close> and \<open>x << n\<close>.\<close>

definition to_int32 :: "int \<Rightarrow> int" where
  "to_int32 x = sint (word_of_int x :: 32 word)"

definition shl32 :: "int \<Rightarrow> nat \<Rightarrow> int" where
  "shl32 x n = to_int32 (to_int32 x * 2 ^ n)"

definition hash_step :: "int \<Rightarrow> char \<Rightarrow> int" where
  "hash_step hash c = to_int32 (shl32 hash 5 - hash + int (code c))"

definition getHash :: "string \<Rightarrow> int" where
  "getHash str = \<bar>foldl hash_step 0 str\<bar>"

text \<open>The palettes by name; a palette is a triple of style classes.\<close>

definition COLOR_PALETTES :: "string list" where
  "COLOR_PALETTES = [''mocha'', ''blue'', ''emerald'', ''indigo'', ''amber'', ''rose'', ''teal'', ''purple'']"

text \<open>\<open>s.split(/r+/).filter(Boolean)\<close> for a class \<open>r\<close>: the longest pieces free of \<open>r\<close>, without empty ones.\<close>

function pieces_between :: "(char \<Rightarrow> bool) \<Rightarrow> string \<Rightarrow> string list" where
  "pieces_between p s =
     (case dropWhile p s of [] \<Rightarrow> [] | c # t \<Rightarrow> (c # takeWhile (\<lambda>d. \<not> p d) t) # pieces_between p (dropWhile (\<lambda>d. \<not> p d) t))"
  by pat_completeness auto
termination
proof (relation "measure (\<lambda>(p, s). length s)", goal_cases)
  case (2 p s c t)
  have "length (dropWhile (\<lambda>d. \<not> p d) t) \<le> length t" by (rule length_dropWhile_le)
  also have "\<dots> < length s" using length_dropWhile_le [of p s] 2 by simp
  finally show ?case by simp
qed simp

declare pieces_between.simps [simp del]

definition name_break :: "char \<Rightarrow> bool" where
  "name_break c \<longleftrightarrow> is_ws c \<or> c \<in> set ''._-''"

text \<open>\<open>s.replace(/<.*?>/g, "").trim()\<close>\<close>

definition tag_rx :: rx where
  "tag_rx = RSeq (rx_lit ''<'') (RSeq (RStar False (RCls (\<lambda>c. code c \<noteq> 10 \<and> code c \<noteq> 13))) (rx_lit ''>''))"

definition strip_tags :: "string \<Rightarrow> string" where
  "strip_tags s = trim (concat (map (case_sum (\<lambda>c. [c]) (\<lambda>_. [])) (rx_pieces tag_rx s)))"

definition getInitials :: "string option \<Rightarrow> string option \<Rightarrow> string" where
  "getInitials name email =
     (let cleanName = strip_tags (filled name); parts = pieces_between name_break cleanName; cleanEmail = strip_tags (filled email);
          userPart = hd (split_char (CHR ''@'') cleanEmail); mailParts = pieces_between name_break userPart
      in if cleanName \<noteq> [] \<and> 2 \<le> length parts then toUpperCase [hd (parts ! 0), hd (parts ! 1)]
         else if cleanName \<noteq> [] \<and> length parts = 1 \<and> 2 \<le> length (parts ! 0) then toUpperCase (take 2 (parts ! 0))
         else if cleanEmail = [] then ''?''
         else if 2 \<le> length mailParts then toUpperCase [hd (mailParts ! 0), hd (mailParts ! 1)]
         else or_else (toUpperCase (take 2 userPart)) ''?'')"

definition palette_index :: "string option \<Rightarrow> string option \<Rightarrow> nat" where
  "palette_index email name = nat (getHash (toLowerCase (or_else (filled email) (filled name))) mod int (length COLOR_PALETTES))"

definition palette :: "string option \<Rightarrow> string option \<Rightarrow> string" where
  "palette email name = COLOR_PALETTES ! palette_index email name"

definition resolvedAvatarUrl :: "store \<Rightarrow> string option \<Rightarrow> string option \<Rightarrow> string option" where
  "resolvedAvatarUrl s avatarUrl email =
     (if nonempty avatarUrl then avatarUrl
      else if nonempty email
      then (let stored = getItem s (''byos_avatar_'' @ trim (toLowerCase (filled email))) in if nonempty stored then stored else None)
      else None)"

text \<open>What is drawn: the picture, or the initials when there is none or it failed to load.\<close>

definition avatar_shown :: "store \<Rightarrow> bool \<Rightarrow> string option \<Rightarrow> string option \<Rightarrow> string option \<Rightarrow> string + string" where
  "avatar_shown s imgError avatarUrl email name =
     (case resolvedAvatarUrl s avatarUrl email of Some u \<Rightarrow> if imgError then Inr (getInitials name email) else Inl u
      | None \<Rightarrow> Inr (getInitials name email))"

section \<open>Rows\<close>

record row_platform = date_platform +
  localeTime :: "string \<Rightarrow> bool \<Rightarrow> int \<Rightarrow> string"
  localeDay :: "string \<Rightarrow> bool \<Rightarrow> int \<Rightarrow> string"

text \<open>\<open>localeTime lang hour12\<close>, and \<open>localeDay lang withYear\<close> with a year of two digits.\<close>

definition formatSmartDate :: "row_platform \<Rightarrow> store \<Rightarrow> int \<Rightarrow> string \<Rightarrow> string" where
  "formatSmartDate P s now dateStr =
     (let tf = or_else (filled (getItem s ''byos_time_format'')) ''12h''; lang = or_else (filled (getItem s ''byos_language'')) ''en''
      in case parse_date P dateStr of
           None \<Rightarrow> dateStr
         | Some d \<Rightarrow>
             if getDate P d = getDate P now \<and> getMonth P d = getMonth P now \<and> getFullYear P d = getFullYear P now
             then localeTime P lang (tf = ''12h'') d
             else if getFullYear P d = getFullYear P now then localeDay P lang False d
             else localeDay P lang True d)"

definition dragged_ids :: "'z mail_state_scheme \<Rightarrow> display_message \<Rightarrow> string list" where
  "dragged_ids w m = (if dm_id m \<in> set (selectedIds w) \<and> selectedIds w \<noteq> [] then selectedIds w else [dm_id m])"

definition handleDragStart :: "'z mail_state_scheme \<Rightarrow> display_message \<Rightarrow> string \<times> string" where
  "handleDragStart w m =
     (let ids = dragged_ids w m; n = length ids
      in (stringify (JObj [(''messageIds'', JArr (map JStr ids))]), ''Move '' @ num_string n @ '' conversation'' @ (if n > 1 then ''s'' else [])))"

section \<open>Sidebar\<close>

record sidebar_state = mail_state +
  dragOverTarget :: "string option"
  openFolderMenuId :: "string option"
  openLabelMenuId :: "string option"

definition handleGlobalClick :: "'z sidebar_state_scheme \<Rightarrow> 'z sidebar_state_scheme" where
  "handleGlobalClick w = w\<lparr>openFolderMenuId := None, openLabelMenuId := None\<rparr>"

text \<open>The identifiers of a payload; anything but a non-empty array is ignored, as is a text that is not JSON. The
  identifiers are strings, as the rows write them.\<close>

definition payload_ids :: "string \<Rightarrow> string list" where
  "payload_ids raw =
     (case json_parse raw of None \<Rightarrow> []
      | Some parsed \<Rightarrow> (case strings_prop ''messageIds'' parsed of Some ids \<Rightarrow> ids | None \<Rightarrow> []))"

definition sidebar_handleDrop :: "net \<Rightarrow> string option \<Rightarrow> string \<Rightarrow> bool \<Rightarrow> 'z sidebar_state_scheme \<Rightarrow> 'z sidebar_state_scheme" where
  "sidebar_handleDrop N raw targetId isLabel w =
     (let w1 = w\<lparr>dragOverTarget := None\<rparr>
      in if \<not> nonempty raw \<or> payload_ids (filled raw) = [] then w1
         else if isLabel then handleAttachLabel N (payload_ids (filled raw)) targetId w1
         else handleMoveMessages N (payload_ids (filled raw)) targetId w1)"

definition onDragOver :: "string \<Rightarrow> 'z sidebar_state_scheme \<Rightarrow> 'z sidebar_state_scheme" where
  "onDragOver t w = w\<lparr>dragOverTarget := Some t\<rparr>"

definition onDragLeave :: "string \<Rightarrow> 'z sidebar_state_scheme \<Rightarrow> 'z sidebar_state_scheme" where
  "onDragLeave t w = (if dragOverTarget w = Some t then w\<lparr>dragOverTarget := None\<rparr> else w)"

definition toggleFolderMenu :: "string \<Rightarrow> 'z sidebar_state_scheme \<Rightarrow> 'z sidebar_state_scheme" where
  "toggleFolderMenu i w = w\<lparr>openFolderMenuId := (if openFolderMenuId w = Some i then None else Some i), openLabelMenuId := None\<rparr>"

definition toggleLabelMenu :: "string \<Rightarrow> 'z sidebar_state_scheme \<Rightarrow> 'z sidebar_state_scheme" where
  "toggleLabelMenu i w = w\<lparr>openLabelMenuId := (if openLabelMenuId w = Some i then None else Some i), openFolderMenuId := None\<rparr>"

text \<open>The address shown, for a mailbox as the server sent it.\<close>

definition mailboxEmail :: "string option \<Rightarrow> json option \<Rightarrow> string" where
  "mailboxEmail userEmail box =
     (case box of None \<Rightarrow> or_else (filled userEmail) ''byos.email''
      | Some b \<Rightarrow>
          if nonempty (str_prop ''email'' b) then text_prop ''email'' b
          else if nonempty (str_prop ''domain_name'' b) then text_prop ''local_part'' b @ ''@'' @ text_prop ''domain_name'' b
          else (let parts = (case userEmail of Some e \<Rightarrow> split_char (CHR ''@'') e | None \<Rightarrow> []);
                    dom = (if 1 < length parts then or_else (parts ! 1) ''byos.email'' else ''byos.email'')
                in text_prop ''local_part'' b @ ''@'' @ dom))"

section \<open>Toolbar\<close>

datatype menu = SelectMenu | SortMenu | MoveMenu | LabelMenu

record toolbar_state =
  selectMenuOpen :: bool
  sortMenuOpen :: bool
  moveMenuOpen :: bool
  labelMenuOpen :: bool
  isSpinning :: bool

definition openOnlyMenu :: "menu option \<Rightarrow> toolbar_state \<Rightarrow> toolbar_state" where
  "openOnlyMenu m t = t\<lparr>selectMenuOpen := (m = Some SelectMenu), sortMenuOpen := (m = Some SortMenu),
     moveMenuOpen := (m = Some MoveMenu), labelMenuOpen := (m = Some LabelMenu)\<rparr>"

definition menu_open :: "menu \<Rightarrow> toolbar_state \<Rightarrow> bool" where
  "menu_open m t = (case m of SelectMenu \<Rightarrow> selectMenuOpen t | SortMenu \<Rightarrow> sortMenuOpen t | MoveMenu \<Rightarrow> moveMenuOpen t
     | LabelMenu \<Rightarrow> labelMenuOpen t)"

definition toggleMenu :: "menu option \<Rightarrow> toolbar_state \<Rightarrow> toolbar_state" where
  "toggleMenu m t =
     (case m of None \<Rightarrow> openOnlyMenu None t
      | Some k \<Rightarrow> openOnlyMenu (if menu_open k t then None else Some k) t)"

definition handleClickOutside :: "bool \<Rightarrow> toolbar_state \<Rightarrow> toolbar_state" where
  "handleClickOutside inside t = (if inside then t else toggleMenu None t)"

definition isPartiallySelected :: "nat \<Rightarrow> nat \<Rightarrow> bool" where
  "isPartiallySelected selectedCount totalVisibleCount \<longleftrightarrow> selectedCount > 0 \<and> selectedCount < totalVisibleCount"

definition isAllSelected :: "nat \<Rightarrow> nat \<Rightarrow> bool" where
  "isAllSelected selectedCount totalVisibleCount \<longleftrightarrow> totalVisibleCount > 0 \<and> selectedCount \<ge> totalVisibleCount"

definition pageStart :: "nat \<Rightarrow> nat \<Rightarrow> nat \<Rightarrow> nat" where
  "pageStart page sz totalCount = (if totalCount = 0 then 0 else (page - 1) * sz + 1)"

definition pageEnd :: "nat \<Rightarrow> nat \<Rightarrow> nat \<Rightarrow> nat" where
  "pageEnd page sz totalCount = min (page * sz) totalCount"

text \<open>The buttons for the pages: a disabled button does nothing.\<close>

definition prev_button :: "'z mail_state_scheme \<Rightarrow> 'z mail_state_scheme" where
  "prev_button w = (if currentPage w \<le> 1 then w else onPrevPage w)"

definition next_button :: "date_platform \<Rightarrow> 'z mail_state_scheme \<Rightarrow> 'z mail_state_scheme" where
  "next_button P w =
     (let n = length (sortedMessages P w) in if pageEnd (currentPage w) pageSize n \<ge> n then w else onNextPage w)"

definition masterCheckbox :: "date_platform \<Rightarrow> 'z mail_state_scheme \<Rightarrow> 'z mail_state_scheme" where
  "masterCheckbox P w = (if selectedIds w \<noteq> [] then w\<lparr>selectedIds := []\<rparr> else handleSelectFilter P ''all'' w)"

definition isAllSelectedRead :: "date_platform \<Rightarrow> 'z mail_state_scheme \<Rightarrow> bool" where
  "isAllSelectedRead P w =
     (selectedIds w \<noteq> []
      \<and> (let selected = filter (\<lambda>m. dm_id m \<in> set (selectedIds w)) (paginatedMessages P w) in selected \<noteq> [] \<and> list_all dm_read selected))"

section \<open>Dialogs\<close>

record folder_modal = mail_state +
  folderName :: string
  fm_parentId :: string
  fm_notify :: bool
  fm_isSaving :: bool
  fm_error :: "string option"

text \<open>The effect that runs when the dialog opens.\<close>

definition folder_effect :: "'z folder_modal_scheme \<Rightarrow> 'z folder_modal_scheme" where
  "folder_effect w =
     (if \<not> createFolderModalOpen w then w
      else (case folderToEdit w of
              Some f \<Rightarrow> w\<lparr>folderName := fo_name f, fm_parentId := filled (fo_parent_id f), fm_notify := fo_notify f\<rparr>
            | None \<Rightarrow> w\<lparr>folderName := [], fm_parentId := [], fm_notify := True\<rparr>)\<lparr>fm_error := None, fm_isSaving := False\<rparr>)"

definition folder_onClose :: "'z folder_modal_scheme \<Rightarrow> 'z folder_modal_scheme" where
  "folder_onClose w = w\<lparr>createFolderModalOpen := False, folderToEdit := None\<rparr>"

text \<open>The application's handler catches its own errors, so the dialog's \<open>catch\<close> is never entered.\<close>

definition folder_handleSubmit :: "net \<Rightarrow> (string \<Rightarrow> string \<Rightarrow> int) \<Rightarrow> 'z folder_modal_scheme \<Rightarrow> 'z folder_modal_scheme" where
  "folder_handleSubmit N lc w =
     (let name = trim (folderName w)
      in if name = [] then w\<lparr>fm_error := Some ''Folder name is required.''\<rparr>
         else (folder_onClose (handleSaveFolder N lc name (Some (if fm_parentId w \<noteq> [] then JStr (fm_parentId w) else JNull))
                 (Some (JBool (fm_notify w))) (w\<lparr>fm_isSaving := True, fm_error := None\<rparr>)))\<lparr>fm_isSaving := False\<rparr>)"

record color_swatch =
  sw_name :: string
  sw_hex :: string

definition LABEL_SWATCHES :: "color_swatch list" where
  "LABEL_SWATCHES = map (\<lambda>(n, h). \<lparr>sw_name = n, sw_hex = h\<rparr>)
     [(''Cobalt'', ''#4D6BFE''), (''Lavender'', ''#7B68EE''), (''Bubblegum'', ''#D660B0''), (''Tangerine'', ''#FA7246''),
      (''Mocha'', ''#9E725F''), (''Royal Blue'', ''#2B4CDE''), (''Plum'', ''#6A37A5''), (''Crimson'', ''#D13438''),
      (''Burnt Orange'', ''#D6511B''), (''Cocoa'', ''#704E3E''), (''Sky Blue'', ''#38ACFF''), (''Teal'', ''#20B2AA''),
      (''Pine'', ''#2E8B57''), (''Leaf Green'', ''#64BB5C''), (''Olive'', ''#808000''), (''Periwinkle'', ''#6C88D4''),
      (''Ocean'', ''#007AA6''), (''Forest'', ''#1B6A47''), (''Emerald'', ''#107C41''), (''Mustard'', ''#C19A2B'')]"

record label_modal = mail_state +
  labelName :: string
  selectedColor :: color_swatch
  hoveredColor :: "color_swatch option"
  lm_isSaving :: bool
  lm_error :: "string option"

definition swatch_for :: "mailbox_label \<Rightarrow> color_swatch" where
  "swatch_for l =
     (case find (\<lambda>s. toLowerCase (sw_hex s) = toLowerCase (la_color l)) LABEL_SWATCHES of
        Some s \<Rightarrow> s | None \<Rightarrow> \<lparr>sw_name = or_else (la_color_name l) ''Custom'', sw_hex = la_color l\<rparr>)"

definition label_effect :: "'z label_modal_scheme \<Rightarrow> 'z label_modal_scheme" where
  "label_effect w =
     (if \<not> createLabelModalOpen w then w
      else (case labelToEdit w of
              Some l \<Rightarrow> w\<lparr>labelName := la_name l, selectedColor := swatch_for l\<rparr>
            | None \<Rightarrow> w\<lparr>labelName := [], selectedColor := LABEL_SWATCHES ! 4\<rparr>)\<lparr>hoveredColor := None, lm_error := None, lm_isSaving := False\<rparr>)"

definition label_onClose :: "'z label_modal_scheme \<Rightarrow> 'z label_modal_scheme" where
  "label_onClose w = w\<lparr>createLabelModalOpen := False, labelToEdit := None\<rparr>"

definition label_handleSubmit :: "net \<Rightarrow> (string \<Rightarrow> string \<Rightarrow> int) \<Rightarrow> 'z label_modal_scheme \<Rightarrow> 'z label_modal_scheme" where
  "label_handleSubmit N lc w =
     (let name = trim (labelName w)
      in if name = [] then w\<lparr>lm_error := Some ''Label name is required.''\<rparr>
         else (label_onClose (handleSaveLabel N lc name (sw_hex (selectedColor w)) (sw_name (selectedColor w))
                 (w\<lparr>lm_isSaving := True, lm_error := None\<rparr>)))\<lparr>lm_isSaving := False\<rparr>)"

section \<open>Storage and accounts\<close>

record status_info =
  si_state :: string
  si_label :: string
  si_details :: string

definition statusInfo :: "string option \<Rightarrow> status_info" where
  "statusInfo storageError =
     (if nonempty storageError then \<lparr>si_state = ''degraded'', si_label = ''Storage Degraded'', si_details = filled storageError\<rparr>
      else \<lparr>si_state = ''synced'', si_label = ''Synced to S3'',
             si_details = ''Connected to customer storage bucket. All data encrypted before transfer.''\<rparr>)"

datatype account_action = SelectAccount connected_account | SignOut "string option" bool | OpenAddMailbox

definition is_active_account :: "string \<Rightarrow> string \<Rightarrow> connected_account \<Rightarrow> bool" where
  "is_active_account activeAccountId currentEmail acc \<longleftrightarrow> acc_id acc = activeAccountId \<or> acc_email acc = currentEmail"

definition account_clicked :: "string \<Rightarrow> string \<Rightarrow> connected_account \<Rightarrow> account_action option" where
  "account_clicked activeAccountId currentEmail acc =
     (if is_active_account activeAccountId currentEmail acc then None else Some (SelectAccount acc))"

definition hasMultipleAccounts :: "connected_account list \<Rightarrow> bool" where
  "hasMultipleAccounts accs \<longleftrightarrow> length accs > 1"

text \<open>The entries below the list of accounts.\<close>

definition sign_out_actions :: "string \<Rightarrow> connected_account list \<Rightarrow> account_action list" where
  "sign_out_actions activeAccountId accs =
     OpenAddMailbox # (if hasMultipleAccounts accs then [SignOut (Some activeAccountId) False, SignOut None True] else [SignOut None False])"

section \<open>Properties\<close>

subsection \<open>The hash of an address\<close>

lemma to_int32_word [simp]: "(word_of_int (to_int32 x) :: 32 word) = word_of_int x"
  by (simp add: to_int32_def)

lemma to_int32_cong: "(word_of_int x :: 32 word) = word_of_int y \<Longrightarrow> to_int32 x = to_int32 y"
  by (simp add: to_int32_def)

lemma to_int32_range: "- (2 ^ 31) \<le> to_int32 x \<and> to_int32 x < 2 ^ 31"
  using sint_range_size [of "word_of_int x :: 32 word"] by (auto simp: to_int32_def word_size)

lemma hash_step_linear: "hash_step h c = to_int32 (31 * h + int (code c))"
proof -
  have "(word_of_int (shl32 h 5) :: 32 word) = 32 * word_of_int h" by (simp add: shl32_def wi_hom_mult flip: wi_hom_syms)
  then show ?thesis unfolding hash_step_def by (intro to_int32_cong) (simp flip: wi_hom_syms)
qed

lemma hash_fold: "foldl hash_step (to_int32 h) s = to_int32 (31 ^ length s * h + horner_sum (\<lambda>c. int (code c)) 31 (rev s))"
proof (induction s arbitrary: h)
  case Nil
  show ?case by simp
next
  case (Cons c s)
  have "hash_step (to_int32 h) c = to_int32 (31 * h + int (code c))"
    unfolding hash_step_linear by (rule to_int32_cong) (simp flip: wi_hom_syms)
  then show ?case by (simp add: Cons.IH horner_sum_append algebra_simps)
qed

text \<open>C22: The hash that picks the colour of a sender's picture, computed with 32-bit shifts and truncations, is the absolute
  value of the polynomial in 31 over the character codes, reduced to a signed 32-bit number; it is at most \<open>2 ^ 31\<close> and the
  palette it selects always exists.\<close>

theorem avatar_hash_polynomial:
  "getHash s = \<bar>to_int32 (\<Sum>i<length s. 31 ^ (length s - Suc i) * int (code (s ! i)))\<bar>
    \<and> 0 \<le> getHash s \<and> getHash s \<le> 2 ^ 31 \<and> palette_index e n < length COLOR_PALETTES"
proof -
  have sum: "horner_sum (\<lambda>c. int (code c)) 31 (rev s) = (\<Sum>i<length s. 31 ^ (length s - Suc i) * int (code (s ! i)))"
  proof -
    have "horner_sum (\<lambda>c. int (code c)) 31 (rev s) = (\<Sum>i<length s. int (code (rev s ! i)) * 31 ^ i)"
      by (simp add: horner_sum_eq_sum atLeast0LessThan)
    also have "\<dots> = (\<Sum>i<length s. int (code (rev s ! (length s - Suc i))) * 31 ^ (length s - Suc i))"
      by (rule sum.nat_diff_reindex [symmetric])
    also have "\<dots> = (\<Sum>i<length s. 31 ^ (length s - Suc i) * int (code (s ! i)))"
      by (rule sum.cong) (simp_all add: rev_nth)
    finally show ?thesis .
  qed
  have zero: "to_int32 0 = 0" by (simp add: to_int32_def)
  have eq: "getHash s = \<bar>to_int32 (\<Sum>i<length s. 31 ^ (length s - Suc i) * int (code (s ! i)))\<bar>"
    using hash_fold [of 0 s] by (simp add: getHash_def zero sum)
  then have "0 \<le> getHash s \<and> getHash s \<le> 2 ^ 31"
    using to_int32_range [of "\<Sum>i<length s. 31 ^ (length s - Suc i) * int (code (s ! i))"] by (simp add: abs_if)
  moreover have "palette_index e n < length COLOR_PALETTES"
    by (simp add: palette_index_def COLOR_PALETTES_def)
  ultimately show ?thesis using eq by blast
qed

subsection \<open>Drag and drop\<close>

lemma payload_ids_drag: "payload_ids (fst (handleDragStart w m)) = dragged_ids w m"
proof -
  have "json_parse (fst (handleDragStart w m)) = Some (JObj [(''messageIds'', JArr (map JStr (dragged_ids w m)))])"
    unfolding handleDragStart_def Let_def fst_conv by (rule json_roundtrip) (auto simp: list_all_iff)
  then show ?thesis by (simp add: payload_ids_def strings_prop_def jprop_def comp_def)
qed

lemma drag_payload_nonempty: "nonempty (Some (fst (handleDragStart w m)))"
  by (simp add: handleDragStart_def Let_def nonempty_def filled_def)

lemma foreign_drop_ignored: "json_parse raw = None \<Longrightarrow> sidebar_handleDrop N (Some raw) target isLabel v = v\<lparr>dragOverTarget := None\<rparr>"
  by (simp add: sidebar_handleDrop_def payload_ids_def filled_def)

lemma dragged_ids_nonempty: "dragged_ids w m \<noteq> []"
  by (simp add: dragged_ids_def)

text \<open>C21: What a row puts on the clipboard of a drag, a JSON text, is read back by the sidebar as the same identifiers: the
  whole selection when the dragged message belongs to it, otherwise that message alone. Dropping it on a folder moves exactly
  those messages, on a label attaches it to exactly those.\<close>

theorem drag_drop_roundtrip:
  "payload_ids (fst (handleDragStart w m)) = (if dm_id m \<in> set (selectedIds w) then selectedIds w else [dm_id m])
    \<and> sidebar_handleDrop N (Some (fst (handleDragStart w m))) target False v = handleMoveMessages N (dragged_ids w m) target (v\<lparr>dragOverTarget := None\<rparr>)
    \<and> sidebar_handleDrop N (Some (fst (handleDragStart w m))) target True v = handleAttachLabel N (dragged_ids w m) target (v\<lparr>dragOverTarget := None\<rparr>)"
proof -
  have "payload_ids (fst (handleDragStart w m)) = (if dm_id m \<in> set (selectedIds w) then selectedIds w else [dm_id m])"
    unfolding payload_ids_drag by (auto simp: dragged_ids_def)
  then show ?thesis
    using drag_payload_nonempty [of w m] dragged_ids_nonempty [of w m]
    by (simp add: sidebar_handleDrop_def payload_ids_drag filled_def)
qed

subsection \<open>Pages\<close>

lemma shown_slice: "1 \<le> currentPage w \<Longrightarrow> paginatedMessages P w = take 50 (drop ((currentPage w - 1) * 50) (sortedMessages P w))"
  by (simp add: paginatedMessages_def slice_def pageSize_def Let_def)

text \<open>C20: The range in the toolbar is the slice that is shown: the i-th row is the message at position \<open>pageStart + i\<close> (counted
  from one), there are \<open>pageEnd + 1 - pageStart\<close> rows, and the button for the next page works exactly when messages
  follow. Searching, and choosing a folder of one's own or a label, keep the page number; when what is found then ends before
  that page nothing is shown, although messages match, and the range starts after its end.\<close>

theorem page_range_exact:
  assumes "1 \<le> currentPage w" "n = length (sortedMessages P w)" "first = pageStart (currentPage w) pageSize n" "final = pageEnd (currentPage w) pageSize n"
  shows "(0 < n \<longrightarrow> length (paginatedMessages P w) = final + 1 - first)
    \<and> (i < length (paginatedMessages P w) \<longrightarrow> paginatedMessages P w ! i = sortedMessages P w ! (first + i - 1))
    \<and> (currentPage (next_button P w) = currentPage w + 1 \<longleftrightarrow> final < n)
    \<and> currentPage (w\<lparr>searchQuery := q\<rparr>) = currentPage w \<and> currentPage (handleSelectCustomFolder fo w) = currentPage w
    \<and> currentPage (handleSelectLabel la w) = currentPage w
    \<and> (0 < n \<and> n \<le> (currentPage w - 1) * 50 \<longrightarrow> paginatedMessages P w = [] \<and> final < first)"
proof -
  obtain k where k: "currentPage w = Suc k" using assms(1) by (cases "currentPage w") auto
  have shown: "paginatedMessages P w = take 50 (drop (k * 50) (sortedMessages P w))" using shown_slice [OF assms(1)] k by simp
  have len: "0 < n \<longrightarrow> length (paginatedMessages P w) = final + 1 - first"
    unfolding shown assms(3,4) pageStart_def pageEnd_def pageSize_def k by (auto simp: assms(2) min_def)
  have row: "i < length (paginatedMessages P w) \<longrightarrow> paginatedMessages P w ! i = sortedMessages P w ! (first + i - 1)"
    unfolding shown assms(3) pageStart_def pageSize_def k by (auto simp: assms(2))
  have nxt: "currentPage (next_button P w) = currentPage w + 1 \<longleftrightarrow> final < n"
    by (simp add: next_button_def Let_def onNextPage_def flip: assms(2,4))
  have out: "0 < n \<and> n \<le> (currentPage w - 1) * 50 \<longrightarrow> paginatedMessages P w = [] \<and> final < first"
    unfolding shown assms(3,4) pageStart_def pageEnd_def pageSize_def k by (auto simp: assms(2))
  show ?thesis using len row nxt out by (simp add: handleSelectCustomFolder_def handleSelectLabel_def)
qed

theorem page_range_exact_witness:
  "length (sortedMessages toy_dates (sample_mail\<lparr>currentPage := 2\<rparr>)) = 2 \<and> paginatedMessages toy_dates (sample_mail\<lparr>currentPage := 2\<rparr>) = []
    \<and> pageEnd 2 pageSize 2 < pageStart 2 pageSize 2"
proof -
  let ?w = "sample_mail\<lparr>currentPage := 2\<rparr>"
  have n: "length (sortedMessages toy_dates ?w) = 2" by code_simp
  have page: "currentPage ?w = 2" by simp
  show ?thesis using page_range_exact [OF _ refl refl refl, of ?w toy_dates] unfolding page n by simp
qed

subsection \<open>Menus and dialogs\<close>

definition open_menus :: "toolbar_state \<Rightarrow> menu list" where
  "open_menus t = filter (\<lambda>m. menu_open m t) [SelectMenu, SortMenu, MoveMenu, LabelMenu]"

lemma open_menus_only: "open_menus (openOnlyMenu m t) = (case m of None \<Rightarrow> [] | Some k \<Rightarrow> [k])"
  by (cases m; cases "the m") (simp_all add: open_menus_def menu_open_def openOnlyMenu_def)

theorem toolbar_one_menu:
  "length (open_menus (toggleMenu m t)) \<le> 1
    \<and> open_menus (toggleMenu (Some k) (openOnlyMenu None t)) = [k]
    \<and> open_menus (toggleMenu (Some k) (toggleMenu (Some k) (openOnlyMenu None t))) = []"
proof -
  have "open_menus (toggleMenu m t) \<in> {[]} \<union> range (\<lambda>k. [k])" for m t
    by (auto simp: toggleMenu_def open_menus_only split: option.splits)
  from this [of m t] have "length (open_menus (toggleMenu m t)) \<le> 1" by auto
  then show ?thesis
    by (cases k) (simp_all add: toggleMenu_def open_menus_only, simp_all add: menu_open_def openOnlyMenu_def)
qed

text \<open>A dialog with a name closes and shows no error, whatever the application's handler did: a name that is taken and a
  request that failed are only announced by a toast, and what was typed is gone.\<close>

lemma showToast_modal [simp]:
  fixes w :: "'z folder_modal_scheme" and v :: "'z label_modal_scheme"
  shows "fm_error (showToast msg w) = fm_error w" "lm_error (showToast msg v) = lm_error v"
  by (simp_all add: showToast_def Let_def setTimeout_def clearTimeout_def split: option.splits)

lemma handleSaveFolder_modal:
  fixes w :: "'z folder_modal_scheme"
  shows "fm_error (handleSaveFolder N lc name pid nt w) = fm_error w"
  by (simp add: handleSaveFolder_def Let_def updateFolder_def createFolder_def io_bind_def apiRequest_eq io_lift_def split: option.splits sum.splits)

lemma handleSaveLabel_modal:
  fixes w :: "'z label_modal_scheme"
  shows "lm_error (handleSaveLabel N lc name c cn w) = lm_error w"
  by (simp add: handleSaveLabel_def Let_def updateLabel_def createLabel_def io_bind_def apiRequest_eq io_lift_def split: option.splits sum.splits)

theorem dialogs_always_close:
  fixes w :: "'z folder_modal_scheme" and v :: "'z label_modal_scheme"
  assumes "trim (folderName w) \<noteq> []" "trim (labelName v) \<noteq> []"
  shows "\<not> createFolderModalOpen (folder_handleSubmit N lc w) \<and> fm_error (folder_handleSubmit N lc w) = None
    \<and> \<not> createLabelModalOpen (label_handleSubmit N lc v) \<and> lm_error (label_handleSubmit N lc v) = None"
  using assms
  by (simp add: folder_handleSubmit_def label_handleSubmit_def Let_def folder_onClose_def label_onClose_def handleSaveFolder_modal handleSaveLabel_modal)

end
