(* ===== verification/Support_Crm.thy ===== *)
theory Support_Crm
  imports Regex Text_Format Control_Api App_State
begin

text \<open>
  The support application, \<open>apps/support-crm/src/App.tsx\<close>: the table of organizations with its filters and export, the
  lookup of a mailbox, the actions on organizations and stalled transactions, the telemetry and the tickets.

  Suspending an organization and changing its capacity update the table before the server has answered and undo the update
  when the request fails. Several such requests can be pending at a time and are answered in any order, so each handler is
  modelled by the part that runs at once and a task that is resumed later.
\<close>

section \<open>Organizations and the state\<close>

record crm_org =
  co_id :: string
  co_name :: string
  co_plan :: string
  co_seats :: int
  co_status :: string
  co_created_at :: string
  co_mailboxes :: int
  co_used :: nat
  co_quota :: nat

text \<open>An object of the client is read through its declared type.\<close>

definition text_of :: "string \<Rightarrow> (string \<times> json option) list \<Rightarrow> string" where
  "text_of k ms = (case map_of ms k of Some (Some (JStr s)) \<Rightarrow> s | _ \<Rightarrow> [])"

definition number_of :: "string \<Rightarrow> (string \<times> json option) list \<Rightarrow> int" where
  "number_of k ms = (case map_of ms k of Some (Some (JNum n)) \<Rightarrow> n | _ \<Rightarrow> 0)"

definition crm_org_of :: "(string \<times> json option) list \<Rightarrow> crm_org" where
  "crm_org_of ms =
     \<lparr>co_id = text_of ''id'' ms, co_name = text_of ''name'' ms, co_plan = text_of ''plan'' ms, co_seats = number_of ''seat_count'' ms,
      co_status = text_of ''status'' ms, co_created_at = text_of ''created_at'' ms, co_mailboxes = number_of ''mailbox_count'' ms,
      co_used = nat (number_of ''storage_used'' ms), co_quota = nat (number_of ''storage_quota'' ms)\<rparr>"

record telemetry_log =
  tl_id :: string
  tl_timestamp :: string
  tl_level :: string
  tl_source :: string
  tl_message :: string
  tl_identifier :: "string option"

record stalled_tx =
  st_id :: string
  st_mailboxUuid :: string
  st_sanitizedUuid :: string
  st_failureReason :: string
  st_retries :: nat
  st_timeAgo :: string
  st_status :: string
  st_auditId :: "string option"

record notification =
  no_ok :: bool
  no_message :: string
  no_auditId :: "string option"

text \<open>A pending request: the organization the handler was called with, the new value, and the answer.\<close>

datatype crm_task =
    SuspendTask crm_org string "js_error + json"
  | CapacityTask crm_org int "js_error + json"

record crm_state = world +
  organizations :: "crm_org list"
  auditLogs :: "(string \<times> json option) list list"
  searchFilter :: string
  planFilter :: string
  statusFilter :: string
  openDropdownId :: "string option"
  selectedOrgForCapacity :: "crm_org option"
  adjustedSeats :: int
  selectedOrgForRecovery :: "crm_org option"
  globalSearchError :: string
  healthData :: "json option"
  loadingHealth :: bool
  activeLookupUuid :: "string option"
  logs :: "telemetry_log list"
  stalledTxs :: "stalled_tx list"
  streamActive :: bool
  actionNotification :: "notification option"
  crm_tasks :: "crm_task list"
  exported :: "(string \<times> string) list"

definition refetchOrgs :: "net \<Rightarrow> 'z crm_state_scheme \<Rightarrow> 'z crm_state_scheme" where
  "refetchOrgs N = try_catch (\<lambda>_ v. v) (io_bind (getOrganizations N) (\<lambda>os. io_modify (\<lambda>v. v\<lparr>organizations := map crm_org_of os\<rparr>)))"

definition refetchAuditLogs :: "net \<Rightarrow> 'z crm_state_scheme \<Rightarrow> 'z crm_state_scheme" where
  "refetchAuditLogs N = try_catch (\<lambda>_ v. v) (io_bind (getAuditLogs N) (\<lambda>ls. io_modify (\<lambda>v. v\<lparr>auditLogs := ls\<rparr>)))"

abbreviation notify_error :: "string \<Rightarrow> 'z crm_state_scheme \<Rightarrow> 'z crm_state_scheme" where
  "notify_error t w \<equiv> w\<lparr>actionNotification := Some \<lparr>no_ok = False, no_message = t, no_auditId = None\<rparr>\<rparr>"

abbreviation notify_done :: "string \<Rightarrow> string option \<Rightarrow> 'z crm_state_scheme \<Rightarrow> 'z crm_state_scheme" where
  "notify_done t aid w \<equiv> w\<lparr>actionNotification := Some \<lparr>no_ok = True, no_message = t, no_auditId = aid\<rparr>\<rparr>"

section \<open>The telemetry ticker\<close>

definition telemetry_tick :: "telemetry_log \<Rightarrow> 'z crm_state_scheme \<Rightarrow> 'z crm_state_scheme" where
  "telemetry_tick newLog w =
     (if \<not> streamActive w then w
      else (let next = logs w @ [newLog]
            in w\<lparr>logs := (if 50 < length next then drop (length next - 50) next else next)\<rparr>))"

section \<open>The table\<close>

definition filteredOrganizations :: "'z crm_state_scheme \<Rightarrow> crm_org list" where
  "filteredOrganizations w =
     (let q = trim (toLowerCase (searchFilter w)); p = planFilter w; s = statusFilter w
      in filter (\<lambda>org. (q = [] \<or> str_includes (toLowerCase (co_name org)) q \<or> str_includes (toLowerCase (co_id org)) q)
                  \<and> (p = ''all'' \<or> toLowerCase (co_plan org) = toLowerCase p)
                  \<and> (s = ''all'' \<or> toLowerCase (co_status org) = toLowerCase s)) (organizations w))"

definition csv_headers :: "string list" where
  "csv_headers = [''Org UUID'', ''Organization Name'', ''Plan Tier'', ''Status'', ''Storage Used (GB)'', ''Storage Quota (GB)'',
     ''Mailboxes Count'', ''Created At'']"

abbreviation dquote :: char where
  "dquote \<equiv> CHR 0x22"

definition in_quotes :: "string \<Rightarrow> string" where
  "in_quotes s = dquote # s @ [dquote]"

definition double_quotes :: "string \<Rightarrow> string" where
  "double_quotes s = concat (map (\<lambda>c. if c = dquote then [dquote, dquote] else [c]) s)"

definition csv_row :: "crm_org \<Rightarrow> string list" where
  "csv_row org =
     [in_quotes (co_id org), in_quotes (double_quotes (co_name org)), in_quotes (co_plan org), in_quotes (co_status org),
      toFixed 2 (co_used org) (1024 * 1024 * 1024), toFixed 0 (co_quota org) (1024 * 1024 * 1024),
      int_text (co_mailboxes org), in_quotes (co_created_at org)]"

definition csv_content :: "crm_org list \<Rightarrow> string" where
  "csv_content os = join newline (join '','' csv_headers # map (\<lambda>o'. join '','' (csv_row o')) os)"

definition handleExportCSV :: "'z crm_state_scheme \<Rightarrow> 'z crm_state_scheme" where
  "handleExportCSV w =
     (let os = filteredOrganizations w
      in notify_done (''Exported '' @ num_string (length os) @ '' organizations to byos_organizations_export.csv'') None
           (w\<lparr>exported := exported w @ [(''byos_organizations_export.csv'', csv_content os)]\<rparr>))"

section \<open>Looking up a mailbox\<close>

definition hex_cls :: rx where
  "hex_cls = RCls (\<lambda>c. is_digit c \<or> lower_char c \<in> set ''abcdef'')"

definition uuidRegex :: rx where
  "uuidRegex = RSeq (rx_times 8 hex_cls) (RSeq (rx_lit ''-'') (RSeq (rx_times 4 hex_cls) (RSeq (rx_lit ''-'')
     (RSeq (rx_times 4 hex_cls) (RSeq (rx_lit ''-'') (RSeq (rx_times 4 hex_cls) (RSeq (rx_lit ''-'') (rx_times 12 hex_cls))))))))"

definition triggerGlobalSearch :: "net \<Rightarrow> string \<Rightarrow> 'z crm_state_scheme \<Rightarrow> 'z crm_state_scheme" where
  "triggerGlobalSearch N uuidToSearch w =
     (let trimmed = trim uuidToSearch
      in if \<not> rx_full uuidRegex trimmed
         then w\<lparr>globalSearchError := ''Security Policy: Enter a valid 36-character UUID or transaction hash.'',
                healthData := None, activeLookupUuid := None\<rparr>
         else (try_catch (\<lambda>e v. v\<lparr>globalSearchError := or_else (err_message e) ''Failed to reach Admin API'', healthData := None\<rparr>)
                 (io_bind (getMailboxHealth N trimmed) (\<lambda>d. io_modify (\<lambda>v. v\<lparr>healthData := (if d = JNull then None else Some d)\<rparr>)))
                 (w\<lparr>globalSearchError := [], loadingHealth := True, activeLookupUuid := Some trimmed\<rparr>))\<lparr>loadingHealth := False\<rparr>)"

section \<open>Actions on organizations\<close>

definition set_status :: "string \<Rightarrow> string \<Rightarrow> crm_org list \<Rightarrow> crm_org list" where
  "set_status i s = map (\<lambda>x. if co_id x = i then x\<lparr>co_status := s\<rparr> else x)"

definition set_seats :: "string \<Rightarrow> int \<Rightarrow> crm_org list \<Rightarrow> crm_org list" where
  "set_seats i n = map (\<lambda>x. if co_id x = i then x\<lparr>co_seats := n\<rparr> else x)"

definition target_status :: "crm_org \<Rightarrow> string" where
  "target_status org = (if co_status org = ''suspended'' then ''active'' else ''suspended'')"

text \<open>The answer as the handlers use it: they read a property of it, which fails for \<open>null\<close>, after the audit log was requested.\<close>

definition accepted :: "js_error + json \<Rightarrow> js_error + json" where
  "accepted r = bind_err r (\<lambda>res. need (Some res))"

text \<open>\<open>handleToggleSuspend\<close> up to the request, and its rest once the answer is there.\<close>

definition handleToggleSuspend :: "net \<Rightarrow> crm_org \<Rightarrow> 'z crm_state_scheme \<Rightarrow> 'z crm_state_scheme" where
  "handleToggleSuspend N org w0 =
     (let s = target_status org;
          w = w0\<lparr>openDropdownId := None, organizations := set_status (co_id org) s (organizations w0)\<rparr>;
          (r, w1) = suspendOrganization N (co_id org) s (Some (''Admin operator toggled status to '' @ s)) w
      in w1\<lparr>crm_tasks := crm_tasks w1 @ [SuspendTask org s r]\<rparr>)"

definition resume_suspend :: "net \<Rightarrow> crm_org \<Rightarrow> string \<Rightarrow> js_error + json \<Rightarrow> 'z crm_state_scheme \<Rightarrow> 'z crm_state_scheme" where
  "resume_suspend N org s r w =
     (let w1 = (if is_ok r then refetchAuditLogs N w else w)
      in case accepted r of
           Inr res \<Rightarrow>
             notify_done (''Organization '' @ co_name org @ '' set to '' @ s @ ''. Immutable Audit ID: '' @ text_prop ''audit_id'' res)
               (str_prop ''audit_id'' res) w1
         | Inl e \<Rightarrow>
             notify_error (or_else (err_message e) ''Failed to update organization status'')
               (w1\<lparr>organizations := set_status (co_id org) (co_status org) (organizations w1)\<rparr>))"

definition previous_seats :: "crm_org \<Rightarrow> int" where
  "previous_seats org = (if co_seats org = 0 then 10 else co_seats org)"

definition handleConfirmCapacityUpdate :: "net \<Rightarrow> crm_org \<Rightarrow> int \<Rightarrow> 'z crm_state_scheme \<Rightarrow> 'z crm_state_scheme" where
  "handleConfirmCapacityUpdate N org newSeats w0 =
     (let w = w0\<lparr>selectedOrgForCapacity := None, organizations := set_seats (co_id org) newSeats (organizations w0)\<rparr>;
          (r, w1) = updateCapacity_crm N (co_id org) newSeats (Some (''Admin operator adjusted capacity to '' @ int_text newSeats @ '' mailboxes'')) w
      in w1\<lparr>crm_tasks := crm_tasks w1 @ [CapacityTask org newSeats r]\<rparr>)"

definition resume_capacity :: "net \<Rightarrow> crm_org \<Rightarrow> int \<Rightarrow> js_error + json \<Rightarrow> 'z crm_state_scheme \<Rightarrow> 'z crm_state_scheme" where
  "resume_capacity N org newSeats r w =
     (let w1 = (if is_ok r then refetchAuditLogs N w else w)
      in case accepted r of
           Inr res \<Rightarrow>
             notify_done (''Capacity adjusted to '' @ int_text newSeats @ '' mailboxes for '' @ co_name org @ ''. Immutable Audit ID: '' @ text_prop ''audit_id'' res)
               (str_prop ''audit_id'' res) w1
         | Inl e \<Rightarrow>
             notify_error (or_else (err_message e) ''Failed to adjust organization capacity'')
               (w1\<lparr>organizations := set_seats (co_id org) (previous_seats org) (organizations w1)\<rparr>))"

text \<open>The answer to one of the pending requests arrives.\<close>

definition settle :: "net \<Rightarrow> nat \<Rightarrow> 'z crm_state_scheme \<Rightarrow> 'z crm_state_scheme" where
  "settle N i w =
     (if i < length (crm_tasks w)
      then (let w' = w\<lparr>crm_tasks := take i (crm_tasks w) @ drop (Suc i) (crm_tasks w)\<rparr>
            in case crm_tasks w ! i of
                 SuspendTask org s r \<Rightarrow> resume_suspend N org s r w'
               | CapacityTask org n r \<Rightarrow> resume_capacity N org n r w')
      else w)"

definition handleConfirmStateReset :: "net \<Rightarrow> crm_org \<Rightarrow> 'z crm_state_scheme \<Rightarrow> 'z crm_state_scheme" where
  "handleConfirmStateReset N org w =
     try_catch (\<lambda>e. notify_error (or_else (err_message e) ''Failed to trigger state reset''))
       (io_bind (triggerStateReset N (co_id org) (Some (''Offline verifier challenge issued for '' @ co_name org))) (\<lambda>r.
        io_bind (io_modify (refetchAuditLogs N)) (\<lambda>_.
        io_bind (io_lift (need (Some r))) (\<lambda>res.
        io_modify (notify_done (''Offline verifier challenge issued for '' @ co_name org @ ''. Ledger Audit ID: '' @ text_prop ''audit_id'' res)
          (str_prop ''audit_id'' res))))))
       (w\<lparr>selectedOrgForRecovery := None\<rparr>)"

section \<open>Stalled transactions and tickets\<close>

definition set_tx :: "string \<Rightarrow> (stalled_tx \<Rightarrow> stalled_tx) \<Rightarrow> stalled_tx list \<Rightarrow> stalled_tx list" where
  "set_tx i f = map (\<lambda>x. if st_id x = i then f x else x)"

definition intervention_log :: "string \<Rightarrow> string \<Rightarrow> string \<Rightarrow> string \<Rightarrow> string \<Rightarrow> telemetry_log" where
  "intervention_log now timeStr action auditId mailboxUuid =
     \<lparr>tl_id = ''audit-'' @ now, tl_timestamp = timeStr, tl_level = ''INFO'', tl_source = ''admin-intervention'',
      tl_message = ''Intervention '' @ toUpperCase action @ '' committed to ledger ['' @ auditId @ '']'',
      tl_identifier = Some (''mailbox_'' @ take 4 mailboxUuid @ ''...'' @ drop (length mailboxUuid - 4) mailboxUuid)\<rparr>"

definition handleExecuteIntervention ::
  "net \<Rightarrow> string \<Rightarrow> string \<Rightarrow> string \<Rightarrow> string \<Rightarrow> string \<Rightarrow> 'z crm_state_scheme \<Rightarrow> 'z crm_state_scheme" where
  "handleExecuteIntervention N now timeStr txId mailboxUuid action w =
     try_catch (\<lambda>e v. notify_error (or_else (err_message e) ''Failed to dispatch intervention.'')
                       (v\<lparr>stalledTxs := set_tx txId (\<lambda>x. x\<lparr>st_status := ''stalled''\<rparr>) (stalledTxs v)\<rparr>))
       (io_bind (executeIntervention N action mailboxUuid (Some (''Admin intervention initiated via Support Console ('' @ action @ '')''))) (\<lambda>r.
        io_bind (io_lift (need (Some r))) (\<lambda>res.
        io_modify (\<lambda>v.
          let auditId = or_else (text_prop ''audit_id'' res) ''aud_verified'';
              v1 = refetchAuditLogs N (v\<lparr>stalledTxs := set_tx txId (\<lambda>x. x\<lparr>st_status := ''resolved'', st_auditId := Some auditId\<rparr>) (stalledTxs v)\<rparr>)
          in notify_done (''Action '' @ [CHR 0x27] @ action @ [CHR 0x27] @ '' executed successfully. Audit signature: '' @ auditId) (Some auditId)
               (v1\<lparr>logs := logs v1 @ [intervention_log now timeStr action auditId mailboxUuid]\<rparr>)))))
       (w\<lparr>stalledTxs := set_tx txId (\<lambda>x. x\<lparr>st_status := ''processing''\<rparr>) (stalledTxs w)\<rparr>)"

text \<open>What the authenticator does: it is missing, it fails with a text, or it returns an assertion or nothing.\<close>

datatype hardware_key = NoWebAuthn | KeyFails string | KeyAnswers "string option"

definition handleDecryptTicket :: "hardware_key \<Rightarrow> string \<Rightarrow> 'z crm_state_scheme \<Rightarrow> 'z crm_state_scheme" where
  "handleDecryptTicket k ticketId w =
     (case k of
        KeyAnswers (Some _) \<Rightarrow>
          notify_done (''Hardware Key Assertion verified. Ticket '' @ ticketId @ '' payload decrypted into secure memory enclave.'') None w
      | KeyAnswers None \<Rightarrow> notify_error (''Hardware key assertion failed: '' @ ''No credential returned from hardware key.'') w
      | KeyFails t \<Rightarrow> notify_error (''Hardware key assertion failed: '' @ or_else t ''Operation cancelled or rejected.'') w
      | NoWebAuthn \<Rightarrow> notify_error ''WebAuthn / Hardware Key authentication is not supported in this environment.'' w)"

definition planBadgeStyle :: "string \<Rightarrow> string" where
  "planBadgeStyle plan =
     (let p = toLowerCase plan
      in if p = ''enterprise'' then ''bg-purple-50 text-purple-700 border-purple-200 font-semibold''
         else if p = ''business'' then ''bg-sky-50 text-sky-700 border-sky-200 font-semibold''
         else if p = ''starter'' \<or> p = ''pro'' then ''bg-[#9E725F]/10 text-[#9E725F] border-[#9E725F]/30 font-semibold''
         else ''bg-stone-100 text-stone-700 border-stone-200 font-semibold'')"

definition statusBadgeStyle :: "string \<Rightarrow> string" where
  "statusBadgeStyle status =
     (let s = toLowerCase status
      in if s = ''active'' then ''bg-emerald-50 text-emerald-700 border-emerald-200''
         else if s = ''suspended'' then ''bg-rose-50 text-rose-700 border-rose-200''
         else if s = ''grace_period'' then ''bg-amber-50 text-amber-700 border-amber-200''
         else ''bg-stone-100 text-stone-700 border-stone-200'')"

section \<open>Optimistic updates\<close>

text \<open>A pending update: the record's key, the value before, the new value, and whether the server accepted it.\<close>

type_synonym ('k, 'v) update = "'k \<times> 'v \<times> 'v \<times> bool"

definition update_of :: "'k \<Rightarrow> ('k, 'v) update list \<Rightarrow> ('v \<times> 'v \<times> bool) option" where
  "update_of k us = map_of us k"

text \<open>A table of records with one field that is updated before the server has answered. \<open>table_inv truth us xs\<close> relates the
  table \<open>xs\<close>, the pending updates \<open>us\<close> and the server's values.\<close>

definition table_inv :: "('r \<Rightarrow> 'k) \<Rightarrow> ('r \<Rightarrow> 'v) \<Rightarrow> ('k \<Rightarrow> 'v) \<Rightarrow> ('k, 'v) update list \<Rightarrow> 'r list \<Rightarrow> bool" where
  "table_inv key get truth us xs \<longleftrightarrow> distinct (map fst us) \<and>
     list_all (\<lambda>x. case update_of (key x) us of
                     None \<Rightarrow> get x = truth (key x)
                   | Some (prev, new, ok) \<Rightarrow> get x = new \<and> truth (key x) = (if ok then new else prev)) xs"

definition put_at :: "('r \<Rightarrow> 'k) \<Rightarrow> ('v \<Rightarrow> 'r \<Rightarrow> 'r) \<Rightarrow> 'k \<Rightarrow> 'v \<Rightarrow> 'r list \<Rightarrow> 'r list" where
  "put_at key upd k v = map (\<lambda>x. if key x = k then upd v x else x)"

locale optimistic_table =
  fixes key :: "'r \<Rightarrow> 'k" and get :: "'r \<Rightarrow> 'v" and upd :: "'v \<Rightarrow> 'r \<Rightarrow> 'r"
  assumes key_upd: "key (upd v x) = key x" and get_upd: "get (upd v x) = v"
begin

lemma start_update:
  assumes "table_inv key get truth us xs" "x \<in> set xs" "key x \<notin> fst ` set us"
  shows "table_inv key get (if ok then truth(key x := v) else truth) (us @ [(key x, get x, v, ok)]) (put_at key upd (key x) v xs)"
proof -
  have none: "map_of us (key x) = None" using assms(3) by (simp add: map_of_eq_None_iff)
  with assms(1,2) have "get x = truth (key x)" by (auto simp: table_inv_def update_of_def list_all_iff)
  with assms none show ?thesis
    by (auto simp: table_inv_def update_of_def list_all_iff put_at_def key_upd get_upd map_add_def split: option.splits)
qed

lemma settle_update:
  assumes "table_inv key get truth (us1 @ (k, prev, v, ok) # us2) xs"
  shows "table_inv key get truth (us1 @ us2) (if ok then xs else put_at key upd k prev xs)"
proof -
  let ?us = "us1 @ (k, prev, v, ok) # us2"
  from assms have d: "distinct (map fst ?us)" by (simp add: table_inv_def)
  have same: "map_of (us1 @ us2) j = map_of ?us j" if "j \<noteq> k" for j using that by (simp add: map_add_def split: option.split)
  have none: "map_of (us1 @ us2) k = None" using d by (auto simp: map_add_None map_of_eq_None_iff)
  have here: "map_of ?us k = Some (prev, v, ok)" using d by (intro map_of_is_SomeI) auto
  show ?thesis
    unfolding table_inv_def
  proof
    show "distinct (map fst (us1 @ us2))" using d by auto
    show "list_all (\<lambda>x. case update_of (key x) (us1 @ us2) of
                     None \<Rightarrow> get x = truth (key x)
                   | Some (prev, new, ok) \<Rightarrow> get x = new \<and> truth (key x) = (if ok then new else prev)) (if ok then xs else put_at key upd k prev xs)"
      unfolding list_all_iff
    proof
      fix y assume y: "y \<in> set (if ok then xs else put_at key upd k prev xs)"
      then obtain x where x: "x \<in> set xs" "y = (if \<not> ok \<and> key x = k then upd prev x else x)" by (auto simp: put_at_def split: if_splits)
      then have key: "key y = key x" by (simp add: key_upd)
      have old: "case map_of ?us (key x) of None \<Rightarrow> get x = truth (key x)
          | Some (prev, new, ok) \<Rightarrow> get x = new \<and> truth (key x) = (if ok then new else prev)"
        using assms x(1) by (simp add: table_inv_def update_of_def list_all_iff)
      show "case update_of (key y) (us1 @ us2) of None \<Rightarrow> get y = truth (key y)
          | Some (prev, new, ok) \<Rightarrow> get y = new \<and> truth (key y) = (if ok then new else prev)"
      proof (cases "key x = k")
        case True
        then show ?thesis using old here none x(2) unfolding key update_of_def
          by (auto simp: get_upd simp del: map_of_append split: if_splits)
      next
        case False
        then have yx: "y = x" using x(2) by simp
        show ?thesis using old unfolding key update_of_def same [OF False] yx .
      qed
    qed
  qed
qed

text \<open>Once nothing is pending, the table shows the server's values.\<close>

lemma settled: "table_inv key get truth [] xs \<Longrightarrow> x \<in> set xs \<Longrightarrow> get x = truth (key x)"
  by (auto simp: table_inv_def update_of_def list_all_iff)

end

interpretation status_table: optimistic_table co_id co_status "\<lambda>s x. x\<lparr>co_status := s\<rparr>"
  by unfold_locales simp_all

interpretation seats_table: optimistic_table co_id co_seats "\<lambda>n x. x\<lparr>co_seats := n\<rparr>"
  by unfold_locales simp_all

section \<open>Runs with pending requests\<close>

definition status_updates :: "crm_task list \<Rightarrow> (string, string) update list" where
  "status_updates ts =
     concat (map (\<lambda>t. case t of SuspendTask org s r \<Rightarrow> [(co_id org, co_status org, s, is_ok (accepted r))] | CapacityTask _ _ _ \<Rightarrow> []) ts)"

definition seats_updates :: "crm_task list \<Rightarrow> (string, int) update list" where
  "seats_updates ts =
     concat (map (\<lambda>t. case t of CapacityTask org n r \<Rightarrow> [(co_id org, previous_seats org, n, is_ok (accepted r))] | SuspendTask _ _ _ \<Rightarrow> []) ts)"

text \<open>What the server holds after a request: the new value when it accepted the request.\<close>

definition served_status :: "crm_task \<Rightarrow> (string \<Rightarrow> string) \<Rightarrow> string \<Rightarrow> string" where
  "served_status t truth = (case t of SuspendTask org s r \<Rightarrow> if is_ok (accepted r) then truth(co_id org := s) else truth | _ \<Rightarrow> truth)"

definition served_seats :: "crm_task \<Rightarrow> (string \<Rightarrow> int) \<Rightarrow> string \<Rightarrow> int" where
  "served_seats t truth = (case t of CapacityTask org n r \<Rightarrow> if is_ok (accepted r) then truth(co_id org := n) else truth | _ \<Rightarrow> truth)"

text \<open>The application with the server's values beside it. Actions are taken on rows of the table; while a request of one kind for an
  organization is pending, no second one of that kind is made. Answers arrive in any order, and anything else may happen that
  leaves the table and the pending requests alone.\<close>

inductive crm_run :: "net \<Rightarrow> (string \<Rightarrow> string) \<Rightarrow> (string \<Rightarrow> int) \<Rightarrow> 'z crm_state_scheme \<Rightarrow> bool" for N :: net where
  crm_start: "list_all (\<lambda>x. co_status x = ss (co_id x) \<and> co_seats x = sn (co_id x) \<and> co_seats x \<noteq> 0) (organizations w)
     \<Longrightarrow> crm_tasks w = [] \<Longrightarrow> crm_run N ss sn w"
| crm_toggle: "crm_run N ss sn w \<Longrightarrow> x \<in> set (organizations w) \<Longrightarrow> co_id x \<notin> fst ` set (status_updates (crm_tasks w))
     \<Longrightarrow> crm_run N (served_status (last (crm_tasks (handleToggleSuspend N x w))) ss) sn (handleToggleSuspend N x w)"
| crm_capacity: "crm_run N ss sn w \<Longrightarrow> x \<in> set (organizations w) \<Longrightarrow> co_id x \<notin> fst ` set (seats_updates (crm_tasks w)) \<Longrightarrow> n \<noteq> 0
     \<Longrightarrow> crm_run N ss (served_seats (last (crm_tasks (handleConfirmCapacityUpdate N x n w))) sn) (handleConfirmCapacityUpdate N x n w)"
| crm_settle: "crm_run N ss sn w \<Longrightarrow> crm_run N ss sn (settle N i w)"
| crm_other: "crm_run N ss sn w \<Longrightarrow> organizations w' = organizations w \<Longrightarrow> crm_tasks w' = crm_tasks w \<Longrightarrow> crm_run N ss sn w'"

definition crm_inv :: "(string \<Rightarrow> string) \<Rightarrow> (string \<Rightarrow> int) \<Rightarrow> crm_task list \<Rightarrow> crm_org list \<Rightarrow> bool" where
  "crm_inv ss sn ts os \<longleftrightarrow> table_inv co_id co_status ss (status_updates ts) os \<and> table_inv co_id co_seats sn (seats_updates ts) os
     \<and> list_all (\<lambda>x. co_seats x \<noteq> 0) os"

lemma table_inv_cong:
  assumes "map (\<lambda>x. (key x, get x)) xs = map (\<lambda>x. (key x, get x)) ys"
  shows "table_inv key get t us xs = table_inv key get t us ys"
proof -
  have split: "list_all (\<lambda>x. P (key x) (get x)) zs = list_all (\<lambda>p. P (fst p) (snd p)) (map (\<lambda>x. (key x, get x)) zs)" for P zs
    by (simp add: list_all_iff)
  let ?P = "\<lambda>k v. case update_of k us of None \<Rightarrow> v = t k | Some (prev, new, ok) \<Rightarrow> v = new \<and> t k = (if ok then new else prev)"
  show ?thesis unfolding table_inv_def split [of ?P xs] split [of ?P ys] assms ..
qed

lemma sets_put_at:
  "set_status i v = put_at co_id (\<lambda>s x. x\<lparr>co_status := s\<rparr>) i v" "set_seats i n = put_at co_id (\<lambda>n x. x\<lparr>co_seats := n\<rparr>) i n"
  by (simp_all add: set_status_def set_seats_def put_at_def)

lemma sets_frame:
  "table_inv co_id co_seats t us (set_status i v xs) = table_inv co_id co_seats t us xs"
  "table_inv co_id co_status t' us' (set_seats i n xs) = table_inv co_id co_status t' us' xs"
  "list_all (\<lambda>x. co_seats x \<noteq> 0) (set_status i v xs) = list_all (\<lambda>x. co_seats x \<noteq> 0) xs"
  "n \<noteq> 0 \<Longrightarrow> list_all (\<lambda>x. co_seats x \<noteq> 0) xs \<Longrightarrow> list_all (\<lambda>x. co_seats x \<noteq> 0) (set_seats i n xs)"
proof -
  show "table_inv co_id co_seats t us (set_status i v xs) = table_inv co_id co_seats t us xs"
    "table_inv co_id co_status t' us' (set_seats i n xs) = table_inv co_id co_status t' us' xs"
    by (rule table_inv_cong, simp add: set_status_def comp_def)+ (rule table_inv_cong, simp add: set_seats_def comp_def)
  show "list_all (\<lambda>x. co_seats x \<noteq> 0) (set_status i v xs) = list_all (\<lambda>x. co_seats x \<noteq> 0) xs"
    by (induction xs) (simp_all add: set_status_def)
  show "n \<noteq> 0 \<Longrightarrow> list_all (\<lambda>x. co_seats x \<noteq> 0) xs \<Longrightarrow> list_all (\<lambda>x. co_seats x \<noteq> 0) (set_seats i n xs)"
    by (induction xs) (simp_all add: set_seats_def)
qed

lemma refetchAuditLogs_frame:
  fixes w :: "'z crm_state_scheme"
  shows "organizations (refetchAuditLogs N w) = organizations w" "crm_tasks (refetchAuditLogs N w) = crm_tasks w"
proof -
  have "io_keeps (organizations :: 'z crm_state_scheme \<Rightarrow> _) (getAuditLogs N)" "io_keeps (crm_tasks :: 'z crm_state_scheme \<Rightarrow> _) (getAuditLogs N)"
    unfolding getAuditLogs_def adminFetch_def by (intro io_frame; simp)+
  then show "organizations (refetchAuditLogs N w) = organizations w" "crm_tasks (refetchAuditLogs N w) = crm_tasks w"
    unfolding refetchAuditLogs_def by (auto intro!: try_catch_keeps io_frame)
qed

lemma action_frame:
  fixes w :: "'z crm_state_scheme"
  shows "organizations (snd (suspendOrganization N i s r w)) = organizations w" "crm_tasks (snd (suspendOrganization N i s r w)) = crm_tasks w"
    "organizations (snd (updateCapacity_crm N i n r w)) = organizations w" "crm_tasks (snd (updateCapacity_crm N i n r w)) = crm_tasks w"
  by (simp_all add: suspendOrganization_def updateCapacity_crm_def adminFetch_def cp_call_eq)

lemma updates_append:
  "status_updates (ts @ us) = status_updates ts @ status_updates us" "seats_updates (ts @ us) = seats_updates ts @ seats_updates us"
  by (simp_all add: status_updates_def seats_updates_def)

lemma updates_Cons:
  "status_updates (SuspendTask x s r # ts) = (co_id x, co_status x, s, is_ok (accepted r)) # status_updates ts"
  "status_updates (CapacityTask x n r # ts) = status_updates ts"
  "seats_updates (CapacityTask x n r # ts) = (co_id x, previous_seats x, n, is_ok (accepted r)) # seats_updates ts"
  "seats_updates (SuspendTask x s r # ts) = seats_updates ts"
  "status_updates [] = []" "seats_updates [] = []"
  by (simp_all add: status_updates_def seats_updates_def)

lemmas updates_simps = updates_append updates_Cons

lemma toggle_inv:
  fixes w :: "'z crm_state_scheme"
  assumes "crm_inv ss sn (crm_tasks w) (organizations w)" "x \<in> set (organizations w)" "co_id x \<notin> fst ` set (status_updates (crm_tasks w))"
  shows "crm_inv (served_status (last (crm_tasks (handleToggleSuspend N x w))) ss) sn
    (crm_tasks (handleToggleSuspend N x w)) (organizations (handleToggleSuspend N x w))"
proof -
  obtain r where run: "crm_tasks (handleToggleSuspend N x w) = crm_tasks w @ [SuspendTask x (target_status x) r]"
    "organizations (handleToggleSuspend N x w) = set_status (co_id x) (target_status x) (organizations w)"
    by (simp add: handleToggleSuspend_def Let_def case_prod_beta action_frame del: append.simps)
  show ?thesis
    using assms(1) status_table.start_update [of ss "status_updates (crm_tasks w)" "organizations w" x "is_ok (accepted r)" "target_status x"] assms(2,3)
    unfolding run crm_inv_def by (simp add: updates_simps served_status_def sets_frame sets_put_at(1) [symmetric])
qed

lemma capacity_inv:
  fixes w :: "'z crm_state_scheme"
  assumes "crm_inv ss sn (crm_tasks w) (organizations w)" "x \<in> set (organizations w)" "co_id x \<notin> fst ` set (seats_updates (crm_tasks w))" "n \<noteq> 0"
  shows "crm_inv ss (served_seats (last (crm_tasks (handleConfirmCapacityUpdate N x n w))) sn)
    (crm_tasks (handleConfirmCapacityUpdate N x n w)) (organizations (handleConfirmCapacityUpdate N x n w))"
proof -
  obtain r where run: "crm_tasks (handleConfirmCapacityUpdate N x n w) = crm_tasks w @ [CapacityTask x n r]"
    "organizations (handleConfirmCapacityUpdate N x n w) = set_seats (co_id x) n (organizations w)"
    by (simp add: handleConfirmCapacityUpdate_def Let_def case_prod_beta action_frame del: append.simps)
  have "previous_seats x = co_seats x" using assms(1,2) by (auto simp: crm_inv_def previous_seats_def list_all_iff)
  then show ?thesis
    using assms(1) seats_table.start_update [of sn "seats_updates (crm_tasks w)" "organizations w" x "is_ok (accepted r)" n] assms(2-4)
    unfolding run crm_inv_def by (simp add: updates_simps served_seats_def sets_frame sets_put_at(2) [symmetric])
qed

lemma resume_organizations:
  fixes w :: "'z crm_state_scheme"
  shows "organizations (resume_suspend N x s r w) = (if is_ok (accepted r) then organizations w else set_status (co_id x) (co_status x) (organizations w))"
    "organizations (resume_capacity N x n r w) = (if is_ok (accepted r) then organizations w else set_seats (co_id x) (previous_seats x) (organizations w))"
    "crm_tasks (resume_suspend N x s r w) = crm_tasks w" "crm_tasks (resume_capacity N x n r w) = crm_tasks w"
proof -
  note run = resume_suspend_def resume_capacity_def Let_def refetchAuditLogs_frame is_ok_def
  show "organizations (resume_suspend N x s r w) = (if is_ok (accepted r) then organizations w else set_status (co_id x) (co_status x) (organizations w))"
    by (cases "accepted r") (simp_all add: run del: append.simps)
  show "organizations (resume_capacity N x n r w) = (if is_ok (accepted r) then organizations w else set_seats (co_id x) (previous_seats x) (organizations w))"
    by (cases "accepted r") (simp_all add: run del: append.simps)
  show "crm_tasks (resume_suspend N x s r w) = crm_tasks w" "crm_tasks (resume_capacity N x n r w) = crm_tasks w"
    by (cases "accepted r"; simp add: run del: append.simps; fail)+
qed

lemma settle_inv:
  fixes w :: "'z crm_state_scheme"
  assumes "crm_inv ss sn (crm_tasks w) (organizations w)"
  shows "crm_inv ss sn (crm_tasks (settle N i w)) (organizations (settle N i w))"
proof (cases "i < length (crm_tasks w)")
  case True
  then obtain ts1 ts2 where ts: "crm_tasks w = ts1 @ crm_tasks w ! i # ts2" "take i (crm_tasks w) = ts1" "drop (Suc i) (crm_tasks w) = ts2"
    using id_take_nth_drop by blast
  show ?thesis
  proof (cases "crm_tasks w ! i")
    case (SuspendTask x s r)
    note tasks = ts(1) [unfolded SuspendTask]
    note parts = assms [unfolded crm_inv_def tasks updates_simps]
    have settled: "crm_tasks (settle N i w) = ts1 @ ts2"
      "organizations (settle N i w) = (if is_ok (accepted r) then organizations w else set_status (co_id x) (co_status x) (organizations w))"
      using True by (simp_all add: settle_def Let_def SuspendTask resume_organizations ts(2,3))
    show ?thesis
      using parts status_table.settle_update [OF conjunct1 [OF parts]]
      unfolding crm_inv_def settled sets_put_at(1) [symmetric] by (cases "is_ok (accepted r)") (simp_all add: updates_simps sets_frame)
  next
    case (CapacityTask x n r)
    note tasks = ts(1) [unfolded CapacityTask]
    note parts = assms [unfolded crm_inv_def tasks updates_simps]
    have settled: "crm_tasks (settle N i w) = ts1 @ ts2"
      "organizations (settle N i w) = (if is_ok (accepted r) then organizations w else set_seats (co_id x) (previous_seats x) (organizations w))"
      using True by (simp_all add: settle_def Let_def CapacityTask resume_organizations ts(2,3))
    have "previous_seats x \<noteq> 0" by (simp add: previous_seats_def)
    then show ?thesis
      using parts seats_table.settle_update [OF conjunct1 [OF conjunct2 [OF parts]]]
      unfolding crm_inv_def settled sets_put_at(2) [symmetric] by (cases "is_ok (accepted r)") (simp_all add: updates_simps sets_frame)
  qed
qed (use assms in \<open>simp add: settle_def\<close>)

lemma crm_run_inv: "crm_run N ss sn w \<Longrightarrow> crm_inv ss sn (crm_tasks w) (organizations w)"
proof (induction rule: crm_run.induct)
  case (crm_start ss sn w)
  then show ?case by (auto simp: crm_inv_def table_inv_def updates_simps update_of_def list_all_iff)
qed (simp_all add: toggle_inv capacity_inv settle_inv)

section \<open>Properties\<close>

definition sample_crm :: "crm_org list \<Rightarrow> crm_state" where
  "sample_crm os =
     \<lparr>sessionStorage = [], localStorage = [], sent = [], organizations = os, auditLogs = [], searchFilter = [], planFilter = ''all'',
      statusFilter = ''all'', openDropdownId = None, selectedOrgForCapacity = None, adjustedSeats = 10, selectedOrgForRecovery = None,
      globalSearchError = [], healthData = None, loadingHealth = False, activeLookupUuid = None, logs = [], stalledTxs = [],
      streamActive = True, actionNotification = None, crm_tasks = [], exported = []\<rparr>"

definition sample_org_row :: crm_org where
  "sample_org_row = \<lparr>co_id = ''o'', co_name = ''ACME'', co_plan = ''pro'', co_seats = 10, co_status = ''active'', co_created_at = ''2026-01-01'',
     co_mailboxes = 3, co_used = 1610612736, co_quota = 10737418240\<rparr>"

text \<open>A server that does not answer.\<close>

lemma toggle_silent:
  fixes w :: "'z crm_state_scheme"
  shows "organizations (handleToggleSuspend silent_net x w) = set_status (co_id x) (target_status x) (organizations w)"
    "crm_tasks (handleToggleSuspend silent_net x w) = crm_tasks w @ [SuspendTask x (target_status x) (throw_msg [])]"
  by (simp_all add: handleToggleSuspend_def suspendOrganization_def adminFetch_def cp_call_eq silent_net_def Let_def case_prod_beta del: append.simps)

lemma settle_refused:
  fixes w :: "'z crm_state_scheme"
  assumes "crm_tasks w = SuspendTask x s (throw_msg m) # ts"
  shows "organizations (settle N 0 w) = set_status (co_id x) (co_status x) (organizations w)" "crm_tasks (settle N 0 w) = ts"
  using assms by (simp_all add: settle_def Let_def resume_organizations accepted_def)



text \<open>With two pending requests for one organization the undoing of the later one restores a value that was never the server's: both
  requests are refused, and the table shows the organization as suspended.\<close>

theorem overlapping_rollbacks:
  "let w1 = handleToggleSuspend silent_net sample_org_row (sample_crm [sample_org_row]);
       w2 = handleToggleSuspend silent_net (hd (organizations w1)) w1
   in map co_status (organizations (settle silent_net 0 (settle silent_net 0 w2))) = [''suspended'']
    \<and> crm_tasks (settle silent_net 0 (settle silent_net 0 w2)) = []"
  by (simp add: Let_def settle_refused toggle_silent set_status_def sample_crm_def sample_org_row_def target_status_def)

section \<open>The exported table\<close>

text \<open>A reader of comma-separated values: a field in quotes may hold commas and line feeds, and a quote written twice.\<close>

fun csv_go :: "bool \<Rightarrow> string \<Rightarrow> string list \<Rightarrow> string \<Rightarrow> string list list" where
  "csv_go q f r [] = [r @ [f]]"
| "csv_go True f r (c # s) =
     (if c = dquote then (case s of d # s' \<Rightarrow> if d = dquote then csv_go True (f @ [dquote]) r s' else csv_go False f r s | [] \<Rightarrow> [r @ [f]])
      else csv_go True (f @ [c]) r s)"
| "csv_go False f r (c # s) =
     (if c = dquote then csv_go True f r s
      else if c = CHR '','' then csv_go False [] (r @ [f]) s
      else if c = CHR 0x0A then (r @ [f]) # csv_go False [] [] s
      else csv_go False (f @ [c]) r s)"

definition csv_read :: "string \<Rightarrow> string list list" where
  "csv_read s = csv_go False [] [] s"

definition csv_fields :: "crm_org \<Rightarrow> string list" where
  "csv_fields org =
     [co_id org, co_name org, co_plan org, co_status org, toFixed 2 (co_used org) (1024 * 1024 * 1024),
      toFixed 0 (co_quota org) (1024 * 1024 * 1024), int_text (co_mailboxes org), co_created_at org]"

definition csv_end :: "string \<Rightarrow> bool" where
  "csv_end rest \<longleftrightarrow> rest = [] \<or> hd rest = CHR '','' \<or> hd rest = CHR 0x0A"

definition reads_as :: "string \<Rightarrow> string \<Rightarrow> bool" where
  "reads_as e f \<longleftrightarrow> (\<forall>r rest. csv_end rest \<longrightarrow> csv_go False [] r (e @ rest) = csv_go False f r rest)"

lemma csv_quoted: "csv_end rest \<Longrightarrow> csv_go True f r (double_quotes s @ dquote # rest) = csv_go False (f @ s) r rest"
proof (induction s arbitrary: f)
  case Nil
  then show ?case by (cases rest) (auto simp: double_quotes_def csv_end_def)
next
  case (Cons c s)
  then show ?case by (simp add: double_quotes_def)
qed

lemma reads_quoted: "reads_as (in_quotes (double_quotes s)) s"
  using csv_quoted [of _ "[]"] by (simp add: reads_as_def in_quotes_def)

lemma double_quotes_id: "dquote \<notin> set s \<Longrightarrow> double_quotes s = s"
  by (induction s) (auto simp: double_quotes_def)

lemma reads_unescaped: "dquote \<notin> set s \<Longrightarrow> reads_as (in_quotes s) s"
  using reads_quoted [of s] by (simp add: double_quotes_id)

definition plain_field :: "string \<Rightarrow> bool" where
  "plain_field s \<longleftrightarrow> list_all (\<lambda>c. c \<noteq> dquote \<and> c \<noteq> CHR '','' \<and> c \<noteq> CHR 0x0A) s"

lemma csv_plain: "plain_field s \<Longrightarrow> csv_go False f r (s @ rest) = csv_go False (f @ s) r rest"
  by (induction s arbitrary: f) (simp_all add: plain_field_def)

lemma reads_plain: "plain_field s \<Longrightarrow> reads_as s s"
  by (simp add: reads_as_def csv_plain)

lemma plain_digits: "list_all is_digit s \<Longrightarrow> plain_field s"
  by (auto simp: plain_field_def list_all_iff is_digit_def)

lemma plain_numbers: "plain_field (toFixed f a b)" "plain_field (int_text n)"
proof -
  have num: "plain_field (num_string n)" for n using num_string_digits by (intro plain_digits) (auto simp: list_all_iff)
  show "plain_field (toFixed f a b)"
  proof (cases "f = 0")
    case True
    then show ?thesis using num by (simp add: toFixed_def)
  next
    case False
    then obtain u v where "toFixed f a b = u @ ''.'' @ v" "list_all is_digit (u @ v)" using toFixed_point [of f a b] by auto
    then show ?thesis using plain_digits [of u] plain_digits [of v] by (simp add: plain_field_def)
  qed
  show "plain_field (int_text n)" using num by (simp add: int_text_def plain_field_def)
qed

lemma csv_row_reads:
  assumes "dquote \<notin> set (co_id org)" "dquote \<notin> set (co_plan org)" "dquote \<notin> set (co_status org)" "dquote \<notin> set (co_created_at org)"
  shows "list_all2 reads_as (csv_row org) (csv_fields org)"
  using assms by (simp add: csv_row_def csv_fields_def reads_unescaped reads_quoted reads_plain plain_numbers)

lemma csv_line:
  assumes "list_all2 reads_as es fs" "es \<noteq> []" "rest = [] \<or> hd rest = CHR 0x0A"
  shows "csv_go False [] r (join '','' es @ rest) = (case rest of [] \<Rightarrow> [r @ fs] | c # rest' \<Rightarrow> (r @ fs) # csv_go False [] [] rest')"
  using assms(1,2)
proof (induction es fs arbitrary: r rule: list_all2_induct)
  case (Cons e es f fs)
  have e: "csv_end rest' \<Longrightarrow> csv_go False [] r (e @ rest') = csv_go False f r rest'" for rest' r using Cons.hyps(1) by (simp add: reads_as_def)
  show ?case
  proof (cases es)
    case Nil
    then have "fs = []" using Cons.hyps(2) by simp
    moreover have "csv_end rest" using assms(3) by (auto simp: csv_end_def)
    ultimately show ?thesis using Nil e [of rest r] e [of "[]" r] assms(3) by (cases rest) auto
  next
    case (Cons e' es')
    then have "csv_go False [] r (join '','' (e # es) @ rest) = csv_go False f r ('','' @ join '','' es @ rest)"
      using e [of "'','' @ join '','' es @ rest"] by (simp add: csv_end_def)
    also have "\<dots> = csv_go False [] (r @ [f]) (join '','' es @ rest)" by simp
    finally show ?thesis using Cons.IH [of "r @ [f]"] Cons by (cases rest) simp_all
  qed
qed simp

lemma newline_char: "newline = [CHR 0x0A]"
  by code_simp

lemma csv_document:
  assumes "list_all2 (\<lambda>es fs. list_all2 reads_as es fs \<and> es \<noteq> []) rows fss" "rows \<noteq> []"
  shows "csv_read (join newline (map (join '','') rows)) = fss"
  using assms
proof (induction rows fss rule: list_all2_induct)
  case (Cons es rows fs fss)
  then have es: "list_all2 reads_as es fs" "es \<noteq> []" by simp_all
  show ?case
  proof (cases rows)
    case Nil
    then show ?thesis using Cons.hyps(2) csv_line [OF es, of "[]" "[]"] by (simp add: csv_read_def)
  next
    case (Cons es' rows')
    then show ?thesis
      using Cons.IH csv_line [OF es, of "newline @ join newline (map (join '','') rows)" "[]"] by (simp add: csv_read_def newline_char)
  qed
qed simp

text \<open>C10: the exported table reads back. When no identifier, plan, status or date holds a quote, a reader of comma-separated values
  gets exactly the header and, for every organization of the filtered table in order, its fields, whatever the name holds.\<close>

theorem csv_export_reads_back:
  assumes "list_all (\<lambda>x. dquote \<notin> set (co_id x @ co_plan x @ co_status x @ co_created_at x)) (filteredOrganizations w)"
  shows "\<exists>content. exported (handleExportCSV w) = exported w @ [(''byos_organizations_export.csv'', content)]
    \<and> csv_read content = csv_headers # map csv_fields (filteredOrganizations w)"
proof -
  let ?os = "filteredOrganizations w"
  have "list_all plain_field csv_headers" by code_simp
  then have "list_all2 reads_as csv_headers csv_headers" by (auto simp: list_all2_same list_all_iff reads_plain)
  moreover have "list_all2 (\<lambda>es fs. list_all2 reads_as es fs \<and> es \<noteq> []) (map csv_row ?os) (map csv_fields ?os)"
    using assms csv_row_reads by (auto simp: list_all2_map1 list_all2_map2 list_all2_same list_all_iff) (simp add: csv_row_def)
  ultimately have "csv_read (join newline (map (join '','') (csv_headers # map csv_row ?os))) = csv_headers # map csv_fields ?os"
    by (intro csv_document) (simp_all add: csv_headers_def)
  then have "csv_read (csv_content ?os) = csv_headers # map csv_fields ?os" by (simp add: csv_content_def comp_def)
  then show ?thesis by (simp add: handleExportCSV_def Let_def del: append.simps)
qed

theorem csv_export_reads_back_witness:
  "\<exists>content. exported (handleExportCSV (sample_crm [sample_org_row\<lparr>co_name := ''A, \"B\"''\<rparr>])) = [(''byos_organizations_export.csv'', content)]
    \<and> csv_read content = [csv_headers, [''o'', ''A, \"B\"'', ''pro'', ''active'', ''1.50'', ''10'', ''3'', ''2026-01-01'']]"
proof -
  let ?w = "sample_crm [sample_org_row\<lparr>co_name := ''A, \"B\"''\<rparr>]"
  have os: "filteredOrganizations ?w = [sample_org_row\<lparr>co_name := ''A, \"B\"''\<rparr>]"
    by (simp add: filteredOrganizations_def sample_crm_def toLowerCase_def)
  have "scaled_round 2 1610612736 (1024 * 1024 * 1024) = 150" "scaled_round 0 10737418240 (1024 * 1024 * 1024) = 10"
    by (simp_all add: scaled_round_def)
  moreover have "num_string 150 = ''150''" "num_string 10 = ''10''" "int_text 3 = ''3''" by code_simp+
  ultimately have "csv_fields (sample_org_row\<lparr>co_name := ''A, \"B\"''\<rparr>) = [''o'', ''A, \"B\"'', ''pro'', ''active'', ''1.50'', ''10'', ''3'', ''2026-01-01'']"
    by (simp add: csv_fields_def sample_org_row_def toFixed_def padStart_def del: toStringRadix.simps)
  moreover have "exported ?w = []" by (simp add: sample_crm_def)
  ultimately show ?thesis
    using csv_export_reads_back [of ?w] unfolding os by (simp add: sample_org_row_def)
qed

section \<open>Further facts\<close>

text \<open>The telemetry keeps at most fifty entries at every tick.\<close>

theorem telemetry_bounded: "streamActive w \<Longrightarrow> length (logs (telemetry_tick l w)) \<le> 50"
  by (simp add: telemetry_tick_def Let_def)

text \<open>Only an identifier in the form of a UUID is looked up.\<close>

definition is_hex_any :: "char \<Rightarrow> bool" where
  "is_hex_any c \<longleftrightarrow> is_digit c \<or> lower_char c \<in> set ''abcdef''"

theorem lookup_only_uuids:
  fixes w :: "'z crm_state_scheme"
  shows "sent (triggerGlobalSearch N s w) = sent w \<or>
     (\<exists>a b c d e. trim s = a @ ''-'' @ b @ ''-'' @ c @ ''-'' @ d @ ''-'' @ e \<and> map length [a, b, c, d, e] = [8, 4, 4, 4, 12]
        \<and> list_all is_hex_any (a @ b @ c @ d @ e))"
proof (cases "rx_full uuidRegex (trim s)")
  case True
  then obtain a b c d e where "trim s = a @ ''-'' @ b @ ''-'' @ c @ ''-'' @ d @ ''-'' @ e" "map length [a, b, c, d, e] = [8, 4, 4, 4, 12]"
    "list_all is_hex_any (a @ b @ c @ d @ e)"
    unfolding rx_full_iff uuidRegex_def hex_cls_def in_lang_seq lang_times_cls lang_lit is_hex_any_def [symmetric] by force
  then show ?thesis by (intro disjI2 exI conjI)
qed (simp add: triggerGlobalSearch_def)

text \<open>Decrypting a ticket only announces it: nothing is decrypted and nothing is asked of the server.\<close>

theorem ticket_decryption_announced:
  "handleDecryptTicket (KeyAnswers (Some a)) t w =
     w\<lparr>actionNotification := Some \<lparr>no_ok = True, no_message = ''Hardware Key Assertion verified. Ticket '' @ t @ '' payload decrypted into secure memory enclave.'',
         no_auditId = None\<rparr>\<rparr>"
  by (simp add: handleDecryptTicket_def)

end
