(* ===== verification/Domains_Page.thy ===== *)
theory Domains_Page
  imports Regex Control_Api App_State "HOL-Library.Sublist"
begin

text \<open>
  The page of the control plane for an organization's mail domains, \<open>routes/dashboard/domains.tsx\<close>, and the wizard it
  contains, \<open>components/domains/DomainWizard.tsx\<close>, both under \<open>apps/control-plane/src\<close>.

  The body of a component runs once, when the component is created. The wizard's body ends with \<open>if (!props.isOpen) return
  null\<close>, so whether there is anything to show is decided by the value \<open>isOpen\<close> has at that moment; it is the field
  \<open>wz_created_open\<close>. The wizard's effects do follow \<open>isOpen\<close>.
\<close>

section \<open>Names of domains\<close>

definition is_alnum :: "char \<Rightarrow> bool" where
  "is_alnum c \<longleftrightarrow> is_lower_ascii c \<or> is_upper_ascii c \<or> is_digit c"

definition is_tld_char :: "char \<Rightarrow> bool" where
  "is_tld_char c \<longleftrightarrow> is_lower_ascii c \<or> is_upper_ascii c"

definition is_label_char :: "char \<Rightarrow> bool" where
  "is_label_char c \<longleftrightarrow> is_alnum c \<or> c = CHR ''-''"

definition label_rx :: rx where
  "label_rx = RSeq (RCls is_alnum) (RSeq (rx_opt (RSeq (rx_upto 61 (RCls is_label_char)) (RCls is_alnum))) (rx_lit ''.''))"

definition domainRegex :: rx where
  "domainRegex = RSeq (rx_plus label_rx) (RSeq (rx_times 2 (RCls is_tld_char)) (RStar True (RCls is_tld_char)))"

section \<open>State\<close>

record domains_state = world +
  dp_banner :: "(bool \<times> string) option"
  verifyingId :: "string option"
  expandedDomainId :: "string option"
  wizardOpen :: bool
  selectedDomain :: "domain option"
  wizardStep :: nat
  dp_domains :: "js_error + domain list"
  wz_created_open :: bool
  wz_step :: nat
  domainInput :: string
  domainError :: "string option"
  currentDomain :: "domain option"
  isSubmitting :: bool
  isVerifying :: bool
  verifyStatus :: string
  verifyMessage :: string
  copiedKey :: "string option"

definition field_text :: "json option \<Rightarrow> string" where
  "field_text v = (case v of Some (JStr s) \<Rightarrow> s | _ \<Rightarrow> [])"

text \<open>A domain as the server answered it.\<close>

definition raw_domain :: "json \<Rightarrow> domain" where
  "raw_domain d =
     \<lparr>dom_id = jprop ''id'' d, dom_name = jprop ''name'' d, dom_is_verified = nullish (jprop ''is_verified'' d) JNull,
      dom_verified = nullish (jprop ''verified'' d) JNull, verification_token = jprop ''verification_token'' d,
      dkim_selector = jprop ''dkim_selector'' d, dkim_public_key = jprop ''dkim_public_key'' d, dns_records = jprop ''dns_records'' d\<rparr>"

section \<open>The wizard\<close>

definition wizard_effect :: "'z domains_state_scheme \<Rightarrow> 'z domains_state_scheme" where
  "wizard_effect w =
     (if \<not> wizardOpen w then w
      else case selectedDomain w of
        Some d \<Rightarrow> w\<lparr>currentDomain := Some d, domainInput := field_text (dom_name d), wz_step := (if wizardStep w = 0 then 2 else wizardStep w),
                    verifyStatus := (if truthy (Some (dom_is_verified d)) \<or> truthy (Some (dom_verified d)) then ''success'' else ''idle'')\<rparr>
      | None \<Rightarrow> w\<lparr>currentDomain := None, domainInput := [], domainError := None, wz_step := 1, verifyStatus := ''idle''\<rparr>)"

definition copyToClipboard :: "string \<Rightarrow> string \<Rightarrow> 'z domains_state_scheme \<Rightarrow> string \<times> 'z domains_state_scheme" where
  "copyToClipboard key t w = (t, w\<lparr>copiedKey := Some key\<rparr>)"

definition create_domain_error :: "js_error \<Rightarrow> string" where
  "create_domain_error e =
     (if err_status e = Some 409 \<or> str_includes (err_message e) ''already exists'' then ''This domain has already been added to an organization.''
      else if err_status e = Some 402 then ''Plan domain limit reached. Please upgrade your subscription.''
      else or_else (err_message e) ''Failed to create domain. Please try again.'')"

definition handleStep1Submit :: "net \<Rightarrow> string \<Rightarrow> 'z domains_state_scheme \<Rightarrow> 'z domains_state_scheme" where
  "handleStep1Submit N orgId w0 =
     (let w = w0\<lparr>domainError := None\<rparr>; raw = toLowerCase (trim (domainInput w0))
      in if raw = [] then w\<lparr>domainError := Some ''Please enter a domain name.''\<rparr>
         else if \<not> rx_full domainRegex raw
         then w\<lparr>domainError := Some ''Invalid domain format. Example: company.com or mail.example.org''\<rparr>
         else (try_catch (\<lambda>e v. v\<lparr>domainError := Some (create_domain_error e)\<rparr>)
                 (io_bind (createDomain N orgId raw) (\<lambda>created. io_modify (\<lambda>v. v\<lparr>currentDomain := Some (raw_domain created), wz_step := 2\<rparr>)))
                 (w\<lparr>isSubmitting := True\<rparr>))\<lparr>isSubmitting := False\<rparr>)"

definition DNS_PENDING :: string where
  "DNS_PENDING = ''Verification record not detected yet. DNS propagation can take a few minutes. You may continue to the next steps and verify later.''"

text \<open>The resource of the page. Reloading it never fails: an error becomes the state of the resource.\<close>

definition refetch_domains :: "net \<Rightarrow> string \<Rightarrow> 'z domains_state_scheme \<Rightarrow> 'z domains_state_scheme" where
  "refetch_domains N orgId w =
     (if orgId = [] then w\<lparr>dp_domains := Inr []\<rparr>
      else try_catch (\<lambda>e v. v\<lparr>dp_domains := (if err_status e = Some 404 then Inr [] else Inl e)\<rparr>)
             (io_bind (listDomains N orgId) (\<lambda>ds. io_modify (\<lambda>v. v\<lparr>dp_domains := Inr ds\<rparr>))) w)"

definition handleTriggerVerification :: "net \<Rightarrow> string \<Rightarrow> 'z domains_state_scheme \<Rightarrow> 'z domains_state_scheme" where
  "handleTriggerVerification N orgId w =
     (case currentDomain w of
        None \<Rightarrow> w
      | Some d \<Rightarrow>
          if orgId = [] then w
          else (try_catch (\<lambda>e v. v\<lparr>verifyStatus := ''pending'', verifyMessage := DNS_PENDING\<rparr>)
                  (io_bind (verifyDomain N orgId (field_text (dom_id d))) (\<lambda>_. io_modify (\<lambda>v.
                     refetch_domains N orgId (v\<lparr>verifyStatus := ''success'',
                       verifyMessage := ''Ownership successfully verified! All DNS records detected.'',
                       currentDomain := Some (d\<lparr>dom_is_verified := JBool True, dom_verified := JBool True\<rparr>)\<rparr>))))
                  (w\<lparr>isVerifying := True, verifyMessage := []\<rparr>))\<lparr>isVerifying := False\<rparr>)"

definition records_of :: "domain \<Rightarrow> json list" where
  "records_of d = (case dns_records d of Some (JArr rs) \<Rightarrow> rs | _ \<Rightarrow> [])"

definition record_value :: "(json \<Rightarrow> bool) \<Rightarrow> string \<Rightarrow> domain \<Rightarrow> string" where
  "record_value p fallback d = (case find p (records_of d) of Some r \<Rightarrow> or_else (text_prop ''value'' r) fallback | None \<Rightarrow> fallback)"

definition getTxtToken :: "'z domains_state_scheme \<Rightarrow> string" where
  "getTxtToken w =
     (case currentDomain w of None \<Rightarrow> []
      | Some d \<Rightarrow> or_else (field_text (verification_token d))
          (record_value (\<lambda>r. text_prop ''type'' r = ''TXT'' \<and> prefix ''_byos'' (text_prop ''name'' r)) ''byos-verification=pending'' d))"

definition getDkimKey :: "'z domains_state_scheme \<Rightarrow> string" where
  "getDkimKey w =
     (case currentDomain w of None \<Rightarrow> []
      | Some d \<Rightarrow> or_else (field_text (dkim_public_key d))
          (record_value (\<lambda>r. str_includes (text_prop ''name'' r) ''_domainkey'') ''v=DKIM1; k=rsa; p=...'' d))"

definition getMxHost :: "'z domains_state_scheme \<Rightarrow> string" where
  "getMxHost w =
     (case currentDomain w of None \<Rightarrow> ''mail.byos.email''
      | Some d \<Rightarrow> record_value (\<lambda>r. text_prop ''type'' r = ''MX'') ''mail.byos.email'' d)"

text \<open>What the component shows after its body ran.\<close>

definition wizard_visible :: "'z domains_state_scheme \<Rightarrow> bool" where
  "wizard_visible w = wz_created_open w"

section \<open>The page\<close>

definition openNewDomainWizard :: "'z domains_state_scheme \<Rightarrow> 'z domains_state_scheme" where
  "openNewDomainWizard w = wizard_effect (w\<lparr>selectedDomain := None, wizardStep := 1, wizardOpen := True\<rparr>)"

definition openExistingDomainWizard :: "domain \<Rightarrow> nat \<Rightarrow> 'z domains_state_scheme \<Rightarrow> 'z domains_state_scheme" where
  "openExistingDomainWizard d stp w = wizard_effect (w\<lparr>selectedDomain := Some d, wizardStep := stp, wizardOpen := True\<rparr>)"

definition onCloseWizard :: "'z domains_state_scheme \<Rightarrow> 'z domains_state_scheme" where
  "onCloseWizard w = w\<lparr>wizardOpen := False\<rparr>"

definition finishSetup :: "net \<Rightarrow> string \<Rightarrow> 'z domains_state_scheme \<Rightarrow> 'z domains_state_scheme" where
  "finishSetup N orgId w = onCloseWizard (refetch_domains N orgId w)"

definition verify_banner :: "js_error \<Rightarrow> string" where
  "verify_banner e =
     (if err_status e = Some 403 then ''You do not have permission to verify this domain.''
      else if err_status e = Some 404 then ''Domain not found.''
      else ''DNS verification failed. TXT record not found yet.'')"

definition handleVerify :: "net \<Rightarrow> string \<Rightarrow> string \<Rightarrow> 'z domains_state_scheme \<Rightarrow> 'z domains_state_scheme" where
  "handleVerify N orgId domainId w =
     (if orgId = [] then w
      else (try_catch (\<lambda>e v. v\<lparr>dp_banner := Some (False, verify_banner e)\<rparr>)
              (io_bind (verifyDomain N orgId domainId) (\<lambda>_. io_modify (\<lambda>v.
                 (refetch_domains N orgId v)\<lparr>dp_banner := Some (True, ''Domain DNS verified successfully.'')\<rparr>)))
              (w\<lparr>verifyingId := Some domainId, dp_banner := None\<rparr>))\<lparr>verifyingId := None\<rparr>)"

text \<open>The page as it is created: the wizard is created with it, closed.\<close>

definition open_page :: "net \<Rightarrow> string \<Rightarrow> 'z domains_state_scheme \<Rightarrow> 'z domains_state_scheme" where
  "open_page N orgId w = refetch_domains N orgId (w\<lparr>dp_banner := None, verifyingId := None, expandedDomainId := None, wizardOpen := False,
     selectedDomain := None, wizardStep := 1, wz_created_open := False\<rparr>)"

text \<open>What can happen on the page. A control of the wizard can be used only while the wizard is shown.\<close>

inductive domains_step :: "net \<Rightarrow> string \<Rightarrow> domains_state \<Rightarrow> domains_state \<Rightarrow> bool" for N orgId where
  openNew: "domains_step N orgId w (openNewDomainWizard w)"
| openExisting: "domains_step N orgId w (openExistingDomainWizard d n w)"
| expand: "domains_step N orgId w (w\<lparr>expandedDomainId := x\<rparr>)"
| refresh: "domains_step N orgId w (refetch_domains N orgId w)"
| verify: "domains_step N orgId w (handleVerify N orgId i w)"
| clearBanner: "domains_step N orgId w (w\<lparr>dp_banner := None\<rparr>)"
| wizInput: "wizard_visible w \<Longrightarrow> domains_step N orgId w (w\<lparr>domainInput := s\<rparr>)"
| wizSubmit: "wizard_visible w \<Longrightarrow> domains_step N orgId w (handleStep1Submit N orgId w)"
| wizVerify: "wizard_visible w \<Longrightarrow> domains_step N orgId w (handleTriggerVerification N orgId w)"
| wizStep: "wizard_visible w \<Longrightarrow> domains_step N orgId w (w\<lparr>wz_step := n\<rparr>)"
| wizCopy: "wizard_visible w \<Longrightarrow> domains_step N orgId w (snd (copyToClipboard k t w))"
| wizClose: "wizard_visible w \<Longrightarrow> domains_step N orgId w (onCloseWizard w)"
| wizFinish: "wizard_visible w \<Longrightarrow> domains_step N orgId w (finishSetup N orgId w)"

section \<open>Properties\<close>

subsection \<open>The expression for names\<close>

text \<open>What a name is, by its labels.\<close>

definition label_ok :: "string \<Rightarrow> bool" where
  "label_ok l \<longleftrightarrow> l \<noteq> [] \<and> length l \<le> 63 \<and> list_all is_label_char l \<and> hd l \<noteq> CHR ''-'' \<and> last l \<noteq> CHR ''-''"

definition tld_ok :: "string \<Rightarrow> bool" where
  "tld_ok t \<longleftrightarrow> 2 \<le> length t \<and> list_all is_tld_char t"

definition domain_ok :: "string \<Rightarrow> bool" where
  "domain_ok s \<longleftrightarrow> (let labels = split_char (CHR ''.'') s in 2 \<le> length labels \<and> list_all label_ok (butlast labels) \<and> tld_ok (last labels))"

lemma label_char_not_dash: "is_label_char c \<and> c \<noteq> CHR ''-'' \<longleftrightarrow> is_alnum c"
  by (auto simp: is_label_char_def is_alnum_def is_lower_ascii_def is_upper_ascii_def is_digit_def)

lemma label_lang: "rx_lang label_rx = (\<lambda>l. l @ ''.'') ` {l. label_ok l}"
proof -
  have "u \<in> rx_lang label_rx \<longleftrightarrow> (\<exists>l. label_ok l \<and> u = l @ ''.'')" for u
  proof
    assume "u \<in> rx_lang label_rx"
    then obtain c m where c: "is_alnum c" and u: "u = c # m @ ''.''"
      and m: "m = [] \<or> (\<exists>k e. m = k @ [e] \<and> length k \<le> 61 \<and> list_all is_label_char k \<and> is_alnum e)"
      unfolding label_rx_def in_lang_cls_seq by auto
    from c m have "label_ok (c # m)"
      by (auto simp: label_ok_def label_char_not_dash [symmetric])
    with u show "\<exists>l. label_ok l \<and> u = l @ ''.''" by (intro exI [of _ "c # m"]) simp
  next
    assume "\<exists>l. label_ok l \<and> u = l @ ''.''"
    then obtain l where l: "label_ok l" "u = l @ ''.''" by blast
    then obtain c m where cm: "l = c # m" by (cases l) (auto simp: label_ok_def)
    have c: "is_alnum c" using l cm by (simp add: label_ok_def flip: label_char_not_dash)
    have "m = [] \<or> (\<exists>k e. m = k @ [e] \<and> length k \<le> 61 \<and> list_all is_label_char k \<and> is_alnum e)"
      using l cm by (cases m rule: rev_cases) (auto simp: label_ok_def label_char_not_dash [symmetric])
    with c l cm show "u \<in> rx_lang label_rx" unfolding label_rx_def in_lang_cls_seq by auto
  qed
  then show ?thesis by blast
qed

lemma star_image: "u \<in> rx_star (f ` A) \<longleftrightarrow> (\<exists>ls. set ls \<subseteq> A \<and> u = concat (map f ls))"
proof
  assume "u \<in> rx_star (f ` A)"
  then show "\<exists>ls. set ls \<subseteq> A \<and> u = concat (map f ls)"
  proof induction
    case star_Nil
    show ?case by (intro exI [of _ "[]"]) simp
  next
    case (star_app v w)
    then obtain l ls where "l \<in> A" "v = f l" "set ls \<subseteq> A" "w = concat (map f ls)" by blast
    then show ?case by (intro exI [of _ "l # ls"]) simp
  qed
next
  assume "\<exists>ls. set ls \<subseteq> A \<and> u = concat (map f ls)"
  then obtain ls where "set ls \<subseteq> A" "u = concat (map f ls)" by blast
  then show "u \<in> rx_star (f ` A)" by (induction ls arbitrary: u) auto
qed

lemma split_char_dotted:
  "\<forall>l \<in> set ls. d \<notin> set l \<Longrightarrow> d \<notin> set t \<Longrightarrow> split_char d (concat (map (\<lambda>l. l @ [d]) ls) @ t) = ls @ [t]"
  by (induction ls) (simp_all add: split_char_absent split_char_append)

lemma join_dotted: "join [d] (ls @ [t]) = concat (map (\<lambda>l. l @ [d]) ls) @ t"
proof (induction ls)
  case (Cons l ls)
  then show ?case by (cases "ls @ [t]") auto
qed simp

lemma no_dot: "label_ok l \<Longrightarrow> CHR ''.'' \<notin> set l" "tld_ok l \<Longrightarrow> CHR ''.'' \<notin> set l"
  by (auto simp: label_ok_def tld_ok_def list_all_iff is_label_char_def is_alnum_def is_tld_char_def is_lower_ascii_def is_upper_ascii_def is_digit_def)

lemma tld_lang: "rx_lang (RSeq (rx_times 2 (RCls is_tld_char)) (RStar True (RCls is_tld_char))) = {t. tld_ok t}"
proof -
  have "u \<in> rx_lang (RSeq (rx_times 2 (RCls is_tld_char)) (RStar True (RCls is_tld_char))) \<longleftrightarrow> tld_ok u" for u
  proof
    assume "tld_ok u"
    then have "u = take 2 u @ drop 2 u \<and> (length (take 2 u) = 2 \<and> list_all is_tld_char (take 2 u)) \<and> list_all is_tld_char (drop 2 u)"
      by (auto simp: tld_ok_def list_all_iff dest: in_set_takeD in_set_dropD)
    then show "u \<in> rx_lang (RSeq (rx_times 2 (RCls is_tld_char)) (RStar True (RCls is_tld_char)))"
      unfolding in_lang_seq lang_times_cls lang_star_cls mem_Collect_eq by blast
  next
    assume "u \<in> rx_lang (RSeq (rx_times 2 (RCls is_tld_char)) (RStar True (RCls is_tld_char)))"
    then show "tld_ok u" unfolding in_lang_seq lang_times_cls lang_star_cls mem_Collect_eq by (auto simp: tld_ok_def)
  qed
  then show ?thesis by blast
qed

lemma domain_lang: "s \<in> rx_lang domainRegex \<longleftrightarrow> (\<exists>l ls t. label_ok l \<and> list_all label_ok ls \<and> tld_ok t \<and> s = concat (map (\<lambda>l. l @ ''.'') (l # ls)) @ t)"
proof -
  have "s \<in> rx_lang domainRegex \<longleftrightarrow> (\<exists>v w x. s = (v @ w) @ x \<and> v \<in> rx_lang label_rx \<and> w \<in> rx_star (rx_lang label_rx) \<and> tld_ok x)"
    (is "_ \<longleftrightarrow> ?r")
  proof -
    have "s \<in> rx_lang domainRegex \<longleftrightarrow> (\<exists>u x. s = u @ x \<and> u \<in> rx_lang (rx_plus label_rx) \<and> tld_ok x)"
      unfolding domainRegex_def in_lang_seq [of s] tld_lang mem_Collect_eq by (rule refl)
    also have "\<dots> \<longleftrightarrow> ?r" unfolding rx_plus_def in_lang_seq [of _ label_rx] rx_lang.simps(5) by metis
    finally show ?thesis .
  qed
  also have "\<dots> \<longleftrightarrow> (\<exists>l ls t. label_ok l \<and> list_all label_ok ls \<and> tld_ok t \<and> s = concat (map (\<lambda>l. l @ ''.'') (l # ls)) @ t)"
  proof (intro iffI; elim exE conjE)
    fix v w x assume "s = (v @ w) @ x" "v \<in> rx_lang label_rx" "w \<in> rx_star (rx_lang label_rx)" "tld_ok x"
    moreover from this obtain l ls where "label_ok l" "v = l @ ''.''" "set ls \<subseteq> {l. label_ok l}" "w = concat (map (\<lambda>l. l @ ''.'') ls)"
      unfolding label_lang star_image by blast
    ultimately show "\<exists>l ls t. label_ok l \<and> list_all label_ok ls \<and> tld_ok t \<and> s = concat (map (\<lambda>l. l @ ''.'') (l # ls)) @ t"
      by (intro exI [of _ l] exI [of _ ls] exI [of _ x]) (auto simp: list_all_iff)
  next
    fix l ls t assume "label_ok l" "list_all label_ok ls" "tld_ok t" "s = concat (map (\<lambda>l. l @ ''.'') (l # ls)) @ t"
    moreover from this have "concat (map (\<lambda>l. l @ ''.'') ls) \<in> rx_star (rx_lang label_rx)"
      unfolding label_lang star_image by (intro exI [of _ ls]) (auto simp: list_all_iff)
    ultimately show "\<exists>v w x. s = (v @ w) @ x \<and> v \<in> rx_lang label_rx \<and> w \<in> rx_star (rx_lang label_rx) \<and> tld_ok x"
      by (intro exI [of _ "l @ ''.''"] exI [of _ "concat (map (\<lambda>l. l @ ''.'') ls)"] exI [of _ t]) (simp add: label_lang)
  qed
  finally show ?thesis .
qed

lemma domain_regex_iff: "rx_full domainRegex s \<longleftrightarrow> domain_ok s"
proof
  assume "rx_full domainRegex s"
  then obtain l ls t where parts: "label_ok l" "list_all label_ok ls" "tld_ok t" "s = concat (map (\<lambda>l. l @ ''.'') (l # ls)) @ t"
    unfolding rx_full_iff domain_lang by blast
  then have "split_char (CHR ''.'') s = (l # ls) @ [t]"
    unfolding parts(4) by (intro split_char_dotted) (auto simp: no_dot list_all_iff)
  with parts show "domain_ok s" by (simp add: domain_ok_def)
next
  assume ok: "domain_ok s"
  let ?p = "split_char (CHR ''.'') s"
  obtain l ls t where p: "?p = (l # ls) @ [t]"
    using ok by (cases ?p rule: rev_cases; cases "butlast ?p") (auto simp: domain_ok_def)
  have "s = concat (map (\<lambda>l. l @ ''.'') (l # ls)) @ t"
    using join_split_char [of "CHR ''.''" s] unfolding p join_dotted by simp
  moreover have "label_ok l \<and> list_all label_ok ls \<and> tld_ok t"
    using ok unfolding domain_ok_def p by simp
  ultimately show "rx_full domainRegex s" unfolding rx_full_iff domain_lang by blast
qed

subsection \<open>Operations of the page\<close>

text \<open>A state after some requests without a body, none of which can carry the name of a domain to create.\<close>

definition only_bare :: "'z world_scheme \<Rightarrow> 'z world_scheme \<Rightarrow> bool" where
  "only_bare w v \<longleftrightarrow> (\<exists>rs. sent v = sent w @ rs \<and> list_all (\<lambda>r. req_body r = None) rs)"

lemma only_bare_refl: "sent v = sent w \<Longrightarrow> only_bare w v"
  by (simp add: only_bare_def)

lemma only_bare_trans: "only_bare u v \<Longrightarrow> only_bare v w \<Longrightarrow> only_bare u w"
  unfolding only_bare_def by (metis append_assoc list_all_append)

lemma refetch_bare:
  fixes w :: "'z domains_state_scheme"
  shows "only_bare w (refetch_domains N orgId w)"
proof -
  have "io_sends (\<lambda>r. req_body r = None) (io_bind (listDomains N orgId) (\<lambda>ds. io_modify (\<lambda>v :: 'z domains_state_scheme. v\<lparr>dp_domains := Inr ds\<rparr>)))"
    unfolding listDomains_def domain_request_def by (intro io_request) (simp_all add: cp_request_def)
  from try_catch_sends [OF this] show ?thesis
    unfolding refetch_domains_def only_bare_def by simp
qed

lemma refetch_created:
  fixes w :: "'z domains_state_scheme"
  shows "wz_created_open (refetch_domains N orgId w) = wz_created_open w"
  unfolding refetch_domains_def listDomains_def domain_request_def
  by (simp, rule impI, rule try_catch_keeps; (intro io_frame)?; simp)

lemma verifyDomain_frame:
  fixes w :: "'z domains_state_scheme"
  assumes "verifyDomain N orgId i w = (r, v)"
  shows "only_bare w v" "wz_created_open v = wz_created_open w"
proof -
  have "io_sends (\<lambda>r. req_body r = None) (verifyDomain N orgId i :: ('z domains_state_ext, json) io)"
    unfolding verifyDomain_def domain_request_def by (intro io_request) (simp_all add: cp_request_def)
  from io_sendsD [OF this assms] show "only_bare w v" by (simp add: only_bare_def)
  have "io_keeps (wz_created_open :: 'z domains_state_scheme \<Rightarrow> _) (verifyDomain N orgId i)"
    unfolding verifyDomain_def domain_request_def by (intro io_frame) simp_all
  from io_keepsD [OF this assms] show "wz_created_open v = wz_created_open w" .
qed

lemma handleVerify_frame:
  fixes w :: "'z domains_state_scheme"
  shows "only_bare w (handleVerify N orgId i w) \<and> wz_created_open (handleVerify N orgId i w) = wz_created_open w"
proof (cases "orgId = []")
  case True
  then show ?thesis by (simp add: handleVerify_def only_bare_refl)
next
  case False
  let ?w = "w\<lparr>verifyingId := Some i, dp_banner := None\<rparr>"
  obtain r v where call: "verifyDomain N orgId i ?w = (r, v)" by (cases "verifyDomain N orgId i ?w")
  note frame = verifyDomain_frame [OF call]
  have bare: "only_bare w v" using frame(1) by (simp add: only_bare_def)
  show ?thesis
  proof (cases r)
    case (Inl e)
    with False call bare frame(2) show ?thesis by (simp add: handleVerify_def try_catch_def io_bind_def only_bare_def)
  next
    case (Inr a)
    have "only_bare w (refetch_domains N orgId v)" using bare refetch_bare by (rule only_bare_trans)
    with False call frame(2) Inr refetch_created [of N orgId v] show ?thesis
      by (simp add: handleVerify_def try_catch_def io_bind_def io_modify_def only_bare_def)
  qed
qed

lemma wizard_effect_frame:
  fixes w :: "'z domains_state_scheme"
  shows "sent (wizard_effect w) = sent w" "wz_created_open (wizard_effect w) = wz_created_open w"
  by (simp_all add: wizard_effect_def split: option.splits)

text \<open>C18: The wizard for a domain never appears. Whatever is done on the page from the moment it is created, the wizard is not
  shown, although its open flag and its fields follow the buttons, and every request the page sends is without a body: no
  domain is ever created.\<close>

theorem wizard_never_shown:
  assumes "(domains_step N orgId)\<^sup>*\<^sup>* (open_page N orgId w0) w"
  shows "\<not> wizard_visible w \<and> (\<exists>rs. sent w = sent w0 @ rs \<and> list_all (\<lambda>r. req_body r = None) rs)"
proof -
  have init: "\<not> wizard_visible (open_page N orgId w0) \<and> only_bare w0 (open_page N orgId w0)"
    using refetch_bare [of "w0\<lparr>dp_banner := None, verifyingId := None, expandedDomainId := None, wizardOpen := False,
        selectedDomain := None, wizardStep := 1, wz_created_open := False\<rparr>" N orgId]
    by (simp add: open_page_def wizard_visible_def refetch_created only_bare_def)
  have "domains_step N orgId u v \<Longrightarrow> \<not> wizard_visible u \<Longrightarrow> \<not> wizard_visible v \<and> only_bare u v" for u v
    by (induction rule: domains_step.induct)
      (simp_all add: wizard_visible_def openNewDomainWizard_def openExistingDomainWizard_def wizard_effect_frame refetch_created refetch_bare
        handleVerify_frame only_bare_refl)
  with assms init have "\<not> wizard_visible w \<and> only_bare w0 w"
    by (induction rule: rtranclp_induct) (blast intro: only_bare_trans)+
  then show ?thesis by (simp add: only_bare_def)
qed

definition sample_domains :: domains_state where
  "sample_domains = \<lparr>sessionStorage = [], localStorage = [], sent = [], dp_banner = None, verifyingId = None, expandedDomainId = None,
     wizardOpen = False, selectedDomain = None, wizardStep = 1, dp_domains = Inr [], wz_created_open = False, wz_step = 1, domainInput = [],
     domainError = None, currentDomain = None, isSubmitting = False, isVerifying = False, verifyStatus = ''idle'', verifyMessage = [], copiedKey = None\<rparr>"

theorem wizard_never_shown_witness:
  "wizardOpen (openNewDomainWizard (open_page silent_net ''org'' sample_domains))
    \<and> \<not> wizard_visible (openNewDomainWizard (open_page silent_net ''org'' sample_domains))"
proof -
  have "(domains_step silent_net ''org'')\<^sup>*\<^sup>* (open_page silent_net ''org'' sample_domains) (openNewDomainWizard (open_page silent_net ''org'' sample_domains))"
    by (rule r_into_rtranclp) (rule openNew)
  from wizard_never_shown [OF this] show ?thesis by (simp add: openNewDomainWizard_def wizard_effect_def)
qed

text \<open>What the first step of the wizard sends, where it is shown: the name in lower case, and only a valid one.\<close>

lemma createDomain_sends:
  fixes w :: "'z domains_state_scheme"
  shows "io_sends (\<lambda>r. req_body r = Some (JsonBody (JObj [(''domain'', JStr s)]))) (createDomain N orgId s :: ('z domains_state_ext, json) io)"
  unfolding createDomain_def domain_request_def by (intro io_request) (simp_all add: cp_request_def)

lemma step1_sends:
  fixes w :: "'z domains_state_scheme"
  shows "\<exists>rs. sent (handleStep1Submit N orgId w) = sent w @ rs
    \<and> (rs = [] \<or> domain_ok (toLowerCase (trim (domainInput w))))
    \<and> list_all (\<lambda>r. req_body r = Some (JsonBody (JObj [(''domain'', JStr (toLowerCase (trim (domainInput w))))]))) rs"
proof (cases "rx_full domainRegex (toLowerCase (trim (domainInput w))) \<and> toLowerCase (trim (domainInput w)) \<noteq> []")
  case False
  then have "sent (handleStep1Submit N orgId w) = sent w" by (auto simp: handleStep1Submit_def Let_def)
  then show ?thesis by simp
next
  case True
  let ?raw = "toLowerCase (trim (domainInput w))"
  let ?P = "\<lambda>r. req_body r = Some (JsonBody (JObj [(''domain'', JStr ?raw)]))"
  have "io_sends ?P (io_bind (createDomain N orgId ?raw)
      (\<lambda>created. io_modify (\<lambda>v :: 'z domains_state_scheme. v\<lparr>currentDomain := Some (raw_domain created), wz_step := 2\<rparr>)))"
    by (intro io_sends_bind createDomain_sends io_sends_modify) simp
  note sent = try_catch_sends [OF this, of "\<lambda>e v. v\<lparr>domainError := Some (create_domain_error e)\<rparr>" "w\<lparr>domainError := None, isSubmitting := True\<rparr>"]
  have "\<exists>rs. sent (handleStep1Submit N orgId w) = sent w @ rs \<and> list_all ?P rs"
    using True sent by (simp add: handleStep1Submit_def Let_def)
  with True show ?thesis unfolding domain_regex_iff by blast
qed

text \<open>C11: The expression the wizard tests a name with accepts exactly the names whose labels, separated by dots, are at least
  two, of which the last has two or more letters and every other one 1 to 63 letters, digits and hyphens, with no hyphen at
  either end. The first step sends nothing but requests for the trimmed name in lower case, and only where it is such a name.\<close>

theorem domain_names_checked:
  fixes w :: "'z domains_state_scheme"
  shows "(rx_full domainRegex s \<longleftrightarrow> domain_ok s)
    \<and> (\<exists>rs. sent (handleStep1Submit N orgId w) = sent w @ rs
        \<and> (rs = [] \<or> domain_ok (toLowerCase (trim (domainInput w))))
        \<and> list_all (\<lambda>r. req_body r = Some (JsonBody (JObj [(''domain'', JStr (toLowerCase (trim (domainInput w))))]))) rs)"
  using domain_regex_iff step1_sends by blast

end
