(* ===== verification/Team_Pages.thy ===== *)
theory Team_Pages
  imports Control_Session App_State
begin

text \<open>
  Pages of the control plane under \<open>apps/control-plane/src/routes/dashboard\<close>: the members of an organization
  (\<open>members.tsx\<close>), its plan (\<open>billing.tsx\<close>), the passkeys of the signed-in administrator (\<open>security.tsx\<close>) and the overview
  (\<open>index.tsx\<close>). A resource holds its value or the error of its loader; reloading a resource does not itself fail.
\<close>

section \<open>Members\<close>

record members_state = world +
  mb_members :: "js_error + json option"
  mb_banner :: "(bool \<times> string) option"
  mb_busy :: "string option"
  inviteModalOpen :: bool
  inviteEmail :: string
  inviteDisplayName :: string
  inviteRole :: string
  invitePassword :: string
  inviteBusy :: bool
  inviteError :: "string option"
  createdUser :: "json option"
  mb_copied :: bool
  mb_searchQuery :: string
  mb_activeTab :: string

definition ROLE_LABELS :: "string \<Rightarrow> string" where
  "ROLE_LABELS role =
     (if role = ''owner'' then ''Owner'' else if role = ''admin'' then ''Admin'' else if role = ''member'' then ''Member'' else ''undefined'')"

definition refetch_members :: "net \<Rightarrow> 'z members_state_scheme \<Rightarrow> 'z members_state_scheme" where
  "refetch_members N w =
     try_catch (\<lambda>e v. v\<lparr>mb_members := Inl e\<rparr>) (io_bind (getMembers N) (\<lambda>ms. io_modify (\<lambda>v. v\<lparr>mb_members := Inr ms\<rparr>))) w"

text \<open>\<open>members() || []\<close>\<close>

definition member_list :: "'z members_state_scheme \<Rightarrow> json list" where
  "member_list w = (case mb_members w of Inr (Some (JArr ms)) \<Rightarrow> ms | _ \<Rightarrow> [])"

definition showBanner :: "bool \<Rightarrow> string \<Rightarrow> 'z members_state_scheme \<Rightarrow> 'z members_state_scheme" where
  "showBanner ok msg w = w\<lparr>mb_banner := Some (ok, msg)\<rparr>"

definition handleRoleChange :: "net \<Rightarrow> json \<Rightarrow> string \<Rightarrow> 'z members_state_scheme \<Rightarrow> 'z members_state_scheme" where
  "handleRoleChange N m newRole w =
     (if nonempty (mb_busy w) then w
      else (try_catch (\<lambda>e. showBanner False (err_message e))
              (io_bind (changeMemberRole N (text_prop ''id'' m) newRole) (\<lambda>_. io_modify (\<lambda>v.
                 showBanner True (text_prop ''email'' m @ '' is now '' @ ROLE_LABELS newRole @ ''.'') (refetch_members N v))))
              (w\<lparr>mb_busy := Some (text_prop ''id'' m)\<rparr>))\<lparr>mb_busy := None\<rparr>)"

text \<open>The reason is what the prompt returned, \<open>None\<close> when it was dismissed.\<close>

definition handleTerminate :: "net \<Rightarrow> string option \<Rightarrow> json \<Rightarrow> 'z members_state_scheme \<Rightarrow> 'z members_state_scheme" where
  "handleTerminate N reason m w =
     (if nonempty (mb_busy w) then w
      else if trim (filled reason) = [] then w
      else (try_catch (\<lambda>e. showBanner False (err_message e))
              (io_bind (terminateUser N (text_prop ''id'' m) (trim (filled reason))) (\<lambda>_. io_modify (\<lambda>v.
                 showBanner True (text_prop ''email'' m @ '' has been terminated.'') (refetch_members N v))))
              (w\<lparr>mb_busy := Some (text_prop ''id'' m)\<rparr>))\<lparr>mb_busy := None\<rparr>)"

definition optional_field :: "string \<Rightarrow> string \<Rightarrow> (string \<times> json) list" where
  "optional_field k s = (if s = [] then [] else [(k, JStr s)])"

definition member_request :: "'z members_state_scheme \<Rightarrow> json" where
  "member_request w =
     JObj ([(''email'', JStr (trim (inviteEmail w)))] @ optional_field ''display_name'' (trim (inviteDisplayName w))
       @ [(''role'', JStr (inviteRole w))] @ optional_field ''password'' (trim (invitePassword w)))"

definition handleInviteSubmit :: "net \<Rightarrow> 'z members_state_scheme \<Rightarrow> 'z members_state_scheme" where
  "handleInviteSubmit N w =
     (let email = trim (inviteEmail w)
      in if email = [] \<or> CHR ''@'' \<notin> set email then w\<lparr>inviteError := Some ''Please enter a valid email address.''\<rparr>
         else (try_catch (\<lambda>e v. v\<lparr>inviteError := Some (err_message e)\<rparr>)
                 (io_bind (inviteMember N (member_request w)) (\<lambda>resp.
                  io_bind (io_modify (\<lambda>v. refetch_members N (v\<lparr>inviteModalOpen := False, inviteEmail := [], inviteDisplayName := [],
                             invitePassword := [], createdUser := Some resp\<rparr>))) (\<lambda>_.
                  io_bind (io_lift (need (Some resp))) (\<lambda>user.
                  io_modify (showBanner True (''User '' @ text_prop ''email'' user @ '' successfully created.''))))))
                 (w\<lparr>inviteBusy := True, inviteError := None\<rparr>))\<lparr>inviteBusy := False\<rparr>)"

definition handleCopyCredentials :: "string \<Rightarrow> 'z members_state_scheme \<Rightarrow> string option \<times> 'z members_state_scheme" where
  "handleCopyCredentials origin w =
     (case createdUser w of None \<Rightarrow> (None, w)
      | Some u \<Rightarrow>
          (Some (''BYOS Control Panel Credentials'' @ newline @ ''Email: '' @ text_prop ''email'' u @ newline @ ''Role: '' @ text_prop ''role'' u
             @ newline @ ''Temporary Password: '' @ text_prop ''temp_password'' u @ newline @ ''Sign-in URL: '' @ origin @ ''/login''),
           w\<lparr>mb_copied := True\<rparr>))"

definition has_mailbox :: "json \<Rightarrow> bool" where
  "has_mailbox m = truthy (jprop ''has_mailbox'' m)"

definition on_tab :: "string \<Rightarrow> json \<Rightarrow> bool" where
  "on_tab tab m =
     (if tab = ''team'' then \<not> (text_prop ''role'' m = ''member'' \<and> has_mailbox m)
      else if tab = ''mailboxes'' then has_mailbox m else True)"

definition member_matches :: "string \<Rightarrow> json \<Rightarrow> bool" where
  "member_matches q m \<longleftrightarrow>
     q = [] \<or> str_includes (toLowerCase (text_prop ''email'' m)) q
     \<or> (text_prop ''display_name'' m \<noteq> [] \<and> str_includes (toLowerCase (text_prop ''display_name'' m)) q)
     \<or> str_includes (toLowerCase (text_prop ''role'' m)) q"

definition filteredMembers :: "'z members_state_scheme \<Rightarrow> json list" where
  "filteredMembers w =
     (let q = trim (toLowerCase (mb_searchQuery w)) in filter (\<lambda>m. on_tab (mb_activeTab w) m \<and> member_matches q m) (member_list w))"

definition teamCount :: "'z members_state_scheme \<Rightarrow> nat" where
  "teamCount w = length (filter (\<lambda>m. text_prop ''role'' m \<noteq> ''member'' \<or> \<not> has_mailbox m) (member_list w))"

definition mailboxCount_members :: "'z members_state_scheme \<Rightarrow> nat" where
  "mailboxCount_members w = length (filter has_mailbox (member_list w))"

text \<open>The controls in the row of a member, for the role of the signed-in user: the roles that can be chosen, and whether the
  account can be terminated.\<close>

definition row_controls :: "'z org_state_scheme \<Rightarrow> json \<Rightarrow> string list option" where
  "row_controls og m =
     (if truthy (jprop ''is_active'' m) \<and> text_prop ''role'' m \<noteq> ''owner'' \<and> (isOwner og \<or> isAdmin og)
      then Some ([''admin'', ''member''] @ (if isOwner og then [''owner''] else [])) else None)"

definition onChangeRole :: "net \<Rightarrow> json \<Rightarrow> string \<Rightarrow> 'z members_state_scheme \<Rightarrow> 'z members_state_scheme" where
  "onChangeRole N m val w = (if val \<noteq> [] \<and> val \<noteq> text_prop ''role'' m then handleRoleChange N m val w else w)"

section \<open>Plan\<close>

record billing_state = org_state +
  bl_billing :: "js_error + json option"
  bl_updating :: "string option"
  bl_banner :: "(bool \<times> string) option"

definition refetch_billing :: "net \<Rightarrow> 'z billing_state_scheme \<Rightarrow> 'z billing_state_scheme" where
  "refetch_billing N w =
     (if org_orgId w = [] then w\<lparr>bl_billing := Inr None\<rparr>
      else try_catch (\<lambda>e v. v\<lparr>bl_billing := Inl e\<rparr>)
             (io_bind (getBillingInfo N (org_orgId w)) (\<lambda>b. io_modify (\<lambda>v. v\<lparr>bl_billing := Inr (Some b)\<rparr>))) w)"

definition handleSelectPlan :: "net \<Rightarrow> string \<Rightarrow> 'z billing_state_scheme \<Rightarrow> 'z billing_state_scheme" where
  "handleSelectPlan N planKey w =
     (if org_orgId w = [] \<or> nonempty (bl_updating w) then w
      else (try_catch (\<lambda>e v. v\<lparr>bl_banner := Some (False, err_message e)\<rparr>)
              (io_bind (updatePlan_cp N (org_orgId w) planKey) (\<lambda>_. io_modify (\<lambda>v.
                 (fetchSession N (refetch_billing N v))\<lparr>bl_banner := Some (True, ''Organization plan updated to '' @ toUpperCase planKey)\<rparr>)))
              (w\<lparr>bl_updating := Some planKey, bl_banner := None\<rparr>))\<lparr>bl_updating := None\<rparr>)"

text \<open>The button of a plan.\<close>

definition plan_button :: "net \<Rightarrow> string \<Rightarrow> 'z billing_state_scheme \<Rightarrow> 'z billing_state_scheme" where
  "plan_button N planKey w =
     (let isCurrent = (case bl_billing w of Inr (Some b) \<Rightarrow> str_prop ''plan'' b = Some planKey | _ \<Rightarrow> False)
      in if isCurrent \<or> \<not> isOwner w \<or> nonempty (bl_updating w) then w else handleSelectPlan N planKey w)"

section \<open>Passkeys\<close>

record passkeys_state = world +
  pks_passkeys :: json
  pks_loading :: bool
  pks_addModalOpen :: bool
  pks_deviceName :: string
  pks_enrolling :: bool
  pks_error :: "string option"
  pks_success :: "string option"
  pks_deletingId :: "string option"

text \<open>\<open>navigator.credentials.create\<close> refuses, fails, returns nothing or a credential with its identifier and attestation.\<close>

datatype created_credential = NotAllowed | CreateFailed js_error | NoCredential | Credential "byte list" "byte list"

record create_request =
  cr_challenge :: "byte list"
  cr_rpName :: string
  cr_rpId :: string
  cr_userId :: "byte list"
  cr_userName :: "string option"
  cr_displayName :: "string option"

record create_platform =
  cp_supported :: bool
  cp_hostname :: string
  cp_create :: "create_request \<Rightarrow> created_credential"

definition cp_loadPasskeys :: "net \<Rightarrow> 'z passkeys_state_scheme \<Rightarrow> 'z passkeys_state_scheme" where
  "cp_loadPasskeys N w =
     (try_catch (\<lambda>_ v. v) (io_bind (listPasskeys_cp N) (\<lambda>ks. io_modify (\<lambda>v. v\<lparr>pks_passkeys := ks\<rparr>))) (w\<lparr>pks_loading := True\<rparr>))\<lparr>pks_loading := False\<rparr>"

definition effectiveRpId :: "string \<Rightarrow> json \<Rightarrow> string" where
  "effectiveRpId host opts =
     (if host = ''localhost'' \<or> host = ''127.0.0.1'' then host
      else case jprop ''rp'' opts of Some rp \<Rightarrow> or_else (text_prop ''id'' rp) host | None \<Rightarrow> host)"

definition create_request_of :: "string \<Rightarrow> json \<Rightarrow> js_error + create_request" where
  "create_request_of host opts =
     bind_err (base64URLToBuffer (text_prop ''challenge'' opts)) (\<lambda>challenge.
     bind_err (case jprop ''user'' opts of Some u \<Rightarrow> need (Some u) | None \<Rightarrow> throw_msg ''TypeError'') (\<lambda>user.
     bind_err (base64URLToBuffer (text_prop ''id'' user)) (\<lambda>uid.
     Inr \<lparr>cr_challenge = challenge,
          cr_rpName = (case jprop ''rp'' opts of Some rp \<Rightarrow> or_else (text_prop ''name'' rp) ''BYOS Control Panel'' | None \<Rightarrow> ''BYOS Control Panel''),
          cr_rpId = effectiveRpId host opts, cr_userId = uid, cr_userName = str_prop ''name'' user, cr_displayName = str_prop ''displayName'' user\<rparr>)))"

definition passkey_body :: "json \<Rightarrow> string \<Rightarrow> byte list \<Rightarrow> byte list \<Rightarrow> json" where
  "passkey_body opts deviceName rawId attestation =
     JObj ([(''credential_id'', JStr (bufferToBase64URL rawId)), (''public_key'', JStr (bytesToHex_cp attestation)),
            (''device_name'', JStr (or_else (trim deviceName) ''Touch ID / Windows Hello''))]
           @ (case jprop ''challenge'' opts of Some c \<Rightarrow> [(''challenge_token'', c)] | None \<Rightarrow> []))"

definition CANCELLED :: string where
  "CANCELLED = ''Passkey registration was cancelled or timed out.''"

definition enroll_error :: "js_error \<Rightarrow> string" where
  "enroll_error e =
     (if str_includes (err_message e) ''cancelled'' then CANCELLED else or_else (err_message e) ''Failed to enroll passkey.'')"

text \<open>A refusal by the browser is told apart by the name of its error.\<close>

definition register_credential :: "net \<Rightarrow> json \<Rightarrow> created_credential \<Rightarrow> ('z passkeys_state_ext, string option) io" where
  "register_credential N opts cred =
     (case cred of
        NotAllowed \<Rightarrow> io_return (Some CANCELLED)
      | CreateFailed e \<Rightarrow> io_lift (Inl e)
      | NoCredential \<Rightarrow> io_throw ''Passkey registration was cancelled.''
      | Credential rawId attestation \<Rightarrow>
          io_bind (io_gets pks_deviceName) (\<lambda>deviceName.
          io_bind (registerPasskey_cp N (passkey_body opts deviceName rawId attestation)) (\<lambda>_.
          io_bind (io_modify (\<lambda>v. cp_loadPasskeys N (v\<lparr>pks_addModalOpen := False, pks_deviceName := [],
             pks_success := Some ''Passkey registered successfully! You can now log into Control Panel with 1-touch biometrics.''\<rparr>))) (\<lambda>_.
          io_return None))))"

definition cp_handleEnrollPasskey :: "net \<Rightarrow> create_platform \<Rightarrow> 'z passkeys_state_scheme \<Rightarrow> 'z passkeys_state_scheme" where
  "cp_handleEnrollPasskey N K w =
     (if \<not> cp_supported K then w\<lparr>pks_error := Some ''WebAuthn / Passkeys are not supported by this browser.''\<rparr>
      else (try_catch (\<lambda>e v. v\<lparr>pks_error := Some (enroll_error e)\<rparr>)
              (io_bind (fetchPasskeyRegisterOptions_cp N) (\<lambda>r.
               io_bind (io_lift (need (Some r))) (\<lambda>opts.
               io_bind (io_lift (create_request_of (cp_hostname K) opts)) (\<lambda>req.
               io_bind (register_credential N opts (cp_create K req)) (\<lambda>refused.
               io_modify (\<lambda>v. case refused of Some msg \<Rightarrow> v\<lparr>pks_error := Some msg\<rparr> | None \<Rightarrow> v))))))
              (w\<lparr>pks_enrolling := True, pks_error := None\<rparr>))\<lparr>pks_enrolling := False\<rparr>)"

definition cp_handleDeletePasskey :: "net \<Rightarrow> bool \<Rightarrow> string \<Rightarrow> 'z passkeys_state_scheme \<Rightarrow> 'z passkeys_state_scheme" where
  "cp_handleDeletePasskey N confirmed i w =
     (if \<not> confirmed then w
      else (try_catch (\<lambda>e v. v\<lparr>pks_error := Some (or_else (err_message e) ''Failed to revoke passkey.'')\<rparr>)
              (io_bind (deletePasskey_cp N i) (\<lambda>_. io_modify (\<lambda>v. cp_loadPasskeys N (v\<lparr>pks_success := Some ''Passkey revoked.''\<rparr>))))
              (w\<lparr>pks_deletingId := Some i\<rparr>))\<lparr>pks_deletingId := None\<rparr>)"

section \<open>Properties\<close>

lemma filtered_without_query:
  "filteredMembers (w\<lparr>mb_activeTab := t, mb_searchQuery := []\<rparr>) = filter (on_tab t) (member_list w)"
  by (simp add: filteredMembers_def member_matches_def member_list_def trim_def toLowerCase_def)

text \<open>The numbers on the tabs of the members page are those of a reference count, the members each tab lists without a
  query: the tab of the team lists everyone but plain members with a mailbox, the tab of mailboxes everyone with a
  mailbox. Every member is on one of the two, and on both exactly when an owner or administrator has a mailbox.\<close>

theorem member_tabs_cover:
  fixes w :: "'z members_state_scheme"
  shows "let team = filteredMembers (w\<lparr>mb_activeTab := ''team'', mb_searchQuery := []\<rparr>);
             boxes = filteredMembers (w\<lparr>mb_activeTab := ''mailboxes'', mb_searchQuery := []\<rparr>)
         in teamCount w = length team \<and> mailboxCount_members w = length boxes
            \<and> set (member_list w) = set team \<union> set boxes
            \<and> (m \<in> set team \<inter> set boxes \<longleftrightarrow> m \<in> set (member_list w) \<and> has_mailbox m \<and> text_prop ''role'' m \<noteq> ''member'')"
  unfolding Let_def filtered_without_query
  by (auto simp: teamCount_def mailboxCount_members_def on_tab_def intro!: arg_cong [where f = length] filter_cong)

text \<open>Who can do what: nobody touches an owner's row or that of an account already disabled, only an owner can pass the
  ownership on, and an account is disabled only with a reason.\<close>

theorem member_actions_guarded:
  "(row_controls og m = Some rs \<longrightarrow> text_prop ''role'' m \<noteq> ''owner'' \<and> isAdmin og \<and> (''owner'' \<in> set rs \<longleftrightarrow> isOwner og))
    \<and> (trim (filled reason) = [] \<longrightarrow> handleTerminate N reason m w = w)
    \<and> (nonempty (mb_busy w) \<longrightarrow> handleTerminate N reason m w = w \<and> handleRoleChange N m r w = w)
    \<and> (\<not> isOwner v \<longrightarrow> plan_button N k v = v)"
  by (auto simp: row_controls_def handleTerminate_def handleRoleChange_def plan_button_def Let_def isAdmin_def isOwner_def split: if_splits)

theorem passkey_body_recoverable:
  "base64URLToBuffer (text_prop ''credential_id'' (passkey_body opts name rawId att)) = Inr rawId
    \<and> hexToBytes_cp (text_prop ''public_key'' (passkey_body opts name rawId att)) = Inr att"
  by (simp add: passkey_body_def str_prop_def jprop_def filled_def base64url_roundtrip bytesToHex_cp_eq hexToBytes_cp_bytesToHex)

end
