(* ===== verification/Onboarding.thy ===== *)
theory Onboarding
  imports Pricing Control_Session App_State
begin

text \<open>
  Buying capacity: the price calculator (\<open>components/DynamicPricingCalculator.tsx\<close>), the page that contains it
  (\<open>routes/onboarding/pricing.tsx\<close>) and the checkout it leads to (\<open>routes/onboarding/checkout.tsx\<close>), all under
  \<open>apps/control-plane/src\<close>. The order travels from one page to the other in the query of the address.
\<close>

section \<open>Numbers in texts\<close>

text \<open>\<open>parseInt(s, 10)\<close>; \<open>None\<close> is \<open>NaN\<close>. A number with more digits than a double holds is rounded.\<close>

definition to_double :: "int \<Rightarrow> int" where
  "to_double n = \<lfloor>fl (of_int n)\<rfloor>"

definition parseInt10 :: "string \<Rightarrow> int option" where
  "parseInt10 s =
     (let (neg, t) = parse_sign (dropWhile is_ws s); ds = takeWhile is_digit t; n = int (digits_value ds)
      in if ds = [] then None else Some (to_double (if neg then - n else n)))"

section \<open>The calculator\<close>

text \<open>The limits of the calculator are properties of the component: 1 and 250 where none are given.\<close>

record calculator = nav_state +
  cal_min :: int
  cal_max :: int
  cal_seats :: int
  cal_input :: string
  cal_cycle :: billing_cycle
  pg_seats :: int
  pg_cycle :: billing_cycle
  pg_pricing :: pricing_breakdown

definition normalizeSeats :: "int \<Rightarrow> int \<Rightarrow> rat option \<Rightarrow> int" where
  "normalizeSeats lo hi val = (case val of None \<Rightarrow> lo | Some x \<Rightarrow> min (max lo \<lfloor>x\<rfloor>) hi)"

definition breakdown :: "'z calculator_scheme \<Rightarrow> pricing_breakdown" where
  "breakdown w = calculateGraduatedPricing (Some (of_int (cal_seats w))) (cal_cycle w)"

text \<open>The page around the calculator: it takes over what the calculator reports.\<close>

definition handleSeatsChange :: "int \<Rightarrow> pricing_breakdown \<Rightarrow> 'z calculator_scheme \<Rightarrow> 'z calculator_scheme" where
  "handleSeatsChange n b w = w\<lparr>pg_seats := n, pg_cycle := billingCycle b, pg_pricing := b\<rparr>"

definition onCycleChange :: "billing_cycle \<Rightarrow> pricing_breakdown \<Rightarrow> 'z calculator_scheme \<Rightarrow> 'z calculator_scheme" where
  "onCycleChange c b w = w\<lparr>pg_cycle := c, pg_pricing := b\<rparr>"

text \<open>The two effects: each runs when its own signal has changed.\<close>

definition setSeats :: "int \<Rightarrow> 'z calculator_scheme \<Rightarrow> 'z calculator_scheme" where
  "setSeats n w =
     (if n = cal_seats w then w else (let w1 = w\<lparr>cal_seats := n\<rparr> in handleSeatsChange n (breakdown w1) w1))"

definition setBillingCycle :: "billing_cycle \<Rightarrow> 'z calculator_scheme \<Rightarrow> 'z calculator_scheme" where
  "setBillingCycle c w =
     (if c = cal_cycle w then w else (let w1 = w\<lparr>cal_cycle := c\<rparr> in onCycleChange c (breakdown w1) w1))"

definition handleSliderChange :: "rat option \<Rightarrow> 'z calculator_scheme \<Rightarrow> 'z calculator_scheme" where
  "handleSliderChange val w =
     (let clamped = normalizeSeats (cal_min w) (cal_max w) val in (setSeats clamped w)\<lparr>cal_input := int_text clamped\<rparr>)"

definition handleInputChange :: "string \<Rightarrow> 'z calculator_scheme \<Rightarrow> 'z calculator_scheme" where
  "handleInputChange val w =
     (let w1 = w\<lparr>cal_input := val\<rparr>
      in case parseInt10 val of
           Some n \<Rightarrow> if n \<ge> cal_min w \<and> n \<le> cal_max w then setSeats n w1 else w1
         | None \<Rightarrow> w1)"

definition handleInputBlur :: "'z calculator_scheme \<Rightarrow> 'z calculator_scheme" where
  "handleInputBlur w =
     (let clamped = normalizeSeats (cal_min w) (cal_max w) (map_option of_int (parseInt10 (cal_input w)))
      in (setSeats clamped w)\<lparr>cal_input := int_text clamped\<rparr>)"

section \<open>The page of prices\<close>

definition getSingleParam :: "string option \<Rightarrow> string \<Rightarrow> string" where
  "getSingleParam val fallback = or_else (filled val) fallback"

definition cycle_text :: "billing_cycle \<Rightarrow> string" where
  "cycle_text c = (case c of Monthly \<Rightarrow> ''monthly'' | Annual \<Rightarrow> ''annual'')"

definition cycle_of :: "string \<Rightarrow> billing_cycle" where
  "cycle_of s = (if s = ''monthly'' then Monthly else Annual)"

definition cycle_query :: "string \<Rightarrow> string option" where
  "cycle_query search = (if nonempty (url_get search ''billing_cycle'') then url_get search ''billing_cycle'' else url_get search ''cycle'')"

definition initialSeatsParam :: "string \<Rightarrow> int" where
  "initialSeatsParam search =
     (case parseInt10 (getSingleParam (url_get search ''seats'') []) of Some n \<Rightarrow> if n > 0 then n else 10 | None \<Rightarrow> 10)"

definition initialCycleParam :: "string \<Rightarrow> billing_cycle" where
  "initialCycleParam search = cycle_of (toLowerCase (getSingleParam (cycle_query search) []))"

definition open_pricing :: "string \<Rightarrow> 'z calculator_scheme \<Rightarrow> 'z calculator_scheme" where
  "open_pricing search w =
     (let n = initialSeatsParam search; c = initialCycleParam search
      in w\<lparr>cal_min := 1, cal_max := 250, cal_seats := n, cal_input := int_text n, cal_cycle := c, pg_seats := n, pg_cycle := c,
           pg_pricing := calculateGraduatedPricing (Some (of_int n)) c\<rparr>)"

definition checkout_url :: "string \<Rightarrow> int \<Rightarrow> billing_cycle \<Rightarrow> string" where
  "checkout_url targetOrg seats cycle =
     ''/onboarding/checkout?'' @ form_string ((if targetOrg = [] then [] else [(''org_id'', targetOrg)])
        @ [(''seats'', int_text seats), (''billing_cycle'', cycle_text cycle)])"

definition handleContinue :: "string \<Rightarrow> 'z calculator_scheme \<Rightarrow> 'z calculator_scheme" where
  "handleContinue search w =
     w\<lparr>navigated := Some (checkout_url (getSingleParam (url_get search ''org_id'') []) (pg_seats w) (pg_cycle w))\<rparr>"

definition startWithOne :: "string \<Rightarrow> 'z calculator_scheme \<Rightarrow> 'z calculator_scheme" where
  "startWithOne search w = handleContinue search (w\<lparr>pg_seats := 1\<rparr>)"

section \<open>Checkout\<close>

record checkout_state = nav_state +
  co_isProcessing :: bool
  co_processingStep :: string
  co_error :: "string option"
  co_isSuccess :: bool

definition co_orgId :: "string \<Rightarrow> string" where
  "co_orgId search = getSingleParam (url_get search ''org_id'') []"

definition seatsParam :: "string \<Rightarrow> int" where
  "seatsParam search =
     (case parseInt10 (getSingleParam (url_get search ''seats'') ''10'') of None \<Rightarrow> 10 | Some n \<Rightarrow> if n < 1 then 10 else n)"

definition cycleParam :: "string \<Rightarrow> billing_cycle" where
  "cycleParam search = cycle_of (toLowerCase (getSingleParam (cycle_query search) ''annual''))"

text \<open>The delays between the steps are dropped. The error of the update is caught where it occurs, so the outer handler is
  never entered.\<close>

definition handlePaymentSubmit :: "net \<Rightarrow> string \<Rightarrow> 'z checkout_state_scheme \<Rightarrow> 'z checkout_state_scheme" where
  "handlePaymentSubmit N search w =
     (let w1 = w\<lparr>co_error := None, co_isProcessing := True,
                 co_processingStep := ''Provisioning organization mailbox capacity & resource limits in PostgreSQL'' @ ellipsis\<rparr>;
          targetOrg = co_orgId search;
          w2 = (if targetOrg = [] then w1
                else try_catch (\<lambda>_ v. v) (updateCapacity_cp N targetOrg (seatsParam search) (cycle_text (cycleParam search))) w1)
      in w2\<lparr>co_isSuccess := True, co_processingStep := ''Provisioning Complete! Redirecting to Control Panel'' @ ellipsis,
            navigated := Some ''/dashboard''\<rparr>)"

section \<open>Queries\<close>

abbreviation form_safe :: "char \<Rightarrow> bool" where
  "form_safe c \<equiv> is_digit c \<or> is_upper_ascii c \<or> is_lower_ascii c \<or> c \<in> set ''*-._''"

lemma percent_byte_chars: "c \<in> set (percent_byte b) \<Longrightarrow> is_digit c \<or> is_upper_ascii c \<or> c = CHR ''%''"
  by (auto simp: percent_byte_def dest: hex_upper_chars)

lemma form_encode_chars: "c \<in> set (form_encode s) \<Longrightarrow> form_safe c \<or> c = CHR ''+'' \<or> c = CHR ''%''"
  by (auto simp: form_encode_def dest!: percent_byte_chars split: if_splits)

lemma form_encode_safe: "CHR ''&'' \<notin> set (form_encode s)" "CHR ''='' \<notin> set (form_encode s)"
  by (auto dest!: form_encode_chars simp: is_digit_def is_upper_ascii_def is_lower_ascii_def)

definition plus_space :: "string \<Rightarrow> string" where
  "plus_space = map (\<lambda>c. if c = CHR ''+'' then CHR '' '' else c)"

lemma plus_space_bytes: "plus_space (concat (map percent_byte bs)) = concat (map percent_byte bs)"
  unfolding plus_space_def
  by (rule map_idI) (auto dest!: percent_byte_chars simp: is_digit_def is_upper_ascii_def)

lemma percent_decode_bytes: "percent_decode (concat (map percent_byte bs) @ cs) = bs @ percent_decode cs"
  by (induction bs) (simp_all add: percent_decode_byte)

lemma percent_decode_form: "percent_decode (plus_space (form_encode s)) = utf8_encode s"
proof (induction s)
  case (Cons c s)
  let ?rest = "plus_space (form_encode s)"
  consider (safe) "form_safe c" | (space) "c = CHR '' ''" | (other) "\<not> form_safe c" "c \<noteq> CHR '' ''" by blast
  then have "percent_decode (plus_space (form_encode (c # s))) = utf8_char c @ percent_decode ?rest"
  proof cases
    case safe
    then have "plus_space (form_encode (c # s)) = c # ?rest" "c \<noteq> CHR ''%''"
      by (auto simp: form_encode_def plus_space_def is_digit_def is_upper_ascii_def is_lower_ascii_def)
    then show ?thesis by (simp add: percent_decode_other del: percent_decode.simps(2))
  next
    case space
    then have "plus_space (form_encode (c # s)) = c # ?rest"
      by (simp add: form_encode_def plus_space_def is_digit_def is_upper_ascii_def is_lower_ascii_def)
    with space show ?thesis by (simp add: percent_decode_other del: percent_decode.simps(2))
  next
    case other
    then have "plus_space (form_encode (c # s)) = concat (map percent_byte (utf8_char c)) @ ?rest"
      using plus_space_bytes [of "utf8_char c"] by (simp add: form_encode_def plus_space_def)
    then show ?thesis by (simp only: percent_decode_bytes)
  qed
  with Cons show ?case by (simp add: utf8_encode_def)
qed (simp add: form_encode_def plus_space_def utf8_encode_def)

lemma form_roundtrip: "form_decode (form_encode s) = s"
  using percent_decode_form [of s] by (simp add: form_decode_def plus_space_def utf8_points_encode point_units_def comp_def)

lemma split_char_join:
  "ps \<noteq> [] \<Longrightarrow> \<forall>p \<in> set ps. d \<notin> set p \<Longrightarrow> split_char d (join [d] ps) = ps"
proof (induction ps)
  case (Cons p ps)
  then show ?case by (cases ps) (simp_all add: split_char_absent split_char_append)
qed simp

lemma takeWhile_dropWhile_sep: "d \<notin> set k \<Longrightarrow> takeWhile (\<lambda>c. c \<noteq> d) (k @ d # v) = k \<and> dropWhile (\<lambda>c. c \<noteq> d) (k @ d # v) = d # v"
  by (induction k) auto

text \<open>A query comes back as it was written, whatever its names and values.\<close>

lemma query_roundtrip:
  assumes "ps \<noteq> []"
  shows "url_params (CHR ''?'' # form_string ps) = ps"
proof -
  let ?piece = "\<lambda>(k, v). form_encode k @ ''='' @ form_encode v"
  have "split_char (CHR ''&'') (form_string ps) = map ?piece ps"
    unfolding form_string_def using assms form_encode_safe(1) by (intro split_char_join) auto
  moreover have "filter (\<lambda>p. p \<noteq> []) (map ?piece ps) = map ?piece ps" by (rule filter_True) auto
  ultimately have "url_params (CHR ''?'' # form_string ps) =
      map (\<lambda>p. (form_decode (takeWhile (\<lambda>c. c \<noteq> CHR ''='') p), form_decode (tl (dropWhile (\<lambda>c. c \<noteq> CHR ''='') p)))) (map ?piece ps)"
    by (simp add: url_params_def startsWith_def)
  also have "\<dots> = ps"
    unfolding map_map by (rule map_idI) (auto simp: takeWhile_dropWhile_sep form_encode_safe(2) form_roundtrip)
  finally show ?thesis .
qed

section \<open>The price shown\<close>

inductive cal_step :: "'z calculator_scheme \<Rightarrow> 'z calculator_scheme \<Rightarrow> bool" where
  slider: "cal_step w (handleSliderChange val w)"
| typed: "cal_step w (handleInputChange s w)"
| blurred: "cal_step w (handleInputBlur w)"
| cycled: "cal_step w (setBillingCycle c w)"

text \<open>The page agrees with the calculator, and the price shown is that of the order.\<close>

definition page_inv :: "int \<Rightarrow> 'z calculator_scheme \<Rightarrow> bool" where
  "page_inv n0 w \<longleftrightarrow> pg_seats w = cal_seats w \<and> pg_cycle w = cal_cycle w \<and> pg_pricing w = breakdown w \<and> cal_min w = 1 \<and> cal_max w = 250
     \<and> (1 \<le> cal_seats w \<and> cal_seats w \<le> 250 \<or> cal_seats w = n0)"

lemma billingCycle_of: "billingCycle (calculateGraduatedPricing s c) = c"
  by (cases c) (simp_all add: calculateGraduatedPricing_def Let_def case_prod_beta)

lemma setSeats_inv: "page_inv n0 w \<Longrightarrow> 1 \<le> n \<Longrightarrow> n \<le> 250 \<Longrightarrow> page_inv n0 (setSeats n w)"
  by (simp add: page_inv_def setSeats_def Let_def handleSeatsChange_def breakdown_def billingCycle_of)

lemma setSeats_limits: "cal_min (setSeats n w) = cal_min w" "cal_max (setSeats n w) = cal_max w"
  by (simp_all add: setSeats_def Let_def handleSeatsChange_def)

lemma page_inv_input: "page_inv n0 (w\<lparr>cal_input := s\<rparr>) = page_inv n0 w"
  by (simp add: page_inv_def breakdown_def)

lemma normalizeSeats_range: "1 \<le> normalizeSeats 1 250 v \<and> normalizeSeats 1 250 v \<le> 250"
  by (simp add: normalizeSeats_def split: option.split)

lemma cal_step_inv: "cal_step w v \<Longrightarrow> page_inv n0 w \<Longrightarrow> page_inv n0 v"
proof (induction rule: cal_step.induct)
  case (slider w val)
  then have "cal_min w = 1" "cal_max w = 250" by (simp_all add: page_inv_def)
  with slider show ?case
    using normalizeSeats_range by (simp add: handleSliderChange_def Let_def page_inv_input setSeats_inv)
next
  case (typed w s)
  then have "cal_min w = 1" "cal_max w = 250" by (simp_all add: page_inv_def)
  with typed show ?case
    by (auto simp: handleInputChange_def Let_def page_inv_input intro!: setSeats_inv split: option.split)
next
  case (blurred w)
  then have "cal_min w = 1" "cal_max w = 250" by (simp_all add: page_inv_def)
  with blurred show ?case
    using normalizeSeats_range by (simp add: handleInputBlur_def Let_def page_inv_input setSeats_inv)
next
  case (cycled w c)
  then show ?case by (simp add: setBillingCycle_def Let_def onCycleChange_def page_inv_def breakdown_def)
qed

lemma open_pricing_inv: "page_inv (initialSeatsParam search) (open_pricing search w)"
  by (simp add: open_pricing_def Let_def page_inv_def breakdown_def)

lemma reachable_inv: "cal_step\<^sup>*\<^sup>* (open_pricing search w0) w \<Longrightarrow> page_inv (initialSeatsParam search) w"
  by (induction rule: rtranclp_induct) (auto intro: open_pricing_inv cal_step_inv)

lemma initialSeats_pos: "1 \<le> initialSeatsParam search"
  by (simp add: initialSeatsParam_def split: option.split)

section \<open>The order\<close>

lemma to_double_exact: "\<bar>n\<bar> < 2 ^ 53 \<Longrightarrow> to_double n = n"
  using fl_exact [of "of_int n" n 0] by (simp add: to_double_def pow2_def)

lemma parse_sign_digits: "list_all is_digit ds \<Longrightarrow> ds \<noteq> [] \<Longrightarrow> parse_sign (dropWhile is_ws ds) = (False, ds)"
  by (cases ds) (auto simp: parse_sign_def is_ws_def is_digit_def)

lemma num_string_not_Nil: "num_string n \<noteq> []"
  by (subst toStringRadix.simps) simp

lemma parseInt10_text:
  assumes "0 \<le> n" "n < 2 ^ 53"
  shows "parseInt10 (int_text n) = Some n"
proof -
  have digits: "list_all is_digit (num_string (nat n))" by (rule num_string_all_digits)
  have shown: "int_text n = num_string (nat n)" using assms(1) by (simp add: int_text_def)
  have take: "takeWhile is_digit (num_string (nat n)) = num_string (nat n)"
    using digits by (simp add: takeWhile_eq_all_conv list_all_iff)
  have "to_double (int (nat n)) = n" using assms by (simp add: to_double_exact)
  then show ?thesis
    unfolding parseInt10_def shown parse_sign_digits [OF digits num_string_not_Nil] Let_def prod.case take digits_value_num_string
    by (simp add: num_string_not_Nil)
qed

text \<open>The query of an address.\<close>

definition search_of :: "string \<Rightarrow> string" where
  "search_of url = dropWhile (\<lambda>c. c \<noteq> CHR ''?'') url"

lemma checkout_query:
  "url_params (search_of (checkout_url org n c)) =
     (if org = [] then [] else [(''org_id'', org)]) @ [(''seats'', int_text n), (''billing_cycle'', cycle_text c)]"
proof -
  have "search_of (checkout_url org n c) = CHR ''?'' # form_string ((if org = [] then [] else [(''org_id'', org)])
      @ [(''seats'', int_text n), (''billing_cycle'', cycle_text c)])"
    by (simp add: search_of_def checkout_url_def)
  then show ?thesis using query_roundtrip by simp
qed

lemma int_text_not_Nil: "int_text n \<noteq> []"
  by (simp add: int_text_def num_string_not_Nil)

lemma checkout_reads:
  assumes "1 \<le> n" "n < 2 ^ 53"
  shows "co_orgId (search_of (checkout_url org n c)) = org" "seatsParam (search_of (checkout_url org n c)) = n"
    "cycleParam (search_of (checkout_url org n c)) = c"
proof -
  show "co_orgId (search_of (checkout_url org n c)) = org"
    by (simp add: co_orgId_def getSingleParam_def checkout_query filled_def or_else_def)
  show "seatsParam (search_of (checkout_url org n c)) = n"
    using assms by (simp add: seatsParam_def getSingleParam_def checkout_query filled_def or_else_def int_text_not_Nil parseInt10_text)
  have "cycle_of (toLowerCase (cycle_text c)) = c \<and> cycle_text c \<noteq> []"
    by (cases c) (simp_all add: cycle_text_def cycle_of_def toLowerCase_def lower_char_def is_upper_ascii_def)
  then show "cycleParam (search_of (checkout_url org n c)) = c"
    by (simp add: cycleParam_def cycle_query_def getSingleParam_def checkout_query filled_def or_else_def nonempty_def)
qed

lemma payment_sends:
  fixes v :: "'z checkout_state_scheme"
  shows "\<exists>rs. sent (handlePaymentSubmit N q v) = sent v @ rs
    \<and> list_all (\<lambda>r. req_body r = Some (JsonBody (JObj [(''seat_count'', JNum (seatsParam q)), (''billing_cycle'', JStr (cycle_text (cycleParam q)))]))) rs"
proof (cases "co_orgId q = []")
  case True
  then show ?thesis by (simp add: handlePaymentSubmit_def Let_def)
next
  case False
  let ?P = "\<lambda>r. req_body r = Some (JsonBody (JObj [(''seat_count'', JNum (seatsParam q)), (''billing_cycle'', JStr (cycle_text (cycleParam q)))]))"
  have "io_sends ?P (updateCapacity_cp N (co_orgId q) (seatsParam q) (cycle_text (cycleParam q)) :: ('z checkout_state_ext nav_state_ext, json) io)"
    unfolding updateCapacity_cp_def by (intro io_request) (simp_all add: cp_request_def)
  note sent = try_catch_sends [OF this, of "\<lambda>_ v. v"]
  show ?thesis using False sent [of "v\<lparr>co_error := None, co_isProcessing := True,
      co_processingStep := ''Provisioning organization mailbox capacity & resource limits in PostgreSQL'' @ ellipsis\<rparr>"]
    by (simp add: handlePaymentSubmit_def Let_def del: append.simps)
qed


definition sample_calculator :: calculator where
  "sample_calculator = \<lparr>sessionStorage = [], localStorage = [], sent = [], navigated = None, cal_min = 1, cal_max = 250, cal_seats = 10,
     cal_input = ''10'', cal_cycle = Annual, pg_seats = 10, pg_cycle = Annual, pg_pricing = calculateGraduatedPricing (Some 10) Annual\<rparr>"

definition sample_checkout :: checkout_state where
  "sample_checkout = \<lparr>sessionStorage = [], localStorage = [], sent = [], navigated = None, co_isProcessing = False, co_processingStep = [],
     co_error = None, co_isSuccess = False\<rparr>"


end
