(* ===== verification/Spec2Isabelle.thy ===== *)
theory Spec2Isabelle
  imports Client_Crypto Pricing Utilities App_Compose Import_Emails Security_Tab Add_Mailbox Register_Page Recovery_Page
    Mailboxes_Page Storage_Page Reading_Pane Settings_Tabs List_Components Support_Crm Domains_Page Team_Pages Onboarding
begin

text \<open>
  A verification of the clients of BYOS email, an end-to-end encrypted mail service: the webmail
  (\<open>src/apps/webmail\<close>), the organization's control plane (\<open>src/apps/control-plane\<close>) and the support application
  (\<open>src/apps/support-crm\<close>), all in TypeScript. The clients hold the mailbox keys; the server stores envelopes. What the
  clients do with keys, plaintext, tokens and requests is therefore what makes the service correct, and is what this
  development models.

  \<^bold>\<open>The language and the platform.\<close>

  \<^item> \<open>Prelude\<close>: strings and numbers of the language as the sources use them, errors as values, shared lemmas. Strings are
    lists of 8-bit characters: code units above 255 are outside the model.
  \<^item> \<open>Encoding\<close> (\<open>encoding.ts\<close>, \<open>attachment_crypto.ts\<close>, parts of \<open>message_crypto.ts\<close>): hexadecimal, base64, base64url and
    UTF-8 with \<open>atob\<close>, \<open>btoa\<close> and \<open>parseInt\<close>; the locale \<open>codec\<close> is interpreted for each pair of functions.
  \<^item> \<open>Json\<close>: \<open>JSON.parse\<close> and \<open>JSON.stringify\<close> with the round trip between them; \<open>Double\<close>: IEEE doubles and their rounding;
    \<open>Text_Format\<close>: \<open>toFixed\<close>; \<open>Regex\<close>: regular expressions with groups and greedy or lazy repetition, matched by
    backtracking as the language does, and proved equal to their languages.
  \<^item> \<open>Http\<close>: requests, responses and the state \<open>world\<close> (both storages and the requests sent). An operation that may fail is
    a function from the state to an error or a value, and a state. The server is a function of the requests so far,
    a parameter of every theorem. \<open>Web_Storage\<close>: the browser's storages and \<open>signature.ts\<close>.

  \<^bold>\<open>Shared code of the clients.\<close>

  \<^item> \<open>Message_Crypto\<close> (\<open>message_crypto.ts\<close>, \<open>attachment_crypto.ts\<close>): unwrapping mailbox keys, opening messages, sealing drafts,
    contacts and attachments, search keywords. The WebAssembly core is the record \<open>wasm_core\<close>, a parameter; the
    laws of its primitives (\<open>aead_correct\<close>, \<open>passphrase_correct\<close> and others) are hypotheses, and \<open>toy_core\<close> shows that
    they can hold together.
  \<^item> \<open>Totp\<close> (\<open>utils/totp.ts\<close>), \<open>Client_Crypto\<close> (\<open>client_crypto.ts\<close>), \<open>Pricing\<close> (the two copies of \<open>pricing_math.ts\<close>), \<open>Utilities\<close>
    (storage validators, file types, dates, QR markup).
  \<^item> \<open>Webmail_Api\<close> (\<open>api.ts\<close>) and \<open>Control_Api\<close> (\<open>lib/api\<close> of the control plane and of the support application): every
    function of the API clients.

  \<^bold>\<open>The webmail.\<close>

  \<^item> \<open>App_State\<close>, \<open>App_Mail\<close>, \<open>App_View\<close>, \<open>App_Load\<close>, \<open>App_Reader\<close>, \<open>App_Session\<close>, \<open>App_Login\<close>, \<open>App_Compose\<close>: the page, \<open>App.tsx\<close>. The
    state is a chain of records, \<open>world\<close>, \<open>core_state\<close>, \<open>mail_state\<close>, \<open>app_state\<close>, with one field for each signal, under the
    signal's name; every handler of the page is a definition under its name.
  \<^item> \<open>Reading_Pane\<close> (\<open>ReadingPane.tsx\<close>, \<open>AttachmentBadge.tsx\<close>) and \<open>List_Components\<close> (pictures, rows, sidebar, toolbar, dialogs, menus):
    the logic of the components, apart from their markup. \<open>Import_Emails\<close> (\<open>ImportEmailsModal.tsx\<close>), \<open>Add_Mailbox\<close>
    (\<open>AddMailboxModal.tsx\<close>), \<open>Setup_Account\<close> (\<open>setup-account.tsx\<close>).
  \<^item> \<open>Security_Tab\<close>, \<open>Filters_Tab\<close>, \<open>Settings_Tabs\<close>: the tabs of the settings (automatic reply, bridge, signatures, appearance).

  \<^bold>\<open>The control plane and the support application.\<close>

  \<^item> \<open>Control_Session\<close> (context of the organization, guard, sign-in), \<open>Register_Page\<close>, \<open>Onboarding\<close> (calculator, prices, checkout),
    \<open>Mailboxes_Page\<close>, \<open>Domains_Page\<close>, \<open>Storage_Page\<close>, \<open>Recovery_Page\<close>, \<open>Team_Pages\<close> (members, plan, passkeys): one record for the
    signals of a page, one definition for a handler.
  \<^item> \<open>Support_Crm\<close> (\<open>App.tsx\<close> of the support application): the optimistic tables, the exported file, telemetry and look-up.

  \<^bold>\<open>How pages are modelled.\<close> A handler is a function on the state. Handlers run one after the other, and a response
  arrives before the handler goes on, with two exceptions whose code is about interleaving: \<open>openMessage\<close>, which guards against
  the interleaving of two runs by a sequence number, and the optimistic updates of the support application. They are modelled
  by their continuations: a list of pending tasks is part of the state, any of which may be resumed at any time, between any
  other actions (\<open>App_Reader.reads\<close>, \<open>Support_Crm.settle\<close>). Promises nobody waits for are requests whose outcome is dropped.
  Timers are a list of pending actions where something depends on them; a timer that only removes a notice is left out.
  Confirmation dialogs, the clock, the locale's comparison and date functions, random bytes, the authenticator of passkeys,
  canvas, DOMPurify and HMAC are parameters. The dynamic import of the core succeeds. Objects read from the server or from
  a storage are read through their declared types. The body of a component runs once, when the component is created.

  \<^bold>\<open>What the theorems show.\<close> Envelopes and encodings: round trips, domain separation, key lengths, agreement of
  the duplicate implementations. Message list: an invariant of every sequence of actions and timers (\<open>mail_step\<close>), undo,
  refinement of an abstract mailbox by the batch operations, labels, order, pages and counts, the range of the toolbar, drag
  and drop. Loading: only reads. Reader: under every interleaving only the message opened last is shown, the tasks terminate,
  and locking hides the text except for one race; what the filter for trackers removes, and when it is bypassed. Sessions: the
  copies of the account list, restoring keys after a refresh, signing out. Sign-in: the second factor, password recovery.
  Composing: drafts leave the browser sealed only, conflicts keep the form. Activation, registration and recovery: which keys can
  be recovered and which are lost or disclosed. Settings: what survives editing a filter, an automatic reply or the
  appearance. API clients: authorization of every request, error handling, key wrapping for organizations. Control plane:
  the guard, names of domains, the wizard, secrets of the storage form, the order from the price to the checkout. Prices:
  exact cents. Support: settled tables and an export that reads back.
  \<open>draft_save_reopen\<close> below composes the form, the envelope, the list and the reader.

  The locales \<open>codec\<close> (\<open>Encoding\<close>), \<open>key_value\<close> (\<open>Web_Storage\<close>), \<open>keyed_table\<close> (\<open>App_Mail\<close>), \<open>mail_frame\<close> (\<open>App_Reader\<close>) and
  \<open>optimistic_table\<close> (\<open>Support_Crm\<close>) are the interfaces between components, interpreted on the definitions of the model.

  \<^bold>\<open>Bounds and fuel.\<close> The JSON parser takes the length of its input as fuel, which the round trip shows to be enough. All
  other recursions are structural or have a termination proof. The prices are proved for up to ten million
  seats, the order for less than \<open>2 ^ 53\<close>. Counters are natural numbers or integers; words are used for bytes, for the
  one-time codes and for the hash of a sender.

  \<^bold>\<open>Not modelled.\<close> The markup of the pages and the components that only render; the editor of rich text, which is a
  shell around the browser's editing commands; the Rust core, the Go and Rust services and tools (parameters of the model or
  other languages); generated bindings; the public site, whose price list is a copy of the control plane's.
\<close>

section \<open>Properties that span components\<close>

text \<open>C1: saving, sealing and reading fit together. A draft saved from the form of an unlocked mailbox appears first in the
  list, as a draft; opening it and letting the decryption finish shows exactly the text that was saved, and editing it
  puts that text back into the form.\<close>

theorem draft_save_reopen:
  assumes "aead_correct W" "selectedMailbox w = Some box" "unlocked_key (mb_id box) w = Some key" "length key = 32"
    and "is_ok (mailboxIdHex (mb_id box))" "editingDraft w = None" "tasks w = []"
    and "\<And>env. \<exists>created. created \<noteq> JNull \<and> fst (createDraft N (mb_id box)
           (draft_payload (trim (composeTo w)) (trim (composeSubject w)) env None) w) = Inr (Some created)"
  shows "let w1 = handleSaveDraft N W P now rnd w;
             m = hd (messages w1);
             w2 = run_task N W hm 0 (openMessage N m w1)
         in dm_folder m = ''drafts'' \<and> decryptedContent w2 = Some (composeBody w) \<and> editablePlaintext w2 = Some (composeBody w)
            \<and> composeBody (startEditDraft m (composeBody w) w2) = composeBody w"
proof -
  obtain env where env: "encryptDraftEnvelope W rnd key (mb_id box) (composeBody w) = Inr env"
    "decryptDraftEnvelope W key (mb_id box) env = Inr (composeBody w)"
    using draft_envelope_roundtrip [OF assms(1,4,5)] by blast
  obtain created where created: "created \<noteq> JNull" "fst (createDraft N (mb_id box)
      (draft_payload (trim (composeTo w)) (trim (composeSubject w)) env None) w) = Inr (Some created)"
    using assms(8) by blast
  let ?w0 = "w\<lparr>composeStatus := Some (''Saving draft to mailbox storage'' @ ellipsis)\<rparr>"
  let ?c = "createDraft N (mb_id box) (draft_payload (trim (composeTo w)) (trim (composeSubject w)) env None) ?w0"
  let ?m = "draft_display created (trim (composeTo w)) (trim (composeSubject w)) (composeBody w) env (snd ?c)"
  let ?w1 = "(snd ?c)\<lparr>messages := ?m # messages (snd ?c), composeOpen := False, composeStatus := None\<rparr>"
  have "fst ?c = Inr (Some created)" "need (Some created) = Inr created"
    using created by (simp add: createDraft_def apiRequest_eq del: append.simps, cases created) (simp_all add: need_def)
  then have w1: "handleSaveDraft N W P now rnd w = ?w1"
    using assms(2,3,6) env(1) by (simp add: handleSaveDraft_def Let_def create_draft_def case_prod_beta del: append.simps)
  have frame: "selectedMailbox ?w1 = Some box" "unlocked_key (mb_id box) ?w1 = Some key" "tasks ?w1 = []" "messages ?w1 = ?m # messages (snd ?c)"
    using assms(2,3,7) by (simp_all add: createDraft_def apiRequest_eq unlocked_key_def split: if_splits del: append.simps)
  have m: "dm_read ?m" "dm_folder ?m = ''drafts''" "dm_encryptedBody ?m = env"
    by (simp_all add: draft_display_def)
  note opened = open_draft [OF frame(1-3) m(1,2), of W "composeBody w" N hm, unfolded m(3), OF env(2)]
  show ?thesis
    unfolding w1 Let_def frame(4) list.sel(1) using opened m(2) by (simp add: startEditDraft_def del: append.simps)
qed

definition created_json :: json where
  "created_json = JObj [(''id'', JStr ''d''), (''version'', JNum 1)]"

definition accepting_net :: net where
  "accepting_net = \<lparr>api_base = [], page_origin = [], byos_user_id = [],
     server = (\<lambda>_ _. Resp 200 (Some ''application/json'') (Some (utf8_encode (stringify created_json))))\<rparr>"

theorem draft_save_reopen_witness:
  "decryptedContent (run_task accepting_net toy_core (\<lambda>_ _ _. Inr []) 0 (openMessage accepting_net
     (hd (messages (handleSaveDraft accepting_net toy_core toy_dates 0 [] (sample_app\<lparr>composeBody := ''hello''\<rparr>))))
     (handleSaveDraft accepting_net toy_core toy_dates 0 [] (sample_app\<lparr>composeBody := ''hello''\<rparr>)))) = Some ''hello''"
proof -
  let ?w = "sample_app\<lparr>composeBody := ''hello''\<rparr>"
  have "is_ok (mailboxIdHex (mb_id sample_box))" by code_simp
  moreover have "api_response (Resp 200 (Some ''application/json'') (Some (utf8_encode (stringify created_json)))) = Inr (Some created_json)"
    by code_simp
  then have "fst (createDraft accepting_net (mb_id sample_box) p ?w) = Inr (Some created_json)" for p
    by (simp add: createDraft_def apiRequest_eq accepting_net_def del: append.simps)
  moreover have "created_json \<noteq> JNull" by (simp add: created_json_def)
  moreover have "selectedMailbox ?w = Some sample_box" "unlocked_key (mb_id sample_box) ?w = Some (replicate 32 5)"
    by (simp_all add: sample_app_def unlocked_key_def)
  moreover have "editingDraft ?w = None" "tasks ?w = []" by code_simp+
  ultimately show ?thesis
    using draft_save_reopen [OF toy_core_laws(1), of ?w sample_box "replicate 32 5" accepting_net toy_dates 0 "[]" "\<lambda>_ _ _. Inr []"]
    by (auto simp: Let_def)
qed

end
